(* ===== verification/Prelude.thy ===== *)
theory Prelude
  imports Complex_Main "HOL-Library.Sublist"
begin

text \<open>
  Shared vocabulary of the development.

  Go values: a Go \<open>string\<close> and a Go \<open>[]byte\<close> are both lists of 8-bit characters, \<open>int64\<close>, \<open>int\<close>
  (64 bits on the service's platform) and \<open>time.Duration\<close> are HOL integers whose range is written out
  (\<open>int64_range\<close>, \<open>wrap64\<close>) wherever the code's arithmetic can leave it, and \<open>time.Time\<close> is the
  number of nanoseconds after Go's zero time, so that \<open>IsZero\<close> is equality with 0.

  Errors: an \<open>error\<close> result is a \<open>goerr option\<close> (\<open>None\<close> is \<open>nil\<close>) and a \<open>(T, error)\<close> result is a
  \<open>'t result\<close> (\<open>Inl\<close> is the error). An error value keeps the sentinel it wraps (what \<open>errors.Is\<close>
  can see) and its fixed message text; formatted arguments of messages are dropped.

  Control flow: \<open>first_err\<close> is a Go \<open>switch\<close> without a tag whose branches return errors, \<open>dup_free\<close>
  is the loop that remembers the keys it has seen in a Go map.
\<close>

section \<open>Errors\<close>

datatype sentinel =
    ErrNotFound | ErrInvalidArgument | ErrConflict | ErrForbidden | ErrUnauthorized
  | ErrAlreadyExists | ErrRateLimited | ErrQueueFull | ErrCapacityExceeded | ErrPayloadTooLarge
  | ErrPreconditionFailed | ErrInternal | ErrUnavailable | ErrTimeout | ErrCanceled
  | ErrNotImplemented | ContextCanceled | ContextDeadlineExceeded | NoSentinel

datatype goerr = GoErr (err_sentinel: sentinel) (err_text: string)

type_synonym 'a result = "goerr + 'a"

named_theorems go_simps \<open>unfolding of the helpers that stand for Go control flow\<close>

text \<open>A tagless \<open>switch\<close> with error branches: the first true condition wins.\<close>

primrec first_err :: "(bool \<times> goerr) list \<Rightarrow> goerr option" where
  "first_err [] = None"
| "first_err (c # cs) = (if fst c then Some (snd c) else first_err cs)"

lemma first_err_None_iff: "first_err cs = None \<longleftrightarrow> (\<forall>c \<in> set cs. \<not> fst c)"
  by (induction cs) auto

lemma first_err_Some_in: "first_err cs = Some e \<Longrightarrow> (True, e) \<in> set cs"
  by (induction cs) (auto split: if_splits)

text \<open>Sequencing of checks: the first check that fails decides.\<close>

definition or_else :: "goerr option \<Rightarrow> goerr option \<Rightarrow> goerr option" where
  "or_else a b = (case a of None \<Rightarrow> b | Some e \<Rightarrow> Some e)"

lemma or_else_simps [simp, go_simps]:
  "or_else None b = b" "or_else (Some e) b = Some e"
  by (simp_all add: or_else_def)

lemma or_else_None_iff [simp]: "or_else a b = None \<longleftrightarrow> a = None \<and> b = None"
  by (cases a) simp_all

definition rbind :: "'a result \<Rightarrow> ('a \<Rightarrow> 'b result) \<Rightarrow> 'b result" where
  "rbind r f = (case r of Inl e \<Rightarrow> Inl e | Inr x \<Rightarrow> f x)"

lemma rbind_simps [simp, go_simps]: "rbind (Inl e) f = Inl e" "rbind (Inr x) f = f x"
  by (simp_all add: rbind_def)

lemma rbind_eq_Inr_iff: "rbind r f = Inr y \<longleftrightarrow> (\<exists>x. r = Inr x \<and> f x = Inr y)"
  by (cases r) auto

definition guard :: "goerr option \<Rightarrow> 'a result \<Rightarrow> 'a result" where
  "guard e r = (case e of None \<Rightarrow> r | Some x \<Rightarrow> Inl x)"

lemma guard_simps [simp, go_simps]: "guard None r = r" "guard (Some x) r = Inl x"
  by (simp_all add: guard_def)

lemma guard_eq_Inr_iff [simp]: "guard e r = Inr y \<longleftrightarrow> e = None \<and> r = Inr y"
  by (cases e) simp_all

section \<open>Loops over slices\<close>

text \<open>\<open>for i, x := range xs\<close> with a body that may return an error.\<close>

primrec each_err :: "(nat \<Rightarrow> 'a \<Rightarrow> goerr option) \<Rightarrow> nat \<Rightarrow> 'a list \<Rightarrow> goerr option" where
  "each_err f i [] = None"
| "each_err f i (x # xs) = or_else (f i x) (each_err f (Suc i) xs)"

lemma each_err_None_iff:
  "each_err f i xs = None \<longleftrightarrow> (\<forall>k < length xs. f (i + k) (xs ! k) = None)"
proof (induction xs arbitrary: i)
  case Nil
  then show ?case by simp
next
  case (Cons x xs)
  have "(\<forall>k < length (x # xs). f (i + k) ((x # xs) ! k) = None) \<longleftrightarrow>
        f i x = None \<and> (\<forall>k < length xs. f (Suc i + k) (xs ! k) = None)"
    by (auto simp: All_less_Suc2)
  with Cons.IH [of "Suc i"] show ?case by simp
qed

lemma each_err_const_None_iff:
  "each_err (\<lambda>_. f) i xs = None \<longleftrightarrow> (\<forall>x \<in> set xs. f x = None)"
  by (induction xs arbitrary: i) auto

text \<open>The loop that keeps a \<open>map[K]struct{}\<close> of the keys seen so far: it passes every element
  whose key is new and stops at the first repeated key.\<close>

primrec dup_free :: "'k list \<Rightarrow> ('a \<Rightarrow> 'k) \<Rightarrow> 'a list \<Rightarrow> bool" where
  "dup_free seen key [] = True"
| "dup_free seen key (x # xs) = (key x \<notin> set seen \<and> dup_free (key x # seen) key xs)"

lemma dup_free_iff:
  "dup_free seen key xs \<longleftrightarrow> distinct (map key xs) \<and> set (map key xs) \<inter> set seen = {}"
  by (induction xs arbitrary: seen) auto

corollary dup_free_distinct: "dup_free [] key xs \<longleftrightarrow> distinct (map key xs)"
  by (simp add: dup_free_iff)

text \<open>Strictly increasing: the loop comparing every element with the one before it.\<close>

fun strictly_increasing :: "int list \<Rightarrow> bool" where
  "strictly_increasing (x # y # zs) = (x < y \<and> strictly_increasing (y # zs))"
| "strictly_increasing _ = True"

lemma strictly_increasing_sorted_wrt: "strictly_increasing xs \<longleftrightarrow> sorted_wrt (<) xs"
proof (induction xs rule: strictly_increasing.induct)
  case (1 x y zs)
  then show ?case by (auto intro: order.strict_trans)
qed simp_all

lemma strictly_increasing_distinct: "strictly_increasing xs \<Longrightarrow> distinct xs"
  by (simp add: strictly_increasing_sorted_wrt strict_sorted_iff)

section \<open>Machine integers\<close>

definition max_int64 :: int where
  "max_int64 = 9223372036854775807"

definition int64_range :: "int \<Rightarrow> bool" where
  "int64_range x \<longleftrightarrow> - max_int64 - 1 \<le> x \<and> x \<le> max_int64"

text \<open>Two's complement wrap-around of a 64-bit signed result.\<close>

definition wrap64 :: "int \<Rightarrow> int" where
  "wrap64 x = (x + 2 ^ 63) mod 2 ^ 64 - 2 ^ 63"

lemma wrap64_range: "int64_range (wrap64 x)"
  by (simp add: wrap64_def int64_range_def max_int64_def)

lemma wrap64_id: "int64_range x \<Longrightarrow> wrap64 x = x"
  by (simp add: wrap64_def int64_range_def max_int64_def)

text \<open>Go's integer division truncates towards zero.\<close>

definition go_div :: "int \<Rightarrow> int \<Rightarrow> int" where
  "go_div a b = sgn a * sgn b * (\<bar>a\<bar> div \<bar>b\<bar>)"

lemma go_div_pos: "0 \<le> a \<Longrightarrow> 0 < b \<Longrightarrow> go_div a b = a div b"
  by (cases "a = 0") (simp_all add: go_div_def)

section \<open>Strings\<close>

text \<open>The UTF-8 encodings of the code points for which \<open>unicode.IsSpace\<close> holds.\<close>

definition space_encodings :: "string list" where
  "space_encodings =
    [[CHR 0x09], [CHR 0x0A], [CHR 0x0B], [CHR 0x0C], [CHR 0x0D], [CHR 0x20],
     [CHR 0xC2, CHR 0x85], [CHR 0xC2, CHR 0xA0], [CHR 0xE1, CHR 0x9A, CHR 0x80],
     [CHR 0xE2, CHR 0x80, CHR 0x80], [CHR 0xE2, CHR 0x80, CHR 0x81], [CHR 0xE2, CHR 0x80, CHR 0x82],
     [CHR 0xE2, CHR 0x80, CHR 0x83], [CHR 0xE2, CHR 0x80, CHR 0x84], [CHR 0xE2, CHR 0x80, CHR 0x85],
     [CHR 0xE2, CHR 0x80, CHR 0x86], [CHR 0xE2, CHR 0x80, CHR 0x87], [CHR 0xE2, CHR 0x80, CHR 0x88],
     [CHR 0xE2, CHR 0x80, CHR 0x89], [CHR 0xE2, CHR 0x80, CHR 0x8A], [CHR 0xE2, CHR 0x80, CHR 0xA8],
     [CHR 0xE2, CHR 0x80, CHR 0xA9], [CHR 0xE2, CHR 0x80, CHR 0xAF], [CHR 0xE2, CHR 0x81, CHR 0x9F],
     [CHR 0xE3, CHR 0x80, CHR 0x80]]"

text \<open>Strip, again and again, any of the given non-empty prefixes.\<close>

function strip_prefixes :: "string list \<Rightarrow> string \<Rightarrow> string" where
  "strip_prefixes ps s =
     (case find (\<lambda>p. p \<noteq> [] \<and> prefix p s) ps of
        None \<Rightarrow> s
      | Some p \<Rightarrow> strip_prefixes ps (drop (length p) s))"
  by pat_completeness auto
termination
  by (relation "measure (\<lambda>(ps, s). length s)")
    (auto simp: find_Some_iff prefix_def)

declare strip_prefixes.simps [simp del]

text \<open>\<open>strings.TrimSpace\<close>: white space is removed from the left, then from the right. On the right
  the encodings are matched backwards, which is what \<open>utf8.DecodeLastRuneInString\<close> amounts to.\<close>

definition trim_left :: "string \<Rightarrow> string" where
  "trim_left s = strip_prefixes space_encodings s"

definition trim_right :: "string \<Rightarrow> string" where
  "trim_right s = rev (strip_prefixes (map rev space_encodings) (rev s))"

definition trim_space :: "string \<Rightarrow> string" where
  "trim_space s = trim_right (trim_left s)"

abbreviation trimmed :: "string \<Rightarrow> bool" where
  "trimmed s \<equiv> trim_space s = s"

lemma strip_prefixes_suffix: "suffix (strip_prefixes ps s) s"
proof (induction ps s rule: strip_prefixes.induct)
  case (1 ps s)
  show ?case
  proof (cases "find (\<lambda>p. p \<noteq> [] \<and> prefix p s) ps")
    case None
    then show ?thesis by (simp add: strip_prefixes.simps [of ps s])
  next
    case (Some p)
    with "1.IH" have "suffix (strip_prefixes ps (drop (length p) s)) (drop (length p) s)" by blast
    then have "suffix (strip_prefixes ps (drop (length p) s)) s"
      by (meson suffix_drop suffix_order.order_trans)
    with Some show ?thesis by (simp add: strip_prefixes.simps [of ps s])
  qed
qed

lemma strip_prefixes_done: "p \<in> set ps \<Longrightarrow> p \<noteq> [] \<Longrightarrow> \<not> prefix p (strip_prefixes ps s)"
proof (induction ps s rule: strip_prefixes.induct)
  case (1 ps s)
  show ?case
  proof (cases "find (\<lambda>p. p \<noteq> [] \<and> prefix p s) ps")
    case None
    with "1.prems" show ?thesis
      by (simp add: strip_prefixes.simps [of ps s]) (auto simp: find_None_iff)
  next
    case (Some q)
    with "1" show ?thesis by (simp add: strip_prefixes.simps [of ps s])
  qed
qed

lemma strip_prefixes_id:
  assumes "\<And>p. p \<in> set ps \<Longrightarrow> p \<noteq> [] \<Longrightarrow> \<not> prefix p s"
  shows "strip_prefixes ps s = s"
proof -
  have "find (\<lambda>p. p \<noteq> [] \<and> prefix p s) ps = None"
    using assms by (auto simp: find_None_iff)
  then show ?thesis by (simp add: strip_prefixes.simps [of ps s])
qed

lemma trim_right_prefix: "prefix (trim_right s) s"
  using strip_prefixes_suffix [of "map rev space_encodings" "rev s"]
  by (simp add: trim_right_def suffix_to_prefix)

lemma trim_left_id_after_trim: "trim_left (trim_space s) = trim_space s"
  unfolding trim_left_def
proof (rule strip_prefixes_id)
  fix p assume p: "p \<in> set space_encodings" "p \<noteq> []"
  show "\<not> prefix p (trim_space s)"
  proof
    assume "prefix p (trim_space s)"
    then have "prefix p (trim_left s)"
      unfolding trim_space_def using trim_right_prefix prefix_order.order_trans by blast
    with strip_prefixes_done [OF p] show False by (simp add: trim_left_def)
  qed
qed

lemma trim_right_idem: "trim_right (trim_right s) = trim_right s"
proof -
  have "strip_prefixes ps (strip_prefixes ps t) = strip_prefixes ps t" for ps t
    by (rule strip_prefixes_id) (rule strip_prefixes_done)
  then show ?thesis by (simp add: trim_right_def)
qed

lemma trim_space_idem [simp]: "trim_space (trim_space s) = trim_space s"
  by (metis trim_left_id_after_trim trim_right_idem trim_space_def)

lemma trim_space_empty [simp]: "trim_space [] = []"
  by (simp add: trim_space_def trim_left_def trim_right_def strip_prefixes_id)

text \<open>Printable ASCII holds no white space.\<close>

definition printable :: "char \<Rightarrow> bool" where
  "printable c \<longleftrightarrow> (33::int) \<le> of_char c \<and> of_char c \<le> (126::int)"

lemma space_encodings_not_printable:
  "p \<in> set space_encodings \<Longrightarrow> p \<noteq> [] \<and> \<not> printable (hd p) \<and> \<not> printable (last p)"
proof -
  have "list_all (\<lambda>p. p \<noteq> [] \<and> \<not> printable (hd p) \<and> \<not> printable (last p)) space_encodings"
    by code_simp
  then show "p \<in> set space_encodings \<Longrightarrow> p \<noteq> [] \<and> \<not> printable (hd p) \<and> \<not> printable (last p)"
    by (simp add: list_all_iff)
qed

lemma trim_space_printable: "list_all printable s \<Longrightarrow> trim_space s = s"
proof -
  assume s: "list_all printable s"
  have head: "\<not> prefix p t" if "p \<noteq> []" "\<not> printable (hd p)" "list_all printable t" for p t
    using that by (cases p; cases t) auto
  have "trim_left s = s"
    unfolding trim_left_def using s space_encodings_not_printable head by (intro strip_prefixes_id) blast
  moreover have "strip_prefixes (map rev space_encodings) (rev s) = rev s"
  proof (rule strip_prefixes_id)
    fix p assume "p \<in> set (map rev space_encodings)" "p \<noteq> []"
    then have "\<not> printable (hd p)"
      using space_encodings_not_printable by (auto simp: hd_rev)
    with \<open>p \<noteq> []\<close> s head [of p "rev s"] show "\<not> prefix p (rev s)"
      by (simp add: list_all_iff)
  qed
  ultimately show ?thesis by (simp add: trim_space_def trim_right_def)
qed

text \<open>\<open>strings.HasPrefix\<close> and \<open>strings.HasSuffix\<close> are \<open>prefix\<close> and \<open>suffix\<close>; a string of ASCII
  digits read as a decimal number.\<close>

definition digit_value :: "char \<Rightarrow> int" where
  "digit_value c = of_char c - 48"

definition is_digit :: "char \<Rightarrow> bool" where
  "is_digit c \<longleftrightarrow> (48::int) \<le> of_char c \<and> of_char c \<le> (57::int)"

definition decimal_value :: "string \<Rightarrow> int" where
  "decimal_value s = foldl (\<lambda>n c. 10 * n + digit_value c) 0 s"

text \<open>\<open>strconv.FormatInt(n, 10)\<close>, on integers so that it evaluates on numerals.\<close>

function format_pos :: "int \<Rightarrow> string" where
  "format_pos n = (if n < 10 then [char_of (48 + n)] else format_pos (n div 10) @ [char_of (48 + n mod 10)])"
  by pat_completeness auto
termination
  by (relation "measure nat") auto

declare format_pos.simps [simp del]

definition format_int :: "int \<Rightarrow> string" where
  "format_int n = (if n < 0 then CHR ''-'' # format_pos (- n) else format_pos n)"

lemma is_digit_char_of: "0 \<le> k \<Longrightarrow> k \<le> 9 \<Longrightarrow> is_digit (char_of (48 + k :: int))"
proof -
  assume k: "0 \<le> k" "k \<le> 9"
  have "(of_char (char_of (48 + k) :: char) :: int) = 48 + k" using k by simp
  with k show ?thesis by (simp add: is_digit_def)
qed

lemma format_pos_digits: "0 \<le> n \<Longrightarrow> format_pos n \<noteq> [] \<and> list_all is_digit (format_pos n)"
proof (induction n rule: format_pos.induct)
  case (1 n)
  show ?case
  proof (cases "n < 10")
    case True
    with 1 show ?thesis by (simp add: format_pos.simps [of n] is_digit_char_of)
  next
    case False
    with 1 have "list_all is_digit (format_pos (n div 10))" by simp
    with False show ?thesis by (simp add: format_pos.simps [of n] is_digit_char_of)
  qed
qed

lemma decimal_value_snoc: "decimal_value (s @ [c]) = 10 * decimal_value s + digit_value c"
  by (simp add: decimal_value_def)

lemma digit_value_char_of: "0 \<le> k \<Longrightarrow> k \<le> 9 \<Longrightarrow> digit_value (char_of (48 + k :: int)) = k"
proof -
  assume k: "0 \<le> k" "k \<le> 9"
  have "(of_char (char_of (48 + k) :: char) :: int) = 48 + k" using k by simp
  with k show ?thesis by (simp add: digit_value_def)
qed

lemma decimal_value_format_pos: "0 \<le> n \<Longrightarrow> decimal_value (format_pos n) = n"
proof (induction n rule: format_pos.induct)
  case (1 n)
  show ?case
  proof (cases "n < 10")
    case True
    with 1 show ?thesis
      by (simp add: format_pos.simps [of n] decimal_value_def digit_value_char_of)
  next
    case False
    with 1 have "decimal_value (format_pos (n div 10)) = n div 10" by simp
    with False show ?thesis
      by (simp add: format_pos.simps [of n] decimal_value_snoc digit_value_char_of)
  qed
qed

lemma format_pos_inj: "0 \<le> m \<Longrightarrow> 0 \<le> n \<Longrightarrow> format_pos m = format_pos n \<Longrightarrow> m = n"
  by (metis decimal_value_format_pos)

lemma hd_format_pos_digit: "0 \<le> n \<Longrightarrow> is_digit (hd (format_pos n))"
  using format_pos_digits [of n] by (cases "format_pos n") auto

lemma minus_not_digit: "\<not> is_digit (CHR ''-'')"
  by (simp add: is_digit_def)

lemma format_int_inj: "format_int m = format_int n \<Longrightarrow> m = n"
proof -
  assume eq: "format_int m = format_int n"
  have head: "k < 0 \<longleftrightarrow> hd (format_int k) = CHR ''-''" for k
    using hd_format_pos_digit [of k] minus_not_digit by (auto simp: format_int_def)
  from eq head have "m < 0 \<longleftrightarrow> n < 0" by metis
  with eq show "m = n"
    using format_pos_inj [of "- m" "- n"] format_pos_inj [of m n]
    by (auto simp: format_int_def split: if_splits)
qed

text \<open>\<open>strings.Split(s, sep)\<close> for a one-byte separator, and \<open>strings.EqualFold\<close> on ASCII letters.\<close>

fun split_on :: "char \<Rightarrow> string \<Rightarrow> string list" where
  "split_on sep [] = [[]]"
| "split_on sep (c # cs) =
     (if c = sep then [] # split_on sep cs
      else (case split_on sep cs of [] \<Rightarrow> [[c]] | w # ws \<Rightarrow> (c # w) # ws))"

definition lower_ascii :: "char \<Rightarrow> char" where
  "lower_ascii c = (if (65::int) \<le> of_char c \<and> of_char c \<le> (90::int) then char_of (of_char c + 32 :: int) else c)"

definition equal_fold :: "string \<Rightarrow> string \<Rightarrow> bool" where
  "equal_fold s t \<longleftrightarrow> map lower_ascii s = map lower_ascii t"

text \<open>\<open>utf8.RuneCountInString\<close>: \<open>rune_size\<close> is the width of the first rune by the UTF-8 acceptance
  ranges of the standard library; a byte that starts no valid encoding counts as one rune.\<close>

definition byte_in :: "int \<Rightarrow> int \<Rightarrow> string \<Rightarrow> nat \<Rightarrow> bool" where
  "byte_in lo hi s i \<longleftrightarrow> i < length s \<and> lo \<le> of_char (s ! i) \<and> of_char (s ! i) \<le> hi"

definition rune_size :: "string \<Rightarrow> nat" where
  "rune_size s =
     (if byte_in 0xC2 0xDF s 0 \<and> byte_in 0x80 0xBF s 1 then 2
      else if (byte_in 0xE0 0xE0 s 0 \<and> byte_in 0xA0 0xBF s 1 \<or>
               byte_in 0xE1 0xEC s 0 \<and> byte_in 0x80 0xBF s 1 \<or>
               byte_in 0xED 0xED s 0 \<and> byte_in 0x80 0x9F s 1 \<or>
               byte_in 0xEE 0xEF s 0 \<and> byte_in 0x80 0xBF s 1) \<and> byte_in 0x80 0xBF s 2 then 3
      else if (byte_in 0xF0 0xF0 s 0 \<and> byte_in 0x90 0xBF s 1 \<or>
               byte_in 0xF1 0xF3 s 0 \<and> byte_in 0x80 0xBF s 1 \<or>
               byte_in 0xF4 0xF4 s 0 \<and> byte_in 0x80 0x8F s 1) \<and>
              byte_in 0x80 0xBF s 2 \<and> byte_in 0x80 0xBF s 3 then 4
      else 1)"

lemma rune_size_pos [simp]: "0 < rune_size s"
  by (simp add: rune_size_def)

function rune_count :: "string \<Rightarrow> nat" where
  "rune_count s = (if s = [] then 0 else Suc (rune_count (drop (rune_size s) s)))"
  by pat_completeness auto
termination
  by (relation "measure length") auto

declare rune_count.simps [simp del]

lemma rune_count_empty [simp]: "rune_count [] = 0"
  by (simp add: rune_count.simps)

lemma rune_count_le_length: "rune_count s \<le> length s"
proof (induction s rule: rune_count.induct)
  case (1 s)
  show ?case
  proof (cases "s = []")
    case False
    with 1 have "rune_count (drop (rune_size s) s) \<le> length s - rune_size s" by simp
    also have "length s - rune_size s < length s" using False by simp
    finally show ?thesis using False by (simp add: rune_count.simps [of s])
  qed simp
qed

end
