(* ===== verification/Sha256.thy ===== *)
theory Sha256
  imports Prelude "HOL-Library.Word"
begin

text \<open>
  SHA-256 as Go's \<open>crypto/sha256\<close> computes it (FIPS 180-4): padding, message schedule, compression
  and the big-endian digest, over 32-bit words. The service derives every identity it stores (group
  keys, action keys, plan digests, command digests) from this function, so the model computes it
  rather than assuming a hash. What the development needs of it is that the digest has 32 bytes;
  where an argument rests on two messages not colliding, that is a stated hypothesis about these
  two messages (\<open>no_collision\<close>).
\<close>

unbundle bit_operations_syntax

type_synonym word32 = "32 word"

definition rotr32 :: "nat \<Rightarrow> word32 \<Rightarrow> word32" where
  "rotr32 n w = drop_bit n w OR push_bit (32 - n) w"

definition sha_k :: "word32 list" where
  "sha_k =
    [1116352408, 1899447441, 3049323471, 3921009573, 961987163, 1508970993, 2453635748, 2870763221,
     3624381080, 310598401, 607225278, 1426881987, 1925078388, 2162078206, 2614888103, 3248222580,
     3835390401, 4022224774, 264347078, 604807628, 770255983, 1249150122, 1555081692, 1996064986,
     2554220882, 2821834349, 2952996808, 3210313671, 3336571891, 3584528711, 113926993, 338241895,
     666307205, 773529912, 1294757372, 1396182291, 1695183700, 1986661051, 2177026350, 2456956037,
     2730485921, 2820302411, 3259730800, 3345764771, 3516065817, 3600352804, 4094571909, 275423344,
     430227734, 506948616, 659060556, 883997877, 958139571, 1322822218, 1537002063, 1747873779,
     1955562222, 2024104815, 2227730452, 2361852424, 2428436474, 2756734187, 3204031479, 3329325298]"

text \<open>The chaining state: the eight working variables.\<close>

datatype sha_state = ShaState word32 word32 word32 word32 word32 word32 word32 word32

definition sha_init :: sha_state where
  "sha_init = ShaState 1779033703 3144134277 1013904242 2773480762
                       1359893119 2600822924 528734635 1541459225"

definition sha_s0 :: "word32 \<Rightarrow> word32" where
  "sha_s0 x = rotr32 7 x XOR rotr32 18 x XOR drop_bit 3 x"

definition sha_s1 :: "word32 \<Rightarrow> word32" where
  "sha_s1 x = rotr32 17 x XOR rotr32 19 x XOR drop_bit 10 x"

text \<open>The message schedule: the window holds the last 16 schedule words, oldest first.\<close>

primrec sha_schedule :: "nat \<Rightarrow> word32 list \<Rightarrow> word32 list" where
  "sha_schedule 0 win = win"
| "sha_schedule (Suc n) win =
     hd win # sha_schedule n
       (tl win @ [sha_s1 (win ! 14) + win ! 9 + sha_s0 (win ! 1) + win ! 0])"

fun sha_round :: "sha_state \<Rightarrow> word32 \<times> word32 \<Rightarrow> sha_state" where
  "sha_round (ShaState a b c d e f g h) (k, w) =
     (let t1 = h + (rotr32 6 e XOR rotr32 11 e XOR rotr32 25 e) + ((e AND f) XOR (NOT e AND g)) + k + w;
          t2 = (rotr32 2 a XOR rotr32 13 a XOR rotr32 22 a) + ((a AND b) XOR (a AND c) XOR (b AND c))
      in ShaState (t1 + t2) a b c (d + t1) e f g)"

fun sha_add :: "sha_state \<Rightarrow> sha_state \<Rightarrow> sha_state" where
  "sha_add (ShaState a b c d e f g h) (ShaState a' b' c' d' e' f' g' h') =
     ShaState (a + a') (b + b') (c + c') (d + d') (e + e') (f + f') (g + g') (h + h')"

definition be32 :: "string \<Rightarrow> word32" where
  "be32 bs = foldl (\<lambda>w c. push_bit 8 w OR of_char c) 0 bs"

fun chunks4 :: "string \<Rightarrow> word32 list" where
  "chunks4 (a # b # c # d # r) = be32 [a, b, c, d] # chunks4 r"
| "chunks4 _ = []"

definition sha_block :: "sha_state \<Rightarrow> string \<Rightarrow> sha_state" where
  "sha_block st block =
     sha_add st (foldl sha_round st (zip sha_k (sha_schedule 48 (chunks4 block))))"

text \<open>Big-endian bytes, most significant first, of an integer taken modulo \<open>256 ^ k\<close>: for an
  \<open>int64\<close> value, \<open>be_bytes 8\<close> is \<open>binary.BigEndian.PutUint64\<close> of its conversion to \<open>uint64\<close>.\<close>

primrec be_bytes :: "nat \<Rightarrow> int \<Rightarrow> string" where
  "be_bytes 0 n = []"
| "be_bytes (Suc k) n = be_bytes k (n div 256) @ [char_of (n mod 256)]"

definition sha_pad :: "string \<Rightarrow> string" where
  "sha_pad m =
     m @ [CHR 0x80] @ replicate ((119 - length m mod 64) mod 64) (CHR 0x00)
       @ be_bytes 8 (8 * int (length m))"

function sha_blocks :: "sha_state \<Rightarrow> string \<Rightarrow> sha_state" where
  "sha_blocks st m = (if m = [] then st else sha_blocks (sha_block st (take 64 m)) (drop 64 m))"
  by pat_completeness auto
termination
  by (relation "measure (\<lambda>(st, m). length m)") auto

declare sha_blocks.simps [simp del]

fun sha_output :: "sha_state \<Rightarrow> string" where
  "sha_output (ShaState a b c d e f g h) = concat (map (\<lambda>w. be_bytes 4 (uint w)) [a, b, c, d, e, f, g, h])"

definition sha256 :: "string \<Rightarrow> string" where
  "sha256 m = sha_output (sha_blocks sha_init (sha_pad m))"

text \<open>The hypothesis under which equal digests mean equal messages, for two given messages.\<close>

definition no_collision :: "string \<Rightarrow> string \<Rightarrow> bool" where
  "no_collision m n \<longleftrightarrow> (sha256 m = sha256 n \<longrightarrow> m = n)"

section \<open>Fixed widths\<close>

lemma length_be_bytes [simp]: "length (be_bytes k n) = k"
  by (induction k arbitrary: n) simp_all

lemma length_sha_output [simp]: "length (sha_output st) = 32"
  by (cases st) simp

lemma length_sha256 [simp]: "length (sha256 m) = 32"
  by (simp add: sha256_def)

lemma length_sha_pad: "64 dvd length (sha_pad m)"
proof -
  define r where "r = length m mod 64"
  have r: "r < 64" by (simp add: r_def)
  have "(r + 9 + (119 - r) mod 64) mod 64 = 0"
  proof (cases "r \<le> 55")
    case True
    then have "119 - r = 64 + (55 - r)" by simp
    then have "(119 - r) mod 64 = 55 - r" by (simp only: mod_add_self1) simp
    with True show ?thesis by simp
  next
    case False
    with r have "(119 - r) mod 64 = 119 - r" by simp
    with False r show ?thesis by simp
  qed
  then have "(length m + 9 + (119 - r) mod 64) mod 64 = 0"
    unfolding r_def by (metis mod_add_left_eq)
  then show ?thesis by (simp add: sha_pad_def r_def mod_eq_0_iff_dvd add_ac)
qed

lemma be_bytes_mod:
  "be_bytes k m = be_bytes k n \<Longrightarrow> m mod 256 ^ k = n mod 256 ^ k"
proof (induction k arbitrary: m n)
  case 0
  then show ?case by simp
next
  case (Suc k)
  from Suc.prems have tail: "be_bytes k (m div 256) = be_bytes k (n div 256)"
    and last: "char_of (m mod 256) = (char_of (n mod 256) :: char)" by simp_all
  have "of_char (char_of (m mod 256) :: char) = (of_char (char_of (n mod 256) :: char) :: int)"
    using last by simp
  then have "m mod 256 = n mod 256" by simp
  moreover from tail have "m div 256 mod 256 ^ k = n div 256 mod 256 ^ k" by (rule Suc.IH)
  ultimately show ?case by (simp add: zmod_zmult2_eq)
qed

lemma be_bytes_inj_int64:
  assumes "int64_range m" "int64_range n" "be_bytes 8 m = be_bytes 8 n"
  shows "m = n"
proof -
  have "m mod 256 ^ 8 = n mod 256 ^ 8" using assms(3) by (rule be_bytes_mod)
  then have "(m + 2 ^ 63) mod 2 ^ 64 = (n + 2 ^ 63) mod 2 ^ 64"
    by (simp add: mod_add_cong)
  then have "wrap64 m = wrap64 n" by (simp add: wrap64_def)
  with assms(1,2) show ?thesis by (simp add: wrap64_id)
qed

lemma be_bytes_inj_length:
  assumes "int m < 2 ^ 64" "int n < 2 ^ 64" "be_bytes 8 (int m) = be_bytes 8 (int n)"
  shows "m = n"
  using be_bytes_mod [OF assms(3)] assms(1,2) by simp

end
