(* ===== verification/Canonical.thy ===== *)
theory Canonical
  imports Sha256
begin

text \<open>
  The canonical hash builder (\<open>internal/core/canonicalhash\<close>) and the digests written without it
  (\<open>cardpipeline/preparation_digest.go\<close>), with the law every stored identity rests on: the byte
  stream a builder hashes determines the fields that were written into it.

  A builder is the list of bytes it has fed to the hash. The locale \<open>framed\<close> is the contract of a
  self-delimiting field encoding; it is interpreted on the builder's three field encodings, and its
  lemmas turn equality of streams into equality of field lists.
\<close>

section \<open>The builder\<close>

type_synonym builder = string
type_synonym digest = string

definition zero_digest :: digest where
  "zero_digest = replicate 32 (CHR 0x00)"

definition enc_bytes :: "string \<Rightarrow> string" where
  "enc_bytes value = be_bytes 8 (int (length value)) @ value"

definition builder_Bytes :: "string \<Rightarrow> builder \<Rightarrow> builder" where
  "builder_Bytes value b = b @ enc_bytes value"

definition builder_String :: "string \<Rightarrow> builder \<Rightarrow> builder" where
  "builder_String value b = builder_Bytes value b"

definition enc_int64 :: "int \<Rightarrow> string" where
  "enc_int64 value = be_bytes 8 value"

definition builder_Int64 :: "int \<Rightarrow> builder \<Rightarrow> builder" where
  "builder_Int64 value b = b @ enc_int64 value"

definition builder_Bool :: "bool \<Rightarrow> builder \<Rightarrow> builder" where
  "builder_Bool value b = (if value then builder_Bytes [CHR 0x01] b else builder_Bytes [CHR 0x00] b)"

definition NewSHA256 :: "string \<Rightarrow> builder" where
  "NewSHA256 domain = builder_String domain []"

definition builder_Sum :: "builder \<Rightarrow> digest" where
  "builder_Sum b = sha256 b"

lemmas builder_defs =
  builder_Bytes_def builder_String_def builder_Int64_def builder_Bool_def NewSHA256_def

lemma length_builder_Sum [simp]: "length (builder_Sum b) = 32"
  by (simp add: builder_Sum_def)

section \<open>Self-delimiting encodings\<close>

text \<open>Lengths fit the eight-byte length prefix; every Go slice satisfies this.\<close>

definition sized :: "string \<Rightarrow> bool" where
  "sized s \<longleftrightarrow> int (length s) < 2 ^ 64"

locale framed =
  fixes enc :: "'a \<Rightarrow> string" and ok :: "'a \<Rightarrow> bool"
  assumes frame: "ok x \<Longrightarrow> ok y \<Longrightarrow> enc x @ r = enc y @ s \<Longrightarrow> x = y \<and> r = s"
begin

lemma frame_iff: "ok x \<Longrightarrow> ok y \<Longrightarrow> enc x @ r = enc y @ s \<longleftrightarrow> x = y \<and> r = s"
  using frame by blast

lemma enc_inj: "ok x \<Longrightarrow> ok y \<Longrightarrow> enc x = enc y \<Longrightarrow> x = y"
  using frame [of x y "[]" "[]"] by simp

lemma concat_frame:
  "length xs = length ys \<Longrightarrow> list_all ok xs \<Longrightarrow> list_all ok ys \<Longrightarrow>
   concat (map enc xs) @ r = concat (map enc ys) @ s \<Longrightarrow> xs = ys \<and> r = s"
proof (induction xs ys rule: list_induct2)
  case Nil
  then show ?case by simp
next
  case (Cons x xs y ys)
  from Cons.prems have "x = y \<and> concat (map enc xs) @ r = concat (map enc ys) @ s"
    by (intro frame) simp_all
  with Cons show ?case by simp
qed

text \<open>A concatenation of non-empty frames needs no count: it determines the list.\<close>

lemma concat_inj:
  assumes nonempty: "\<And>x. ok x \<Longrightarrow> enc x \<noteq> []"
  shows "list_all ok xs \<Longrightarrow> list_all ok ys \<Longrightarrow>
    concat (map enc xs) = concat (map enc ys) \<Longrightarrow> xs = ys"
proof (induction xs arbitrary: ys)
  case Nil
  then show ?case using nonempty by (cases ys) auto
next
  case (Cons x xs)
  show ?case
  proof (cases ys)
    case Nil
    with Cons.prems nonempty show ?thesis by auto
  next
    case (Cons y ys')
    have "x = y \<and> concat (map enc xs) = concat (map enc ys')"
      using frame [of x y] Cons.prems Cons by simp
    moreover have "xs = ys'"
      using Cons.IH [of ys'] Cons.prems Cons calculation by simp
    ultimately show ?thesis using Cons by simp
  qed
qed

end

lemma framed_pair:
  assumes "framed enc1 ok1" "framed enc2 ok2"
  shows "framed (\<lambda>(a, b). enc1 a @ enc2 b) (\<lambda>(a, b). ok1 a \<and> ok2 b)"
proof
  fix x y :: "'a \<times> 'b" and r s
  assume ok: "case x of (a, b) \<Rightarrow> ok1 a \<and> ok2 b" "case y of (a, b) \<Rightarrow> ok1 a \<and> ok2 b"
    and eq: "(case x of (a, b) \<Rightarrow> enc1 a @ enc2 b) @ r = (case y of (a, b) \<Rightarrow> enc1 a @ enc2 b) @ s"
  obtain a b c d where xy: "x = (a, b)" "y = (c, d)" by (cases x, cases y)
  have "a = c \<and> enc2 b @ r = enc2 d @ s"
    by (rule framed.frame [OF assms(1)]) (use ok eq xy in simp_all)
  moreover have "b = d \<and> r = s"
    by (rule framed.frame [OF assms(2)]) (use ok xy calculation in simp_all)
  ultimately show "x = y \<and> r = s" using xy by simp
qed

interpretation bytes_field: framed enc_bytes sized
proof
  fix x y r s :: string
  assume ok: "sized x" "sized y" and eq: "enc_bytes x @ r = enc_bytes y @ s"
  from eq have len: "be_bytes 8 (int (length x)) = be_bytes 8 (int (length y))"
    and rest: "x @ r = y @ s" by (simp_all add: enc_bytes_def append_eq_append_conv)
  from len ok have "length x = length y"
    by (intro be_bytes_inj_length) (simp_all add: sized_def)
  with rest show "x = y \<and> r = s" by simp
qed

interpretation int64_field: framed enc_int64 int64_range
proof
  fix x y :: int and r s :: string
  assume ok: "int64_range x" "int64_range y" and eq: "enc_int64 x @ r = enc_int64 y @ s"
  from eq have "be_bytes 8 x = be_bytes 8 y" and "r = s"
    by (simp_all add: enc_int64_def append_eq_append_conv)
  with ok show "x = y \<and> r = s" using be_bytes_inj_int64 by blast
qed

lemma enc_bytes_nonempty [simp]: "enc_bytes v \<noteq> []"
proof -
  have "8 \<le> length (enc_bytes v)" by (simp add: enc_bytes_def)
  then show ?thesis by auto
qed

interpretation bytes_fields: framed "\<lambda>(a, b). enc_bytes a @ enc_bytes b" "\<lambda>(a, b). sized a \<and> sized b"
  by (rule framed_pair [OF bytes_field.framed_axioms bytes_field.framed_axioms])

text \<open>A list preceded by its length as an \<open>int64\<close>.\<close>

definition enc_counted :: "('a \<Rightarrow> string) \<Rightarrow> 'a list \<Rightarrow> string" where
  "enc_counted enc xs = enc_int64 (int (length xs)) @ concat (map enc xs)"

definition ok_counted :: "('a \<Rightarrow> bool) \<Rightarrow> 'a list \<Rightarrow> bool" where
  "ok_counted ok xs \<longleftrightarrow> int64_range (int (length xs)) \<and> list_all ok xs"

lemma framed_counted:
  assumes "framed enc ok"
  shows "framed (enc_counted enc) (ok_counted ok)"
proof
  fix xs ys :: "'a list" and r s
  assume ok: "ok_counted ok xs" "ok_counted ok ys"
    and eq: "enc_counted enc xs @ r = enc_counted enc ys @ s"
  from ok eq have "int (length xs) = int (length ys) \<and>
      concat (map enc xs) @ r = concat (map enc ys) @ s"
    by (intro int64_field.frame) (simp_all add: enc_counted_def ok_counted_def)
  with ok show "xs = ys \<and> r = s"
    by (intro framed.concat_frame [OF assms]) (simp_all add: ok_counted_def)
qed

section \<open>Digests over lists of parts\<close>

text \<open>\<open>DigestParts\<close> of \<open>cardpublication/service/model/helpers.go\<close>: the loop over the parts.\<close>

definition DigestParts_stream :: "string \<Rightarrow> string list \<Rightarrow> builder" where
  "DigestParts_stream domain parts = foldl (\<lambda>b part. builder_Bytes part b) (NewSHA256 domain) parts"

definition DigestParts :: "string \<Rightarrow> string list \<Rightarrow> digest" where
  "DigestParts domain parts = builder_Sum (DigestParts_stream domain parts)"

lemma foldl_builder_Bytes:
  "foldl (\<lambda>b part. builder_Bytes part b) b parts = b @ concat (map enc_bytes parts)"
  by (induction parts arbitrary: b) (simp_all add: builder_Bytes_def)

lemma DigestParts_stream_eq:
  "DigestParts_stream domain parts = concat (map enc_bytes (domain # parts))"
  by (simp add: DigestParts_stream_def foldl_builder_Bytes) (simp add: builder_defs)

lemma DigestParts_stream_inj:
  assumes "list_all sized (d # ps)" "list_all sized (e # qs)"
    and "DigestParts_stream d ps = DigestParts_stream e qs"
  shows "d = e \<and> ps = qs"
proof -
  have "d # ps = e # qs"
    by (rule bytes_field.concat_inj [OF _ assms(1,2)])
      (use assms(3) in \<open>simp_all only: DigestParts_stream_eq enc_bytes_nonempty not_False_eq_True\<close>)
  then show ?thesis by simp
qed

lemma length_DigestParts [simp]: "length (DigestParts d ps) = 32"
  by (simp add: DigestParts_def)

text \<open>\<open>DigestJSON\<close> and \<open>DigestProposal\<close> separate the domain from the content by a zero byte. The JSON
  encoding is an argument: \<open>None\<close> where \<open>json.Marshal\<close> fails.\<close>

definition DigestJSON :: "string \<Rightarrow> string option \<Rightarrow> digest option" where
  "DigestJSON domain marshalled =
     (case marshalled of None \<Rightarrow> None | Some encoded \<Rightarrow> Some (sha256 (domain @ [CHR 0x00] @ encoded)))"

definition DigestProposal_stream :: "digest \<Rightarrow> digest \<Rightarrow> string \<Rightarrow> string" where
  "DigestProposal_stream semantic metadata request =
     ''cardprepare-proposal:v1'' @ [CHR 0x00] @ semantic @ metadata @ request"

definition DigestProposal :: "digest \<Rightarrow> digest \<Rightarrow> string \<Rightarrow> digest" where
  "DigestProposal semantic metadata request = sha256 (DigestProposal_stream semantic metadata request)"

lemma DigestProposal_stream_inj:
  assumes "length s1 = 32" "length s2 = 32" "length m1 = 32" "length m2 = 32"
    and "DigestProposal_stream s1 m1 r1 = DigestProposal_stream s2 m2 r2"
  shows "s1 = s2 \<and> m1 = m2 \<and> r1 = r2"
  using assms by (simp add: DigestProposal_stream_def append_eq_append_conv)

end
