(* ===== verification/Domain.thy ===== *)
theory Domain
  imports Canonical
begin

text \<open>
  Users and WB identities (\<open>internal/core/domain/user.go\<close>, \<open>wb_identity.go\<close>): the roles, the
  validation of a user, the canonical form of a seller identifier and the fingerprint of an API
  token.
\<close>

section \<open>Users\<close>

type_synonym user_role = string

definition RoleAdmin :: user_role where "RoleAdmin = ''admin''"
definition RolePartner :: user_role where "RolePartner = ''partner''"
definition RoleUser :: user_role where "RoleUser = ''user''"

lemmas role_defs = RoleAdmin_def RolePartner_def RoleUser_def

definition role_IsValid :: "user_role \<Rightarrow> bool" where
  "role_IsValid r \<longleftrightarrow> r = RoleAdmin \<or> r = RolePartner \<or> r = RoleUser"

record user =
  user_ID :: int
  user_TelegramID :: int
  user_TelegramNickname :: "string option"
  user_FullName :: string
  user_Role :: user_role
  user_CreatedAt :: int
  user_UpdatedAt :: int

definition CreateUser :: "int \<Rightarrow> string \<Rightarrow> user" where
  "CreateUser telegramID fullName =
     \<lparr>user_ID = 0, user_TelegramID = telegramID, user_TelegramNickname = None,
      user_FullName = trim_space fullName, user_Role = RoleUser,
      user_CreatedAt = 0, user_UpdatedAt = 0\<rparr>"

definition user_Validate :: "user \<Rightarrow> goerr option" where
  "user_Validate u =
     (let fullNameLength = rune_count (trim_space (user_FullName u)) in
      first_err
       [(user_TelegramID u \<le> 0, GoErr ErrInvalidArgument ''invalid TelegramID''),
        (fullNameLength < 3 \<or> 100 < fullNameLength, GoErr ErrInvalidArgument ''invalid FullName length''),
        (\<not> role_IsValid (user_Role u), GoErr ErrInvalidArgument ''invalid user role''),
        (case user_TelegramNickname u of
           None \<Rightarrow> False
         | Some nick \<Rightarrow> (let n = rune_count (trim_space nick) in n = 0 \<or> 32 < n),
         GoErr ErrInvalidArgument ''invalid TelegramNickname length'')])"

definition user_ChangeRole :: "user \<Rightarrow> user_role \<Rightarrow> user result" where
  "user_ChangeRole u r =
     (if \<not> role_IsValid r then Inl (GoErr ErrInvalidArgument ''invalid user role'')
      else Inr (u\<lparr>user_Role := r\<rparr>))"

definition user_IsAdmin :: "user \<Rightarrow> bool" where
  "user_IsAdmin u \<longleftrightarrow> user_Role u = RoleAdmin"

definition user_IsPartner :: "user \<Rightarrow> bool" where
  "user_IsPartner u \<longleftrightarrow> user_Role u = RolePartner"

lemma user_Validate_None_iff:
  "user_Validate u = None \<longleftrightarrow>
     0 < user_TelegramID u \<and>
     3 \<le> rune_count (trim_space (user_FullName u)) \<and> rune_count (trim_space (user_FullName u)) \<le> 100 \<and>
     role_IsValid (user_Role u) \<and>
     (\<forall>nick. user_TelegramNickname u = Some nick \<longrightarrow>
        1 \<le> rune_count (trim_space nick) \<and> rune_count (trim_space nick) \<le> 32)"
  by (auto simp: user_Validate_def Let_def split: option.split)

lemma ChangeRole_keeps_valid:
  "user_Validate u = None \<Longrightarrow> user_ChangeRole u r = Inr u' \<Longrightarrow> user_Validate u' = None"
  by (auto simp: user_Validate_None_iff user_ChangeRole_def split: if_splits)

section \<open>Seller identifiers and client generations\<close>

type_synonym seller_id = string

definition seller_char_bad :: "nat \<Rightarrow> char \<Rightarrow> bool" where
  "seller_char_bad position c =
     (let b = (of_char c :: int) in
      if position \<in> {8, 13, 18, 23} then c \<noteq> CHR ''-''
      else b < 48 \<or> (57 < b \<and> b < 97) \<or> 102 < b)"

definition SellerID_Validate :: "seller_id \<Rightarrow> goerr option" where
  "SellerID_Validate sid =
     (let bad = GoErr ErrInvalidArgument ''invalid WB seller ID'' in
      if length sid \<noteq> 36 then Some bad
      else each_err (\<lambda>position c. if seller_char_bad position c then Some bad else None) 0 sid)"

definition NewClientGeneration :: "string \<Rightarrow> digest" where
  "NewClientGeneration token = builder_Sum (builder_String token (NewSHA256 ''wb-client-generation:v1''))"

definition generation_IsZero :: "digest \<Rightarrow> bool" where
  "generation_IsZero g \<longleftrightarrow> g = zero_digest"

text \<open>\<open>hex.EncodeToString\<close>: two lower-case hexadecimal characters per byte.\<close>

definition hex_digit :: "int \<Rightarrow> char" where
  "hex_digit n = (if n < 10 then char_of (48 + n) else char_of (87 + n))"

definition hex_encode :: "string \<Rightarrow> string" where
  "hex_encode s = concat (map (\<lambda>c. [hex_digit (of_char c div 16), hex_digit (of_char c mod 16)]) s)"

definition hex_alphabet :: string where
  "hex_alphabet = ''0123456789abcdef''"

lemma seller_char_ok_iff:
  "\<not> seller_char_bad position c \<longleftrightarrow>
     (if position \<in> {8, 13, 18, 23} then c = CHR ''-'' else c \<in> set hex_alphabet)"
proof -
  have "(of_char c :: int) < 48 \<or> (57 < (of_char c :: int) \<and> (of_char c :: int) < 97) \<or>
      102 < (of_char c :: int) \<longleftrightarrow> c \<notin> set hex_alphabet"
    by (cases c) (auto simp: hex_alphabet_def of_char_def)
  then show ?thesis by (simp add: seller_char_bad_def Let_def)
qed

lemma SellerID_Validate_None_iff:
  "SellerID_Validate sid = None \<longleftrightarrow>
     length sid = 36 \<and>
     (\<forall>i < length sid. if i \<in> {8, 13, 18, 23} then sid ! i = CHR ''-'' else sid ! i \<in> set hex_alphabet)"
proof -
  have "SellerID_Validate sid = None \<longleftrightarrow>
      length sid = 36 \<and> (\<forall>i < length sid. \<not> seller_char_bad i (sid ! i))"
    by (auto simp: SellerID_Validate_def Let_def each_err_None_iff)
  then show ?thesis by (simp only: seller_char_ok_iff)
qed

lemma NewClientGeneration_inj:
  assumes "sized t" "sized u"
    and "no_collision (builder_String t (NewSHA256 ''wb-client-generation:v1''))
                      (builder_String u (NewSHA256 ''wb-client-generation:v1''))"
    and "NewClientGeneration t = NewClientGeneration u"
  shows "t = u"
proof -
  have "builder_String t (NewSHA256 ''wb-client-generation:v1'') =
        builder_String u (NewSHA256 ''wb-client-generation:v1'')"
    using assms(3,4) by (simp add: NewClientGeneration_def builder_Sum_def no_collision_def)
  then have "enc_bytes t = enc_bytes u" by (simp add: builder_defs)
  with assms(1,2) show ?thesis by (rule bytes_field.enc_inj)
qed

end
