(* ===== verification/WbPolicy.thy ===== *)
theory WbPolicy
  imports Domain
begin

text \<open>
  The closed catalogue of WB operations: the policy types and their validation
  (\<open>internal/core/transport/wb/policy\<close>) and the operations and rate-limit buckets of the Content API
  (\<open>api/content/v1/operations.go\<close>, \<open>bucket.go\<close>, \<open>bounds.go\<close>). Modes, kinds and methods are Go strings
  and stay strings. An HTTP header map is an association list from names to value lists.
\<close>

section \<open>Buckets and retry modes\<close>

record bucket_spec =
  bs_ID :: string
  bs_Interval :: int
  bs_Burst :: int
  bs_MaxWaiters :: int

definition BucketSpec_Validate :: "bucket_spec \<Rightarrow> goerr option" where
  "BucketSpec_Validate spec = first_err
     [(bs_ID spec = [], GoErr NoSentinel ''bucket ID is empty''),
      (bs_Interval spec \<le> 0, GoErr NoSentinel ''bucket interval must be positive''),
      (bs_Burst spec \<le> 0, GoErr NoSentinel ''bucket burst must be positive''),
      (bs_MaxWaiters spec \<le> 0, GoErr NoSentinel ''bucket max waiters must be positive'')]"

definition RetryModeNever :: string where "RetryModeNever = ''never''"
definition RetryModeReadSafe :: string where "RetryModeReadSafe = ''read_safe''"
definition DefaultMaxReadAttempts :: nat where "DefaultMaxReadAttempts = 3"

definition AllowsRetry :: "string \<Rightarrow> bool" where
  "AllowsRetry mode \<longleftrightarrow> mode = RetryModeReadSafe"

section \<open>Operations\<close>

definition BodyModeNone :: string where "BodyModeNone = ''none''"
definition BodyModeJSON :: string where "BodyModeJSON = ''json''"
definition BodyModeMultipart :: string where "BodyModeMultipart = ''multipart''"
definition OperationKindRead :: string where "OperationKindRead = ''read''"
definition OperationKindMutation :: string where "OperationKindMutation = ''mutation''"
definition MethodGet :: string where "MethodGet = ''GET''"
definition MethodPost :: string where "MethodPost = ''POST''"

lemmas mode_defs =
  RetryModeNever_def RetryModeReadSafe_def BodyModeNone_def BodyModeJSON_def BodyModeMultipart_def
  OperationKindRead_def OperationKindMutation_def MethodGet_def MethodPost_def

type_synonym http_header = "(string \<times> string list) list"

text \<open>\<open>OperationSpec\<close>; \<open>Operation\<close> has the same fields, private, behind accessors.\<close>

record operation =
  op_ID :: string
  op_Method :: string
  op_Host :: string
  op_Path :: string
  op_BucketID :: string
  op_Kind :: string
  op_RetryMode :: string
  op_SuccessStatuses :: "int list"
  op_RequestMode :: string
  op_ResponseMode :: string
  op_MaxRequestBytes :: int
  op_MaxResponseBytes :: int
  op_Headers :: http_header

definition opErr :: "string \<Rightarrow> goerr" where
  "opErr message = GoErr NoSentinel message"

definition invalid_fixed_header :: "string \<times> string list \<Rightarrow> bool" where
  "invalid_fixed_header h =
     (case h of (name, values) \<Rightarrow>
        equal_fold name ''Authorization'' \<or> equal_fold name ''Content-Type'' \<or> length values \<noteq> 1 \<or>
        trim_space name = [] \<or> trim_space (hd values) = [])"

definition validateOperationIdentityAndModes :: "operation \<Rightarrow> goerr option" where
  "validateOperationIdentityAndModes spec = first_err
     [(op_ID spec = [], opErr ''operation ID is empty''),
      (op_BucketID spec = [], opErr ''operation bucket ID is empty''),
      (op_Kind spec \<noteq> OperationKindRead \<and> op_Kind spec \<noteq> OperationKindMutation,
         opErr ''operation has unsupported kind''),
      (op_RetryMode spec \<noteq> RetryModeNever \<and> op_RetryMode spec \<noteq> RetryModeReadSafe,
         opErr ''operation has unsupported retry mode''),
      (AllowsRetry (op_RetryMode spec) \<and> op_Kind spec \<noteq> OperationKindRead,
         opErr ''operation allows retry for non-read kind''),
      (op_RequestMode spec \<noteq> BodyModeNone \<and> op_RequestMode spec \<noteq> BodyModeJSON \<and>
         op_RequestMode spec \<noteq> BodyModeMultipart,
         opErr ''operation has unsupported request body mode''),
      (list_ex invalid_fixed_header (op_Headers spec), opErr ''operation has invalid fixed header''),
      (op_ResponseMode spec \<noteq> BodyModeNone \<and> op_ResponseMode spec \<noteq> BodyModeJSON,
         opErr ''operation has unsupported response body mode'')]"

text \<open>Host names: every label is non-empty, does not begin or end with a hyphen and is made of
  lower-case letters, digits and hyphens.\<close>

definition host_char :: "char \<Rightarrow> bool" where
  "host_char c \<longleftrightarrow>
     ((97::int) \<le> of_char c \<and> of_char c \<le> (122::int)) \<or> is_digit c \<or> c = CHR ''-''"

definition valid_label :: "string \<Rightarrow> bool" where
  "valid_label label \<longleftrightarrow>
     label \<noteq> [] \<and> hd label \<noteq> CHR ''-'' \<and> last label \<noteq> CHR ''-'' \<and> list_all host_char label"

definition validWBAPIHost :: "string \<Rightarrow> bool" where
  "validWBAPIHost host \<longleftrightarrow>
     suffix ''.wildberries.ru'' host \<and> list_all valid_label (split_on (CHR ''.'') host)"

text \<open>\<open>url.ParseRequestURI\<close> on a path that starts with exactly one slash: it fails on a control byte
  and on a malformed percent escape before the query; a question mark makes a query. It never
  produces a scheme, a host or a fragment from such a path.\<close>

definition is_hex :: "char \<Rightarrow> bool" where
  "is_hex c \<longleftrightarrow> c \<in> set ''0123456789abcdefABCDEF''"

fun escapes_ok :: "string \<Rightarrow> bool" where
  "escapes_ok [] = True"
| "escapes_ok (c # cs) =
     (if c = CHR ''%'' then
        (case cs of a # b # r \<Rightarrow> is_hex a \<and> is_hex b \<and> escapes_ok r | _ \<Rightarrow> False)
      else escapes_ok cs)"

definition is_ctl :: "char \<Rightarrow> bool" where
  "is_ctl c \<longleftrightarrow> of_char c < (32::int) \<or> of_char c = (127::int)"

definition request_uri_error :: "string \<Rightarrow> bool" where
  "request_uri_error path \<longleftrightarrow>
     list_ex is_ctl path \<or> \<not> escapes_ok (takeWhile (\<lambda>c. c \<noteq> CHR ''?'') path)"

definition validateOperationHTTP :: "operation \<Rightarrow> goerr option" where
  "validateOperationHTTP spec = first_err
     [(op_Method spec \<noteq> MethodGet \<and> op_Method spec \<noteq> MethodPost,
         opErr ''operation has unsupported HTTP method''),
      (\<not> validWBAPIHost (op_Host spec), opErr ''operation has invalid WB API host''),
      (op_Path spec = [], opErr ''operation path is empty''),
      (\<not> prefix ''/'' (op_Path spec) \<or> prefix ''//'' (op_Path spec),
         opErr ''operation path must start with exactly one slash''),
      (request_uri_error (op_Path spec), opErr ''operation has invalid path''),
      (CHR ''?'' \<in> set (op_Path spec),
         opErr ''operation path must not contain host, query or fragment'')]"

text \<open>The status loop with its \<open>seen\<close> map.\<close>

fun check_statuses :: "int list \<Rightarrow> int list \<Rightarrow> goerr option" where
  "check_statuses seen [] = None"
| "check_statuses seen (status # rest) =
     (if status < 200 \<or> 299 < status then Some (opErr ''success status is outside 2xx range'')
      else if status \<in> set seen then Some (opErr ''success status is duplicated'')
      else check_statuses (status # seen) rest)"

definition validateSuccessStatuses :: "int list \<Rightarrow> goerr option" where
  "validateSuccessStatuses statuses =
     (if statuses = [] then Some (opErr ''success status list is empty'') else check_statuses [] statuses)"

definition containsSuccessStatus :: "int list \<Rightarrow> int \<Rightarrow> bool" where
  "containsSuccessStatus statuses status = list_ex (\<lambda>allowed. status = allowed) statuses"

definition IsSuccessStatus :: "operation \<Rightarrow> int \<Rightarrow> bool" where
  "IsSuccessStatus op status = containsSuccessStatus (op_SuccessStatuses op) status"

definition validateOperationSizeBounds :: "operation \<Rightarrow> goerr option" where
  "validateOperationSizeBounds spec = first_err
     [(op_RequestMode spec = BodyModeNone \<and> op_MaxRequestBytes spec \<noteq> 0,
         opErr ''operation has no request body but max request bytes is set''),
      (op_RequestMode spec = BodyModeJSON \<and> op_MaxRequestBytes spec \<le> 0,
         opErr ''operation has JSON request body but no max request bytes''),
      (op_ResponseMode spec = BodyModeNone \<and> op_MaxResponseBytes spec \<noteq> 0,
         opErr ''operation has no response body but max response bytes is set''),
      (op_ResponseMode spec = BodyModeJSON \<and> op_MaxResponseBytes spec \<le> 0,
         opErr ''operation has JSON response body but no max response bytes'')]"

definition validateOperationSpec :: "operation \<Rightarrow> goerr option" where
  "validateOperationSpec spec =
     or_else (validateOperationIdentityAndModes spec)
    (or_else (validateOperationHTTP spec)
    (or_else (validateSuccessStatuses (op_SuccessStatuses spec))
             (validateOperationSizeBounds spec)))"

definition NewOperation :: "operation \<Rightarrow> operation result" where
  "NewOperation spec = guard (validateOperationSpec spec) (Inr spec)"

section \<open>What validation establishes\<close>

lemma check_statuses_None_iff:
  "check_statuses seen xs = None \<longleftrightarrow>
     (\<forall>s \<in> set xs. 200 \<le> s \<and> s \<le> 299) \<and> distinct xs \<and> set xs \<inter> set seen = {}"
  by (induction xs arbitrary: seen) auto

lemma validateSuccessStatuses_None_iff:
  "validateSuccessStatuses xs = None \<longleftrightarrow>
     xs \<noteq> [] \<and> distinct xs \<and> (\<forall>s \<in> set xs. 200 \<le> s \<and> s \<le> 299)"
  by (auto simp: validateSuccessStatuses_def check_statuses_None_iff)

text \<open>The contract of an operation that the constructor accepted.\<close>

definition operation_wf :: "operation \<Rightarrow> bool" where
  "operation_wf op \<longleftrightarrow>
     op_ID op \<noteq> [] \<and> op_BucketID op \<noteq> [] \<and>
     op_Kind op \<in> {OperationKindRead, OperationKindMutation} \<and>
     op_RetryMode op \<in> {RetryModeNever, RetryModeReadSafe} \<and>
     (AllowsRetry (op_RetryMode op) \<longrightarrow> op_Kind op = OperationKindRead) \<and>
     op_Method op \<in> {MethodGet, MethodPost} \<and>
     validWBAPIHost (op_Host op) \<and>
     (\<exists>rest. op_Path op = CHR ''/'' # rest \<and> (rest = [] \<or> hd rest \<noteq> CHR ''/'')) \<and>
     CHR ''?'' \<notin> set (op_Path op) \<and> \<not> list_ex is_ctl (op_Path op) \<and> escapes_ok (op_Path op) \<and>
     op_SuccessStatuses op \<noteq> [] \<and> distinct (op_SuccessStatuses op) \<and>
     (\<forall>s \<in> set (op_SuccessStatuses op). 200 \<le> s \<and> s \<le> 299) \<and>
     (\<forall>(name, values) \<in> set (op_Headers op).
        \<not> equal_fold name ''Authorization'' \<and> \<not> equal_fold name ''Content-Type'' \<and> length values = 1 \<and>
        trim_space name \<noteq> [] \<and> trim_space (hd values) \<noteq> []) \<and>
     op_RequestMode op \<in> {BodyModeNone, BodyModeJSON, BodyModeMultipart} \<and>
     op_ResponseMode op \<in> {BodyModeNone, BodyModeJSON} \<and>
     (op_RequestMode op = BodyModeNone \<longrightarrow> op_MaxRequestBytes op = 0) \<and>
     (op_RequestMode op = BodyModeJSON \<longrightarrow> 0 < op_MaxRequestBytes op) \<and>
     (op_ResponseMode op = BodyModeNone \<longrightarrow> op_MaxResponseBytes op = 0) \<and>
     (op_ResponseMode op = BodyModeJSON \<longrightarrow> 0 < op_MaxResponseBytes op)"

lemma one_slash_iff:
  "p \<noteq> [] \<and> prefix ''/'' p \<and> \<not> prefix ''//'' p \<longleftrightarrow>
     (\<exists>rest. p = CHR ''/'' # rest \<and> (rest = [] \<or> hd rest \<noteq> CHR ''/''))"
  by (cases p; cases "tl p") auto

lemma identity_None_iff:
  "validateOperationIdentityAndModes op = None \<longleftrightarrow>
     op_ID op \<noteq> [] \<and> op_BucketID op \<noteq> [] \<and>
     op_Kind op \<in> {OperationKindRead, OperationKindMutation} \<and>
     op_RetryMode op \<in> {RetryModeNever, RetryModeReadSafe} \<and>
     (AllowsRetry (op_RetryMode op) \<longrightarrow> op_Kind op = OperationKindRead) \<and>
     op_RequestMode op \<in> {BodyModeNone, BodyModeJSON, BodyModeMultipart} \<and>
     (\<forall>h \<in> set (op_Headers op). \<not> invalid_fixed_header h) \<and>
     op_ResponseMode op \<in> {BodyModeNone, BodyModeJSON}"
  by (simp add: validateOperationIdentityAndModes_def list_ex_iff)

lemma http_None_iff:
  "validateOperationHTTP op = None \<longleftrightarrow>
     op_Method op \<in> {MethodGet, MethodPost} \<and> validWBAPIHost (op_Host op) \<and>
     (\<exists>rest. op_Path op = CHR ''/'' # rest \<and> (rest = [] \<or> hd rest \<noteq> CHR ''/'')) \<and>
     CHR ''?'' \<notin> set (op_Path op) \<and> \<not> list_ex is_ctl (op_Path op) \<and> escapes_ok (op_Path op)"
proof -
  have tw: "CHR ''?'' \<notin> set p \<Longrightarrow> takeWhile (\<lambda>c. c \<noteq> CHR ''?'') p = p" for p
    by (auto intro: takeWhile_eq_all_conv [THEN iffD2])
  have "validateOperationHTTP op = None \<longleftrightarrow>
     op_Method op \<in> {MethodGet, MethodPost} \<and> validWBAPIHost (op_Host op) \<and>
     (op_Path op \<noteq> [] \<and> prefix ''/'' (op_Path op) \<and> \<not> prefix ''//'' (op_Path op)) \<and>
     CHR ''?'' \<notin> set (op_Path op) \<and> \<not> request_uri_error (op_Path op)"
    by (simp add: validateOperationHTTP_def)
  then show ?thesis
    unfolding one_slash_iff by (simp add: request_uri_error_def tw cong: conj_cong)
qed

lemma bounds_None_iff:
  "validateOperationSizeBounds op = None \<longleftrightarrow>
     (op_RequestMode op = BodyModeNone \<longrightarrow> op_MaxRequestBytes op = 0) \<and>
     (op_RequestMode op = BodyModeJSON \<longrightarrow> 0 < op_MaxRequestBytes op) \<and>
     (op_ResponseMode op = BodyModeNone \<longrightarrow> op_MaxResponseBytes op = 0) \<and>
     (op_ResponseMode op = BodyModeJSON \<longrightarrow> 0 < op_MaxResponseBytes op)"
  by (auto simp: validateOperationSizeBounds_def)

lemma invalid_fixed_header_iff:
  "\<not> invalid_fixed_header (name, values) \<longleftrightarrow>
     \<not> equal_fold name ''Authorization'' \<and> \<not> equal_fold name ''Content-Type'' \<and> length values = 1 \<and>
     trim_space name \<noteq> [] \<and> trim_space (hd values) \<noteq> []"
  by (auto simp: invalid_fixed_header_def)

lemma validate_iff_wf: "validateOperationSpec spec = None \<longleftrightarrow> operation_wf spec"
proof -
  have headers: "(\<forall>h \<in> set (op_Headers spec). \<not> invalid_fixed_header h) \<longleftrightarrow>
     (\<forall>(name, values) \<in> set (op_Headers spec).
        \<not> equal_fold name ''Authorization'' \<and> \<not> equal_fold name ''Content-Type'' \<and> length values = 1 \<and>
        trim_space name \<noteq> [] \<and> trim_space (hd values) \<noteq> [])"
    by (rule ball_cong [OF refl]) (clarsimp simp only: invalid_fixed_header_iff split_def prod.collapse fst_conv snd_conv)
  show ?thesis
    unfolding validateOperationSpec_def or_else_None_iff identity_None_iff http_None_iff bounds_None_iff
      validateSuccessStatuses_None_iff operation_wf_def headers by (rule iffI; elim conjE; intro conjI; assumption)
qed

section \<open>The Content API catalogue\<close>

definition contentAPIHost :: string where "contentAPIHost = ''content-api.wildberries.ru''"

definition kibibyte :: int where "kibibyte = 1024"
definition mebibyte :: int where "mebibyte = 1024 * kibibyte"
definition maxMutationResponseBytes :: int where "maxMutationResponseBytes = 1 * mebibyte"
definition maxUploadCardsAddRequestBytes :: int where "maxUploadCardsAddRequestBytes = 10000000"
definition maxUploadMediaFileRequestBytes :: int where "maxUploadMediaFileRequestBytes = 51 * mebibyte"
definition MaxVariantsPerGroup :: nat where "MaxVariantsPerGroup = 30"
definition MaxUploadGroups :: nat where "MaxUploadGroups = 100"
definition MaxMediaImages :: int where "MaxMediaImages = 30"

definition safeGetJSON :: "string \<Rightarrow> string \<Rightarrow> string \<Rightarrow> int \<Rightarrow> operation" where
  "safeGetJSON opid path bucket maxResponseBytes =
     \<lparr>op_ID = opid, op_Method = MethodGet, op_Host = contentAPIHost, op_Path = path,
      op_BucketID = bucket, op_Kind = OperationKindRead, op_RetryMode = RetryModeReadSafe,
      op_SuccessStatuses = [200], op_RequestMode = BodyModeNone, op_ResponseMode = BodyModeJSON,
      op_MaxRequestBytes = 0, op_MaxResponseBytes = maxResponseBytes, op_Headers = []\<rparr>"

definition safePostJSON :: "string \<Rightarrow> string \<Rightarrow> string \<Rightarrow> int \<Rightarrow> int \<Rightarrow> operation" where
  "safePostJSON opid path bucket maxRequestBytes maxResponseBytes =
     (safeGetJSON opid path bucket maxResponseBytes)
       \<lparr>op_Method := MethodPost, op_RequestMode := BodyModeJSON, op_MaxRequestBytes := maxRequestBytes\<rparr>"

definition mutationPostJSON :: "string \<Rightarrow> string \<Rightarrow> string \<Rightarrow> int \<Rightarrow> operation" where
  "mutationPostJSON opid path bucket maxRequestBytes =
     \<lparr>op_ID = opid, op_Method = MethodPost, op_Host = contentAPIHost, op_Path = path,
      op_BucketID = bucket, op_Kind = OperationKindMutation, op_RetryMode = RetryModeNever,
      op_SuccessStatuses = [200], op_RequestMode = BodyModeJSON, op_ResponseMode = BodyModeJSON,
      op_MaxRequestBytes = maxRequestBytes, op_MaxResponseBytes = maxMutationResponseBytes,
      op_Headers = []\<rparr>"

definition pingOperation :: operation where
  "pingOperation =
     \<lparr>op_ID = ''content.ping'', op_Method = MethodGet, op_Host = contentAPIHost, op_Path = ''/ping'',
      op_BucketID = ''content_ping'', op_Kind = OperationKindRead, op_RetryMode = RetryModeNever,
      op_SuccessStatuses = [200], op_RequestMode = BodyModeNone, op_ResponseMode = BodyModeJSON,
      op_MaxRequestBytes = 0, op_MaxResponseBytes = 16 * 1024, op_Headers = []\<rparr>"

definition uploadCardsOperation :: operation where
  "uploadCardsOperation =
     mutationPostJSON ''content.cards.upload'' ''/content/v2/cards/upload'' ''content_cards_upload'' 10000000"

definition uploadCardsAddOperation :: operation where
  "uploadCardsAddOperation =
     mutationPostJSON ''content.cards.upload-add'' ''/content/v2/cards/upload/add''
       ''content_cards_upload_add'' maxUploadCardsAddRequestBytes"

definition updateCardsOperation :: operation where
  "updateCardsOperation =
     mutationPostJSON ''content.cards.update'' ''/content/v2/cards/update'' ''content_cards_update'' 10000000"

definition saveMediaByLinksOperation :: operation where
  "saveMediaByLinksOperation =
     mutationPostJSON ''content.media.save'' ''/content/v3/media/save'' ''content_media_files'' (256 * kibibyte)"

text \<open>The package-level operations, in the order of the file; \<open>mustOperation\<close> panics at start-up if
  one of them is invalid.\<close>

definition content_operations :: "operation list" where
  "content_operations =
    [pingOperation,
     safeGetJSON ''content.object.parent-all'' ''/content/v2/object/parent/all'' ''content_common'' (4 * mebibyte),
     safeGetJSON ''content.object.all'' ''/content/v2/object/all'' ''content_common'' (8 * mebibyte),
     safeGetJSON ''content.cards.limits'' ''/content/v2/cards/limits'' ''content_cards_limits_and_errors'' (1 * mebibyte),
     safeGetJSON ''content.tags.list'' ''/content/v2/tags'' ''content_common'' (4 * mebibyte),
     safeGetJSON ''content.brands'' ''/api/content/v1/brands'' ''content_brands'' (4 * mebibyte),
     safeGetJSON ''content.directory.colors'' ''/content/v2/directory/colors'' ''content_characteristics'' (4 * mebibyte),
     safeGetJSON ''content.directory.kinds'' ''/content/v2/directory/kinds'' ''content_characteristics'' (4 * mebibyte),
     safeGetJSON ''content.directory.countries'' ''/content/v2/directory/countries'' ''content_characteristics'' (4 * mebibyte),
     safeGetJSON ''content.directory.seasons'' ''/content/v2/directory/seasons'' ''content_characteristics'' (4 * mebibyte),
     safeGetJSON ''content.directory.vat'' ''/content/v2/directory/vat'' ''content_characteristics'' (4 * mebibyte),
     safeGetJSON ''content.directory.tnved'' ''/content/v2/directory/tnved'' ''content_characteristics'' (4 * mebibyte),
     safePostJSON ''content.cards.list'' ''/content/v2/get/cards/list'' ''content_cards_list'' (64 * kibibyte) (32 * mebibyte),
     safePostJSON ''content.cards.trash-list'' ''/content/v2/get/cards/trash'' ''content_common'' (64 * kibibyte) (32 * mebibyte),
     safePostJSON ''content.cards.error-list'' ''/content/v2/cards/error/list'' ''content_cards_limits_and_errors'' (64 * kibibyte) (32 * mebibyte),
     uploadCardsOperation, uploadCardsAddOperation, updateCardsOperation, saveMediaByLinksOperation]"

definition SubjectCharacteristicsOperation :: "int \<Rightarrow> operation result" where
  "SubjectCharacteristicsOperation subjectID =
     (if subjectID \<le> 0 then Inl (opErr ''subject ID must be positive'')
      else NewOperation (safeGetJSON ''content.object.characteristics''
             (''/content/v2/object/charcs/'' @ format_int subjectID) ''content_common'' (4 * mebibyte)))"

definition UploadMediaFile_spec :: "int \<Rightarrow> int \<Rightarrow> operation" where
  "UploadMediaFile_spec nmID mediaNumber =
     \<lparr>op_ID = ''content.media.file'', op_Method = MethodPost, op_Host = contentAPIHost,
      op_Path = ''/content/v3/media/file'', op_BucketID = ''content_media_files'',
      op_Kind = OperationKindMutation, op_RetryMode = RetryModeNever, op_SuccessStatuses = [200],
      op_RequestMode = BodyModeMultipart, op_ResponseMode = BodyModeJSON,
      op_MaxRequestBytes = maxUploadMediaFileRequestBytes, op_MaxResponseBytes = maxMutationResponseBytes,
      op_Headers = [(''X-Nm-Id'', [format_int nmID]), (''X-Photo-Number'', [format_int mediaNumber])]\<rparr>"

definition UploadMediaFileOperation :: "int \<Rightarrow> int \<Rightarrow> operation result" where
  "UploadMediaFileOperation nmID mediaNumber =
     (if nmID \<le> 0 then Inl (opErr ''media nmID must be positive'')
      else if mediaNumber \<le> 0 \<or> MaxMediaImages < mediaNumber then Inl (opErr ''media number must be between 1 and 30'')
      else NewOperation (UploadMediaFile_spec nmID mediaNumber))"

text \<open>Durations are nanoseconds.\<close>

definition millisecond :: int where "millisecond = 1000000"
definition second :: int where "second = 1000 * millisecond"
definition maxWaitersPerBucket :: int where "maxWaitersPerBucket = 256"

definition content_bucket :: "string \<Rightarrow> int \<Rightarrow> int \<Rightarrow> bucket_spec" where
  "content_bucket bid interval burst =
     \<lparr>bs_ID = bid, bs_Interval = interval, bs_Burst = burst, bs_MaxWaiters = maxWaitersPerBucket\<rparr>"

definition contentBucketSpecs :: "bucket_spec list" where
  "contentBucketSpecs =
    [content_bucket ''content_ping'' (10 * second) 3,
     content_bucket ''content_common'' (600 * millisecond) 5,
     content_bucket ''content_brands'' second 5,
     content_bucket ''content_characteristics'' (600 * millisecond) 5,
     content_bucket ''content_cards_limits_and_errors'' (600 * millisecond) 5,
     content_bucket ''content_cards_list'' (600 * millisecond) 5,
     content_bucket ''content_cards_upload'' (6 * second) 5,
     content_bucket ''content_cards_upload_add'' (6 * second) 5,
     content_bucket ''content_cards_update'' (6 * second) 5,
     content_bucket ''content_media_files'' (600 * millisecond) 5]"

lemma content_operations_valid: "list_all (\<lambda>op. validateOperationSpec op = None) content_operations"
  by code_simp

lemma content_operation_ids_distinct: "distinct (map op_ID content_operations)"
  by code_simp

lemma content_operation_buckets: "list_all (\<lambda>op. op_BucketID op \<in> set (map bs_ID contentBucketSpecs)) content_operations"
  by code_simp

lemma content_buckets_valid:
  "list_all (\<lambda>spec. BucketSpec_Validate spec = None) contentBucketSpecs \<and> distinct (map bs_ID contentBucketSpecs)"
  by code_simp

text \<open>Paths and headers built from formatted numbers.\<close>

lemma escapes_ok_no_percent: "CHR ''%'' \<notin> set p \<Longrightarrow> escapes_ok p"
  by (induction p rule: escapes_ok.induct) auto

lemma is_digit_facts:
  assumes "is_digit c"
  shows "c \<noteq> CHR ''%''" "c \<noteq> CHR ''?''" "\<not> is_ctl c" "[c] \<notin> set space_encodings"
  using assms by (auto simp: is_digit_def is_ctl_def space_encodings_def)

lemma digits_no_space:
  assumes "list_all is_digit s"
  shows "trim_space s = s"
proof -
  have hd_digit: "\<not> prefix p t" if "p \<in> set space_encodings \<union> set (map rev space_encodings)" "p \<noteq> []"
    "list_all is_digit t" for p t
  proof
    assume "prefix p t"
    with that(2,3) have "is_digit (hd p)" by (cases p; cases t) auto
    with that(1) show False by (auto simp: space_encodings_def is_digit_def)
  qed
  have "trim_left s = s" unfolding trim_left_def
    by (rule strip_prefixes_id) (use hd_digit assms in blast)
  moreover have "trim_right s = s" unfolding trim_right_def
    by (subst strip_prefixes_id) (use hd_digit [of _ "rev s"] assms in \<open>auto simp: list_all_iff\<close>)
  ultimately show ?thesis by (simp add: trim_space_def)
qed

lemma format_int_digits: "0 < n \<Longrightarrow> list_all is_digit (format_int n) \<and> format_int n \<noteq> []"
  using format_pos_digits [of n] by (simp add: format_int_def)

lemma digits_clean:
  "list_all is_digit s \<and> s \<noteq> [] \<Longrightarrow>
     CHR ''%'' \<notin> set s \<and> CHR ''?'' \<notin> set s \<and> \<not> list_ex is_ctl s"
  by (auto simp: list_all_iff list_ex_iff dest: is_digit_facts)

lemma contentAPIHost_valid: "validWBAPIHost contentAPIHost"
  by code_simp

lemma charcs_path_clean:
  "\<not> list_ex is_ctl ''/content/v2/object/charcs/'' \<and> CHR ''%'' \<notin> set ''/content/v2/object/charcs/'' \<and>
   CHR ''?'' \<notin> set ''/content/v2/object/charcs/''"
  by code_simp

lemma subject_spec_wf:
  assumes "0 < n"
  shows "operation_wf (safeGetJSON ''content.object.characteristics''
          (''/content/v2/object/charcs/'' @ format_int n) ''content_common'' (4 * mebibyte))"
  using charcs_path_clean contentAPIHost_valid digits_clean [OF format_int_digits [OF assms]]
  unfolding operation_wf_def safeGetJSON_def
  by (auto simp: mode_defs AllowsRetry_def mebibyte_def kibibyte_def intro!: escapes_ok_no_percent)

lemma media_file_constants:
  "\<not> equal_fold ''X-Nm-Id'' ''Authorization'' \<and> \<not> equal_fold ''X-Nm-Id'' ''Content-Type'' \<and>
   \<not> equal_fold ''X-Photo-Number'' ''Authorization'' \<and> \<not> equal_fold ''X-Photo-Number'' ''Content-Type'' \<and>
   trim_space ''X-Nm-Id'' \<noteq> [] \<and> trim_space ''X-Photo-Number'' \<noteq> [] \<and>
   \<not> list_ex is_ctl ''/content/v3/media/file'' \<and> escapes_ok ''/content/v3/media/file''"
  by code_simp

lemma media_file_spec_wf: "0 < nm \<Longrightarrow> 0 < k \<Longrightarrow> operation_wf (UploadMediaFile_spec nm k)"
  using format_int_digits [of nm] format_int_digits [of k] contentAPIHost_valid media_file_constants
  unfolding operation_wf_def UploadMediaFile_spec_def
  by (auto simp: mode_defs AllowsRetry_def maxMutationResponseBytes_def mebibyte_def kibibyte_def digits_no_space)

section \<open>Properties\<close>

text \<open>The operation constructor accepts exactly the well-formed specifications and returns them
  unchanged: retries are confined to reads, the method is GET or POST, the host is a WB host made of
  DNS labels, the path is absolute without query, control bytes or broken escapes, the success
  statuses are distinct 2xx codes, the fixed headers can override neither the authorization nor the
  content type, and the body bounds agree with the body modes.\<close>

theorem NewOperation_accepts_iff_wf: "NewOperation spec = Inr op \<longleftrightarrow> op = spec \<and> operation_wf spec"
  by (auto simp: NewOperation_def validate_iff_wf)

text \<open>the built-in catalogue is sound: start-up cannot panic on it, identifiers are distinct, every
  operation names a registered bucket, the buckets are valid and distinct, and no mutation of the
  catalogue is retried automatically.\<close>

theorem content_catalogue_sound:
  "(\<forall>op \<in> set content_operations.
      NewOperation op = Inr op \<and> op_BucketID op \<in> set (map bs_ID contentBucketSpecs) \<and>
      (op_Kind op = OperationKindMutation \<longrightarrow> \<not> AllowsRetry (op_RetryMode op))) \<and>
   distinct (map op_ID content_operations) \<and>
   (\<forall>spec \<in> set contentBucketSpecs. BucketSpec_Validate spec = None) \<and>
   distinct (map bs_ID contentBucketSpecs)"
proof -
  have "list_all (\<lambda>op. op_Kind op = OperationKindMutation \<longrightarrow> \<not> AllowsRetry (op_RetryMode op)) content_operations"
    by code_simp
  with content_operations_valid content_operation_ids_distinct content_operation_buckets content_buckets_valid
  show ?thesis unfolding list_all_iff NewOperation_def by simp
qed

theorem content_catalogue_sound_witness:
  "NewOperation uploadCardsOperation = Inr uploadCardsOperation \<and>
   \<not> AllowsRetry (op_RetryMode uploadCardsOperation)"
proof -
  have "uploadCardsOperation \<in> set content_operations" by (simp add: content_operations_def)
  moreover have "op_Kind uploadCardsOperation = OperationKindMutation"
    by (simp add: uploadCardsOperation_def mutationPostJSON_def)
  ultimately show ?thesis using content_catalogue_sound by blast
qed

text \<open>The two operations built per call succeed exactly for positive identifiers (and, for media,
  a photo number up to the limit), and then the subject or card they were asked for is the one in
  the request.\<close>

theorem per_call_operations:
  "(SubjectCharacteristicsOperation n =
      (if 0 < n then Inr (safeGetJSON ''content.object.characteristics''
          (''/content/v2/object/charcs/'' @ format_int n) ''content_common'' (4 * mebibyte))
       else Inl (opErr ''subject ID must be positive''))) \<and>
   ((\<exists>op. UploadMediaFileOperation nm k = Inr op) \<longleftrightarrow> 0 < nm \<and> 0 < k \<and> k \<le> MaxMediaImages) \<and>
   (\<forall>op. UploadMediaFileOperation nm k = Inr op \<longrightarrow>
      op_Headers op = [(''X-Nm-Id'', [format_int nm]), (''X-Photo-Number'', [format_int k])] \<and>
      \<not> AllowsRetry (op_RetryMode op))"
proof -
  have "\<not> AllowsRetry (op_RetryMode (UploadMediaFile_spec nm k))"
    by (simp add: UploadMediaFile_spec_def AllowsRetry_def mode_defs)
  moreover have "op_Headers (UploadMediaFile_spec nm k) =
      [(''X-Nm-Id'', [format_int nm]), (''X-Photo-Number'', [format_int k])]"
    by (simp add: UploadMediaFile_spec_def)
  ultimately show ?thesis
    using media_file_spec_wf [of nm k] subject_spec_wf [of n]
    unfolding SubjectCharacteristicsOperation_def UploadMediaFileOperation_def NewOperation_def
    by (auto simp: validate_iff_wf [symmetric])
qed

theorem per_call_operations_witness:
  "\<exists>op. UploadMediaFileOperation 123 1 = Inr op \<and> \<not> AllowsRetry (op_RetryMode op)"
proof -
  have "(0::int) < 123 \<and> (0::int) < 1 \<and> 1 \<le> MaxMediaImages" by (simp add: MaxMediaImages_def)
  then show ?thesis using per_call_operations [of 1 123 1] by blast
qed

end
