(* ===== verification/FlowControl.thy ===== *)
theory FlowControl
  imports WbPolicy
begin

text \<open>
  Flow control towards WB, the sequential part: the retry back-off
  (\<open>internal/core/transport/wb/flowcontrol/backoff.go\<close>) and the rate-limit headers of a response
  (\<open>response.go\<close>). Durations are nanoseconds; the code's overflow checks are kept and shown to be
  exact. \<open>http.ParseTime\<close> is an argument of the definitions that use it.
\<close>

section \<open>Back-off\<close>

definition DefaultRetryBaseDelay :: int where "DefaultRetryBaseDelay = 500 * millisecond"

definition backoff_validate :: "int \<Rightarrow> goerr option" where
  "backoff_validate baseDelay =
     (if baseDelay \<le> 0 then Some (GoErr NoSentinel ''backoff base delay must be positive'') else None)"

definition NewBackoff :: "int \<Rightarrow> int result" where
  "NewBackoff baseDelay = guard (backoff_validate baseDelay) (Inr baseDelay)"

text \<open>The doubling loop: \<open>k\<close> further doublings are due.\<close>

fun backoff_loop :: "nat \<Rightarrow> int \<Rightarrow> int result" where
  "backoff_loop 0 delay = Inr delay"
| "backoff_loop (Suc k) delay =
     (if go_div max_int64 2 < delay then Inl (GoErr NoSentinel ''backoff delay overflows for retry number'')
      else backoff_loop k (wrap64 (delay * 2)))"

definition backoff_delay :: "int \<Rightarrow> int \<Rightarrow> int \<Rightarrow> int result" where
  "backoff_delay baseDelay retryNumber retryAfter =
     guard (backoff_validate baseDelay)
      (if retryNumber \<le> 0 then Inl (GoErr NoSentinel ''backoff retry number must be positive'')
       else rbind (backoff_loop (nat (retryNumber - 1)) baseDelay)
        (\<lambda>delay. Inr (if delay < retryAfter then retryAfter else delay)))"

lemma half_max_int64: "go_div max_int64 2 < d \<longleftrightarrow> max_int64 < 2 * d"
proof -
  have "go_div max_int64 2 = 4611686018427387903" by (simp add: max_int64_def go_div_def)
  then show ?thesis by (auto simp: max_int64_def)
qed

lemma backoff_loop_exact:
  "0 < d \<Longrightarrow> d \<le> max_int64 \<Longrightarrow>
     backoff_loop k d =
       (if d * 2 ^ k \<le> max_int64 then Inr (d * 2 ^ k)
        else Inl (GoErr NoSentinel ''backoff delay overflows for retry number''))"
proof (induction k arbitrary: d)
  case 0
  then show ?case by simp
next
  case (Suc k)
  show ?case
  proof (cases "max_int64 < 2 * d")
    case True
    have "(1::int) \<le> 2 ^ k" by simp
    then have "2 * d \<le> d * 2 ^ Suc k" using Suc.prems(1) by (simp add: mult_le_cancel_left1)
    with True half_max_int64 show ?thesis by simp
  next
    case False
    then have "wrap64 (d * 2) = d * 2"
      using Suc.prems by (intro wrap64_id) (simp add: int64_range_def mult.commute)
    with False half_max_int64 Suc.IH [of "d * 2"] Suc.prems show ?thesis by (simp add: mult.assoc)
  qed
qed

section \<open>Rate-limit headers\<close>

record response_rate_limits =
  rl_statusCode :: int
  rl_remaining :: "int option"
  rl_retryAfter :: "int option"
  rl_limit :: "int option"

definition header_Values :: "http_header \<Rightarrow> string \<Rightarrow> string list" where
  "header_Values header name = (case map_of header name of None \<Rightarrow> [] | Some vs \<Rightarrow> vs)"

text \<open>\<open>strings.Trim(value, " \\t")\<close>.\<close>

definition trim_blank :: "string \<Rightarrow> string" where
  "trim_blank s =
     rev (dropWhile (\<lambda>c. c = CHR 0x20 \<or> c = CHR 0x09) (rev (dropWhile (\<lambda>c. c = CHR 0x20 \<or> c = CHR 0x09) s)))"

definition singleHeaderValue :: "http_header \<Rightarrow> string \<Rightarrow> string option result" where
  "singleHeaderValue header name =
     (let values = header_Values header name in
      if values = [] then Inr None
      else if length values \<noteq> 1 then Inl (GoErr NoSentinel ''WB response header must have one value'')
      else (let value = trim_blank (hd values) in
            if value = [] then Inl (GoErr NoSentinel ''WB response header is empty'') else Inr (Some value)))"

definition containsOnlyDecimalDigits :: "string \<Rightarrow> bool" where
  "containsOnlyDecimalDigits value \<longleftrightarrow> value \<noteq> [] \<and> list_all is_digit value"

definition max_uint64 :: int where "max_uint64 = 18446744073709551615"

definition parseHeaderUint :: "string \<Rightarrow> int result" where
  "parseHeaderUint value =
     (if \<not> containsOnlyDecimalDigits value
      then Inl (GoErr NoSentinel ''WB response header must contain decimal digits'')
      else if max_uint64 < decimal_value value
      then Inl (GoErr NoSentinel ''WB response header exceeds uint64 range'')
      else Inr (decimal_value value))"

definition parseOptionalIntHeader :: "http_header \<Rightarrow> string \<Rightarrow> int option result" where
  "parseOptionalIntHeader header name =
     rbind (singleHeaderValue header name) (\<lambda>value.
       case value of
         None \<Rightarrow> Inr None
       | Some v \<Rightarrow> rbind (parseHeaderUint v) (\<lambda>parsed.
           if max_int64 < parsed then Inl (GoErr NoSentinel ''WB response header exceeds int range'')
           else Inr (Some parsed)))"

definition parseDurationSeconds :: "string \<Rightarrow> int result" where
  "parseDurationSeconds value =
     rbind (parseHeaderUint value) (\<lambda>seconds.
       if go_div max_int64 second < seconds
       then Inl (GoErr NoSentinel ''WB response header exceeds duration range'')
       else Inr (wrap64 (seconds * second)))"

definition parseOptionalDurationHeader :: "http_header \<Rightarrow> string \<Rightarrow> int option result" where
  "parseOptionalDurationHeader header name =
     rbind (singleHeaderValue header name) (\<lambda>value.
       case value of
         None \<Rightarrow> Inr None
       | Some v \<Rightarrow> rbind (parseDurationSeconds v) (\<lambda>d. Inr (Some d)))"

text \<open>\<open>Time.Sub\<close> saturates at the ends of the duration range.\<close>

definition time_sub :: "int \<Rightarrow> int \<Rightarrow> int" where
  "time_sub t u = max (- max_int64 - 1) (min max_int64 (t - u))"

definition parseOptionalRetryAfterHeader ::
  "(string \<Rightarrow> int option) \<Rightarrow> http_header \<Rightarrow> int \<Rightarrow> int option result" where
  "parseOptionalRetryAfterHeader parseTime header now =
     rbind (singleHeaderValue header ''Retry-After'') (\<lambda>value.
       case value of
         None \<Rightarrow> Inr None
       | Some v \<Rightarrow>
           if containsOnlyDecimalDigits v then rbind (parseDurationSeconds v) (\<lambda>d. Inr (Some d))
           else (case parseTime v of
                   None \<Rightarrow> Inl (GoErr NoSentinel
                      ''WB response header must contain decimal seconds or an HTTP date'')
                 | Some retryAt \<Rightarrow>
                     (let result = time_sub retryAt now in Inr (Some (if result < 0 then 0 else result)))))"

definition longerDuration :: "int option \<Rightarrow> int option \<Rightarrow> int option" where
  "longerDuration first other =
     (case first of
        None \<Rightarrow> other
      | Some a \<Rightarrow> (case other of None \<Rightarrow> Some a | Some b \<Rightarrow> Some (if a < b then b else a)))"

definition parseRetryAfterHeaders ::
  "(string \<Rightarrow> int option) \<Rightarrow> http_header \<Rightarrow> int \<Rightarrow> int option result" where
  "parseRetryAfterHeaders parseTime header now =
     rbind (parseOptionalDurationHeader header ''X-Ratelimit-Retry'') (\<lambda>wbRetryAfter.
     rbind (parseOptionalRetryAfterHeader parseTime header now) (\<lambda>retryAfter.
       Inr (longerDuration wbRetryAfter retryAfter)))"

definition parseResponseRateLimits ::
  "(string \<Rightarrow> int option) \<Rightarrow> int \<Rightarrow> int \<times> http_header \<Rightarrow> response_rate_limits result" where
  "parseResponseRateLimits parseTime now response =
     (case response of (status, header) \<Rightarrow>
       rbind (parseOptionalIntHeader header ''X-Ratelimit-Remaining'') (\<lambda>remaining.
       rbind (parseRetryAfterHeaders parseTime header now) (\<lambda>retryAfter.
       rbind (parseOptionalIntHeader header ''X-Ratelimit-Limit'') (\<lambda>limit.
         Inr \<lparr>rl_statusCode = status, rl_remaining = remaining, rl_retryAfter = retryAfter,
              rl_limit = limit\<rparr>))))"

lemma decimal_value_nonneg: "list_all is_digit s \<Longrightarrow> 0 \<le> decimal_value s"
proof -
  have "list_all is_digit s \<Longrightarrow> 0 \<le> n \<Longrightarrow> 0 \<le> foldl (\<lambda>n c. 10 * n + digit_value c) n s" for n
    by (induction s arbitrary: n) (auto simp: is_digit_def digit_value_def)
  then show "list_all is_digit s \<Longrightarrow> ?thesis" by (simp add: decimal_value_def)
qed

lemma parseHeaderUint_bounds: "parseHeaderUint v = Inr n \<Longrightarrow> 0 \<le> n \<and> n \<le> max_uint64"
  by (auto simp: parseHeaderUint_def containsOnlyDecimalDigits_def decimal_value_nonneg split: if_splits)

lemma parseDurationSeconds_bounds: "parseDurationSeconds v = Inr d \<Longrightarrow> 0 \<le> d \<and> d \<le> max_int64"
proof -
  assume "parseDurationSeconds v = Inr d"
  then obtain n where n: "parseHeaderUint v = Inr n" "n \<le> go_div max_int64 second"
    and d: "d = wrap64 (n * second)"
    by (auto simp: parseDurationSeconds_def rbind_eq_Inr_iff split: if_splits)
  from parseHeaderUint_bounds [OF n(1)] have "0 \<le> n" by simp
  moreover have "go_div max_int64 second = 9223372036"
    by (simp add: go_div_def max_int64_def second_def millisecond_def)
  ultimately have "0 \<le> n * second" "n * second \<le> max_int64"
    using n(2) by (simp_all add: second_def millisecond_def max_int64_def)
  with d show ?thesis by (simp add: wrap64_id int64_range_def max_int64_def)
qed

lemma parseOptionalIntHeader_bounds:
  "parseOptionalIntHeader header name = Inr (Some n) \<Longrightarrow> 0 \<le> n \<and> n \<le> max_int64"
  by (auto simp: parseOptionalIntHeader_def rbind_eq_Inr_iff dest: parseHeaderUint_bounds
      split: option.splits if_splits)

lemma parseOptionalDurationHeader_bounds:
  "parseOptionalDurationHeader header name = Inr (Some d) \<Longrightarrow> 0 \<le> d \<and> d \<le> max_int64"
  by (auto simp: parseOptionalDurationHeader_def rbind_eq_Inr_iff dest: parseDurationSeconds_bounds
      split: option.splits)

lemma time_sub_le: "time_sub t u \<le> max_int64"
  by (simp add: time_sub_def max_int64_def)

lemma parseOptionalRetryAfterHeader_bounds:
  assumes "parseOptionalRetryAfterHeader parseTime header now = Inr (Some d)"
  shows "0 \<le> d \<and> d \<le> max_int64"
proof -
  from assms obtain v where v: "singleHeaderValue header ''Retry-After'' = Inr (Some v)"
    by (auto simp: parseOptionalRetryAfterHeader_def rbind_eq_Inr_iff split: option.splits)
  show ?thesis
  proof (cases "containsOnlyDecimalDigits v")
    case True
    with assms v show ?thesis
      by (auto simp: parseOptionalRetryAfterHeader_def rbind_eq_Inr_iff dest: parseDurationSeconds_bounds)
  next
    case False
    with assms v obtain retryAt where "d = (if time_sub retryAt now < 0 then 0 else time_sub retryAt now)"
      by (auto simp: parseOptionalRetryAfterHeader_def Let_def split: option.splits)
    then show ?thesis using time_sub_le [of retryAt now] by (simp add: max_int64_def)
  qed
qed

lemma longerDuration_Some:
  "longerDuration a b = Some d \<Longrightarrow> a = Some d \<or> b = Some d"
  by (auto simp: longerDuration_def split: option.splits if_splits)

lemma longerDuration_upper:
  "longerDuration a b = Some d \<Longrightarrow> (\<forall>x. a = Some x \<longrightarrow> x \<le> d) \<and> (\<forall>x. b = Some x \<longrightarrow> x \<le> d)"
  by (auto simp: longerDuration_def split: option.splits if_splits)

section \<open>Properties\<close>

text \<open>C17: the back-off is exactly exponential and its overflow check is exact. For a positive base delay
  and the \<open>n\<close>-th retry it waits the larger of the server's request and \<open>base * 2 ^ (n - 1)\<close>
  nanoseconds; it reports an overflow precisely when that product does not fit in an \<open>int64\<close>.\<close>

theorem backoff_delay_exact:
  assumes "0 < base" "base \<le> max_int64" "0 < n"
  shows "backoff_delay base n retryAfter =
    (if base * 2 ^ nat (n - 1) \<le> max_int64 then Inr (max (base * 2 ^ nat (n - 1)) retryAfter)
     else Inl (GoErr NoSentinel ''backoff delay overflows for retry number''))"
  using assms by (simp add: backoff_delay_def backoff_validate_def backoff_loop_exact max_def)

theorem backoff_delay_exact_witness:
  "backoff_delay DefaultRetryBaseDelay 2 0 = Inr 1000000000"
  using backoff_delay_exact [of DefaultRetryBaseDelay 2 0]
  by (simp add: DefaultRetryBaseDelay_def millisecond_def max_int64_def)

text \<open>whatever headers WB sends, an accepted set of rate limits is in range: counters are
  non-negative \<open>int\<close> values, the retry delay is a non-negative duration, and it is at least the delay
  of each of the two headers it is taken from.\<close>

theorem parsed_rate_limits_in_range:
  assumes "parseResponseRateLimits parseTime now (status, header) = Inr limits"
  shows "rl_statusCode limits = status \<and>
    (\<forall>n. rl_remaining limits = Some n \<longrightarrow> 0 \<le> n \<and> n \<le> max_int64) \<and>
    (\<forall>n. rl_limit limits = Some n \<longrightarrow> 0 \<le> n \<and> n \<le> max_int64) \<and>
    (\<forall>d. rl_retryAfter limits = Some d \<longrightarrow> 0 \<le> d \<and> d \<le> max_int64 \<and>
       (\<forall>x. parseOptionalDurationHeader header ''X-Ratelimit-Retry'' = Inr (Some x) \<longrightarrow> x \<le> d) \<and>
       (\<forall>x. parseOptionalRetryAfterHeader parseTime header now = Inr (Some x) \<longrightarrow> x \<le> d))"
proof -
  from assms obtain rem wb ra lim where
    rem: "parseOptionalIntHeader header ''X-Ratelimit-Remaining'' = Inr rem" and
    wb: "parseOptionalDurationHeader header ''X-Ratelimit-Retry'' = Inr wb" and
    ra: "parseOptionalRetryAfterHeader parseTime header now = Inr ra" and
    lim: "parseOptionalIntHeader header ''X-Ratelimit-Limit'' = Inr lim" and
    limits: "limits = \<lparr>rl_statusCode = status, rl_remaining = rem, rl_retryAfter = longerDuration wb ra, rl_limit = lim\<rparr>"
    by (auto simp: parseResponseRateLimits_def parseRetryAfterHeaders_def rbind_eq_Inr_iff)
  have "0 \<le> d \<and> d \<le> max_int64" if "longerDuration wb ra = Some d" for d
    using longerDuration_Some [OF that] wb ra parseOptionalDurationHeader_bounds
      parseOptionalRetryAfterHeader_bounds by blast
  with rem lim limits wb ra show ?thesis
    using parseOptionalIntHeader_bounds longerDuration_upper by fastforce
qed

theorem parsed_rate_limits_in_range_witness:
  "\<exists>limits. parseResponseRateLimits (\<lambda>_. None) 0 (429, [(''Retry-After'', ['' 12 ''])]) = Inr limits \<and>
     rl_retryAfter limits = Some 12000000000 \<and> rl_statusCode limits = 429"
proof -
  have p: "parseResponseRateLimits (\<lambda>_. None) 0 (429, [(''Retry-After'', ['' 12 ''])]) =
      Inr \<lparr>rl_statusCode = 429, rl_remaining = None, rl_retryAfter = Some 12000000000, rl_limit = None\<rparr>"
    by code_simp
  from parsed_rate_limits_in_range [OF p] p show ?thesis by simp
qed

end
