(* ===== verification/Limiter.thy ===== *)
theory Limiter
  imports FlowControl
begin

text \<open>
  The rate limiter of one bucket (\<open>internal/core/transport/wb/flowcontrol/limiter.go\<close>) and the registry
  of limiters (\<open>registry.go\<close>).

  The token bucket itself is the third-party package \<open>golang.org/x/time/rate\<close>: its state and its
  operations are the parameter \<open>rate_ops\<close> of the definitions. What the code relies on is the
  hypothesis \<open>token_bucket_law\<close>: a reservation of at most the burst succeeds and consumes its tokens,
  and a bucket never holds more than the burst.

  Every operation runs under the limiter's mutex, so it is a function from the limiter to the limiter
  it leaves behind and its result; on the error paths the state the code has already changed is
  returned too. \<open>Wait\<close> is concurrent: its goroutines are a step relation over a shared system state
  with the waiter channel, the admission token and the limiter.
\<close>

section \<open>The token bucket\<close>

record ('tb, 'r) rate_ops =
  NewTokenBucket :: "int \<Rightarrow> int \<Rightarrow> 'tb"
  TokensAt :: "'tb \<Rightarrow> int \<Rightarrow> rat"
  AllowN :: "'tb \<Rightarrow> int \<Rightarrow> int \<Rightarrow> bool \<times> 'tb"
  ReserveN :: "'tb \<Rightarrow> int \<Rightarrow> int \<Rightarrow> ('r \<times> 'tb) option"
  DelayFrom :: "'r \<Rightarrow> int \<Rightarrow> int"
  CancelAt :: "'r \<Rightarrow> int \<Rightarrow> 'tb \<Rightarrow> 'tb"

definition token_bucket_law :: "('tb, 'r) rate_ops \<Rightarrow> int \<Rightarrow> bool" where
  "token_bucket_law R burst \<longleftrightarrow>
     (\<forall>tb now. TokensAt R tb now \<le> of_int burst) \<and>
     (\<forall>tb now n. 0 < n \<longrightarrow> n \<le> burst \<longrightarrow>
        (\<exists>r tb'. ReserveN R tb now n = Some (r, tb') \<and> TokensAt R tb' now = TokensAt R tb now - of_int n))"

section \<open>Operations under the mutex\<close>

record 'tb limiter =
  lim_tokenBucket :: 'tb
  lim_interval :: int
  lim_burst :: int
  lim_blockedUntil :: int

definition errLimiterReservationFailed :: goerr where
  "errLimiterReservationFailed = GoErr NoSentinel ''rate limiter could not reserve a request token''"

definition ErrLimiterQueueFull :: goerr where
  "ErrLimiterQueueFull = GoErr ErrQueueFull ''rate limiter wait queue is full''"

definition NewLimiter :: "('tb, 'r) rate_ops \<Rightarrow> bucket_spec \<Rightarrow> 'tb limiter result" where
  "NewLimiter R spec =
     guard (BucketSpec_Validate spec)
      (Inr \<lparr>lim_tokenBucket = NewTokenBucket R (bs_Interval spec) (bs_Burst spec),
            lim_interval = bs_Interval spec, lim_burst = bs_Burst spec, lim_blockedUntil = 0\<rparr>)"

definition clampRemainingLocked ::
  "('tb, 'r) rate_ops \<Rightarrow> 'tb limiter \<Rightarrow> int \<Rightarrow> int \<Rightarrow> 'tb limiter \<times> goerr option" where
  "clampRemainingLocked R lm now remaining0 =
     (let remaining1 = (if remaining0 < 0 then 0 else remaining0);
          remaining = (if lim_burst lm < remaining1 then lim_burst lm else remaining1);
          tokens = TokensAt R (lim_tokenBucket lm) now
      in if tokens \<le> of_int remaining then (lm, None)
         else (let consume0 = \<lceil>tokens - of_int remaining\<rceil> in
               if consume0 \<le> 0 then (lm, None)
               else (let consume = (if lim_burst lm < consume0 then lim_burst lm else consume0) in
                     case ReserveN R (lim_tokenBucket lm) now consume of
                       None \<Rightarrow> (lm, Some errLimiterReservationFailed)
                     | Some (r, tb') \<Rightarrow> (lm\<lparr>lim_tokenBucket := tb'\<rparr>, None))))"

definition blockDelayLocked ::
  "('tb, 'r) rate_ops \<Rightarrow> 'tb limiter \<Rightarrow> int \<Rightarrow> int \<Rightarrow> 'tb limiter \<times> int result" where
  "blockDelayLocked R lm now remainingAfterBlock =
     (if lim_blockedUntil lm = 0 then (lm, Inr 0)
      else if now < lim_blockedUntil lm then (lm, Inr (time_sub (lim_blockedUntil lm) now))
      else (case clampRemainingLocked R (lm\<lparr>lim_blockedUntil := 0\<rparr>) now remainingAfterBlock of
              (lm', None) \<Rightarrow> (lm', Inr 0)
            | (lm', Some e) \<Rightarrow> (lm', Inl e)))"

definition tryAllowNow :: "('tb, 'r) rate_ops \<Rightarrow> 'tb limiter \<Rightarrow> int \<Rightarrow> 'tb limiter \<times> bool result" where
  "tryAllowNow R lm now =
     (case blockDelayLocked R lm now 1 of
        (lm', Inl e) \<Rightarrow> (lm', Inl e)
      | (lm', Inr blockDelay) \<Rightarrow>
          if 0 < blockDelay then (lm', Inr False)
          else (case AllowN R (lim_tokenBucket lm') now 1 of
                  (ok, tb') \<Rightarrow> (lm'\<lparr>lim_tokenBucket := tb'\<rparr>, Inr ok)))"

datatype 'r reserve_outcome = ReserveFailed goerr | ReserveBlocked int | Reserved 'r int

definition reserveToken ::
  "('tb, 'r) rate_ops \<Rightarrow> 'tb limiter \<Rightarrow> int \<Rightarrow> 'tb limiter \<times> 'r reserve_outcome" where
  "reserveToken R lm now =
     (case blockDelayLocked R lm now 1 of
        (lm', Inl e) \<Rightarrow> (lm', ReserveFailed e)
      | (lm', Inr blockDelay) \<Rightarrow>
          if 0 < blockDelay then (lm', ReserveBlocked blockDelay)
          else (case ReserveN R (lim_tokenBucket lm') now 1 of
                  None \<Rightarrow> (lm', ReserveFailed errLimiterReservationFailed)
                | Some (r, tb') \<Rightarrow> (lm'\<lparr>lim_tokenBucket := tb'\<rparr>, Reserved r (DelayFrom R r now))))"

definition observe ::
  "('tb, 'r) rate_ops \<Rightarrow> 'tb limiter \<Rightarrow> int \<Rightarrow> response_rate_limits \<Rightarrow> 'tb limiter \<times> goerr option" where
  "observe R lm now limits =
     (if rl_statusCode limits = 429 then
        (let blockDuration =
               (case rl_retryAfter limits of
                  Some d \<Rightarrow> if 0 < d then d else lim_interval lm | None \<Rightarrow> lim_interval lm);
             blockedUntil = now + blockDuration;
             lm' = (if lim_blockedUntil lm < blockedUntil then lm\<lparr>lim_blockedUntil := blockedUntil\<rparr> else lm)
         in clampRemainingLocked R lm' now 0)
      else
        (case rl_remaining limits of
           None \<Rightarrow> (lm, None)
         | Some remaining \<Rightarrow>
             clampRemainingLocked R lm now
              (case rl_limit limits of Some cap \<Rightarrow> if cap < remaining then cap else remaining | None \<Rightarrow> remaining)))"

section \<open>What the operations guarantee\<close>

lemma clamp_frame:
  "clampRemainingLocked R lm now n = (lm', e) \<Longrightarrow>
     lim_interval lm' = lim_interval lm \<and> lim_burst lm' = lim_burst lm \<and>
     lim_blockedUntil lm' = lim_blockedUntil lm"
  by (auto simp: clampRemainingLocked_def Let_def split: if_splits option.splits)

lemma clamp_bound:
  assumes law: "token_bucket_law R (lim_burst lm)" and burst: "0 < lim_burst lm"
    and c: "clampRemainingLocked R lm now n = (lm', e)"
  shows "e = None \<and> TokensAt R (lim_tokenBucket lm') now \<le> of_int (min (lim_burst lm) (max 0 n))"
proof -
  define rem where "rem = min (lim_burst lm) (max 0 n)"
  let ?t = "TokensAt R (lim_tokenBucket lm) now"
  have rem: "(if lim_burst lm < (if n < 0 then 0 else n) then lim_burst lm else (if n < 0 then 0 else n)) = rem"
    using burst by (auto simp: rem_def min_def max_def)
  have rem0: "0 \<le> rem" using burst by (simp add: rem_def)
  show ?thesis
  proof (cases "?t \<le> of_int rem")
    case True
    with c have "lm' = lm" "e = None" by (simp_all add: clampRemainingLocked_def Let_def rem)
    with True show ?thesis by (simp add: rem_def)
  next
    case False
    have pos: "0 < \<lceil>?t - of_int rem\<rceil>" using False by (simp add: less_ceiling_iff)
    have "?t \<le> of_int (lim_burst lm)" using law by (simp add: token_bucket_law_def)
    moreover have "(0::rat) \<le> of_int rem" using rem0 by simp
    ultimately have "?t - of_int rem \<le> of_int (lim_burst lm)" by linarith
    then have le: "\<lceil>?t - of_int rem\<rceil> \<le> lim_burst lm" by (simp only: ceiling_le_iff)
    with pos law obtain r tb' where
      r: "ReserveN R (lim_tokenBucket lm) now \<lceil>?t - of_int rem\<rceil> = Some (r, tb')"
      and t: "TokensAt R tb' now = ?t - of_int \<lceil>?t - of_int rem\<rceil>"
      unfolding token_bucket_law_def by blast
    from c False pos le r have "lm' = lm\<lparr>lim_tokenBucket := tb'\<rparr>" "e = None"
      by (auto simp: clampRemainingLocked_def Let_def rem)
    moreover have "TokensAt R tb' now \<le> of_int rem" using t le_of_int_ceiling [of "?t - of_int rem"] by simp
    ultimately show ?thesis by (simp add: rem_def)
  qed
qed

lemma blockDelay_zero_imp:
  "blockDelayLocked R lm now n = (lm', Inr d) \<Longrightarrow> d \<le> 0 \<Longrightarrow>
     lim_blockedUntil lm = 0 \<or> lim_blockedUntil lm \<le> now"
  by (auto simp: blockDelayLocked_def time_sub_def max_int64_def split: if_splits prod.splits option.splits)

lemma tryAllowNow_unblocked:
  "tryAllowNow R lm now = (lm', Inr True) \<Longrightarrow> lim_blockedUntil lm = 0 \<or> lim_blockedUntil lm \<le> now"
  by (auto simp: tryAllowNow_def split: prod.splits sum.splits if_splits dest: blockDelay_zero_imp)

lemma tryAllowNow_blocked:
  "lim_blockedUntil lm \<noteq> 0 \<Longrightarrow> now < lim_blockedUntil lm \<Longrightarrow> tryAllowNow R lm now = (lm, Inr False)"
  by (simp add: tryAllowNow_def blockDelayLocked_def time_sub_def max_int64_def)

section \<open>Wait: goroutines sharing one limiter\<close>

text \<open>Where a goroutine is inside \<open>Wait\<close>: before its fast path, holding a place in the waiter channel,
  at the top of the admission loop, sleeping for its reservation, in \<open>waitForServerBlock\<close>, or
  returned with an error or \<open>nil\<close>. From \<open>AtLoop\<close> to \<open>AtServerBlock\<close> it also holds the admission token.\<close>

datatype 'r wait_pc =
    AtStart | AtAdmission | AtLoop | AtReservation 'r | AtServerBlock | Returned "goerr option"

record ('tb, 'r) wait_sys =
  ws_limiter :: "'tb limiter"
  ws_waiters :: nat
  ws_admission :: nat
  ws_pc :: "nat \<Rightarrow> 'r wait_pc"

definition ctx_err :: "goerr \<Rightarrow> bool" where
  "ctx_err e \<longleftrightarrow> err_sentinel e = ContextCanceled \<or> err_sentinel e = ContextDeadlineExceeded"

definition goto :: "nat \<Rightarrow> 'r wait_pc \<Rightarrow> ('tb, 'r) wait_sys \<Rightarrow> ('tb, 'r) wait_sys" where
  "goto i pc s = s\<lparr>ws_pc := (ws_pc s)(i := pc)\<rparr>"

definition acquireWaiter :: "('tb, 'r) wait_sys \<Rightarrow> ('tb, 'r) wait_sys" where
  "acquireWaiter s = s\<lparr>ws_waiters := Suc (ws_waiters s)\<rparr>"

definition releaseWaiter :: "('tb, 'r) wait_sys \<Rightarrow> ('tb, 'r) wait_sys" where
  "releaseWaiter s = s\<lparr>ws_waiters := ws_waiters s - 1\<rparr>"

definition acquireAdmission :: "('tb, 'r) wait_sys \<Rightarrow> ('tb, 'r) wait_sys" where
  "acquireAdmission s = s\<lparr>ws_admission := ws_admission s - 1\<rparr>"

definition releaseAdmission :: "('tb, 'r) wait_sys \<Rightarrow> ('tb, 'r) wait_sys" where
  "releaseAdmission s = s\<lparr>ws_admission := Suc (ws_admission s)\<rparr>"

abbreviation set_limiter :: "'tb limiter \<Rightarrow> ('tb, 'r) wait_sys \<Rightarrow> ('tb, 'r) wait_sys" where
  "set_limiter lm s \<equiv> s\<lparr>ws_limiter := lm\<rparr>"

text \<open>The two deferred releases run together when an admitted goroutine returns.\<close>

definition return_admitted :: "nat \<Rightarrow> goerr option \<Rightarrow> ('tb, 'r) wait_sys \<Rightarrow> ('tb, 'r) wait_sys" where
  "return_admitted i e s = goto i (Returned e) (releaseWaiter (releaseAdmission s))"

text \<open>One step of goroutine \<open>i\<close> at time \<open>now\<close>; \<open>cap\<close> is the capacity of the waiter channel. Waiting on a
  timer is stuttering: the goroutine takes its next step at a later \<open>now\<close>.\<close>

inductive wait_step ::
  "('tb, 'r) rate_ops \<Rightarrow> nat \<Rightarrow> int \<Rightarrow> nat \<Rightarrow> ('tb, 'r) wait_sys \<Rightarrow> ('tb, 'r) wait_sys \<Rightarrow> bool"
  for R :: "('tb, 'r) rate_ops" and cap :: nat where
  start_canceled: "ws_pc s i = AtStart \<Longrightarrow> ctx_err e \<Longrightarrow> wait_step R cap now i s (goto i (Returned (Some e)) s)"
| fast_failed: "ws_pc s i = AtStart \<Longrightarrow> tryAllowNow R (ws_limiter s) now = (lm, Inl e) \<Longrightarrow>
     wait_step R cap now i s (goto i (Returned (Some e)) (set_limiter lm s))"
| fast_granted: "ws_pc s i = AtStart \<Longrightarrow> tryAllowNow R (ws_limiter s) now = (lm, Inr True) \<Longrightarrow>
     wait_step R cap now i s (goto i (Returned None) (set_limiter lm s))"
| enter_queue: "ws_pc s i = AtStart \<Longrightarrow> tryAllowNow R (ws_limiter s) now = (lm, Inr False) \<Longrightarrow>
     ws_waiters s < cap \<Longrightarrow>
     wait_step R cap now i s (goto i AtAdmission (acquireWaiter (set_limiter lm s)))"
| queue_full: "ws_pc s i = AtStart \<Longrightarrow> tryAllowNow R (ws_limiter s) now = (lm, Inr False) \<Longrightarrow>
     cap \<le> ws_waiters s \<Longrightarrow>
     wait_step R cap now i s (goto i (Returned (Some ErrLimiterQueueFull)) (set_limiter lm s))"
| enter_canceled: "ws_pc s i = AtStart \<Longrightarrow> tryAllowNow R (ws_limiter s) now = (lm, Inr False) \<Longrightarrow>
     ctx_err e \<Longrightarrow> wait_step R cap now i s (goto i (Returned (Some e)) (set_limiter lm s))"
| admit: "ws_pc s i = AtAdmission \<Longrightarrow> 0 < ws_admission s \<Longrightarrow>
     wait_step R cap now i s (goto i AtLoop (acquireAdmission s))"
| admission_canceled: "ws_pc s i = AtAdmission \<Longrightarrow> ctx_err e \<Longrightarrow>
     wait_step R cap now i s (goto i (Returned (Some e)) (releaseWaiter s))"
| loop_canceled: "ws_pc s i = AtLoop \<Longrightarrow> ctx_err e \<Longrightarrow>
     wait_step R cap now i s (return_admitted i (Some e) s)"
| reserve_failed: "ws_pc s i = AtLoop \<Longrightarrow> reserveToken R (ws_limiter s) now = (lm, ReserveFailed e) \<Longrightarrow>
     wait_step R cap now i s (return_admitted i (Some e) (set_limiter lm s))"
| reserve_blocked: "ws_pc s i = AtLoop \<Longrightarrow> reserveToken R (ws_limiter s) now = (lm, ReserveBlocked d) \<Longrightarrow>
     wait_step R cap now i s (goto i AtLoop (set_limiter lm s))"
| reserve_now: "ws_pc s i = AtLoop \<Longrightarrow> reserveToken R (ws_limiter s) now = (lm, Reserved r d) \<Longrightarrow> d \<le> 0 \<Longrightarrow>
     wait_step R cap now i s (goto i AtServerBlock (set_limiter lm s))"
| reserve_later: "ws_pc s i = AtLoop \<Longrightarrow> reserveToken R (ws_limiter s) now = (lm, Reserved r d) \<Longrightarrow> 0 < d \<Longrightarrow>
     wait_step R cap now i s (goto i (AtReservation r) (set_limiter lm s))"
| reservation_due: "ws_pc s i = AtReservation r \<Longrightarrow> wait_step R cap now i s (goto i AtServerBlock s)"
| reservation_canceled: "ws_pc s i = AtReservation r \<Longrightarrow> ctx_err e \<Longrightarrow>
     wait_step R cap now i s (return_admitted i (Some e)
       (set_limiter ((ws_limiter s)\<lparr>lim_tokenBucket := CancelAt R r now (lim_tokenBucket (ws_limiter s))\<rparr>) s))"
| block_canceled: "ws_pc s i = AtServerBlock \<Longrightarrow> ctx_err e \<Longrightarrow>
     wait_step R cap now i s (return_admitted i (Some e) s)"
| block_failed: "ws_pc s i = AtServerBlock \<Longrightarrow> blockDelayLocked R (ws_limiter s) now 0 = (lm, Inl e) \<Longrightarrow>
     wait_step R cap now i s (return_admitted i (Some e) (set_limiter lm s))"
| block_over: "ws_pc s i = AtServerBlock \<Longrightarrow> blockDelayLocked R (ws_limiter s) now 0 = (lm, Inr d) \<Longrightarrow> d \<le> 0 \<Longrightarrow>
     wait_step R cap now i s (return_admitted i None (set_limiter lm s))"
| block_wait: "ws_pc s i = AtServerBlock \<Longrightarrow> blockDelayLocked R (ws_limiter s) now 0 = (lm, Inr d) \<Longrightarrow> 0 < d \<Longrightarrow>
     wait_step R cap now i s (goto i AtServerBlock (set_limiter lm s))"
| response_observed: "observe R (ws_limiter s) now limits = (lm, e) \<Longrightarrow>
     wait_step R cap now i s (set_limiter lm s)"

definition wait_init :: "'tb limiter \<Rightarrow> ('tb, 'r) wait_sys" where
  "wait_init lm = \<lparr>ws_limiter = lm, ws_waiters = 0, ws_admission = 1, ws_pc = (\<lambda>_. AtStart)\<rparr>"

inductive wait_reachable :: "('tb, 'r) rate_ops \<Rightarrow> nat \<Rightarrow> ('tb, 'r) wait_sys \<Rightarrow> bool"
  for R :: "('tb, 'r) rate_ops" and cap :: nat where
  init: "wait_reachable R cap (wait_init lm)"
| step: "wait_reachable R cap s \<Longrightarrow> wait_step R cap now i s t \<Longrightarrow> wait_reachable R cap t"

fun holds_admission :: "'r wait_pc \<Rightarrow> bool" where
  "holds_admission AtLoop = True"
| "holds_admission (AtReservation r) = True"
| "holds_admission AtServerBlock = True"
| "holds_admission _ = False"

definition holds_slot :: "'r wait_pc \<Rightarrow> bool" where
  "holds_slot pc \<longleftrightarrow> pc = AtAdmission \<or> holds_admission pc"

definition slot_holders :: "('tb, 'r) wait_sys \<Rightarrow> nat set" where
  "slot_holders s = {i. holds_slot (ws_pc s i)}"

definition admitted :: "('tb, 'r) wait_sys \<Rightarrow> nat set" where
  "admitted s = {i. holds_admission (ws_pc s i)}"

text \<open>The two channels account exactly for the goroutines inside.\<close>

definition wait_inv :: "nat \<Rightarrow> ('tb, 'r) wait_sys \<Rightarrow> bool" where
  "wait_inv cap s \<longleftrightarrow>
     finite (slot_holders s) \<and> ws_waiters s = card (slot_holders s) \<and> ws_waiters s \<le> cap \<and>
     ws_admission s + card (admitted s) = 1"

lemmas wait_ops_defs = goto_def acquireWaiter_def releaseWaiter_def acquireAdmission_def
  releaseAdmission_def return_admitted_def

lemma slot_holders_goto:
  "slot_holders (goto i pc s) = (if holds_slot pc then insert i (slot_holders s) else slot_holders s - {i})"
  by (auto simp: slot_holders_def goto_def)

lemma admitted_goto:
  "admitted (goto i pc s) = (if holds_admission pc then insert i (admitted s) else admitted s - {i})"
  by (auto simp: admitted_def goto_def)

lemma holders_frame [simp]:
  "slot_holders (set_limiter lm s) = slot_holders s" "admitted (set_limiter lm s) = admitted s"
  "slot_holders (acquireWaiter s) = slot_holders s" "admitted (acquireWaiter s) = admitted s"
  "slot_holders (releaseWaiter s) = slot_holders s" "admitted (releaseWaiter s) = admitted s"
  "slot_holders (acquireAdmission s) = slot_holders s" "admitted (acquireAdmission s) = admitted s"
  "slot_holders (releaseAdmission s) = slot_holders s" "admitted (releaseAdmission s) = admitted s"
  by (simp_all add: slot_holders_def admitted_def acquireWaiter_def releaseWaiter_def
      acquireAdmission_def releaseAdmission_def)

lemma admitted_subset: "admitted s \<subseteq> slot_holders s"
  by (auto simp: admitted_def slot_holders_def holds_slot_def)

lemma in_holders:
  "i \<in> slot_holders s \<longleftrightarrow> holds_slot (ws_pc s i)" "i \<in> admitted s \<longleftrightarrow> holds_admission (ws_pc s i)"
  by (simp_all add: slot_holders_def admitted_def)

lemma channels_goto [simp]:
  "ws_waiters (goto i pc s) = ws_waiters s" "ws_admission (goto i pc s) = ws_admission s"
  by (simp_all add: goto_def)

lemma channels_ops [simp]:
  "ws_waiters (acquireWaiter s) = Suc (ws_waiters s)" "ws_admission (acquireWaiter s) = ws_admission s"
  "ws_waiters (releaseWaiter s) = ws_waiters s - 1" "ws_admission (releaseWaiter s) = ws_admission s"
  "ws_waiters (acquireAdmission s) = ws_waiters s" "ws_admission (acquireAdmission s) = ws_admission s - 1"
  "ws_waiters (releaseAdmission s) = ws_waiters s" "ws_admission (releaseAdmission s) = Suc (ws_admission s)"
  by (simp_all add: acquireWaiter_def releaseWaiter_def acquireAdmission_def releaseAdmission_def)

lemma wait_inv_finite: "wait_inv cap s \<Longrightarrow> finite (slot_holders s) \<and> finite (admitted s)"
  using admitted_subset [of s] by (auto simp: wait_inv_def intro: finite_subset)

text \<open>How the invariant survives: a move inside the same region, leaving from the queue, leaving as
  the admitted one.\<close>

lemma inv_same_region:
  assumes "wait_inv cap s" "holds_slot pc = holds_slot (ws_pc s i)"
    "holds_admission pc = holds_admission (ws_pc s i)"
  shows "wait_inv cap (goto i pc (set_limiter lm s))"
  using assms
  by (auto simp: wait_inv_def slot_holders_goto admitted_goto in_holders insert_absorb)

lemma inv_return_admitted:
  assumes inv: "wait_inv cap s" and a: "holds_admission (ws_pc s i)"
  shows "wait_inv cap (return_admitted i e (set_limiter lm s))"
proof -
  have "i \<in> admitted s" "i \<in> slot_holders s" using a by (simp_all add: in_holders holds_slot_def)
  moreover from this have "0 < card (slot_holders s)" "0 < card (admitted s)"
    using wait_inv_finite [OF inv] by (auto simp: card_gt_0_iff)
  ultimately show ?thesis using inv wait_inv_finite [OF inv]
    by (auto simp: wait_inv_def return_admitted_def slot_holders_goto admitted_goto holds_slot_def
        card_Diff_singleton)
qed

lemma wait_step_inv:
  assumes "wait_step R cap now i s t" "wait_inv cap s"
  shows "wait_inv cap t"
  using assms
proof (induction rule: wait_step.induct)
  case (enter_queue s i now lm)
  then have "i \<notin> slot_holders s" "i \<notin> admitted s" by (simp_all add: in_holders holds_slot_def)
  with enter_queue wait_inv_finite [OF enter_queue.prems] show ?case
    by (auto simp: wait_inv_def slot_holders_goto admitted_goto holds_slot_def)
next
  case (admit s i now)
  then have "i \<in> slot_holders s" "i \<notin> admitted s" by (simp_all add: in_holders holds_slot_def)
  moreover from admit have "card (admitted s) = 0" by (simp add: wait_inv_def)
  then have "admitted s = {}" using wait_inv_finite [OF admit.prems] by simp
  ultimately show ?case using admit
    by (simp add: wait_inv_def slot_holders_goto admitted_goto holds_slot_def insert_absorb)
next
  case (admission_canceled s i e now)
  then have "i \<in> slot_holders s" "i \<notin> admitted s" by (simp_all add: in_holders holds_slot_def)
  with admission_canceled wait_inv_finite [OF admission_canceled.prems] show ?case
    by (auto simp: wait_inv_def slot_holders_goto admitted_goto holds_slot_def card_Diff_singleton)
next
  case (response_observed s now limits lm e i)
  then show ?case by (simp add: wait_inv_def)
next
  case (start_canceled s i e now)
  then show ?case using inv_same_region [of cap s "Returned (Some e)" i "ws_limiter s"]
    by (simp add: holds_slot_def)
next
  case (reservation_due s i r now)
  then show ?case using inv_same_region [of cap s AtServerBlock i "ws_limiter s"]
    by (simp add: holds_slot_def)
next
  case (loop_canceled s i e now)
  then show ?case using inv_return_admitted [of cap s i "Some e" "ws_limiter s"] by simp
next
  case (block_canceled s i e now)
  then show ?case using inv_return_admitted [of cap s i "Some e" "ws_limiter s"] by simp
qed (rule inv_same_region inv_return_admitted; simp add: holds_slot_def)+

lemma wait_reachable_inv: "wait_reachable R cap s \<Longrightarrow> wait_inv cap s"
proof (induction rule: wait_reachable.induct)
  case (init lm)
  show ?case by (simp add: wait_inv_def wait_init_def slot_holders_def admitted_def holds_slot_def)
next
  case (step s now i t)
  then show ?case by (blast intro: wait_step_inv)
qed

section \<open>The registry\<close>

record 'tb registry =
  reg_policies :: "string \<rightharpoonup> bucket_spec"
  reg_limiters :: "(string \<times> string) \<rightharpoonup> 'tb limiter"

fun register_policies :: "(string \<rightharpoonup> bucket_spec) \<Rightarrow> bucket_spec list \<Rightarrow> (string \<rightharpoonup> bucket_spec) result" where
  "register_policies policies [] = Inr policies"
| "register_policies policies (spec # specs) =
     guard (BucketSpec_Validate spec)
      (if policies (bs_ID spec) \<noteq> None
       then Inl (GoErr NoSentinel ''duplicate rate limiter bucket ID'')
       else register_policies (policies(bs_ID spec \<mapsto> spec)) specs)"

definition NewRegistry :: "bucket_spec list \<Rightarrow> 'tb registry result" where
  "NewRegistry specs =
     (if specs = [] then Inl (GoErr NoSentinel ''rate limiter registry bucket specs are required'')
      else rbind (register_policies Map.empty specs) (\<lambda>policies.
        Inr \<lparr>reg_policies = policies, reg_limiters = Map.empty\<rparr>))"

text \<open>\<open>Registry.limiter\<close>: find or create the limiter of a cabinet and a bucket.\<close>

definition registry_limiter ::
  "('tb, 'r) rate_ops \<Rightarrow> 'tb registry \<Rightarrow> string \<Rightarrow> string \<Rightarrow> ('tb registry \<times> 'tb limiter) result" where
  "registry_limiter R reg sellerID bucketID =
     (if sellerID = [] then Inl (GoErr NoSentinel ''rate limiter registry seller ID is required'')
      else if bucketID = [] then Inl (GoErr NoSentinel ''rate limiter registry bucket ID is required'')
      else (case reg_policies reg bucketID of
              None \<Rightarrow> Inl (GoErr NoSentinel ''rate limiter bucket is not registered'')
            | Some spec \<Rightarrow>
                (case reg_limiters reg (sellerID, bucketID) of
                   Some lm \<Rightarrow> Inr (reg, lm)
                 | None \<Rightarrow> rbind (NewLimiter R spec) (\<lambda>lm.
                     Inr (reg\<lparr>reg_limiters := (reg_limiters reg)((sellerID, bucketID) \<mapsto> lm)\<rparr>, lm)))))"

text \<open>\<open>Registry.Observe\<close>: the response's limits are applied to the limiter; unreadable headers of a 429
  still block the bucket for its own interval.\<close>

definition registry_Observe ::
  "('tb, 'r) rate_ops \<Rightarrow> (string \<Rightarrow> int option) \<Rightarrow> 'tb registry \<Rightarrow> string \<Rightarrow> string \<Rightarrow> int \<Rightarrow> int \<times> http_header \<Rightarrow>
     'tb registry \<times> int \<times> goerr option" where
  "registry_Observe R parseTime reg sellerID bucketID now response =
     (case registry_limiter R reg sellerID bucketID of
        Inl e \<Rightarrow> (reg, 0, Some e)
      | Inr (reg', lm) \<Rightarrow>
          (let store = (\<lambda>lm'. reg'\<lparr>reg_limiters := (reg_limiters reg')((sellerID, bucketID) \<mapsto> lm')\<rparr>) in
           case parseResponseRateLimits parseTime now response of
             Inl parseErr \<Rightarrow>
               if fst response = 429 then
                 (case observe R lm now
                    \<lparr>rl_statusCode = 429, rl_remaining = None, rl_retryAfter = None, rl_limit = None\<rparr> of
                    (lm', _) \<Rightarrow> (store lm', 0, Some parseErr))
               else (reg', 0, Some parseErr)
           | Inr limits \<Rightarrow>
               (case observe R lm now limits of
                  (lm', e) \<Rightarrow> (store lm', case rl_retryAfter limits of None \<Rightarrow> 0 | Some d \<Rightarrow> d, e))))"

lemma register_policies_Inr_iff:
  "(\<exists>p. register_policies m specs = Inr p) \<longleftrightarrow>
     (\<forall>spec \<in> set specs. BucketSpec_Validate spec = None) \<and> distinct (map bs_ID specs) \<and>
     dom m \<inter> bs_ID ` set specs = {}"
proof (induction specs arbitrary: m)
  case Nil
  then show ?case by simp
next
  case (Cons spec specs)
  show ?case
  proof (cases "BucketSpec_Validate spec = None \<and> m (bs_ID spec) = None")
    case True
    then show ?thesis using Cons.IH [of "m(bs_ID spec \<mapsto> spec)"] by (auto simp del: fun_upd_apply)
  next
    case False
    then show ?thesis by auto
  qed
qed

lemma register_policies_lookup:
  "register_policies m specs = Inr p \<Longrightarrow>
     p b = (if b \<in> dom m then m b else map_of (map (\<lambda>spec. (bs_ID spec, spec)) specs) b)"
proof (induction specs arbitrary: m)
  case Nil
  then show ?case by auto
next
  case (Cons spec specs)
  then have "m (bs_ID spec) = None" "register_policies (m(bs_ID spec \<mapsto> spec)) specs = Inr p"
    by (auto split: if_splits)
  then show ?case using Cons.IH [OF \<open>register_policies (m(bs_ID spec \<mapsto> spec)) specs = Inr p\<close>] by auto
qed

lemma registry_limiter_stable:
  assumes "registry_limiter R reg s b = Inr (reg', lm)"
  shows "registry_limiter R reg' s b = Inr (reg', lm) \<and> reg_policies reg' = reg_policies reg \<and>
    (\<forall>k. k \<noteq> (s, b) \<longrightarrow> reg_limiters reg' k = reg_limiters reg k)"
  using assms by (auto simp: registry_limiter_def rbind_eq_Inr_iff split: if_splits option.splits)

section \<open>Properties\<close>

text \<open>C21: a limiter's queue is bounded and its admission exclusive. In every reachable state of any
  number of goroutines calling \<open>Wait\<close> on one limiter, the waiter channel holds exactly the goroutines
  that are queued or admitted, never more than its capacity, and at most one goroutine is admitted;
  when all have returned, both channels are back in their initial state (nothing leaks).\<close>

theorem wait_queue_bounded_exclusive:
  assumes "wait_reachable R cap s"
  shows "ws_waiters s = card (slot_holders s) \<and> ws_waiters s \<le> cap \<and>
    (\<forall>i j. i \<in> admitted s \<longrightarrow> j \<in> admitted s \<longrightarrow> i = j) \<and>
    (slot_holders s = {} \<longrightarrow> ws_waiters s = 0 \<and> ws_admission s = 1)"
proof -
  from assms have inv: "wait_inv cap s" by (rule wait_reachable_inv)
  then have "card (admitted s) \<le> 1" by (simp add: wait_inv_def)
  then have "i = j" if "i \<in> admitted s" "j \<in> admitted s" for i j
    using wait_inv_finite [OF inv] that by (metis One_nat_def card_le_Suc0_iff_eq)
  moreover have "slot_holders s = {} \<Longrightarrow> card (admitted s) = 0" using admitted_subset [of s] by auto
  ultimately show ?thesis using inv by (auto simp: wait_inv_def)
qed

text \<open>A bucket without refill, to exhibit the hypotheses: the state is the number of tokens.\<close>

definition plain_bucket :: "(rat, unit) rate_ops" where
  "plain_bucket =
     \<lparr>NewTokenBucket = (\<lambda>_ b. of_int b),
      TokensAt = (\<lambda>tb _. min 5 tb),
      AllowN = (\<lambda>tb _ n. if of_int n \<le> tb then (True, tb - of_int n) else (False, tb)),
      ReserveN = (\<lambda>tb _ n. if n \<le> 5 then Some ((), min 5 tb - of_int n) else None),
      DelayFrom = (\<lambda>_ _. 1), CancelAt = (\<lambda>_ _ tb. tb + 1)\<rparr>"

definition plain_limiter :: "rat limiter" where
  "plain_limiter = \<lparr>lim_tokenBucket = 5, lim_interval = 100, lim_burst = 5, lim_blockedUntil = 0\<rparr>"

lemma plain_bucket_law: "token_bucket_law plain_bucket 5"
  by (auto simp: token_bucket_law_def plain_bucket_def)

theorem wait_queue_bounded_exclusive_witness:
  "\<exists>s. wait_reachable plain_bucket 1 s \<and> 0 \<in> slot_holders s \<and> ws_waiters s \<le> 1"
proof -
  let ?s0 = "wait_init (plain_limiter\<lparr>lim_blockedUntil := 50\<rparr>) :: (rat, unit) wait_sys"
  have "tryAllowNow plain_bucket (ws_limiter ?s0) 10 = (ws_limiter ?s0, Inr False)"
    by (rule tryAllowNow_blocked) (simp_all add: wait_init_def)
  then have step: "wait_step plain_bucket 1 10 0 ?s0 (goto 0 AtAdmission (acquireWaiter (set_limiter (ws_limiter ?s0) ?s0)))"
    by (rule wait_step.enter_queue [rotated]) (simp_all add: wait_init_def)
  then have r: "wait_reachable plain_bucket 1 (goto 0 AtAdmission (acquireWaiter (set_limiter (ws_limiter ?s0) ?s0)))"
    by (rule wait_reachable.step [OF wait_reachable.init])
  moreover have "0 \<in> slot_holders (goto 0 AtAdmission (acquireWaiter (set_limiter (ws_limiter ?s0) ?s0)))"
    by (simp add: slot_holders_goto holds_slot_def)
  ultimately show ?thesis using wait_queue_bounded_exclusive [OF r] by blast
qed

text \<open>C22: no request is admitted while WB has blocked the bucket. Whenever a goroutine returns from
  \<open>Wait\<close> without an error, the limiter it saw was not blocked at that moment.\<close>

theorem grant_never_during_block:
  assumes "wait_step R cap now i s t" "\<not> (\<exists>e. ws_pc s i = Returned e)" "ws_pc t i = Returned None"
  shows "lim_blockedUntil (ws_limiter s) = 0 \<or> lim_blockedUntil (ws_limiter s) \<le> now"
  using assms
proof (cases rule: wait_step.cases)
  case (fast_granted lm)
  then show ?thesis by (blast dest: tryAllowNow_unblocked)
next
  case (block_over lm d)
  then show ?thesis by (blast dest: blockDelay_zero_imp)
qed (auto simp: wait_ops_defs)

theorem grant_never_during_block_witness:
  "lim_blockedUntil plain_limiter = 0 \<or> lim_blockedUntil plain_limiter \<le> (7::int)"
proof -
  let ?s = "wait_init plain_limiter :: (rat, unit) wait_sys"
  have "tryAllowNow plain_bucket (ws_limiter ?s) 7 = (plain_limiter\<lparr>lim_tokenBucket := 4\<rparr>, Inr True)"
    by (simp add: tryAllowNow_def blockDelayLocked_def plain_bucket_def plain_limiter_def wait_init_def)
  then have step: "wait_step plain_bucket 1 7 0 ?s (goto 0 (Returned None) (set_limiter (plain_limiter\<lparr>lim_tokenBucket := 4\<rparr>) ?s))"
    by (rule wait_step.fast_granted [rotated]) (simp add: wait_init_def)
  show ?thesis
    using grant_never_during_block [OF step] by (simp add: wait_init_def goto_def)
qed

text \<open>a 429 response blocks the bucket. Under the token bucket's law, observing status 429 at time
  \<open>now\<close> never fails, leaves no tokens, blocks until at least the requested delay (or the bucket's
  interval) has passed, never shortens an existing block, and the fast path refuses every request
  before the end of the block.\<close>

theorem observe_429_blocks:
  assumes law: "token_bucket_law R (lim_burst lm)" and burst: "0 < lim_burst lm"
    and interval: "0 < lim_interval lm" and now: "0 < now"
    and limits: "rl_statusCode limits = 429" and obs: "observe R lm now limits = (lm', e)"
  shows "e = None \<and> TokensAt R (lim_tokenBucket lm') now \<le> 0 \<and>
    lim_blockedUntil lm \<le> lim_blockedUntil lm' \<and>
    now + (case rl_retryAfter limits of Some d \<Rightarrow> if 0 < d then d else lim_interval lm | None \<Rightarrow> lim_interval lm)
      \<le> lim_blockedUntil lm' \<and>
    (\<forall>t < lim_blockedUntil lm'. tryAllowNow R lm' t = (lm', Inr False))"
proof -
  define dur where "dur = (case rl_retryAfter limits of Some d \<Rightarrow> if 0 < d then d else lim_interval lm | None \<Rightarrow> lim_interval lm)"
  define lm1 where "lm1 = (if lim_blockedUntil lm < now + dur then lm\<lparr>lim_blockedUntil := now + dur\<rparr> else lm)"
  have dur: "0 < dur" using interval by (auto simp: dur_def split: option.splits)
  have c: "clampRemainingLocked R lm1 now 0 = (lm', e)"
    using obs limits by (simp add: observe_def Let_def dur_def [symmetric] lm1_def [symmetric])
  have "lim_burst lm1 = lim_burst lm" by (simp add: lm1_def)
  with clamp_bound [OF _ _ c] law burst have "e = None" "TokensAt R (lim_tokenBucket lm') now \<le> 0" by simp_all
  moreover have b: "lim_blockedUntil lm' = max (lim_blockedUntil lm) (now + dur)"
    using clamp_frame [OF c] by (auto simp: lm1_def)
  moreover have "lim_blockedUntil lm' \<noteq> 0" using b now dur by auto
  moreover have "\<forall>t < lim_blockedUntil lm'. tryAllowNow R lm' t = (lm', Inr False)"
    using tryAllowNow_blocked [OF \<open>lim_blockedUntil lm' \<noteq> 0\<close>] by blast
  ultimately show ?thesis by (simp add: dur_def [symmetric])
qed

theorem observe_429_blocks_witness:
  "\<exists>lm'. observe plain_bucket plain_limiter 1000
       \<lparr>rl_statusCode = 429, rl_remaining = None, rl_retryAfter = Some 60, rl_limit = None\<rparr> = (lm', None) \<and>
     tryAllowNow plain_bucket lm' 1059 = (lm', Inr False)"
proof -
  let ?l = "\<lparr>rl_statusCode = 429, rl_remaining = None, rl_retryAfter = Some 60, rl_limit = None\<rparr>"
  obtain lm' e where o: "observe plain_bucket plain_limiter 1000 ?l = (lm', e)" by fastforce
  from observe_429_blocks [OF _ _ _ _ _ o] plain_bucket_law
  have "e = None" "(1060::int) \<le> lim_blockedUntil lm'" "\<forall>t < lim_blockedUntil lm'. tryAllowNow plain_bucket lm' t = (lm', Inr False)"
    by (simp_all add: plain_limiter_def)
  with o show ?thesis by auto
qed

text \<open>The registry keeps one limiter per cabinet and bucket. It is built exactly from a non-empty
  list of valid, distinct buckets; a lookup returns the limiter of the bucket's own policy, a second
  lookup returns the same limiter, and neither a lookup nor an observed response touches the limiter
  of any other cabinet or bucket.\<close>

theorem registry_isolates_cabinets:
  "((\<exists>reg :: 'tb registry. NewRegistry specs = Inr reg) \<longleftrightarrow>
     specs \<noteq> [] \<and> (\<forall>spec \<in> set specs. BucketSpec_Validate spec = None) \<and> distinct (map bs_ID specs)) \<and>
   (\<forall>reg :: 'tb registry. NewRegistry specs = Inr reg \<longrightarrow>
      (\<forall>s b. s \<noteq> [] \<longrightarrow> b \<noteq> [] \<longrightarrow>
        (\<exists>r. registry_limiter R reg s b = Inr r) = (b \<in> bs_ID ` set specs))) \<and>
   (\<forall>(reg :: 'tb registry) s b reg' lm. registry_limiter R reg s b = Inr (reg', lm) \<longrightarrow>
      registry_limiter R reg' s b = Inr (reg', lm)) \<and>
   (\<forall>(reg :: 'tb registry) s b now resp k. k \<noteq> (s, b) \<longrightarrow>
      reg_limiters (fst (registry_Observe R parseTime reg s b now resp)) k = reg_limiters reg k)"
  (is "?new \<and> ?known \<and> ?stable \<and> ?frame")
proof (intro conjI)
  show ?new
    using register_policies_Inr_iff [of Map.empty specs]
    by (auto simp: NewRegistry_def rbind_eq_Inr_iff)
  show ?known
  proof (intro allI impI)
    fix reg :: "'tb registry" and s b :: string
    assume new: "NewRegistry specs = Inr reg" and ne: "s \<noteq> []" "b \<noteq> []"
    then obtain p where p: "register_policies Map.empty specs = Inr p"
      and reg: "reg = \<lparr>reg_policies = p, reg_limiters = Map.empty\<rparr>"
      by (auto simp: NewRegistry_def rbind_eq_Inr_iff split: if_splits)
    have look: "p b = map_of (map (\<lambda>spec. (bs_ID spec, spec)) specs) b"
      using register_policies_lookup [OF p] by simp
    have valid: "\<forall>spec \<in> set specs. BucketSpec_Validate spec = None"
      using register_policies_Inr_iff [of Map.empty specs] p by blast
    show "(\<exists>r. registry_limiter R reg s b = Inr r) = (b \<in> bs_ID ` set specs)"
    proof (cases "p b")
      case None
      then have "b \<notin> bs_ID ` set specs" using look by (force simp: map_of_eq_None_iff)
      with None reg ne show ?thesis by (simp add: registry_limiter_def)
    next
      case (Some spec)
      then have "spec \<in> set specs" "bs_ID spec = b" using look by (auto dest!: map_of_SomeD)
      with Some reg ne valid show ?thesis by (auto simp: registry_limiter_def NewLimiter_def)
    qed
  qed
  show ?stable using registry_limiter_stable by blast
  show ?frame
  proof (intro allI impI)
    fix reg :: "'tb registry" and s b :: string and now resp k
    assume k: "k \<noteq> (s, b)"
    show "reg_limiters (fst (registry_Observe R parseTime reg s b now resp)) k = reg_limiters reg k"
    proof (cases "registry_limiter R reg s b")
      case (Inl e)
      then show ?thesis by (simp add: registry_Observe_def)
    next
      case (Inr x)
      obtain reg' lm where x: "x = (reg', lm)" by (cases x)
      with Inr registry_limiter_stable [of R reg s b reg' lm] k have "reg_limiters reg' k = reg_limiters reg k"
        by blast
      with Inr x k show ?thesis
        by (auto simp: registry_Observe_def Let_def split: sum.splits prod.splits if_splits)
    qed
  qed
qed

theorem registry_isolates_cabinets_witness:
  "\<exists>reg :: rat registry. NewRegistry contentBucketSpecs = Inr reg \<and>
     (\<exists>r. registry_limiter plain_bucket reg ''seller'' ''content_common'' = Inr r)"
proof -
  have ok: "contentBucketSpecs \<noteq> [] \<and> (\<forall>spec \<in> set contentBucketSpecs. BucketSpec_Validate spec = None) \<and>
      distinct (map bs_ID contentBucketSpecs)"
    using content_buckets_valid by (auto simp: list_all_iff contentBucketSpecs_def)
  with registry_isolates_cabinets [of contentBucketSpecs plain_bucket "\<lambda>_. None"]
  obtain reg :: "rat registry" where reg: "NewRegistry contentBucketSpecs = Inr reg" by blast
  moreover have "''content_common'' \<in> bs_ID ` set contentBucketSpecs"
    by (simp add: contentBucketSpecs_def content_bucket_def)
  ultimately show ?thesis
    using registry_isolates_cabinets [of contentBucketSpecs plain_bucket "\<lambda>_. None"] by blast
qed

end
