(* ===== verification/WbClient.thy ===== *)
theory WbClient
  imports Limiter
begin

text \<open>
  The life of one logical WB request (\<open>internal/core/transport/wb/client/execute.go\<close>, \<open>response/*.go\<close>):
  preparation, the attempt loop with rate limiting and back-off, the reading and classification of the
  response, and the delivery state reported with an error.

  What the network and the clock do is the environment: for every attempt, a record of what the
  limiter, \<open>http.Client.Do\<close>, the context and the response body produced. An error value is what the
  code can ask of it: which of the allow-listed conditions \<open>errors.Is\<close>/\<open>errors.As\<close> finds in it.
\<close>

section \<open>Errors and responses\<close>

record net_err =
  ne_canceled :: bool
  ne_deadline :: bool
  ne_connection :: bool
  ne_timeout :: bool

definition plain_err :: net_err where
  "plain_err = \<lparr>ne_canceled = False, ne_deadline = False, ne_connection = False, ne_timeout = False\<rparr>"

text \<open>\<open>errors.Join\<close>.\<close>

definition join_err :: "net_err \<Rightarrow> net_err \<Rightarrow> net_err" where
  "join_err a b =
     \<lparr>ne_canceled = ne_canceled a \<or> ne_canceled b, ne_deadline = ne_deadline a \<or> ne_deadline b,
      ne_connection = ne_connection a \<or> ne_connection b, ne_timeout = ne_timeout a \<or> ne_timeout b\<rparr>"

text \<open>\<open>ne_connection\<close> covers \<open>io.EOF\<close>, \<open>io.ErrUnexpectedEOF\<close>, \<open>net.ErrClosed\<close>, \<open>ECONNRESET\<close> and \<open>EPIPE\<close>.\<close>

definition IsRetryableTransportError :: "net_err \<Rightarrow> bool" where
  "IsRetryableTransportError e =
     (if ne_canceled e \<or> ne_deadline e then False
      else if ne_connection e then True else ne_timeout e)"

definition IsRetryableStatus :: "int \<Rightarrow> bool" where
  "IsRetryableStatus status \<longleftrightarrow> status \<in> {429, 500, 502, 503, 504}"

datatype delivery_state = NotDispatched | ResponseReceived | UnknownDelivery

record classified_error =
  ce_code :: string
  ce_delivery :: delivery_state
  ce_httpStatus :: int
  ce_retryAfter :: int

definition newClassifiedError :: "string \<Rightarrow> delivery_state \<Rightarrow> int \<Rightarrow> classified_error" where
  "newClassifiedError code delivery retryAfter =
     \<lparr>ce_code = code, ce_delivery = delivery, ce_httpStatus = 0, ce_retryAfter = retryAfter\<rparr>"

record http_response =
  hr_StatusCode :: int
  hr_Header :: http_header
  hr_HasBody :: bool
  hr_ContentLength :: int
  hr_Body :: string
  hr_ReadErr :: "net_err option"
  hr_CloseErr :: "net_err option"

text \<open>The deferred \<open>Close\<close>: its error is joined to the one of the function, the bytes read stay.\<close>

definition with_close_err :: "http_response \<Rightarrow> string \<times> net_err option \<Rightarrow> string \<times> net_err option" where
  "with_close_err resp r =
     (case hr_CloseErr resp of
        None \<Rightarrow> r
      | Some c \<Rightarrow> (fst r, Some (case snd r of Some e \<Rightarrow> join_err e c | None \<Rightarrow> c)))"

text \<open>\<open>ReadAndClose\<close>: at most \<open>maxResponseBytes + 1\<close> bytes are read, so a body that is too long is
  noticed before a later read error can be. (For the largest \<open>int64\<close> the limit wraps and nothing is read.)\<close>

definition ReadAndClose :: "http_response \<Rightarrow> int \<Rightarrow> string \<times> net_err option" where
  "ReadAndClose resp maxResponseBytes =
     (if \<not> hr_HasBody resp then ([], Some plain_err)
      else if maxResponseBytes \<le> 0 then ([], Some plain_err)
      else with_close_err resp
       (if maxResponseBytes < hr_ContentLength resp then ([], Some plain_err)
        else if wrap64 (maxResponseBytes + 1) \<le> 0 then ([], None)
        else if int (length (hr_Body resp)) > maxResponseBytes then ([], Some plain_err)
        else (case hr_ReadErr resp of Some e \<Rightarrow> ([], Some e) | None \<Rightarrow> (hr_Body resp, None))))"

definition response_Close :: "http_response \<Rightarrow> net_err option" where
  "response_Close resp = (if \<not> hr_HasBody resp then Some plain_err else hr_CloseErr resp)"

text \<open>\<open>Decode\<close>; whether \<open>json.Unmarshal\<close> accepts a body is the argument \<open>unmarshals\<close>.\<close>

datatype decode_outcome = Decoded | DecodeEmptyBody | DecodeInvalid

definition response_Decode :: "(string \<Rightarrow> bool) \<Rightarrow> string \<Rightarrow> decode_outcome" where
  "response_Decode unmarshals body =
     (if trim_space body = [] then DecodeEmptyBody
      else if \<not> unmarshals body then DecodeInvalid else Decoded)"

section \<open>One attempt\<close>

record execution_result =
  er_statusCode :: int
  er_body :: string
  er_err :: "classified_error option"
  er_delivery :: delivery_state
  er_retryable :: bool
  er_retryAfter :: int

definition initial_result :: execution_result where
  "initial_result =
     \<lparr>er_statusCode = 0, er_body = [], er_err = None, er_delivery = NotDispatched,
      er_retryable = False, er_retryAfter = 0\<rparr>"

text \<open>What the environment does with attempt \<open>k\<close>: the context before it, the limiter, the request
  construction, the number of times the request was written to the wire, the transport's error and
  response, what \<open>Observe\<close> returned, the context afterwards and during the back-off.\<close>

record attempt_env =
  ae_ctxErrBefore :: "net_err option"
  ae_waitErr :: "net_err option"
  ae_newRequestFails :: bool
  ae_dispatches :: nat
  ae_transportErr :: "net_err option"
  ae_response :: "http_response option"
  ae_observedRetryAfter :: int
  ae_ctxErrAfter :: "net_err option"
  ae_backoffErr :: "net_err option"

definition deliveryWithoutResponse :: "bool \<Rightarrow> delivery_state" where
  "deliveryWithoutResponse dispatched = (if dispatched then UnknownDelivery else NotDispatched)"

definition responseResult :: "attempt_env \<Rightarrow> operation \<Rightarrow> http_response \<Rightarrow> execution_result" where
  "responseResult env op resp =
     (let result = initial_result\<lparr>er_statusCode := hr_StatusCode resp, er_delivery := ResponseReceived,
                     er_retryAfter := ae_observedRetryAfter env\<rparr>;
          (body, readErr) =
            (if op_ResponseMode op = BodyModeJSON then
               ReadAndClose resp (op_MaxResponseBytes op)
             else if op_ResponseMode op = BodyModeNone then ([], response_Close resp)
             else ([], Some (case (if hr_HasBody resp then hr_CloseErr resp else None) of
                              Some c \<Rightarrow> join_err plain_err c | None \<Rightarrow> plain_err)));
          result = result\<lparr>er_body := body\<rparr>
      in case readErr of
           Some e \<Rightarrow>
             result\<lparr>er_err := Some (newClassifiedError ''invalid_response'' ResponseReceived 0),
                    er_retryable := IsRetryableTransportError e \<or> ne_deadline e\<rparr>
         | None \<Rightarrow>
             if IsSuccessStatus op (er_statusCode result) then result
             else result\<lparr>
               er_retryable := IsRetryableStatus (er_statusCode result),
               er_err := Some (newClassifiedError
                 (if er_statusCode result = 429 then ''rate_limited'' else ''unexpected_status'')
                 ResponseReceived (er_retryAfter result))\<rparr>)"

definition transportErrorResult :: "attempt_env \<Rightarrow> operation \<Rightarrow> net_err \<Rightarrow> bool \<Rightarrow> execution_result" where
  "transportErrorResult env op transportErr dispatched =
     (case ae_response env of
        None \<Rightarrow>
          (let delivery = deliveryWithoutResponse dispatched in
           initial_result\<lparr>er_err := Some (newClassifiedError ''transport_error'' delivery 0),
             er_delivery := delivery,
             er_retryable := IsRetryableTransportError transportErr \<or> ne_deadline transportErr\<rparr>)
      | Some resp \<Rightarrow>
          (let result = responseResult env op resp in
           result\<lparr>er_err := Some (newClassifiedError ''transport_error'' ResponseReceived (er_retryAfter result)),
             er_delivery := ResponseReceived, er_retryable := False\<rparr>))"

text \<open>The attempt, with the number of times the request was written.\<close>

definition doAttempt :: "attempt_env \<Rightarrow> operation \<Rightarrow> execution_result \<times> nat" where
  "doAttempt env op =
     (if ae_newRequestFails env then
        (initial_result\<lparr>er_err := Some (newClassifiedError ''invalid_request'' NotDispatched 0)\<rparr>, 0)
      else
        (let dispatches = ae_dispatches env; dispatched = (0 < dispatches) in
         (case ae_transportErr env of
            Some e \<Rightarrow> transportErrorResult env op e dispatched
          | None \<Rightarrow>
              (case ae_response env of
                 None \<Rightarrow>
                   (let delivery = deliveryWithoutResponse dispatched in
                    initial_result\<lparr>er_err := Some (newClassifiedError ''transport_error'' delivery 0),
                      er_delivery := delivery\<rparr>)
               | Some resp \<Rightarrow> responseResult env op resp), dispatches)))"

section \<open>The attempt loop\<close>

definition attemptLimit :: "operation \<Rightarrow> nat" where
  "attemptLimit op =
     (if op_Kind op = OperationKindRead \<and> AllowsRetry (op_RetryMode op) then DefaultMaxReadAttempts else 1)"

definition shouldRetry :: "attempt_env \<Rightarrow> operation \<Rightarrow> execution_result \<Rightarrow> nat \<Rightarrow> nat \<Rightarrow> bool" where
  "shouldRetry env op result attemptNumber limit \<longleftrightarrow>
     ae_ctxErrAfter env = None \<and> attemptNumber < limit \<and> op_Kind op = OperationKindRead \<and>
     AllowsRetry (op_RetryMode op) \<and> er_retryable result"

definition retryInterruptedResult :: "execution_result \<Rightarrow> execution_result" where
  "retryInterruptedResult result =
     result\<lparr>er_err := Some (newClassifiedError ''retry_interrupted'' (er_delivery result) 0),
            er_retryable := False\<rparr>"

definition waitErrorCode :: "net_err \<Rightarrow> string" where
  "waitErrorCode e =
     (if ne_canceled e then ''context_canceled''
      else if ne_deadline e then ''context_deadline_exceeded'' else ''rate_limited'')"

text \<open>\<open>attempt_loop envs op limit attemptNumber left result sent\<close>: \<open>left\<close> attempts remain, \<open>result\<close> is the
  last attempt's, \<open>sent\<close> lists how often each attempt so far wrote the request. The early returns of
  the loop all carry an error, so returning the result is the same as breaking out of the loop.\<close>

fun attempt_loop ::
  "(nat \<Rightarrow> attempt_env) \<Rightarrow> operation \<Rightarrow> nat \<Rightarrow> nat \<Rightarrow> nat \<Rightarrow> execution_result \<Rightarrow> nat list \<Rightarrow>
     execution_result \<times> nat list" where
  "attempt_loop envs op limit n 0 result sent = (result, sent)"
| "attempt_loop envs op limit n (Suc left) result sent =
     (let env = envs n in
      if 1 < n \<and> ae_ctxErrBefore env \<noteq> None then (retryInterruptedResult result, sent)
      else
        (case ae_waitErr env of
           Some e \<Rightarrow>
             (if 1 < n then (retryInterruptedResult result, sent)
              else (initial_result\<lparr>er_err := Some (newClassifiedError (waitErrorCode e) NotDispatched 0)\<rparr>, sent))
         | None \<Rightarrow>
             (case doAttempt env op of
                (attemptResult, dispatches) \<Rightarrow>
                  if \<not> shouldRetry env op attemptResult n limit then (attemptResult, sent @ [dispatches])
                  else if backoff_delay DefaultRetryBaseDelay (int n) (er_retryAfter attemptResult) \<in> range Inl \<or>
                          ae_backoffErr env \<noteq> None
                  then (retryInterruptedResult attemptResult, sent @ [dispatches])
                  else attempt_loop envs op limit (Suc n) left attemptResult (sent @ [dispatches]))))"

record execution =
  ex_err :: "classified_error option"
  ex_result :: execution_result
  ex_sent :: "nat list"

text \<open>The deferred function: an error delivered with a response carries the response's status.\<close>

definition finish :: "classified_error option \<Rightarrow> execution_result \<Rightarrow> nat list \<Rightarrow> execution" where
  "finish err result sent =
     \<lparr>ex_err = map_option (\<lambda>e. if ce_delivery e = ResponseReceived
                 then e\<lparr>ce_httpStatus := er_statusCode result\<rparr> else e) err,
      ex_result = result, ex_sent = sent\<rparr>"

definition Execute ::
  "(string \<Rightarrow> bool) \<Rightarrow> (nat \<Rightarrow> attempt_env) \<Rightarrow> operation \<Rightarrow> bool \<Rightarrow> bool \<Rightarrow> execution" where
  "Execute unmarshals envs op targetOK prepareOK =
     (if op_ResponseMode op = BodyModeJSON \<and> \<not> targetOK
      then finish (Some (newClassifiedError ''invalid_result_target'' NotDispatched 0)) initial_result []
      else if \<not> prepareOK
      then finish (Some (newClassifiedError ''invalid_request'' NotDispatched 0)) initial_result []
      else
        (case attempt_loop envs op (attemptLimit op) 1 (attemptLimit op) initial_result [] of
           (result, sent) \<Rightarrow>
             (case er_err result of
                Some e \<Rightarrow> finish (Some e) result sent
              | None \<Rightarrow>
                  if op_ResponseMode op = BodyModeJSON then
                    (case response_Decode unmarshals (er_body result) of
                       Decoded \<Rightarrow> finish None result sent
                     | DecodeEmptyBody \<Rightarrow>
                         finish (Some (newClassifiedError ''empty_response'' (er_delivery result) 0)) result sent
                     | DecodeInvalid \<Rightarrow>
                         finish (Some (newClassifiedError ''invalid_response'' (er_delivery result) 0)) result sent)
                  else finish None result sent)))"

section \<open>What an attempt reports\<close>

lemma responseResult_delivery:
  "er_delivery (responseResult env op resp) = ResponseReceived \<and>
   er_statusCode (responseResult env op resp) = hr_StatusCode resp \<and>
   (\<forall>e. er_err (responseResult env op resp) = Some e \<longrightarrow> ce_delivery e = ResponseReceived)"
  by (auto simp: responseResult_def Let_def initial_result_def newClassifiedError_def split: prod.splits option.splits)

lemma transportErrorResult_err:
  "\<exists>e. er_err (transportErrorResult env op te d) = Some e \<and>
     ce_delivery e = er_delivery (transportErrorResult env op te d)"
  by (auto simp: transportErrorResult_def Let_def newClassifiedError_def initial_result_def split: option.splits)

lemma transportErrorResult_delivery:
  "er_delivery (transportErrorResult env op te d) =
     (case ae_response env of None \<Rightarrow> deliveryWithoutResponse d | Some _ \<Rightarrow> ResponseReceived)"
  by (simp add: transportErrorResult_def Let_def split: option.split)

lemma doAttempt_cases [consumes 1, case_names request transport no_response response]:
  assumes "doAttempt env op = (r, d)"
  obtains
    "r = initial_result\<lparr>er_err := Some (newClassifiedError ''invalid_request'' NotDispatched 0)\<rparr>" "d = 0"
  | e where "r = transportErrorResult env op e (0 < d)" "ae_transportErr env = Some e"
  | "r = initial_result\<lparr>er_err := Some (newClassifiedError ''transport_error'' (deliveryWithoutResponse (0 < d)) 0),
           er_delivery := deliveryWithoutResponse (0 < d)\<rparr>" "ae_response env = None"
  | resp where "r = responseResult env op resp" "ae_response env = Some resp" "ae_transportErr env = None"
      "\<not> ae_newRequestFails env" "d = ae_dispatches env"
proof (cases "ae_newRequestFails env")
  case True
  then show thesis using assms that(1) by (simp add: doAttempt_def)
next
  case False
  show thesis
  proof (cases "ae_transportErr env")
    case (Some e)
    then show thesis using False assms that(2) by (auto simp: doAttempt_def Let_def)
  next
    case None
    show thesis
    proof (cases "ae_response env")
      case None': None
      then show thesis using False None assms that(3) by (auto simp: doAttempt_def Let_def)
    next
      case (Some resp)
      then show thesis using False None assms that(4) by (auto simp: doAttempt_def Let_def)
    qed
  qed
qed

lemma doAttempt_err_delivery:
  assumes "doAttempt env op = (r, d)" "er_err r = Some e"
  shows "ce_delivery e = er_delivery r"
  using assms
proof (cases rule: doAttempt_cases)
  case (transport te)
  then show ?thesis using assms(2) transportErrorResult_err [of env op te "0 < d"] by auto
next
  case (response resp)
  then show ?thesis using assms(2) responseResult_delivery [of env op resp] by auto
qed (auto simp: newClassifiedError_def initial_result_def)

lemma doAttempt_not_dispatched:
  assumes "doAttempt env op = (r, d)" "er_delivery r = NotDispatched"
  shows "d = 0"
  using assms
proof (cases rule: doAttempt_cases)
  case (transport te)
  then show ?thesis using assms(2)
    by (auto simp: transportErrorResult_delivery deliveryWithoutResponse_def split: option.splits if_splits)
next
  case (response resp)
  then show ?thesis using assms(2) responseResult_delivery [of env op resp] by auto
qed (auto simp: deliveryWithoutResponse_def split: if_splits)

text \<open>An attempt without an error is a complete response with an accepted status.\<close>

definition read_ok :: "operation \<Rightarrow> http_response \<Rightarrow> string \<Rightarrow> bool" where
  "read_ok op resp body \<longleftrightarrow>
     (if op_ResponseMode op = BodyModeJSON then ReadAndClose resp (op_MaxResponseBytes op) = (body, None)
      else op_ResponseMode op = BodyModeNone \<and> response_Close resp = None \<and> body = [])"

lemma ReadAndClose_complete:
  assumes "ReadAndClose resp limit = (body, None)" and "body \<noteq> []"
  shows "hr_HasBody resp \<and> hr_CloseErr resp = None \<and> hr_ReadErr resp = None \<and> body = hr_Body resp \<and>
    int (length body) \<le> limit \<and> hr_ContentLength resp \<le> limit"
  using assms by (auto simp: ReadAndClose_def with_close_err_def split: if_splits option.splits)

text \<open>An empty body does not decode.\<close>

lemma read_ok_bounded:
  assumes "read_ok op resp body" and "op_ResponseMode op = BodyModeJSON \<longrightarrow> response_Decode unmarshals body = Decoded"
  shows "hr_HasBody resp \<and> hr_CloseErr resp = None \<and>
    (if op_ResponseMode op = BodyModeJSON
     then body = hr_Body resp \<and> hr_ReadErr resp = None \<and> int (length body) \<le> op_MaxResponseBytes op \<and>
       hr_ContentLength resp \<le> op_MaxResponseBytes op
     else op_ResponseMode op = BodyModeNone \<and> body = [])"
proof (cases "op_ResponseMode op = BodyModeJSON")
  case True
  with assms(2) have "body \<noteq> []" by (auto simp: response_Decode_def)
  with True assms(1) ReadAndClose_complete show ?thesis by (auto simp: read_ok_def)
next
  case False
  with assms(1) show ?thesis by (auto simp: read_ok_def response_Close_def split: if_splits)
qed

lemma responseResult_ok:
  "er_err (responseResult env op resp) = None \<longleftrightarrow>
     read_ok op resp (er_body (responseResult env op resp)) \<and> IsSuccessStatus op (hr_StatusCode resp)"
  by (auto simp: responseResult_def read_ok_def Let_def initial_result_def
      split: prod.splits option.splits)

lemma doAttempt_success:
  assumes "doAttempt env op = (r, d)" "er_err r = None"
  obtains resp where "r = responseResult env op resp" "ae_response env = Some resp" "ae_transportErr env = None"
    "read_ok op resp (er_body r)" "IsSuccessStatus op (hr_StatusCode resp)"
  using assms
proof (cases rule: doAttempt_cases)
  case (transport te)
  then show ?thesis using assms(2) transportErrorResult_err [of env op te "0 < d"] by auto
next
  case (response resp)
  then show ?thesis using assms(2) that responseResult_ok by blast
qed (use assms in auto)

section \<open>What the attempt loop reports\<close>

lemma attempt_loop_length:
  "attempt_loop envs op limit n left result sent = (r, sent') \<Longrightarrow> length sent' \<le> length sent + left"
  by (induction envs op limit n left result sent rule: attempt_loop.induct)
    (fastforce simp: Let_def split: if_splits option.splits prod.splits)+

definition coherent :: "execution_result \<Rightarrow> bool" where
  "coherent r \<longleftrightarrow> (\<forall>e. er_err r = Some e \<longrightarrow> ce_delivery e = er_delivery r)"

lemma coherent_intros [simp]:
  "coherent initial_result"
  "coherent (retryInterruptedResult r)"
  "coherent (initial_result\<lparr>er_err := Some (newClassifiedError c NotDispatched t)\<rparr>)"
  by (simp_all add: coherent_def initial_result_def retryInterruptedResult_def newClassifiedError_def)

lemma doAttempt_coherent: "doAttempt env op = (r, d) \<Longrightarrow> coherent r"
  by (simp add: coherent_def doAttempt_err_delivery)

lemma attempt_loop_coherent:
  "attempt_loop envs op limit n left result sent = (r, sent') \<Longrightarrow> coherent result \<Longrightarrow> coherent r"
  by (induction envs op limit n left result sent rule: attempt_loop.induct)
    (auto simp: Let_def doAttempt_coherent split: if_splits option.splits prod.splits)

lemma retryInterrupted_err [simp]: "er_err (retryInterruptedResult r) \<noteq> None"
  by (simp add: retryInterruptedResult_def)

text \<open>A result without an error is the result of an attempt that was made, the last one.\<close>

lemma attempt_loop_success:
  assumes "attempt_loop envs op limit n left result sent = (r, sent')" "er_err r = None" "0 < left"
    "left = Suc limit - n" "n \<le> limit"
  shows "\<exists>m d. n \<le> m \<and> m \<le> limit \<and> doAttempt (envs m) op = (r, d) \<and> ae_waitErr (envs m) = None"
  using assms
proof (induction envs op limit n left result sent rule: attempt_loop.induct)
  case (2 envs op limit n left result sent)
  obtain a d where a: "doAttempt (envs n) op = (a, d)" by (cases "doAttempt (envs n) op")
  have w: "ae_waitErr (envs n) = None"
    using 2(2,3) by (auto simp: Let_def split: if_splits option.splits)
  have nb: "\<not> (1 < n \<and> ae_ctxErrBefore (envs n) \<noteq> None)"
    using 2(2,3) by (auto simp: Let_def split: if_splits)
  show ?case
  proof (cases "shouldRetry (envs n) op a n limit")
    case False
    then have "r = a" using 2(2) a w nb by (simp add: Let_def split: if_splits)
    then show ?thesis using a w 2(6) by blast
  next
    case True
    then have lt: "n < limit" by (simp add: shouldRetry_def)
    have nr: "\<not> (backoff_delay DefaultRetryBaseDelay (int n) (er_retryAfter a) \<in> range Inl \<or> ae_backoffErr (envs n) \<noteq> None)"
      using 2(2,3) a w nb True by (auto simp: Let_def split: if_splits)
    have "attempt_loop envs op limit (Suc n) left a (sent @ [d]) = (r, sent')"
      using 2(2) a w nb True nr by (auto simp: Let_def split: if_splits)
    from 2(1) [OF refl nb w a [symmetric] _ nr this 2(3)] True lt 2(5)
    have "\<exists>m d. Suc n \<le> m \<and> m \<le> limit \<and> doAttempt (envs m) op = (r, d) \<and> ae_waitErr (envs m) = None"
      by auto
    then show ?thesis using Suc_leD by blast
  qed
qed simp

lemma attemptLimit_bounds: "1 \<le> attemptLimit op" "attemptLimit op \<le> 3"
  by (simp_all add: attemptLimit_def DefaultMaxReadAttempts_def)

lemma finish_sel [simp]:
  "ex_err (finish e r s) = None \<longleftrightarrow> e = None" "ex_result (finish e r s) = r" "ex_sent (finish e r s) = s"
  by (auto simp: finish_def)

lemma Execute_sent:
  "ex_sent (Execute unmarshals envs op targetOK prepareOK) =
     (if (op_ResponseMode op = BodyModeJSON \<and> \<not> targetOK) \<or> \<not> prepareOK then []
      else snd (attempt_loop envs op (attemptLimit op) 1 (attemptLimit op) initial_result []))"
  by (simp add: Execute_def split: prod.split option.split decode_outcome.split)

section \<open>Guarantees of a request\<close>

abbreviation retried :: "operation \<Rightarrow> bool" where
  "retried op \<equiv> op_Kind op = OperationKindRead \<and> AllowsRetry (op_RetryMode op)"

lemma attemptLimit_single: "\<not> retried op \<Longrightarrow> attemptLimit op = 1"
  by (auto simp: attemptLimit_def)

lemma single_loop:
  "\<not> retried op \<Longrightarrow>
   attempt_loop envs op (attemptLimit op) 1 (attemptLimit op) initial_result [] =
     (case ae_waitErr (envs 1) of
        Some e \<Rightarrow> (initial_result\<lparr>er_err := Some (newClassifiedError (waitErrorCode e) NotDispatched 0)\<rparr>, [])
      | None \<Rightarrow> (case doAttempt (envs 1) op of (a, d) \<Rightarrow> (a, [d])))"
  by (auto simp: attemptLimit_single shouldRetry_def Let_def split: option.split prod.split)

lemma finish_err_delivery:
  "ex_err (finish err r s) = Some e \<Longrightarrow> \<exists>e'. err = Some e' \<and> ce_delivery e = ce_delivery e'"
  by (auto simp: finish_def split: if_splits)

text \<open>The error of a request that got as far as the loop reports the delivery of the last attempt.\<close>

lemma Execute_err_delivery:
  assumes err: "ex_err (Execute unmarshals envs op targetOK prepareOK) = Some e"
    and ok: "\<not> (op_ResponseMode op = BodyModeJSON \<and> \<not> targetOK)" prepareOK
    and loop: "attempt_loop envs op (attemptLimit op) 1 (attemptLimit op) initial_result [] = (r, sent)"
  shows "ce_delivery e = er_delivery r"
proof -
  have "coherent r" using attempt_loop_coherent [OF loop] by simp
  moreover have "Execute unmarshals envs op targetOK prepareOK =
      (case er_err r of Some e \<Rightarrow> finish (Some e) r sent
       | None \<Rightarrow> if op_ResponseMode op = BodyModeJSON then
            (case response_Decode unmarshals (er_body r) of
               Decoded \<Rightarrow> finish None r sent
             | DecodeEmptyBody \<Rightarrow> finish (Some (newClassifiedError ''empty_response'' (er_delivery r) 0)) r sent
             | DecodeInvalid \<Rightarrow> finish (Some (newClassifiedError ''invalid_response'' (er_delivery r) 0)) r sent)
           else finish None r sent)"
    using ok loop by (simp add: Execute_def)
  ultimately show ?thesis
    using err by (auto simp: coherent_def newClassifiedError_def dest!: finish_err_delivery
        split: option.splits if_splits decode_outcome.splits)
qed

text \<open>C18: A request that may not be retried - every mutation of the catalogue - reaches the wire in
  at most one attempt, a retried read in at most three. An error of a single-attempt request that
  reports "not dispatched" is true: no attempt wrote the request.\<close>

theorem Execute_attempts_bounded:
  "length (ex_sent (Execute unmarshals envs op targetOK prepareOK)) \<le>
     (if op_Kind op = OperationKindRead \<and> AllowsRetry (op_RetryMode op) then 3 else 1) \<and>
   (\<not> (op_Kind op = OperationKindRead \<and> AllowsRetry (op_RetryMode op)) \<longrightarrow>
    (\<exists>e. ex_err (Execute unmarshals envs op targetOK prepareOK) = Some e \<and> ce_delivery e = NotDispatched) \<longrightarrow>
    (\<forall>d\<in>set (ex_sent (Execute unmarshals envs op targetOK prepareOK)). d = 0))"
proof -
  obtain r sent where loop:
    "attempt_loop envs op (attemptLimit op) 1 (attemptLimit op) initial_result [] = (r, sent)"
    by (cases "attempt_loop envs op (attemptLimit op) 1 (attemptLimit op) initial_result []")
  have len: "length sent \<le> attemptLimit op" using attempt_loop_length [OF loop] by simp
  have nd: "\<forall>d\<in>set sent. d = 0" if "\<not> retried op" "er_delivery r = NotDispatched"
    using loop [unfolded single_loop [OF that(1)]] that(2) doAttempt_not_dispatched [of "envs 1" op r]
    by (auto split: option.splits prod.splits)
  show ?thesis
    using len nd Execute_err_delivery [OF _ _ _ loop] loop
    by (auto simp: Execute_sent attemptLimit_def DefaultMaxReadAttempts_def split: if_splits)
qed

text \<open>C19: A request that returns without an error was answered: one of its attempts got a response with an accepted
  status. For a JSON operation the result holds all bytes of the body, which were read without an error, are no more than
  the operation's limit, as is the announced length, and decode; for an operation without a response body nothing is read.
  In both cases the body was closed without an error.\<close>

theorem Execute_success_sound:
  assumes "ex_err (Execute unmarshals envs op targetOK prepareOK) = None"
  shows "\<exists>n resp. 1 \<le> n \<and> n \<le> attemptLimit op \<and> ae_waitErr (envs n) = None \<and>
     ae_transportErr (envs n) = None \<and> ae_response (envs n) = Some resp \<and>
     IsSuccessStatus op (hr_StatusCode resp) \<and> hr_HasBody resp \<and> hr_CloseErr resp = None \<and>
     er_statusCode (ex_result (Execute unmarshals envs op targetOK prepareOK)) = hr_StatusCode resp \<and>
     (if op_ResponseMode op = BodyModeJSON
      then er_body (ex_result (Execute unmarshals envs op targetOK prepareOK)) = hr_Body resp \<and> hr_ReadErr resp = None \<and>
        int (length (hr_Body resp)) \<le> op_MaxResponseBytes op \<and> hr_ContentLength resp \<le> op_MaxResponseBytes op \<and>
        response_Decode unmarshals (hr_Body resp) = Decoded
      else op_ResponseMode op = BodyModeNone \<and> er_body (ex_result (Execute unmarshals envs op targetOK prepareOK)) = [])"
proof -
  obtain r sent where loop:
    "attempt_loop envs op (attemptLimit op) 1 (attemptLimit op) initial_result [] = (r, sent)"
    by (cases "attempt_loop envs op (attemptLimit op) 1 (attemptLimit op) initial_result []")
  have r: "er_err r = None" "ex_result (Execute unmarshals envs op targetOK prepareOK) = r"
    and dec: "op_ResponseMode op = BodyModeJSON \<longrightarrow> response_Decode unmarshals (er_body r) = Decoded"
    using assms loop by (auto simp: Execute_def split: if_splits option.splits decode_outcome.splits)
  obtain n d where n: "1 \<le> n" "n \<le> attemptLimit op" "doAttempt (envs n) op = (r, d)" "ae_waitErr (envs n) = None"
    using attempt_loop_success [OF loop r(1)] attemptLimit_bounds(1) [of op] by fastforce
  from n(3) r(1) obtain resp where "r = responseResult (envs n) op resp" "ae_response (envs n) = Some resp"
    "ae_transportErr (envs n) = None" "read_ok op resp (er_body r)" "IsSuccessStatus op (hr_StatusCode resp)"
    by (rule doAttempt_success)
  then show ?thesis
    using n r dec read_ok_bounded [of op resp "er_body r" unmarshals] responseResult_delivery
    by (intro exI [of _ n] exI [of _ resp]) auto
qed

text \<open>C20: Transient failures of a read are ridden out: when the first failures are retryable, nothing
  interrupts the wait, and one of the (at most three) attempts succeeds, the request succeeds with
  exactly that attempt's result.\<close>

theorem Execute_retries_transient_failures:
  assumes "op_Kind op = OperationKindRead" "AllowsRetry (op_RetryMode op)" "op_ResponseMode op = BodyModeJSON"
    and "1 \<le> k" "k \<le> 3"
    and "\<forall>i. ae_ctxErrBefore (envs i) = None \<and> ae_waitErr (envs i) = None \<and> ae_ctxErrAfter (envs i) = None \<and>
             ae_backoffErr (envs i) = None"
    and "\<forall>i. 1 \<le> i \<and> i < k \<longrightarrow> er_retryable (fst (doAttempt (envs i) op))"
    and "doAttempt (envs k) op = (r, d)" "er_err r = None" "response_Decode unmarshals (er_body r) = Decoded"
  shows "ex_err (Execute unmarshals envs op True True) = None \<and>
     ex_result (Execute unmarshals envs op True True) = r \<and>
     length (ex_sent (Execute unmarshals envs op True True)) = k"
proof -
  let ?loop = "attempt_loop envs op 3 1 3 initial_result []"
  have lim3: "attemptLimit op = 3" using assms(1,2) by (simp add: attemptLimit_def DefaultMaxReadAttempts_def)
  obtain resp where "r = responseResult (envs k) op resp" "IsSuccessStatus op (hr_StatusCode resp)" "er_err r = None"
    using doAttempt_success [OF assms(8,9)] assms(9) by metis
  then have nr: "\<not> er_retryable r"
    by (auto simp: responseResult_def initial_result_def Let_def split: option.splits prod.splits if_splits)
  have stop: "\<not> shouldRetry (envs k) op r k 3" using nr by (simp add: shouldRetry_def)
  have go: "shouldRetry (envs i) op (fst (doAttempt (envs i) op)) i 3" if "1 \<le> i" "i < k" for i
    using assms that by (simp add: shouldRetry_def)
  have bo: "backoff_delay DefaultRetryBaseDelay (int i) t \<notin> range Inl" if "1 \<le> i" "i < 3" for i t
  proof -
    have "i = 1 \<or> i = 2" using that by auto
    then show ?thesis
      by (auto simp: backoff_delay_def backoff_validate_def DefaultRetryBaseDelay_def backoff_loop_exact max_int64_def
          millisecond_def go_div_def wrap64_def)
  qed
  have "fst ?loop = r \<and> length (snd ?loop) = k"
  proof -
    consider "k = 1" | "k = 2" | "k = 3" using assms(4,5) by linarith
    then show ?thesis
      using stop go [of 1] go [of 2] bo [of 1] bo [of 2] assms(6,8)
      by cases (auto simp: numeral_3_eq_3 numeral_2_eq_2 Let_def split: prod.splits)
  qed
  then show ?thesis
    using assms(3,9,10) by (auto simp: Execute_def lim3 split: prod.splits)
qed

section \<open>A concrete environment\<close>

definition json_response :: "int \<Rightarrow> http_response" where
  "json_response status =
     \<lparr>hr_StatusCode = status, hr_Header = [], hr_HasBody = True, hr_ContentLength = -1, hr_Body = ''{}'',
      hr_ReadErr = None, hr_CloseErr = None\<rparr>"

definition calm_env :: "net_err option \<Rightarrow> http_response option \<Rightarrow> nat \<Rightarrow> attempt_env" where
  "calm_env transportErr resp dispatches =
     \<lparr>ae_ctxErrBefore = None, ae_waitErr = None, ae_newRequestFails = False, ae_dispatches = dispatches,
      ae_transportErr = transportErr, ae_response = resp, ae_observedRetryAfter = 0, ae_ctxErrAfter = None,
      ae_backoffErr = None\<rparr>"

theorem Execute_attempts_bounded_witness:
  "ex_sent (Execute (\<lambda>_. True) (\<lambda>_. calm_env (Some plain_err) None 0) uploadCardsOperation True True) = [0]"
proof -
  let ?x = "Execute (\<lambda>_. True) (\<lambda>_. calm_env (Some plain_err) None 0) uploadCardsOperation True True"
  have "length (ex_sent ?x) = 1" "\<not> retried uploadCardsOperation"
    "map_option ce_delivery (ex_err ?x) = Some NotDispatched"
    by code_simp+
  moreover from this have "\<forall>d\<in>set (ex_sent ?x). d = 0"
    using Execute_attempts_bounded [of "\<lambda>_. True" "\<lambda>_. calm_env (Some plain_err) None 0" uploadCardsOperation True True]
    by auto
  ultimately show ?thesis by (cases "ex_sent ?x") auto
qed

theorem Execute_success_sound_witness:
  "\<exists>resp. ae_response (calm_env None (Some (json_response 200)) 1) = Some resp \<and>
     er_body (ex_result (Execute (\<lambda>_. True) (\<lambda>_. calm_env None (Some (json_response 200)) 1) uploadCardsOperation True True)) = hr_Body resp \<and>
     int (length (hr_Body resp)) \<le> op_MaxResponseBytes uploadCardsOperation"
proof -
  have "ex_err (Execute (\<lambda>_. True) (\<lambda>_. calm_env None (Some (json_response 200)) 1) uploadCardsOperation True True) = None"
    "op_ResponseMode uploadCardsOperation = BodyModeJSON"
    by code_simp+
  with Execute_success_sound [OF this(1)] show ?thesis by auto
qed

definition flaky_envs :: "nat \<Rightarrow> attempt_env" where
  "flaky_envs i = (if i < 3 then calm_env None (Some (json_response 503)) 1
                   else calm_env None (Some (json_response 200)) 1)"

definition flaky_read :: operation where
  "flaky_read = content_operations ! 1"

theorem Execute_retries_transient_failures_witness:
  "length (ex_sent (Execute (\<lambda>_. True) flaky_envs flaky_read True True)) = 3 \<and>
   ex_err (Execute (\<lambda>_. True) flaky_envs flaky_read True True) = None"
proof -
  obtain r d where rd: "doAttempt (flaky_envs 3) flaky_read = (r, d)" by (cases "doAttempt (flaky_envs 3) flaky_read")
  have r: "r = fst (doAttempt (flaky_envs 3) flaky_read)" using rd by simp
  have "er_err r = None" "response_Decode (\<lambda>_. True) (er_body r) = Decoded"
    unfolding r by code_simp+
  moreover have "er_retryable (fst (doAttempt (flaky_envs i) flaky_read))" if "1 \<le> i \<and> i < 3" for i
  proof -
    have "flaky_envs i = calm_env None (Some (json_response 503)) 1" using that by (simp add: flaky_envs_def)
    moreover have "er_retryable (fst (doAttempt (calm_env None (Some (json_response 503)) 1) flaky_read))"
      by code_simp
    ultimately show ?thesis by simp
  qed
  moreover have "\<forall>i. ae_ctxErrBefore (flaky_envs i) = None \<and> ae_waitErr (flaky_envs i) = None \<and>
      ae_ctxErrAfter (flaky_envs i) = None \<and> ae_backoffErr (flaky_envs i) = None"
    by (simp add: flaky_envs_def calm_env_def)
  moreover have "op_Kind flaky_read = OperationKindRead" "AllowsRetry (op_RetryMode flaky_read)"
    "op_ResponseMode flaky_read = BodyModeJSON"
    by code_simp+
  ultimately show ?thesis
    using Execute_retries_transient_failures [of flaky_read 3 flaky_envs r d "\<lambda>_. True"] rd by simp
qed

end
