(* ===== verification/CardPipeline.thy ===== *)
theory CardPipeline
  imports Domain
begin

text \<open>
  The data passed between the stages of the card pipeline (\<open>internal/core/domain/cardpipeline\<close>):
  cards, finalized batches and their items, the validation of both, the key of a source group and
  the checksum of a batch.
\<close>

section \<open>Cards\<close>

text \<open>A \<open>float64\<close> value; the finite ones as the rationals they denote.\<close>

datatype gofloat = FNaN | FPosInf | FNegInf | FFin rat

definition float_eq :: "gofloat \<Rightarrow> gofloat \<Rightarrow> bool" where
  "float_eq a b \<longleftrightarrow> a \<noteq> FNaN \<and> a = b"

text \<open>The dynamic values of an interface-typed characteristic: what JSON and the XLSX reader produce.\<close>

datatype json_value =
    JNull | JBool bool | JNum gofloat | JStr string | JArr "json_value list"
  | JObj "(string \<times> json_value) list"

record dimensions =
  dim_Length :: gofloat
  dim_Width :: gofloat
  dim_Height :: gofloat
  dim_WeightBrutto :: gofloat

record card_size =
  size_TechSize :: string
  size_WBSize :: string
  size_Price :: int
  size_SKUs :: "string list"

record raw_characteristic =
  rc_ID :: int
  rc_Name :: string
  rc_Value :: json_value

record variant =
  var_VendorCode :: string
  var_Title :: string
  var_Description :: string
  var_Brand :: string
  var_Dimensions :: dimensions
  var_Sizes :: "card_size list"
  var_Characteristics :: "raw_characteristic list"

record media =
  media_Photos :: "string list"
  media_Video :: string

record card =
  card_SourceRows :: "int list"
  card_Group :: string
  card_Category :: string
  card_Price :: int
  card_KIZRequirement :: string
  card_AdultOnly :: string
  card_MarkingConfirmed :: string
  card_VATRate :: string
  card_Variant :: variant
  card_Media :: media

definition card_Barcodes :: "card \<Rightarrow> string list" where
  "card_Barcodes c = foldl (\<lambda>barcodes size. barcodes @ size_SKUs size) [] (var_Sizes (card_Variant c))"

lemma card_Barcodes_concat: "card_Barcodes c = concat (map size_SKUs (var_Sizes (card_Variant c)))"
proof -
  have "foldl (\<lambda>b s. b @ size_SKUs s) acc xs = acc @ concat (map size_SKUs xs)"
    for acc and xs :: "card_size list"
    by (induction xs arbitrary: acc) simp_all
  then show ?thesis by (simp add: card_Barcodes_def)
qed

section \<open>Batches\<close>

type_synonym purpose = string

definition PurposeTransfer :: purpose where "PurposeTransfer = ''transfer''"

definition purpose_IsValid :: "purpose \<Rightarrow> bool" where
  "purpose_IsValid p \<longleftrightarrow> p = PurposeTransfer"

definition BatchSchemaVersion :: int where "BatchSchemaVersion = 1"
definition BatchNormalizationVersion :: int where "BatchNormalizationVersion = 1"
definition MaxBatchPageSize :: int where "MaxBatchPageSize = 1000"

record author_snapshot =
  as_UserID :: "int option"
  as_TelegramUserID :: int
  as_DisplayName :: string

record batch_cursor =
  cur_FinalizedAt :: int
  cur_BatchID :: int

record batch_header =
  bh_ID :: int
  bh_SourceSessionID :: int
  bh_Purpose :: purpose
  bh_ItemsCount :: int
  bh_GroupsCount :: int
  bh_SchemaVersion :: int
  bh_NormalizationVersion :: int
  bh_Checksum :: digest
  bh_AuthorSnapshot :: author_snapshot
  bh_FinalizedAt :: int

record batch_item =
  bi_ID :: int
  bi_BatchID :: int
  bi_Position :: int
  bi_SourceFileID :: int
  bi_SourceRows :: "int list"
  bi_SourceGroupKey :: digest
  bi_VendorCode :: string
  bi_Payload :: card

definition invalidBatch :: "string \<Rightarrow> goerr" where
  "invalidBatch message = GoErr ErrInvalidArgument (''invalid card pipeline batch: '' @ message)"

definition BatchCursor_Validate :: "batch_cursor \<Rightarrow> goerr option" where
  "BatchCursor_Validate c =
     (if cur_FinalizedAt c = 0 \<or> cur_BatchID c \<le> 0
      then Some (GoErr ErrInvalidArgument ''invalid finalized batch cursor'') else None)"

definition BatchHeader_Validate :: "batch_header \<Rightarrow> goerr option" where
  "BatchHeader_Validate h = first_err
     [(bh_ID h \<le> 0, invalidBatch ''batch ID must be positive''),
      (bh_SourceSessionID h \<le> 0, invalidBatch ''batch source session ID must be positive''),
      (\<not> purpose_IsValid (bh_Purpose h), invalidBatch ''purpose is invalid''),
      (bh_ItemsCount h \<le> 0, invalidBatch ''items count must be positive''),
      (bh_GroupsCount h \<le> 0 \<or> bh_ItemsCount h < bh_GroupsCount h,
         invalidBatch ''groups count is outside allowed bounds''),
      (bh_SchemaVersion h \<le> 0, invalidBatch ''schema version must be positive''),
      (bh_NormalizationVersion h \<le> 0, invalidBatch ''normalization version must be positive''),
      (as_TelegramUserID (bh_AuthorSnapshot h) \<le> 0, invalidBatch ''author Telegram ID must be positive''),
      (case as_UserID (bh_AuthorSnapshot h) of None \<Rightarrow> False | Some u \<Rightarrow> u \<le> 0,
         invalidBatch ''author user ID must be positive''),
      (trim_space (as_DisplayName (bh_AuthorSnapshot h)) = [], invalidBatch ''author display name is empty''),
      (100 < rune_count (as_DisplayName (bh_AuthorSnapshot h)), invalidBatch ''author display name is too long''),
      (bh_FinalizedAt h = 0, invalidBatch ''finalized time is empty'')]"

fun equalRows :: "int list \<Rightarrow> int list \<Rightarrow> bool" where
  "equalRows [] [] = True"
| "equalRows (l # ls) (r # rs) = (l = r \<and> equalRows ls rs)"
| "equalRows _ _ = False"

lemma equalRows_eq [simp]: "equalRows ls rs \<longleftrightarrow> ls = rs"
  by (induction ls rs rule: equalRows.induct) auto

text \<open>The stream hashed into the key of a source group: the group name if there is one, else the
  vendor code, tagged so that the two cannot be confused.\<close>

definition source_group_stream :: "int \<Rightarrow> string \<Rightarrow> string \<Rightarrow> builder" where
  "source_group_stream fileID grp vendorCode =
     (let b = builder_Int64 fileID (NewSHA256 ''cardimport-source-group:v1'') in
      if grp \<noteq> [] then builder_String grp (builder_String ''group'' b)
      else builder_String vendorCode (builder_String ''singleton'' b))"

definition NewSourceGroupKey :: "int \<Rightarrow> string \<Rightarrow> string \<Rightarrow> digest" where
  "NewSourceGroupKey fileID grp vendorCode = builder_Sum (source_group_stream fileID grp vendorCode)"

text \<open>The row loop of \<open>BatchItem.Validate\<close>: positive and strictly increasing.\<close>

fun check_source_rows :: "int option \<Rightarrow> int list \<Rightarrow> goerr option" where
  "check_source_rows prev [] = None"
| "check_source_rows prev (row # rows) =
     (if row \<le> 0 then Some (invalidBatch ''item source row must be positive'')
      else if (case prev of None \<Rightarrow> False | Some p \<Rightarrow> row \<le> p)
      then Some (invalidBatch ''item source rows must be strictly increasing'')
      else check_source_rows (Some row) rows)"

definition BatchItem_Validate :: "batch_item \<Rightarrow> goerr option" where
  "BatchItem_Validate item = or_else (first_err
     [(bi_Position item \<le> 0, invalidBatch ''item position must be positive''),
      (bi_SourceFileID item \<le> 0, invalidBatch ''item source file ID must be positive''),
      (bi_SourceRows item = [], invalidBatch ''item source rows are empty''),
      (trim_space (bi_VendorCode item) = [], invalidBatch ''item vendor code is empty''),
      (var_VendorCode (card_Variant (bi_Payload item)) \<noteq> bi_VendorCode item,
         invalidBatch ''item vendor code differs from payload''),
      (\<not> equalRows (bi_SourceRows item) (card_SourceRows (bi_Payload item)),
         invalidBatch ''item source rows differ from payload''),
      (bi_SourceGroupKey item \<noteq>
         NewSourceGroupKey (bi_SourceFileID item) (card_Group (bi_Payload item)) (bi_VendorCode item),
         invalidBatch ''item source group key differs from payload'')])
     (check_source_rows None (bi_SourceRows item))"

text \<open>\<open>BatchChecksum\<close>: the header fields, then every item; \<open>marshal\<close> stands for \<open>json.Marshal\<close> of a
  card payload and may fail (it does on a \<open>NaN\<close> or an infinity).\<close>

fun checksum_items ::
  "(card \<Rightarrow> string option) \<Rightarrow> nat \<Rightarrow> batch_item list \<Rightarrow> builder \<Rightarrow> builder result" where
  "checksum_items marshal index [] b = Inr b"
| "checksum_items marshal index (item # items) b =
     (if bi_Position item \<noteq> int index + 1
      then Inl (invalidBatch ''item positions must be contiguous and ordered'')
      else guard (BatchItem_Validate item)
       (case marshal (bi_Payload item) of
          None \<Rightarrow> Inl (GoErr NoSentinel ''marshal batch item payload'')
        | Some payload \<Rightarrow>
            checksum_items marshal (Suc index) items
             (builder_Bytes payload
             (builder_String (bi_VendorCode item)
             (builder_Bytes (bi_SourceGroupKey item)
             (foldl (\<lambda>b row. builder_Int64 row b)
               (builder_Int64 (int (length (bi_SourceRows item)))
               (builder_Int64 (bi_SourceFileID item)
               (builder_Int64 (bi_Position item) b)))
               (bi_SourceRows item)))))))"

definition BatchChecksum_stream ::
  "(card \<Rightarrow> string option) \<Rightarrow> purpose \<Rightarrow> int \<Rightarrow> batch_item list \<Rightarrow> builder result" where
  "BatchChecksum_stream marshal purpose groupsCount items =
     checksum_items marshal 0 items
      (builder_Int64 groupsCount
      (builder_Int64 (int (length items))
      (builder_Int64 BatchNormalizationVersion
      (builder_Int64 BatchSchemaVersion
      (builder_String purpose (NewSHA256 ''cardimport-batch-semantic:v1''))))))"

definition BatchChecksum ::
  "(card \<Rightarrow> string option) \<Rightarrow> purpose \<Rightarrow> int \<Rightarrow> batch_item list \<Rightarrow> digest result" where
  "BatchChecksum marshal purpose groupsCount items =
     rbind (BatchChecksum_stream marshal purpose groupsCount items) (\<lambda>b. Inr (builder_Sum b))"

section \<open>Facts about validation\<close>

lemma check_source_rows_Some_iff:
  "check_source_rows (Some p) rows = None \<longleftrightarrow>
     (\<forall>r \<in> set rows. 0 < r) \<and> strictly_increasing (p # rows)"
  by (induction rows arbitrary: p) auto

lemma check_source_rows_None_iff:
  "check_source_rows None rows = None \<longleftrightarrow> (\<forall>r \<in> set rows. 0 < r) \<and> strictly_increasing rows"
  by (cases rows) (auto simp: check_source_rows_Some_iff)

lemma BatchItem_Validate_None_iff:
  "BatchItem_Validate item = None \<longleftrightarrow>
     0 < bi_Position item \<and> 0 < bi_SourceFileID item \<and> bi_SourceRows item \<noteq> [] \<and>
     trim_space (bi_VendorCode item) \<noteq> [] \<and>
     var_VendorCode (card_Variant (bi_Payload item)) = bi_VendorCode item \<and>
     card_SourceRows (bi_Payload item) = bi_SourceRows item \<and>
     bi_SourceGroupKey item =
       NewSourceGroupKey (bi_SourceFileID item) (card_Group (bi_Payload item)) (bi_VendorCode item) \<and>
     (\<forall>r \<in> set (bi_SourceRows item). 0 < r) \<and> strictly_increasing (bi_SourceRows item)"
  by (auto simp: BatchItem_Validate_def check_source_rows_None_iff)

lemma BatchHeader_Validate_bounds:
  "BatchHeader_Validate h = None \<Longrightarrow>
     0 < bh_GroupsCount h \<and> bh_GroupsCount h \<le> bh_ItemsCount h \<and> bh_Purpose h = PurposeTransfer"
  by (simp add: BatchHeader_Validate_def purpose_IsValid_def split: if_splits)

section \<open>Source group keys\<close>

lemma sized_literal: "length s < 100 \<Longrightarrow> sized s"
  by (simp add: sized_def)

lemma source_group_stream_eq:
  "source_group_stream f g v =
     enc_bytes ''cardimport-source-group:v1'' @ enc_int64 f @
     (if g \<noteq> [] then enc_bytes ''group'' @ enc_bytes g else enc_bytes ''singleton'' @ enc_bytes v)"
  by (simp add: source_group_stream_def builder_defs Let_def)

text \<open>What two source group streams being equal means: the same file and either the same named
  group or, for rows without a group, the same vendor code.\<close>

definition same_source_group :: "int \<times> string \<times> string \<Rightarrow> int \<times> string \<times> string \<Rightarrow> bool" where
  "same_source_group a b =
     (case a of (f, g, v) \<Rightarrow> case b of (f', g', v') \<Rightarrow>
        f = f' \<and> (if g = [] then g' = [] \<and> v = v' else g = g'))"

lemma source_group_stream_iff:
  assumes "int64_range f" "int64_range f'" "sized g" "sized g'" "sized v" "sized v'"
  shows "source_group_stream f g v = source_group_stream f' g' v' \<longleftrightarrow>
    same_source_group (f, g, v) (f', g', v')"
proof -
  let ?tag = "\<lambda>g v. if g \<noteq> [] then (''group'', g) else (''singleton'', v :: string)"
  let ?enc = "\<lambda>(a, b). enc_bytes a @ enc_bytes b"
  have shape: "source_group_stream f g v = enc_bytes ''cardimport-source-group:v1'' @ enc_int64 f @ ?enc (?tag g v)"
    for f g v by (simp add: source_group_stream_eq)
  have "source_group_stream f g v = source_group_stream f' g' v' \<longleftrightarrow>
        enc_int64 f @ ?enc (?tag g v) = enc_int64 f' @ ?enc (?tag g' v')"
    unfolding shape by simp
  also have "\<dots> \<longleftrightarrow> f = f' \<and> ?enc (?tag g v) = ?enc (?tag g' v')"
    by (rule int64_field.frame_iff [OF assms(1,2)])
  also have "?enc (?tag g v) = ?enc (?tag g' v') \<longleftrightarrow> ?tag g v = ?tag g' v'"
    using bytes_fields.enc_inj [of "?tag g v" "?tag g' v'"] assms(3-6)
    by (auto simp: sized_literal)
  finally show ?thesis by (auto simp: same_source_group_def split: if_splits)
qed

section \<open>The checksum stream\<close>

text \<open>What the checksum covers of one item, and its encoding as a composition of frames.\<close>

type_synonym item_fields = "int \<times> int \<times> int list \<times> string \<times> string \<times> string"

definition enc_item :: "item_fields \<Rightarrow> string" where
  "enc_item = (\<lambda>(pos, rest). enc_int64 pos @ (\<lambda>(file, rest). enc_int64 file @
     (\<lambda>(rows, rest). enc_counted enc_int64 rows @ (\<lambda>(key, rest). enc_bytes key @
       (\<lambda>(vendor, payload). enc_bytes vendor @ enc_bytes payload) rest) rest) rest) rest)"

definition ok_item :: "item_fields \<Rightarrow> bool" where
  "ok_item = (\<lambda>(pos, rest). int64_range pos \<and> (\<lambda>(file, rest). int64_range file \<and>
     (\<lambda>(rows, rest). ok_counted int64_range rows \<and> (\<lambda>(key, rest). sized key \<and>
       (\<lambda>(vendor, payload). sized vendor \<and> sized payload) rest) rest) rest) rest)"

interpretation item_field: framed enc_item ok_item
  unfolding enc_item_def ok_item_def
  by (intro framed_pair framed_counted bytes_field.framed_axioms int64_field.framed_axioms)

definition item_fields :: "(card \<Rightarrow> string option) \<Rightarrow> batch_item \<Rightarrow> item_fields" where
  "item_fields marshal item =
     (bi_Position item, bi_SourceFileID item, bi_SourceRows item, bi_SourceGroupKey item,
      bi_VendorCode item, the (marshal (bi_Payload item)))"

lemma foldl_builder_Int64:
  "foldl (\<lambda>b row. builder_Int64 row b) b rows = b @ concat (map enc_int64 rows)"
  by (induction rows arbitrary: b) (simp_all add: builder_Int64_def)

lemmas foldl_enc_int64 = foldl_builder_Int64 [unfolded builder_Int64_def]

lemma checksum_items_stream:
  "checksum_items marshal index items b = Inr b' \<Longrightarrow>
     b' = b @ concat (map (enc_item \<circ> item_fields marshal) items) \<and>
     (\<forall>item \<in> set items. BatchItem_Validate item = None \<and> marshal (bi_Payload item) \<noteq> None) \<and>
     (\<forall>k < length items. bi_Position (items ! k) = int (index + k) + 1)"
proof (induction items arbitrary: index b)
  case Nil
  then show ?case by simp
next
  case (Cons item items)
  from Cons.prems obtain payload where
    pos: "bi_Position item = int index + 1" and ok: "BatchItem_Validate item = None"
    and m: "marshal (bi_Payload item) = Some payload"
    by (auto split: if_splits option.splits)
  let ?b = "b @ enc_item (item_fields marshal item)"
  have "checksum_items marshal (Suc index) items ?b = Inr b'"
    using Cons.prems pos ok m
    by (simp add: enc_item_def item_fields_def enc_counted_def foldl_enc_int64 builder_defs)
  from Cons.IH [OF this] pos ok m show ?case
    by (auto simp: less_Suc_eq_0_disj)
qed

lemma checksum_items_total:
  assumes "\<forall>k < length items. bi_Position (items ! k) = int (index + k) + 1"
    and "\<forall>item \<in> set items. BatchItem_Validate item = None \<and> marshal (bi_Payload item) \<noteq> None"
  shows "\<exists>b'. checksum_items marshal index items b = Inr b'"
  using assms
proof (induction items arbitrary: index b)
  case Nil
  then show ?case by simp
next
  case (Cons item items)
  from Cons.prems(2) obtain payload where m: "marshal (bi_Payload item) = Some payload"
    and ok: "BatchItem_Validate item = None" by auto
  from Cons.prems(1) have pos: "bi_Position item = int index + 1" by force
  have "\<forall>k < length items. bi_Position (items ! k) = int (Suc index + k) + 1"
    using Cons.prems(1) by force
  from Cons.IH [OF this] Cons.prems(2) pos ok m show ?case by simp
qed

lemma BatchChecksum_stream_eq:
  assumes "BatchChecksum_stream marshal p gc items = Inr b"
  shows "b = enc_bytes ''cardimport-batch-semantic:v1'' @ enc_bytes p @ enc_int64 1 @ enc_int64 1 @
    enc_int64 (int (length items)) @ enc_int64 gc @ concat (map enc_item (map (item_fields marshal) items))"
  using checksum_items_stream [OF assms [unfolded BatchChecksum_stream_def]]
  by (simp add: builder_defs BatchSchemaVersion_def BatchNormalizationVersion_def comp_def)

section \<open>A sample batch\<close>

definition sample_card :: card where
  "sample_card =
     \<lparr>card_SourceRows = [3, 4], card_Group = ''G'', card_Category = ''shoes'', card_Price = 100,
      card_KIZRequirement = [], card_AdultOnly = [], card_MarkingConfirmed = [], card_VATRate = [],
      card_Variant = \<lparr>var_VendorCode = ''V1'', var_Title = ''T'', var_Description = ''D'', var_Brand = ''B'',
        var_Dimensions = \<lparr>dim_Length = FFin 1, dim_Width = FFin 1, dim_Height = FFin 1,
          dim_WeightBrutto = FFin 1\<rparr>,
        var_Sizes = [\<lparr>size_TechSize = ''42'', size_WBSize = ''42'', size_Price = 0, size_SKUs = [''111'']\<rparr>],
        var_Characteristics = []\<rparr>,
      card_Media = \<lparr>media_Photos = [], media_Video = []\<rparr>\<rparr>"

definition sample_item :: batch_item where
  "sample_item =
     \<lparr>bi_ID = 1, bi_BatchID = 1, bi_Position = 1, bi_SourceFileID = 7, bi_SourceRows = [3, 4],
      bi_SourceGroupKey = NewSourceGroupKey 7 ''G'' ''V1'', bi_VendorCode = ''V1'',
      bi_Payload = sample_card\<rparr>"

lemma sample_item_valid: "BatchItem_Validate sample_item = None"
proof -
  have "trim_space ''V1'' \<noteq> []" by code_simp
  then show ?thesis
    by (simp add: BatchItem_Validate_None_iff sample_item_def sample_card_def)
qed

section \<open>Properties\<close>

text \<open>A source group key identifies the group. Provided SHA-256 does not
  collide on the two streams, two rows get the same key exactly
  when they are in the same file and either carry the same group name or carry no group and have
  the same vendor code; in particular a named group never coincides with an ungrouped row.\<close>

theorem source_group_key_identifies:
  assumes "int64_range f" "int64_range f'" "sized g" "sized g'" "sized v" "sized v'"
    and "no_collision (source_group_stream f g v) (source_group_stream f' g' v')"
  shows "NewSourceGroupKey f g v = NewSourceGroupKey f' g' v' \<longleftrightarrow>
    same_source_group (f, g, v) (f', g', v')"
proof -
  have "NewSourceGroupKey f g v = NewSourceGroupKey f' g' v' \<longleftrightarrow>
      source_group_stream f g v = source_group_stream f' g' v'"
    using assms(7) by (auto simp: NewSourceGroupKey_def builder_Sum_def no_collision_def)
  with source_group_stream_iff [OF assms(1-6)] show ?thesis by simp
qed

theorem source_group_key_identifies_witness:
  "NewSourceGroupKey 7 ''G'' ''V-1'' = NewSourceGroupKey 7 ''G'' ''V-2'' \<longleftrightarrow>
    same_source_group (7, ''G'', ''V-1'') (7, ''G'', ''V-2'')"
proof -
  have "no_collision (source_group_stream 7 ''G'' ''V-1'') (source_group_stream 7 ''G'' ''V-2'')"
    by (simp add: no_collision_def source_group_stream_eq)
  then show ?thesis
    by (intro source_group_key_identifies) (simp_all add: int64_range_def max_int64_def sized_literal)
qed

text \<open>The batch checksum succeeds exactly on well-formed batches: positions count from one
  without gaps, every item is valid and every payload can be encoded.\<close>

theorem BatchChecksum_succeeds_iff:
  "(\<exists>d. BatchChecksum marshal p gc items = Inr d) \<longleftrightarrow>
     (\<forall>k < length items. bi_Position (items ! k) = int k + 1) \<and>
     (\<forall>item \<in> set items. BatchItem_Validate item = None \<and> marshal (bi_Payload item) \<noteq> None)"
  (is "?L \<longleftrightarrow> ?R")
proof
  assume ?L
  then obtain b where "BatchChecksum_stream marshal p gc items = Inr b"
    by (auto simp: BatchChecksum_def rbind_eq_Inr_iff)
  from checksum_items_stream [OF this [unfolded BatchChecksum_stream_def]] show ?R by simp
next
  assume ?R
  then have "\<exists>b. BatchChecksum_stream marshal p gc items = Inr b"
    unfolding BatchChecksum_stream_def by (intro checksum_items_total) simp_all
  then show ?L by (auto simp: BatchChecksum_def)
qed

theorem BatchChecksum_succeeds_iff_witness:
  "\<exists>d. BatchChecksum (\<lambda>_. Some ''{}'') PurposeTransfer 1 [sample_item] = Inr d"
  unfolding BatchChecksum_succeeds_iff using sample_item_valid by (simp add: sample_item_def)

text \<open>C16: the batch checksum identifies the content. If two batches are accepted and their checksum
  streams do not collide, equal checksums mean the same purpose, the same number of groups and, item
  by item, the same position, file, rows, group key, vendor code and payload bytes.\<close>

theorem BatchChecksum_identifies:
  assumes s: "BatchChecksum_stream marshal p gc items = Inr b"
    and s': "BatchChecksum_stream marshal p' gc' items' = Inr b'"
    and nc: "no_collision b b'"
    and p: "sized p" "sized p'" and gc: "int64_range gc" "int64_range gc'"
    and n: "int64_range (int (length items))" "int64_range (int (length items'))"
    and items: "list_all (ok_item \<circ> item_fields marshal) items"
      "list_all (ok_item \<circ> item_fields marshal) items'"
    and eq: "BatchChecksum marshal p gc items = BatchChecksum marshal p' gc' items'"
  shows "p = p' \<and> gc = gc' \<and> map (item_fields marshal) items = map (item_fields marshal) items'"
proof -
  from s s' eq nc have "b = b'" by (simp add: BatchChecksum_def builder_Sum_def no_collision_def)
  with BatchChecksum_stream_eq [OF s] BatchChecksum_stream_eq [OF s'] have
    "enc_bytes p @ enc_int64 1 @ enc_int64 1 @ enc_int64 (int (length items)) @ enc_int64 gc @
       concat (map enc_item (map (item_fields marshal) items)) =
     enc_bytes p' @ enc_int64 1 @ enc_int64 1 @ enc_int64 (int (length items')) @ enc_int64 gc' @
       concat (map enc_item (map (item_fields marshal) items'))" by simp
  with bytes_field.frame_iff [OF p] have pp: "p = p'" and
    "enc_int64 (int (length items)) @ enc_int64 gc @ concat (map enc_item (map (item_fields marshal) items)) =
     enc_int64 (int (length items')) @ enc_int64 gc' @ concat (map enc_item (map (item_fields marshal) items'))"
    by simp_all
  with int64_field.frame_iff [OF n] int64_field.frame_iff [OF gc] have
    len: "length items = length items'" and g: "gc = gc'" and
    "concat (map enc_item (map (item_fields marshal) items)) =
     concat (map enc_item (map (item_fields marshal) items'))" by simp_all
  with item_field.concat_frame [of "map (item_fields marshal) items" "map (item_fields marshal) items'" "[]" "[]"]
  have "map (item_fields marshal) items = map (item_fields marshal) items'"
    using items by (simp add: list.pred_map)
  with pp g show ?thesis by simp
qed

theorem BatchChecksum_identifies_witness:
  "item_fields (\<lambda>_. Some ''{}'') sample_item = item_fields (\<lambda>_. Some ''{}'') (sample_item\<lparr>bi_ID := 9\<rparr>)"
proof -
  let ?m = "\<lambda>_. Some ''{}''"
  obtain b where b: "BatchChecksum_stream ?m ''transfer'' 1 [sample_item] = Inr b"
    using checksum_items_total [of "[sample_item]" 0 ?m] sample_item_valid
    unfolding BatchChecksum_stream_def by (auto simp: sample_item_def)
  have same: "BatchChecksum_stream ?m ''transfer'' 1 [sample_item] =
      BatchChecksum_stream ?m ''transfer'' 1 [sample_item\<lparr>bi_ID := 9\<rparr>]"
    by (simp add: BatchChecksum_stream_def BatchItem_Validate_def)
  have sum: "BatchChecksum ?m ''transfer'' 1 [sample_item] =
      BatchChecksum ?m ''transfer'' 1 [sample_item\<lparr>bi_ID := 9\<rparr>]"
    by (simp only: BatchChecksum_def same)
  have "''transfer'' = ''transfer'' \<and> (1::int) = 1 \<and>
    map (item_fields ?m) [sample_item] = map (item_fields ?m) [sample_item\<lparr>bi_ID := 9\<rparr>]"
    by (rule BatchChecksum_identifies [OF b b [unfolded same] _ _ _ _ _ _ _ _ _ sum])
      (simp_all add: no_collision_def sized_def int64_range_def max_int64_def
        ok_item_def item_fields_def sample_item_def ok_counted_def NewSourceGroupKey_def)
  then show ?thesis by simp
qed

end
