(* ===== verification/TransferModel.thy ===== *)
theory TransferModel
  imports CardPipeline
begin

text \<open>
  The transfer aggregate (\<open>internal/feature/transfer/service/model\<close>) and the registry that freezes the
  set of target cabinets (\<open>service/registry\<close>): capacity arithmetic, validation of transfers, of their
  item-target projections and of target snapshots, the root digest of a target set, and the selection
  of targets from verified credentials.
\<close>

section \<open>Capacity\<close>

record capacity_policy =
  cp_MaxItems :: int
  cp_MaxGroups :: int
  cp_MaxTargets :: int
  cp_MaxItemTargets :: int
  cp_MaxGroupTargets :: int

record capacity =
  cap_Items :: int
  cap_Groups :: int
  cap_Targets :: int
  cap_ItemTargets :: int
  cap_GroupTargets :: int

definition transfer_ErrCapacityExceeded :: goerr where
  "transfer_ErrCapacityExceeded = GoErr ErrCapacityExceeded ''transfer capacity exceeded''"

definition CapacityPolicy_Validate :: "capacity_policy \<Rightarrow> goerr option" where
  "CapacityPolicy_Validate policy =
     (if cp_MaxItems policy \<le> 0 \<or> cp_MaxGroups policy \<le> 0 \<or> cp_MaxTargets policy \<le> 0 \<or>
         cp_MaxItemTargets policy \<le> 0 \<or> cp_MaxGroupTargets policy \<le> 0
      then Some (GoErr NoSentinel ''transfer capacity limits must be positive'') else None)"

text \<open>\<open>left * right\<close> in 64 bits with its overflow test; the product is written with its wrap-around.\<close>

definition checkedMultiply :: "int \<Rightarrow> int \<Rightarrow> int \<times> bool" where
  "checkedMultiply left right =
     (if left \<le> 0 \<or> right \<le> 0 \<or> go_div max_int64 right < left then (0, False)
      else (wrap64 (left * right), True))"

definition CapacityPolicy_Check :: "capacity_policy \<Rightarrow> int \<Rightarrow> int \<Rightarrow> int \<Rightarrow> capacity result" where
  "CapacityPolicy_Check policy items groups targets =
     guard (CapacityPolicy_Validate policy)
      (if items \<le> 0 \<or> groups \<le> 0 \<or> targets \<le> 0 \<or> items < groups
       then Inl (GoErr NoSentinel ''invalid transfer capacity inputs'')
       else if cp_MaxItems policy < items \<or> cp_MaxGroups policy < groups \<or> cp_MaxTargets policy < targets
       then Inl transfer_ErrCapacityExceeded
       else (let (itemTargets, ok) = checkedMultiply items targets in
         if \<not> ok then Inl transfer_ErrCapacityExceeded
         else (let (groupTargets, ok) = checkedMultiply groups targets in
           if \<not> ok then Inl transfer_ErrCapacityExceeded
           else if cp_MaxItemTargets policy < itemTargets \<or> cp_MaxGroupTargets policy < groupTargets
           then Inl transfer_ErrCapacityExceeded
           else Inr \<lparr>cap_Items = items, cap_Groups = groups, cap_Targets = targets,
                     cap_ItemTargets = itemTargets, cap_GroupTargets = groupTargets\<rparr>)))"

lemma div_limit_iff:
  fixes a b :: int
  assumes "0 < b"
  shows "go_div max_int64 b < a \<longleftrightarrow> max_int64 < a * b"
proof -
  have "go_div max_int64 b = max_int64 div b" using assms by (simp add: go_div_def max_int64_def)
  moreover have "a \<le> max_int64 div b \<longleftrightarrow> a * b \<le> max_int64"
  proof
    assume "a \<le> max_int64 div b"
    then have "a * b \<le> max_int64 div b * b" using assms by (simp add: mult_right_mono)
    also have "\<dots> \<le> max_int64" using assms pos_mod_sign [of b max_int64] div_mult_mod_eq [of max_int64 b] by linarith
    finally show "a * b \<le> max_int64" .
  next
    assume "a * b \<le> max_int64"
    then have "a * b div b \<le> max_int64 div b" using assms by (simp only: zdiv_mono1)
    then show "a \<le> max_int64 div b" using assms by simp
  qed
  ultimately show ?thesis by linarith
qed

lemma checkedMultiply_exact:
  "checkedMultiply a b =
     (if 0 < a \<and> 0 < b \<and> a * b \<le> max_int64 then (a * b, True) else (0, False))"
proof (cases "0 < a \<and> 0 < b")
  case True
  then have "0 < a * b" by simp
  moreover have "wrap64 (a * b) = a * b" if "a * b \<le> max_int64"
    using that \<open>0 < a * b\<close> by (intro wrap64_id) (simp add: int64_range_def max_int64_def)
  ultimately show ?thesis using True div_limit_iff [of b a] by (auto simp: checkedMultiply_def)
qed (auto simp: checkedMultiply_def)

section \<open>Phases, outcomes and results\<close>

definition PhaseInitializing :: string where "PhaseInitializing = ''initializing''"
definition PhasePreparing :: string where "PhasePreparing = ''preparing''"
definition PhaseAwaitingAuthorization :: string where "PhaseAwaitingAuthorization = ''awaiting_authorization''"
definition PhasePublishing :: string where "PhasePublishing = ''publishing''"
definition PhaseReconciling :: string where "PhaseReconciling = ''reconciling''"
definition PhaseMedia :: string where "PhaseMedia = ''media''"
definition PhaseFinished :: string where "PhaseFinished = ''finished''"

definition Phase_IsValid :: "string \<Rightarrow> bool" where
  "Phase_IsValid phase \<longleftrightarrow>
     phase \<in> {PhaseInitializing, PhasePreparing, PhaseAwaitingAuthorization, PhasePublishing,
              PhaseReconciling, PhaseMedia, PhaseFinished}"

definition OutcomeRunning :: string where "OutcomeRunning = ''running''"
definition OutcomeSucceeded :: string where "OutcomeSucceeded = ''succeeded''"
definition OutcomePartial :: string where "OutcomePartial = ''partial''"
definition OutcomeRejected :: string where "OutcomeRejected = ''rejected''"
definition OutcomeUnresolved :: string where "OutcomeUnresolved = ''unresolved''"
definition OutcomeFailed :: string where "OutcomeFailed = ''failed''"
definition OutcomeCancelled :: string where "OutcomeCancelled = ''cancelled''"

definition Outcome_IsValid :: "string \<Rightarrow> bool" where
  "Outcome_IsValid outcome \<longleftrightarrow>
     outcome \<in> {OutcomeRunning, OutcomeSucceeded, OutcomePartial, OutcomeRejected, OutcomeUnresolved,
                OutcomeFailed, OutcomeCancelled}"

definition ResultSuccess :: string where "ResultSuccess = ''success''"
definition ResultSkipped :: string where "ResultSkipped = ''skipped''"
definition ResultRejected :: string where "ResultRejected = ''rejected''"
definition ResultPartial :: string where "ResultPartial = ''partial''"
definition ResultUnresolved :: string where "ResultUnresolved = ''unresolved''"
definition ResultInternalError :: string where "ResultInternalError = ''internal_error''"

definition ResultClass_IsValid :: "string \<Rightarrow> bool" where
  "ResultClass_IsValid result \<longleftrightarrow>
     result \<in> {ResultSuccess, ResultSkipped, ResultRejected, ResultPartial, ResultUnresolved, ResultInternalError}"

definition ItemTargetPending :: string where "ItemTargetPending = ''pending''"
definition ItemTargetRunning :: string where "ItemTargetRunning = ''running''"
definition ItemTargetTerminal :: string where "ItemTargetTerminal = ''terminal''"

lemmas phase_defs = PhaseInitializing_def PhasePreparing_def PhaseAwaitingAuthorization_def
  PhasePublishing_def PhaseReconciling_def PhaseMedia_def PhaseFinished_def
lemmas outcome_defs = OutcomeRunning_def OutcomeSucceeded_def OutcomePartial_def OutcomeRejected_def
  OutcomeUnresolved_def OutcomeFailed_def OutcomeCancelled_def
lemmas result_defs = ResultSuccess_def ResultSkipped_def ResultRejected_def ResultPartial_def
  ResultUnresolved_def ResultInternalError_def

definition invalidTransfer :: "string \<Rightarrow> goerr" where
  "invalidTransfer message = GoErr ErrInvalidArgument (''invalid transfer: '' @ message)"

section \<open>Item-target projections\<close>

record item_target_projection =
  itp_ID :: int
  itp_TransferID :: int
  itp_GroupTargetID :: int
  itp_TransferItemID :: int
  itp_Revision :: int
  itp_State :: string
  itp_OutcomeClass :: string
  itp_OutcomeCode :: string
  itp_NMID :: int
  itp_SourceActionID :: int
  itp_AttentionClosedAt :: "int option"
  itp_CreatedAt :: int
  itp_StartedAt :: "int option"
  itp_FinishedAt :: "int option"
  itp_UpdatedAt :: int

text \<open>Comparison of optional times as the code writes it: \<open>p != nil && p.Before(t)\<close>.\<close>

definition opt_before :: "int option \<Rightarrow> int \<Rightarrow> bool" where
  "opt_before p t = (case p of None \<Rightarrow> False | Some x \<Rightarrow> x < t)"

definition opt_before_opt :: "int option \<Rightarrow> int option \<Rightarrow> bool" where
  "opt_before_opt p q = (case q of None \<Rightarrow> False | Some t \<Rightarrow> opt_before p t)"

definition item_target_state_err :: "item_target_projection \<Rightarrow> goerr option" where
  "item_target_state_err p =
     (if itp_State p = ItemTargetPending then
        (if itp_OutcomeClass p \<noteq> [] \<or> itp_OutcomeCode p \<noteq> [] \<or> itp_NMID p \<noteq> 0 \<or> itp_SourceActionID p \<noteq> 0 \<or>
            itp_AttentionClosedAt p \<noteq> None \<or> itp_StartedAt p \<noteq> None \<or> itp_FinishedAt p \<noteq> None
         then Some (invalidTransfer ''pending item-target has result'') else None)
      else if itp_State p = ItemTargetRunning then
        (if itp_OutcomeClass p \<noteq> [] \<or> itp_OutcomeCode p \<noteq> [] \<or> itp_AttentionClosedAt p \<noteq> None \<or>
            itp_StartedAt p = None \<or> itp_FinishedAt p \<noteq> None
         then Some (invalidTransfer ''running item-target has invalid result'') else None)
      else if itp_State p = ItemTargetTerminal then
        (if \<not> ResultClass_IsValid (itp_OutcomeClass p) \<or> itp_OutcomeCode p = [] \<or>
            itp_StartedAt p = None \<or> itp_FinishedAt p = None
         then Some (invalidTransfer ''terminal item-target has incomplete result'')
         else if itp_AttentionClosedAt p \<noteq> None \<and> itp_OutcomeClass p \<noteq> ResultUnresolved \<and>
                 itp_OutcomeClass p \<noteq> ResultInternalError
         then Some (invalidTransfer ''resolved item-target has closed attention'') else None)
      else Some (invalidTransfer ''item-target state is invalid''))"

definition ItemTargetProjection_Validate :: "item_target_projection \<Rightarrow> goerr option" where
  "ItemTargetProjection_Validate p =
     (if itp_ID p \<le> 0 \<or> itp_TransferID p \<le> 0 \<or> itp_GroupTargetID p \<le> 0 \<or> itp_TransferItemID p \<le> 0 \<or>
         itp_Revision p < 0 \<or> itp_CreatedAt p = 0 \<or> itp_UpdatedAt p = 0 \<or>
         itp_UpdatedAt p < itp_CreatedAt p \<or> \<not> trimmed (itp_OutcomeCode p) \<or>
         128 < length (itp_OutcomeCode p) \<or> itp_NMID p < 0 \<or> itp_SourceActionID p < 0
      then Some (invalidTransfer ''item-target projection is invalid'')
      else or_else (item_target_state_err p) (first_err
        [(opt_before (itp_StartedAt p) (itp_CreatedAt p), invalidTransfer ''item-target started before creation''),
         (opt_before_opt (itp_FinishedAt p) (itp_StartedAt p), invalidTransfer ''item-target finished before start''),
         (opt_before_opt (itp_AttentionClosedAt p) (itp_FinishedAt p),
            invalidTransfer ''item-target attention closed before finish'')]))"

section \<open>Transfers\<close>

record transfer =
  tr_ID :: int
  tr_BatchID :: int
  tr_Phase :: string
  tr_Outcome :: string
  tr_AttentionCode :: string
  tr_Revision :: int
  tr_BatchSchemaVersion :: int
  tr_BatchNormalizationVersion :: int
  tr_BatchChecksum :: digest
  tr_ItemsCount :: int
  tr_GroupsCount :: int
  tr_CohortName :: string
  tr_TargetSnapshotRevision :: digest
  tr_TargetSetRoot :: digest
  tr_TargetsCount :: int
  tr_ItemTargetsCount :: int
  tr_GroupTargetsCount :: int
  tr_CreatedAt :: int
  tr_StartedAt :: int
  tr_FinishedAt :: "int option"
  tr_UpdatedAt :: int

definition Transfer_Validate :: "transfer \<Rightarrow> goerr option" where
  "Transfer_Validate t =
     (let (expectedItemTargets, itemTargetsOK) = checkedMultiply (tr_ItemsCount t) (tr_TargetsCount t);
          (expectedGroupTargets, groupTargetsOK) = checkedMultiply (tr_GroupsCount t) (tr_TargetsCount t)
      in first_err
     [(tr_ID t \<le> 0, invalidTransfer ''transfer ID must be positive''),
      (tr_BatchID t \<le> 0, invalidTransfer ''batch ID must be positive''),
      (\<not> Phase_IsValid (tr_Phase t), invalidTransfer ''unsupported transfer phase''),
      (\<not> Outcome_IsValid (tr_Outcome t), invalidTransfer ''unsupported transfer outcome''),
      (\<not> trimmed (tr_AttentionCode t) \<or> 128 < length (tr_AttentionCode t),
         invalidTransfer ''attention code is invalid''),
      (tr_Revision t < 0, invalidTransfer ''revision must not be negative''),
      (tr_BatchSchemaVersion t \<le> 0, invalidTransfer ''batch schema version must be positive''),
      (tr_BatchNormalizationVersion t \<le> 0, invalidTransfer ''batch normalization version must be positive''),
      (tr_ItemsCount t \<le> 0, invalidTransfer ''items count must be positive''),
      (tr_GroupsCount t \<le> 0 \<or> tr_ItemsCount t < tr_GroupsCount t,
         invalidTransfer ''groups count is outside allowed bounds''),
      (\<not> trimmed (tr_CohortName t) \<or> tr_CohortName t = [],
         invalidTransfer ''cohort name is empty or not normalized''),
      (tr_TargetsCount t \<le> 0, invalidTransfer ''targets count must be positive''),
      (tr_ItemTargetsCount t \<le> 0 \<or> tr_GroupTargetsCount t \<le> 0,
         invalidTransfer ''matrix counts must be positive''),
      (\<not> itemTargetsOK \<or> tr_ItemTargetsCount t \<noteq> expectedItemTargets,
         invalidTransfer ''item-target count differs from frozen dimensions''),
      (\<not> groupTargetsOK \<or> tr_GroupTargetsCount t \<noteq> expectedGroupTargets,
         invalidTransfer ''group-target count differs from frozen dimensions''),
      (tr_Phase t = PhaseFinished \<and> tr_Outcome t = OutcomeRunning,
         invalidTransfer ''finished transfer has running outcome''),
      (tr_Phase t \<noteq> PhaseFinished \<and> tr_Outcome t \<noteq> OutcomeRunning,
         invalidTransfer ''active transfer has terminal outcome''),
      (tr_Outcome t = OutcomeRunning \<and> tr_AttentionCode t \<noteq> [],
         invalidTransfer ''running transfer requires no operator attention''),
      (tr_Outcome t = OutcomeFailed \<and> tr_AttentionCode t = [],
         invalidTransfer ''attention outcome has no attention code''),
      (tr_Phase t = PhaseFinished \<and> tr_FinishedAt t = None,
         invalidTransfer ''finished transfer has no finished time''),
      (tr_Phase t \<noteq> PhaseFinished \<and> tr_FinishedAt t \<noteq> None,
         invalidTransfer ''active transfer has finished time''),
      (tr_CreatedAt t = 0 \<or> tr_StartedAt t = 0 \<or> tr_UpdatedAt t = 0, invalidTransfer ''timestamps are empty''),
      (tr_StartedAt t < tr_CreatedAt t, invalidTransfer ''started time precedes created time''),
      (opt_before (tr_FinishedAt t) (tr_StartedAt t), invalidTransfer ''finished time precedes started time''),
      (tr_UpdatedAt t < tr_CreatedAt t, invalidTransfer ''updated time precedes created time''),
      (tr_TargetSnapshotRevision t = zero_digest, invalidTransfer ''target snapshot revision is empty''),
      (tr_TargetSetRoot t = zero_digest, invalidTransfer ''target set root is empty''),
      (tr_BatchChecksum t = zero_digest, invalidTransfer ''batch checksum is empty'')])"

section \<open>Target snapshots\<close>

record mutation_target =
  mt_Position :: int
  mt_SellerID :: seller_id
  mt_ClientGeneration :: digest
  mt_BindingRevision :: int
  mt_CapabilityRevision :: int
  mt_ContentRead :: bool
  mt_ContentWrite :: bool
  mt_CredentialExpiresAt :: int

record target_snapshot =
  ts_CohortName :: string
  ts_Revision :: digest
  ts_Targets :: "mutation_target list"

definition invalidTargetSnapshot :: "string \<Rightarrow> goerr" where
  "invalidTargetSnapshot message =
     GoErr ErrInvalidArgument (''invalid mutation target snapshot: '' @ message)"

fun check_targets :: "int \<Rightarrow> nat \<Rightarrow> seller_id list \<Rightarrow> mutation_target list \<Rightarrow> goerr option" where
  "check_targets now index sellers [] = None"
| "check_targets now index sellers (target # targets) =
     or_else (first_err
      [(mt_Position target \<noteq> int index + 1, invalidTargetSnapshot ''target positions are not contiguous''),
       (SellerID_Validate (mt_SellerID target) \<noteq> None, invalidTargetSnapshot ''seller ID is invalid''),
       (generation_IsZero (mt_ClientGeneration target), invalidTargetSnapshot ''client generation is empty''),
       (mt_BindingRevision target \<le> 0, invalidTargetSnapshot ''binding revision must be positive''),
       (mt_CapabilityRevision target \<le> 0, invalidTargetSnapshot ''capability revision must be positive''),
       (\<not> mt_ContentRead target \<or> \<not> mt_ContentWrite target,
          invalidTargetSnapshot ''target lacks required Content capability''),
       (mt_CredentialExpiresAt target = 0 \<or> \<not> now < mt_CredentialExpiresAt target,
          invalidTargetSnapshot ''target credential is expired''),
       (mt_SellerID target \<in> set sellers, invalidTargetSnapshot ''seller ID is duplicated'')])
     (check_targets now (Suc index) (mt_SellerID target # sellers) targets)"

definition Snapshot_Validate :: "target_snapshot \<Rightarrow> int \<Rightarrow> goerr option" where
  "Snapshot_Validate snapshot now = or_else (first_err
     [(now = 0, invalidTargetSnapshot ''validation time is empty''),
      (\<not> trimmed (ts_CohortName snapshot) \<or> ts_CohortName snapshot = [] \<or> 128 < length (ts_CohortName snapshot),
         invalidTargetSnapshot ''cohort name is invalid''),
      (ts_Revision snapshot = zero_digest, invalidTargetSnapshot ''snapshot revision is empty''),
      (ts_Targets snapshot = [], invalidTargetSnapshot ''target list is empty'')])
     (check_targets now 0 [] (ts_Targets snapshot))"

text \<open>\<open>Time.UTC().UnixNano()\<close>: nanoseconds since 1970, truncated to 64 bits.\<close>

definition UnixNano :: "int \<Rightarrow> int" where
  "UnixNano t = wrap64 (t - 62135596800000000000)"

definition target_builder :: "builder \<Rightarrow> mutation_target \<Rightarrow> builder" where
  "target_builder b target =
     builder_Bool (mt_ContentWrite target)
     (builder_Bool (mt_ContentRead target)
     (builder_Int64 (mt_CapabilityRevision target)
     (builder_Int64 (mt_BindingRevision target)
     (builder_Int64 (UnixNano (mt_CredentialExpiresAt target))
     (builder_Bytes (mt_ClientGeneration target)
     (builder_String (mt_SellerID target) b))))))"

definition TargetSetRoot_stream :: "target_snapshot \<Rightarrow> builder" where
  "TargetSetRoot_stream snapshot =
     foldl (\<lambda>b target. target_builder (builder_Int64 (mt_Position target) b) target)
      (builder_Int64 (int (length (ts_Targets snapshot)))
      (builder_Bytes (ts_Revision snapshot)
      (builder_String (ts_CohortName snapshot) (NewSHA256 ''transfer-target-set:v4''))))
      (ts_Targets snapshot)"

definition TargetSetRoot :: "target_snapshot \<Rightarrow> digest" where
  "TargetSetRoot snapshot = builder_Sum (TargetSetRoot_stream snapshot)"

section \<open>The target registry\<close>

text \<open>A verified credential has the fields of a target without its position; it is kept in the same
  record, and its position is ignored.\<close>

definition targetSnapshotRevision :: "string \<Rightarrow> mutation_target list \<Rightarrow> digest" where
  "targetSnapshotRevision cohortName credentials =
     builder_Sum (foldl target_builder
      (builder_Int64 (int (length credentials))
      (builder_String cohortName (NewSHA256 ''transfer-target-snapshot:v4''))) credentials)"

definition number_targets :: "mutation_target list \<Rightarrow> mutation_target list" where
  "number_targets credentials =
     map (\<lambda>(index, credential). credential\<lparr>mt_Position := int index + 1\<rparr>) (enumerate 0 credentials)"

definition snapshotForCredentials :: "string \<Rightarrow> int \<Rightarrow> mutation_target list \<Rightarrow> target_snapshot result" where
  "snapshotForCredentials cohortName now credentials =
     (if credentials = [] then Inl (GoErr NoSentinel ''verify mutation target cohort: target list is empty'')
      else (let snapshot = \<lparr>ts_CohortName = cohortName,
                  ts_Revision = targetSnapshotRevision cohortName credentials,
                  ts_Targets = number_targets credentials\<rparr>
            in guard (Snapshot_Validate snapshot now) (Inr snapshot)))"

text \<open>The map \<open>byID\<close>: for a repeated seller the last target wins.\<close>

definition targets_by_id :: "mutation_target list \<Rightarrow> seller_id \<Rightarrow> mutation_target option" where
  "targets_by_id targets = map_of (rev (map (\<lambda>t. (mt_SellerID t, t)) targets))"

fun select_credentials ::
  "(seller_id \<Rightarrow> mutation_target option) \<Rightarrow> seller_id list \<Rightarrow> seller_id list \<Rightarrow> mutation_target list result" where
  "select_credentials byID seen [] = Inr []"
| "select_credentials byID seen (sellerID # sellerIDs) =
     (if SellerID_Validate sellerID \<noteq> None
      then Inl (GoErr NoSentinel ''select mutation targets: seller ID is invalid'')
      else if sellerID \<in> set seen
      then Inl (GoErr NoSentinel ''select mutation targets: seller ID is duplicated'')
      else (case byID sellerID of
              None \<Rightarrow> Inl (GoErr NoSentinel ''select mutation targets: cabinet is unavailable'')
            | Some target \<Rightarrow>
                rbind (select_credentials byID (sellerID # seen) sellerIDs) (\<lambda>rest. Inr (target # rest))))"

definition selectMutationTargets :: "target_snapshot \<Rightarrow> seller_id list \<Rightarrow> int \<Rightarrow> target_snapshot result" where
  "selectMutationTargets base sellerIDs now =
     (if sellerIDs = [] then Inl (GoErr NoSentinel ''select mutation targets: cabinet list is empty'')
      else rbind (select_credentials (targets_by_id (ts_Targets base)) [] sellerIDs) (\<lambda>credentials.
        let result = \<lparr>ts_CohortName = ts_CohortName base,
              ts_Revision = targetSnapshotRevision (ts_CohortName base) credentials,
              ts_Targets = number_targets credentials\<rparr>
        in guard (Snapshot_Validate result now) (Inr result)))"

section \<open>Facts about validation and selection\<close>

lemma check_targets_None_iff:
  "check_targets now index sellers ts = None \<longleftrightarrow>
     (\<forall>k < length ts. mt_Position (ts ! k) = int (index + k) + 1) \<and>
     (\<forall>t \<in> set ts. SellerID_Validate (mt_SellerID t) = None \<and> \<not> generation_IsZero (mt_ClientGeneration t) \<and>
        0 < mt_BindingRevision t \<and> 0 < mt_CapabilityRevision t \<and> mt_ContentRead t \<and> mt_ContentWrite t \<and>
        mt_CredentialExpiresAt t \<noteq> 0 \<and> now < mt_CredentialExpiresAt t) \<and>
     distinct (map mt_SellerID ts) \<and> set (map mt_SellerID ts) \<inter> set sellers = {}"
proof (induction ts arbitrary: index sellers)
  case (Cons t ts)
  have shift: "(\<forall>k < length (t # ts). mt_Position ((t # ts) ! k) = int (index + k) + 1) \<longleftrightarrow>
      mt_Position t = int index + 1 \<and> (\<forall>k < length ts. mt_Position (ts ! k) = int (Suc index + k) + 1)"
    by (simp add: All_less_Suc2 add.commute)
  show ?case
    unfolding shift using Cons.IH [of "Suc index" "mt_SellerID t # sellers"] by auto
qed simp

lemma Snapshot_Validate_None_iff:
  "Snapshot_Validate s now = None \<longleftrightarrow>
     now \<noteq> 0 \<and> trimmed (ts_CohortName s) \<and> ts_CohortName s \<noteq> [] \<and> length (ts_CohortName s) \<le> 128 \<and>
     ts_Revision s \<noteq> zero_digest \<and> ts_Targets s \<noteq> [] \<and> check_targets now 0 [] (ts_Targets s) = None"
  by (auto simp: Snapshot_Validate_def)

lemma length_number_targets [simp]: "length (number_targets cs) = length cs"
  by (simp add: number_targets_def)

lemma nth_number_targets:
  "i < length cs \<Longrightarrow> number_targets cs ! i = (cs ! i)\<lparr>mt_Position := int i + 1\<rparr>"
  by (simp add: number_targets_def nth_enumerate_eq)

lemma number_targets_sellers [simp]: "map mt_SellerID (number_targets cs) = map mt_SellerID cs"
  by (rule nth_equalityI) (simp_all add: nth_number_targets)

lemma targets_by_id_Some:
  "targets_by_id ts s = Some t \<Longrightarrow> t \<in> set ts \<and> mt_SellerID t = s"
  by (auto simp: targets_by_id_def dest!: map_of_SomeD)

lemma targets_by_id_distinct:
  "distinct (map mt_SellerID ts) \<Longrightarrow> t \<in> set ts \<Longrightarrow> targets_by_id ts (mt_SellerID t) = Some t"
  unfolding targets_by_id_def
  by (rule map_of_is_SomeI) (auto simp: rev_map [symmetric] comp_def)

lemma select_credentials_Inr:
  "select_credentials byID seen ids = Inr cs \<longleftrightarrow>
     (\<forall>s \<in> set ids. SellerID_Validate s = None) \<and> distinct ids \<and> set ids \<inter> set seen = {} \<and>
     map byID ids = map Some cs"
proof (induction ids arbitrary: seen cs)
  case Nil
  then show ?case by auto
next
  case (Cons s ids)
  show ?case
  proof (cases "byID s")
    case None
    then show ?thesis by (cases cs) auto
  next
    case (Some t)
    then show ?thesis using Cons.IH
      by (cases cs) (auto simp: rbind_eq_Inr_iff)
  qed
qed

section \<open>The encoding of a target set\<close>

definition enc_bool :: "bool \<Rightarrow> string" where
  "enc_bool b = enc_bytes [if b then CHR 0x01 else CHR 0x00]"

interpretation bool_field: framed enc_bool "\<lambda>_. True"
proof
  fix x y :: bool and r s
  assume "enc_bool x @ r = enc_bool y @ s"
  then have "[if x then CHR 0x01 else CHR 0x00] = [if y then CHR 0x01 else CHR 0x00] \<and> r = s"
    unfolding enc_bool_def by (intro bytes_field.frame) (simp_all add: sized_def)
  then show "x = y \<and> r = s" by (simp split: if_splits)
qed

type_synonym target_fields = "int \<times> string \<times> string \<times> int \<times> int \<times> int \<times> bool \<times> bool"

definition target_fields :: "mutation_target \<Rightarrow> target_fields" where
  "target_fields t =
     (mt_Position t, mt_SellerID t, mt_ClientGeneration t, UnixNano (mt_CredentialExpiresAt t),
      mt_BindingRevision t, mt_CapabilityRevision t, mt_ContentRead t, mt_ContentWrite t)"

definition enc_target :: "target_fields \<Rightarrow> string" where
  "enc_target = (\<lambda>(pos, rest). enc_int64 pos @ (\<lambda>(seller, rest). enc_bytes seller @
     (\<lambda>(gen, rest). enc_bytes gen @ (\<lambda>(nano, rest). enc_int64 nano @ (\<lambda>(bind, rest). enc_int64 bind @
       (\<lambda>(cap, rest). enc_int64 cap @ (\<lambda>(rd, wr). enc_bool rd @ enc_bool wr) rest) rest) rest) rest) rest) rest)"

definition ok_target :: "target_fields \<Rightarrow> bool" where
  "ok_target = (\<lambda>(pos, rest). int64_range pos \<and> (\<lambda>(seller, rest). sized seller \<and>
     (\<lambda>(gen, rest). sized gen \<and> (\<lambda>(nano, rest). int64_range nano \<and> (\<lambda>(bind, rest). int64_range bind \<and>
       (\<lambda>(cap, rest). int64_range cap \<and> (\<lambda>(rd, wr). True \<and> True) rest) rest) rest) rest) rest) rest)"

interpretation target_field: framed enc_target ok_target
  unfolding enc_target_def ok_target_def
  by (intro framed_pair bytes_field.framed_axioms int64_field.framed_axioms bool_field.framed_axioms)

interpretation target_list_field: framed "enc_counted enc_target" "ok_counted ok_target"
  by (rule framed_counted [OF target_field.framed_axioms])

lemma target_builder_enc:
  "target_builder (builder_Int64 (mt_Position t) b) t = b @ enc_target (target_fields t)"
  by (simp add: target_builder_def builder_defs enc_target_def target_fields_def enc_bool_def)

lemma TargetSetRoot_stream_eq:
  "TargetSetRoot_stream s =
     enc_bytes ''transfer-target-set:v4'' @ enc_bytes (ts_CohortName s) @ enc_bytes (ts_Revision s) @
     enc_counted enc_target (map target_fields (ts_Targets s))"
proof -
  have "foldl (\<lambda>b t. target_builder (builder_Int64 (mt_Position t) b) t) b ts =
      b @ concat (map (enc_target \<circ> target_fields) ts)" for b ts
    by (induction ts arbitrary: b) (simp_all add: target_builder_enc)
  then show ?thesis
    by (simp add: TargetSetRoot_stream_def enc_counted_def) (simp add: builder_defs)
qed

text \<open>Field values as the Go types hold them: 64-bit numbers and slices with a 64-bit length.\<close>

definition snapshot_in_range :: "target_snapshot \<Rightarrow> bool" where
  "snapshot_in_range s \<longleftrightarrow>
     sized (ts_CohortName s) \<and> sized (ts_Revision s) \<and> ok_counted ok_target (map target_fields (ts_Targets s))"

section \<open>Properties\<close>

text \<open>The capacity check accepts a transfer exactly when the policy is positive, the three
  dimensions are positive and within their limits, there are no more groups than items, and both
  true products fit 64 bits and their limits; it then returns the exact products.\<close>

theorem CapacityPolicy_Check_exact:
  "CapacityPolicy_Check policy items groups targets = Inr c \<longleftrightarrow>
     CapacityPolicy_Validate policy = None \<and> 0 < groups \<and> groups \<le> items \<and> 0 < targets \<and>
     items \<le> cp_MaxItems policy \<and> groups \<le> cp_MaxGroups policy \<and> targets \<le> cp_MaxTargets policy \<and>
     items * targets \<le> max_int64 \<and>
     items * targets \<le> cp_MaxItemTargets policy \<and> groups * targets \<le> cp_MaxGroupTargets policy \<and>
     c = \<lparr>cap_Items = items, cap_Groups = groups, cap_Targets = targets,
          cap_ItemTargets = items * targets, cap_GroupTargets = groups * targets\<rparr>"
proof (cases "0 < groups \<and> groups \<le> items \<and> 0 < targets")
  case True
  then have "groups * targets \<le> items * targets" by (simp add: mult_right_mono)
  then have "items * targets \<le> max_int64 \<Longrightarrow> groups * targets \<le> max_int64" by linarith
  with True show ?thesis
    by (auto simp: CapacityPolicy_Check_def checkedMultiply_exact)
qed (auto simp: CapacityPolicy_Check_def)

text \<open>what a valid transfer guarantees: it has a terminal outcome exactly when it is finished, a
  finish time exactly when it is finished, the frozen matrix counts are the true products of its
  dimensions (no wrap-around), a running transfer carries no attention code and a failed one does,
  and its times are ordered.\<close>

theorem Transfer_Validate_guarantees:
  assumes "Transfer_Validate t = None"
  shows "(tr_Phase t = PhaseFinished \<longleftrightarrow> tr_Outcome t \<noteq> OutcomeRunning) \<and>
    (tr_Phase t = PhaseFinished \<longleftrightarrow> tr_FinishedAt t \<noteq> None) \<and>
    tr_ItemTargetsCount t = tr_ItemsCount t * tr_TargetsCount t \<and>
    tr_GroupTargetsCount t = tr_GroupsCount t * tr_TargetsCount t \<and>
    tr_GroupTargetsCount t \<le> tr_ItemTargetsCount t \<and> tr_ItemTargetsCount t \<le> max_int64 \<and>
    (tr_Outcome t = OutcomeRunning \<longrightarrow> tr_AttentionCode t = []) \<and>
    (tr_Outcome t = OutcomeFailed \<longrightarrow> tr_AttentionCode t \<noteq> []) \<and>
    tr_CreatedAt t \<le> tr_StartedAt t \<and> (\<forall>f. tr_FinishedAt t = Some f \<longrightarrow> tr_StartedAt t \<le> f)"
proof -
  have "0 < tr_GroupsCount t" "tr_GroupsCount t \<le> tr_ItemsCount t" "0 < tr_TargetsCount t"
    and rest: "tr_ItemTargetsCount t = tr_ItemsCount t * tr_TargetsCount t"
    "tr_GroupTargetsCount t = tr_GroupsCount t * tr_TargetsCount t"
    "tr_ItemTargetsCount t \<le> max_int64"
    using assms by (auto simp: Transfer_Validate_def checkedMultiply_exact Let_def split: if_splits)
  then have "tr_GroupTargetsCount t \<le> tr_ItemTargetsCount t" by (simp add: mult_right_mono)
  with rest show ?thesis
    using assms by (auto simp: Transfer_Validate_def opt_before_def Let_def split: if_splits prod.splits option.splits)
qed

text \<open>selection of targets. From a valid base snapshot, a selection succeeds exactly for a
  non-empty list of distinct cabinets of that snapshot whose credentials are still valid (and a
  non-zero revision digest). The result lists exactly the requested cabinets in the requested order,
  each with the data it has in the base.\<close>

theorem selectMutationTargets_exact:
  assumes "Snapshot_Validate base now0 = None" "now \<noteq> 0"
  shows "selectMutationTargets base ids now = Inr r \<longleftrightarrow>
    (\<exists>cs. ids \<noteq> [] \<and> distinct ids \<and> map mt_SellerID cs = ids \<and> set cs \<subseteq> set (ts_Targets base) \<and>
      (\<forall>c \<in> set cs. now < mt_CredentialExpiresAt c) \<and>
      targetSnapshotRevision (ts_CohortName base) cs \<noteq> zero_digest \<and>
      r = \<lparr>ts_CohortName = ts_CohortName base,
           ts_Revision = targetSnapshotRevision (ts_CohortName base) cs, ts_Targets = number_targets cs\<rparr>)"
proof -
  let ?ts = "ts_Targets base"
  have base: "\<forall>t \<in> set ?ts. SellerID_Validate (mt_SellerID t) = None \<and> \<not> generation_IsZero (mt_ClientGeneration t) \<and>
        0 < mt_BindingRevision t \<and> 0 < mt_CapabilityRevision t \<and> mt_ContentRead t \<and> mt_ContentWrite t \<and>
        mt_CredentialExpiresAt t \<noteq> 0" "distinct (map mt_SellerID ?ts)"
    and name: "trimmed (ts_CohortName base)" "ts_CohortName base \<noteq> []" "length (ts_CohortName base) \<le> 128"
    using assms(1) by (simp_all add: Snapshot_Validate_None_iff check_targets_None_iff)
  have sel: "select_credentials (targets_by_id ?ts) [] ids = Inr cs \<longleftrightarrow>
      distinct ids \<and> map mt_SellerID cs = ids \<and> set cs \<subseteq> set ?ts" for cs
  proof -
    have "map (targets_by_id ?ts) ids = map Some cs \<longleftrightarrow> map mt_SellerID cs = ids \<and> set cs \<subseteq> set ?ts"
    proof
      assume eq: "map (targets_by_id ?ts) ids = map Some cs"
      then have len: "length ids = length cs" by (rule map_eq_imp_length_eq)
      have "targets_by_id ?ts (ids ! i) = Some (cs ! i)" if "i < length cs" for i
        using eq that len by (metis nth_map)
      then have "\<forall>i < length cs. cs ! i \<in> set ?ts \<and> mt_SellerID (cs ! i) = ids ! i"
        using targets_by_id_Some by blast
      then show "map mt_SellerID cs = ids \<and> set cs \<subseteq> set ?ts"
        using len by (auto intro: nth_equalityI simp: in_set_conv_nth)
    next
      assume "map mt_SellerID cs = ids \<and> set cs \<subseteq> set ?ts"
      then show "map (targets_by_id ?ts) ids = map Some cs"
        using targets_by_id_distinct [OF base(2)] by (auto simp: subset_iff)
    qed
    then show ?thesis using base(1) by (auto simp: select_credentials_Inr subset_iff)
  qed
  have valid: "Snapshot_Validate \<lparr>ts_CohortName = ts_CohortName base,
        ts_Revision = targetSnapshotRevision (ts_CohortName base) cs, ts_Targets = number_targets cs\<rparr> now = None \<longleftrightarrow>
      targetSnapshotRevision (ts_CohortName base) cs \<noteq> zero_digest \<and> (\<forall>c \<in> set cs. now < mt_CredentialExpiresAt c)"
    if "map mt_SellerID cs = ids" "ids \<noteq> []" "distinct ids" "set cs \<subseteq> set ?ts" for cs
  proof -
    have "cs \<noteq> []" "number_targets cs \<noteq> []" using that(1,2) length_number_targets [of cs] by (auto simp del: length_number_targets)
    moreover have "\<forall>i < length cs. cs ! i \<in> set ?ts" using that(4) by auto
    then have "\<forall>i < length cs. SellerID_Validate (mt_SellerID (cs ! i)) = None \<and>
        \<not> generation_IsZero (mt_ClientGeneration (cs ! i)) \<and> 0 < mt_BindingRevision (cs ! i) \<and>
        0 < mt_CapabilityRevision (cs ! i) \<and> mt_ContentRead (cs ! i) \<and> mt_ContentWrite (cs ! i) \<and>
        mt_CredentialExpiresAt (cs ! i) \<noteq> 0"
      using base(1) by simp
    ultimately show ?thesis
      using name assms(2) that(1,3)
      by (auto simp: Snapshot_Validate_None_iff check_targets_None_iff nth_number_targets all_set_conv_all_nth)
  qed
  show ?thesis
    by (auto simp: selectMutationTargets_def rbind_eq_Inr_iff sel Let_def valid)
qed

text \<open>The root of a target set identifies it. If SHA-256 does not collide on the two streams,
  equal roots mean equal cohort, revision and targets (position, seller, generation, expiry in Unix
  nanoseconds, revisions and capabilities).\<close>

theorem TargetSetRoot_identifies:
  assumes "snapshot_in_range s" "snapshot_in_range s'"
    and "no_collision (TargetSetRoot_stream s) (TargetSetRoot_stream s')"
  shows "TargetSetRoot s = TargetSetRoot s' \<longleftrightarrow>
    ts_CohortName s = ts_CohortName s' \<and> ts_Revision s = ts_Revision s' \<and>
    map target_fields (ts_Targets s) = map target_fields (ts_Targets s')"
proof -
  have "TargetSetRoot s = TargetSetRoot s' \<longleftrightarrow> TargetSetRoot_stream s = TargetSetRoot_stream s'"
    using assms(3) by (auto simp: TargetSetRoot_def builder_Sum_def no_collision_def)
  also have "\<dots> \<longleftrightarrow> ts_CohortName s = ts_CohortName s' \<and> ts_Revision s = ts_Revision s' \<and>
      map target_fields (ts_Targets s) = map target_fields (ts_Targets s')"
    using assms(1,2) bytes_field.frame_iff [of "ts_CohortName s" "ts_CohortName s'"]
      bytes_field.frame_iff [of "ts_Revision s" "ts_Revision s'"]
      target_list_field.enc_inj [of "map target_fields (ts_Targets s)" "map target_fields (ts_Targets s')"]
    by (auto simp: TargetSetRoot_stream_eq snapshot_in_range_def)
  finally show ?thesis .
qed

section \<open>Sample values\<close>

definition sample_target :: "string \<Rightarrow> int \<Rightarrow> mutation_target" where
  "sample_target seller position =
     \<lparr>mt_Position = position, mt_SellerID = seller, mt_ClientGeneration = replicate 32 (CHR ''g''),
      mt_BindingRevision = 1, mt_CapabilityRevision = 1, mt_ContentRead = True, mt_ContentWrite = True,
      mt_CredentialExpiresAt = 100\<rparr>"

definition seller_a :: seller_id where "seller_a = ''aaaaaaaa-aaaa-aaaa-aaaa-aaaaaaaaaaaa''"
definition seller_b :: seller_id where "seller_b = ''bbbbbbbb-bbbb-bbbb-bbbb-bbbbbbbbbbbb''"

definition sample_snapshot :: target_snapshot where
  "sample_snapshot = \<lparr>ts_CohortName = ''main'', ts_Revision = replicate 32 (CHR ''r''),
     ts_Targets = [sample_target seller_a 1, sample_target seller_b 2]\<rparr>"

definition sample_transfer :: transfer where
  "sample_transfer =
     \<lparr>tr_ID = 1, tr_BatchID = 1, tr_Phase = PhasePreparing, tr_Outcome = OutcomeRunning, tr_AttentionCode = [],
      tr_Revision = 0, tr_BatchSchemaVersion = 1, tr_BatchNormalizationVersion = 1,
      tr_BatchChecksum = replicate 32 (CHR ''c''), tr_ItemsCount = 3, tr_GroupsCount = 2, tr_CohortName = ''main'',
      tr_TargetSnapshotRevision = replicate 32 (CHR ''r''), tr_TargetSetRoot = replicate 32 (CHR ''t''),
      tr_TargetsCount = 2, tr_ItemTargetsCount = 6, tr_GroupTargetsCount = 4, tr_CreatedAt = 1, tr_StartedAt = 1,
      tr_FinishedAt = None, tr_UpdatedAt = 1\<rparr>"

lemma sample_transfer_valid: "Transfer_Validate sample_transfer = None" by code_simp

lemma sample_snapshot_valid: "Snapshot_Validate sample_snapshot 10 = None" by code_simp

theorem Transfer_Validate_guarantees_witness:
  "tr_FinishedAt sample_transfer = None \<and> tr_Phase sample_transfer \<noteq> PhaseFinished"
  using Transfer_Validate_guarantees [OF sample_transfer_valid] by (simp add: sample_transfer_def)

theorem selectMutationTargets_exact_witness:
  "(\<exists>r. selectMutationTargets sample_snapshot [seller_b] 20 = Inr r) \<longleftrightarrow>
   targetSnapshotRevision ''main'' [sample_target seller_b 2] \<noteq> zero_digest"
proof -
  let ?P = "\<lambda>cs. [seller_b] \<noteq> [] \<and> distinct [seller_b] \<and> map mt_SellerID cs = [seller_b] \<and>
      set cs \<subseteq> set (ts_Targets sample_snapshot) \<and> (\<forall>c \<in> set cs. 20 < mt_CredentialExpiresAt c) \<and>
      targetSnapshotRevision ''main'' cs \<noteq> zero_digest"
  have "(\<exists>r. selectMutationTargets sample_snapshot [seller_b] 20 = Inr r) \<longleftrightarrow> (\<exists>cs. ?P cs)"
    using selectMutationTargets_exact [OF sample_snapshot_valid, of 20 "[seller_b]"]
    by (auto simp: sample_snapshot_def)
  also have "\<dots> \<longleftrightarrow> targetSnapshotRevision ''main'' [sample_target seller_b 2] \<noteq> zero_digest"
  proof
    assume "targetSnapshotRevision ''main'' [sample_target seller_b 2] \<noteq> zero_digest"
    then have "?P [sample_target seller_b 2]" by (simp add: sample_snapshot_def) (simp add: sample_target_def)
    then show "\<exists>cs. ?P cs" by (rule exI)
  qed (auto simp: sample_snapshot_def sample_target_def seller_a_def seller_b_def)
  finally show ?thesis .
qed

theorem TargetSetRoot_identifies_witness:
  "snapshot_in_range sample_snapshot \<and>
   (TargetSetRoot sample_snapshot = TargetSetRoot sample_snapshot \<longleftrightarrow>
      map target_fields (ts_Targets sample_snapshot) = map target_fields (ts_Targets sample_snapshot))"
proof -
  have "snapshot_in_range sample_snapshot" by code_simp
  then show ?thesis
    using TargetSetRoot_identifies [of sample_snapshot sample_snapshot] by (simp add: no_collision_def)
qed

end
