(* ===== verification/TransferWorkflow.thy ===== *)
theory TransferWorkflow
  imports TransferModel
begin

text \<open>
  Starting and initializing a transfer (\<open>internal/feature/transfer/service/workflow/service.go\<close> and
  \<open>initialization.go\<close>). The repositories and the batch reader are arguments: a function for a call
  whose argument the code computes, a value for a call made once. A transaction is the effect list the
  handler returns: what it asked the repository to store, in order.
\<close>

section \<open>The initialization command\<close>

record init_group =
  ig_SourceGroupKey :: digest
  ig_SourceFileID :: int
  ig_SourceGroupName :: string

record init_item =
  ii_BatchItemID :: int
  ii_Position :: int
  ii_SourceFileID :: int
  ii_SourceRows :: "int list"
  ii_GroupPosition :: int
  ii_VendorCode :: string
  ii_Payload :: string

record init_command =
  ic_TransferID :: int
  ic_BatchID :: int
  ic_BatchChecksum :: digest
  ic_ItemsCount :: int
  ic_GroupsCount :: int
  ic_Groups :: "init_group list"
  ic_Items :: "init_item list"

definition ErrInitializationInvalid :: goerr where
  "ErrInitializationInvalid = GoErr ErrInvalidArgument ''transfer initialization input is invalid''"

definition InitializeTransferCommand_Validate :: "init_command \<Rightarrow> goerr option" where
  "InitializeTransferCommand_Validate c =
     (if ic_TransferID c \<le> 0 \<or> ic_BatchID c \<le> 0 \<or> ic_BatchChecksum c = zero_digest \<or>
         ic_ItemsCount c \<le> 0 \<or> ic_GroupsCount c \<le> 0 \<or> ic_ItemsCount c < ic_GroupsCount c \<or>
         int (length (ic_Items c)) \<noteq> ic_ItemsCount c \<or> int (length (ic_Groups c)) \<noteq> ic_GroupsCount c
      then Some ErrInitializationInvalid
      else or_else
        (each_err (\<lambda>_ grp. if ig_SourceGroupKey grp = zero_digest \<or> ig_SourceFileID grp \<le> 0
                           then Some ErrInitializationInvalid else None) 0 (ic_Groups c))
        (each_err (\<lambda>index item.
           if ii_BatchItemID item \<le> 0 \<or> ii_Position item \<noteq> int index + 1 \<or> ii_SourceFileID item \<le> 0 \<or>
              ii_SourceRows item = [] \<or> ii_GroupPosition item < 0 \<or>
              int (length (ic_Groups c)) \<le> ii_GroupPosition item \<or> ii_VendorCode item = [] \<or> ii_Payload item = []
           then Some ErrInitializationInvalid else None) 0 (ic_Items c)))"

section \<open>Reading the batch in pages\<close>

definition initializationBatchPageSize :: nat where "initializationBatchPageSize = 1000"

fun accept_page :: "int \<Rightarrow> batch_item list \<Rightarrow> batch_item list \<Rightarrow> batch_item list result" where
  "accept_page batchID items [] = Inr items"
| "accept_page batchID items (item # page) =
     (if bi_ID item \<le> 0 \<or> bi_BatchID item \<noteq> batchID \<or> bi_Position item \<noteq> int (length items) + 1 \<or>
         BatchItem_Validate item \<noteq> None
      then Inl ErrInitializationInvalid
      else accept_page batchID (items @ [item]) page)"

text \<open>The page loop. It ends at the first short page; a reader that returns full pages forever keeps it
  running, so the result is an \<open>option\<close>. A full page is not empty, so \<open>items[len(items)-1]\<close> exists.\<close>

partial_function (option) read_pages ::
  "(int \<Rightarrow> batch_item list result) \<Rightarrow> int \<Rightarrow> batch_item list \<Rightarrow> int \<Rightarrow> batch_item list result option" where
  "read_pages reader batchID items afterPosition =
     (case reader afterPosition of
        Inl e \<Rightarrow> Some (Inl e)
      | Inr page \<Rightarrow>
          (case accept_page batchID items page of
             Inl e \<Rightarrow> Some (Inl e)
           | Inr items' \<Rightarrow>
               if length page < initializationBatchPageSize then Some (Inr items')
               else read_pages reader batchID items' (bi_Position (last items'))))"

definition readAllBatchItems ::
  "(int \<Rightarrow> batch_item list result) \<Rightarrow> batch_header \<Rightarrow> batch_item list result option" where
  "readAllBatchItems reader batch =
     (case read_pages reader (bh_ID batch) [] 0 of
        None \<Rightarrow> None
      | Some (Inl e) \<Rightarrow> Some (Inl e)
      | Some (Inr items) \<Rightarrow>
          if int (length items) \<noteq> bh_ItemsCount batch then Some (Inl ErrInitializationInvalid)
          else Some (Inr items))"

section \<open>Building the command\<close>

text \<open>The loop over the batch items, with the groups found so far and the map from group key to
  position.\<close>

fun init_items ::
  "(card \<Rightarrow> string option) \<Rightarrow> batch_item list \<Rightarrow> init_group list \<Rightarrow> (digest \<Rightarrow> nat option) \<Rightarrow>
     (init_group list \<times> init_item list) result" where
  "init_items marshal [] groups positions = Inr (groups, [])"
| "init_items marshal (item # rest) groups positions =
     (let key = bi_SourceGroupKey item in
      rbind
       (case positions key of
          None \<Rightarrow>
            Inr (length groups,
                 groups @ [\<lparr>ig_SourceGroupKey = key, ig_SourceFileID = bi_SourceFileID item,
                            ig_SourceGroupName = card_Group (bi_Payload item)\<rparr>],
                 positions(key := Some (length groups)))
        | Some groupPosition \<Rightarrow>
            (let grp = groups ! groupPosition in
             if ig_SourceFileID grp \<noteq> bi_SourceFileID item \<or> ig_SourceGroupName grp \<noteq> card_Group (bi_Payload item)
             then Inl ErrInitializationInvalid
             else Inr (groupPosition, groups, positions)))
       (\<lambda>(groupPosition, groups', positions').
          case marshal (bi_Payload item) of
            None \<Rightarrow> Inl (GoErr NoSentinel ''encode batch item'')
          | Some payload \<Rightarrow>
              rbind (init_items marshal rest groups' positions') (\<lambda>(allGroups, items).
                Inr (allGroups,
                  \<lparr>ii_BatchItemID = bi_ID item, ii_Position = bi_Position item,
                   ii_SourceFileID = bi_SourceFileID item, ii_SourceRows = bi_SourceRows item,
                   ii_GroupPosition = int groupPosition, ii_VendorCode = bi_VendorCode item,
                   ii_Payload = payload\<rparr> # items))))"

definition buildInitialization ::
  "(card \<Rightarrow> string option) \<Rightarrow> batch_header result \<Rightarrow> (int \<Rightarrow> batch_item list result) \<Rightarrow> transfer \<Rightarrow>
     init_command result option" where
  "buildInitialization marshal getBatch reader t =
     (case getBatch of
        Inl e \<Rightarrow> Some (Inl e)
      | Inr batch \<Rightarrow>
          if bh_ItemsCount batch \<noteq> tr_ItemsCount t \<or> bh_GroupsCount batch \<noteq> tr_GroupsCount t \<or>
             bh_SchemaVersion batch \<noteq> tr_BatchSchemaVersion t \<or>
             bh_NormalizationVersion batch \<noteq> tr_BatchNormalizationVersion t \<or>
             bh_Checksum batch \<noteq> tr_BatchChecksum t
          then Some (Inl ErrInitializationInvalid)
          else map_option (\<lambda>r. rbind r (\<lambda>batchItems.
            case BatchChecksum marshal (bh_Purpose batch) (bh_GroupsCount batch) batchItems of
              Inl _ \<Rightarrow> Inl ErrInitializationInvalid
            | Inr checksum \<Rightarrow>
                if checksum \<noteq> bh_Checksum batch then Inl ErrInitializationInvalid
                else rbind (init_items marshal batchItems [] (\<lambda>_. None)) (\<lambda>(groups, items).
                  let command = \<lparr>ic_TransferID = tr_ID t, ic_BatchID = tr_BatchID t,
                        ic_BatchChecksum = tr_BatchChecksum t, ic_ItemsCount = tr_ItemsCount t,
                        ic_GroupsCount = tr_GroupsCount t, ic_Groups = groups, ic_Items = items\<rparr>
                  in guard (InitializeTransferCommand_Validate command) (Inr command))))
            (readAllBatchItems reader batch))"

section \<open>Initialize\<close>

text \<open>The operations of the repository that initialization uses, over a state \<open>'s\<close>. \<open>WithinTransaction\<close>: an operation that
  fails leaves the state.\<close>

record 's init_repo =
  ir_FindByID :: "int \<Rightarrow> 's \<Rightarrow> transfer result"
  ir_Initialize :: "init_command \<Rightarrow> 's \<Rightarrow> 's result"
  ir_MarkInitializationFailed :: "int \<Rightarrow> string \<Rightarrow> 's \<Rightarrow> 's result"

definition in_transaction :: "('s \<Rightarrow> 's result) \<Rightarrow> 's \<Rightarrow> 's \<times> goerr option" where
  "in_transaction f st = (case f st of Inl e \<Rightarrow> (st, Some e) | Inr st' \<Rightarrow> (st', None))"

definition failureBatchMismatch :: string where "failureBatchMismatch = ''initialization_batch_mismatch''"
definition failureStorageMismatch :: string where "failureStorageMismatch = ''initialization_storage_mismatch''"

definition markInitializationFailed :: "'s init_repo \<Rightarrow> int \<Rightarrow> string \<Rightarrow> 's \<Rightarrow> 's \<times> goerr option" where
  "markInitializationFailed repo transferID failureCode =
     in_transaction (ir_MarkInitializationFailed repo transferID failureCode)"

definition Initialize ::
  "(card \<Rightarrow> string option) \<Rightarrow> 's init_repo \<Rightarrow> (int \<Rightarrow> batch_header result) \<Rightarrow> (int \<Rightarrow> batch_item list result) \<Rightarrow>
     int \<Rightarrow> 's \<Rightarrow> ('s \<times> goerr option) option" where
  "Initialize marshal repo getBatch reader transferID st =
     (if transferID \<le> 0 then Some (st, Some (GoErr ErrInvalidArgument ''initialize transfer ID''))
      else (case ir_FindByID repo transferID st of
        Inl e \<Rightarrow> Some (st, Some e)
      | Inr t \<Rightarrow>
          if tr_Phase t \<noteq> PhaseInitializing then Some (st, None)
          else map_option (\<lambda>built.
            case built of
              Inl e \<Rightarrow>
                if err_sentinel e \<in> {ErrNotFound, ErrInvalidArgument, ErrConflict}
                then markInitializationFailed repo (tr_ID t) failureBatchMismatch st
                else (st, Some e)
            | Inr command \<Rightarrow>
                (let (st', err) = in_transaction (ir_Initialize repo command) st in
                 case err of
                   None \<Rightarrow> (st', None)
                 | Some e \<Rightarrow>
                     if err_sentinel e = ErrConflict
                     then markInitializationFailed repo (tr_ID t) failureStorageMismatch st'
                     else (st', Some e)))
            (buildInitialization marshal (getBatch (tr_BatchID t)) reader t)))"

section \<open>Start\<close>

definition verifyStoredTargets :: "seller_id list result \<Rightarrow> seller_id list \<Rightarrow> goerr option" where
  "verifyStoredTargets listed expected =
     (case listed of
        Inl e \<Rightarrow> Some e
      | Inr stored \<Rightarrow>
          if length stored \<noteq> length expected
          then Some (GoErr ErrConflict ''transfer target set differs from requested target'')
          else each_err (\<lambda>_ sellerID. if sellerID \<in> set expected then None
                 else Some (GoErr ErrConflict ''transfer target set differs from requested target'')) 0 stored)"

definition validateStartBatch :: "batch_header \<Rightarrow> goerr option" where
  "validateStartBatch batch = or_else (BatchHeader_Validate batch) (first_err
     [(bh_Purpose batch \<noteq> PurposeTransfer, GoErr ErrConflict ''cardimport batch purpose cannot start transfer''),
      (bh_SchemaVersion batch \<noteq> BatchSchemaVersion \<or> bh_NormalizationVersion batch \<noteq> BatchNormalizationVersion,
         GoErr ErrConflict ''cardimport batch contract is unsupported''),
      (bh_Checksum batch = zero_digest, GoErr ErrConflict ''cardimport batch checksum is empty'')])"

record create_transfer =
  ct_Batch :: batch_header
  ct_Snapshot :: target_snapshot
  ct_TargetSetRoot :: digest
  ct_Capacity :: capacity

text \<open>The collaborators of \<open>Service\<close>; \<open>se_Create\<close> returns the transfer and whether it was created now.\<close>

record start_env =
  se_FindByBatch :: "int \<Rightarrow> transfer result"
  se_GetBatch :: "int \<Rightarrow> batch_header result"
  se_FanoutSnapshot :: "target_snapshot result"
  se_SnapshotForOwner :: "int \<Rightarrow> seller_id list \<Rightarrow> target_snapshot result"
  se_ListTargetSellerIDs :: "int \<Rightarrow> seller_id list result"
  se_Create :: "create_transfer \<Rightarrow> (transfer \<times> bool) result"

definition start :: "start_env \<Rightarrow> capacity_policy \<Rightarrow> int \<Rightarrow> seller_id list \<Rightarrow> create_transfer option \<times> int result" where
  "start env policy batchID targetSellerIDs =
     (if batchID \<le> 0 then (None, Inl (GoErr ErrInvalidArgument ''invalid transfer batch ID''))
      else (case se_FindByBatch env batchID of
        Inr existing \<Rightarrow>
          (None, guard (if targetSellerIDs \<noteq> []
                        then verifyStoredTargets (se_ListTargetSellerIDs env (tr_ID existing)) targetSellerIDs
                        else None) (Inr (tr_ID existing)))
      | Inl e \<Rightarrow>
          if err_sentinel e \<noteq> ErrNotFound then (None, Inl e)
          else (case se_GetBatch env batchID of
            Inl e \<Rightarrow> (None, Inl e)
          | Inr batch \<Rightarrow>
              (case validateStartBatch batch of
                 Some e \<Rightarrow> (None, Inl e)
               | None \<Rightarrow>
                   (case (if targetSellerIDs = [] then se_FanoutSnapshot env
                          else se_SnapshotForOwner env (as_TelegramUserID (bh_AuthorSnapshot batch)) targetSellerIDs) of
                      Inl e \<Rightarrow> (None, Inl e)
                    | Inr snapshot \<Rightarrow>
                        (case CapacityPolicy_Check policy (bh_ItemsCount batch) (bh_GroupsCount batch)
                                (int (length (ts_Targets snapshot))) of
                           Inl e \<Rightarrow> (None, Inl e)
                         | Inr cap \<Rightarrow>
                             (let command = \<lparr>ct_Batch = batch, ct_Snapshot = snapshot,
                                    ct_TargetSetRoot = TargetSetRoot snapshot, ct_Capacity = cap\<rparr>
                              in (Some command,
                                  case se_Create env command of
                                    Inl e \<Rightarrow> Inl e
                                  | Inr (t, created) \<Rightarrow>
                                      guard (if created \<or> targetSellerIDs = [] then None
                                             else verifyStoredTargets (se_ListTargetSellerIDs env (tr_ID t)) targetSellerIDs)
                                       (Inr (tr_ID t))))))))))"

definition StartToCabinet :: "start_env \<Rightarrow> capacity_policy \<Rightarrow> int \<Rightarrow> seller_id \<Rightarrow> create_transfer option \<times> int result" where
  "StartToCabinet env policy batchID sellerID =
     (if \<not> trimmed sellerID \<or> sellerID = [] then (None, Inl (GoErr ErrInvalidArgument ''invalid transfer seller ID''))
      else start env policy batchID [sellerID])"

definition Start :: "start_env \<Rightarrow> capacity_policy \<Rightarrow> int \<Rightarrow> create_transfer option \<times> int result" where
  "Start env policy batchID = start env policy batchID []"

section \<open>Reading all pages\<close>

text \<open>A stored batch: items numbered from 1, each acceptable on its own.\<close>

definition stored_batch :: "int \<Rightarrow> batch_item list \<Rightarrow> bool" where
  "stored_batch batchID stored \<longleftrightarrow>
     (\<forall>k < length stored. bi_Position (stored ! k) = int k + 1) \<and>
     (\<forall>item \<in> set stored. 0 < bi_ID item \<and> bi_BatchID item = batchID \<and> BatchItem_Validate item = None)"

text \<open>What \<open>ListBatchItems\<close> promises: the items after a position, in order, at most one page.\<close>

definition pages_of :: "batch_item list \<Rightarrow> (int \<Rightarrow> batch_item list result) \<Rightarrow> bool" where
  "pages_of stored reader \<longleftrightarrow>
     (\<forall>n. reader (int n) = Inr (take initializationBatchPageSize (filter (\<lambda>i. int n < bi_Position i) stored)))"

lemma filter_after:
  assumes "\<forall>k < length xs. bi_Position (xs ! k) = int (m + k) + 1"
  shows "filter (\<lambda>i. int (m + n) < bi_Position i) xs = drop n xs"
  using assms
proof (induction xs arbitrary: m n)
  case (Cons x xs)
  have hd: "bi_Position x = int m + 1" using Cons.prems by force
  have tl: "\<forall>k < length xs. bi_Position (xs ! k) = int (Suc m + k) + 1" using Cons.prems by force
  show ?case
  proof (cases n)
    case 0
    have "filter (\<lambda>i. int (Suc m + 0) < bi_Position i) xs = xs" using Cons.IH [OF tl, of 0] by simp
    moreover have "\<forall>i \<in> set xs. int m < bi_Position i" using tl by (auto simp: in_set_conv_nth)
    ultimately show ?thesis using 0 hd by (simp add: filter_id_conv)
  next
    case (Suc n')
    then show ?thesis using Cons.IH [OF tl, of n'] hd by simp
  qed
qed simp

lemma accept_page_stored:
  "stored_batch b (xs @ page @ zs) \<Longrightarrow> accept_page b xs page = Inr (xs @ page)"
proof (induction page arbitrary: xs)
  case (Cons i page)
  have "\<forall>k < length (xs @ (i # page) @ zs). bi_Position ((xs @ (i # page) @ zs) ! k) = int k + 1"
    using Cons.prems by (simp add: stored_batch_def)
  then have "bi_Position ((xs @ (i # page) @ zs) ! length xs) = int (length xs) + 1"
    by (rule allE [of _ "length xs"]) simp
  then have "bi_Position i = int (length xs) + 1" by simp
  then show ?case using Cons.prems Cons.IH [of "xs @ [i]"] by (simp add: stored_batch_def)
qed simp

lemma read_pages_from:
  assumes "stored_batch b stored" "pages_of stored reader" "n \<le> length stored"
  shows "read_pages reader b (take n stored) (int n) = Some (Inr stored)"
  using assms(3)
proof (induction "length stored - n" arbitrary: n rule: less_induct)
  case less
  let ?page = "take initializationBatchPageSize (drop n stored)"
  have "reader (int n) = Inr ?page"
    using assms(2) filter_after [of stored 0 n] assms(1) by (simp add: pages_of_def stored_batch_def)
  moreover have split: "stored = take n stored @ ?page @ drop initializationBatchPageSize (drop n stored)"
    by (simp only: append_take_drop_id)
  have acc: "accept_page b (take n stored) ?page = Inr (take n stored @ ?page)"
    by (rule accept_page_stored [where zs = "drop initializationBatchPageSize (drop n stored)"])
      (use assms(1) split in simp)
  moreover have all: "take n stored @ ?page = take (n + initializationBatchPageSize) stored" by (simp add: take_add)
  ultimately have step: "read_pages reader b (take n stored) (int n) =
      (if length ?page < initializationBatchPageSize then Some (Inr (take (n + initializationBatchPageSize) stored))
       else read_pages reader b (take (n + initializationBatchPageSize) stored)
              (bi_Position (last (take (n + initializationBatchPageSize) stored))))"
    by (subst read_pages.simps) simp
  show ?case
  proof (cases "length ?page < initializationBatchPageSize")
    case True
    then have "length stored < n + initializationBatchPageSize" using less.prems by simp
    then show ?thesis using step True by simp
  next
    case False
    let ?m = "n + initializationBatchPageSize"
    have m: "?m \<le> length stored" "n < ?m" using False less.prems by (auto simp: initializationBatchPageSize_def)
    then have "last (take ?m stored) = stored ! (?m - 1)" by (subst last_conv_nth) auto
    moreover have "bi_Position (stored ! (?m - 1)) = int ?m"
      using assms(1) m by (simp add: stored_batch_def initializationBatchPageSize_def)
    ultimately show ?thesis using step False less.hyps [of ?m] m by simp
  qed
qed

section \<open>Grouping\<close>

definition groups_inv :: "init_group list \<Rightarrow> (digest \<Rightarrow> nat option) \<Rightarrow> bool" where
  "groups_inv groups positions \<longleftrightarrow>
     (\<forall>key i. positions key = Some i \<longleftrightarrow> i < length groups \<and> ig_SourceGroupKey (groups ! i) = key)"

definition group_of :: "batch_item \<Rightarrow> init_group" where
  "group_of item = \<lparr>ig_SourceGroupKey = bi_SourceGroupKey item, ig_SourceFileID = bi_SourceFileID item,
     ig_SourceGroupName = card_Group (bi_Payload item)\<rparr>"

text \<open>A stored item keeps the batch item's data and points at the group with its key, file and name.\<close>

definition placed :: "(card \<Rightarrow> string option) \<Rightarrow> init_group list \<Rightarrow> batch_item \<Rightarrow> init_item \<Rightarrow> bool" where
  "placed marshal groups item out \<longleftrightarrow>
     ii_BatchItemID out = bi_ID item \<and> ii_Position out = bi_Position item \<and>
     ii_SourceFileID out = bi_SourceFileID item \<and> ii_SourceRows out = bi_SourceRows item \<and>
     ii_VendorCode out = bi_VendorCode item \<and> marshal (bi_Payload item) = Some (ii_Payload out) \<and>
     0 \<le> ii_GroupPosition out \<and> nat (ii_GroupPosition out) < length groups \<and>
     groups ! nat (ii_GroupPosition out) = group_of item"

lemma groups_inv_distinct: "groups_inv groups positions \<Longrightarrow> distinct (map ig_SourceGroupKey groups)"
  by (auto simp: groups_inv_def distinct_conv_nth) (metis nth_map option.inject)

lemma groups_inv_snoc:
  assumes "groups_inv groups positions" "positions key = None" "ig_SourceGroupKey g = key"
  shows "groups_inv (groups @ [g]) (positions(key := Some (length groups)))"
proof -
  have "\<forall>i < length groups. ig_SourceGroupKey (groups ! i) \<noteq> key"
    using assms(1,2) by (metis groups_inv_def option.distinct(1))
  then show ?thesis using assms by (auto simp: groups_inv_def nth_append less_Suc_eq)
qed

lemma placed_append: "placed marshal gs item out \<Longrightarrow> placed marshal (gs @ ext) item out"
  by (auto simp: placed_def nth_append)

lemma init_items_sound:
  assumes "init_items marshal items groups positions = Inr (gs, out)" "groups_inv groups positions"
  shows "\<exists>ext. gs = groups @ ext \<and> distinct (map ig_SourceGroupKey gs) \<and>
    set ext \<subseteq> group_of ` set items \<and> list_all2 (placed marshal gs) items out"
  using assms
proof (induction items arbitrary: groups positions out)
  case Nil
  then show ?case using groups_inv_distinct by auto
next
  case (Cons item rest)
  obtain gp groups' positions' payload out' where
    head: "(case positions (bi_SourceGroupKey item) of
          None \<Rightarrow> Inr (length groups, groups @ [group_of item],
                     positions(bi_SourceGroupKey item := Some (length groups)))
        | Some groupPosition \<Rightarrow>
            (let grp = groups ! groupPosition in
             if ig_SourceFileID grp \<noteq> bi_SourceFileID item \<or> ig_SourceGroupName grp \<noteq> card_Group (bi_Payload item)
             then Inl ErrInitializationInvalid
             else Inr (groupPosition, groups, positions))) = Inr (gp, groups', positions')"
    and m: "marshal (bi_Payload item) = Some payload"
    and tl: "init_items marshal rest groups' positions' = Inr (gs, out')"
    and out: "out = \<lparr>ii_BatchItemID = bi_ID item, ii_Position = bi_Position item,
                   ii_SourceFileID = bi_SourceFileID item, ii_SourceRows = bi_SourceRows item,
                   ii_GroupPosition = int gp, ii_VendorCode = bi_VendorCode item,
                   ii_Payload = payload\<rparr> # out'"
    using Cons.prems(1) by (auto simp: rbind_eq_Inr_iff Let_def group_of_def split: option.splits)
  have hd: "groups_inv groups' positions' \<and> gp < length groups' \<and> groups' ! gp = group_of item \<and>
      (\<exists>e. groups' = groups @ e \<and> set e \<subseteq> {group_of item})"
  proof (cases "positions (bi_SourceGroupKey item)")
    case None
    with head have "gp = length groups" "groups' = groups @ [group_of item]"
      "positions' = positions(bi_SourceGroupKey item := Some (length groups))" by auto
    then show ?thesis using groups_inv_snoc [OF Cons.prems(2) None, of "group_of item"]
      by (auto simp: group_of_def)
  next
    case (Some i)
    with head have eq: "gp = i" "groups' = groups" "positions' = positions"
      "ig_SourceFileID (groups ! i) = bi_SourceFileID item"
      "ig_SourceGroupName (groups ! i) = card_Group (bi_Payload item)"
      by (auto simp: Let_def split: if_splits)
    moreover have "i < length groups" "ig_SourceGroupKey (groups ! i) = bi_SourceGroupKey item"
      using Cons.prems(2) Some by (auto simp: groups_inv_def)
    ultimately show ?thesis using Cons.prems(2) by (auto simp: group_of_def)
  qed
  then obtain e where e: "groups' = groups @ e" "set e \<subseteq> {group_of item}" by blast
  obtain ext where ext: "gs = groups' @ ext" "distinct (map ig_SourceGroupKey gs)"
    "set ext \<subseteq> group_of ` set rest" "list_all2 (placed marshal gs) rest out'"
    using Cons.IH [OF tl] hd by blast
  have "placed marshal groups' item (hd out)" using hd m by (simp add: placed_def out)
  then have "placed marshal gs item (hd out)" using ext(1) by (simp add: placed_append)
  then show ?case using e ext out by auto
qed

text \<open>What a successful build went through.\<close>

lemma buildInitialization_cases:
  assumes "buildInitialization marshal getBatch reader t = Some (Inr c)"
  obtains batch items where "getBatch = Inr batch" "bh_GroupsCount batch = tr_GroupsCount t"
    "bh_Checksum batch = tr_BatchChecksum t" "readAllBatchItems reader batch = Some (Inr items)"
    "BatchChecksum marshal (bh_Purpose batch) (bh_GroupsCount batch) items = Inr (bh_Checksum batch)"
    "init_items marshal items [] (\<lambda>_. None) = Inr (ic_Groups c, ic_Items c)"
    "InitializeTransferCommand_Validate c = None" "ic_TransferID c = tr_ID t" "ic_BatchID c = tr_BatchID t"
    "ic_ItemsCount c = tr_ItemsCount t" "ic_GroupsCount c = tr_GroupsCount t"
proof -
  obtain batch where b: "getBatch = Inr batch" using assms by (cases getBatch) (auto simp: buildInitialization_def)
  obtain items where i: "readAllBatchItems reader batch = Some (Inr items)"
    using assms b by (auto simp: buildInitialization_def rbind_eq_Inr_iff split: if_splits)
  obtain checksum where s: "BatchChecksum marshal (bh_Purpose batch) (bh_GroupsCount batch) items = Inr checksum"
    using assms b i
    by (cases "BatchChecksum marshal (bh_Purpose batch) (bh_GroupsCount batch) items")
      (auto simp: buildInitialization_def split: if_splits)
  show thesis
    by (rule that [OF b _ _ i])
      (use assms b i s in \<open>auto simp: buildInitialization_def rbind_eq_Inr_iff Let_def split: if_splits\<close>)
qed

section \<open>Sample batch\<close>

definition sample_reader :: "int \<Rightarrow> batch_item list result" where
  "sample_reader afterPosition = Inr (if afterPosition < 1 then [sample_item] else [])"

definition sample_marshal :: "card \<Rightarrow> string option" where
  "sample_marshal c = Some (var_VendorCode (card_Variant c))"

definition sample_checksum :: digest where
  "sample_checksum =
     (case BatchChecksum sample_marshal PurposeTransfer 1 [sample_item] of Inl _ \<Rightarrow> zero_digest | Inr d \<Rightarrow> d)"

definition sample_batch :: batch_header where
  "sample_batch =
     \<lparr>bh_ID = 1, bh_SourceSessionID = 1, bh_Purpose = PurposeTransfer, bh_ItemsCount = 1, bh_GroupsCount = 1,
      bh_SchemaVersion = 1, bh_NormalizationVersion = 1, bh_Checksum = sample_checksum,
      bh_AuthorSnapshot = \<lparr>as_UserID = None, as_TelegramUserID = 5, as_DisplayName = ''Ann''\<rparr>, bh_FinalizedAt = 1\<rparr>"

definition init_transfer :: transfer where
  "init_transfer = sample_transfer\<lparr>tr_Phase := PhaseInitializing, tr_BatchChecksum := sample_checksum,
     tr_ItemsCount := 1, tr_GroupsCount := 1, tr_ItemTargetsCount := 2, tr_GroupTargetsCount := 2\<rparr>"

lemma sample_pages: "stored_batch 1 [sample_item]" "pages_of [sample_item] sample_reader"
proof -
  show "stored_batch 1 [sample_item]"
    using sample_item_valid by (simp add: stored_batch_def) (simp add: sample_item_def)
  show "pages_of [sample_item] sample_reader"
    by (auto simp: pages_of_def sample_reader_def initializationBatchPageSize_def) (simp_all add: sample_item_def)
qed

section \<open>Properties\<close>

text \<open>C24: reading a batch in pages is complete. Over a reader that returns the stored items after a
  position in order, one page at a time, the loop ends and yields exactly the stored items; a stored
  count that differs from the header is reported as invalid input.\<close>

theorem readAllBatchItems_complete:
  assumes "stored_batch (bh_ID batch) stored" "pages_of stored reader"
  shows "readAllBatchItems reader batch =
    Some (if int (length stored) = bh_ItemsCount batch then Inr stored else Inl ErrInitializationInvalid)"
  using read_pages_from [OF assms, of 0] by (simp add: readAllBatchItems_def)

theorem readAllBatchItems_complete_witness:
  "readAllBatchItems sample_reader sample_batch = Some (Inr [sample_item])"
  using readAllBatchItems_complete [of sample_batch "[sample_item]" sample_reader] sample_pages
  by (simp add: sample_batch_def)

text \<open>C23: what a built initialization command contains. The batch's header matches the transfer, the
  checksum recomputed from the items is the transfer's, every batch item is stored in order with its
  data and points at the group with its key, file and name, no group key is stored twice, every group
  comes from an item, and the counts are the frozen ones.\<close>

theorem buildInitialization_sound:
  assumes "buildInitialization marshal getBatch reader t = Some (Inr c)"
  shows "\<exists>batch items. getBatch = Inr batch \<and> readAllBatchItems reader batch = Some (Inr items) \<and>
    BatchChecksum marshal (bh_Purpose batch) (tr_GroupsCount t) items = Inr (tr_BatchChecksum t) \<and>
    list_all2 (placed marshal (ic_Groups c)) items (ic_Items c) \<and>
    distinct (map ig_SourceGroupKey (ic_Groups c)) \<and> set (ic_Groups c) = group_of ` set items \<and>
    int (length (ic_Items c)) = tr_ItemsCount t \<and> int (length (ic_Groups c)) = tr_GroupsCount t \<and>
    ic_TransferID c = tr_ID t \<and> ic_BatchID c = tr_BatchID t"
proof -
  obtain batch items where b: "getBatch = Inr batch" "bh_GroupsCount batch = tr_GroupsCount t"
      "bh_Checksum batch = tr_BatchChecksum t" "readAllBatchItems reader batch = Some (Inr items)"
      "BatchChecksum marshal (bh_Purpose batch) (bh_GroupsCount batch) items = Inr (bh_Checksum batch)"
    and i: "init_items marshal items [] (\<lambda>_. None) = Inr (ic_Groups c, ic_Items c)"
    and v: "InitializeTransferCommand_Validate c = None"
    and c: "ic_TransferID c = tr_ID t" "ic_BatchID c = tr_BatchID t" "ic_ItemsCount c = tr_ItemsCount t"
      "ic_GroupsCount c = tr_GroupsCount t"
    using assms by (rule buildInitialization_cases)
  have "groups_inv [] (\<lambda>_. None)" by (simp add: groups_inv_def)
  from init_items_sound [OF i this] have
    s: "distinct (map ig_SourceGroupKey (ic_Groups c))" "set (ic_Groups c) \<subseteq> group_of ` set items"
      "list_all2 (placed marshal (ic_Groups c)) items (ic_Items c)" by auto
  have "group_of item \<in> set (ic_Groups c)" if "item \<in> set items" for item
  proof -
    from that obtain k where k: "k < length items" "items ! k = item" by (auto simp: in_set_conv_nth)
    then have "placed marshal (ic_Groups c) item (ic_Items c ! k)" using s(3) list_all2_nthD by blast
    then show ?thesis unfolding placed_def by (metis nth_mem)
  qed
  moreover have "int (length (ic_Items c)) = tr_ItemsCount t" "int (length (ic_Groups c)) = tr_GroupsCount t"
    using v c by (auto simp: InitializeTransferCommand_Validate_def split: if_splits)
  ultimately show ?thesis using b s c by auto
qed

theorem buildInitialization_sound_witness:
  "sample_checksum = zero_digest \<or> NewSourceGroupKey 7 ''G'' ''V1'' = zero_digest \<or>
   (\<exists>c items. buildInitialization sample_marshal (Inr sample_batch) sample_reader init_transfer = Some (Inr c) \<and>
      readAllBatchItems sample_reader sample_batch = Some (Inr items) \<and>
      list_all2 (placed sample_marshal (ic_Groups c)) items (ic_Items c))"
proof (cases "sample_checksum = zero_digest \<or> NewSourceGroupKey 7 ''G'' ''V1'' = zero_digest")
  case False
  have r: "readAllBatchItems sample_reader sample_batch = Some (Inr [sample_item])"
    using read_pages_from [OF sample_pages, of 0] by (simp add: readAllBatchItems_def sample_batch_def)
  have "\<exists>d. BatchChecksum sample_marshal PurposeTransfer 1 [sample_item] = Inr d"
  proof -
    have "bi_Position sample_item = 1" by (simp add: sample_item_def)
    then show ?thesis using sample_item_valid
      by (simp add: BatchChecksum_def BatchChecksum_stream_def sample_marshal_def)
  qed
  then have s: "BatchChecksum sample_marshal PurposeTransfer 1 [sample_item] = Inr sample_checksum"
    by (auto simp: sample_checksum_def)
  obtain c where "buildInitialization sample_marshal (Inr sample_batch) sample_reader init_transfer = Some (Inr c)"
    using r s False
    by (simp add: buildInitialization_def sample_batch_def init_transfer_def sample_transfer_def Let_def
        sample_marshal_def InitializeTransferCommand_Validate_def)
      (simp add: sample_item_def sample_card_def)
  with buildInitialization_sound [OF this] show ?thesis by auto
qed blast

text \<open>What a call of \<open>Initialize\<close> has committed: nothing, the command built from the batch, or the failure with one of the
  two codes.\<close>

lemma Initialize_committed:
  assumes "Initialize marshal repo getBatch reader transferID st = Some (st', err)"
  shows "st' = st \<and> (err = None \<longrightarrow> (\<exists>t. ir_FindByID repo transferID st = Inr t \<and> tr_Phase t \<noteq> PhaseInitializing)) \<or>
    (\<exists>t. ir_FindByID repo transferID st = Inr t \<and> tr_Phase t = PhaseInitializing \<and> err = None \<and>
       ((\<exists>c. buildInitialization marshal (getBatch (tr_BatchID t)) reader t = Some (Inr c) \<and> ir_Initialize repo c st = Inr st') \<or>
        (\<exists>code \<in> {failureBatchMismatch, failureStorageMismatch}. ir_MarkInitializationFailed repo (tr_ID t) code st = Inr st')))"
proof (cases "ir_FindByID repo transferID st")
  case (Inr t)
  show ?thesis
  proof (cases "buildInitialization marshal (getBatch (tr_BatchID t)) reader t")
    case (Some built)
    show ?thesis
    proof (cases built)
      case (Inl e)
      with assms Some \<open>ir_FindByID repo transferID st = Inr t\<close> show ?thesis
        by (auto simp: Initialize_def markInitializationFailed_def in_transaction_def split: if_splits sum.splits)
    next
      case (Inr c)
      with assms Some \<open>ir_FindByID repo transferID st = Inr t\<close> show ?thesis
        by (auto simp: Initialize_def markInitializationFailed_def in_transaction_def Let_def split: if_splits sum.splits)
    qed
  qed (use assms Inr in \<open>auto simp: Initialize_def split: if_splits\<close>)
qed (use assms in \<open>auto simp: Initialize_def split: if_splits\<close>)

text \<open>Starting a transfer. A new transfer is created only for a batch that has none yet, with the
  batch accepted for transfer, a target snapshot obtained for exactly the requested cabinets (or the
  fan-out snapshot), the capacity of the true matrix sizes within the policy, and the root digest of
  that snapshot.\<close>

theorem start_creates_checked:
  assumes "start env policy batchID sellers = (Some command, r)"
  shows "0 < batchID \<and> (\<exists>e. se_FindByBatch env batchID = Inl e \<and> err_sentinel e = ErrNotFound) \<and>
    se_GetBatch env batchID = Inr (ct_Batch command) \<and> validateStartBatch (ct_Batch command) = None \<and>
    (if sellers = [] then se_FanoutSnapshot env
     else se_SnapshotForOwner env (as_TelegramUserID (bh_AuthorSnapshot (ct_Batch command))) sellers)
      = Inr (ct_Snapshot command) \<and>
    ct_TargetSetRoot command = TargetSetRoot (ct_Snapshot command) \<and>
    CapacityPolicy_Check policy (bh_ItemsCount (ct_Batch command)) (bh_GroupsCount (ct_Batch command))
      (int (length (ts_Targets (ct_Snapshot command)))) = Inr (ct_Capacity command)"
  using assms
  by (auto simp: start_def Let_def split: if_splits sum.splits option.splits)

definition sample_policy :: capacity_policy where
  "sample_policy = \<lparr>cp_MaxItems = 10, cp_MaxGroups = 10, cp_MaxTargets = 10, cp_MaxItemTargets = 100, cp_MaxGroupTargets = 100\<rparr>"

definition sample_env :: start_env where
  "sample_env =
     \<lparr>se_FindByBatch = (\<lambda>_. Inl (GoErr ErrNotFound [])),
      se_GetBatch = (\<lambda>_. Inr (sample_batch\<lparr>bh_Checksum := replicate 32 (CHR ''c'')\<rparr>)),
      se_FanoutSnapshot = Inr sample_snapshot, se_SnapshotForOwner = (\<lambda>_ _. Inr sample_snapshot),
      se_ListTargetSellerIDs = (\<lambda>_. Inr []), se_Create = (\<lambda>_. Inr (sample_transfer, True))\<rparr>"

theorem start_creates_checked_witness:
  "\<exists>command. start sample_env sample_policy 1 [] = (Some command, Inr 1) \<and>
     ct_TargetSetRoot command = TargetSetRoot sample_snapshot"
proof -
  have v: "validateStartBatch (sample_batch\<lparr>bh_Checksum := replicate 32 (CHR ''c'')\<rparr>) = None"
    by (simp add: sample_batch_def) code_simp
  have c: "CapacityPolicy_Check sample_policy 1 1 2 =
      Inr \<lparr>cap_Items = 1, cap_Groups = 1, cap_Targets = 2, cap_ItemTargets = 2, cap_GroupTargets = 2\<rparr>"
    by code_simp
  have n: "int (length (ts_Targets sample_snapshot)) = 2" "bh_ItemsCount sample_batch = 1" "bh_GroupsCount sample_batch = 1"
    "tr_ID sample_transfer = 1"
    by (simp_all add: sample_snapshot_def sample_batch_def sample_transfer_def)
  obtain command where run: "start sample_env sample_policy 1 [] = (Some command, Inr 1)"
    using v c n by (simp add: start_def sample_env_def Let_def)
  with start_creates_checked [OF run] show ?thesis by (simp add: sample_env_def)
qed

text \<open>The check of stored targets is exact for a stored list without repetitions: it passes only if
  the stored and the requested cabinets are the same set.\<close>

theorem verifyStoredTargets_exact:
  assumes "distinct stored" "distinct expected"
  shows "verifyStoredTargets (Inr stored) expected = None \<longleftrightarrow> set stored = set expected"
proof -
  have "verifyStoredTargets (Inr stored) expected = None \<longleftrightarrow>
      length stored = length expected \<and> set stored \<subseteq> set expected"
    by (auto simp: verifyStoredTargets_def each_err_const_None_iff)
  also have "\<dots> \<longleftrightarrow> set stored = set expected"
    using assms by (metis card_subset_eq distinct_card finite_set order_refl)
  finally show ?thesis .
qed

theorem verifyStoredTargets_exact_witness:
  "verifyStoredTargets (Inr [seller_b, seller_a]) [seller_a, seller_b] = None"
  using verifyStoredTargets_exact [of "[seller_b, seller_a]" "[seller_a, seller_b]"]
  by (auto simp: seller_a_def seller_b_def)

end
