(* ===== verification/PublicationPlan.thy ===== *)
theory PublicationPlan
  imports TransferModel WbPolicy "HOL-Library.Multiset"
begin

text \<open>
  The publication planner (\<open>internal/feature/cardpublication/service/planning/planner.go\<close>) with its data
  (\<open>service/model\<close>): from prepared proposals and an observation of every target's catalogue it decides,
  group by group, whether to create a group of cards, to add cards to a remote group, to leave cards
  alone or to report a conflict, and derives the actions, items and digests of the plan.

  \<open>encoding/json\<close> on the API structures is the argument \<open>codec\<close>: what \<open>json.Marshal\<close> yields (\<open>None\<close> for
  an error) and what \<open>json.Unmarshal\<close> accepts. A Go map that is iterated is an association list, and
  where the iteration order can be observed the order is an argument (\<open>iter\<close>). An index that is out
  of range is the error \<open>index_panic\<close>.
\<close>

section \<open>Data\<close>

record content_characteristic =
  cch_ID :: int
  cch_Value :: json_value

record content_size =
  csz_TechSize :: string
  csz_WBSize :: string
  csz_SKUs :: "string list"

record content_card =
  cc_NMID :: int
  cc_IMTID :: int
  cc_SubjectID :: int
  cc_VendorCode :: string
  cc_KIZMarked :: bool
  cc_Brand :: string
  cc_Title :: string
  cc_Description :: string
  cc_Photos :: "string list"
  cc_Video :: string
  cc_Dimensions :: dimensions
  cc_Characteristics :: "content_characteristic list"
  cc_Sizes :: "content_size list"

record trash_card =
  tc_NMID :: int
  tc_VendorCode :: string

record upload_card =
  uc_VendorCode :: string
  uc_KIZMarked :: bool
  uc_Title :: string
  uc_Description :: string
  uc_Brand :: string
  uc_Dimensions :: dimensions
  uc_Characteristics :: "content_characteristic list"
  uc_Sizes :: "content_size list"

record upload_group =
  ug_SubjectID :: int
  ug_Variants :: "upload_card list"

record observation =
  ob_TargetID :: int
  ob_SellerID :: seller_id
  ob_Normal :: "content_card list"
  ob_Trash :: "trash_card list"
  ob_ObservedAt :: int

record codec =
  cd_upload :: "upload_group list \<Rightarrow> string option"
  cd_decodeUpload :: "string \<Rightarrow> upload_group list option"
  cd_add :: "int \<Rightarrow> upload_card list \<Rightarrow> string option"
  cd_links :: "string list \<Rightarrow> string option"
  cd_value :: "json_value \<Rightarrow> string option"
  cd_observation :: "content_card list \<Rightarrow> trash_card list \<Rightarrow> string option"

record planning_member =
  pm_TransferItemID :: int
  pm_TransferItemTargetID :: int
  pm_Position :: int
  pm_VendorCode :: string
  pm_Media :: media

record planning_group =
  pgr_GroupTargetID :: int
  pgr_SourceGroupID :: int
  pgr_TargetID :: int
  pgr_SellerID :: seller_id
  pgr_ProposalRoot :: digest
  pgr_Members :: "planning_member list"

record prepared_member =
  pp_TransferItemID :: int
  pp_ItemPosition :: int
  pp_VendorCode :: string

record proposal =
  pr_SubjectID :: int
  pr_Request :: "upload_group list"
  pr_EncodedRequest :: string
  pr_ProposalRoot :: digest

record stored_proposal =
  sp_GroupTargetID :: int
  sp_SourceGroupID :: int
  sp_TargetID :: int
  sp_SellerID :: seller_id
  sp_Proposal :: proposal
  sp_Members :: "prepared_member list"

record loaded_group =
  lg_Source :: planning_group
  lg_Proposal :: stored_proposal

definition ActionCreateGroup :: string where "ActionCreateGroup = ''create_group''"
definition ActionAddToGroup :: string where "ActionAddToGroup = ''add_to_group''"
definition ActionUploadMedia :: string where "ActionUploadMedia = ''upload_media''"

definition DecisionCreateGroup :: string where "DecisionCreateGroup = ''CREATE_GROUP''"
definition DecisionAddToGroup :: string where "DecisionAddToGroup = ''ADD_TO_GROUP''"
definition DecisionAlreadyPresentCompatible :: string where
  "DecisionAlreadyPresentCompatible = ''ALREADY_PRESENT_COMPATIBLE''"
definition DecisionAlreadyPresentDifferent :: string where
  "DecisionAlreadyPresentDifferent = ''ALREADY_PRESENT_DIFFERENT_UNTOUCHED''"
definition DecisionCardInTrashConflict :: string where "DecisionCardInTrashConflict = ''CARD_IN_TRASH_CONFLICT''"
definition DecisionGroupConflict :: string where "DecisionGroupConflict = ''GROUP_CONFLICT''"
definition DecisionSubjectConflict :: string where "DecisionSubjectConflict = ''SUBJECT_CONFLICT''"
definition DecisionGroupCapacityConflict :: string where "DecisionGroupCapacityConflict = ''GROUP_CAPACITY_CONFLICT''"
definition DecisionRemoteIdentityConflict :: string where "DecisionRemoteIdentityConflict = ''REMOTE_IDENTITY_CONFLICT''"

definition IdentityRemoteMissing :: string where "IdentityRemoteMissing = ''remote_missing''"
definition IdentityRemotePresent :: string where "IdentityRemotePresent = ''remote_present''"
definition IdentityRemoteConflict :: string where "IdentityRemoteConflict = ''remote_conflict''"

definition PublicationProjectionRunning :: string where "PublicationProjectionRunning = ''running''"
definition PublicationProjectionSkipped :: string where "PublicationProjectionSkipped = ''skipped''"
definition PublicationProjectionRejected :: string where "PublicationProjectionRejected = ''rejected''"

lemmas action_defs = ActionCreateGroup_def ActionAddToGroup_def ActionUploadMedia_def
lemmas decision_defs = DecisionCreateGroup_def DecisionAddToGroup_def DecisionAlreadyPresentCompatible_def
  DecisionAlreadyPresentDifferent_def DecisionCardInTrashConflict_def DecisionGroupConflict_def
  DecisionSubjectConflict_def DecisionGroupCapacityConflict_def DecisionRemoteIdentityConflict_def

record observation_draft =
  od_TargetID :: int
  od_SellerID :: seller_id
  od_Digest :: digest
  od_NormalCount :: int
  od_TrashCount :: int
  od_Payload :: string
  od_ObservedAt :: int

record action_member =
  am_GroupTargetID :: int
  am_TransferItemTargetID :: int
  am_RequestMemberIndex :: int
  am_VendorCode :: string

record action_draft =
  ad_Key :: digest
  ad_Kind :: string
  ad_TargetID :: int
  ad_RequestDigest :: digest
  ad_RequestPayload :: string
  ad_MemberSetDigest :: digest
  ad_MediaLinkSetRoot :: digest
  ad_Members :: "action_member list"

record planned_item =
  pi_GroupTargetID :: int
  pi_TransferItemTargetID :: int
  pi_ActionKey :: digest
  pi_OutcomeClass :: string
  pi_OutcomeCode :: string
  pi_NMID :: int

record planned_group =
  pgd_GroupTargetID :: int
  pgd_Status :: string
  pgd_OutcomeClass :: string
  pgd_OutcomeCode :: string
  pgd_HasMediaAction :: bool

record identity_draft =
  idd_SellerID :: seller_id
  idd_VendorCode :: string
  idd_State :: string
  idd_NMID :: int
  idd_IMTID :: int
  idd_SubjectID :: int
  idd_ObservationDigest :: digest

record plan_draft =
  pd_TransferID :: int
  pd_TargetSetRoot :: digest
  pd_Digest :: digest
  pd_Observations :: "observation_draft list"
  pd_Actions :: "action_draft list"
  pd_Groups :: "planned_group list"
  pd_Items :: "planned_item list"
  pd_Identities :: "identity_draft list"

definition plain_error :: "string \<Rightarrow> goerr" where "plain_error text = GoErr NoSentinel text"

definition index_panic :: goerr where "index_panic = GoErr ErrInternal ''panic: index out of range''"

section \<open>Validation of a plan\<close>

definition action_kind_err :: "action_draft \<Rightarrow> goerr option" where
  "action_kind_err action =
     (if ad_Kind action = ActionCreateGroup \<or> ad_Kind action = ActionAddToGroup then
        (if ad_MediaLinkSetRoot action \<noteq> zero_digest then Some (plain_error ''product action has media link root'') else None)
      else if ad_Kind action = ActionUploadMedia then
        (if ad_MediaLinkSetRoot action = zero_digest \<or> length (ad_Members action) \<noteq> 1
         then Some (plain_error ''media action shape is invalid'') else None)
      else Some (plain_error ''publication action kind is invalid''))"

fun check_members :: "nat \<Rightarrow> int list \<Rightarrow> action_member list \<Rightarrow> goerr option" where
  "check_members index seen [] = None"
| "check_members index seen (m # ms) =
     (if am_GroupTargetID m \<le> 0 \<or> am_TransferItemTargetID m \<le> 0 \<or> am_RequestMemberIndex m \<noteq> int index \<or>
         am_VendorCode m = [] \<or> \<not> trimmed (am_VendorCode m)
      then Some (plain_error ''publication action member is invalid'')
      else if am_TransferItemTargetID m \<in> set seen then Some (plain_error ''publication action member is duplicated'')
      else check_members (Suc index) (am_TransferItemTargetID m # seen) ms)"

fun check_actions :: "digest list \<Rightarrow> action_draft list \<Rightarrow> goerr option" where
  "check_actions seen [] = None"
| "check_actions seen (a # as) =
     (if ad_Key a = zero_digest \<or> ad_RequestDigest a = zero_digest \<or> ad_MemberSetDigest a = zero_digest \<or>
         ad_TargetID a \<le> 0 \<or> ad_RequestPayload a = [] \<or> ad_Members a = []
      then Some (plain_error ''publication action is invalid'')
      else or_else (action_kind_err a)
       (if ad_Key a \<in> set seen then Some (plain_error ''publication action key is duplicated'')
        else or_else (check_members 0 [] (ad_Members a)) (check_actions (ad_Key a # seen) as)))"

definition PlanDraft_Validate :: "plan_draft \<Rightarrow> goerr option" where
  "PlanDraft_Validate draft =
     (if pd_TransferID draft \<le> 0 \<or> pd_TargetSetRoot draft = zero_digest \<or> pd_Digest draft = zero_digest
      then Some (plain_error ''publication plan draft identity is invalid'')
      else check_actions [] (pd_Actions draft))"

section \<open>Digests\<close>

definition DigestMembers :: "action_member list \<Rightarrow> digest" where
  "DigestMembers members =
     DigestParts ''cardpublication-members:v1''
      (concat (map (\<lambda>m. [format_int (am_GroupTargetID m), format_int (am_TransferItemTargetID m),
                         format_int (am_RequestMemberIndex m), am_VendorCode m]) members))"

definition format_bool :: "bool \<Rightarrow> string" where
  "format_bool b = (if b then ''true'' else ''false'')"

definition group_parts :: "planned_group \<Rightarrow> string list" where
  "group_parts g = [''group'', format_int (pgd_GroupTargetID g), pgd_Status g, pgd_OutcomeClass g,
     pgd_OutcomeCode g, format_bool (pgd_HasMediaAction g)]"

definition item_parts :: "planned_item \<Rightarrow> string list" where
  "item_parts i = [''item'', format_int (pi_GroupTargetID i), format_int (pi_TransferItemTargetID i),
     pi_ActionKey i, pi_OutcomeClass i, pi_OutcomeCode i, format_int (pi_NMID i)]"

definition action_parts :: "action_draft \<Rightarrow> string list" where
  "action_parts a = [''action'', ad_Key a, ad_Kind a, format_int (ad_TargetID a), ad_MemberSetDigest a,
     ad_RequestDigest a, ad_MediaLinkSetRoot a]"

definition plan_parts :: "digest \<Rightarrow> planned_group list \<Rightarrow> planned_item list \<Rightarrow> action_draft list \<Rightarrow> string list" where
  "plan_parts targetSetRoot groups items actions =
     targetSetRoot # concat (map group_parts groups) @ concat (map item_parts items) @ concat (map action_parts actions)"

definition digestPlan :: "digest \<Rightarrow> planned_group list \<Rightarrow> planned_item list \<Rightarrow> action_draft list \<Rightarrow> digest" where
  "digestPlan targetSetRoot groups items actions = DigestParts ''cardpublication-plan:v2'' (plan_parts targetSetRoot groups items actions)"

definition DraftObservation :: "codec \<Rightarrow> observation \<Rightarrow> observation_draft result" where
  "DraftObservation cd ob =
     (case cd_observation cd (ob_Normal ob) (ob_Trash ob) of
        None \<Rightarrow> Inl (plain_error ''encode publication observation'')
      | Some payload \<Rightarrow>
          Inr \<lparr>od_TargetID = ob_TargetID ob, od_SellerID = ob_SellerID ob,
               od_Digest = DigestParts ''cardpublication-observation:v1'' [payload],
               od_NormalCount = int (length (ob_Normal ob)), od_TrashCount = int (length (ob_Trash ob)),
               od_Payload = payload, od_ObservedAt = ob_ObservedAt ob\<rparr>)"

section \<open>Comparing a variant with a remote card\<close>

definition jsonValuesEqual :: "codec \<Rightarrow> json_value \<Rightarrow> json_value \<Rightarrow> bool" where
  "jsonValuesEqual cd left right =
     (case (cd_value cd left, cd_value cd right) of (Some l, Some r) \<Rightarrow> l = r | _ \<Rightarrow> False)"

text \<open>A missing characteristic reads as Go's \<open>nil\<close>.\<close>

definition characteristic_value :: "content_characteristic list \<Rightarrow> int \<Rightarrow> json_value" where
  "characteristic_value cs i = (case map_of (rev (map (\<lambda>c. (cch_ID c, cch_Value c)) cs)) i of None \<Rightarrow> JNull | Some v \<Rightarrow> v)"

definition size_differs :: "content_size \<Rightarrow> content_size \<Rightarrow> bool" where
  "size_differs sz remote \<longleftrightarrow>
     (csz_TechSize sz \<noteq> [] \<and> csz_TechSize sz \<noteq> csz_TechSize remote) \<or>
     (csz_WBSize sz \<noteq> [] \<and> csz_WBSize sz \<noteq> csz_WBSize remote) \<or>
     (csz_SKUs sz \<noteq> [] \<and> csz_SKUs sz \<noteq> csz_SKUs remote)"

definition compatibleVariant :: "codec \<Rightarrow> upload_card \<Rightarrow> content_card \<Rightarrow> bool" where
  "compatibleVariant cd desired existing =
     (if uc_VendorCode desired \<noteq> cc_VendorCode existing \<or> uc_KIZMarked desired \<noteq> cc_KIZMarked existing \<or>
         uc_Title desired \<noteq> cc_Title existing \<or> uc_Description desired \<noteq> cc_Description existing \<or>
         uc_Brand desired \<noteq> cc_Brand existing \<or>
         \<not> float_eq (dim_Length (uc_Dimensions desired)) (dim_Length (cc_Dimensions existing)) \<or>
         \<not> float_eq (dim_Width (uc_Dimensions desired)) (dim_Width (cc_Dimensions existing)) \<or>
         \<not> float_eq (dim_Height (uc_Dimensions desired)) (dim_Height (cc_Dimensions existing)) \<or>
         \<not> float_eq (dim_WeightBrutto (uc_Dimensions desired)) (dim_WeightBrutto (cc_Dimensions existing))
      then False
      else if list_ex (\<lambda>c. \<not> jsonValuesEqual cd (cch_Value c) (characteristic_value (cc_Characteristics existing) (cch_ID c)))
                (uc_Characteristics desired) then False
      else if length (uc_Sizes desired) \<noteq> length (cc_Sizes existing) then False
      else \<not> list_ex (\<lambda>(sz, remote). size_differs sz remote) (zip (uc_Sizes desired) (cc_Sizes existing)))"

section \<open>The decision for a group\<close>

record group_decision =
  gd_code :: string
  gd_productKind :: string
  gd_productPayload :: string
  gd_actionMembers :: "nat list"
  gd_itemCodes :: "string list"
  gd_itemNMIDs :: "int list"
  gd_itemIMTIDs :: "int list"
  gd_existingCards :: "(nat \<times> content_card) list"
  gd_conflict :: bool

definition conflictDecision :: "nat \<Rightarrow> string \<Rightarrow> group_decision" where
  "conflictDecision n code =
     \<lparr>gd_code = code, gd_productKind = [], gd_productPayload = [], gd_actionMembers = [],
      gd_itemCodes = replicate n code, gd_itemNMIDs = replicate n 0, gd_itemIMTIDs = replicate n 0,
      gd_existingCards = [], gd_conflict = True\<rparr>"

definition allIndexes :: "nat \<Rightarrow> nat list" where
  "allIndexes n = [0..<n]"

definition normal_by_vendor :: "observation \<Rightarrow> string \<Rightarrow> content_card list" where
  "normal_by_vendor ob v = filter (\<lambda>c. cc_VendorCode c = v) (ob_Normal ob)"

definition trash_by_vendor :: "observation \<Rightarrow> string \<Rightarrow> trash_card list" where
  "trash_by_vendor ob v = filter (\<lambda>c. tc_VendorCode c = v) (ob_Trash ob)"

text \<open>The first loop: a card in the trash, or a vendor code with several cards, is a conflict.\<close>

fun identity_conflict :: "observation \<Rightarrow> upload_card list \<Rightarrow> string option" where
  "identity_conflict ob [] = None"
| "identity_conflict ob (v # vs) =
     (if trash_by_vendor ob (uc_VendorCode v) \<noteq> [] then Some DecisionCardInTrashConflict
      else if 1 < length (normal_by_vendor ob (uc_VendorCode v)) then Some DecisionRemoteIdentityConflict
      else identity_conflict ob vs)"

definition existing_cards :: "observation \<Rightarrow> upload_card list \<Rightarrow> (nat \<times> content_card) list" where
  "existing_cards ob variants =
     concat (map (\<lambda>(index, v). case normal_by_vendor ob (uc_VendorCode v) of [] \<Rightarrow> [] | c # _ \<Rightarrow> [(index, c)])
       (enumerate 0 variants))"

definition missing_indexes :: "observation \<Rightarrow> upload_card list \<Rightarrow> nat list" where
  "missing_indexes ob variants =
     map fst (filter (\<lambda>(index, v). normal_by_vendor ob (uc_VendorCode v) = []) (enumerate 0 variants))"

text \<open>The second loop, over the map of existing cards: one subject, one remote group.\<close>

fun remote_group :: "int \<Rightarrow> int \<Rightarrow> (nat \<times> content_card) list \<Rightarrow> string + int" where
  "remote_group subjectID remoteIMTID [] = Inr remoteIMTID"
| "remote_group subjectID remoteIMTID ((_, c) # cs) =
     (if cc_SubjectID c \<noteq> subjectID then Inl DecisionSubjectConflict
      else if cc_IMTID c \<le> 0 \<or> (remoteIMTID \<noteq> 0 \<and> remoteIMTID \<noteq> cc_IMTID c) then Inl DecisionGroupConflict
      else remote_group subjectID (cc_IMTID c) cs)"

definition remote_member_count :: "observation \<Rightarrow> int \<Rightarrow> nat" where
  "remote_member_count ob imt = length (remdups (map cc_NMID (filter (\<lambda>c. cc_IMTID c = imt) (ob_Normal ob))))"

definition per_index :: "'a \<Rightarrow> (content_card \<Rightarrow> 'a) \<Rightarrow> (nat \<times> content_card) list \<Rightarrow> nat \<Rightarrow> 'a" where
  "per_index d f existing index = (case map_of existing index of None \<Rightarrow> d | Some c \<Rightarrow> f c)"

definition item_code :: "codec \<Rightarrow> upload_card list \<Rightarrow> (nat \<times> content_card) list \<Rightarrow> nat \<Rightarrow> string" where
  "item_code cd variants existing index =
     per_index [] (\<lambda>c. if compatibleVariant cd (variants ! index) c then DecisionAlreadyPresentCompatible
                       else DecisionAlreadyPresentDifferent) existing index"

definition decideGroup ::
  "codec \<Rightarrow> ((nat \<times> content_card) list \<Rightarrow> (nat \<times> content_card) list) \<Rightarrow> loaded_group \<Rightarrow> observation \<Rightarrow> group_decision result" where
  "decideGroup cd iter grp ob =
     (let proposal = sp_Proposal (lg_Proposal grp) in
      case pr_Request proposal of
        [] \<Rightarrow> Inl index_panic
      | request # _ \<Rightarrow>
          (let variants = ug_Variants request; size = length variants in
           case identity_conflict ob variants of
             Some code \<Rightarrow> Inr (conflictDecision size code)
           | None \<Rightarrow>
               (let existing = existing_cards ob variants;
                    missing = missing_indexes ob variants;
                    decision = \<lparr>gd_code = [], gd_productKind = [], gd_productPayload = [], gd_actionMembers = [],
                       gd_itemCodes = replicate size [],
                       gd_itemNMIDs = map (per_index 0 cc_NMID existing) [0..<size],
                       gd_itemIMTIDs = map (per_index 0 cc_IMTID existing) [0..<size],
                       gd_existingCards = [], gd_conflict = False\<rparr>
                in if existing = [] then
                     Inr (decision\<lparr>gd_code := DecisionCreateGroup, gd_productKind := ActionCreateGroup,
                            gd_actionMembers := allIndexes size, gd_productPayload := pr_EncodedRequest proposal\<rparr>)
                   else
                     (case remote_group (pr_SubjectID proposal) 0 (iter existing) of
                        Inl code \<Rightarrow> Inr (conflictDecision size code)
                      | Inr remoteIMTID \<Rightarrow>
                          if missing \<noteq> [] \<and> MaxVariantsPerGroup < remote_member_count ob remoteIMTID + length missing
                          then Inr (conflictDecision size DecisionGroupCapacityConflict)
                          else
                            (let codes = map (item_code cd variants existing) [0..<size];
                                 decision = decision\<lparr>gd_itemCodes := codes, gd_existingCards := existing\<rparr>
                             in if missing = [] then
                                  Inr (decision\<lparr>gd_code :=
                                    (if DecisionAlreadyPresentDifferent \<in> set codes then DecisionAlreadyPresentDifferent
                                     else DecisionAlreadyPresentCompatible)\<rparr>)
                                else
                                  (case cd_add cd remoteIMTID (map ((!) variants) missing) of
                                     None \<Rightarrow> Inl (plain_error ''encode add-to-group request'')
                                   | Some payload \<Rightarrow>
                                       if op_MaxRequestBytes uploadCardsAddOperation < int (length payload)
                                       then Inl (plain_error ''add-to-group request exceeds WB operation bound'')
                                       else Inr (decision\<lparr>gd_code := DecisionAddToGroup, gd_productKind := ActionAddToGroup,
                                              gd_productPayload := payload, gd_actionMembers := missing\<rparr>)))))))"

section \<open>Actions of a group\<close>

definition mediaLinks :: "planning_member \<Rightarrow> string list" where
  "mediaLinks m =
     filter (\<lambda>l. l \<noteq> []) (media_Photos (pm_Media m)) @
     (if media_Video (pm_Media m) \<noteq> [] then [media_Video (pm_Media m)] else [])"

definition mediaActionKey :: "action_draft \<Rightarrow> digest \<Rightarrow> digest" where
  "mediaActionKey action productActionKey =
     (let groupTargetID = (case ad_Members action of [m] \<Rightarrow> am_GroupTargetID m | _ \<Rightarrow> 0) in
      DigestParts ''cardpublication-action:v1''
       [ActionUploadMedia, format_int (ad_TargetID action), format_int groupTargetID, productActionKey,
        ad_RequestDigest action, ad_MemberSetDigest action, ad_MediaLinkSetRoot action])"

definition buildMediaAction :: "codec \<Rightarrow> loaded_group \<Rightarrow> planning_member \<Rightarrow> string list \<Rightarrow> digest \<Rightarrow> action_draft result" where
  "buildMediaAction cd grp m links productActionKey =
     (case cd_links cd links of
        None \<Rightarrow> Inl (plain_error ''encode media link plan'')
      | Some payload \<Rightarrow>
          (let actionMember = \<lparr>am_GroupTargetID = pgr_GroupTargetID (lg_Source grp),
                 am_TransferItemTargetID = pm_TransferItemTargetID m, am_RequestMemberIndex = 0,
                 am_VendorCode = pm_VendorCode m\<rparr>;
               action = \<lparr>ad_Key = zero_digest, ad_Kind = ActionUploadMedia, ad_TargetID = pgr_TargetID (lg_Source grp),
                 ad_RequestDigest = DigestParts ''cardpublication-media-template:v1'' [payload],
                 ad_RequestPayload = payload, ad_MemberSetDigest = DigestMembers [actionMember],
                 ad_MediaLinkSetRoot = DigestParts ''cardpublication-media-links:v1'' [payload],
                 ad_Members = [actionMember]\<rparr>
           in Inr (action\<lparr>ad_Key := mediaActionKey action productActionKey\<rparr>)))"

definition product_members :: "loaded_group \<Rightarrow> nat list \<Rightarrow> action_member list" where
  "product_members grp indexes =
     map (\<lambda>(requestIndex, sourceIndex).
       \<lparr>am_GroupTargetID = pgr_GroupTargetID (lg_Source grp),
        am_TransferItemTargetID = pm_TransferItemTargetID (pgr_Members (lg_Source grp) ! sourceIndex),
        am_RequestMemberIndex = int requestIndex,
        am_VendorCode = pm_VendorCode (pgr_Members (lg_Source grp) ! sourceIndex)\<rparr>) (enumerate 0 indexes)"

definition buildProductAction :: "loaded_group \<Rightarrow> group_decision \<Rightarrow> action_draft result" where
  "buildProductAction grp decision =
     (if list_ex (\<lambda>i. length (pgr_Members (lg_Source grp)) \<le> i) (gd_actionMembers decision) then Inl index_panic
      else
        (let members = product_members grp (gd_actionMembers decision);
             requestDigest = DigestParts ''cardpublication-request:v1'' [gd_productPayload decision];
             memberDigest = DigestMembers members
         in Inr \<lparr>ad_Key = DigestParts ''cardpublication-action:v1''
                   [gd_productKind decision, format_int (pgr_TargetID (lg_Source grp)),
                    format_int (pgr_GroupTargetID (lg_Source grp)), requestDigest, memberDigest],
                 ad_Kind = gd_productKind decision, ad_TargetID = pgr_TargetID (lg_Source grp),
                 ad_RequestDigest = requestDigest, ad_RequestPayload = gd_productPayload decision,
                 ad_MemberSetDigest = memberDigest, ad_MediaLinkSetRoot = zero_digest, ad_Members = members\<rparr>))"

section \<open>Appending a decision to the plan\<close>

fun traverse :: "('a \<Rightarrow> 'b result) \<Rightarrow> 'a list \<Rightarrow> 'b list result" where
  "traverse f [] = Inr []"
| "traverse f (x # xs) = rbind (f x) (\<lambda>y. rbind (traverse f xs) (\<lambda>ys. Inr (y # ys)))"

definition optional_media :: "codec \<Rightarrow> loaded_group \<Rightarrow> planning_member \<Rightarrow> digest \<Rightarrow> action_draft list result" where
  "optional_media cd grp m productActionKey =
     (if mediaLinks m = [] then Inr []
      else rbind (buildMediaAction cd grp m (mediaLinks m) productActionKey) (\<lambda>a. Inr [a]))"

text \<open>Media of a card that exists already: only when it has no photos yet.\<close>

definition existing_media :: "codec \<Rightarrow> loaded_group \<Rightarrow> group_decision \<Rightarrow> nat \<times> planning_member \<Rightarrow> action_draft list result" where
  "existing_media cd grp decision = (\<lambda>(index, m).
     case map_of (gd_existingCards decision) index of
       Some c \<Rightarrow> if cc_Photos c = [] then optional_media cd grp m zero_digest else Inr []
     | None \<Rightarrow> Inr [])"

definition terminal_item :: "loaded_group \<Rightarrow> planning_member \<Rightarrow> string \<Rightarrow> string \<Rightarrow> int \<Rightarrow> planned_item" where
  "terminal_item grp m class code nmID =
     \<lparr>pi_GroupTargetID = pgr_GroupTargetID (lg_Source grp), pi_TransferItemTargetID = pm_TransferItemTargetID m,
      pi_ActionKey = zero_digest, pi_OutcomeClass = class, pi_OutcomeCode = code, pi_NMID = nmID\<rparr>"

definition member_identity :: "loaded_group \<Rightarrow> planning_member \<Rightarrow> string \<Rightarrow> int \<Rightarrow> int \<Rightarrow> digest \<Rightarrow> identity_draft" where
  "member_identity grp m state nmID imtID observationDigest =
     \<lparr>idd_SellerID = pgr_SellerID (lg_Source grp), idd_VendorCode = pm_VendorCode m, idd_State = state,
      idd_NMID = nmID, idd_IMTID = imtID, idd_SubjectID = pr_SubjectID (sp_Proposal (lg_Proposal grp)),
      idd_ObservationDigest = observationDigest\<rparr>"

text \<open>One member of a group with a product action: its item, its identity and its media actions.\<close>

definition product_step ::
  "codec \<Rightarrow> loaded_group \<Rightarrow> group_decision \<Rightarrow> digest \<Rightarrow> digest \<Rightarrow> nat \<times> planning_member \<Rightarrow>
     (planned_item \<times> identity_draft \<times> action_draft list) result" where
  "product_step cd grp decision productKey observationDigest = (\<lambda>(index, m).
     if index \<in> set (gd_actionMembers decision) then
       rbind (optional_media cd grp m productKey) (\<lambda>media.
         Inr (\<lparr>pi_GroupTargetID = pgr_GroupTargetID (lg_Source grp),
               pi_TransferItemTargetID = pm_TransferItemTargetID m, pi_ActionKey = productKey,
               pi_OutcomeClass = [], pi_OutcomeCode = [], pi_NMID = 0\<rparr>,
              member_identity grp m IdentityRemoteMissing 0 0 observationDigest, media))
     else if length (gd_itemCodes decision) \<le> index then Inl index_panic
     else rbind (existing_media cd grp decision (index, m)) (\<lambda>media.
         Inr (terminal_item grp m ResultSkipped (gd_itemCodes decision ! index) (gd_itemNMIDs decision ! index),
              member_identity grp m IdentityRemotePresent (gd_itemNMIDs decision ! index)
                (gd_itemIMTIDs decision ! index) observationDigest, media)))"

definition appendDecision :: "codec \<Rightarrow> plan_draft \<Rightarrow> loaded_group \<Rightarrow> group_decision \<Rightarrow> digest \<Rightarrow> plan_draft result" where
  "appendDecision cd draft grp decision observationDigest =
     (let members = pgr_Members (lg_Source grp);
          groupTargetID = pgr_GroupTargetID (lg_Source grp)
      in if gd_conflict decision then
           (if length (gd_itemNMIDs decision) < length members then Inl index_panic
            else Inr (draft\<lparr>
              pd_Groups := pd_Groups draft @ [\<lparr>pgd_GroupTargetID = groupTargetID, pgd_Status = PublicationProjectionRejected,
                 pgd_OutcomeClass = ResultRejected, pgd_OutcomeCode = gd_code decision, pgd_HasMediaAction = False\<rparr>],
              pd_Items := pd_Items draft @ map (\<lambda>m. terminal_item grp m ResultRejected (gd_code decision) 0) members,
              pd_Identities := pd_Identities draft @ map (\<lambda>(index, m).
                 member_identity grp m IdentityRemoteConflict (gd_itemNMIDs decision ! index)
                   (gd_itemIMTIDs decision ! index) observationDigest) (enumerate 0 members)\<rparr>))
         else if gd_productKind decision = [] then
           rbind (traverse (existing_media cd grp decision) (enumerate 0 members)) (\<lambda>media.
             if length (gd_itemCodes decision) < length members then Inl index_panic
             else Inr (draft\<lparr>
               pd_Actions := pd_Actions draft @ concat media,
               pd_Groups := pd_Groups draft @ [\<lparr>pgd_GroupTargetID = groupTargetID, pgd_Status = PublicationProjectionSkipped,
                 pgd_OutcomeClass = ResultSkipped, pgd_OutcomeCode = gd_code decision, pgd_HasMediaAction = (concat media \<noteq> [])\<rparr>],
               pd_Items := pd_Items draft @ map (\<lambda>(index, m).
                 terminal_item grp m ResultSkipped (gd_itemCodes decision ! index) (gd_itemNMIDs decision ! index))
                 (enumerate 0 members),
               pd_Identities := pd_Identities draft @ map (\<lambda>(index, m).
                 member_identity grp m IdentityRemotePresent (gd_itemNMIDs decision ! index)
                   (gd_itemIMTIDs decision ! index) observationDigest) (enumerate 0 members)\<rparr>))
         else
           rbind (buildProductAction grp decision) (\<lambda>product.
           rbind (traverse (product_step cd grp decision (ad_Key product) observationDigest) (enumerate 0 members)) (\<lambda>steps.
             let media = concat (map (snd \<circ> snd) steps) in
             Inr (draft\<lparr>
               pd_Actions := pd_Actions draft @ [product] @ media,
               pd_Groups := pd_Groups draft @ [\<lparr>pgd_GroupTargetID = groupTargetID, pgd_Status = PublicationProjectionRunning,
                 pgd_OutcomeClass = [], pgd_OutcomeCode = gd_code decision, pgd_HasMediaAction = (media \<noteq> [])\<rparr>],
               pd_Items := pd_Items draft @ map fst steps,
               pd_Identities := pd_Identities draft @ map (fst \<circ> snd) steps\<rparr>))))"

section \<open>Batching of create-group actions\<close>

fun insert_by :: "('a \<Rightarrow> 'a \<Rightarrow> bool) \<Rightarrow> 'a \<Rightarrow> 'a list \<Rightarrow> 'a list" where
  "insert_by lt x [] = [x]"
| "insert_by lt x (y # ys) = (if lt y x then y # insert_by lt x ys else x # y # ys)"

text \<open>\<open>sort.Slice\<close> with a strict order; elements the order cannot tell apart keep their order here.\<close>

definition sort_by :: "('a \<Rightarrow> 'a \<Rightarrow> bool) \<Rightarrow> 'a list \<Rightarrow> 'a list" where
  "sort_by lt xs = foldr (insert_by lt) xs []"

fun bytes_less :: "string \<Rightarrow> string \<Rightarrow> bool" where
  "bytes_less [] [] = False"
| "bytes_less [] (_ # _) = True"
| "bytes_less (_ # _) [] = False"
| "bytes_less (a # as) (b # bs) =
     (if (of_char a :: int) = of_char b then bytes_less as bs else (of_char a :: int) < of_char b)"

definition create_less :: "action_draft \<Rightarrow> action_draft \<Rightarrow> bool" where
  "create_less a b =
     (if ad_TargetID a \<noteq> ad_TargetID b then ad_TargetID a < ad_TargetID b else bytes_less (ad_Key a) (ad_Key b))"

definition actionRank :: "string \<Rightarrow> nat" where
  "actionRank kind =
     (if kind = ActionCreateGroup then 0 else if kind = ActionAddToGroup then 1
      else if kind = ActionUploadMedia then 2 else 3)"

definition action_less :: "action_draft \<Rightarrow> action_draft \<Rightarrow> bool" where
  "action_less a b =
     (if ad_TargetID a \<noteq> ad_TargetID b then ad_TargetID a < ad_TargetID b
      else if actionRank (ad_Kind a) \<noteq> actionRank (ad_Kind b) then actionRank (ad_Kind a) < actionRank (ad_Kind b)
      else bytes_less (ad_Key a) (ad_Key b))"

definition decodeExactUpload :: "codec \<Rightarrow> string \<Rightarrow> upload_group list option" where
  "decodeExactUpload cd payload =
     (if payload = [] then None
      else (case cd_decodeUpload cd payload of
              None \<Rightarrow> None
            | Some request \<Rightarrow> if cd_upload cd request = Some payload then Some request else None))"

definition decode_create :: "codec \<Rightarrow> int \<Rightarrow> action_draft \<Rightarrow> (action_draft \<times> upload_group) result" where
  "decode_create cd targetID action =
     (if ad_Kind action \<noteq> ActionCreateGroup \<or> ad_TargetID action \<noteq> targetID
      then Inl (plain_error ''batch target create-group actions: action target differs'')
      else (case decodeExactUpload cd (ad_RequestPayload action) of
              Some [request] \<Rightarrow>
                if length (ug_Variants request) \<noteq> length (ad_Members action)
                then Inl (plain_error ''batch target create-group actions: action payload is invalid'')
                else Inr (action, request)
            | _ \<Rightarrow> Inl (plain_error ''batch target create-group actions: action payload is invalid'')))"

text \<open>The inner loop: the longest prefix that stays within the group count and the request size, with
  its payload.\<close>

fun grow_chunk :: "codec \<Rightarrow> upload_group list \<Rightarrow> string \<Rightarrow> upload_group list \<Rightarrow> (nat \<times> string) result" where
  "grow_chunk cd acc payload [] = Inr (length acc, payload)"
| "grow_chunk cd acc payload (r # rs) =
     (if MaxUploadGroups \<le> length acc then Inr (length acc, payload)
      else (case cd_upload cd (acc @ [r]) of
              None \<Rightarrow> Inl (plain_error ''encode batched create-group request'')
            | Some candidate \<Rightarrow>
                if op_MaxRequestBytes uploadCardsOperation < int (length candidate) then Inr (length acc, payload)
                else grow_chunk cd (acc @ [r]) candidate rs))"

definition renumber :: "action_member list \<Rightarrow> action_member list" where
  "renumber ms = map (\<lambda>(index, m). m\<lparr>am_RequestMemberIndex := int index\<rparr>) (enumerate 0 ms)"

definition combine_chunk :: "int \<Rightarrow> string \<Rightarrow> action_draft list \<Rightarrow> action_draft" where
  "combine_chunk targetID payload chunk =
     (case chunk of
        [action] \<Rightarrow> action
      | _ \<Rightarrow>
          (let members = renumber (concat (map ad_Members chunk));
               requestDigest = DigestParts ''cardpublication-request:v1'' [payload];
               memberDigest = DigestMembers members
           in \<lparr>ad_Key = DigestParts ''cardpublication-create-batch:v1'' [format_int targetID, requestDigest, memberDigest],
               ad_Kind = ActionCreateGroup, ad_TargetID = targetID, ad_RequestDigest = requestDigest,
               ad_RequestPayload = payload, ad_MemberSetDigest = memberDigest, ad_MediaLinkSetRoot = zero_digest,
               ad_Members = members\<rparr>))"

text \<open>The remap is the list of its assignments; a later one overrides an earlier one.\<close>

function chunk_actions ::
  "codec \<Rightarrow> int \<Rightarrow> (action_draft \<times> upload_group) list \<Rightarrow> (action_draft list \<times> (digest \<times> digest) list) result" where
  "chunk_actions cd targetID ps =
     (if ps = [] then Inr ([], [])
      else (case grow_chunk cd [] [] (map snd ps) of
              Inl e \<Rightarrow> Inl e
            | Inr (n, payload) \<Rightarrow>
                if n = 0 \<or> payload = [] then Inl (plain_error ''create-group request exceeds WB operation bound'')
                else (let chunk = map fst (take n ps); combined = combine_chunk targetID payload chunk in
                      rbind (chunk_actions cd targetID (drop n ps)) (\<lambda>(actions, remap).
                        Inr (combined # actions, map (\<lambda>a. (ad_Key a, ad_Key combined)) chunk @ remap)))))"
  by pat_completeness auto
termination
  by (relation "measure (\<lambda>(cd, targetID, ps). length ps)") auto

declare chunk_actions.simps [simp del]

definition batchTargetCreateActions ::
  "codec \<Rightarrow> action_draft list \<Rightarrow> (action_draft list \<times> (digest \<times> digest) list) result" where
  "batchTargetCreateActions cd actions =
     (case actions of
        [] \<Rightarrow> Inl (plain_error ''batch target create-group actions: actions are empty'')
      | first # _ \<Rightarrow>
          rbind (traverse (decode_create cd (ad_TargetID first)) actions) (chunk_actions cd (ad_TargetID first)))"

function batch_targets ::
  "codec \<Rightarrow> action_draft list \<Rightarrow> (action_draft list \<times> (digest \<times> digest) list) result" where
  "batch_targets cd [] = Inr ([], [])"
| "batch_targets cd (a # as) =
     (let same = takeWhile (\<lambda>b. ad_TargetID b = ad_TargetID a) (a # as);
          rest = dropWhile (\<lambda>b. ad_TargetID b = ad_TargetID a) as
      in rbind (batchTargetCreateActions cd same) (\<lambda>(combined, remap).
         rbind (batch_targets cd rest) (\<lambda>(actions, remap').
           Inr (combined @ actions, remap @ remap'))))"
  by pat_completeness auto
termination
  by (relation "measure (\<lambda>(cd, as). length as)") (auto simp: le_imp_less_Suc length_dropWhile_le)

definition remap_lookup :: "(digest \<times> digest) list \<Rightarrow> digest \<Rightarrow> digest option" where
  "remap_lookup remap = map_of (rev remap)"

definition remap_media :: "(digest \<times> digest) list \<Rightarrow> planned_item list \<Rightarrow> action_draft \<Rightarrow> action_draft" where
  "remap_media remap items action =
     (case (ad_Kind action = ActionUploadMedia, ad_Members action) of
        (True, [m]) \<Rightarrow>
          (case map_of (rev (map (\<lambda>i. (pi_TransferItemTargetID i, pi_ActionKey i))
                  (filter (\<lambda>i. pi_ActionKey i \<noteq> zero_digest) items))) (am_TransferItemTargetID m) of
             None \<Rightarrow> action
           | Some oldProductKey \<Rightarrow>
               (case remap_lookup remap oldProductKey of
                  None \<Rightarrow> action
                | Some newProductKey \<Rightarrow>
                    if newProductKey = oldProductKey then action
                    else action\<lparr>ad_Key := mediaActionKey action newProductKey\<rparr>))
      | _ \<Rightarrow> action)"

definition remap_item :: "(digest \<times> digest) list \<Rightarrow> planned_item \<Rightarrow> planned_item" where
  "remap_item remap item =
     (case remap_lookup remap (pi_ActionKey item) of None \<Rightarrow> item | Some k \<Rightarrow> item\<lparr>pi_ActionKey := k\<rparr>)"

definition batchCreateGroupActions :: "codec \<Rightarrow> plan_draft \<Rightarrow> plan_draft result" where
  "batchCreateGroupActions cd draft =
     (let createActions = filter (\<lambda>a. ad_Kind a = ActionCreateGroup) (pd_Actions draft);
          otherActions = filter (\<lambda>a. ad_Kind a \<noteq> ActionCreateGroup) (pd_Actions draft)
      in if length createActions < 2 then Inr draft
         else rbind (batch_targets cd (sort_by create_less createActions)) (\<lambda>(batched, remap).
           Inr (draft\<lparr>pd_Items := map (remap_item remap) (pd_Items draft),
                      pd_Actions := map (remap_media remap (pd_Items draft)) otherActions @ batched\<rparr>)))"

section \<open>Build\<close>

definition planningMayContinue :: "string \<Rightarrow> bool" where
  "planningMayContinue phase \<longleftrightarrow>
     phase \<in> {PhasePreparing, PhaseAwaitingAuthorization, PhasePublishing, PhaseReconciling, PhaseMedia}"

definition validateLoadedGroup :: "loaded_group \<Rightarrow> goerr option" where
  "validateLoadedGroup grp =
     (let source = lg_Source grp; proposal = lg_Proposal grp in
      if sp_GroupTargetID proposal \<noteq> pgr_GroupTargetID source \<or> sp_SourceGroupID proposal \<noteq> pgr_SourceGroupID source \<or>
         sp_TargetID proposal \<noteq> pgr_TargetID source \<or> sp_SellerID proposal \<noteq> pgr_SellerID source \<or>
         pr_ProposalRoot (sp_Proposal proposal) \<noteq> pgr_ProposalRoot source \<or>
         length (sp_Members proposal) \<noteq> length (pgr_Members source)
      then Some (plain_error ''prepared proposal differs from publication planning source'')
      else each_err (\<lambda>_ (m, prepared).
             if pm_TransferItemID m \<noteq> pp_TransferItemID prepared \<or> pm_Position m \<noteq> pp_ItemPosition prepared \<or>
                pm_VendorCode m \<noteq> pp_VendorCode prepared
             then Some (plain_error ''prepared proposal member differs from publication source'') else None)
           0 (zip (pgr_Members source) (sp_Members proposal)))"

definition identity_key :: "loaded_group \<Rightarrow> planning_member \<Rightarrow> string" where
  "identity_key grp m = pgr_SellerID (lg_Source grp) @ [CHR 0x00] @ pm_VendorCode m"

definition desired_keys :: "loaded_group list \<Rightarrow> string list" where
  "desired_keys groups = concat (map (\<lambda>g. map (identity_key g) (pgr_Members (lg_Source g))) groups)"

definition duplicate_desired :: "string list \<Rightarrow> loaded_group \<Rightarrow> bool" where
  "duplicate_desired keys grp = list_ex (\<lambda>m. 1 < count_list keys (identity_key grp m)) (pgr_Members (lg_Source grp))"

definition plan_group ::
  "codec \<Rightarrow> ((nat \<times> content_card) list \<Rightarrow> (nat \<times> content_card) list) \<Rightarrow> string list \<Rightarrow> (int \<times> observation) list \<Rightarrow>
   (int \<times> digest) list \<Rightarrow> plan_draft \<Rightarrow> loaded_group \<Rightarrow> plan_draft result" where
  "plan_group cd iter keys observations digests draft grp =
     (case map_of observations (pgr_TargetID (lg_Source grp)) of
        None \<Rightarrow> Inl (plain_error ''publication group has no target observation'')
      | Some ob \<Rightarrow>
          guard (validateLoadedGroup grp)
           (rbind (if duplicate_desired keys grp
                   then Inr (conflictDecision (length (pgr_Members (lg_Source grp))) DecisionRemoteIdentityConflict)
                   else decideGroup cd iter grp ob) (\<lambda>decision.
              appendDecision cd draft grp decision
               (case map_of digests (pgr_TargetID (lg_Source grp)) of None \<Rightarrow> zero_digest | Some d \<Rightarrow> d))))"

fun plan_groups ::
  "codec \<Rightarrow> ((nat \<times> content_card) list \<Rightarrow> (nat \<times> content_card) list) \<Rightarrow> string list \<Rightarrow> (int \<times> observation) list \<Rightarrow>
   (int \<times> digest) list \<Rightarrow> plan_draft \<Rightarrow> loaded_group list \<Rightarrow> plan_draft result" where
  "plan_groups cd iter keys observations digests draft [] = Inr draft"
| "plan_groups cd iter keys observations digests draft (g # gs) =
     rbind (plan_group cd iter keys observations digests draft g) (\<lambda>draft'.
       plan_groups cd iter keys observations digests draft' gs)"

definition Build ::
  "codec \<Rightarrow> ((nat \<times> content_card) list \<Rightarrow> (nat \<times> content_card) list) \<Rightarrow> transfer \<Rightarrow> loaded_group list \<Rightarrow>
   (int \<times> observation) list \<Rightarrow> plan_draft result" where
  "Build cd iter t groups observations =
     (if Transfer_Validate t \<noteq> None \<or> \<not> planningMayContinue (tr_Phase t) \<or> tr_Outcome t \<noteq> OutcomeRunning
      then Inl (plain_error ''transfer is not ready for publication planning'')
      else
        rbind (traverse (DraftObservation cd) (map snd observations)) (\<lambda>stored.
        rbind (plan_groups cd iter (desired_keys groups) observations (zip (map fst observations) (map od_Digest stored))
                 \<lparr>pd_TransferID = tr_ID t, pd_TargetSetRoot = tr_TargetSetRoot t, pd_Digest = zero_digest,
                  pd_Observations = sort_by (\<lambda>a b. od_TargetID a < od_TargetID b) stored,
                  pd_Actions = [], pd_Groups = [], pd_Items = [], pd_Identities = []\<rparr> groups) (\<lambda>draft.
        rbind (batchCreateGroupActions cd draft) (\<lambda>draft.
          let actions = sort_by action_less (pd_Actions draft);
              draft = draft\<lparr>pd_Actions := actions,
                pd_Digest := digestPlan (pd_TargetSetRoot draft) (pd_Groups draft) (pd_Items draft) actions\<rparr>
          in guard (PlanDraft_Validate draft) (Inr draft)))))"

end
