(* ===== verification/PublicationProps.thy ===== *)
theory PublicationProps
  imports PublicationPlan
begin

text \<open>
  What the publication planner guarantees: soundness of the decision for a group, that a plan never
  creates a card its observation already shows, that every member of every group is accounted for,
  that batching keeps members and bounds, and that the plan digest identifies the plan.
\<close>

section \<open>Lists\<close>

lemma set_insert_by [simp]: "set (insert_by lt x xs) = insert x (set xs)"
  by (induction xs) auto

lemma set_sort_by [simp]: "set (sort_by lt xs) = set xs"
  by (induction xs) (auto simp: sort_by_def)

lemma mset_insert_by [simp]: "mset (insert_by lt x xs) = add_mset x (mset xs)"
  by (induction xs) auto

lemma mset_sort_by [simp]: "mset (sort_by lt xs) = mset xs"
  by (induction xs) (auto simp: sort_by_def)

lemma traverse_Inr:
  "traverse f xs = Inr ys \<longleftrightarrow> list_all2 (\<lambda>x y. f x = Inr y) xs ys"
proof (induction xs arbitrary: ys)
  case (Cons x xs)
  show ?case
  proof (cases ys)
    case Nil
    then show ?thesis by (auto simp: rbind_eq_Inr_iff)
  next
    case (Cons y ys')
    then show ?thesis using Cons.IH by (auto simp: rbind_eq_Inr_iff)
  qed
qed auto

lemma traverse_in: "traverse f xs = Inr ys \<Longrightarrow> y \<in> set ys \<Longrightarrow> \<exists>x \<in> set xs. f x = Inr y"
  by (induction xs arbitrary: ys) (auto simp: rbind_eq_Inr_iff)

lemma in_enumerate [simp]: "(i, v) \<in> set (enumerate 0 vs) \<longleftrightarrow> i < length vs \<and> v = vs ! i"
  by (auto simp: in_set_enumerate_eq)

section \<open>The loops of decideGroup\<close>

definition unobserved :: "observation \<Rightarrow> string \<Rightarrow> bool" where
  "unobserved ob v \<longleftrightarrow> normal_by_vendor ob v = [] \<and> trash_by_vendor ob v = []"

lemma identity_conflict_None:
  "identity_conflict ob vs = None \<longleftrightarrow>
     (\<forall>v \<in> set vs. trash_by_vendor ob (uc_VendorCode v) = [] \<and> length (normal_by_vendor ob (uc_VendorCode v)) \<le> 1)"
  by (induction vs) auto

lemma set_missing_indexes:
  "set (missing_indexes ob vs) = {i. i < length vs \<and> normal_by_vendor ob (uc_VendorCode (vs ! i)) = []}"
  by (auto simp: missing_indexes_def image_iff)

lemma distinct_missing_indexes: "distinct (missing_indexes ob vs)"
proof -
  have "distinct (map fst (enumerate 0 vs))" by simp
  then show ?thesis unfolding missing_indexes_def by (rule distinct_map_filter)
qed

lemma set_existing_cards:
  "set (existing_cards ob vs) =
     {(i, c). i < length vs \<and> (\<exists>r. normal_by_vendor ob (uc_VendorCode (vs ! i)) = c # r)}"
proof (rule set_eqI)
  fix p :: "nat \<times> content_card"
  obtain i c where p: "p = (i, c)" by (cases p)
  have "(i, c) \<in> set (existing_cards ob vs) \<longleftrightarrow>
      (\<exists>j v. (j, v) \<in> set (enumerate 0 vs) \<and>
        (i, c) \<in> set (case normal_by_vendor ob (uc_VendorCode v) of [] \<Rightarrow> [] | c # _ \<Rightarrow> [(j, c)]))"
    by (auto simp: existing_cards_def simp del: in_enumerate)
  also have "\<dots> \<longleftrightarrow> i < length vs \<and> (\<exists>r. normal_by_vendor ob (uc_VendorCode (vs ! i)) = c # r)"
    by (auto split: list.splits; metis)
  finally show "p \<in> set (existing_cards ob vs) \<longleftrightarrow>
      p \<in> {(i, c). i < length vs \<and> (\<exists>r. normal_by_vendor ob (uc_VendorCode (vs ! i)) = c # r)}"
    using p by simp
qed

lemma existing_cards_empty:
  "existing_cards ob vs = [] \<longleftrightarrow> (\<forall>i < length vs. normal_by_vendor ob (uc_VendorCode (vs ! i)) = [])"
proof -
  have "existing_cards ob vs = [] \<longleftrightarrow> set (existing_cards ob vs) = {}" by simp
  also have "\<dots> \<longleftrightarrow> (\<forall>i < length vs. normal_by_vendor ob (uc_VendorCode (vs ! i)) = [])"
    unfolding set_existing_cards by auto (metis neq_Nil_conv)
  finally show ?thesis .
qed

lemma remote_group_Inr:
  "remote_group subj imt cs = Inr r \<Longrightarrow>
     (\<forall>(i, c) \<in> set cs. cc_SubjectID c = subj \<and> 0 < cc_IMTID c \<and> cc_IMTID c = r) \<and>
     (cs \<noteq> [] \<longrightarrow> 0 < r) \<and> (imt \<noteq> 0 \<longrightarrow> r = imt) \<and> (cs = [] \<longrightarrow> r = imt)"
proof (induction subj imt cs rule: remote_group.induct)
  case (2 subj imt i c cs)
  from 2(2) have "cc_SubjectID c = subj" "0 < cc_IMTID c" "imt = 0 \<or> imt = cc_IMTID c"
    and rest: "remote_group subj (cc_IMTID c) cs = Inr r" by (auto split: if_splits)
  then show ?case using 2(1) by auto
qed simp

text \<open>The outcome of a group that is not in conflict: what is created or added, and what is there.\<close>

lemma decideGroup_product:
  assumes d: "decideGroup cd iter grp ob = Inr d" and r: "pr_Request (sp_Proposal (lg_Proposal grp)) = req # rs"
    and nc: "\<not> gd_conflict d"
  shows "(\<forall>v \<in> set (ug_Variants req). trash_by_vendor ob (uc_VendorCode v) = []) \<and>
    (gd_productKind d = ActionCreateGroup \<and> gd_actionMembers d = [0..<length (ug_Variants req)] \<and>
       existing_cards ob (ug_Variants req) = [] \<and> gd_productPayload d = pr_EncodedRequest (sp_Proposal (lg_Proposal grp)) \<and>
       gd_existingCards d = [] \<or>
     gd_productKind d = ActionAddToGroup \<and> gd_actionMembers d = missing_indexes ob (ug_Variants req) \<and>
       gd_existingCards d = existing_cards ob (ug_Variants req) \<and> existing_cards ob (ug_Variants req) \<noteq> [] \<and>
       missing_indexes ob (ug_Variants req) \<noteq> [] \<and>
       (\<exists>imt. remote_group (pr_SubjectID (sp_Proposal (lg_Proposal grp))) 0 (iter (existing_cards ob (ug_Variants req))) = Inr imt \<and>
          remote_member_count ob imt + length (missing_indexes ob (ug_Variants req)) \<le> MaxVariantsPerGroup \<and>
          cd_add cd imt (map ((!) (ug_Variants req)) (missing_indexes ob (ug_Variants req))) = Some (gd_productPayload d) \<and>
          int (length (gd_productPayload d)) \<le> op_MaxRequestBytes uploadCardsAddOperation) \<or>
     gd_productKind d = [] \<and> gd_actionMembers d = [] \<and> gd_existingCards d = existing_cards ob (ug_Variants req) \<and>
       missing_indexes ob (ug_Variants req) = [] \<and> existing_cards ob (ug_Variants req) \<noteq> [] \<and>
       (\<exists>imt. remote_group (pr_SubjectID (sp_Proposal (lg_Proposal grp))) 0 (iter (existing_cards ob (ug_Variants req))) = Inr imt)) \<and>
    length (gd_itemCodes d) = length (ug_Variants req) \<and> length (gd_itemNMIDs d) = length (ug_Variants req)"
proof (cases "identity_conflict ob (ug_Variants req)")
  case None
  let ?vs = "ug_Variants req"
  have tr: "\<forall>v \<in> set ?vs. trash_by_vendor ob (uc_VendorCode v) = []"
    using None by (simp add: identity_conflict_None)
  show ?thesis
  proof (cases "existing_cards ob ?vs = []")
    case True
    with d r None tr show ?thesis by (auto simp: decideGroup_def Let_def allIndexes_def)
  next
    case False
    obtain imt where imt: "remote_group (pr_SubjectID (sp_Proposal (lg_Proposal grp))) 0 (iter (existing_cards ob ?vs)) = Inr imt"
      using d r nc None False
      by (cases "remote_group (pr_SubjectID (sp_Proposal (lg_Proposal grp))) 0 (iter (existing_cards ob ?vs))")
        (auto simp: decideGroup_def Let_def conflictDecision_def)
    show ?thesis
    proof (cases "missing_indexes ob ?vs = []")
      case True
      with d r nc None tr False imt show ?thesis
        by (simp add: decideGroup_def Let_def) (auto simp: action_defs)
    next
      case miss: False
      have cap: "remote_member_count ob imt + length (missing_indexes ob ?vs) \<le> MaxVariantsPerGroup"
        using d r nc None False imt miss
        by (auto simp: decideGroup_def Let_def conflictDecision_def split: if_splits)
      obtain payload where p: "cd_add cd imt (map ((!) ?vs) (missing_indexes ob ?vs)) = Some payload"
        "int (length payload) \<le> op_MaxRequestBytes uploadCardsAddOperation"
        using d r None False imt miss cap
        by (cases "cd_add cd imt (map ((!) ?vs) (missing_indexes ob ?vs))")
          (auto simp: decideGroup_def Let_def split: if_splits)
      with d r None tr False imt miss cap show ?thesis
        by (simp add: decideGroup_def Let_def) (auto simp: action_defs)
    qed
  qed
qed (use d r nc in \<open>auto simp: decideGroup_def Let_def conflictDecision_def\<close>)

section \<open>What appending a decision adds\<close>

abbreviation product_kind :: "string \<Rightarrow> bool" where
  "product_kind k \<equiv> k = ActionCreateGroup \<or> k = ActionAddToGroup"

definition terminal_result :: "planned_item \<Rightarrow> bool" where
  "terminal_result i \<longleftrightarrow> pi_OutcomeClass i \<in> {ResultSkipped, ResultRejected}"

definition backed_by :: "action_draft list \<Rightarrow> planned_item \<Rightarrow> bool" where
  "backed_by actions i \<longleftrightarrow>
     pi_OutcomeClass i = [] \<and> pi_OutcomeCode i = [] \<and> pi_NMID i = 0 \<and>
     (\<exists>a \<in> set actions. product_kind (ad_Kind a) \<and> ad_Key a = pi_ActionKey i)"

lemma buildMediaAction_kind: "buildMediaAction cd grp m links k = Inr a \<Longrightarrow> ad_Kind a = ActionUploadMedia"
  by (auto simp: buildMediaAction_def Let_def split: option.splits)

lemma optional_media_kind: "optional_media cd grp m k = Inr as \<Longrightarrow> a \<in> set as \<Longrightarrow> ad_Kind a = ActionUploadMedia"
  by (auto simp: optional_media_def rbind_eq_Inr_iff buildMediaAction_kind split: if_splits)

lemma existing_media_kind:
  "existing_media cd grp d p = Inr as \<Longrightarrow> a \<in> set as \<Longrightarrow> ad_Kind a = ActionUploadMedia"
  by (auto simp: existing_media_def optional_media_kind split: prod.splits option.splits if_splits)

lemma product_step_facts:
  assumes "product_step cd grp d key od (index, m) = Inr (item, ident, media)"
  shows "pi_TransferItemTargetID item = pm_TransferItemTargetID m \<and>
    (\<forall>a \<in> set media. ad_Kind a = ActionUploadMedia) \<and>
    (terminal_result item \<or>
     pi_OutcomeClass item = [] \<and> pi_OutcomeCode item = [] \<and> pi_NMID item = 0 \<and> pi_ActionKey item = key)"
  using assms
  by (auto simp: product_step_def rbind_eq_Inr_iff terminal_item_def terminal_result_def
      dest: optional_media_kind existing_media_kind split: if_splits)

definition appended ::
  "loaded_group \<Rightarrow> group_decision \<Rightarrow> plan_draft \<Rightarrow> plan_draft \<Rightarrow> action_draft list \<Rightarrow> planned_item list \<Rightarrow> bool" where
  "appended grp d draft draft' as items \<longleftrightarrow>
     pd_Actions draft' = pd_Actions draft @ as \<and> pd_Items draft' = pd_Items draft @ items \<and>
     (\<exists>g. pd_Groups draft' = pd_Groups draft @ [g] \<and> pgd_GroupTargetID g = pgr_GroupTargetID (lg_Source grp)) \<and>
     pd_TransferID draft' = pd_TransferID draft \<and> pd_TargetSetRoot draft' = pd_TargetSetRoot draft \<and>
     map pi_TransferItemTargetID items = map pm_TransferItemTargetID (pgr_Members (lg_Source grp)) \<and>
     (\<forall>a \<in> set as. ad_Kind a = ActionUploadMedia \<or> \<not> gd_conflict d \<and> buildProductAction grp d = Inr a) \<and>
     (\<forall>i \<in> set items. terminal_result i \<or>
        pi_OutcomeClass i = [] \<and> pi_OutcomeCode i = [] \<and> pi_NMID i = 0 \<and> \<not> gd_conflict d \<and> gd_productKind d \<noteq> [] \<and>
        (\<exists>a \<in> set as. buildProductAction grp d = Inr a \<and> ad_Key a = pi_ActionKey i))"

lemma appendDecision_conflict:
  assumes "appendDecision cd draft grp d od = Inr draft'" "gd_conflict d"
  shows "\<exists>as items. appended grp d draft draft' as items"
  using assms
  by (intro exI [of _ "[]"] exI [of _ "map (\<lambda>m. terminal_item grp m ResultRejected (gd_code d) 0) (pgr_Members (lg_Source grp))"])
    (auto simp: appendDecision_def appended_def Let_def terminal_item_def terminal_result_def split: if_splits)

lemma map_snd_enumerate [simp]: "map (\<lambda>p. f (snd p)) (enumerate n xs) = map f xs"
  by (rule nth_equalityI) (simp_all add: nth_enumerate_eq)

lemma appendDecision_skip:
  assumes "appendDecision cd draft grp d od = Inr draft'" "\<not> gd_conflict d" "gd_productKind d = []"
  shows "\<exists>as items. appended grp d draft draft' as items"
proof -
  let ?ms = "pgr_Members (lg_Source grp)"
  let ?items = "map (\<lambda>(index, m). terminal_item grp m ResultSkipped (gd_itemCodes d ! index) (gd_itemNMIDs d ! index)) (enumerate 0 ?ms)"
  obtain media where m: "traverse (existing_media cd grp d) (enumerate 0 ?ms) = Inr media"
    and s: "pd_Actions draft' = pd_Actions draft @ concat media" "pd_Items draft' = pd_Items draft @ ?items"
      "\<exists>g. pd_Groups draft' = pd_Groups draft @ [g] \<and> pgd_GroupTargetID g = pgr_GroupTargetID (lg_Source grp)"
      "pd_TransferID draft' = pd_TransferID draft" "pd_TargetSetRoot draft' = pd_TargetSetRoot draft"
    using assms by (auto simp: appendDecision_def Let_def rbind_eq_Inr_iff split: if_splits)
  have kinds: "\<forall>a \<in> set (concat media). ad_Kind a = ActionUploadMedia"
  proof
    fix a assume "a \<in> set (concat media)"
    then obtain as where as: "as \<in> set media" "a \<in> set as" by auto
    then obtain p where "existing_media cd grp d p = Inr as"
      using traverse_in [OF m] by blast
    then show "ad_Kind a = ActionUploadMedia" using as existing_media_kind by blast
  qed
  have ids: "map pi_TransferItemTargetID ?items = map pm_TransferItemTargetID ?ms"
    by (simp add: comp_def terminal_item_def case_prod_beta)
  have "\<forall>i \<in> set ?items. terminal_result i" by (auto simp: terminal_item_def terminal_result_def)
  with s kinds ids show ?thesis unfolding appended_def by blast
qed

lemma appendDecision_product:
  assumes "appendDecision cd draft grp d od = Inr draft'" "\<not> gd_conflict d" "gd_productKind d \<noteq> []"
  shows "\<exists>as items. appended grp d draft draft' as items"
proof -
  let ?ms = "pgr_Members (lg_Source grp)"
  obtain product steps where b: "buildProductAction grp d = Inr product"
    and st: "traverse (product_step cd grp d (ad_Key product) od) (enumerate 0 ?ms) = Inr steps"
    and s: "pd_Actions draft' = pd_Actions draft @ product # concat (map (snd \<circ> snd) steps)"
      "pd_Items draft' = pd_Items draft @ map fst steps"
      "\<exists>g. pd_Groups draft' = pd_Groups draft @ [g] \<and> pgd_GroupTargetID g = pgr_GroupTargetID (lg_Source grp)"
      "pd_TransferID draft' = pd_TransferID draft" "pd_TargetSetRoot draft' = pd_TargetSetRoot draft"
    using assms by (auto simp: appendDecision_def Let_def rbind_eq_Inr_iff split: if_splits)
  have len: "length steps = length ?ms" using st by (auto simp: traverse_Inr dest: list_all2_lengthD)
  have step: "product_step cd grp d (ad_Key product) od (k, ?ms ! k) = Inr (steps ! k)" if "k < length ?ms" for k
    using st that by (auto simp: traverse_Inr list_all2_conv_all_nth nth_enumerate_eq)
  have fact: "pi_TransferItemTargetID (fst (steps ! k)) = pm_TransferItemTargetID (?ms ! k) \<and>
      (\<forall>a \<in> set (snd (snd (steps ! k))). ad_Kind a = ActionUploadMedia) \<and>
      (terminal_result (fst (steps ! k)) \<or> pi_OutcomeClass (fst (steps ! k)) = [] \<and>
       pi_OutcomeCode (fst (steps ! k)) = [] \<and> pi_NMID (fst (steps ! k)) = 0 \<and>
       pi_ActionKey (fst (steps ! k)) = ad_Key product)" if "k < length ?ms" for k
    using product_step_facts [of cd grp d "ad_Key product" od k "?ms ! k" "fst (steps ! k)"
        "fst (snd (steps ! k))" "snd (snd (steps ! k))"] step [OF that] by simp
  have ids: "map pi_TransferItemTargetID (map fst steps) = map pm_TransferItemTargetID ?ms"
    using fact len by (auto intro: nth_equalityI)
  have kinds: "\<forall>a \<in> set (concat (map (snd \<circ> snd) steps)). ad_Kind a = ActionUploadMedia"
  proof
    fix a assume "a \<in> set (concat (map (snd \<circ> snd) steps))"
    then obtain s where s: "s \<in> set steps" "a \<in> set (snd (snd s))" by auto
    then obtain k m where "product_step cd grp d (ad_Key product) od (k, m) = Inr s" using traverse_in [OF st s(1)] by (metis surj_pair)
    then show "ad_Kind a = ActionUploadMedia"
      using s(2) product_step_facts [of cd grp d "ad_Key product" od k m "fst s" "fst (snd s)" "snd (snd s)"] by simp
  qed
  have items: "\<forall>i \<in> set (map fst steps). terminal_result i \<or> pi_OutcomeClass i = [] \<and> pi_OutcomeCode i = [] \<and>
      pi_NMID i = 0 \<and> pi_ActionKey i = ad_Key product"
  proof
    fix i assume "i \<in> set (map fst steps)"
    then obtain k where "k < length steps" "i = fst (steps ! k)" by (auto simp: in_set_conv_nth)
    then show "terminal_result i \<or> pi_OutcomeClass i = [] \<and> pi_OutcomeCode i = [] \<and>
      pi_NMID i = 0 \<and> pi_ActionKey i = ad_Key product" using fact len by auto
  qed
  have "appended grp d draft draft' (product # concat (map (snd \<circ> snd) steps)) (map fst steps)"
    unfolding appended_def using s b ids kinds items assms(2,3) by auto
  then show ?thesis by blast
qed

lemma appendDecision_appended:
  "appendDecision cd draft grp d od = Inr draft' \<Longrightarrow> \<exists>as items. appended grp d draft draft' as items"
  using appendDecision_conflict appendDecision_skip appendDecision_product by blast

section \<open>Planning all groups\<close>

definition aligned :: "loaded_group \<Rightarrow> bool" where
  "aligned grp \<longleftrightarrow>
     (case pr_Request (sp_Proposal (lg_Proposal grp)) of
        [] \<Rightarrow> False
      | req # _ \<Rightarrow> map uc_VendorCode (ug_Variants req) = map pm_VendorCode (pgr_Members (lg_Source grp)))"

definition action_safe :: "(int \<times> observation) list \<Rightarrow> action_draft \<Rightarrow> bool" where
  "action_safe observations a \<longleftrightarrow>
     product_kind (ad_Kind a) \<longrightarrow>
     (\<forall>m \<in> set (ad_Members a). \<exists>ob. map_of observations (ad_TargetID a) = Some ob \<and> unobserved ob (am_VendorCode m))"

lemma decideGroup_request:
  "decideGroup cd iter grp ob = Inr d \<Longrightarrow> \<exists>req rs. pr_Request (sp_Proposal (lg_Proposal grp)) = req # rs"
  by (cases "pr_Request (sp_Proposal (lg_Proposal grp))") (auto simp: decideGroup_def Let_def)

lemma buildProductAction_facts:
  assumes "buildProductAction grp d = Inr a"
  shows "ad_Kind a = gd_productKind d \<and> ad_TargetID a = pgr_TargetID (lg_Source grp) \<and>
    ad_RequestPayload a = gd_productPayload d \<and>
    (\<forall>m \<in> set (ad_Members a). \<exists>i \<in> set (gd_actionMembers d). i < length (pgr_Members (lg_Source grp)) \<and>
       am_VendorCode m = pm_VendorCode (pgr_Members (lg_Source grp) ! i))"
proof -
  from assms have ok: "\<forall>i \<in> set (gd_actionMembers d). i < length (pgr_Members (lg_Source grp))"
    and a: "ad_Kind a = gd_productKind d" "ad_TargetID a = pgr_TargetID (lg_Source grp)"
      "ad_RequestPayload a = gd_productPayload d" "ad_Members a = product_members grp (gd_actionMembers d)"
    by (auto simp: buildProductAction_def Let_def list_ex_iff split: if_splits)
  have "\<exists>i \<in> set (gd_actionMembers d). am_VendorCode m = pm_VendorCode (pgr_Members (lg_Source grp) ! i)"
    if "m \<in> set (ad_Members a)" for m
    using that a(4) by (auto simp: product_members_def)
  then show ?thesis using ok a by blast
qed

lemma decision_members_unobserved:
  assumes d: "decideGroup cd iter grp ob = Inr d" and r: "pr_Request (sp_Proposal (lg_Proposal grp)) = req # rs"
    and nc: "\<not> gd_conflict d" and i: "i \<in> set (gd_actionMembers d)"
  shows "i < length (ug_Variants req) \<and> unobserved ob (uc_VendorCode (ug_Variants req ! i))"
proof -
  note p = decideGroup_product [OF d r nc]
  have len: "i < length (ug_Variants req)"
    using p i by (auto simp: set_missing_indexes)
  moreover have "normal_by_vendor ob (uc_VendorCode (ug_Variants req ! i)) = []"
    using p i len by (auto simp: set_missing_indexes existing_cards_empty)
  moreover have "trash_by_vendor ob (uc_VendorCode (ug_Variants req ! i)) = []"
    using p len by auto
  ultimately show ?thesis by (simp add: unobserved_def)
qed

lemma plan_group_appended:
  assumes "plan_group cd iter keys observations digests draft grp = Inr draft'"
  obtains ob d as items where "map_of observations (pgr_TargetID (lg_Source grp)) = Some ob"
    "appended grp d draft draft' as items" "gd_conflict d \<or> decideGroup cd iter grp ob = Inr d"
proof -
  obtain ob where ob: "map_of observations (pgr_TargetID (lg_Source grp)) = Some ob"
    using assms by (auto simp: plan_group_def split: option.splits)
  obtain d od where "(if duplicate_desired keys grp
        then Inr (conflictDecision (length (pgr_Members (lg_Source grp))) DecisionRemoteIdentityConflict)
        else decideGroup cd iter grp ob) = Inr d" and ap: "appendDecision cd draft grp d od = Inr draft'"
    using assms ob by (auto simp: plan_group_def rbind_eq_Inr_iff)
  then have "gd_conflict d \<or> decideGroup cd iter grp ob = Inr d"
    by (auto simp: conflictDecision_def split: if_splits)
  then show thesis using that ob appendDecision_appended [OF ap] by blast
qed

lemma appended_safe:
  assumes ap: "appended grp d draft draft' as items" and al: "aligned grp"
    and ob: "map_of observations (pgr_TargetID (lg_Source grp)) = Some ob"
    and dec: "gd_conflict d \<or> decideGroup cd iter grp ob = Inr d" and a: "a \<in> set as"
  shows "action_safe observations a"
proof (cases "ad_Kind a = ActionUploadMedia")
  case True
  then show ?thesis by (simp add: action_safe_def action_defs)
next
  case False
  then have nc: "\<not> gd_conflict d" and b: "buildProductAction grp d = Inr a"
    using ap a by (auto simp: appended_def)
  with dec have d: "decideGroup cd iter grp ob = Inr d" by simp
  from al obtain req rs where r: "pr_Request (sp_Proposal (lg_Proposal grp)) = req # rs"
    and eq: "map uc_VendorCode (ug_Variants req) = map pm_VendorCode (pgr_Members (lg_Source grp))"
    by (auto simp: aligned_def split: list.splits)
  have "unobserved ob (am_VendorCode m)" if m: "m \<in> set (ad_Members a)" for m
  proof -
    obtain i where i: "i \<in> set (gd_actionMembers d)" "i < length (pgr_Members (lg_Source grp))"
      "am_VendorCode m = pm_VendorCode (pgr_Members (lg_Source grp) ! i)"
      using buildProductAction_facts [OF b] m by blast
    have len: "length (ug_Variants req) = length (pgr_Members (lg_Source grp))" by (rule map_eq_imp_length_eq [OF eq])
    have "uc_VendorCode (ug_Variants req ! i) = map uc_VendorCode (ug_Variants req) ! i" using i(2) len by simp
    also have "\<dots> = map pm_VendorCode (pgr_Members (lg_Source grp)) ! i" by (simp only: eq)
    also have "\<dots> = pm_VendorCode (pgr_Members (lg_Source grp) ! i)" using i(2) by simp
    finally have "am_VendorCode m = uc_VendorCode (ug_Variants req ! i)" using i(3) by simp
    then show ?thesis using decision_members_unobserved [OF d r nc i(1)] by simp
  qed
  then show ?thesis using buildProductAction_facts [OF b] ob by (simp add: action_safe_def)
qed

lemma backed_by_mono: "backed_by as i \<Longrightarrow> set as \<subseteq> set bs \<Longrightarrow> backed_by bs i"
  by (auto simp: backed_by_def)

lemma appended_backed:
  assumes ap: "appended grp d draft draft' as items"
    and dec: "gd_conflict d \<or> decideGroup cd iter grp ob = Inr d" and i: "i \<in> set items"
  shows "terminal_result i \<or> backed_by as i"
proof (cases "terminal_result i")
  case False
  then obtain a where a: "a \<in> set as" "buildProductAction grp d = Inr a" "ad_Key a = pi_ActionKey i"
    and blank: "pi_OutcomeClass i = []" "pi_OutcomeCode i = []" "pi_NMID i = 0" "\<not> gd_conflict d" "gd_productKind d \<noteq> []"
    using ap i by (auto simp: appended_def)
  with dec obtain req rs where "decideGroup cd iter grp ob = Inr d" "pr_Request (sp_Proposal (lg_Proposal grp)) = req # rs"
    using decideGroup_request by blast
  then have "product_kind (gd_productKind d)" using decideGroup_product blank(4,5) by blast
  then show ?thesis using a blank buildProductAction_facts [OF a(2)] by (auto simp: backed_by_def)
qed simp

lemma plan_groups_inv:
  assumes "plan_groups cd iter keys observations digests draft groups = Inr draft'"
    and "\<forall>i \<in> set (pd_Items draft). terminal_result i \<or> backed_by (pd_Actions draft) i"
  shows "(\<forall>i \<in> set (pd_Items draft'). terminal_result i \<or> backed_by (pd_Actions draft') i) \<and>
    map pi_TransferItemTargetID (pd_Items draft') = map pi_TransferItemTargetID (pd_Items draft) @
      concat (map (\<lambda>g. map pm_TransferItemTargetID (pgr_Members (lg_Source g))) groups) \<and>
    map pgd_GroupTargetID (pd_Groups draft') = map pgd_GroupTargetID (pd_Groups draft) @
      map (\<lambda>g. pgr_GroupTargetID (lg_Source g)) groups \<and>
    pd_TransferID draft' = pd_TransferID draft \<and> pd_TargetSetRoot draft' = pd_TargetSetRoot draft"
  using assms
proof (induction groups arbitrary: draft)
  case (Cons g gs)
  then obtain mid where mid: "plan_group cd iter keys observations digests draft g = Inr mid"
    and rest: "plan_groups cd iter keys observations digests mid gs = Inr draft'" by (auto simp: rbind_eq_Inr_iff)
  from mid obtain ob d as items where ap: "appended g d draft mid as items"
    and dec: "gd_conflict d \<or> decideGroup cd iter g ob = Inr d" by (rule plan_group_appended)
  have "\<forall>i \<in> set (pd_Items mid). terminal_result i \<or> backed_by (pd_Actions mid) i"
    using Cons.prems(2) appended_backed [OF ap dec] ap backed_by_mono
    by (fastforce simp: appended_def)
  from Cons.IH [OF rest this] ap show ?case by (auto simp: appended_def)
qed simp

lemma plan_groups_safe:
  assumes "plan_groups cd iter keys observations digests draft groups = Inr draft'"
    and "\<forall>g \<in> set groups. aligned g" "\<forall>a \<in> set (pd_Actions draft). action_safe observations a"
  shows "\<forall>a \<in> set (pd_Actions draft'). action_safe observations a"
  using assms
proof (induction groups arbitrary: draft)
  case (Cons g gs)
  then obtain mid where mid: "plan_group cd iter keys observations digests draft g = Inr mid"
    and rest: "plan_groups cd iter keys observations digests mid gs = Inr draft'" by (auto simp: rbind_eq_Inr_iff)
  from mid obtain ob d as items where ob: "map_of observations (pgr_TargetID (lg_Source g)) = Some ob"
    and ap: "appended g d draft mid as items"
    and dec: "gd_conflict d \<or> decideGroup cd iter g ob = Inr d" by (rule plan_group_appended)
  have "\<forall>a \<in> set (pd_Actions mid). action_safe observations a"
    using Cons.prems appended_safe [OF ap _ ob dec] ap by (auto simp: appended_def)
  with Cons.IH [OF rest] Cons.prems(2) show ?case by simp
qed simp

section \<open>Batching\<close>

abbreviation max_upload_bytes :: int where
  "max_upload_bytes \<equiv> op_MaxRequestBytes uploadCardsOperation"

lemma grow_chunk_facts:
  assumes "grow_chunk cd acc payload rs = Inr (n, p)" "length acc \<le> MaxUploadGroups"
    and "acc \<noteq> [] \<Longrightarrow> cd_upload cd acc = Some payload \<and> int (length payload) \<le> max_upload_bytes"
  shows "n \<le> MaxUploadGroups \<and> n \<le> length (acc @ rs) \<and>
    (n \<noteq> 0 \<longrightarrow> cd_upload cd (take n (acc @ rs)) = Some p \<and> int (length p) \<le> max_upload_bytes)"
  using assms
proof (induction cd acc payload rs rule: grow_chunk.induct)
  case (2 cd acc payload r rs)
  show ?case
  proof (cases "MaxUploadGroups \<le> length acc")
    case True
    with 2(2,3,4) show ?thesis by (cases "acc = []") (auto simp: MaxUploadGroups_def)
  next
    case False
    then obtain candidate where c: "cd_upload cd (acc @ [r]) = Some candidate"
      using 2(2) by (auto split: option.splits)
    show ?thesis
    proof (cases "max_upload_bytes < int (length candidate)")
      case True
      with 2(2,3,4) c False show ?thesis by auto
    next
      case ok: False
      have "grow_chunk cd (acc @ [r]) candidate rs = Inr (n, p)" using 2(2) c False ok by simp
      from 2(1) [OF False c ok this] c ok False show ?thesis by simp
    qed
  qed
qed auto

text \<open>Every action of a chunk is replaced by the action the chunk becomes.\<close>

definition chunk_remap ::
  "(action_draft \<times> upload_group) list list \<Rightarrow> action_draft list \<Rightarrow> (digest \<times> digest) list" where
  "chunk_remap chunks actions =
     concat (map (\<lambda>(chunk, a). map (\<lambda>p. (ad_Key (fst p), ad_Key a)) chunk) (zip chunks actions))"

definition chunk_ok :: "codec \<Rightarrow> int \<Rightarrow> (action_draft \<times> upload_group) list \<Rightarrow> action_draft \<Rightarrow> bool" where
  "chunk_ok cd targetID chunk a \<longleftrightarrow>
     chunk \<noteq> [] \<and> length chunk \<le> MaxUploadGroups \<and>
     (\<exists>payload. cd_upload cd (map snd chunk) = Some payload \<and> int (length payload) \<le> max_upload_bytes \<and>
        a = combine_chunk targetID payload (map fst chunk))"

lemma chunk_actions_Nil [simp]: "chunk_actions cd targetID [] = Inr ([], [])"
  by (subst chunk_actions.simps) simp

lemma chunk_actions_facts:
  assumes "chunk_actions cd targetID ps = Inr (actions, remap)"
  shows "\<exists>chunks. concat chunks = ps \<and> list_all2 (chunk_ok cd targetID) chunks actions \<and>
    (\<forall>p \<in> set ps. \<exists>k. (ad_Key (fst p), k) \<in> set remap) \<and>
    (\<forall>(old, new) \<in> set remap. new \<in> ad_Key ` set actions) \<and> remap = chunk_remap chunks actions"
  using assms
proof (induction cd targetID ps arbitrary: actions remap rule: chunk_actions.induct)
  case (1 cd targetID ps)
  show ?case
  proof (cases "ps = []")
    case True
    then show ?thesis using 1(2) by (intro exI [of _ "[]"]) (auto simp: chunk_remap_def)
  next
    case False
    obtain n payload where g: "grow_chunk cd [] [] (map snd ps) = Inr (n, payload)"
      using 1(2) False by (auto simp: chunk_actions.simps [of cd targetID ps] split: sum.splits)
    have ok: "\<not> (n = 0 \<or> payload = [])"
      using 1(2) False g by (auto simp: chunk_actions.simps [of cd targetID ps] split: if_splits)
    let ?c = "combine_chunk targetID payload (map fst (take n ps))"
    obtain as rm where rest: "chunk_actions cd targetID (drop n ps) = Inr (as, rm)" and
      eq: "actions = ?c # as" "remap = map (\<lambda>a. (ad_Key a, ad_Key ?c)) (map fst (take n ps)) @ rm"
      using 1(2) False g ok by (auto simp: chunk_actions.simps [of cd targetID ps] rbind_eq_Inr_iff Let_def)
    obtain chunks where ch: "concat chunks = drop n ps" "list_all2 (chunk_ok cd targetID) chunks as"
      "\<forall>p \<in> set (drop n ps). \<exists>k. (ad_Key (fst p), k) \<in> set rm" "\<forall>(old, new) \<in> set rm. new \<in> ad_Key ` set as"
      "rm = chunk_remap chunks as"
      using 1(1) [OF False g refl ok refl refl rest] by blast
    have "chunk_ok cd targetID (take n ps) ?c"
      using grow_chunk_facts [OF g] ok False by (auto simp: chunk_ok_def take_map)
    moreover have "\<forall>p \<in> set ps. \<exists>k. (ad_Key (fst p), k) \<in> set remap"
    proof
      fix p assume "p \<in> set ps"
      then have "p \<in> set (take n ps) \<or> p \<in> set (drop n ps)" by (metis Un_iff append_take_drop_id set_append)
      then show "\<exists>k. (ad_Key (fst p), k) \<in> set remap" using ch(3) eq(2) by fastforce
    qed
    moreover have "remap = chunk_remap (take n ps # chunks) actions" using ch(5) eq by (simp add: chunk_remap_def comp_def)
    moreover have "\<forall>(old, new) \<in> set remap. new \<in> ad_Key ` set actions" using ch(4) eq by auto
    ultimately show ?thesis
      using ch(1,2) eq(1) by (intro exI [of _ "take n ps # chunks"]) simp
  qed
qed

lemma decode_create_facts:
  "decode_create cd targetID a = Inr p \<Longrightarrow>
     fst p = a \<and> ad_Kind a = ActionCreateGroup \<and> ad_TargetID a = targetID \<and>
     cd_upload cd [snd p] = Some (ad_RequestPayload a) \<and>
     decodeExactUpload cd (ad_RequestPayload a) = Some [snd p] \<and> length (ug_Variants (snd p)) = length (ad_Members a)"
  by (auto simp: decode_create_def split: if_splits option.splits list.splits)
    (auto simp: decodeExactUpload_def split: if_splits option.splits)

definition unnumbered :: "action_member list \<Rightarrow> action_member list" where
  "unnumbered ms = map (\<lambda>m. m\<lparr>am_RequestMemberIndex := 0\<rparr>) ms"

lemma unnumbered_renumber [simp]: "unnumbered (renumber ms) = unnumbered ms"
  by (rule nth_equalityI) (simp_all add: unnumbered_def renumber_def nth_enumerate_eq)

lemma combine_chunk_facts:
  assumes "chunk_ok cd targetID chunk a"
    and "\<forall>p \<in> set chunk. ad_Kind (fst p) = ActionCreateGroup \<and> ad_TargetID (fst p) = targetID \<and>
           cd_upload cd [snd p] = Some (ad_RequestPayload (fst p))"
  shows "ad_Kind a = ActionCreateGroup \<and> ad_TargetID a = targetID \<and>
    cd_upload cd (map snd chunk) = Some (ad_RequestPayload a) \<and> int (length (ad_RequestPayload a)) \<le> max_upload_bytes \<and>
    unnumbered (ad_Members a) = unnumbered (concat (map (ad_Members \<circ> fst) chunk))"
proof -
  obtain payload where p: "cd_upload cd (map snd chunk) = Some payload" "int (length payload) \<le> max_upload_bytes"
    "a = combine_chunk targetID payload (map fst chunk)" "chunk \<noteq> []"
    using assms(1) by (auto simp: chunk_ok_def)
  show ?thesis
  proof (cases "tl chunk")
    case Nil
    then obtain q where "chunk = [q]" using p(4) by (cases chunk) auto
    then show ?thesis using p assms(2) by (auto simp: combine_chunk_def)
  next
    case (Cons q qs)
    then obtain q0 where "chunk = q0 # q # qs" using p(4) by (cases chunk) auto
    then show ?thesis using p by (simp add: combine_chunk_def Let_def comp_def)
  qed
qed

lemma decode_all:
  assumes "traverse (decode_create cd targetID) as = Inr ps"
  shows "map fst ps = as \<and> (\<forall>p \<in> set ps. ad_Kind (fst p) = ActionCreateGroup \<and> ad_TargetID (fst p) = targetID \<and>
    cd_upload cd [snd p] = Some (ad_RequestPayload (fst p)) \<and>
    decodeExactUpload cd (ad_RequestPayload (fst p)) = Some [snd p] \<and>
    length (ug_Variants (snd p)) = length (ad_Members (fst p)))"
  using assms
proof (induction as arbitrary: ps)
  case (Cons a as)
  then obtain p ps' where "decode_create cd targetID a = Inr p" "traverse (decode_create cd targetID) as = Inr ps'"
    "ps = p # ps'" by (auto simp: rbind_eq_Inr_iff)
  then show ?case using Cons.IH decode_create_facts by fastforce
qed simp

lemma member_of_unnumbered:
  "m \<in> set ms \<Longrightarrow> unnumbered ms = unnumbered ns \<Longrightarrow> \<exists>m' \<in> set ns. am_VendorCode m' = am_VendorCode m"
proof -
  assume m: "m \<in> set ms" and eq: "unnumbered ms = unnumbered ns"
  have "am_VendorCode ` set ms = am_VendorCode ` set ns"
  proof -
    have "map am_VendorCode (unnumbered ms) = map am_VendorCode (unnumbered ns)" using eq by simp
    then have "map am_VendorCode ms = map am_VendorCode ns" by (simp add: unnumbered_def comp_def)
    then show ?thesis by (metis set_map)
  qed
  then show ?thesis using m by (metis imageE imageI)
qed

definition batch_ok :: "action_draft list \<Rightarrow> action_draft list \<Rightarrow> (digest \<times> digest) list \<Rightarrow> bool" where
  "batch_ok as actions remap \<longleftrightarrow>
     (\<forall>a \<in> set actions. ad_Kind a = ActionCreateGroup \<and>
        (\<forall>m \<in> set (ad_Members a). \<exists>b \<in> set as. ad_TargetID b = ad_TargetID a \<and>
           (\<exists>m' \<in> set (ad_Members b). am_VendorCode m' = am_VendorCode m))) \<and>
     (\<forall>a \<in> set as. \<exists>k. (ad_Key a, k) \<in> set remap) \<and> (\<forall>(old, new) \<in> set remap. new \<in> ad_Key ` set actions)"

lemma batchTarget_chunks:
  assumes "batchTargetCreateActions cd as = Inr (actions, remap)"
  obtains targetID ps chunks where "map fst ps = as" "concat chunks = ps" "list_all2 (chunk_ok cd targetID) chunks actions"
    "\<forall>p \<in> set ps. ad_Kind (fst p) = ActionCreateGroup \<and> ad_TargetID (fst p) = targetID \<and>
       cd_upload cd [snd p] = Some (ad_RequestPayload (fst p))"
    "\<forall>p \<in> set ps. \<exists>k. (ad_Key (fst p), k) \<in> set remap" "\<forall>(old, new) \<in> set remap. new \<in> ad_Key ` set actions"
    "\<forall>p \<in> set ps. decodeExactUpload cd (ad_RequestPayload (fst p)) = Some [snd p] \<and>
       length (ug_Variants (snd p)) = length (ad_Members (fst p))" "remap = chunk_remap chunks actions"
proof -
  obtain a as' where as: "as = a # as'" using assms by (cases as) (auto simp: batchTargetCreateActions_def)
  then obtain ps where ps: "traverse (decode_create cd (ad_TargetID a)) as = Inr ps"
    and ch: "chunk_actions cd (ad_TargetID a) ps = Inr (actions, remap)"
    using assms by (auto simp: batchTargetCreateActions_def rbind_eq_Inr_iff simp del: traverse.simps)
  obtain chunks where c: "concat chunks = ps" "list_all2 (chunk_ok cd (ad_TargetID a)) chunks actions"
    "\<forall>p \<in> set ps. \<exists>k. (ad_Key (fst p), k) \<in> set remap" "\<forall>(old, new) \<in> set remap. new \<in> ad_Key ` set actions"
    "remap = chunk_remap chunks actions"
    using chunk_actions_facts [OF ch] by blast
  from decode_all [OF ps] show thesis
    by (intro that [OF _ c(1,2) _ c(3,4) _ c(5)]) auto
qed

lemma batchTarget_ok:
  assumes "batchTargetCreateActions cd as = Inr (actions, remap)"
  shows "batch_ok as actions remap"
proof -
  obtain targetID ps chunks where ps: "map fst ps = as" "concat chunks = ps"
    and all: "list_all2 (chunk_ok cd targetID) chunks actions"
    and dec: "\<forall>p \<in> set ps. ad_Kind (fst p) = ActionCreateGroup \<and> ad_TargetID (fst p) = targetID \<and>
       cd_upload cd [snd p] = Some (ad_RequestPayload (fst p))"
    and rm: "\<forall>p \<in> set ps. \<exists>k. (ad_Key (fst p), k) \<in> set remap" "\<forall>(old, new) \<in> set remap. new \<in> ad_Key ` set actions"
    using assms by (rule batchTarget_chunks)
  have "ad_Kind a = ActionCreateGroup \<and> (\<forall>m \<in> set (ad_Members a). \<exists>b \<in> set as. ad_TargetID b = ad_TargetID a \<and>
           (\<exists>m' \<in> set (ad_Members b). am_VendorCode m' = am_VendorCode m))" if a: "a \<in> set actions" for a
  proof -
    obtain chunk where chunk: "chunk \<in> set chunks" "chunk_ok cd targetID chunk a"
      using all a by (metis in_set_conv_nth list_all2_conv_all_nth)
    then have sub: "set chunk \<subseteq> set ps" using ps(2) by auto
    have f: "ad_Kind a = ActionCreateGroup \<and> ad_TargetID a = targetID \<and>
        unnumbered (ad_Members a) = unnumbered (concat (map (ad_Members \<circ> fst) chunk))"
      using combine_chunk_facts [OF chunk(2)] dec sub by blast
    moreover have "\<exists>b \<in> set as. ad_TargetID b = ad_TargetID a \<and> (\<exists>m' \<in> set (ad_Members b). am_VendorCode m' = am_VendorCode m)"
      if m: "m \<in> set (ad_Members a)" for m
    proof -
      obtain m' where m': "m' \<in> set (concat (map (ad_Members \<circ> fst) chunk))" "am_VendorCode m' = am_VendorCode m"
        using member_of_unnumbered [OF m conjunct2 [OF conjunct2 [OF f]]] by blast
      then obtain p where p: "p \<in> set chunk" "m' \<in> set (ad_Members (fst p))" by auto
      then have "fst p \<in> set as" "ad_TargetID (fst p) = targetID" using sub ps(1) dec by auto
      then show ?thesis using p m' f by auto
    qed
    ultimately show ?thesis by blast
  qed
  moreover have "\<forall>a \<in> set as. \<exists>k. (ad_Key a, k) \<in> set remap" using rm(1) ps(1) by auto
  ultimately show ?thesis using rm(2) unfolding batch_ok_def by blast
qed

lemma batch_ok_append:
  assumes "batch_ok as xs r" "batch_ok bs ys s"
  shows "batch_ok (as @ bs) (xs @ ys) (r @ s)"
  using assms unfolding batch_ok_def by (simp add: ball_Un image_Un) (fast)

lemma batch_targets_ok: "batch_targets cd as = Inr (actions, remap) \<Longrightarrow> batch_ok as actions remap"
proof (induction cd as arbitrary: actions remap rule: batch_targets.induct)
  case (1 cd)
  then show ?case by (simp add: batch_ok_def)
next
  case (2 cd a as)
  let ?same = "takeWhile (\<lambda>b. ad_TargetID b = ad_TargetID a) (a # as)"
  let ?rest = "dropWhile (\<lambda>b. ad_TargetID b = ad_TargetID a) as"
  obtain c1 r1 c2 r2 where b: "batchTargetCreateActions cd ?same = Inr (c1, r1)" "batch_targets cd ?rest = Inr (c2, r2)"
    "actions = c1 @ c2" "remap = r1 @ r2"
    using 2(2) by (auto simp: rbind_eq_Inr_iff Let_def simp del: takeWhile.simps)
  have "batch_ok ?rest c2 r2" using 2(1) b(2) by blast
  then have "batch_ok (?same @ ?rest) actions remap" using batch_ok_append batchTarget_ok [OF b(1)] b(3,4) by blast
  moreover have "a # as = ?same @ ?rest" by simp
  ultimately show ?case by (simp only:)
qed

section \<open>Guarantees of a built plan\<close>

lemma remap_lookup_known:
  assumes "(old, k) \<in> set remap" shows "\<exists>new. remap_lookup remap old = Some new"
proof -
  have "old \<in> fst ` set (rev remap)" using assms by force
  then show ?thesis unfolding remap_lookup_def by (metis domIff dom_map_of_conv_image_fst not_None_eq)
qed

lemma remap_lookup_new:
  "remap_lookup remap old = Some new \<Longrightarrow> (old, new) \<in> set remap"
  unfolding remap_lookup_def by (auto dest: map_of_SomeD)

lemma remap_media_id: "ad_Kind a \<noteq> ActionUploadMedia \<Longrightarrow> remap_media remap items a = a"
  by (simp add: remap_media_def)

lemma remap_media_kind [simp]: "ad_Kind (remap_media remap items a) = ad_Kind a"
  by (simp add: remap_media_def split: list.split option.split bool.split)

lemma remap_item_sel [simp]:
  "pi_OutcomeClass (remap_item r i) = pi_OutcomeClass i" "pi_OutcomeCode (remap_item r i) = pi_OutcomeCode i"
  "pi_NMID (remap_item r i) = pi_NMID i" "pi_TransferItemTargetID (remap_item r i) = pi_TransferItemTargetID i"
  "pi_GroupTargetID (remap_item r i) = pi_GroupTargetID i"
  by (simp_all add: remap_item_def split: option.split)

lemma batchCreate_cases:
  assumes "batchCreateGroupActions cd draft = Inr draft'"
  shows "draft' = draft \<or>
    (\<exists>batched remap. batch_ok (sort_by create_less (filter (\<lambda>a. ad_Kind a = ActionCreateGroup) (pd_Actions draft))) batched remap \<and>
       draft' = draft\<lparr>pd_Items := map (remap_item remap) (pd_Items draft),
         pd_Actions := map (remap_media remap (pd_Items draft))
           (filter (\<lambda>a. ad_Kind a \<noteq> ActionCreateGroup) (pd_Actions draft)) @ batched\<rparr>)"
  using assms batch_targets_ok
  by (auto simp: batchCreateGroupActions_def Let_def rbind_eq_Inr_iff split: if_splits) fastforce

lemma batchCreate_backed:
  assumes b: "batchCreateGroupActions cd draft = Inr draft'"
    and inv: "\<forall>i \<in> set (pd_Items draft). terminal_result i \<or> backed_by (pd_Actions draft) i"
  shows "\<forall>i \<in> set (pd_Items draft'). terminal_result i \<or> backed_by (pd_Actions draft') i"
  using batchCreate_cases [OF b]
proof (elim disjE exE conjE)
  assume "draft' = draft"
  then show ?thesis using inv by simp
next
  fix batched remap
  let ?create = "sort_by create_less (filter (\<lambda>a. ad_Kind a = ActionCreateGroup) (pd_Actions draft))"
  assume ok: "batch_ok ?create batched remap"
    and eq: "draft' = draft\<lparr>pd_Items := map (remap_item remap) (pd_Items draft),
         pd_Actions := map (remap_media remap (pd_Items draft))
           (filter (\<lambda>a. ad_Kind a \<noteq> ActionCreateGroup) (pd_Actions draft)) @ batched\<rparr>"
  have "terminal_result (remap_item remap i) \<or> backed_by (pd_Actions draft') (remap_item remap i)"
    if i: "i \<in> set (pd_Items draft)" for i
  proof (cases "terminal_result i")
    case True
    then show ?thesis by (simp add: terminal_result_def)
  next
    case False
    then obtain a where a: "a \<in> set (pd_Actions draft)" "product_kind (ad_Kind a)" "ad_Key a = pi_ActionKey i"
      and blank: "pi_OutcomeClass i = []" "pi_OutcomeCode i = []" "pi_NMID i = 0"
      using inv i by (auto simp: backed_by_def)
    have "\<exists>a' \<in> set (pd_Actions draft'). product_kind (ad_Kind a') \<and> ad_Key a' = pi_ActionKey (remap_item remap i)"
    proof (cases "remap_lookup remap (pi_ActionKey i)")
      case (Some new)
      then have "new \<in> ad_Key ` set batched" using ok remap_lookup_new by (fastforce simp: batch_ok_def)
      then obtain b where "b \<in> set batched" "ad_Key b = new" by auto
      then show ?thesis using Some ok eq by (auto simp: remap_item_def batch_ok_def)
    next
      case None
      have "ad_Kind a \<noteq> ActionCreateGroup"
      proof
        assume "ad_Kind a = ActionCreateGroup"
        then have "a \<in> set ?create" using a(1) by simp
        then show False using ok a(3) None remap_lookup_known unfolding batch_ok_def by (metis option.distinct(1))
      qed
      then have k: "ad_Kind a = ActionAddToGroup" using a(2) by simp
      then have "remap_media remap (pd_Items draft) a = a" by (simp add: remap_media_id action_defs)
      then have "a \<in> set (pd_Actions draft')"
        using a(1) k eq by (auto simp: action_defs image_iff intro!: bexI [of _ a])
      then show ?thesis using a k None by (auto simp: remap_item_def)
    qed
    then show ?thesis using blank by (simp add: backed_by_def)
  qed
  then show ?thesis using eq by simp
qed

lemma batchCreate_safe:
  assumes b: "batchCreateGroupActions cd draft = Inr draft'"
    and inv: "\<forall>a \<in> set (pd_Actions draft). action_safe observations a"
  shows "\<forall>a \<in> set (pd_Actions draft'). action_safe observations a"
  using batchCreate_cases [OF b]
proof (elim disjE exE conjE)
  assume "draft' = draft"
  then show ?thesis using inv by simp
next
  fix batched remap
  let ?create = "sort_by create_less (filter (\<lambda>a. ad_Kind a = ActionCreateGroup) (pd_Actions draft))"
  assume ok: "batch_ok ?create batched remap"
    and eq: "draft' = draft\<lparr>pd_Items := map (remap_item remap) (pd_Items draft),
         pd_Actions := map (remap_media remap (pd_Items draft))
           (filter (\<lambda>a. ad_Kind a \<noteq> ActionCreateGroup) (pd_Actions draft)) @ batched\<rparr>"
  have "action_safe observations (remap_media remap (pd_Items draft) a)" if "a \<in> set (pd_Actions draft)" for a
  proof (cases "ad_Kind a = ActionUploadMedia")
    case True
    then show ?thesis by (simp add: action_safe_def action_defs)
  next
    case False
    then show ?thesis using inv that by (simp add: remap_media_id)
  qed
  moreover have "action_safe observations a" if a: "a \<in> set batched" for a
  proof -
    have src: "\<exists>b \<in> set ?create. ad_TargetID b = ad_TargetID a \<and>
        (\<exists>m' \<in> set (ad_Members b). am_VendorCode m' = am_VendorCode m)" if "m \<in> set (ad_Members a)" for m
      using ok a that by (simp add: batch_ok_def)
    have "\<exists>ob. map_of observations (ad_TargetID a) = Some ob \<and> unobserved ob (am_VendorCode m)"
      if m: "m \<in> set (ad_Members a)" for m
    proof -
      obtain b m' where "b \<in> set ?create" "ad_TargetID b = ad_TargetID a" "m' \<in> set (ad_Members b)"
        "am_VendorCode m' = am_VendorCode m" using src [OF m] by blast
      then show ?thesis using inv by (fastforce simp: action_safe_def)
    qed
    then show ?thesis by (simp add: action_safe_def)
  qed
  ultimately show ?thesis using eq by auto
qed

lemma Build_cases:
  assumes "Build cd iter t groups observations = Inr draft"
  obtains keys digests d0 d1 d2 where "plan_groups cd iter keys observations digests d0 groups = Inr d1"
    "pd_Actions d0 = []" "pd_Items d0 = []" "pd_Groups d0 = []" "pd_TransferID d0 = tr_ID t"
    "pd_TargetSetRoot d0 = tr_TargetSetRoot t" "batchCreateGroupActions cd d1 = Inr d2"
    "pd_Items draft = pd_Items d2" "pd_Groups draft = pd_Groups d2" "set (pd_Actions draft) = set (pd_Actions d2)"
    "PlanDraft_Validate draft = None" "pd_TransferID draft = pd_TransferID d2" "pd_TargetSetRoot draft = pd_TargetSetRoot d2"
    "pd_Digest draft = digestPlan (pd_TargetSetRoot draft) (pd_Groups draft) (pd_Items draft) (pd_Actions draft)"
proof -
  obtain keys digests d0 d1 d2 where 1: "plan_groups cd iter keys observations digests d0 groups = Inr d1"
    "pd_Actions d0 = []" "pd_Items d0 = []" "pd_Groups d0 = []" "pd_TransferID d0 = tr_ID t"
    "pd_TargetSetRoot d0 = tr_TargetSetRoot t" "batchCreateGroupActions cd d1 = Inr d2"
    and 2: "draft = d2\<lparr>pd_Actions := sort_by action_less (pd_Actions d2),
        pd_Digest := digestPlan (pd_TargetSetRoot d2) (pd_Groups d2) (pd_Items d2) (sort_by action_less (pd_Actions d2))\<rparr>"
      "PlanDraft_Validate draft = None"
    using assms by (auto simp: Build_def rbind_eq_Inr_iff Let_def split: if_splits)
  show thesis by (rule that [OF 1]) (use 2 in auto)
qed

lemma batchCreate_frame:
  assumes "batchCreateGroupActions cd draft = Inr draft'"
  shows "pd_Groups draft' = pd_Groups draft \<and> pd_TransferID draft' = pd_TransferID draft \<and>
    pd_TargetSetRoot draft' = pd_TargetSetRoot draft \<and>
    map pi_TransferItemTargetID (pd_Items draft') = map pi_TransferItemTargetID (pd_Items draft)"
  using batchCreate_cases [OF assms] by auto

text \<open>C26: a plan never creates a card that the observation shows. With the proposals aligned to their
  members, every card that a create or add action of a built plan would upload has a vendor code that
  neither the catalogue nor the trash of that action's target contained.\<close>

theorem Build_never_recreates:
  assumes "Build cd iter t groups observations = Inr draft" "\<forall>g \<in> set groups. aligned g"
    and "a \<in> set (pd_Actions draft)" "product_kind (ad_Kind a)" "m \<in> set (ad_Members a)"
  shows "\<exists>ob. map_of observations (ad_TargetID a) = Some ob \<and>
    am_VendorCode m \<notin> cc_VendorCode ` set (ob_Normal ob) \<and> am_VendorCode m \<notin> tc_VendorCode ` set (ob_Trash ob)"
proof -
  obtain keys digests d0 d1 d2 where b: "plan_groups cd iter keys observations digests d0 groups = Inr d1"
    "pd_Actions d0 = []" "batchCreateGroupActions cd d1 = Inr d2" "set (pd_Actions draft) = set (pd_Actions d2)"
    using assms(1) by (rule Build_cases)
  have "\<forall>a \<in> set (pd_Actions draft). action_safe observations a"
    using batchCreate_safe [OF b(3) plan_groups_safe [OF b(1) assms(2)]] b(2,4) by simp
  then obtain ob where "map_of observations (ad_TargetID a) = Some ob" "unobserved ob (am_VendorCode m)"
    using assms(3-5) unfolding action_safe_def by blast
  then show ?thesis
    by (auto simp: unobserved_def normal_by_vendor_def trash_by_vendor_def filter_empty_conv)
qed

text \<open>C27: a plan accounts for everything. A built plan has one entry per group and one item per member,
  in the order of the input; an item either has a skipped or rejected result or is blank and backed by
  a create or add action of the plan with the item's action key - also after create actions have been
  merged and keys remapped.\<close>

theorem Build_items_complete:
  assumes "Build cd iter t groups observations = Inr draft"
  shows "map pgd_GroupTargetID (pd_Groups draft) = map (\<lambda>g. pgr_GroupTargetID (lg_Source g)) groups \<and>
    map pi_TransferItemTargetID (pd_Items draft) =
      concat (map (\<lambda>g. map pm_TransferItemTargetID (pgr_Members (lg_Source g))) groups) \<and>
    (\<forall>i \<in> set (pd_Items draft). pi_OutcomeClass i \<in> {ResultSkipped, ResultRejected} \<or>
       pi_OutcomeClass i = [] \<and> pi_OutcomeCode i = [] \<and> pi_NMID i = 0 \<and>
       (\<exists>a \<in> set (pd_Actions draft). product_kind (ad_Kind a) \<and> ad_Key a = pi_ActionKey i))"
proof -
  obtain keys digests d0 d1 d2 where b: "plan_groups cd iter keys observations digests d0 groups = Inr d1"
    "pd_Items d0 = []" "pd_Groups d0 = []" "batchCreateGroupActions cd d1 = Inr d2"
    "pd_Items draft = pd_Items d2" "pd_Groups draft = pd_Groups d2" "set (pd_Actions draft) = set (pd_Actions d2)"
    using assms by (rule Build_cases)
  have inv: "(\<forall>i \<in> set (pd_Items d1). terminal_result i \<or> backed_by (pd_Actions d1) i) \<and>
      map pi_TransferItemTargetID (pd_Items d1) = concat (map (\<lambda>g. map pm_TransferItemTargetID (pgr_Members (lg_Source g))) groups) \<and>
      map pgd_GroupTargetID (pd_Groups d1) = map (\<lambda>g. pgr_GroupTargetID (lg_Source g)) groups"
    using plan_groups_inv [OF b(1)] b(2,3) by simp
  have "\<forall>i \<in> set (pd_Items draft). terminal_result i \<or> backed_by (pd_Actions draft) i"
    using batchCreate_backed [OF b(4)] inv b(5,7) backed_by_mono by (metis order_refl)
  then show ?thesis
    using inv batchCreate_frame [OF b(4)] b(5,6) by (auto simp: terminal_result_def backed_by_def)
qed

text \<open>C28: Batching keeps the requests. The create actions of a target, each of which carries the JSON of one group, are
  cut into consecutive chunks of at least one and at most 100; the merged request of a chunk is the JSON of the groups
  its own actions carry, in order and within the size limit of the upload operation, its members are the chunk's members
  in order, and the keys of exactly the chunk's actions are remapped to the key of the merged action.\<close>

theorem batchTargetCreateActions_sound:
  assumes "batchTargetCreateActions cd as = Inr (actions, remap)"
  shows "\<exists>ps chunks. map fst ps = as \<and> concat chunks = ps \<and>
    (\<forall>(a, g) \<in> set ps. decodeExactUpload cd (ad_RequestPayload a) = Some [g] \<and> length (ug_Variants g) = length (ad_Members a)) \<and>
    list_all2 (\<lambda>chunk a. 1 \<le> length chunk \<and> length chunk \<le> 100 \<and> ad_Kind a = ActionCreateGroup \<and>
       cd_upload cd (map snd chunk) = Some (ad_RequestPayload a) \<and>
       int (length (ad_RequestPayload a)) \<le> op_MaxRequestBytes uploadCardsOperation \<and>
       unnumbered (ad_Members a) = unnumbered (concat (map (ad_Members \<circ> fst) chunk))) chunks actions \<and>
    remap = concat (map (\<lambda>(chunk, a). map (\<lambda>p. (ad_Key (fst p), ad_Key a)) chunk) (zip chunks actions))"
proof -
  obtain targetID ps chunks where ps: "map fst ps = as" "concat chunks = ps"
    and all: "list_all2 (chunk_ok cd targetID) chunks actions"
    and dec: "\<forall>p \<in> set ps. ad_Kind (fst p) = ActionCreateGroup \<and> ad_TargetID (fst p) = targetID \<and>
       cd_upload cd [snd p] = Some (ad_RequestPayload (fst p))"
    and own: "\<forall>p \<in> set ps. decodeExactUpload cd (ad_RequestPayload (fst p)) = Some [snd p] \<and>
       length (ug_Variants (snd p)) = length (ad_Members (fst p))"
    and rm: "remap = chunk_remap chunks actions"
    using assms by (rule batchTarget_chunks)
  have "list_all2 (\<lambda>chunk a. 1 \<le> length chunk \<and> length chunk \<le> 100 \<and> ad_Kind a = ActionCreateGroup \<and>
       cd_upload cd (map snd chunk) = Some (ad_RequestPayload a) \<and>
       int (length (ad_RequestPayload a)) \<le> op_MaxRequestBytes uploadCardsOperation \<and>
       unnumbered (ad_Members a) = unnumbered (concat (map (ad_Members \<circ> fst) chunk))) chunks actions"
    using all
  proof (rule list.rel_mono_strong, goal_cases)
    case (1 chunk a)
    then have "\<forall>p \<in> set chunk. ad_Kind (fst p) = ActionCreateGroup \<and> ad_TargetID (fst p) = targetID \<and>
           cd_upload cd [snd p] = Some (ad_RequestPayload (fst p))" using dec ps(2) by auto
    from combine_chunk_facts [OF 1(3) this] 1(3) show ?case
      by (auto simp: chunk_ok_def MaxUploadGroups_def Suc_le_eq)
  qed
  moreover have "\<forall>(a, g) \<in> set ps. decodeExactUpload cd (ad_RequestPayload a) = Some [g] \<and> length (ug_Variants g) = length (ad_Members a)"
    using own by auto
  ultimately show ?thesis using ps rm unfolding chunk_remap_def by blast
qed

section \<open>Decisions and iteration order\<close>

lemma remote_group_iff:
  assumes "cs \<noteq> []"
  shows "remote_group subj 0 cs = Inr r \<longleftrightarrow> (\<forall>(i, c) \<in> set cs. cc_SubjectID c = subj \<and> 0 < cc_IMTID c \<and> cc_IMTID c = r)"
proof
  assume "remote_group subj 0 cs = Inr r"
  from remote_group_Inr [OF this] show "\<forall>(i, c) \<in> set cs. cc_SubjectID c = subj \<and> 0 < cc_IMTID c \<and> cc_IMTID c = r" by blast
next
  assume all: "\<forall>(i, c) \<in> set cs. cc_SubjectID c = subj \<and> 0 < cc_IMTID c \<and> cc_IMTID c = r"
  have "remote_group subj imt cs = Inr (if cs = [] then imt else r)" if "imt = 0 \<or> imt = r"
    "\<forall>(i, c) \<in> set cs. cc_SubjectID c = subj \<and> 0 < cc_IMTID c \<and> cc_IMTID c = r" for imt cs
    using that by (induction subj imt cs rule: remote_group.induct) auto
  from this [of 0 cs] all assms show "remote_group subj 0 cs = Inr r" by simp
qed

lemma remote_group_cong:
  assumes "set cs = set cs'" "remote_group subj 0 cs = Inr r"
  shows "remote_group subj 0 cs' = Inr r"
proof (cases "cs = []")
  case True
  then show ?thesis using assms by simp
next
  case False
  then have "cs' \<noteq> []" using assms(1) by auto
  then show ?thesis using assms remote_group_iff [OF False] remote_group_iff [of cs'] by simp
qed

text \<open>C29: what a decision that is no conflict rests on. The cards to send are exactly the variants
  without a card in the catalogue; no variant is in the trash; the cards that exist belong to the
  proposal's subject and to one remote group; and cards are added to that group only while the
  observed group stays within 30 variants and the request within its size limit.\<close>

theorem decideGroup_sound:
  assumes "decideGroup cd iter grp ob = Inr d" "\<not> gd_conflict d"
    and "pr_Request (sp_Proposal (lg_Proposal grp)) = req # rs"
    and "set (iter (existing_cards ob (ug_Variants req))) = set (existing_cards ob (ug_Variants req))"
  shows "(\<forall>v \<in> set (ug_Variants req). trash_by_vendor ob (uc_VendorCode v) = []) \<and>
    set (gd_actionMembers d) = {i. i < length (ug_Variants req) \<and> normal_by_vendor ob (uc_VendorCode (ug_Variants req ! i)) = []} \<and>
    (\<exists>imt. (\<forall>i c r. i < length (ug_Variants req) \<longrightarrow> normal_by_vendor ob (uc_VendorCode (ug_Variants req ! i)) = c # r \<longrightarrow>
         cc_SubjectID c = pr_SubjectID (sp_Proposal (lg_Proposal grp)) \<and> cc_IMTID c = imt \<and> 0 < imt) \<and>
       (gd_productKind d = ActionAddToGroup \<longrightarrow>
         remote_member_count ob imt + length (gd_actionMembers d) \<le> 30 \<and>
         int (length (gd_productPayload d)) \<le> op_MaxRequestBytes uploadCardsAddOperation))"
proof -
  let ?vs = "ug_Variants req" and ?subj = "pr_SubjectID (sp_Proposal (lg_Proposal grp))"
  note p = decideGroup_product [OF assms(1,3,2)]
  have members: "set (gd_actionMembers d) = {i. i < length ?vs \<and> normal_by_vendor ob (uc_VendorCode (?vs ! i)) = []}"
  proof -
    have "gd_actionMembers d = missing_indexes ob ?vs \<or>
        existing_cards ob ?vs = [] \<and> gd_actionMembers d = [0..<length ?vs]" using p by metis
    then show ?thesis by (elim disjE) (auto simp: set_missing_indexes existing_cards_empty)
  qed
  have "\<exists>imt. (\<forall>i c r. i < length ?vs \<longrightarrow> normal_by_vendor ob (uc_VendorCode (?vs ! i)) = c # r \<longrightarrow>
         cc_SubjectID c = ?subj \<and> cc_IMTID c = imt \<and> 0 < imt) \<and>
       (gd_productKind d = ActionAddToGroup \<longrightarrow> remote_member_count ob imt + length (gd_actionMembers d) \<le> 30 \<and>
         int (length (gd_productPayload d)) \<le> op_MaxRequestBytes uploadCardsAddOperation)"
  proof (cases "existing_cards ob ?vs = []")
    case True
    then have "gd_productKind d = ActionCreateGroup" using p by blast
    then show ?thesis using True by (auto simp: existing_cards_empty action_defs)
  next
    case False
    then obtain imt where imt: "remote_group ?subj 0 (iter (existing_cards ob ?vs)) = Inr imt"
      and add: "gd_productKind d = ActionAddToGroup \<longrightarrow>
        remote_member_count ob imt + length (gd_actionMembers d) \<le> MaxVariantsPerGroup \<and>
        int (length (gd_productPayload d)) \<le> op_MaxRequestBytes uploadCardsAddOperation"
      using p by (auto simp: action_defs)
    have "iter (existing_cards ob ?vs) \<noteq> []" using assms(4) False by auto
    then have "\<forall>(i, c) \<in> set (existing_cards ob ?vs). cc_SubjectID c = ?subj \<and> 0 < cc_IMTID c \<and> cc_IMTID c = imt"
      using imt remote_group_iff assms(4) by blast
    then have "\<forall>i c r. i < length ?vs \<longrightarrow> normal_by_vendor ob (uc_VendorCode (?vs ! i)) = c # r \<longrightarrow>
         cc_SubjectID c = ?subj \<and> cc_IMTID c = imt \<and> 0 < imt"
      unfolding set_existing_cards by blast
    with add show ?thesis by (auto simp: MaxVariantsPerGroup_def)
  qed
  with p members show ?thesis by blast
qed

text \<open>C30: the order in which Go iterates the map of existing cards can only matter for a conflict: if
  some order yields a decision that is no conflict, every order yields the same decision.\<close>

theorem decideGroup_order_irrelevant:
  assumes "decideGroup cd iter grp ob = Inr d" "\<not> gd_conflict d"
    and "\<forall>xs. set (iter xs) = set xs" "\<forall>xs. set (iter' xs) = set xs"
  shows "decideGroup cd iter' grp ob = Inr d"
proof -
  obtain req rs where r: "pr_Request (sp_Proposal (lg_Proposal grp)) = req # rs"
    using decideGroup_request [OF assms(1)] by blast
  let ?ex = "existing_cards ob (ug_Variants req)" and ?subj = "pr_SubjectID (sp_Proposal (lg_Proposal grp))"
  have "?ex = [] \<or> remote_group ?subj 0 (iter ?ex) = remote_group ?subj 0 (iter' ?ex)"
  proof (cases "?ex = []")
    case False
    then obtain imt where "remote_group ?subj 0 (iter ?ex) = Inr imt"
      using decideGroup_product [OF assms(1) r assms(2)] by blast
    moreover from this have "remote_group ?subj 0 (iter' ?ex) = Inr imt"
      using remote_group_cong [of "iter ?ex" "iter' ?ex"] assms(3,4) by simp
    ultimately show ?thesis by simp
  qed simp
  then have "decideGroup cd iter grp ob = decideGroup cd iter' grp ob"
  proof
    assume "?ex = []"
    then show ?thesis using r by (simp add: decideGroup_def Let_def split: option.split)
  next
    assume "remote_group ?subj 0 (iter ?ex) = remote_group ?subj 0 (iter' ?ex)"
    then show ?thesis using r by (cases "identity_conflict ob (ug_Variants req)") (simp_all add: decideGroup_def Let_def)
  qed
  then show ?thesis using assms(1) by simp
qed

section \<open>The plan digest\<close>

lemma tagged_concat:
  assumes shape: "\<And>x. \<exists>r. f x = tag # r \<and> length r = n"
    and X: "X = [] \<or> hd X \<noteq> tag" and Y: "Y = [] \<or> hd Y \<noteq> tag"
  shows "concat (map f xs) @ X = concat (map f ys) @ Y \<Longrightarrow> map f xs = map f ys \<and> X = Y"
proof (induction xs arbitrary: ys)
  case Nil
  show ?case
  proof (cases ys)
    case (Cons y ys')
    obtain s where "f y = tag # s" using shape by blast
    then have "X = tag # s @ concat (map f ys') @ Y" using Nil Cons by simp
    then show ?thesis using X by simp
  qed (use Nil in simp)
next
  case (Cons x xs)
  obtain r where r: "f x = tag # r" "length r = n" using shape by blast
  show ?case
  proof (cases ys)
    case Nil
    then have "Y = tag # r @ concat (map f xs) @ X" using Cons.prems r by simp
    then show ?thesis using Y by simp
  next
    case (Cons y ys')
    obtain s where s: "f y = tag # s" "length s = n" using shape by blast
    have "r @ concat (map f xs) @ X = s @ concat (map f ys') @ Y"
      using Cons.prems Cons r s by simp
    then have "r = s" "concat (map f xs) @ X = concat (map f ys') @ Y"
      using r s by (auto simp: append_eq_append_conv)
    then show ?thesis using Cons.IH [of ys'] Cons r s by simp
  qed
qed


lemma part_shapes:
  "\<exists>r. group_parts g = ''group'' # r \<and> length r = 5"
  "\<exists>r. item_parts i = ''item'' # r \<and> length r = 6"
  "\<exists>r. action_parts a = ''action'' # r \<and> length r = 6"
  by (simp_all add: group_parts_def item_parts_def action_parts_def)

lemma hd_concat_tagged:
  assumes "\<And>x. \<exists>r. f x = tag # r \<and> length r = n"
  shows "concat (map f xs) = [] \<or> hd (concat (map f xs)) = tag"
proof (cases xs)
  case (Cons x xs')
  obtain r where "f x = tag # r" using assms by blast
  with Cons show ?thesis by simp
qed simp

lemma group_parts_inj: "group_parts g = group_parts g' \<Longrightarrow> g = g'"
  by (cases g; cases g') (auto simp: group_parts_def format_bool_def dest: format_int_inj split: if_splits)

lemma item_parts_inj: "item_parts i = item_parts i' \<Longrightarrow> i = i'"
  by (cases i; cases i') (auto simp: item_parts_def dest: format_int_inj)

lemma plan_parts_inj:
  assumes "plan_parts r gs is as = plan_parts r' gs' is' as'"
  shows "r = r' \<and> gs = gs' \<and> is = is' \<and> map action_parts as = map action_parts as'"
proof -
  have tags: "hd (concat (map action_parts as)) = ''action'' \<or> concat (map action_parts as) = []" for as
    using hd_concat_tagged [of action_parts, OF part_shapes(3)] by blast
  have itags: "concat (map item_parts is) @ concat (map action_parts as) = [] \<or>
      hd (concat (map item_parts is) @ concat (map action_parts as)) \<noteq> ''group''" for "is" as
    using tags [of as] hd_concat_tagged [of item_parts, OF part_shapes(2), of "is"]
    by (cases "concat (map item_parts is)") (auto simp del: concat_eq_Nil_conv)
  have "map group_parts gs = map group_parts gs' \<and>
      concat (map item_parts is) @ concat (map action_parts as) = concat (map item_parts is') @ concat (map action_parts as')"
    by (rule tagged_concat [OF part_shapes(1) itags itags]) (use assms in \<open>simp add: plan_parts_def\<close>)
  moreover from this have "map item_parts is = map item_parts is' \<and> concat (map action_parts as) = concat (map action_parts as')"
    by (intro tagged_concat [OF part_shapes(2)]) (use tags [of as] tags [of as'] in auto)
  moreover from this have "map action_parts as = map action_parts as' \<and> ([] :: string list) = []"
    by (intro tagged_concat [OF part_shapes(3)]) auto
  ultimately show ?thesis
    using assms by (auto simp: plan_parts_def dest: map_injective [OF _ injI, OF _ group_parts_inj]
        map_injective [OF _ injI, OF _ item_parts_inj])
qed

text \<open>C31: the plan digest identifies the plan. If two plans have the same digest and SHA-256 does not
  collide on them, they have the same target set, the same groups and items in every field, and their
  actions agree, in order, in key, kind, target, members digest, request digest and media link root.\<close>

theorem digestPlan_identifies:
  assumes "digestPlan r gs is as = digestPlan r' gs' is' as'"
    and "list_all sized (plan_parts r gs is as)" "list_all sized (plan_parts r' gs' is' as')"
    and "no_collision (DigestParts_stream ''cardpublication-plan:v2'' (plan_parts r gs is as))
           (DigestParts_stream ''cardpublication-plan:v2'' (plan_parts r' gs' is' as'))"
  shows "r = r' \<and> gs = gs' \<and> is = is' \<and>
    map (\<lambda>a. (ad_Key a, ad_Kind a, ad_TargetID a, ad_MemberSetDigest a, ad_RequestDigest a, ad_MediaLinkSetRoot a)) as =
    map (\<lambda>a. (ad_Key a, ad_Kind a, ad_TargetID a, ad_MemberSetDigest a, ad_RequestDigest a, ad_MediaLinkSetRoot a)) as'"
proof -
  have s: "DigestParts_stream ''cardpublication-plan:v2'' (plan_parts r gs is as) =
      DigestParts_stream ''cardpublication-plan:v2'' (plan_parts r' gs' is' as')"
    using assms(1,4) by (simp add: digestPlan_def DigestParts_def builder_Sum_def no_collision_def)
  have "plan_parts r gs is as = plan_parts r' gs' is' as'"
    using DigestParts_stream_inj [OF _ _ s] assms(2,3) by (simp add: sized_def)
  note p = plan_parts_inj [OF this]
  have "list_all2 (\<lambda>a b. action_parts a = action_parts b) as as'"
    using p by (simp add: list_all2_map1 list_all2_map2 flip: list_all2_eq [symmetric])
  then have "map (\<lambda>a. (ad_Key a, ad_Kind a, ad_TargetID a, ad_MemberSetDigest a, ad_RequestDigest a, ad_MediaLinkSetRoot a)) as =
    map (\<lambda>a. (ad_Key a, ad_Kind a, ad_TargetID a, ad_MemberSetDigest a, ad_RequestDigest a, ad_MediaLinkSetRoot a)) as'"
    by (induction rule: list_all2_induct) (auto simp: action_parts_def dest: format_int_inj)
  with p show ?thesis by simp
qed

end
