(* ===== verification/PublicationSamples.thy ===== *)
theory PublicationSamples
  imports PublicationProps
begin

text \<open>
  Concrete runs of the publication planner: a group to create, a group to extend, two groups to merge;
  the planner's guarantees applied to them, and two behaviours of \<open>decideGroup\<close> that differ from what
  its names promise (\<open>decideGroup_code_depends_on_order\<close>, \<open>decideGroup_counts_observed_only\<close>).
\<close>

section \<open>Data\<close>

definition sample_dims :: dimensions where
  "sample_dims = \<lparr>dim_Length = FFin 10, dim_Width = FFin 5, dim_Height = FFin 2, dim_WeightBrutto = FFin 1\<rparr>"

definition sample_variant :: "string \<Rightarrow> upload_card" where
  "sample_variant v = \<lparr>uc_VendorCode = v, uc_KIZMarked = False, uc_Title = ''T'', uc_Description = ''D'',
     uc_Brand = ''B'', uc_Dimensions = sample_dims, uc_Characteristics = [], uc_Sizes = []\<rparr>"

definition remote_card :: "string \<Rightarrow> int \<Rightarrow> int \<Rightarrow> int \<Rightarrow> content_card" where
  "remote_card v nm imt subj = \<lparr>cc_NMID = nm, cc_IMTID = imt, cc_SubjectID = subj, cc_VendorCode = v,
     cc_KIZMarked = False, cc_Brand = ''B'', cc_Title = ''T'', cc_Description = ''D'', cc_Photos = [''p''],
     cc_Video = [], cc_Dimensions = sample_dims, cc_Characteristics = [], cc_Sizes = []\<rparr>"

definition sample_upload :: "string list \<Rightarrow> upload_group" where
  "sample_upload vs = \<lparr>ug_SubjectID = 7, ug_Variants = map sample_variant vs\<rparr>"

definition sample_codec :: codec where
  "sample_codec = \<lparr>cd_upload = (\<lambda>gs. Some (concat (map (concat \<circ> map uc_VendorCode \<circ> ug_Variants) gs))),
     cd_decodeUpload = (\<lambda>p. if length p = 3 then Some [sample_upload [p]] else None),
     cd_add = (\<lambda>imt vs. Some (concat (map uc_VendorCode vs))),
     cd_links = (\<lambda>ls. Some (concat ls)), cd_value = (\<lambda>_. Some ''v''), cd_observation = (\<lambda>_ _. Some ''o'')\<rparr>"

definition sample_group :: "int \<Rightarrow> string list \<Rightarrow> loaded_group" where
  "sample_group n vs =
     \<lparr>lg_Source = \<lparr>pgr_GroupTargetID = n, pgr_SourceGroupID = n, pgr_TargetID = 1, pgr_SellerID = seller_a,
        pgr_ProposalRoot = replicate 32 (CHR ''p''),
        pgr_Members = map (\<lambda>(i, v). \<lparr>pm_TransferItemID = int i, pm_TransferItemTargetID = int (Suc i), pm_Position = int i,
           pm_VendorCode = v, pm_Media = \<lparr>media_Photos = [], media_Video = []\<rparr>\<rparr>) (enumerate 0 vs)\<rparr>,
      lg_Proposal = \<lparr>sp_GroupTargetID = n, sp_SourceGroupID = n, sp_TargetID = 1, sp_SellerID = seller_a,
        sp_Proposal = \<lparr>pr_SubjectID = 7, pr_Request = [sample_upload vs], pr_EncodedRequest = concat vs,
          pr_ProposalRoot = replicate 32 (CHR ''p'')\<rparr>,
        sp_Members = map (\<lambda>(i, v). \<lparr>pp_TransferItemID = int i, pp_ItemPosition = int i, pp_VendorCode = v\<rparr>)
          (enumerate 0 vs)\<rparr>\<rparr>"

definition observed :: "content_card list \<Rightarrow> observation" where
  "observed cards = \<lparr>ob_TargetID = 1, ob_SellerID = seller_a, ob_Normal = cards, ob_Trash = [], ob_ObservedAt = 1\<rparr>"

lemmas sample_defs = sample_dims_def sample_variant_def remote_card_def sample_upload_def sample_codec_def
  sample_group_def observed_def

section \<open>Building a plan\<close>

text \<open>The one action of the plan for a group of one new card, and the plan.\<close>

definition sample_member :: action_member where
  "sample_member = \<lparr>am_GroupTargetID = 4, am_TransferItemTargetID = 1, am_RequestMemberIndex = 0, am_VendorCode = ''V-1''\<rparr>"

definition sample_action :: action_draft where
  "sample_action =
     \<lparr>ad_Key = DigestParts ''cardpublication-action:v1'' [ActionCreateGroup, format_int 1, format_int 4,
        DigestParts ''cardpublication-request:v1'' [''V-1''], DigestMembers [sample_member]],
      ad_Kind = ActionCreateGroup, ad_TargetID = 1, ad_RequestDigest = DigestParts ''cardpublication-request:v1'' [''V-1''],
      ad_RequestPayload = ''V-1'', ad_MemberSetDigest = DigestMembers [sample_member], ad_MediaLinkSetRoot = zero_digest,
      ad_Members = [sample_member]\<rparr>"

definition sample_planned_group :: planned_group where
  "sample_planned_group = \<lparr>pgd_GroupTargetID = 4, pgd_Status = PublicationProjectionRunning, pgd_OutcomeClass = [],
     pgd_OutcomeCode = DecisionCreateGroup, pgd_HasMediaAction = False\<rparr>"

definition sample_planned_item :: planned_item where
  "sample_planned_item = \<lparr>pi_GroupTargetID = 4, pi_TransferItemTargetID = 1, pi_ActionKey = ad_Key sample_action,
     pi_OutcomeClass = [], pi_OutcomeCode = [], pi_NMID = 0\<rparr>"

definition sample_observations :: "(int \<times> observation) list" where
  "sample_observations = [(1, observed [remote_card ''V-9'' 90 9 7])]"

lemma sample_build:
  assumes "zero_digest \<notin> {ad_Key sample_action, ad_RequestDigest sample_action, ad_MemberSetDigest sample_action,
     digestPlan (replicate 32 (CHR ''t'')) [sample_planned_group] [sample_planned_item] [sample_action]}"
  shows "\<exists>draft. Build sample_codec id sample_transfer [sample_group 4 [''V-1'']] sample_observations = Inr draft \<and>
     pd_Actions draft = [sample_action] \<and> pd_Items draft = [sample_planned_item]"
proof -
  have decide: "decideGroup sample_codec id (sample_group 4 [''V-1'']) (observed [remote_card ''V-9'' 90 9 7]) =
      Inr \<lparr>gd_code = DecisionCreateGroup, gd_productKind = ActionCreateGroup, gd_productPayload = ''V-1'',
        gd_actionMembers = [0], gd_itemCodes = [[]], gd_itemNMIDs = [0], gd_itemIMTIDs = [0],
        gd_existingCards = [], gd_conflict = False\<rparr>"
    by code_simp
  have product: "buildProductAction (sample_group 4 [''V-1'']) \<lparr>gd_code = DecisionCreateGroup,
        gd_productKind = ActionCreateGroup, gd_productPayload = ''V-1'',
        gd_actionMembers = [0], gd_itemCodes = [[]], gd_itemNMIDs = [0], gd_itemIMTIDs = [0],
        gd_existingCards = [], gd_conflict = False\<rparr> = Inr sample_action"
    by (simp add: buildProductAction_def product_members_def sample_action_def sample_member_def sample_group_def
        Let_def numeral_2_eq_2)
  have dup: "duplicate_desired (desired_keys [sample_group 4 [''V-1'']]) (sample_group 4 [''V-1'']) = False"
    "validateLoadedGroup (sample_group 4 [''V-1'']) = None"
    by code_simp+
  have src: "pgr_Members (lg_Source (sample_group 4 [''V-1''])) =
      [\<lparr>pm_TransferItemID = 0, pm_TransferItemTargetID = 1, pm_Position = 0, pm_VendorCode = ''V-1'',
        pm_Media = \<lparr>media_Photos = [], media_Video = []\<rparr>\<rparr>]"
    "pgr_GroupTargetID (lg_Source (sample_group 4 [''V-1''])) = 4" "pgr_TargetID (lg_Source (sample_group 4 [''V-1''])) = 1"
    by (simp_all add: sample_group_def)
  have acts: "PlanDraft_Validate (draft :: plan_draft) = None"
    if "pd_TransferID draft = 1" "pd_TargetSetRoot draft = replicate 32 (CHR ''t'')"
      "pd_Digest draft = digestPlan (replicate 32 (CHR ''t'')) [sample_planned_group] [sample_planned_item] [sample_action]"
      "pd_Actions draft = [sample_action]" for draft
  proof -
    have "action_kind_err sample_action = None" by (simp add: action_kind_err_def sample_action_def)
    moreover have "check_members 0 [] (ad_Members sample_action) = None"
      by (simp add: sample_action_def sample_member_def) code_simp
    moreover have "replicate 32 (CHR ''t'') \<noteq> zero_digest" by code_simp
    moreover have "ad_TargetID sample_action = 1" "ad_RequestPayload sample_action = ''V-1''"
      "ad_Members sample_action = [sample_member]" by (simp_all add: sample_action_def)
    ultimately show ?thesis using that assms by (auto simp: PlanDraft_Validate_def)
  qed
  have ready: "planningMayContinue (tr_Phase sample_transfer)" "tr_Outcome sample_transfer = OutcomeRunning"
    "tr_ID sample_transfer = 1" "tr_TargetSetRoot sample_transfer = replicate 32 (CHR ''t'')"
    by (simp_all add: sample_transfer_def planningMayContinue_def)
  have ob: "DraftObservation sample_codec (observed [remote_card ''V-9'' 90 9 7]) =
      Inr \<lparr>od_TargetID = 1, od_SellerID = seller_a, od_Digest = DigestParts ''cardpublication-observation:v1'' [''o''],
        od_NormalCount = 1, od_TrashCount = 0, od_Payload = ''o'', od_ObservedAt = 1\<rparr>"
    by (simp add: DraftObservation_def sample_codec_def observed_def)
  have append: "\<exists>draft'. appendDecision sample_codec draft (sample_group 4 [''V-1'']) \<lparr>gd_code = DecisionCreateGroup,
        gd_productKind = ActionCreateGroup, gd_productPayload = ''V-1'',
        gd_actionMembers = [0], gd_itemCodes = [[]], gd_itemNMIDs = [0], gd_itemIMTIDs = [0],
        gd_existingCards = [], gd_conflict = False\<rparr> od = Inr draft' \<and>
      pd_Actions draft' = pd_Actions draft @ [sample_action] \<and> pd_Items draft' = pd_Items draft @ [sample_planned_item] \<and>
      pd_Groups draft' = pd_Groups draft @ [sample_planned_group] \<and> pd_TransferID draft' = pd_TransferID draft \<and>
      pd_TargetSetRoot draft' = pd_TargetSetRoot draft" for draft od
    using product src
    by (simp add: appendDecision_def Let_def ActionCreateGroup_def product_step_def optional_media_def mediaLinks_def
        sample_planned_item_def sample_planned_group_def)
  have plan: "\<exists>d. plan_groups sample_codec id (desired_keys [sample_group 4 [''V-1'']]) sample_observations digests draft
        [sample_group 4 [''V-1'']] = Inr d \<and>
      pd_Actions d = pd_Actions draft @ [sample_action] \<and> pd_Items d = pd_Items draft @ [sample_planned_item] \<and>
      pd_Groups d = pd_Groups draft @ [sample_planned_group] \<and> pd_TransferID d = pd_TransferID draft \<and>
      pd_TargetSetRoot d = pd_TargetSetRoot draft" for digests draft
    using append [of draft "case map_of digests 1 of None \<Rightarrow> zero_digest | Some d \<Rightarrow> d"] decide dup src
    by (auto simp: plan_group_def sample_observations_def)
  let ?d0 = "\<lparr>pd_TransferID = 1, pd_TargetSetRoot = replicate 32 (CHR ''t''), pd_Digest = zero_digest,
      pd_Observations = sort_by (\<lambda>a b. od_TargetID a < od_TargetID b)
        [\<lparr>od_TargetID = 1, od_SellerID = seller_a, od_Digest = DigestParts ''cardpublication-observation:v1'' [''o''],
        od_NormalCount = 1, od_TrashCount = 0, od_Payload = ''o'', od_ObservedAt = 1\<rparr>],
      pd_Actions = [], pd_Groups = [], pd_Items = [], pd_Identities = []\<rparr>"
  obtain d1 where d1: "plan_groups sample_codec id (desired_keys [sample_group 4 [''V-1'']]) sample_observations
        [(1, DigestParts ''cardpublication-observation:v1'' [''o''])] ?d0 [sample_group 4 [''V-1'']] = Inr d1"
    "pd_Actions d1 = [sample_action]" "pd_Items d1 = [sample_planned_item]" "pd_Groups d1 = [sample_planned_group]"
    "pd_TransferID d1 = 1" "pd_TargetSetRoot d1 = replicate 32 (CHR ''t'')"
    using plan [of _ ?d0] by auto
  have d2: "batchCreateGroupActions sample_codec d1 = Inr d1" using d1 by (simp add: batchCreateGroupActions_def)
  have "Build sample_codec id sample_transfer [sample_group 4 [''V-1'']] sample_observations =
      Inr (d1\<lparr>pd_Actions := [sample_action],
        pd_Digest := digestPlan (replicate 32 (CHR ''t'')) [sample_planned_group] [sample_planned_item] [sample_action]\<rparr>)"
    using d1 d2 ready sample_transfer_valid ob acts
    by (simp add: Build_def sample_observations_def sort_by_def Let_def del: plan_groups.simps replicate.simps)
  then show ?thesis using d1(3) by auto
qed


theorem Build_never_recreates_witness:
  "zero_digest \<in> {ad_Key sample_action, ad_RequestDigest sample_action, ad_MemberSetDigest sample_action,
     digestPlan (replicate 32 (CHR ''t'')) [sample_planned_group] [sample_planned_item] [sample_action]} \<or>
   (\<exists>draft ob. Build sample_codec id sample_transfer [sample_group 4 [''V-1'']] sample_observations = Inr draft \<and>
      pd_Actions draft = [sample_action] \<and> map_of sample_observations (ad_TargetID sample_action) = Some ob \<and>
      ''V-1'' \<notin> cc_VendorCode ` set (ob_Normal ob))"
proof (cases "zero_digest \<in> {ad_Key sample_action, ad_RequestDigest sample_action, ad_MemberSetDigest sample_action,
     digestPlan (replicate 32 (CHR ''t'')) [sample_planned_group] [sample_planned_item] [sample_action]}")
  case False
  from sample_build [OF this] obtain draft where
    b: "Build sample_codec id sample_transfer [sample_group 4 [''V-1'']] sample_observations = Inr draft"
       "pd_Actions draft = [sample_action]" by blast
  have al: "\<forall>g \<in> set [sample_group 4 [''V-1'']]. aligned g" by code_simp
  have "ad_Kind sample_action = ActionCreateGroup" "sample_member \<in> set (ad_Members sample_action)"
    "am_VendorCode sample_member = ''V-1''"
    by (simp_all add: sample_action_def sample_member_def)
  then obtain ob where "map_of sample_observations (ad_TargetID sample_action) = Some ob"
    "''V-1'' \<notin> cc_VendorCode ` set (ob_Normal ob)"
    using Build_never_recreates [OF b(1) al, of sample_action sample_member] b by auto
  with b show ?thesis by (intro disjI2 exI conjI)
qed (rule disjI1)

theorem Build_items_complete_witness:
  "zero_digest \<in> {ad_Key sample_action, ad_RequestDigest sample_action, ad_MemberSetDigest sample_action,
     digestPlan (replicate 32 (CHR ''t'')) [sample_planned_group] [sample_planned_item] [sample_action]} \<or>
   (\<exists>draft. Build sample_codec id sample_transfer [sample_group 4 [''V-1'']] sample_observations = Inr draft \<and>
      map pi_TransferItemTargetID (pd_Items draft) = [1])"
proof (cases "zero_digest \<in> {ad_Key sample_action, ad_RequestDigest sample_action, ad_MemberSetDigest sample_action,
     digestPlan (replicate 32 (CHR ''t'')) [sample_planned_group] [sample_planned_item] [sample_action]}")
  case False
  from sample_build [OF this] obtain draft where
    b: "Build sample_codec id sample_transfer [sample_group 4 [''V-1'']] sample_observations = Inr draft" by blast
  have src: "map pm_TransferItemTargetID (pgr_Members (lg_Source (sample_group 4 [''V-1'']))) = [1]"
    by (simp add: sample_group_def)
  have "map pi_TransferItemTargetID (pd_Items draft) =
      concat (map (\<lambda>g. map pm_TransferItemTargetID (pgr_Members (lg_Source g))) [sample_group 4 [''V-1'']])"
    using Build_items_complete [OF b] by (elim conjE)
  then have "map pi_TransferItemTargetID (pd_Items draft) = [1]" by (simp only: list.map concat.simps src append_Nil2)
  with b show ?thesis by (intro disjI2 exI conjI)
qed (rule disjI1)

section \<open>Merging create actions\<close>

definition second_action :: action_draft where
  "second_action = sample_action\<lparr>ad_Key := replicate 32 (CHR ''k''), ad_RequestPayload := ''V-2'',
     ad_Members := [sample_member\<lparr>am_TransferItemTargetID := 2, am_VendorCode := ''V-2''\<rparr>]\<rparr>"

theorem batchTargetCreateActions_sound_witness:
  "\<exists>action remap. batchTargetCreateActions sample_codec [sample_action, second_action] = Inr ([action], remap) \<and>
     ad_RequestPayload action = ''V-1V-2'' \<and>
     (\<exists>chunks :: (action_draft \<times> upload_group) list list. concat (map (map fst) chunks) = [sample_action, second_action] \<and> length chunks = 1)"
proof -
  have fields: "ad_Kind sample_action = ActionCreateGroup" "ad_TargetID sample_action = 1"
    "ad_RequestPayload sample_action = ''V-1''" "ad_Members sample_action = [sample_member]"
    "ad_Kind second_action = ActionCreateGroup" "ad_TargetID second_action = 1" "ad_RequestPayload second_action = ''V-2''"
    "ad_Members second_action = [sample_member\<lparr>am_TransferItemTargetID := 2, am_VendorCode := ''V-2''\<rparr>]"
    by (simp_all add: sample_action_def second_action_def)
  have dec: "decodeExactUpload sample_codec ''V-1'' = Some [sample_upload [''V-1'']]"
    "decodeExactUpload sample_codec ''V-2'' = Some [sample_upload [''V-2'']]"
    by code_simp+
  have grow: "grow_chunk sample_codec [] [] [sample_upload [''V-1''], sample_upload [''V-2'']] = Inr (2, ''V-1V-2'')"
    by code_simp
  have "length (ug_Variants (sample_upload [v])) = 1" for v by (simp add: sample_upload_def)
  then obtain action remap where run: "batchTargetCreateActions sample_codec [sample_action, second_action] = Inr ([action], remap)"
    and payload: "ad_RequestPayload action = ''V-1V-2''"
    using fields dec grow
    by (simp add: batchTargetCreateActions_def decode_create_def chunk_actions.simps combine_chunk_def Let_def numeral_2_eq_2)
  have "\<exists>(ps :: (action_draft \<times> upload_group) list) chunks. map fst ps = [sample_action, second_action] \<and> concat chunks = ps \<and> length chunks = 1"
    using batchTargetCreateActions_sound [OF run]
    apply (elim exE conjE)
    subgoal premises p for ps chunks
      using p(1,2) list_all2_lengthD [OF p(4)] by (intro exI [of _ ps] exI [of _ chunks]) simp
    done
  then obtain ps chunks where c: "map fst (ps :: (action_draft \<times> upload_group) list) = [sample_action, second_action]" "concat chunks = ps"
    and n: "length chunks = 1" by (elim exE conjE)
  from c have "concat (map (map fst) chunks) = [sample_action, second_action]" by (metis map_concat)
  with run payload n show ?thesis by blast
qed

section \<open>Decisions\<close>

theorem decideGroup_sound_witness:
  "\<exists>d. decideGroup sample_codec id (sample_group 4 [''V-1'', ''V-2'']) (observed [remote_card ''V-1'' 10 9 7]) = Inr d \<and>
     gd_productKind d = ActionAddToGroup \<and> set (gd_actionMembers d) = {1}"
proof -
  have "case decideGroup sample_codec id (sample_group 4 [''V-1'', ''V-2'']) (observed [remote_card ''V-1'' 10 9 7]) of
      Inl _ \<Rightarrow> False | Inr d \<Rightarrow> gd_productKind d = ActionAddToGroup \<and> \<not> gd_conflict d"
    by code_simp
  then obtain d where d: "decideGroup sample_codec id (sample_group 4 [''V-1'', ''V-2'']) (observed [remote_card ''V-1'' 10 9 7]) = Inr d"
    "gd_productKind d = ActionAddToGroup" "\<not> gd_conflict d"
    by (auto split: sum.splits)
  have r: "pr_Request (sp_Proposal (lg_Proposal (sample_group 4 [''V-1'', ''V-2'']))) = [sample_upload [''V-1'', ''V-2'']]"
    by (simp add: sample_group_def)
  have "{i. i < length (ug_Variants (sample_upload [''V-1'', ''V-2''])) \<and>
      normal_by_vendor (observed [remote_card ''V-1'' 10 9 7]) (uc_VendorCode (ug_Variants (sample_upload [''V-1'', ''V-2'']) ! i)) = []} = {1}"
    by (auto simp: sample_upload_def sample_variant_def normal_by_vendor_def observed_def remote_card_def less_Suc_eq numeral_2_eq_2)
  with d decideGroup_sound [OF d(1,3) r] show ?thesis by auto
qed

theorem decideGroup_order_irrelevant_witness:
  "\<exists>d. decideGroup sample_codec rev (sample_group 4 [''V-1'', ''V-2'', ''V-3''])
       (observed [remote_card ''V-1'' 10 9 7, remote_card ''V-2'' 11 9 7]) = Inr d \<and> \<not> gd_conflict d"
proof -
  have "case decideGroup sample_codec id (sample_group 4 [''V-1'', ''V-2'', ''V-3''])
       (observed [remote_card ''V-1'' 10 9 7, remote_card ''V-2'' 11 9 7]) of Inl _ \<Rightarrow> False | Inr d \<Rightarrow> \<not> gd_conflict d"
    by code_simp
  then obtain d where d: "decideGroup sample_codec id (sample_group 4 [''V-1'', ''V-2'', ''V-3''])
       (observed [remote_card ''V-1'' 10 9 7, remote_card ''V-2'' 11 9 7]) = Inr d" "\<not> gd_conflict d"
    by (auto split: sum.splits)
  from decideGroup_order_irrelevant [OF this, of rev] d(2) show ?thesis by simp
qed

theorem digestPlan_identifies_witness:
  "list_all sized (plan_parts (replicate 32 (CHR ''t'')) [sample_planned_group] [sample_planned_item] [sample_action]) \<and>
   map ad_Key [sample_action] = map ad_Key [sample_action\<lparr>ad_RequestPayload := []\<rparr>]"
proof -
  have short: "sized s" if "length s \<le> 100" for s using that by (simp add: sized_def)
  have ints: "length (format_int 4) = 1" "length (format_int 1) = 1" "length (format_int 0) = 1" by code_simp+
  have "list_all sized (plan_parts (replicate 32 (CHR ''t'')) [sample_planned_group] [sample_planned_item] [sample_action])"
    using ints by (simp add: plan_parts_def group_parts_def item_parts_def action_parts_def sample_planned_group_def
        sample_planned_item_def sample_action_def DigestMembers_def short zero_digest_def format_bool_def
        PublicationProjectionRunning_def decision_defs action_defs)
  moreover have "action_parts (sample_action\<lparr>ad_RequestPayload := []\<rparr>) = action_parts sample_action"
    by (simp add: action_parts_def)
  ultimately show ?thesis
    using digestPlan_identifies [of "replicate 32 (CHR ''t'')" "[sample_planned_group]" "[sample_planned_item]" "[sample_action]"
        "replicate 32 (CHR ''t'')" "[sample_planned_group]" "[sample_planned_item]" "[sample_action\<lparr>ad_RequestPayload := []\<rparr>]"]
    by (simp add: plan_parts_def digestPlan_def no_collision_def)
qed

section \<open>Two observable oddities\<close>

text \<open>Two orders of the map of existing cards: the reported conflict differs.\<close>

lemma decideGroup_code_depends_on_order:
  "map_sum id gd_code (decideGroup sample_codec id (sample_group 4 [''V-1'', ''V-2''])
     (observed [remote_card ''V-1'' 10 0 7, remote_card ''V-2'' 11 9 8])) = Inr DecisionGroupConflict \<and>
   map_sum id gd_code (decideGroup sample_codec rev (sample_group 4 [''V-1'', ''V-2''])
     (observed [remote_card ''V-1'' 10 0 7, remote_card ''V-2'' 11 9 8])) = Inr DecisionSubjectConflict"
  by code_simp

text \<open>The capacity check counts the remote group's cards in the observation only. The catalogue reader
  keeps just the cards whose vendor code was asked for, so for a remote group of 30 cards of which one
  is a requested card, the decision is still to add a thirty-first.\<close>

definition full_remote_group :: "content_card list" where
  "full_remote_group = remote_card ''V-1'' 10 9 7 # map (\<lambda>n. remote_card ''X'' (100 + int n) 9 7) [0..<29]"

lemma decideGroup_counts_observed_only:
  "length full_remote_group = 30 \<and> (\<forall>c \<in> set full_remote_group. cc_IMTID c = 9) \<and>
   map_sum id gd_code (decideGroup sample_codec id (sample_group 4 [''V-1'', ''V-2''])
     (observed (filter (\<lambda>c. cc_VendorCode c \<in> {''V-1'', ''V-2''}) full_remote_group))) = Inr DecisionAddToGroup \<and>
   map_sum id gd_code (decideGroup sample_codec id (sample_group 4 [''V-1'', ''V-2'']) (observed full_remote_group)) =
     Inr DecisionGroupCapacityConflict"
  by code_simp

end
