(* ===== verification/LiveAuth.thy ===== *)
theory LiveAuth
  imports TransferModel
begin

text \<open>
  Live authorization of a publication plan
  (\<open>internal/feature/transfer/service/authorization/live.go\<close>, \<open>automatic.go\<close> and
  \<open>internal/feature/transfer/repository/postgres/live_authorization.go\<close>, \<open>live_authorization_verify.go\<close>).

  The two tables the repository writes are the state \<open>live_db\<close>: the authorizations and the commands
  recorded with their idempotency keys. A statement is a function on that state that fails where the
  schema (\<open>migration/000006_card_publication.up.sql\<close>: \<open>CHECK\<close>s, the unique index on open
  authorizations, the unique idempotency key) refuses the row. \<open>PostgreSQL\<close> keeps times in
  microseconds (\<open>pg_time\<close>); \<open>NULL\<close> reasons are read as the empty string (\<open>COALESCE\<close>). The rows of
  the other tables that the statements join are the argument \<open>publication_view\<close>. Row locks make every
  operation atomic. A transaction either commits its state or leaves the old one.
\<close>

section \<open>Times\<close>

text \<open>\<open>Format(time.RFC3339Nano)\<close> of a UTC time, counted in nanoseconds from 1 January of the year 1.\<close>

definition civil_year :: "int \<Rightarrow> int \<times> int" where
  "civil_year d =
     (let r = d mod 146097; c = min 3 (r div 36524); r = r - c * 36524;
          q = r div 1461; r = r mod 1461; y = min 3 (r div 365)
      in (400 * (d div 146097) + 100 * c + 4 * q + y + 1, r - y * 365))"

definition leap_year :: "int \<Rightarrow> bool" where
  "leap_year y \<longleftrightarrow> y mod 4 = 0 \<and> (y mod 100 \<noteq> 0 \<or> y mod 400 = 0)"

fun month_day :: "int list \<Rightarrow> int \<Rightarrow> int \<Rightarrow> int \<times> int" where
  "month_day [] m d = (m, d + 1)"
| "month_day (n # ns) m d = (if d < n then (m, d + 1) else month_day ns (m + 1) (d - n))"

definition pad :: "nat \<Rightarrow> int \<Rightarrow> string" where
  "pad n k = (let s = format_int k in replicate (n - length s) (CHR ''0'') @ s)"

definition drop_zeros :: "string \<Rightarrow> string" where
  "drop_zeros s = rev (dropWhile (\<lambda>c. c = CHR ''0'') (rev s))"

definition rfc3339_nano :: "int \<Rightarrow> string" where
  "rfc3339_nano t =
     (let nanos = t mod 1000000000; secs = t div 1000000000; s = secs mod 86400;
          (y, yd) = civil_year (secs div 86400);
          (m, d) = month_day [31, if leap_year y then 29 else 28, 31, 30, 31, 30, 31, 31, 30, 31, 30] 1 yd
      in pad 4 y @ ''-'' @ pad 2 m @ ''-'' @ pad 2 d @ ''T'' @ pad 2 (s div 3600) @ '':'' @ pad 2 (s div 60 mod 60) @ '':'' @
         pad 2 (s mod 60) @ (if nanos = 0 then [] else ''.'' @ drop_zeros (pad 9 nanos)) @ ''Z'')"

definition pg_time :: "int \<Rightarrow> int" where
  "pg_time t = t div 1000 * 1000"

section \<open>Errors and states\<close>

definition ErrLiveModeDisabled :: goerr where "ErrLiveModeDisabled = GoErr ErrForbidden ''live transfer mode is disabled''"
definition ErrLiveAuthorization :: goerr where "ErrLiveAuthorization = GoErr ErrForbidden ''live authorization is invalid''"
definition ErrLiveExpired :: goerr where "ErrLiveExpired = GoErr ErrForbidden ''live authorization expired''"
definition ErrLiveIdempotency :: goerr where "ErrLiveIdempotency = GoErr ErrConflict ''live authorization idempotency conflict''"
definition ErrLivePlanUnavailable :: goerr where
  "ErrLivePlanUnavailable = GoErr ErrNotFound ''publication plan is unavailable for authorization''"

definition pg_constraint :: goerr where "pg_constraint = GoErr NoSentinel ''constraint violation''"
definition pg_no_rows :: goerr where "pg_no_rows = GoErr NoSentinel ''no rows in result set''"

lemmas live_errors = ErrLiveModeDisabled_def ErrLiveAuthorization_def ErrLiveExpired_def ErrLiveIdempotency_def
  ErrLivePlanUnavailable_def pg_constraint_def pg_no_rows_def

definition LiveAuthorizationRequested :: string where "LiveAuthorizationRequested = ''requested''"
definition LiveAuthorizationAuthorized :: string where "LiveAuthorizationAuthorized = ''authorized''"
definition LiveAuthorizationRevoked :: string where "LiveAuthorizationRevoked = ''revoked''"
definition LiveAuthorizationExpired :: string where "LiveAuthorizationExpired = ''expired''"
definition LiveAuthorizationSuperseded :: string where "LiveAuthorizationSuperseded = ''superseded''"
definition LiveAuthorizationClosed :: string where "LiveAuthorizationClosed = ''closed''"

lemmas live_states = LiveAuthorizationRequested_def LiveAuthorizationAuthorized_def LiveAuthorizationRevoked_def
  LiveAuthorizationExpired_def LiveAuthorizationSuperseded_def LiveAuthorizationClosed_def

definition LiveAuthorizationState_IsValid :: "string \<Rightarrow> bool" where
  "LiveAuthorizationState_IsValid s \<longleftrightarrow>
     s \<in> {LiveAuthorizationRequested, LiveAuthorizationAuthorized, LiveAuthorizationRevoked,
          LiveAuthorizationExpired, LiveAuthorizationSuperseded, LiveAuthorizationClosed}"

definition open_state :: "string \<Rightarrow> bool" where
  "open_state s \<longleftrightarrow> s = LiveAuthorizationRequested \<or> s = LiveAuthorizationAuthorized"

section \<open>Actors, commands and records\<close>

definition MaxLiveIdempotencyKeyLength :: nat where "MaxLiveIdempotencyKeyLength = 160"

record live_actor =
  la_TelegramUserID :: int
  la_DisplayName :: string

definition actor_normalized :: "live_actor \<Rightarrow> live_actor" where
  "actor_normalized actor = actor\<lparr>la_DisplayName := trim_space (la_DisplayName actor)\<rparr>"

definition actor_validate :: "live_actor \<Rightarrow> goerr option" where
  "actor_validate actor =
     (if la_TelegramUserID actor \<le> 0 \<or> la_DisplayName actor = [] \<or> 100 < rune_count (la_DisplayName actor)
      then Some (GoErr ErrInvalidArgument ''trusted live actor is invalid'') else None)"

definition actor_digest :: "live_actor \<Rightarrow> digest" where
  "actor_digest actor = builder_Sum (builder_Int64 (la_TelegramUserID actor) (NewSHA256 ''transfer-live-actor:v1''))"

record plan_summary =
  ps_TransferID :: int
  ps_PlanID :: int
  ps_PlanDigest :: digest
  ps_TargetSetRoot :: digest
  ps_PlanRevision :: int
  ps_LatestAuthorizationID :: int
  ps_TargetsCount :: int
  ps_CreateActions :: int
  ps_AddActions :: int
  ps_MediaActions :: int
  ps_CreateItems :: int
  ps_AddItems :: int
  ps_ExistingItems :: int
  ps_ConflictItems :: int
  ps_AuthorTelegramID :: int

definition PlanSummary_Validate :: "plan_summary \<Rightarrow> goerr option" where
  "PlanSummary_Validate s =
     (if ps_TransferID s \<le> 0 \<or> ps_PlanID s \<le> 0 \<or> ps_PlanDigest s = zero_digest \<or> ps_TargetSetRoot s = zero_digest \<or>
         ps_PlanRevision s < 0 \<or> ps_LatestAuthorizationID s < 0 \<or> ps_TargetsCount s \<le> 0 \<or> ps_CreateActions s < 0 \<or>
         ps_AddActions s < 0 \<or> ps_MediaActions s < 0 \<or> ps_CreateItems s < 0 \<or> ps_AddItems s < 0 \<or>
         ps_ExistingItems s < 0 \<or> ps_ConflictItems s < 0 \<or> ps_AuthorTelegramID s \<le> 0
      then Some (GoErr NoSentinel ''authorization plan summary is invalid'') else None)"

definition PlanSummary_ActionsCount :: "plan_summary \<Rightarrow> int" where
  "PlanSummary_ActionsCount s = wrap64 (ps_CreateActions s + ps_AddActions s + ps_MediaActions s)"

record live_authorization =
  av_ID :: int
  av_TransferID :: int
  av_PlanID :: int
  av_PlanDigest :: digest
  av_TargetSetRoot :: digest
  av_Revision :: int
  av_State :: string
  av_TrustedActorID :: int
  av_TrustedActorDigest :: digest
  av_TrustedActorName :: string
  av_RequestedAt :: int
  av_ApprovedAt :: "int option"
  av_ExpiresAt :: int
  av_RevokedAt :: "int option"
  av_ClosedAt :: "int option"
  av_SafeReasonCode :: string
  av_CreatedAt :: int
  av_UpdatedAt :: int

definition LiveAuthorization_Validate :: "live_authorization \<Rightarrow> goerr option" where
  "LiveAuthorization_Validate a =
     (if av_ID a \<le> 0 \<or> av_TransferID a \<le> 0 \<or> av_PlanID a \<le> 0 \<or> av_PlanDigest a = zero_digest \<or>
         av_TargetSetRoot a = zero_digest \<or> av_Revision a < 0 \<or> \<not> LiveAuthorizationState_IsValid (av_State a) \<or>
         av_TrustedActorID a \<le> 0 \<or> av_TrustedActorDigest a = zero_digest \<or> trim_space (av_TrustedActorName a) = [] \<or>
         av_RequestedAt a = 0 \<or> av_ExpiresAt a = 0 \<or> av_CreatedAt a = 0 \<or> av_UpdatedAt a = 0
      then Some ErrLiveAuthorization else None)"

record request_live =
  rl_TransferID :: int
  rl_PlanDigest :: digest
  rl_IdempotencyKey :: string

definition request_normalized :: "request_live \<Rightarrow> request_live" where
  "request_normalized c = c\<lparr>rl_IdempotencyKey := trim_space (rl_IdempotencyKey c)\<rparr>"

definition request_validate :: "request_live \<Rightarrow> goerr option" where
  "request_validate c =
     (if rl_TransferID c \<le> 0 \<or> rl_PlanDigest c = zero_digest \<or> rl_IdempotencyKey c = [] \<or>
         MaxLiveIdempotencyKeyLength < length (rl_IdempotencyKey c)
      then Some (GoErr ErrInvalidArgument ''request live command is invalid'') else None)"

definition request_digest :: "request_live \<Rightarrow> digest" where
  "request_digest c =
     builder_Sum (builder_Bytes (rl_PlanDigest c) (builder_Int64 (rl_TransferID c) (NewSHA256 ''transfer-request-live:v1'')))"

record approve_live =
  al_TransferID :: int
  al_AuthorizationID :: int
  al_ExpectedRevision :: int
  al_ExpectedPlanDigest :: digest
  al_IdempotencyKey :: string

definition approve_normalized :: "approve_live \<Rightarrow> approve_live" where
  "approve_normalized c = c\<lparr>al_IdempotencyKey := trim_space (al_IdempotencyKey c)\<rparr>"

definition approve_validate :: "approve_live \<Rightarrow> goerr option" where
  "approve_validate c =
     (if al_TransferID c \<le> 0 \<or> al_AuthorizationID c \<le> 0 \<or> al_ExpectedRevision c < 0 \<or>
         al_ExpectedPlanDigest c = zero_digest \<or> al_IdempotencyKey c = [] \<or>
         MaxLiveIdempotencyKeyLength < length (al_IdempotencyKey c)
      then Some (GoErr ErrInvalidArgument ''approve live command is invalid'') else None)"

definition approve_stream :: "approve_live \<Rightarrow> string" where
  "approve_stream c =
     builder_Bytes (al_ExpectedPlanDigest c) (builder_Int64 (al_ExpectedRevision c)
       (builder_Int64 (al_AuthorizationID c) (builder_Int64 (al_TransferID c) (NewSHA256 ''transfer-approve-live:v1''))))"

definition approve_digest :: "approve_live \<Rightarrow> digest" where
  "approve_digest c = builder_Sum (approve_stream c)"

record revoke_live =
  rv_TransferID :: int
  rv_AuthorizationID :: int
  rv_ExpectedRevision :: int
  rv_SafeReasonCode :: string
  rv_IdempotencyKey :: string

definition revoke_normalized :: "revoke_live \<Rightarrow> revoke_live" where
  "revoke_normalized c = c\<lparr>rv_SafeReasonCode := trim_space (rv_SafeReasonCode c),
     rv_IdempotencyKey := trim_space (rv_IdempotencyKey c)\<rparr>"

definition revoke_validate :: "revoke_live \<Rightarrow> goerr option" where
  "revoke_validate c =
     (if rv_TransferID c \<le> 0 \<or> rv_AuthorizationID c \<le> 0 \<or> rv_ExpectedRevision c < 0 \<or> rv_SafeReasonCode c = [] \<or>
         128 < length (rv_SafeReasonCode c) \<or> rv_IdempotencyKey c = [] \<or>
         MaxLiveIdempotencyKeyLength < length (rv_IdempotencyKey c)
      then Some (GoErr ErrInvalidArgument ''revoke live command is invalid'') else None)"

definition revoke_digest :: "revoke_live \<Rightarrow> digest" where
  "revoke_digest c =
     builder_Sum (builder_String (rv_SafeReasonCode c) (builder_Int64 (rv_ExpectedRevision c)
       (builder_Int64 (rv_AuthorizationID c) (builder_Int64 (rv_TransferID c) (NewSHA256 ''transfer-revoke-live:v1'')))))"

record change_live =
  cl_TransferID :: int
  cl_AuthorizationID :: int
  cl_ExpectedRevision :: int
  cl_ExpectedPlanDigest :: digest
  cl_SafeReasonCode :: string

definition change_normalized :: "change_live \<Rightarrow> change_live" where
  "change_normalized c = c\<lparr>cl_SafeReasonCode := trim_space (cl_SafeReasonCode c)\<rparr>"

definition change_validate :: "change_live \<Rightarrow> goerr option" where
  "change_validate c =
     (if cl_TransferID c \<le> 0 \<or> cl_AuthorizationID c \<le> 0 \<or> cl_ExpectedRevision c < 0 \<or>
         cl_ExpectedPlanDigest c = zero_digest \<or> cl_SafeReasonCode c = [] \<or> 128 < length (cl_SafeReasonCode c)
      then Some (GoErr ErrInvalidArgument ''change live authorization state command is invalid'') else None)"

definition change_digest :: "change_live \<Rightarrow> string \<Rightarrow> digest" where
  "change_digest c state =
     builder_Sum (builder_String (cl_SafeReasonCode c) (builder_Bytes (cl_ExpectedPlanDigest c)
       (builder_Int64 (cl_ExpectedRevision c) (builder_Int64 (cl_AuthorizationID c) (builder_Int64 (cl_TransferID c)
         (builder_String state (NewSHA256 ''transfer-change-live-state:v1'')))))))"

record live_check =
  lc_TransferID :: int
  lc_ActionID :: int
  lc_AuthorizationID :: int
  lc_ExpectedRevision :: int
  lc_PlanDigest :: digest
  lc_TargetSetRoot :: digest
  lc_TargetID :: int
  lc_SellerID :: seller_id
  lc_ClientGeneration :: digest

definition check_validate :: "live_check \<Rightarrow> goerr option" where
  "check_validate c =
     (if lc_TransferID c \<le> 0 \<or> lc_ActionID c \<le> 0 \<or> lc_AuthorizationID c \<le> 0 \<or> lc_ExpectedRevision c < 0 \<or>
         lc_PlanDigest c = zero_digest \<or> lc_TargetSetRoot c = zero_digest \<or> lc_TargetID c \<le> 0 \<or>
         SellerID_Validate (lc_SellerID c) \<noteq> None \<or> generation_IsZero (lc_ClientGeneration c)
      then Some ErrLiveAuthorization else None)"

record live_evidence =
  le_AuthorizationID :: int
  le_Revision :: int
  le_TransferID :: int
  le_ActionID :: int
  le_PlanDigest :: digest
  le_TargetSetRoot :: digest
  le_TargetID :: int
  le_SellerID :: seller_id
  le_ClientGeneration :: digest
  le_ActorDigest :: digest
  le_ApprovedAt :: int
  le_ExpiresAt :: int

definition systemLiveActorDigest :: digest where
  "systemLiveActorDigest = sha256 ''transfer-system-actor:v1''"

section \<open>Tables\<close>

record live_command =
  lm_TransferID :: int
  lm_AuthorizationID :: int
  lm_Kind :: string
  lm_IdempotencyKey :: string
  lm_ActorDigest :: digest
  lm_CommandDigest :: digest
  lm_ResultState :: string
  lm_ResultRevision :: int

record live_db =
  ld_auths :: "live_authorization list"
  ld_commands :: "live_command list"
  ld_next :: int

text \<open>A row of the join that \<open>LockValidLive\<close> reads, a row of the plan query with the tables it joins.\<close>

record target_row =
  tw_SellerID :: string
  tw_ClientGeneration :: digest
  tw_CredentialExpiresAt :: int
  tw_ContentRead :: bool
  tw_ContentWrite :: bool
  tw_TargetSetRoot :: digest
  tw_Phase :: string
  tw_Outcome :: string
  tw_ActionState :: string
  tw_ActionAuthorizationID :: "int option"
  tw_PlanState :: string
  tw_PlanDigest :: digest
  tw_PlanTargetSetRoot :: digest
  tw_OwnerRole :: string

record plan_row =
  pw_Summary :: plan_summary
  pw_Phase :: string
  pw_Outcome :: string
  pw_PlanState :: string
  pw_HasPlannedAction :: bool

record publication_view =
  pv_plans :: "plan_row list"
  pv_attempted :: "int \<Rightarrow> int \<Rightarrow> bool"
  pv_unfinished :: "int \<Rightarrow> int \<Rightarrow> bool"
  pv_target :: "int \<Rightarrow> int \<Rightarrow> int \<Rightarrow> int \<Rightarrow> target_row option"

definition state_columns_ok :: "live_authorization \<Rightarrow> bool" where
  "state_columns_ok a \<longleftrightarrow>
     (if av_State a = LiveAuthorizationRequested
      then av_ApprovedAt a = None \<and> av_RevokedAt a = None \<and> av_ClosedAt a = None \<and> av_SafeReasonCode a = []
      else if av_State a = LiveAuthorizationAuthorized
      then av_ApprovedAt a \<noteq> None \<and> av_RevokedAt a = None \<and> av_ClosedAt a = None \<and> av_SafeReasonCode a = []
      else if av_State a = LiveAuthorizationRevoked
      then av_RevokedAt a \<noteq> None \<and> av_ClosedAt a = None \<and> av_SafeReasonCode a \<noteq> []
      else if av_State a = LiveAuthorizationExpired
      then av_RevokedAt a = None \<and> av_ClosedAt a = None \<and> av_SafeReasonCode a \<noteq> []
      else (av_State a = LiveAuthorizationSuperseded \<or> av_State a = LiveAuthorizationClosed) \<and>
           av_RevokedAt a = None \<and> av_ClosedAt a \<noteq> None \<and> av_SafeReasonCode a \<noteq> [])"

definition since :: "int \<Rightarrow> int option \<Rightarrow> bool" where
  "since t x = (case x of None \<Rightarrow> True | Some u \<Rightarrow> t \<le> u)"

definition auth_checks :: "live_authorization \<Rightarrow> bool" where
  "auth_checks a \<longleftrightarrow>
     length (av_PlanDigest a) = 32 \<and> length (av_TargetSetRoot a) = 32 \<and> length (av_TrustedActorDigest a) = 32 \<and>
     0 \<le> av_Revision a \<and> 0 < av_TrustedActorID a \<and> av_TrustedActorName a \<noteq> [] \<and> rune_count (av_TrustedActorName a) \<le> 256 \<and>
     rune_count (av_SafeReasonCode a) \<le> 128 \<and> av_RequestedAt a < av_ExpiresAt a \<and> av_CreatedAt a \<le> av_UpdatedAt a \<and>
     state_columns_ok a \<and> since (av_RequestedAt a) (av_ApprovedAt a) \<and> since (av_RequestedAt a) (av_RevokedAt a) \<and>
     since (av_RequestedAt a) (av_ClosedAt a)"

definition open_for :: "int \<Rightarrow> int \<Rightarrow> live_authorization \<Rightarrow> bool" where
  "open_for transferID planID a \<longleftrightarrow> av_TransferID a = transferID \<and> av_PlanID a = planID \<and> open_state (av_State a)"

section \<open>Statements\<close>

text \<open>\<open>scanLiveAuthorization\<close> on the row a statement returned.\<close>

definition scan_auth :: "live_authorization \<Rightarrow> live_authorization result" where
  "scan_auth a = guard (LiveAuthorization_Validate a) (Inr a)"

definition set_auth :: "live_authorization \<Rightarrow> live_db \<Rightarrow> live_db" where
  "set_auth row db = db\<lparr>ld_auths := map (\<lambda>a. if av_ID a = av_ID row then row else a) (ld_auths db)\<rparr>"

text \<open>\<open>UPDATE ... SET f WHERE p RETURNING\<close> on the row with the given primary key: \<open>None\<close> for no rows.\<close>

definition update_auth ::
  "int \<Rightarrow> (live_authorization \<Rightarrow> bool) \<Rightarrow> (live_authorization \<Rightarrow> live_authorization) \<Rightarrow> live_db \<Rightarrow>
     (live_db \<times> live_authorization) result option" where
  "update_auth key p f db =
     (case find (\<lambda>a. av_ID a = key \<and> p a) (ld_auths db) of
        None \<Rightarrow> None
      | Some a \<Rightarrow>
          Some (if auth_checks (f a) then rbind (scan_auth (f a)) (\<lambda>row. Inr (set_auth row db, row)) else Inl pg_constraint))"

definition insert_auth :: "live_authorization \<Rightarrow> live_db \<Rightarrow> (live_db \<times> live_authorization) result" where
  "insert_auth row db =
     (let row = row\<lparr>av_ID := ld_next db\<rparr> in
      if auth_checks row \<and> \<not> list_ex (open_for (av_TransferID row) (av_PlanID row)) (ld_auths db)
      then rbind (scan_auth row) (\<lambda>row. Inr (db\<lparr>ld_auths := ld_auths db @ [row], ld_next := ld_next db + 1\<rparr>, row))
      else Inl pg_constraint)"

definition insertLiveCommand ::
  "live_authorization \<Rightarrow> string \<Rightarrow> string \<Rightarrow> digest \<Rightarrow> digest \<Rightarrow> live_db \<Rightarrow> live_db result" where
  "insertLiveCommand a kind key actorDigest commandDigest db =
     (if key = [] \<or> 160 < rune_count key \<or> list_ex (\<lambda>c. lm_IdempotencyKey c = key) (ld_commands db) then Inl pg_constraint
      else Inr (db\<lparr>ld_commands := ld_commands db @
             [\<lparr>lm_TransferID = av_TransferID a, lm_AuthorizationID = av_ID a, lm_Kind = kind, lm_IdempotencyKey = key,
               lm_ActorDigest = actorDigest, lm_CommandDigest = commandDigest, lm_ResultState = av_State a,
               lm_ResultRevision = av_Revision a\<rparr>]\<rparr>))"

definition lockLiveAuthorization :: "int \<Rightarrow> live_db \<Rightarrow> live_authorization result" where
  "lockLiveAuthorization authorizationID db =
     (case find (\<lambda>a. av_ID a = authorizationID) (ld_auths db) of
        None \<Rightarrow> Inl ErrLiveAuthorization | Some a \<Rightarrow> scan_auth a)"

definition lockOpenLiveAuthorization :: "int \<Rightarrow> int \<Rightarrow> live_db \<Rightarrow> live_authorization option result" where
  "lockOpenLiveAuthorization transferID planID db =
     (case find (open_for transferID planID) (ld_auths db) of
        None \<Rightarrow> Inr None | Some a \<Rightarrow> rbind (scan_auth a) (\<lambda>a. Inr (Some a)))"

definition expire_command_text :: "live_authorization \<Rightarrow> string" where
  "expire_command_text previous =
     ''transfer-expire-live:v1:'' @ format_int (av_ID previous) @ '':'' @ format_int (av_Revision previous) @ '':'' @
     rfc3339_nano (av_ExpiresAt previous)"

definition insertSystemExpireCommand :: "live_authorization \<Rightarrow> live_authorization \<Rightarrow> live_db \<Rightarrow> live_db result" where
  "insertSystemExpireCommand previous expired =
     insertLiveCommand expired ''expire''
       (''system:expire-live:'' @ format_int (av_ID previous) @ '':'' @ format_int (av_Revision previous))
       (sha256 ''transfer-system-actor:v1'') (sha256 (expire_command_text previous))"

definition expireLiveAuthorization ::
  "int \<Rightarrow> live_authorization \<Rightarrow> live_db \<Rightarrow> (live_db \<times> live_authorization \<times> bool) result" where
  "expireLiveAuthorization now a db =
     (if now < av_ExpiresAt a \<or> \<not> open_state (av_State a) then Inr (db, a, False)
      else
        (case update_auth (av_ID a) (\<lambda>r. open_state (av_State r))
            (\<lambda>r. r\<lparr>av_State := LiveAuthorizationExpired, av_SafeReasonCode := ''authorization_ttl_expired'',
                   av_Revision := av_Revision r + 1, av_UpdatedAt := pg_time now\<rparr>) db of
           None \<Rightarrow> Inl pg_no_rows
         | Some (Inl e) \<Rightarrow> Inl e
         | Some (Inr (db, expired)) \<Rightarrow>
             rbind (insertSystemExpireCommand a expired db) (\<lambda>db. Inr (db, expired, True))))"

definition loadLiveCommandReplay ::
  "int \<Rightarrow> string \<Rightarrow> string \<Rightarrow> digest \<Rightarrow> digest \<Rightarrow> live_db \<Rightarrow> (live_db \<times> live_authorization option) result" where
  "loadLiveCommandReplay now kind key actorDigest commandDigest db =
     (case find (\<lambda>c. lm_IdempotencyKey c = key) (ld_commands db) of
        None \<Rightarrow> Inr (db, None)
      | Some c \<Rightarrow>
          (case find (\<lambda>a. av_ID a = lm_AuthorizationID c) (ld_auths db) of
             None \<Rightarrow> Inr (db, None)
           | Some a \<Rightarrow>
               rbind (scan_auth a) (\<lambda>a.
                 if lm_Kind c \<noteq> kind \<or> lm_ActorDigest c \<noteq> actorDigest \<or> lm_CommandDigest c \<noteq> commandDigest
                 then Inl ErrLiveIdempotency
                 else rbind (expireLiveAuthorization now a db) (\<lambda>(db, a, _). Inr (db, Some a)))))"

section \<open>Repository\<close>

definition requested_row ::
  "int \<Rightarrow> int \<Rightarrow> live_actor \<Rightarrow> digest \<Rightarrow> request_live \<Rightarrow> plan_summary \<Rightarrow> live_authorization" where
  "requested_row now expiresAt actor actorDigest command plan =
     \<lparr>av_ID = 0, av_TransferID = rl_TransferID command, av_PlanID = ps_PlanID plan, av_PlanDigest = rl_PlanDigest command,
      av_TargetSetRoot = ps_TargetSetRoot plan, av_Revision = 0, av_State = LiveAuthorizationRequested,
      av_TrustedActorID = la_TelegramUserID actor, av_TrustedActorDigest = actorDigest,
      av_TrustedActorName = la_DisplayName actor, av_RequestedAt = pg_time now, av_ApprovedAt = None,
      av_ExpiresAt = pg_time expiresAt, av_RevokedAt = None, av_ClosedAt = None, av_SafeReasonCode = [],
      av_CreatedAt = pg_time now, av_UpdatedAt = pg_time now\<rparr>"

definition insert_requested ::
  "int \<Rightarrow> int \<Rightarrow> live_actor \<Rightarrow> digest \<Rightarrow> request_live \<Rightarrow> digest \<Rightarrow> plan_summary \<Rightarrow> live_db \<Rightarrow>
     (live_db \<times> live_authorization) result" where
  "insert_requested now expiresAt actor actorDigest command commandDigest plan db =
     rbind (insert_auth (requested_row now expiresAt actor actorDigest command plan) db) (\<lambda>(db, a).
     rbind (insertLiveCommand a ''request'' (rl_IdempotencyKey command) actorDigest commandDigest db) (\<lambda>db. Inr (db, a)))"

definition RequestLive ::
  "int \<Rightarrow> int \<Rightarrow> live_actor \<Rightarrow> digest \<Rightarrow> request_live \<Rightarrow> digest \<Rightarrow> plan_summary \<Rightarrow> live_db \<Rightarrow>
     (live_db \<times> live_authorization) result" where
  "RequestLive now expiresAt actor actorDigest command commandDigest plan db =
     rbind (loadLiveCommandReplay now ''request'' (rl_IdempotencyKey command) actorDigest commandDigest db) (\<lambda>(db, replay).
       case replay of
         Some a \<Rightarrow> Inr (db, a)
       | None \<Rightarrow>
           rbind (lockOpenLiveAuthorization (rl_TransferID command) (ps_PlanID plan) db) (\<lambda>found.
             case found of
               None \<Rightarrow> insert_requested now expiresAt actor actorDigest command commandDigest plan db
             | Some a \<Rightarrow>
                 rbind (expireLiveAuthorization now a db) (\<lambda>(db, a, expired).
                   if expired then insert_requested now expiresAt actor actorDigest command commandDigest plan db
                   else if av_PlanDigest a \<noteq> rl_PlanDigest command \<or> av_TrustedActorID a \<noteq> la_TelegramUserID actor \<or>
                           av_TrustedActorDigest a \<noteq> actorDigest
                   then Inl ErrLiveAuthorization
                   else rbind (insertLiveCommand a ''request'' (rl_IdempotencyKey command) actorDigest commandDigest db)
                          (\<lambda>db. Inr (db, a)))))"

definition ApproveLive ::
  "int \<Rightarrow> live_actor \<Rightarrow> digest \<Rightarrow> approve_live \<Rightarrow> digest \<Rightarrow> live_db \<Rightarrow> (live_db \<times> live_authorization) result" where
  "ApproveLive now actor actorDigest command commandDigest db =
     rbind (loadLiveCommandReplay now ''approve'' (al_IdempotencyKey command) actorDigest commandDigest db) (\<lambda>(db, replay).
       case replay of
         Some a \<Rightarrow> Inr (db, a)
       | None \<Rightarrow>
           rbind (lockLiveAuthorization (al_AuthorizationID command) db) (\<lambda>a.
           rbind (expireLiveAuthorization now a db) (\<lambda>(db, a, expired).
             if expired then Inr (db, a)
             else if av_TransferID a \<noteq> al_TransferID command \<or> av_Revision a \<noteq> al_ExpectedRevision command \<or>
                     av_PlanDigest a \<noteq> al_ExpectedPlanDigest command \<or> av_TrustedActorID a \<noteq> la_TelegramUserID actor \<or>
                     av_TrustedActorDigest a \<noteq> actorDigest \<or> av_State a \<noteq> LiveAuthorizationRequested
             then Inl ErrLiveAuthorization
             else
               (case update_auth (al_AuthorizationID command)
                   (\<lambda>r. av_State r = LiveAuthorizationRequested \<and> av_Revision r = al_ExpectedRevision command)
                   (\<lambda>r. r\<lparr>av_State := LiveAuthorizationAuthorized, av_ApprovedAt := Some (pg_time now),
                          av_Revision := av_Revision r + 1, av_UpdatedAt := pg_time now\<rparr>) db of
                  None \<Rightarrow> Inl pg_no_rows
                | Some (Inl e) \<Rightarrow> Inl e
                | Some (Inr (db, a)) \<Rightarrow>
                    rbind (insertLiveCommand a ''approve'' (al_IdempotencyKey command) actorDigest commandDigest db)
                      (\<lambda>db. Inr (db, a))))))"

definition RevokeLive ::
  "int \<Rightarrow> live_actor \<Rightarrow> digest \<Rightarrow> revoke_live \<Rightarrow> digest \<Rightarrow> live_db \<Rightarrow> (live_db \<times> live_authorization) result" where
  "RevokeLive now actor actorDigest command commandDigest db =
     rbind (loadLiveCommandReplay now ''revoke'' (rv_IdempotencyKey command) actorDigest commandDigest db) (\<lambda>(db, replay).
       case replay of
         Some a \<Rightarrow> Inr (db, a)
       | None \<Rightarrow>
           rbind (lockLiveAuthorization (rv_AuthorizationID command) db) (\<lambda>a.
           rbind (expireLiveAuthorization now a db) (\<lambda>(db, a, expired).
             if expired then Inr (db, a)
             else if av_TransferID a \<noteq> rv_TransferID command \<or> av_Revision a \<noteq> rv_ExpectedRevision command \<or>
                     av_TrustedActorID a \<noteq> la_TelegramUserID actor \<or> av_TrustedActorDigest a \<noteq> actorDigest \<or>
                     \<not> open_state (av_State a)
             then Inl ErrLiveAuthorization
             else
               (case update_auth (rv_AuthorizationID command)
                   (\<lambda>r. av_Revision r = rv_ExpectedRevision command \<and> open_state (av_State r))
                   (\<lambda>r. r\<lparr>av_State := LiveAuthorizationRevoked, av_RevokedAt := Some (pg_time now),
                          av_SafeReasonCode := rv_SafeReasonCode command, av_Revision := av_Revision r + 1,
                          av_UpdatedAt := pg_time now\<rparr>) db of
                  None \<Rightarrow> Inl pg_no_rows
                | Some (Inl e) \<Rightarrow> Inl e
                | Some (Inr (db, a)) \<Rightarrow>
                    rbind (insertLiveCommand a ''revoke'' (rv_IdempotencyKey command) actorDigest commandDigest db)
                      (\<lambda>db. Inr (db, a))))))"

definition liveAuthorizationCommandKind :: "string \<Rightarrow> string result" where
  "liveAuthorizationCommandKind state =
     (if state = LiveAuthorizationSuperseded then Inr ''supersede''
      else if state = LiveAuthorizationClosed then Inr ''close''
      else Inl ErrLiveAuthorization)"

definition ChangeLiveState ::
  "publication_view \<Rightarrow> int \<Rightarrow> string \<Rightarrow> change_live \<Rightarrow> digest \<Rightarrow> digest \<Rightarrow> string \<Rightarrow> live_db \<Rightarrow>
     (live_db \<times> live_authorization) result" where
  "ChangeLiveState pv now state command actorDigest commandDigest key db =
     (if state \<noteq> LiveAuthorizationSuperseded \<and> state \<noteq> LiveAuthorizationClosed then Inl ErrLiveAuthorization
      else
      rbind (liveAuthorizationCommandKind state) (\<lambda>kind.
      rbind (loadLiveCommandReplay now kind key actorDigest commandDigest db) (\<lambda>(db, replay).
       case replay of
         Some a \<Rightarrow> Inr (db, a)
       | None \<Rightarrow>
           rbind (lockLiveAuthorization (cl_AuthorizationID command) db) (\<lambda>a.
           rbind (expireLiveAuthorization now a db) (\<lambda>(db, a, expired).
             if state = LiveAuthorizationClosed \<and>
                av_State a \<in> {LiveAuthorizationClosed, LiveAuthorizationRevoked, LiveAuthorizationExpired,
                              LiveAuthorizationSuperseded}
             then
               (if av_TransferID a \<noteq> cl_TransferID command \<or> av_PlanDigest a \<noteq> cl_ExpectedPlanDigest command \<or>
                   (\<not> expired \<and> av_Revision a \<noteq> cl_ExpectedRevision command)
                then Inl ErrLiveAuthorization else Inr (db, a))
             else if expired then Inr (db, a)
             else if av_TransferID a \<noteq> cl_TransferID command \<or> av_Revision a \<noteq> cl_ExpectedRevision command \<or>
                     av_PlanDigest a \<noteq> cl_ExpectedPlanDigest command \<or> \<not> open_state (av_State a)
             then Inl ErrLiveAuthorization
             else
               (case update_auth (cl_AuthorizationID command)
                   (\<lambda>r. av_Revision r = cl_ExpectedRevision command \<and> open_state (av_State r) \<and>
                        ((state = LiveAuthorizationSuperseded \<and> \<not> pv_attempted pv (av_TransferID r) (av_PlanID r)) \<or>
                         (state = LiveAuthorizationClosed \<and> \<not> pv_unfinished pv (av_TransferID r) (av_PlanID r))))
                   (\<lambda>r. r\<lparr>av_State := state, av_ClosedAt := Some (pg_time now), av_SafeReasonCode := cl_SafeReasonCode command,
                          av_Revision := av_Revision r + 1, av_UpdatedAt := pg_time now\<rparr>) db of
                  None \<Rightarrow> Inl ErrLiveAuthorization
                | Some (Inl e) \<Rightarrow> Inl e
                | Some (Inr (db, a)) \<Rightarrow>
                    rbind (insertLiveCommand a kind key actorDigest commandDigest db) (\<lambda>db. Inr (db, a))))))))"

definition targetOwnerMayMutate :: "string \<Rightarrow> bool" where
  "targetOwnerMayMutate ownerRole \<longleftrightarrow> ownerRole = RolePartner \<or> ownerRole = RoleAdmin"

definition target_row_ok :: "int \<Rightarrow> live_check \<Rightarrow> target_row \<Rightarrow> bool" where
  "target_row_ok now check w \<longleftrightarrow>
     tw_SellerID w = lc_SellerID check \<and> tw_ClientGeneration w = lc_ClientGeneration check \<and>
     tw_TargetSetRoot w = lc_TargetSetRoot check \<and> tw_PlanDigest w = lc_PlanDigest check \<and>
     tw_PlanTargetSetRoot w = lc_TargetSetRoot check \<and> now < tw_CredentialExpiresAt w \<and>
     tw_ContentRead w \<and> tw_ContentWrite w \<and>
     tw_Phase w \<in> {''preparing'', ''awaiting_authorization'', ''publishing'', ''reconciling'', ''media''} \<and>
     tw_Outcome w = ''running'' \<and> tw_ActionState w = ''planned'' \<and> tw_ActionAuthorizationID w = None \<and>
     tw_PlanState w \<in> {''awaiting_authorization'', ''executing''}"

definition LockValidLive :: "publication_view \<Rightarrow> int \<Rightarrow> live_check \<Rightarrow> live_db \<Rightarrow> (live_db \<times> live_evidence) result" where
  "LockValidLive pv now check db =
     rbind (lockLiveAuthorization (lc_AuthorizationID check) db) (\<lambda>a.
     rbind (expireLiveAuthorization now a db) (\<lambda>(db, a, expired).
       if expired then Inl ErrLiveExpired
       else
         (case av_ApprovedAt a of
            None \<Rightarrow> Inl ErrLiveAuthorization
          | Some approvedAt \<Rightarrow>
              if av_TransferID a \<noteq> lc_TransferID check \<or> av_Revision a \<noteq> lc_ExpectedRevision check \<or>
                 av_State a \<noteq> LiveAuthorizationAuthorized \<or> av_PlanDigest a \<noteq> lc_PlanDigest check \<or>
                 av_TargetSetRoot a \<noteq> lc_TargetSetRoot check
              then Inl ErrLiveAuthorization
              else
                (case pv_target pv (lc_TransferID check) (lc_ActionID check) (av_PlanID a) (lc_TargetID check) of
                   None \<Rightarrow> Inl pg_no_rows
                 | Some w \<Rightarrow>
                     if \<not> target_row_ok now check w \<or> \<not> targetOwnerMayMutate (tw_OwnerRole w)
                     then Inl ErrLiveAuthorization
                     else Inr (db,
                       \<lparr>le_AuthorizationID = av_ID a, le_Revision = av_Revision a, le_TransferID = av_TransferID a,
                        le_ActionID = lc_ActionID check, le_PlanDigest = av_PlanDigest a,
                        le_TargetSetRoot = av_TargetSetRoot a, le_TargetID = lc_TargetID check,
                        le_SellerID = lc_SellerID check, le_ClientGeneration = lc_ClientGeneration check,
                        le_ActorDigest = av_TrustedActorDigest a, le_ApprovedAt = approvedAt,
                        le_ExpiresAt = av_ExpiresAt a\<rparr>)))))"

section \<open>Plans that may be authorized\<close>

definition latest_authorization :: "live_db \<Rightarrow> plan_summary \<Rightarrow> int" where
  "latest_authorization db s =
     foldr max (map av_ID (filter (\<lambda>a. av_TransferID a = ps_TransferID s \<and> av_PlanID a = ps_PlanID s) (ld_auths db))) 0"

definition scanAuthorizationPlan :: "live_db \<Rightarrow> plan_row \<Rightarrow> plan_summary result" where
  "scanAuthorizationPlan db w =
     (let s = (pw_Summary w)\<lparr>ps_LatestAuthorizationID := latest_authorization db (pw_Summary w)\<rparr> in
      if length (ps_PlanDigest s) \<noteq> 32 \<or> length (ps_TargetSetRoot s) \<noteq> 32
      then Inl (GoErr NoSentinel ''authorization plan digest has invalid length'')
      else guard (PlanSummary_Validate s) (Inr s))"

definition plan_row_open :: "plan_row \<Rightarrow> bool" where
  "plan_row_open w \<longleftrightarrow>
     pw_Phase w \<in> {''preparing'', ''awaiting_authorization'', ''publishing'', ''reconciling'', ''media''} \<and>
     pw_Outcome w = ''running'' \<and> pw_PlanState w \<in> {''awaiting_authorization'', ''executing''} \<and> pw_HasPlannedAction w"

text \<open>The plan rows are ordered by transfer and plan; the unlocked query takes the last plan.\<close>

definition loadAuthorizationPlan ::
  "publication_view \<Rightarrow> live_db \<Rightarrow> int \<Rightarrow> int \<Rightarrow> digest \<Rightarrow> bool \<Rightarrow> plan_summary result" where
  "loadAuthorizationPlan pv db actorTelegramID transferID expectedDigest lock =
     (let rows = filter (\<lambda>w. ps_AuthorTelegramID (pw_Summary w) = actorTelegramID \<and> ps_TransferID (pw_Summary w) = transferID \<and>
            plan_row_open w \<and> (expectedDigest = zero_digest \<or> ps_PlanDigest (pw_Summary w) = expectedDigest)) (pv_plans pv)
      in case (if lock then rows else rev rows) of
           [] \<Rightarrow> Inl ErrLivePlanUnavailable
         | w # _ \<Rightarrow> scanAuthorizationPlan db w)"

definition GetAuthorizationPlan :: "publication_view \<Rightarrow> live_db \<Rightarrow> int \<Rightarrow> int \<Rightarrow> plan_summary result" where
  "GetAuthorizationPlan pv db actorTelegramID transferID =
     (if actorTelegramID \<le> 0 \<or> transferID \<le> 0 then Inl (GoErr ErrInvalidArgument ''invalid argument'')
      else loadAuthorizationPlan pv db actorTelegramID transferID zero_digest False)"

definition LockAuthorizationPlan :: "publication_view \<Rightarrow> live_db \<Rightarrow> int \<Rightarrow> int \<Rightarrow> digest \<Rightarrow> plan_summary result" where
  "LockAuthorizationPlan pv db actorTelegramID transferID planDigest =
     (if actorTelegramID \<le> 0 \<or> transferID \<le> 0 \<or> planDigest = zero_digest
      then Inl (GoErr ErrInvalidArgument ''invalid argument'')
      else loadAuthorizationPlan pv db actorTelegramID transferID planDigest True)"

text \<open>The rows are listed in the order of the query; \<open>clock\<close> is the database's current timestamp.\<close>

fun scan_plans :: "live_db \<Rightarrow> plan_row list \<Rightarrow> plan_summary list result" where
  "scan_plans db [] = Inr []"
| "scan_plans db (w # ws) = rbind (scanAuthorizationPlan db w) (\<lambda>s. rbind (scan_plans db ws) (\<lambda>ss. Inr (s # ss)))"

definition has_authorized :: "live_db \<Rightarrow> int \<Rightarrow> plan_summary \<Rightarrow> bool" where
  "has_authorized db clock s \<longleftrightarrow>
     list_ex (\<lambda>a. av_TransferID a = ps_TransferID s \<and> av_PlanDigest a = ps_PlanDigest s \<and>
       av_State a = LiveAuthorizationAuthorized \<and> clock < av_ExpiresAt a) (ld_auths db)"

definition ListAutomaticAuthorizationPlans :: "publication_view \<Rightarrow> live_db \<Rightarrow> int \<Rightarrow> int \<Rightarrow> plan_summary list result" where
  "ListAutomaticAuthorizationPlans pv db clock limit =
     (if limit \<le> 0 \<or> 100 < limit then Inl (GoErr ErrInvalidArgument ''invalid argument'')
      else scan_plans db (take (nat limit)
             (filter (\<lambda>w. plan_row_open w \<and> \<not> has_authorized db clock (pw_Summary w)) (pv_plans pv))))"

definition ListAuthorizationPlans :: "publication_view \<Rightarrow> live_db \<Rightarrow> int \<Rightarrow> int \<Rightarrow> int \<Rightarrow> plan_summary list result" where
  "ListAuthorizationPlans pv db clock actorTelegramID limit =
     (if actorTelegramID \<le> 0 \<or> limit \<le> 0 \<or> 100 < limit then Inl (GoErr ErrInvalidArgument ''invalid argument'')
      else scan_plans db (take (nat limit)
             (filter (\<lambda>w. ps_AuthorTelegramID (pw_Summary w) = actorTelegramID \<and> plan_row_open w \<and>
                \<not> has_authorized db clock (pw_Summary w)) (pv_plans pv))))"

section \<open>Service\<close>

text \<open>\<open>WithinTransaction\<close>: what begin, the context after the callback and commit return, and whether a
  failed commit was applied after all.\<close>

record tx_env =
  te_begin :: "goerr option"
  te_statement :: "goerr option"
  te_ctxErr :: "goerr option"
  te_commit :: "goerr option"
  te_commitApplied :: bool

definition WithinTransaction :: "tx_env \<Rightarrow> ('s \<Rightarrow> ('s \<times> 'a) result) \<Rightarrow> 's \<Rightarrow> 's \<times> 'a result" where
  "WithinTransaction env fn s =
     (case te_begin env of Some e \<Rightarrow> (s, Inl e)
      | None \<Rightarrow>
          (case (te_statement env, fn s) of
             (Some e, _) \<Rightarrow> (s, Inl e)
           | (None, Inl e) \<Rightarrow> (s, Inl e)
           | (None, Inr (s', x)) \<Rightarrow>
               (case te_ctxErr env of Some e \<Rightarrow> (s, Inl e)
                | None \<Rightarrow>
                    (case te_commit env of
                       Some e \<Rightarrow> (if te_commitApplied env then s' else s, Inl e)
                     | None \<Rightarrow> (s', Inr x)))))"

record live_service =
  lv_live :: bool
  lv_ttl :: int

definition NewLiveAuthorizationService_ok :: "live_service \<Rightarrow> bool" where
  "NewLiveAuthorizationService_ok svc \<longleftrightarrow> 0 < lv_ttl svc"

definition not_expired :: "live_authorization \<Rightarrow> live_authorization result" where
  "not_expired a = (if av_State a = LiveAuthorizationExpired then Inl ErrLiveExpired else Inr a)"

definition authorized_only :: "live_authorization \<Rightarrow> live_authorization result" where
  "authorized_only a =
     (if av_State a = LiveAuthorizationExpired then Inl ErrLiveExpired
      else if av_State a \<noteq> LiveAuthorizationAuthorized then Inl ErrLiveAuthorization else Inr a)"

definition Request ::
  "live_service \<Rightarrow> tx_env \<Rightarrow> publication_view \<Rightarrow> int \<Rightarrow> live_actor \<Rightarrow> request_live \<Rightarrow> live_db \<Rightarrow>
     live_db \<times> live_authorization result" where
  "Request svc env pv now actor command db =
     (if \<not> lv_live svc then (db, Inl ErrLiveModeDisabled)
      else (let actor = actor_normalized actor; command = request_normalized command in
        case or_else (actor_validate actor) (request_validate command) of
          Some e \<Rightarrow> (db, Inl e)
        | None \<Rightarrow>
            (let (db', r) = WithinTransaction env (\<lambda>db.
               rbind (LockAuthorizationPlan pv db (la_TelegramUserID actor) (rl_TransferID command) (rl_PlanDigest command))
                 (\<lambda>plan. RequestLive now (now + lv_ttl svc) actor (actor_digest actor) command (request_digest command) plan db)) db
             in (db', rbind r not_expired))))"

definition authorize_command :: "request_live \<Rightarrow> live_authorization \<Rightarrow> approve_live" where
  "authorize_command command a =
     \<lparr>al_TransferID = rl_TransferID command, al_AuthorizationID = av_ID a, al_ExpectedRevision = av_Revision a,
      al_ExpectedPlanDigest = rl_PlanDigest command, al_IdempotencyKey = rl_IdempotencyKey command @ '':approve''\<rparr>"

definition Authorize ::
  "live_service \<Rightarrow> tx_env \<Rightarrow> publication_view \<Rightarrow> int \<Rightarrow> live_actor \<Rightarrow> request_live \<Rightarrow> live_db \<Rightarrow>
     live_db \<times> live_authorization result" where
  "Authorize svc env pv now actor command db =
     (if \<not> lv_live svc then (db, Inl ErrLiveModeDisabled)
      else (let actor = actor_normalized actor; command = request_normalized command in
        case or_else (actor_validate actor) (or_else (request_validate command)
               (if MaxLiveIdempotencyKeyLength < length (rl_IdempotencyKey command @ '':approve'')
                then Some (GoErr ErrInvalidArgument ''automatic approve idempotency key is too long'') else None)) of
          Some e \<Rightarrow> (db, Inl e)
        | None \<Rightarrow>
            (let (db', r) = WithinTransaction env (\<lambda>db.
               rbind (LockAuthorizationPlan pv db (la_TelegramUserID actor) (rl_TransferID command) (rl_PlanDigest command)) (\<lambda>plan.
               rbind (RequestLive now (now + lv_ttl svc) actor (actor_digest actor) command (request_digest command) plan db)
                 (\<lambda>(db, a).
                    if av_State a = LiveAuthorizationAuthorized then Inr (db, a)
                    else ApproveLive now actor (actor_digest actor) (authorize_command command a)
                           (approve_digest (authorize_command command a)) db))) db
             in (db', rbind r authorized_only))))"

definition Approve ::
  "live_service \<Rightarrow> tx_env \<Rightarrow> publication_view \<Rightarrow> int \<Rightarrow> live_actor \<Rightarrow> approve_live \<Rightarrow> live_db \<Rightarrow>
     live_db \<times> live_authorization result" where
  "Approve svc env pv now actor command db =
     (if \<not> lv_live svc then (db, Inl ErrLiveModeDisabled)
      else (let actor = actor_normalized actor; command = approve_normalized command in
        case or_else (actor_validate actor) (approve_validate command) of
          Some e \<Rightarrow> (db, Inl e)
        | None \<Rightarrow>
            (let (db', r) = WithinTransaction env (\<lambda>db.
               rbind (LockAuthorizationPlan pv db (la_TelegramUserID actor) (al_TransferID command)
                        (al_ExpectedPlanDigest command)) (\<lambda>_.
                 ApproveLive now actor (actor_digest actor) command (approve_digest command) db)) db
             in (db', rbind r authorized_only))))"

definition Revoke ::
  "tx_env \<Rightarrow> int \<Rightarrow> live_actor \<Rightarrow> revoke_live \<Rightarrow> live_db \<Rightarrow> live_db \<times> live_authorization result" where
  "Revoke env now actor command db =
     (let actor = actor_normalized actor; command = revoke_normalized command in
      case or_else (actor_validate actor) (revoke_validate command) of
        Some e \<Rightarrow> (db, Inl e)
      | None \<Rightarrow>
          (let (db', r) = WithinTransaction env (RevokeLive now actor (actor_digest actor) command (revoke_digest command)) db
           in (db', rbind r not_expired)))"

text \<open>\<open>LockValid\<close>, \<open>SupersedeWithin\<close> and \<open>CloseWithin\<close> run inside the caller's transaction.\<close>

definition LockValid ::
  "live_service \<Rightarrow> publication_view \<Rightarrow> int \<Rightarrow> live_check \<Rightarrow> live_db \<Rightarrow> (live_db \<times> live_evidence) result" where
  "LockValid svc pv now check db =
     (if \<not> lv_live svc then Inl ErrLiveModeDisabled
      else guard (check_validate check) (LockValidLive pv now check db))"

definition changeStateWithin ::
  "publication_view \<Rightarrow> int \<Rightarrow> string \<Rightarrow> change_live \<Rightarrow> live_db \<Rightarrow> (live_db \<times> live_authorization) result" where
  "changeStateWithin pv now state command db =
     (let command = change_normalized command in
      guard (change_validate command)
       (if state \<noteq> LiveAuthorizationSuperseded \<and> state \<noteq> LiveAuthorizationClosed then Inl ErrLiveAuthorization
        else ChangeLiveState pv now state command systemLiveActorDigest (change_digest command state)
               (''system:'' @ state @ ''-live:'' @ format_int (cl_AuthorizationID command) @ '':'' @
                format_int (cl_ExpectedRevision command)) db))"

definition SupersedeWithin :: "publication_view \<Rightarrow> int \<Rightarrow> change_live \<Rightarrow> live_db \<Rightarrow> (live_db \<times> live_authorization) result" where
  "SupersedeWithin pv now command db = changeStateWithin pv now LiveAuthorizationSuperseded command db"

definition CloseWithin :: "publication_view \<Rightarrow> int \<Rightarrow> change_live \<Rightarrow> live_db \<Rightarrow> (live_db \<times> live_authorization) result" where
  "CloseWithin pv now command db = changeStateWithin pv now LiveAuthorizationClosed command db"

section \<open>The automatic processor\<close>

definition automaticAuthorizationPageSize :: int where "automaticAuthorizationPageSize = 100"

definition automatic_actor :: "plan_summary \<Rightarrow> live_actor" where
  "automatic_actor s = \<lparr>la_TelegramUserID = ps_AuthorTelegramID s, la_DisplayName = ''Telegram '' @ format_int (ps_AuthorTelegramID s)\<rparr>"

definition automatic_command :: "plan_summary \<Rightarrow> request_live" where
  "automatic_command s =
     \<lparr>rl_TransferID = ps_TransferID s, rl_PlanDigest = ps_PlanDigest s,
      rl_IdempotencyKey = ''auto:authorize:'' @ format_int (ps_TransferID s) @ '':'' @ format_int (ps_PlanRevision s) @ '':'' @
        format_int (ps_LatestAuthorizationID s) @ '':'' @ hex_encode (ps_PlanDigest s)\<rparr>"

definition automatic_authorize ::
  "live_service \<Rightarrow> tx_env \<Rightarrow> publication_view \<Rightarrow> int \<Rightarrow> plan_summary \<Rightarrow> live_db \<Rightarrow> live_db \<times> goerr option" where
  "automatic_authorize svc env pv now s db =
     (case PlanSummary_Validate s of
        Some e \<Rightarrow> (db, Some e)
      | None \<Rightarrow>
          (case Authorize svc env pv now (automatic_actor s) (automatic_command s) db of
             (db', Inl e) \<Rightarrow> (db', Some e)
           | (db', Inr _) \<Rightarrow> (db', None)))"

text \<open>The loop over the listed plans; every call has its own transaction and clock. The first error is
  returned and the rest of the plans are still tried.\<close>

fun process_plans ::
  "live_service \<Rightarrow> publication_view \<Rightarrow> (nat \<Rightarrow> tx_env \<times> int) \<Rightarrow> nat \<Rightarrow> plan_summary list \<Rightarrow> live_db \<Rightarrow>
     live_db \<times> goerr option" where
  "process_plans svc pv envs n [] db = (db, None)"
| "process_plans svc pv envs n (s # ss) db =
     (let (db', err) = automatic_authorize svc (fst (envs n)) pv (snd (envs n)) s db;
          (db'', err') = process_plans svc pv envs (Suc n) ss db'
      in (db'', or_else err err'))"

definition ProcessPending ::
  "live_service \<Rightarrow> publication_view \<Rightarrow> int \<Rightarrow> (nat \<Rightarrow> tx_env \<times> int) \<Rightarrow> live_db \<Rightarrow> live_db \<times> goerr option" where
  "ProcessPending svc pv clock envs db =
     (if \<not> lv_live svc then (db, None)
      else (case ListAutomaticAuthorizationPlans pv db clock automaticAuthorizationPageSize of
              Inl e \<Rightarrow> (db, Some e)
            | Inr plans \<Rightarrow> process_plans svc pv envs 0 plans db))"

end
