(* ===== verification/LiveAuthProps.thy ===== *)
theory LiveAuthProps
  imports LiveAuth
begin

text \<open>
  The life of live authorizations: an abstract machine that knows only the state and the revision of
  every authorization, the simulation of the repository and service by it, the invariant of the two
  tables, the evidence behind every grant and the idempotency of commands.
\<close>

section \<open>The abstract machine\<close>

type_synonym live_abs = "int \<Rightarrow> (string \<times> int) option"

inductive lifecycle :: "string \<Rightarrow> string \<Rightarrow> bool" where
  approve: "lifecycle LiveAuthorizationRequested LiveAuthorizationAuthorized"
| finish: "open_state s \<Longrightarrow>
    s' \<in> {LiveAuthorizationRevoked, LiveAuthorizationExpired, LiveAuthorizationSuperseded, LiveAuthorizationClosed} \<Longrightarrow>
    lifecycle s s'"

inductive abs_step :: "live_abs \<Rightarrow> live_abs \<Rightarrow> bool" where
  create: "m k = None \<Longrightarrow> abs_step m (m(k \<mapsto> (LiveAuthorizationRequested, 0)))"
| move: "m k = Some (s, r) \<Longrightarrow> lifecycle s s' \<Longrightarrow> abs_step m (m(k \<mapsto> (s', r + 1)))"

inductive_cases lifecycle_from: "lifecycle s s'"

definition live_abs :: "live_db \<Rightarrow> live_abs" where
  "live_abs db = (\<lambda>k. map_option (\<lambda>a. (av_State a, av_Revision a)) (find (\<lambda>a. av_ID a = k) (ld_auths db)))"

section \<open>The invariant\<close>

definition live_inv :: "live_db \<Rightarrow> bool" where
  "live_inv db \<longleftrightarrow>
     0 < ld_next db \<and> distinct (map av_ID (ld_auths db)) \<and> (\<forall>a \<in> set (ld_auths db). av_ID a < ld_next db) \<and>
     (\<forall>a \<in> set (ld_auths db). auth_checks a \<and> LiveAuthorization_Validate a = None) \<and>
     (\<forall>a \<in> set (ld_auths db). \<forall>b \<in> set (ld_auths db).
        open_for (av_TransferID a) (av_PlanID a) a \<longrightarrow> open_for (av_TransferID a) (av_PlanID a) b \<longrightarrow> av_ID a = av_ID b) \<and>
     distinct (map lm_IdempotencyKey (ld_commands db)) \<and>
     (\<forall>c \<in> set (ld_commands db). lm_AuthorizationID c \<in> av_ID ` set (ld_auths db))"

lemma live_invD:
  assumes "live_inv db"
  shows "0 < ld_next db" "distinct (map av_ID (ld_auths db))" "a \<in> set (ld_auths db) \<Longrightarrow> av_ID a < ld_next db"
    "a \<in> set (ld_auths db) \<Longrightarrow> auth_checks a" "a \<in> set (ld_auths db) \<Longrightarrow> LiveAuthorization_Validate a = None"
    "a \<in> set (ld_auths db) \<Longrightarrow> b \<in> set (ld_auths db) \<Longrightarrow> open_for (av_TransferID a) (av_PlanID a) a \<Longrightarrow>
       open_for (av_TransferID a) (av_PlanID a) b \<Longrightarrow> av_ID a = av_ID b"
    "distinct (map lm_IdempotencyKey (ld_commands db))"
    "c \<in> set (ld_commands db) \<Longrightarrow> lm_AuthorizationID c \<in> av_ID ` set (ld_auths db)"
  using assms unfolding live_inv_def by blast+

text \<open>The record of an approval: a command of the trusted actor with the digest of an approve command for
  this authorization and plan.\<close>

definition approved_by :: "live_authorization \<Rightarrow> live_command \<Rightarrow> bool" where
  "approved_by a c \<longleftrightarrow>
     lm_Kind c = ''approve'' \<and> lm_AuthorizationID c = av_ID a \<and> lm_ActorDigest c = av_TrustedActorDigest a \<and>
     (\<exists>cmd. lm_CommandDigest c = approve_digest cmd \<and> al_TransferID cmd = av_TransferID a \<and>
        al_AuthorizationID cmd = av_ID a \<and> al_ExpectedPlanDigest cmd = av_PlanDigest a)"

definition evidence :: "live_db \<Rightarrow> bool" where
  "evidence db \<longleftrightarrow>
     (\<forall>a \<in> set (ld_auths db). av_ApprovedAt a \<noteq> None \<longrightarrow> (\<exists>c \<in> set (ld_commands db). approved_by a c))"

definition evolves :: "live_db \<Rightarrow> live_db \<Rightarrow> bool" where
  "evolves db db' \<longleftrightarrow>
     (live_inv db \<longrightarrow> live_inv db' \<and> abs_step\<^sup>*\<^sup>* (live_abs db) (live_abs db') \<and> (evidence db \<longrightarrow> evidence db'))"

lemma evolves_refl [simp, intro]: "evolves db db"
  by (simp add: evolves_def)

lemma evolves_trans: "evolves a b \<Longrightarrow> evolves b c \<Longrightarrow> evolves a c"
  by (auto simp: evolves_def)

section \<open>Statements\<close>

lemma find_id:
  assumes "distinct (map av_ID xs)" "a \<in> set xs"
  shows "find (\<lambda>x. av_ID x = av_ID a) xs = Some a"
  using assms by (induction xs) auto

lemma find_id_map:
  assumes "\<And>a. av_ID (f a) = av_ID a"
  shows "find (\<lambda>a. av_ID a = k) (map f xs) = map_option f (find (\<lambda>a. av_ID a = k) xs)"
  by (induction xs) (auto simp: assms)

lemma find_SomeD: "find P xs = Some x \<Longrightarrow> x \<in> set xs \<and> P x"
  by (induction xs) (auto split: if_splits)

definition same_identity :: "live_authorization \<Rightarrow> live_authorization \<Rightarrow> bool" where
  "same_identity a b \<longleftrightarrow>
     av_ID a = av_ID b \<and> av_TransferID a = av_TransferID b \<and> av_PlanID a = av_PlanID b \<and>
     av_PlanDigest a = av_PlanDigest b \<and> av_TrustedActorDigest a = av_TrustedActorDigest b"

lemma update_authD:
  assumes "update_auth k p f db = Some (Inr (db', row))"
  shows "\<exists>a \<in> set (ld_auths db). av_ID a = k \<and> p a \<and> row = f a \<and> auth_checks row \<and>
    LiveAuthorization_Validate row = None \<and> db' = set_auth row db"
  using assms find_SomeD
  by (fastforce simp: update_auth_def scan_auth_def guard_def rbind_eq_Inr_iff split: option.splits if_splits)

lemma set_auth_set: "x \<in> set (ld_auths (set_auth row db)) \<longleftrightarrow>
    x = row \<and> (\<exists>a \<in> set (ld_auths db). av_ID a = av_ID row) \<or> x \<in> set (ld_auths db) \<and> av_ID x \<noteq> av_ID row"
  by (auto simp: set_auth_def)

lemma set_auth_ids [simp]: "map av_ID (ld_auths (set_auth row db)) = map av_ID (ld_auths db)"
  by (auto simp: set_auth_def)

lemma set_auth_ids_set [simp]: "av_ID ` set (ld_auths (set_auth row db)) = av_ID ` set (ld_auths db)"
  using set_auth_ids [of row db] by (metis list.set_map)

lemma set_auth_other [simp]:
  "ld_commands (set_auth row db) = ld_commands db" "ld_next (set_auth row db) = ld_next db"
  by (simp_all add: set_auth_def)

lemma set_auth_inv:
  assumes inv: "live_inv db" and a: "a \<in> set (ld_auths db)" and same: "same_identity a row"
    and ok: "auth_checks row" "LiveAuthorization_Validate row = None"
    and op: "open_state (av_State row) \<Longrightarrow> open_state (av_State a)"
  shows "live_inv (set_auth row db)"
proof -
  have uniq: "x = a" if "x \<in> set (ld_auths db)" "av_ID x = av_ID row" for x
    using that a same inv by (auto simp: live_inv_def same_identity_def distinct_map inj_on_def)
  have uniq_open: "av_ID x = av_ID y"
    if "x \<in> set (ld_auths db)" "y \<in> set (ld_auths db)"
      "open_for (av_TransferID x) (av_PlanID x) x" "open_for (av_TransferID x) (av_PlanID x) y" for x y
    using that inv unfolding live_inv_def by blast
  have opens: "av_ID x = av_ID y"
    if "x \<in> set (ld_auths (set_auth row db))" "y \<in> set (ld_auths (set_auth row db))"
      "open_for (av_TransferID x) (av_PlanID x) x" "open_for (av_TransferID x) (av_PlanID x) y" for x y
  proof -
    let ?prev = "\<lambda>z. if z = row then a else z"
    have "?prev z \<in> set (ld_auths db) \<and> av_ID (?prev z) = av_ID z \<and> av_TransferID (?prev z) = av_TransferID z \<and>
        av_PlanID (?prev z) = av_PlanID z \<and> (open_state (av_State z) \<longrightarrow> open_state (av_State (?prev z)))"
      if "z \<in> set (ld_auths (set_auth row db))" for z
      using that a same op by (auto simp: set_auth_set same_identity_def)
    note bk = this [OF that(1)] this [OF that(2)]
    have "open_for (av_TransferID (?prev x)) (av_PlanID (?prev x)) (?prev x)"
      "open_for (av_TransferID (?prev x)) (av_PlanID (?prev x)) (?prev y)"
      using bk that(3,4) by (auto simp: open_for_def simp del: if_split)
    then have "av_ID (?prev x) = av_ID (?prev y)" using bk uniq_open by blast
    then show ?thesis using bk by (simp del: if_split)
  qed
  have "av_ID x < ld_next db \<and> auth_checks x \<and> LiveAuthorization_Validate x = None"
    if "x \<in> set (ld_auths (set_auth row db))" for x
    using that ok a same inv by (auto simp: set_auth_set live_inv_def same_identity_def)
  with opens inv show ?thesis
    unfolding live_inv_def by (simp del: list.set_map map_map)
qed

lemma set_auth_abs:
  assumes "live_inv db" "a \<in> set (ld_auths db)" "av_ID a = av_ID row"
  shows "live_abs (set_auth row db) = (live_abs db)(av_ID row \<mapsto> (av_State row, av_Revision row))"
proof
  fix k
  have "find (\<lambda>x. av_ID x = av_ID row) (ld_auths db) = Some a"
    using assms find_id by (metis live_inv_def)
  moreover have "find (\<lambda>x. av_ID x = k) (ld_auths (set_auth row db)) =
      map_option (\<lambda>x. if av_ID x = av_ID row then row else x) (find (\<lambda>x. av_ID x = k) (ld_auths db))"
    unfolding set_auth_def by (simp add: find_id_map)
  ultimately show "live_abs (set_auth row db) k = ((live_abs db)(av_ID row \<mapsto> (av_State row, av_Revision row))) k"
    using find_SomeD by (cases "find (\<lambda>x. av_ID x = k) (ld_auths db)") (fastforce simp: live_abs_def)+
qed

lemma set_auth_evidence:
  assumes "evidence db" "a \<in> set (ld_auths db)" "same_identity a row" "av_ApprovedAt row = av_ApprovedAt a"
  shows "evidence (set_auth row db)"
proof -
  have "approved_by a c \<Longrightarrow> approved_by row c" for c
    using assms(3) by (auto simp: approved_by_def same_identity_def)
  then show ?thesis using assms unfolding evidence_def by (auto simp: set_auth_set) metis
qed

text \<open>An update that moves an open authorization along its life.\<close>

lemma update_evolves:
  assumes "update_auth k p f db = Some (Inr (db', row))"
    and "\<And>a. p a \<Longrightarrow> av_ID a = k \<Longrightarrow> same_identity a (f a) \<and> av_ApprovedAt (f a) = av_ApprovedAt a \<and> lifecycle (av_State a) (av_State (f a)) \<and>
           av_Revision (f a) = av_Revision a + 1 \<and> (open_state (av_State (f a)) \<longrightarrow> open_state (av_State a))"
  shows "evolves db db' \<and> row \<in> set (ld_auths db')"
proof -
  obtain a where a: "a \<in> set (ld_auths db)" "av_ID a = k" "p a" "row = f a" "auth_checks row"
    "LiveAuthorization_Validate row = None" "db' = set_auth row db"
    using update_authD [OF assms(1)] by blast
  note f = assms(2) [OF a(3,2)]
  have same: "same_identity a row" "av_ID a = av_ID row" using f a(4) by (auto simp: same_identity_def)
  have "row \<in> set (ld_auths db')" using a same by (auto simp: set_auth_set)
  moreover have "evolves db db'" unfolding evolves_def
  proof (intro impI conjI)
    assume inv: "live_inv db"
    show "live_inv db'" using set_auth_inv [OF inv a(1) same(1) a(5,6)] f a(4,7) by blast
    have "live_abs db (av_ID row) = Some (av_State a, av_Revision a)"
      using find_id [of "ld_auths db" a] inv a(1) same(2) by (auto simp: live_abs_def live_inv_def)
    then have "abs_step (live_abs db) (live_abs db')"
      using set_auth_abs [OF inv a(1) same(2)] f a(4,7) by (auto intro: abs_step.move)
    then show "abs_step\<^sup>*\<^sup>* (live_abs db) (live_abs db')" by blast
    assume "evidence db"
    then show "evidence db'" using set_auth_evidence [OF _ a(1) same(1)] f a(4,7) by blast
  qed
  ultimately show ?thesis by blast
qed

lemma insertLiveCommand_evolves:
  assumes "insertLiveCommand a kind key ad cd db = Inr db'" "a \<in> set (ld_auths db)"
  shows "evolves db db' \<and> ld_auths db' = ld_auths db"
proof -
  have db': "ld_auths db' = ld_auths db" "ld_next db' = ld_next db"
    "\<exists>c. ld_commands db' = ld_commands db @ [c] \<and> lm_AuthorizationID c = av_ID a \<and> lm_IdempotencyKey c = key"
    "key \<notin> lm_IdempotencyKey ` set (ld_commands db)"
    using assms(1) by (auto simp: insertLiveCommand_def list_ex_iff split: if_splits)
  then have "live_inv db \<Longrightarrow> live_inv db'" using assms(2) by (auto simp: live_inv_def)
  moreover have "live_abs db' = live_abs db" using db' by (simp add: live_abs_def)
  moreover have "evidence db \<Longrightarrow> evidence db'" using db' by (auto simp: evidence_def)
  ultimately show ?thesis using db' by (simp add: evolves_def)
qed

lemma insert_auth_evolves:
  assumes "insert_auth row db = Inr (db', a)" "av_State row = LiveAuthorizationRequested" "av_Revision row = 0"
    "av_ApprovedAt row = None"
  shows "evolves db db' \<and> a \<in> set (ld_auths db') \<and> a = row\<lparr>av_ID := ld_next db\<rparr> \<and> ld_commands db' = ld_commands db"
proof -
  define new where "new = row\<lparr>av_ID := ld_next db\<rparr>"
  have r: "auth_checks new" "LiveAuthorization_Validate new = None" "a = new"
    "db' = db\<lparr>ld_auths := ld_auths db @ [new], ld_next := ld_next db + 1\<rparr>"
    "\<forall>b \<in> set (ld_auths db). \<not> open_for (av_TransferID new) (av_PlanID new) b"
    using assms(1) by (auto simp: new_def insert_auth_def Let_def rbind_eq_Inr_iff scan_auth_def guard_def list_ex_iff
        split: if_splits option.splits)
  have f: "av_ID new = ld_next db" "av_State new = LiveAuthorizationRequested" "av_Revision new = 0"
    "av_ApprovedAt new = None"
    using assms(2-4) by (simp_all add: new_def)
  have "evolves db db'" unfolding evolves_def
  proof (intro impI conjI)
    assume inv: "live_inv db"
    have fresh: "ld_next db \<notin> av_ID ` set (ld_auths db)" using live_invD(3) [OF inv] by fastforce
    have "av_ID x = av_ID y" if "x \<in> set (ld_auths db) \<union> {new}" "y \<in> set (ld_auths db) \<union> {new}"
      "open_for (av_TransferID x) (av_PlanID x) x" "open_for (av_TransferID x) (av_PlanID x) y" for x y
    proof -
      have no: "\<not> open_for (av_TransferID new) (av_PlanID new) b" if "b \<in> set (ld_auths db)" for b
        using r(5) that by blast
      have iff: "open_for (av_TransferID x) (av_PlanID x) y \<Longrightarrow> open_for (av_TransferID x) (av_PlanID x) x \<Longrightarrow>
          open_for (av_TransferID y) (av_PlanID y) x"
        by (auto simp: open_for_def)
      from that(1,2) consider "x = new" "y = new" | "x = new" "y \<in> set (ld_auths db)"
        | "x \<in> set (ld_auths db)" "y = new" | "x \<in> set (ld_auths db)" "y \<in> set (ld_auths db)" by blast
      then show ?thesis
      proof cases
        case 4
        with that(3,4) inv show ?thesis unfolding live_inv_def by blast
      qed (use no that(3,4) iff in blast)+
    qed
    note opens = this
    have auths: "set (ld_auths db') = set (ld_auths db) \<union> {new}" "ld_next db' = ld_next db + 1"
      "map av_ID (ld_auths db') = map av_ID (ld_auths db) @ [ld_next db]" "ld_commands db' = ld_commands db"
      using r(4) f(1) by simp_all
    show "live_inv db'" unfolding live_inv_def auths
    proof (intro conjI ballI)
      show "distinct (map av_ID (ld_auths db) @ [ld_next db])" using live_invD(2) [OF inv] fresh by simp
      show "av_ID x < ld_next db + 1" if "x \<in> set (ld_auths db) \<union> {new}" for x
        using that live_invD(3) [OF inv, of x] f(1) by auto
      show "auth_checks x" if "x \<in> set (ld_auths db) \<union> {new}" for x
        using that live_invD(4) [OF inv, of x] r(1) by blast
      show "LiveAuthorization_Validate x = None" if "x \<in> set (ld_auths db) \<union> {new}" for x
        using that live_invD(5) [OF inv, of x] r(2) by blast
      show "lm_AuthorizationID c \<in> av_ID ` (set (ld_auths db) \<union> {new})" if "c \<in> set (ld_commands db)" for c
        using live_invD(8) [OF inv that] by blast
      show "open_for (av_TransferID x) (av_PlanID x) x \<longrightarrow> open_for (av_TransferID x) (av_PlanID x) y \<longrightarrow> av_ID x = av_ID y"
        if "x \<in> set (ld_auths db) \<union> {new}" "y \<in> set (ld_auths db) \<union> {new}" for x y
        using opens that by blast
      show "0 < ld_next db + 1" using live_invD(1) [OF inv] by simp
      show "distinct (map lm_IdempotencyKey (ld_commands db))" by (rule live_invD(7) [OF inv])
    qed
    have "find (\<lambda>a. av_ID a = ld_next db) (ld_auths db) = None"
      using fresh by (auto simp: find_None_iff image_iff)
    then have "live_abs db (ld_next db) = None" by (simp add: live_abs_def)
    moreover have "live_abs db' = (live_abs db)(ld_next db \<mapsto> (LiveAuthorizationRequested, 0))"
    proof
      fix k
      have app: "find P (xs @ [x]) = (case find P xs of None \<Rightarrow> if P x then Some x else None | Some y \<Rightarrow> Some y)"
        for P :: "live_authorization \<Rightarrow> bool" and xs x
        by (induction xs) auto
      show "live_abs db' k = ((live_abs db)(ld_next db \<mapsto> (LiveAuthorizationRequested, 0))) k"
      proof (cases "k = ld_next db")
        case True
        then show ?thesis using \<open>find (\<lambda>a. av_ID a = ld_next db) (ld_auths db) = None\<close> r(4) f
          by (simp add: live_abs_def app)
      next
        case False
        then show ?thesis using r(4) f by (simp add: live_abs_def app split: option.split)
      qed
    qed
    ultimately show "abs_step\<^sup>*\<^sup>* (live_abs db) (live_abs db')" by (metis abs_step.create r_into_rtranclp)
    assume "evidence db"
    then show "evidence db'" using r f(4) by (auto simp: evidence_def)
  qed
  with r show ?thesis by (simp add: new_def)
qed

section \<open>Operations\<close>

lemma terminal_states [simp]:
  "\<not> open_state LiveAuthorizationRevoked" "\<not> open_state LiveAuthorizationExpired"
  "\<not> open_state LiveAuthorizationSuperseded" "\<not> open_state LiveAuthorizationClosed"
  "open_state LiveAuthorizationRequested" "open_state LiveAuthorizationAuthorized"
  by (simp_all add: live_states open_state_def)

lemma expire_evolves:
  assumes "expireLiveAuthorization now a db = Inr (db', a', ex)" "a \<in> set (ld_auths db)"
  shows "evolves db db' \<and> a' \<in> set (ld_auths db') \<and>
    (\<not> ex \<longrightarrow> db' = db \<and> a' = a \<and> (now < av_ExpiresAt a \<or> \<not> open_state (av_State a))) \<and>
    (ex \<longrightarrow> av_State a' = LiveAuthorizationExpired)"
proof (cases "now < av_ExpiresAt a \<or> \<not> open_state (av_State a)")
  case True
  then show ?thesis using assms by (auto simp: expireLiveAuthorization_def)
next
  case False
  let ?f = "\<lambda>r. r\<lparr>av_State := LiveAuthorizationExpired, av_SafeReasonCode := ''authorization_ttl_expired'',
                   av_Revision := av_Revision r + 1, av_UpdatedAt := pg_time now\<rparr>"
  obtain db1 where u: "update_auth (av_ID a) (\<lambda>r. open_state (av_State r)) ?f db = Some (Inr (db1, a'))"
    and c: "insertSystemExpireCommand a a' db1 = Inr db'" and ex: "ex"
    using assms(1) False
    by (auto simp: expireLiveAuthorization_def rbind_eq_Inr_iff split: option.splits sum.splits)
  have "evolves db db1 \<and> a' \<in> set (ld_auths db1)"
    by (rule update_evolves [OF u]) (simp add: same_identity_def lifecycle.finish)
  moreover from this have "evolves db1 db' \<and> ld_auths db' = ld_auths db1"
    using insertLiveCommand_evolves c by (simp add: insertSystemExpireCommand_def)
  moreover have "av_State a' = LiveAuthorizationExpired" using update_authD [OF u] by auto
  ultimately show ?thesis using ex evolves_trans by auto
qed

lemma lock_in: "lockLiveAuthorization k db = Inr a \<Longrightarrow> a \<in> set (ld_auths db) \<and> av_ID a = k"
  by (auto simp: lockLiveAuthorization_def scan_auth_def guard_def dest: find_SomeD split: option.splits)

lemma lockOpen_in: "lockOpenLiveAuthorization t p db = Inr (Some a) \<Longrightarrow> a \<in> set (ld_auths db) \<and> open_for t p a"
  by (auto simp: lockOpenLiveAuthorization_def scan_auth_def guard_def rbind_eq_Inr_iff dest: find_SomeD
      split: option.splits)

lemma replay_evolves:
  assumes "loadLiveCommandReplay now kind key ad cd db = Inr (db', r)"
  shows "evolves db db' \<and> (\<forall>a. r = Some a \<longrightarrow> a \<in> set (ld_auths db')) \<and> (r = None \<longrightarrow> db' = db)"
proof (cases "\<exists>c a. find (\<lambda>c. lm_IdempotencyKey c = key) (ld_commands db) = Some c \<and>
    find (\<lambda>a. av_ID a = lm_AuthorizationID c) (ld_auths db) = Some a")
  case True
  then obtain c a where ca: "find (\<lambda>c. lm_IdempotencyKey c = key) (ld_commands db) = Some c"
    "find (\<lambda>a. av_ID a = lm_AuthorizationID c) (ld_auths db) = Some a" by blast
  obtain a' ex where e: "expireLiveAuthorization now a db = Inr (db', a', ex)" "r = Some a'"
    using assms ca by (auto simp: loadLiveCommandReplay_def rbind_eq_Inr_iff scan_auth_def guard_def
        split: option.splits if_splits)
  have "a \<in> set (ld_auths db)" using find_SomeD [OF ca(2)] by blast
  from expire_evolves [OF e(1) this] e(2) show ?thesis by simp
next
  case False
  then show ?thesis using assms by (auto simp: loadLiveCommandReplay_def split: option.splits)
qed

lemma insert_requested_evolves:
  assumes "insert_requested now expiresAt actor ad command cd plan db = Inr (db', a)"
  shows "evolves db db' \<and> a \<in> set (ld_auths db')"
proof -
  obtain db1 where i: "insert_auth (requested_row now expiresAt actor ad command plan) db = Inr (db1, a)"
    and c: "insertLiveCommand a ''request'' (rl_IdempotencyKey command) ad cd db1 = Inr db'"
    using assms by (auto simp: insert_requested_def rbind_eq_Inr_iff)
  have "evolves db db1 \<and> a \<in> set (ld_auths db1)"
    using insert_auth_evolves [OF i] unfolding requested_row_def by simp_all blast
  with insertLiveCommand_evolves [OF c] evolves_trans show ?thesis by metis
qed

lemma RequestLive_evolves:
  assumes "RequestLive now expiresAt actor ad command cd plan db = Inr (db', a)"
  shows "evolves db db' \<and> a \<in> set (ld_auths db')"
proof -
  obtain db1 replay where r: "loadLiveCommandReplay now ''request'' (rl_IdempotencyKey command) ad cd db = Inr (db1, replay)"
    using assms by (auto simp: RequestLive_def rbind_eq_Inr_iff)
  note R = replay_evolves [OF r]
  show ?thesis
  proof (cases replay)
    case (Some x)
    then show ?thesis using assms r R by (auto simp: RequestLive_def)
  next
    case None
    obtain found where f: "lockOpenLiveAuthorization (rl_TransferID command) (ps_PlanID plan) db1 = Inr found"
      using assms r None
      by (cases "lockOpenLiveAuthorization (rl_TransferID command) (ps_PlanID plan) db1") (simp_all add: RequestLive_def)
    show ?thesis
    proof (cases found)
      case None
      with \<open>replay = None\<close> have "insert_requested now expiresAt actor ad command cd plan db1 = Inr (db', a)"
        using assms r f by (auto simp: RequestLive_def)
      from insert_requested_evolves [OF this] R show ?thesis by (meson evolves_trans)
    next
      case (Some x)
      then obtain db2 y ex where e: "expireLiveAuthorization now x db1 = Inr (db2, y, ex)"
        using assms r f \<open>replay = None\<close> by (auto simp: RequestLive_def rbind_eq_Inr_iff)
      have E: "evolves db1 db2" "y \<in> set (ld_auths db2)" using expire_evolves [OF e] lockOpen_in f Some by blast+
      show ?thesis
      proof (cases ex)
        case True
        then have "insert_requested now expiresAt actor ad command cd plan db2 = Inr (db', a)"
          using assms r f e Some \<open>replay = None\<close> by (auto simp: RequestLive_def)
        from insert_requested_evolves [OF this] R E show ?thesis by (meson evolves_trans)
      next
        case False
        let ?bad = "av_PlanDigest y \<noteq> rl_PlanDigest command \<or> av_TrustedActorID y \<noteq> la_TelegramUserID actor \<or>
          av_TrustedActorDigest y \<noteq> ad"
        have "(if ?bad then Inl ErrLiveAuthorization
            else rbind (insertLiveCommand y ''request'' (rl_IdempotencyKey command) ad cd db2) (\<lambda>db. Inr (db, y))) = Inr (db', a)"
          using assms r f e Some \<open>replay = None\<close> False by (simp add: RequestLive_def)
        then have c: "insertLiveCommand y ''request'' (rl_IdempotencyKey command) ad cd db2 = Inr db'" "y = a"
          by (cases ?bad; simp add: rbind_eq_Inr_iff)+
        from insertLiveCommand_evolves [OF c(1) E(2)] R E c(2) show ?thesis by (metis evolves_trans)
      qed
    qed
  qed
qed

text \<open>What every guarded change does before its update: replay, lock, expire.\<close>

lemma guarded_cases:
  assumes "rbind (loadLiveCommandReplay now kind key ad cd db) (\<lambda>(db, replay).
      case replay of Some a \<Rightarrow> Inr (db, a)
      | None \<Rightarrow> rbind (lockLiveAuthorization k db) (\<lambda>a. rbind (expireLiveAuthorization now a db) (\<lambda>(db, a, expired). body db a expired))) =
      Inr (db', r)"
  obtains (replayed) "evolves db db'" "r \<in> set (ld_auths db')"
  | (expired) db2 y where "evolves db db2" "y \<in> set (ld_auths db2)" "av_State y = LiveAuthorizationExpired"
      "body db2 y True = Inr (db', r)"
  | (current) x where "x \<in> set (ld_auths db)" "av_ID x = k" "now < av_ExpiresAt x \<or> \<not> open_state (av_State x)"
      "body db x False = Inr (db', r)"
proof -
  obtain db1 replay where r: "loadLiveCommandReplay now kind key ad cd db = Inr (db1, replay)"
    using assms by (auto simp: rbind_eq_Inr_iff)
  note R = replay_evolves [OF r]
  show thesis
  proof (cases replay)
    case (Some a)
    then show thesis using assms r R replayed by simp
  next
    case None
    then obtain x db2 y ex where l: "lockLiveAuthorization k db = Inr x"
      and e: "expireLiveAuthorization now x db = Inr (db2, y, ex)" and b: "body db2 y ex = Inr (db', r)"
      using assms r R by (auto simp: rbind_eq_Inr_iff)
    have E: "evolves db db2" "y \<in> set (ld_auths db2)"
      "\<not> ex \<Longrightarrow> db2 = db \<and> y = x \<and> (now < av_ExpiresAt x \<or> \<not> open_state (av_State x))"
      "ex \<Longrightarrow> av_State y = LiveAuthorizationExpired"
      using expire_evolves [OF e] lock_in [OF l] by blast+
    show thesis
    proof (cases ex)
      case True
      then show thesis using E b by (intro expired [of db2 y]) simp_all
    next
      case False
      then show thesis using E(3) lock_in [OF l] b by (intro current [of x]) simp_all
    qed
  qed
qed

lemma update_command_evolves:
  assumes "update_auth k p f db = Some (Inr (db1, row))" "insertLiveCommand row kind key ad cd db1 = Inr db'"
    and "\<And>a. p a \<Longrightarrow> av_ID a = k \<Longrightarrow> same_identity a (f a) \<and> av_ApprovedAt (f a) = av_ApprovedAt a \<and> lifecycle (av_State a) (av_State (f a)) \<and>
           av_Revision (f a) = av_Revision a + 1 \<and> (open_state (av_State (f a)) \<longrightarrow> open_state (av_State a))"
  shows "evolves db db' \<and> row \<in> set (ld_auths db')"
proof -
  have u: "evolves db db1" "row \<in> set (ld_auths db1)" using update_evolves [OF assms(1,3)] by blast+
  from insertLiveCommand_evolves [OF assms(2) u(2)] u show ?thesis by (metis evolves_trans)
qed

lemma approve_evolves:
  assumes u: "update_auth (al_AuthorizationID cmd)
      (\<lambda>r. av_State r = LiveAuthorizationRequested \<and> av_Revision r = al_ExpectedRevision cmd)
      (\<lambda>r. r\<lparr>av_State := LiveAuthorizationAuthorized, av_ApprovedAt := Some (pg_time now),
             av_Revision := av_Revision r + 1, av_UpdatedAt := pg_time now\<rparr>) db = Some (Inr (db1, row))"
    and c: "insertLiveCommand row ''approve'' key ad (approve_digest cmd) db1 = Inr db'"
    and a: "a \<in> set (ld_auths db)" "av_ID a = al_AuthorizationID cmd" "av_TransferID a = al_TransferID cmd"
      "av_PlanDigest a = al_ExpectedPlanDigest cmd" "av_TrustedActorDigest a = ad"
  shows "evolves db db' \<and> row \<in> set (ld_auths db')"
proof -
  obtain b where b: "b \<in> set (ld_auths db)" "av_ID b = al_AuthorizationID cmd" "av_State b = LiveAuthorizationRequested"
    "row = b\<lparr>av_State := LiveAuthorizationAuthorized, av_ApprovedAt := Some (pg_time now),
             av_Revision := av_Revision b + 1, av_UpdatedAt := pg_time now\<rparr>"
    "auth_checks row" "LiveAuthorization_Validate row = None" "db1 = set_auth row db"
    using update_authD [OF u] by blast
  have same: "same_identity b row" using b(4) by (simp add: same_identity_def)
  have row: "av_ID row = al_AuthorizationID cmd" "av_State row = LiveAuthorizationAuthorized"
    "av_Revision row = av_Revision b + 1" using b(2,4) by simp_all
  have "row \<in> set (ld_auths db1)" using b row by (auto simp: set_auth_set)
  note C = insertLiveCommand_evolves [OF c this]
  obtain new where new: "ld_commands db' = ld_commands db @ [new]" "lm_Kind new = ''approve''" "lm_AuthorizationID new = av_ID row"
    "lm_ActorDigest new = ad" "lm_CommandDigest new = approve_digest cmd"
    using c b(7) by (auto simp: insertLiveCommand_def split: if_splits)
  have "evolves db db'" unfolding evolves_def
  proof (intro impI conjI)
    assume inv: "live_inv db"
    have inv1: "live_inv db1" using set_auth_inv [OF inv b(1) same b(5,6)] b(3,7) by simp
    then show "live_inv db'" using C by (simp add: evolves_def)
    have "b = a" using inv b(1,2) a(1,2) by (auto simp: live_inv_def distinct_map inj_on_def)
    have "live_abs db (av_ID row) = Some (LiveAuthorizationRequested, av_Revision b)"
      using find_id [OF live_invD(2) [OF inv] b(1)] b(2,3) row by (simp add: live_abs_def)
    then have "abs_step (live_abs db) (live_abs db1)"
      using set_auth_abs [OF inv b(1)] b(2,7) row by (auto intro: abs_step.move lifecycle.approve)
    then show "abs_step\<^sup>*\<^sup>* (live_abs db) (live_abs db')" using C inv1 by (auto simp: evolves_def)
    assume ev: "evidence db"
    have "approved_by row new"
      using new same a \<open>b = a\<close> by (auto simp: approved_by_def same_identity_def)
    then show "evidence db'"
      using ev C new(1) b(7) unfolding evidence_def by (auto simp: set_auth_set)
  qed
  with C \<open>row \<in> set (ld_auths db1)\<close> show ?thesis by simp
qed

lemma if_Inr: "(if b then Inl e else x) = Inr y \<longleftrightarrow> \<not> b \<and> x = Inr y"
  by simp

lemma ApproveLive_evolves:
  assumes "ApproveLive now actor ad cmd (approve_digest cmd) db = Inr (db', a)"
  shows "evolves db db' \<and> a \<in> set (ld_auths db')"
  using assms unfolding ApproveLive_def
proof (cases rule: guarded_cases)
  case (current x)
  then obtain db3 where u: "update_auth (al_AuthorizationID cmd)
          (\<lambda>r. av_State r = LiveAuthorizationRequested \<and> av_Revision r = al_ExpectedRevision cmd)
          (\<lambda>r. r\<lparr>av_State := LiveAuthorizationAuthorized, av_ApprovedAt := Some (pg_time now),
                 av_Revision := av_Revision r + 1, av_UpdatedAt := pg_time now\<rparr>) db = Some (Inr (db3, a))"
    and c: "insertLiveCommand a ''approve'' (al_IdempotencyKey cmd) ad (approve_digest cmd) db3 = Inr db'"
    by (simp add: if_Inr) (auto simp: rbind_eq_Inr_iff split: option.splits sum.splits)
  from current(4) have "av_TransferID x = al_TransferID cmd" "av_PlanDigest x = al_ExpectedPlanDigest cmd"
    "av_TrustedActorDigest x = ad" by (simp_all add: if_Inr)
  from approve_evolves [OF u c current(1,2) this] show ?thesis .
qed simp_all

lemma RevokeLive_evolves:
  assumes "RevokeLive now actor ad cmd cd db = Inr (db', a)"
  shows "evolves db db' \<and> a \<in> set (ld_auths db')"
  using assms unfolding RevokeLive_def
proof (cases rule: guarded_cases)
  case (current x)
  then obtain db3 where u: "update_auth (rv_AuthorizationID cmd)
          (\<lambda>r. av_Revision r = rv_ExpectedRevision cmd \<and> open_state (av_State r))
          (\<lambda>r. r\<lparr>av_State := LiveAuthorizationRevoked, av_RevokedAt := Some (pg_time now),
                 av_SafeReasonCode := rv_SafeReasonCode cmd, av_Revision := av_Revision r + 1,
                 av_UpdatedAt := pg_time now\<rparr>) db = Some (Inr (db3, a))"
    and c: "insertLiveCommand a ''revoke'' (rv_IdempotencyKey cmd) ad cd db3 = Inr db'"
    by (simp add: if_Inr) (auto simp: rbind_eq_Inr_iff split: option.splits sum.splits)
  show ?thesis by (rule update_command_evolves [OF u c]) (simp add: same_identity_def lifecycle.finish)
qed simp_all

lemma ChangeLiveState_evolves:
  assumes "ChangeLiveState pv now state cmd ad cd key db = Inr (db', a)"
  shows "evolves db db' \<and> a \<in> set (ld_auths db')"
proof -
  obtain kind where st: "state = LiveAuthorizationSuperseded \<or> state = LiveAuthorizationClosed"
    and kind: "liveAuthorizationCommandKind state = Inr kind"
    using assms by (cases "liveAuthorizationCommandKind state") (auto simp: ChangeLiveState_def split: if_splits)
  then have *: "ChangeLiveState pv now state cmd ad cd key db = Inr (db', a)" and ns: "\<not> open_state state"
    "\<not> (state \<noteq> LiveAuthorizationSuperseded \<and> state \<noteq> LiveAuthorizationClosed)" using assms by auto
  from * show ?thesis
    unfolding ChangeLiveState_def kind rbind_simps if_not_P [OF ns(2)]
  proof (cases rule: guarded_cases)
    case (expired db2 y)
    then show ?thesis by (auto simp: live_states split: if_splits)
  next
    case (current x)
    show ?thesis
    proof (cases "state = LiveAuthorizationClosed \<and>
          av_State x \<in> {LiveAuthorizationClosed, LiveAuthorizationRevoked, LiveAuthorizationExpired, LiveAuthorizationSuperseded}")
      case True
      then show ?thesis using current by (auto split: if_splits)
    next
      case False
      note b = current(4) [unfolded if_not_P [OF False]]
      obtain db3 where u: "update_auth (cl_AuthorizationID cmd)
          (\<lambda>r. av_Revision r = cl_ExpectedRevision cmd \<and> open_state (av_State r) \<and>
               ((state = LiveAuthorizationSuperseded \<and> \<not> pv_attempted pv (av_TransferID r) (av_PlanID r)) \<or>
                (state = LiveAuthorizationClosed \<and> \<not> pv_unfinished pv (av_TransferID r) (av_PlanID r))))
          (\<lambda>r. r\<lparr>av_State := state, av_ClosedAt := Some (pg_time now), av_SafeReasonCode := cl_SafeReasonCode cmd,
                 av_Revision := av_Revision r + 1, av_UpdatedAt := pg_time now\<rparr>) db = Some (Inr (db3, a))"
        and c: "insertLiveCommand a kind key ad cd db3 = Inr db'"
        using b by (simp add: if_Inr) (auto simp: rbind_eq_Inr_iff split: option.splits sum.splits)
      show ?thesis
        by (rule update_command_evolves [OF u c]) (use st ns in \<open>auto simp: same_identity_def intro: lifecycle.finish\<close>)
    qed
  qed simp_all
qed

lemma LockValidLive_evolves:
  assumes "LockValidLive pv now check db = Inr (db', ev)"
  shows "evolves db db'"
proof -
  obtain x db2 y ex where l: "lockLiveAuthorization (lc_AuthorizationID check) db = Inr x"
    and e: "expireLiveAuthorization now x db = Inr (db2, y, ex)"
    using assms by (auto simp: LockValidLive_def rbind_eq_Inr_iff)
  then have "db' = db2" using assms
    by (cases ex) (auto simp: LockValidLive_def split: option.splits if_splits)
  with expire_evolves [OF e] lock_in [OF l] show ?thesis by blast
qed

section \<open>Transactions and the service\<close>

lemma WithinTransaction_result:
  assumes "WithinTransaction env fn s = (s', r)"
  shows "s' = s \<and> (\<exists>e. r = Inl e) \<or> (\<exists>x. fn s = Inr (s', x) \<and> (r = Inr x \<or> (\<exists>e. r = Inl e)))"
  using assms
  by (auto simp: WithinTransaction_def split: option.splits sum.splits prod.splits if_splits)

lemma WithinTransaction_evolves:
  assumes "WithinTransaction env fn db = (db', r)" "\<And>db1 a. fn db = Inr (db1, a) \<Longrightarrow> evolves db db1"
  shows "evolves db db'"
  using WithinTransaction_result [OF assms(1)] assms(2) by auto

lemma Request_evolves: "Request svc env pv now actor command db = (db', r) \<Longrightarrow> evolves db db'"
  by (auto simp: Request_def Let_def rbind_eq_Inr_iff split: if_splits option.splits prod.splits
      elim!: WithinTransaction_evolves dest: RequestLive_evolves)

lemma Authorize_evolves: "Authorize svc env pv now actor command db = (db', r) \<Longrightarrow> evolves db db'"
  by (auto simp: Authorize_def Let_def rbind_eq_Inr_iff split: if_splits option.splits prod.splits
      elim!: WithinTransaction_evolves dest!: RequestLive_evolves ApproveLive_evolves intro: evolves_trans)

lemma Approve_evolves: "Approve svc env pv now actor command db = (db', r) \<Longrightarrow> evolves db db'"
  by (auto simp: Approve_def Let_def rbind_eq_Inr_iff split: if_splits option.splits prod.splits
      elim!: WithinTransaction_evolves dest: ApproveLive_evolves)

lemma Revoke_evolves: "Revoke env now actor command db = (db', r) \<Longrightarrow> evolves db db'"
  by (auto simp: Revoke_def Let_def split: option.splits prod.splits
      elim!: WithinTransaction_evolves dest: RevokeLive_evolves)

lemma changeStateWithin_evolves: "changeStateWithin pv now state command db = Inr (db', a) \<Longrightarrow> evolves db db'"
  by (auto simp: changeStateWithin_def Let_def guard_def dest: ChangeLiveState_evolves split: option.splits if_splits)

lemma LockValid_evolves: "LockValid svc pv now check db = Inr (db', ev) \<Longrightarrow> evolves db db'"
  by (auto simp: LockValid_def guard_def dest: LockValidLive_evolves split: option.splits if_splits)

text \<open>Every way the service changes the tables: its own operations, and a caller's transaction that runs
  a state change or a check.\<close>

inductive live_step :: "live_db \<Rightarrow> live_db \<Rightarrow> bool" where
  request: "Request svc env pv now actor command db = (db', r) \<Longrightarrow> live_step db db'"
| authorize: "Authorize svc env pv now actor command db = (db', r) \<Longrightarrow> live_step db db'"
| approve: "Approve svc env pv now actor approval db = (db', r) \<Longrightarrow> live_step db db'"
| revoke: "Revoke env now actor revocation db = (db', r) \<Longrightarrow> live_step db db'"
| supersede: "SupersedeWithin pv now change db = Inr (db', a) \<Longrightarrow> live_step db db'"
| close: "CloseWithin pv now change db = Inr (db', a) \<Longrightarrow> live_step db db'"
| lock: "LockValid svc pv now check db = Inr (db', ev) \<Longrightarrow> live_step db db'"

definition empty_live_db :: live_db where
  "empty_live_db = \<lparr>ld_auths = [], ld_commands = [], ld_next = 1\<rparr>"

lemma live_step_evolves: "live_step db db' \<Longrightarrow> evolves db db'"
  by (induction rule: live_step.induct)
    (auto intro: Request_evolves Authorize_evolves Approve_evolves Revoke_evolves changeStateWithin_evolves LockValid_evolves
      simp: SupersedeWithin_def CloseWithin_def)

lemma reachable_inv:
  assumes "live_step\<^sup>*\<^sup>* empty_live_db db"
  shows "live_inv db \<and> evidence db"
  using assms
proof (induction rule: rtranclp_induct)
  case base
  show ?case by (simp add: empty_live_db_def live_inv_def evidence_def)
next
  case (step db db')
  with live_step_evolves show ?case by (auto simp: evolves_def)
qed

lemma distinct_const_length:
  assumes "distinct (map f xs)" "\<And>a b. a \<in> set xs \<Longrightarrow> b \<in> set xs \<Longrightarrow> f a = f b"
  shows "length xs \<le> 1"
proof (rule ccontr)
  assume "\<not> length xs \<le> 1"
  then obtain x y zs where xs: "xs = x # y # zs" by (cases xs; cases "tl xs") auto
  then have "f x = f y" using assms(2) [of x y] by simp
  then show False using assms(1) xs by simp
qed

text \<open>C34: at most one authorization of a plan is open. In every state the service can reach, a transfer
  and plan have at most one authorization that is requested or authorized, idempotency keys are
  unique and every stored authorization passes the table's checks and the code's validation.\<close>

theorem live_one_open_authorization:
  assumes "live_step\<^sup>*\<^sup>* empty_live_db db"
  shows "distinct (map av_ID (ld_auths db)) \<and> distinct (map lm_IdempotencyKey (ld_commands db)) \<and>
    (\<forall>a \<in> set (ld_auths db). auth_checks a \<and> LiveAuthorization_Validate a = None) \<and>
    (\<forall>t p. length (filter (open_for t p) (ld_auths db)) \<le> 1)"
proof -
  have inv: "live_inv db" using reachable_inv [OF assms] by blast
  have "length (filter (open_for t p) (ld_auths db)) \<le> 1" for t p
  proof -
    let ?open = "filter (open_for t p) (ld_auths db)"
    have "distinct (map av_ID ?open)" using live_invD(2) [OF inv] by (simp add: distinct_map_filter)
    moreover have "av_ID a = av_ID b" if "a \<in> set ?open" "b \<in> set ?open" for a b
      using that live_invD(6) [OF inv, of a b] by (auto simp: open_for_def)
    ultimately show ?thesis by (rule distinct_const_length)
  qed
  with inv live_invD [OF inv] show ?thesis by blast
qed

text \<open>C33: the service refines the life cycle. Seen through state and revision alone, every step of the
  service is a sequence of steps of the abstract machine: an authorization starts as requested with
  revision 0, may become authorized, ends as revoked, expired, superseded or closed, and every move
  counts one revision.\<close>

theorem live_refines_lifecycle:
  assumes "live_step\<^sup>*\<^sup>* empty_live_db db" "live_step db db'"
  shows "abs_step\<^sup>*\<^sup>* (live_abs db) (live_abs db')"
  using live_step_evolves [OF assms(2)] reachable_inv [OF assms(1)] by (auto simp: evolves_def)

text \<open>C32: no grant without evidence. In every reachable state, a check that succeeds names an
  authorization of the checked transfer, plan digest and target set that is authorized, approved and
  not expired at the given time, and the command table holds the approval of its trusted actor for
  exactly this authorization and plan digest; the target's credentials are fresh and writable and its
  owner may mutate.\<close>

theorem LockValid_has_evidence:
  assumes "live_step\<^sup>*\<^sup>* empty_live_db db" "LockValid svc pv now check db = Inr (db', ev)"
  shows "db' = db \<and> lv_live svc \<and>
    (\<exists>a c w cmd. a \<in> set (ld_auths db) \<and> av_ID a = lc_AuthorizationID check \<and> av_State a = LiveAuthorizationAuthorized \<and>
       now < av_ExpiresAt a \<and> av_Revision a = lc_ExpectedRevision check \<and>
       le_ActorDigest ev = av_TrustedActorDigest a \<and> av_ApprovedAt a = Some (le_ApprovedAt ev) \<and>
       c \<in> set (ld_commands db) \<and> lm_Kind c = ''approve'' \<and> lm_ActorDigest c = av_TrustedActorDigest a \<and>
       lm_CommandDigest c = approve_digest cmd \<and> al_TransferID cmd = lc_TransferID check \<and>
       al_AuthorizationID cmd = lc_AuthorizationID check \<and> al_ExpectedPlanDigest cmd = lc_PlanDigest check \<and>
       pv_target pv (lc_TransferID check) (lc_ActionID check) (av_PlanID a) (lc_TargetID check) = Some w \<and>
       now < tw_CredentialExpiresAt w \<and> tw_ContentWrite w \<and> tw_OwnerRole w \<in> {RolePartner, RoleAdmin} \<and>
       tw_ActionState w = ''planned'' \<and> tw_PlanDigest w = lc_PlanDigest check)"
proof -
  have live: "lv_live svc" and L: "LockValidLive pv now check db = Inr (db', ev)"
    using assms(2) by (auto simp: LockValid_def guard_def split: if_splits option.splits)
  obtain a db2 y ex where l: "lockLiveAuthorization (lc_AuthorizationID check) db = Inr a"
    and e: "expireLiveAuthorization now a db = Inr (db2, y, ex)"
    using L by (auto simp: LockValidLive_def rbind_eq_Inr_iff)
  have "\<not> ex" using L l e by (auto simp: LockValidLive_def)
  then have same: "db2 = db" "y = a" and in_db: "a \<in> set (ld_auths db)" "av_ID a = lc_AuthorizationID check"
    and time: "now < av_ExpiresAt a \<or> \<not> open_state (av_State a)"
    using expire_evolves [OF e] lock_in [OF l] by blast+
  note run = L [unfolded LockValidLive_def l e rbind_simps prod.case same if_not_P [OF \<open>\<not> ex\<close>]]
  obtain approvedAt where ap: "av_ApprovedAt a = Some approvedAt" using run by (cases "av_ApprovedAt a") simp_all
  have ok: "av_TransferID a = lc_TransferID check" "av_Revision a = lc_ExpectedRevision check"
    "av_State a = LiveAuthorizationAuthorized" "av_PlanDigest a = lc_PlanDigest check"
    "av_TargetSetRoot a = lc_TargetSetRoot check"
    using run ap by (auto split: if_splits)
  obtain w where w: "pv_target pv (lc_TransferID check) (lc_ActionID check) (av_PlanID a) (lc_TargetID check) = Some w"
    "target_row_ok now check w" "targetOwnerMayMutate (tw_OwnerRole w)"
    and res: "db' = db" "le_ActorDigest ev = av_TrustedActorDigest a" "le_ApprovedAt ev = approvedAt"
    using run ap ok
    by (cases "pv_target pv (lc_TransferID check) (lc_ActionID check) (av_PlanID a) (lc_TargetID check)")
      (auto split: if_splits)
  have "evidence db" using reachable_inv [OF assms(1)] by blast
  then obtain c where c: "c \<in> set (ld_commands db)" "approved_by a c"
    using in_db(1) ap unfolding evidence_def by blast
  then obtain cmd where cmd: "lm_CommandDigest c = approve_digest cmd" "al_TransferID cmd = av_TransferID a"
    "al_AuthorizationID cmd = av_ID a" "al_ExpectedPlanDigest cmd = av_PlanDigest a" "lm_Kind c = ''approve''"
    "lm_ActorDigest c = av_TrustedActorDigest a"
    unfolding approved_by_def by blast
  have "now < av_ExpiresAt a" using time ok(3) by simp
  moreover have "tw_OwnerRole w \<in> {RolePartner, RoleAdmin}" using w(3) by (auto simp: targetOwnerMayMutate_def)
  moreover have "now < tw_CredentialExpiresAt w" "tw_ContentWrite w" "tw_ActionState w = ''planned''"
    "tw_PlanDigest w = lc_PlanDigest check"
    using w(2) by (simp_all add: target_row_ok_def)
  ultimately show ?thesis
    using live res in_db ok ap c(1) cmd w(1)
    by (intro conjI exI [of _ a] exI [of _ c] exI [of _ w] exI [of _ cmd]) simp_all
qed

section \<open>Idempotency\<close>

definition recorded :: "string \<Rightarrow> string \<Rightarrow> digest \<Rightarrow> digest \<Rightarrow> live_authorization \<Rightarrow> live_db \<Rightarrow> bool" where
  "recorded kind key ad cd a db \<longleftrightarrow>
     (\<exists>c \<in> set (ld_commands db). lm_IdempotencyKey c = key \<and> lm_Kind c = kind \<and> lm_ActorDigest c = ad \<and>
        lm_CommandDigest c = cd \<and> lm_AuthorizationID c = av_ID a)"

lemma insertLiveCommand_recorded:
  "insertLiveCommand a kind key ad cd db = Inr db' \<Longrightarrow> recorded kind key ad cd a db'"
  by (auto simp: insertLiveCommand_def recorded_def split: if_splits)

lemma expire_keeps:
  assumes "expireLiveAuthorization now a db = Inr (db', a', ex)"
  shows "av_ID a' = av_ID a \<and> set (ld_commands db) \<subseteq> set (ld_commands db')"
proof (cases "now < av_ExpiresAt a \<or> \<not> open_state (av_State a)")
  case True
  then show ?thesis using assms by (simp add: expireLiveAuthorization_def)
next
  case False
  let ?f = "\<lambda>r. r\<lparr>av_State := LiveAuthorizationExpired, av_SafeReasonCode := ''authorization_ttl_expired'',
                   av_Revision := av_Revision r + 1, av_UpdatedAt := pg_time now\<rparr>"
  obtain db1 where u: "update_auth (av_ID a) (\<lambda>r. open_state (av_State r)) ?f db = Some (Inr (db1, a'))"
    and c: "insertSystemExpireCommand a a' db1 = Inr db'"
    using assms(1) False
    by (auto simp: expireLiveAuthorization_def rbind_eq_Inr_iff split: option.splits sum.splits)
  from update_authD [OF u] c show ?thesis
    by (auto simp: insertSystemExpireCommand_def insertLiveCommand_def split: if_splits)
qed

lemma replay_recorded:
  assumes "loadLiveCommandReplay now kind key ad cd db = Inr (db', Some a)"
  shows "recorded kind key ad cd a db'"
proof -
  obtain c x where c: "find (\<lambda>c. lm_IdempotencyKey c = key) (ld_commands db) = Some c"
    and x: "find (\<lambda>a. av_ID a = lm_AuthorizationID c) (ld_auths db) = Some x"
    using assms by (auto simp: loadLiveCommandReplay_def split: option.splits)
  have k: "lm_Kind c = kind" "lm_ActorDigest c = ad" "lm_CommandDigest c = cd"
    and e: "\<exists>ex. expireLiveAuthorization now x db = Inr (db', a, ex)"
    using assms c x by (auto simp: loadLiveCommandReplay_def rbind_eq_Inr_iff scan_auth_def guard_def
        split: option.splits if_splits)
  show ?thesis
    using expire_keeps e k find_SomeD [OF c] find_SomeD [OF x] unfolding recorded_def by fastforce
qed

lemma RequestLive_recorded:
  assumes "RequestLive now expiresAt actor ad command cd plan db = Inr (db', a)"
  shows "recorded ''request'' (rl_IdempotencyKey command) ad cd a db'"
proof -
  obtain db1 replay where r: "loadLiveCommandReplay now ''request'' (rl_IdempotencyKey command) ad cd db = Inr (db1, replay)"
    using assms by (auto simp: RequestLive_def rbind_eq_Inr_iff)
  show ?thesis
  proof (cases replay)
    case (Some x)
    then show ?thesis using assms r replay_recorded by (simp add: RequestLive_def)
  next
    case None
    have ins: "insert_requested now expiresAt actor ad command cd plan d = Inr (db', a) \<Longrightarrow> ?thesis" for d
      by (auto simp: insert_requested_def rbind_eq_Inr_iff dest: insertLiveCommand_recorded)
    obtain found where f: "lockOpenLiveAuthorization (rl_TransferID command) (ps_PlanID plan) db1 = Inr found"
      using assms r None
      by (cases "lockOpenLiveAuthorization (rl_TransferID command) (ps_PlanID plan) db1") (simp_all add: RequestLive_def)
    show ?thesis
    proof (cases found)
      case None
      then show ?thesis using assms r f \<open>replay = None\<close> ins by (simp add: RequestLive_def)
    next
      case (Some x)
      then obtain db2 y ex where e: "expireLiveAuthorization now x db1 = Inr (db2, y, ex)"
        using assms r f \<open>replay = None\<close> by (auto simp: RequestLive_def rbind_eq_Inr_iff)
      have "insert_requested now expiresAt actor ad command cd plan db2 = Inr (db', a) \<or>
          rbind (insertLiveCommand y ''request'' (rl_IdempotencyKey command) ad cd db2) (\<lambda>db. Inr (db, y)) = Inr (db', a)"
        using assms r f e Some \<open>replay = None\<close> by (simp add: RequestLive_def split: if_split_asm)
      then show ?thesis
        using ins by (elim disjE) (auto simp: rbind_eq_Inr_iff dest: insertLiveCommand_recorded)
    qed
  qed
qed

lemma replay_finds:
  assumes inv: "live_inv db" and a: "a \<in> set (ld_auths db)" "recorded kind key ad cd a db" and now: "now < av_ExpiresAt a"
  shows "loadLiveCommandReplay now kind key ad cd db = Inr (db, Some a)"
proof -
  obtain c where c: "c \<in> set (ld_commands db)" "lm_IdempotencyKey c = key" "lm_Kind c = kind" "lm_ActorDigest c = ad"
    "lm_CommandDigest c = cd" "lm_AuthorizationID c = av_ID a"
    using a(2) unfolding recorded_def by blast
  have "find (\<lambda>c. lm_IdempotencyKey c = key) cs = Some c"
    if "distinct (map lm_IdempotencyKey cs)" "c \<in> set cs" for cs
    using that c(2) by (induction cs) auto
  then have "find (\<lambda>c. lm_IdempotencyKey c = key) (ld_commands db) = Some c"
    using live_invD(7) [OF inv] c(1) by blast
  moreover have "find (\<lambda>x. av_ID x = lm_AuthorizationID c) (ld_auths db) = Some a"
    using find_id [OF live_invD(2) [OF inv] a(1)] c(6) by simp
  moreover have "scan_auth a = Inr a" using live_invD(5) [OF inv a(1)] by (simp add: scan_auth_def)
  moreover have "expireLiveAuthorization now a db = Inr (db, a, False)" using now by (simp add: expireLiveAuthorization_def)
  ultimately show ?thesis using c by (simp add: loadLiveCommandReplay_def)
qed

definition healthy :: "tx_env \<Rightarrow> bool" where
  "healthy env \<longleftrightarrow> te_begin env = None \<and> te_statement env = None \<and> te_ctxErr env = None \<and> te_commit env = None"

text \<open>A request may be repeated. If a request was granted and its transaction committed, repeating
  it with the same key before the authorization expires - while the plan can still be authorized -
  returns the same authorization and changes nothing.\<close>

theorem Request_idempotent:
  assumes "live_step\<^sup>*\<^sup>* empty_live_db db" "Request svc env pv now actor command db = (db', Inr a)"
    and "now' < av_ExpiresAt a" "healthy env'"
    and "LockAuthorizationPlan pv' db' (la_TelegramUserID actor) (rl_TransferID command) (rl_PlanDigest command) = Inr plan"
  shows "Request svc env' pv' now' actor command db' = (db', Inr a)"
proof -
  let ?actor = "actor_normalized actor" and ?cmd = "request_normalized command"
  have pre: "lv_live svc" "or_else (actor_validate ?actor) (request_validate ?cmd) = None"
    using assms(2) by (auto simp: Request_def Let_def split: if_splits option.splits prod.splits)
  obtain r where w: "WithinTransaction env (\<lambda>db.
         rbind (LockAuthorizationPlan pv db (la_TelegramUserID ?actor) (rl_TransferID ?cmd) (rl_PlanDigest ?cmd))
           (\<lambda>plan. RequestLive now (now + lv_ttl svc) ?actor (actor_digest ?actor) ?cmd (request_digest ?cmd) plan db)) db = (db', r)"
    and r: "rbind r not_expired = Inr a"
    using assms(2) pre by (auto simp: Request_def Let_def split: prod.splits)
  have "r = Inr a" "not_expired a = Inr a"
    using r by (auto simp: rbind_eq_Inr_iff not_expired_def split: if_splits)
  then obtain p where run: "RequestLive now (now + lv_ttl svc) ?actor (actor_digest ?actor) ?cmd (request_digest ?cmd) p db = Inr (db', a)"
    using WithinTransaction_result [OF w] by (auto simp: rbind_eq_Inr_iff)
  have inv: "live_inv db'" "a \<in> set (ld_auths db')"
    using RequestLive_evolves [OF run] reachable_inv [OF assms(1)] by (auto simp: evolves_def)
  have "RequestLive now' (now' + lv_ttl svc) ?actor (actor_digest ?actor) ?cmd (request_digest ?cmd) plan db' = Inr (db', a)"
    using replay_finds [OF inv RequestLive_recorded [OF run] assms(3)] by (simp add: RequestLive_def)
  moreover have "la_TelegramUserID ?actor = la_TelegramUserID actor" "rl_TransferID ?cmd = rl_TransferID command"
    "rl_PlanDigest ?cmd = rl_PlanDigest command"
    by (simp_all add: actor_normalized_def request_normalized_def)
  ultimately show ?thesis
    using pre assms(4,5) \<open>not_expired a = Inr a\<close>
    by (simp add: Request_def Let_def WithinTransaction_def healthy_def)
qed

end
