(* ===== verification/LiveAuthSamples.thy ===== *)
theory LiveAuthSamples
  imports LiveAuthProps
begin

text \<open>A plan, its author and a run of the authorization service, with the guarantees of
  \<open>LiveAuthProps\<close> applied to it.\<close>

definition author :: live_actor where
  "author = \<lparr>la_TelegramUserID = 7, la_DisplayName = ''Bob''\<rparr>"

definition author_digest :: digest where "author_digest = actor_digest author"

definition plan_digest :: digest where "plan_digest = replicate 32 (CHR ''p'')"
definition root_digest :: digest where "root_digest = replicate 32 (CHR ''t'')"

definition sample_plan :: plan_summary where
  "sample_plan = \<lparr>ps_TransferID = 5, ps_PlanID = 6, ps_PlanDigest = plan_digest, ps_TargetSetRoot = root_digest,
     ps_PlanRevision = 0, ps_LatestAuthorizationID = 0, ps_TargetsCount = 1, ps_CreateActions = 1, ps_AddActions = 0,
     ps_MediaActions = 0, ps_CreateItems = 1, ps_AddItems = 0, ps_ExistingItems = 0, ps_ConflictItems = 0,
     ps_AuthorTelegramID = 7\<rparr>"

definition sample_target_row :: target_row where
  "sample_target_row = \<lparr>tw_SellerID = seller_a, tw_ClientGeneration = root_digest, tw_CredentialExpiresAt = 9000000,
     tw_ContentRead = True, tw_ContentWrite = True, tw_TargetSetRoot = root_digest, tw_Phase = ''publishing'',
     tw_Outcome = ''running'', tw_ActionState = ''planned'', tw_ActionAuthorizationID = None, tw_PlanState = ''executing'',
     tw_PlanDigest = plan_digest, tw_PlanTargetSetRoot = root_digest, tw_OwnerRole = RolePartner\<rparr>"

definition sample_view :: publication_view where
  "sample_view = \<lparr>pv_plans = [\<lparr>pw_Summary = sample_plan, pw_Phase = ''publishing'', pw_Outcome = ''running'',
        pw_PlanState = ''awaiting_authorization'', pw_HasPlannedAction = True\<rparr>],
     pv_attempted = (\<lambda>_ _. False), pv_unfinished = (\<lambda>_ _. True), pv_target = (\<lambda>_ _ _ _. Some sample_target_row)\<rparr>"

definition live_svc :: live_service where "live_svc = \<lparr>lv_live = True, lv_ttl = 1000000\<rparr>"

definition ok_tx :: tx_env where
  "ok_tx = \<lparr>te_begin = None, te_statement = None, te_ctxErr = None, te_commit = None, te_commitApplied = True\<rparr>"

definition sample_request :: request_live where
  "sample_request = \<lparr>rl_TransferID = 5, rl_PlanDigest = plan_digest, rl_IdempotencyKey = ''k1''\<rparr>"

definition requested_auth :: live_authorization where
  "requested_auth = \<lparr>av_ID = 1, av_TransferID = 5, av_PlanID = 6, av_PlanDigest = plan_digest, av_TargetSetRoot = root_digest,
     av_Revision = 0, av_State = LiveAuthorizationRequested, av_TrustedActorID = 7, av_TrustedActorDigest = author_digest,
     av_TrustedActorName = ''Bob'', av_RequestedAt = 1000000, av_ApprovedAt = None, av_ExpiresAt = 2000000,
     av_RevokedAt = None, av_ClosedAt = None, av_SafeReasonCode = [], av_CreatedAt = 1000000, av_UpdatedAt = 1000000\<rparr>"

definition request_record :: live_command where
  "request_record = \<lparr>lm_TransferID = 5, lm_AuthorizationID = 1, lm_Kind = ''request'', lm_IdempotencyKey = ''k1'',
     lm_ActorDigest = author_digest, lm_CommandDigest = request_digest sample_request,
     lm_ResultState = LiveAuthorizationRequested, lm_ResultRevision = 0\<rparr>"

definition requested_db :: live_db where
  "requested_db = \<lparr>ld_auths = [requested_auth], ld_commands = [request_record], ld_next = 2\<rparr>"

definition authorized_auth :: live_authorization where
  "authorized_auth = requested_auth\<lparr>av_State := LiveAuthorizationAuthorized, av_ApprovedAt := Some 1000000, av_Revision := 1\<rparr>"

definition approve_record :: live_command where
  "approve_record = \<lparr>lm_TransferID = 5, lm_AuthorizationID = 1, lm_Kind = ''approve'', lm_IdempotencyKey = ''k1:approve'',
     lm_ActorDigest = author_digest, lm_CommandDigest = approve_digest (authorize_command sample_request requested_auth),
     lm_ResultState = LiveAuthorizationAuthorized, lm_ResultRevision = 1\<rparr>"

definition authorized_db :: live_db where
  "authorized_db = \<lparr>ld_auths = [authorized_auth], ld_commands = [request_record, approve_record], ld_next = 2\<rparr>"

definition sample_check :: live_check where
  "sample_check = \<lparr>lc_TransferID = 5, lc_ActionID = 3, lc_AuthorizationID = 1, lc_ExpectedRevision = 1,
     lc_PlanDigest = plan_digest, lc_TargetSetRoot = root_digest, lc_TargetID = 4, lc_SellerID = seller_a,
     lc_ClientGeneration = root_digest\<rparr>"

lemma sample_facts:
  "actor_normalized author = author" "actor_validate author = None"
  "request_normalized sample_request = sample_request" "request_validate sample_request = None"
  "rune_count ''Bob'' = 3" "rune_count ''k1'' = 2" "rune_count ''k1:approve'' = 10" "trim_space ''Bob'' = ''Bob''"
  "plan_digest \<noteq> zero_digest" "root_digest \<noteq> zero_digest" "rune_count [] = 0" "length plan_digest = 32" "length root_digest = 32"
  by code_simp+

lemma author_digest_length: "length author_digest = 32"
  by (simp add: author_digest_def actor_digest_def)

lemma sample_lock:
  "LockAuthorizationPlan sample_view empty_live_db 7 5 plan_digest = Inr sample_plan"
  "LockAuthorizationPlan sample_view requested_db 7 5 plan_digest = Inr (sample_plan\<lparr>ps_LatestAuthorizationID := 1\<rparr>)"
  using sample_facts
  by (simp_all add: LockAuthorizationPlan_def loadAuthorizationPlan_def sample_view_def sample_plan_def plan_row_open_def scanAuthorizationPlan_def
      latest_authorization_def empty_live_db_def requested_db_def requested_auth_def PlanSummary_Validate_def)

lemma sample_rows:
  assumes "author_digest \<noteq> zero_digest"
  shows "auth_checks requested_auth" "LiveAuthorization_Validate requested_auth = None"
    "auth_checks authorized_auth" "LiveAuthorization_Validate authorized_auth = None"
  using assms sample_facts author_digest_length
  by (simp_all add: auth_checks_def requested_auth_def authorized_auth_def state_columns_ok_def since_def live_states
      LiveAuthorization_Validate_def LiveAuthorizationState_IsValid_def)

lemma sample_RequestLive:
  assumes "author_digest \<noteq> zero_digest"
  shows "RequestLive 1000000 2000000 author author_digest sample_request (request_digest sample_request) sample_plan empty_live_db =
    Inr (requested_db, requested_auth)"
proof -
  have row: "(requested_row 1000000 2000000 author author_digest sample_request sample_plan)\<lparr>av_ID := 1\<rparr> = requested_auth"
    by (simp add: requested_row_def author_def sample_request_def sample_plan_def requested_auth_def pg_time_def)
  have "insert_auth (requested_row 1000000 2000000 author author_digest sample_request sample_plan) empty_live_db =
      Inr (\<lparr>ld_auths = [requested_auth], ld_commands = [], ld_next = 2\<rparr>, requested_auth)"
    using sample_rows [OF assms] by (simp add: insert_auth_def empty_live_db_def row Let_def scan_auth_def)
  then show ?thesis
    using sample_facts
    by (simp add: RequestLive_def loadLiveCommandReplay_def lockOpenLiveAuthorization_def insert_requested_def
        insertLiveCommand_def empty_live_db_def sample_request_def)
      (simp add: requested_db_def request_record_def sample_request_def requested_auth_def)
qed

lemma sample_Request:
  assumes "author_digest \<noteq> zero_digest"
  shows "Request live_svc ok_tx sample_view 1000000 author sample_request empty_live_db = (requested_db, Inr requested_auth)"
proof -
  have k: "la_TelegramUserID author = 7" "rl_TransferID sample_request = 5" "rl_PlanDigest sample_request = plan_digest"
    "not_expired requested_auth = Inr requested_auth"
    by (simp_all add: author_def sample_request_def not_expired_def requested_auth_def live_states)
  show ?thesis
    using sample_RequestLive [OF assms] sample_lock(1) sample_facts(1-4) k
    by (simp add: Request_def live_svc_def WithinTransaction_def ok_tx_def author_digest_def)
qed

lemma sample_ApproveLive:
  assumes "author_digest \<noteq> zero_digest"
  shows "ApproveLive 1000000 author author_digest (authorize_command sample_request requested_auth)
      (approve_digest (authorize_command sample_request requested_auth)) requested_db = Inr (authorized_db, authorized_auth)"
proof -
  let ?cmd = "authorize_command sample_request requested_auth"
  have c: "al_TransferID ?cmd = 5" "al_AuthorizationID ?cmd = 1" "al_ExpectedRevision ?cmd = 0"
    "al_ExpectedPlanDigest ?cmd = plan_digest" "al_IdempotencyKey ?cmd = ''k1:approve''"
    by (simp_all add: authorize_command_def sample_request_def requested_auth_def)
  have a: "av_ID requested_auth = 1" "av_TransferID requested_auth = 5" "av_Revision requested_auth = 0"
    "av_PlanDigest requested_auth = plan_digest" "av_TrustedActorID requested_auth = 7"
    "av_TrustedActorDigest requested_auth = author_digest" "av_State requested_auth = LiveAuthorizationRequested"
    "av_ExpiresAt requested_auth = 2000000" "lm_IdempotencyKey request_record = ''k1''" "la_TelegramUserID author = 7"
    by (simp_all add: requested_auth_def request_record_def author_def)
  have upd: "requested_auth\<lparr>av_State := LiveAuthorizationAuthorized, av_ApprovedAt := Some (pg_time 1000000),
      av_Revision := 1, av_UpdatedAt := pg_time 1000000\<rparr> = authorized_auth"
    by (simp add: authorized_auth_def requested_auth_def pg_time_def)
  have id: "av_ID authorized_auth = 1" "av_TransferID authorized_auth = 5" "av_State authorized_auth = LiveAuthorizationAuthorized"
    "av_Revision authorized_auth = 1"
    by (simp_all add: authorized_auth_def requested_auth_def)
  have u: "update_auth 1 (\<lambda>r. av_State r = LiveAuthorizationRequested \<and> av_Revision r = 0)
      (\<lambda>r. r\<lparr>av_State := LiveAuthorizationAuthorized, av_ApprovedAt := Some (pg_time 1000000),
             av_Revision := av_Revision r + 1, av_UpdatedAt := pg_time 1000000\<rparr>) requested_db =
      Some (Inr (requested_db\<lparr>ld_auths := [authorized_auth]\<rparr>, authorized_auth))"
    using sample_rows(3,4) [OF assms] a upd id
    by (simp add: update_auth_def requested_db_def scan_auth_def set_auth_def)
  have l: "lockLiveAuthorization 1 requested_db = Inr requested_auth"
    using sample_rows(2) [OF assms] a(1) by (simp add: lockLiveAuthorization_def requested_db_def scan_auth_def)
  have r: "loadLiveCommandReplay 1000000 ''approve'' ''k1:approve'' author_digest (approve_digest ?cmd) requested_db =
      Inr (requested_db, None)"
    using a by (simp add: loadLiveCommandReplay_def requested_db_def)
  have e: "expireLiveAuthorization 1000000 requested_auth requested_db = Inr (requested_db, requested_auth, False)"
    using a by (simp add: expireLiveAuthorization_def)
  have i: "insertLiveCommand authorized_auth ''approve'' ''k1:approve'' author_digest (approve_digest ?cmd)
      (requested_db\<lparr>ld_auths := [authorized_auth]\<rparr>) = Inr authorized_db"
    using sample_facts(7) a id
    by (simp add: insertLiveCommand_def requested_db_def authorized_db_def approve_record_def)
  show ?thesis using c a u l r e i by (simp add: ApproveLive_def)
qed

lemma sample_Authorize:
  assumes "author_digest \<noteq> zero_digest"
  shows "Authorize live_svc ok_tx sample_view 1000000 author sample_request empty_live_db = (authorized_db, Inr authorized_auth)"
proof -
  have k: "la_TelegramUserID author = 7" "rl_TransferID sample_request = 5" "rl_PlanDigest sample_request = plan_digest"
    "length (rl_IdempotencyKey sample_request) = 2"
    "authorized_only authorized_auth = Inr authorized_auth" "av_State requested_auth \<noteq> LiveAuthorizationAuthorized"
    by (simp_all add: author_def sample_request_def authorized_only_def authorized_auth_def requested_auth_def live_states)
  show ?thesis
    using sample_RequestLive [OF assms] sample_ApproveLive [OF assms] sample_lock(1) sample_facts(1-4) k
    by (simp add: Authorize_def live_svc_def WithinTransaction_def ok_tx_def author_digest_def MaxLiveIdempotencyKeyLength_def)
qed

lemma authorized_reachable:
  assumes "author_digest \<noteq> zero_digest"
  shows "live_step\<^sup>*\<^sup>* empty_live_db authorized_db"
  using live_step.authorize [OF sample_Authorize [OF assms]] by blast

lemma sample_LockValid:
  assumes "author_digest \<noteq> zero_digest"
  shows "\<exists>ev. LockValid live_svc sample_view 1500000 sample_check authorized_db = Inr (authorized_db, ev)"
proof -
  have s: "SellerID_Validate seller_a = None" by code_simp
  have a: "av_ID authorized_auth = 1" "av_TransferID authorized_auth = 5" "av_Revision authorized_auth = 1"
    "av_PlanDigest authorized_auth = plan_digest" "av_State authorized_auth = LiveAuthorizationAuthorized"
    "av_ExpiresAt authorized_auth = 2000000" "av_ApprovedAt authorized_auth = Some 1000000"
    "av_TargetSetRoot authorized_auth = root_digest"
    by (simp_all add: authorized_auth_def requested_auth_def)
  have "check_validate sample_check = None"
    using s sample_facts by (simp add: check_validate_def sample_check_def generation_IsZero_def)
  moreover have "lockLiveAuthorization 1 authorized_db = Inr authorized_auth"
    using sample_rows(4) [OF assms] a by (simp add: lockLiveAuthorization_def authorized_db_def scan_auth_def)
  moreover have "expireLiveAuthorization 1500000 authorized_auth authorized_db = Inr (authorized_db, authorized_auth, False)"
    using a by (simp add: expireLiveAuthorization_def)
  moreover have "target_row_ok 1500000 sample_check sample_target_row" "targetOwnerMayMutate (tw_OwnerRole sample_target_row)"
    by (simp_all add: target_row_ok_def sample_check_def sample_target_row_def targetOwnerMayMutate_def)
  moreover have "pv_target sample_view t ac p tg = Some sample_target_row" for t ac p tg by (simp add: sample_view_def)
  moreover have "lc_AuthorizationID sample_check = 1" "lc_TransferID sample_check = 5" "lc_ExpectedRevision sample_check = 1"
    "lc_PlanDigest sample_check = plan_digest" "lc_TargetSetRoot sample_check = root_digest"
    by (simp_all add: sample_check_def)
  ultimately show ?thesis
    using a by (simp add: LockValid_def live_svc_def LockValidLive_def)
qed

theorem live_one_open_authorization_witness:
  "author_digest = zero_digest \<or>
   live_step\<^sup>*\<^sup>* empty_live_db authorized_db \<and> length (filter (open_for 5 6) (ld_auths authorized_db)) \<le> 1"
  using live_one_open_authorization [OF authorized_reachable] authorized_reachable by blast

theorem live_refines_lifecycle_witness:
  "author_digest = zero_digest \<or> abs_step\<^sup>*\<^sup>* (live_abs empty_live_db) (live_abs authorized_db)"
  using live_refines_lifecycle [of empty_live_db authorized_db] live_step.authorize [OF sample_Authorize] by blast

theorem LockValid_has_evidence_witness:
  "author_digest = zero_digest \<or>
   (\<exists>ev c. LockValid live_svc sample_view 1500000 sample_check authorized_db = Inr (authorized_db, ev) \<and>
      c \<in> set (ld_commands authorized_db) \<and> lm_Kind c = ''approve'')"
proof (cases "author_digest = zero_digest")
  case False
  obtain ev where ev: "LockValid live_svc sample_view 1500000 sample_check authorized_db = Inr (authorized_db, ev)"
    using sample_LockValid [OF False] by blast
  with LockValid_has_evidence [OF authorized_reachable [OF False] ev] show ?thesis by blast
qed blast

theorem Request_idempotent_witness:
  "author_digest = zero_digest \<or>
   Request live_svc ok_tx sample_view 1500000 author sample_request requested_db = (requested_db, Inr requested_auth)"
proof (cases "author_digest = zero_digest")
  case False
  have "healthy ok_tx" "1500000 < av_ExpiresAt requested_auth" "la_TelegramUserID author = 7" "rl_TransferID sample_request = 5"
    "rl_PlanDigest sample_request = plan_digest"
    by (simp_all add: healthy_def ok_tx_def requested_auth_def author_def sample_request_def)
  then show ?thesis
    using Request_idempotent [OF rtranclp.rtrancl_refl sample_Request [OF False]] sample_lock(2) by simp
qed blast

end
