(* ===== verification/ProductAction.thy ===== *)
theory ProductAction
  imports PublicationPlan LiveAuth WbClient
begin

text \<open>
  Product actions of a publication plan
  (\<open>internal/feature/cardpublication/service/execution/product.go\<close>, \<open>product_classifier.go\<close>, and the parts of
  \<open>product_dispatcher.go\<close> and \<open>product_reconciliation.go\<close> that touch no table): the validation of an action,
  the recheck before it is sent, the call to the Content API and the classification of its answer, and the
  evidence that settles an action whose fate is open.

  The Content API is a function from calls to answers; an answer is an error, with the classified error that
  \<open>errors.As\<close> finds in it, or the envelope of a response. \<open>encoding/json\<close> is the argument \<open>exec_codec\<close>. The zero
  time is 0, an absent class or code the empty string.
\<close>

section \<open>Actions\<close>

record exec_codec = codec +
  cd_decodeAdd :: "string \<Rightarrow> (int \<times> upload_card list) option"

definition decodeExactCreate :: "exec_codec \<Rightarrow> string \<Rightarrow> upload_group list option" where
  "decodeExactCreate cd payload = decodeExactUpload (codec.truncate cd) payload"

definition decodeExactAdd :: "exec_codec \<Rightarrow> string \<Rightarrow> (int \<times> upload_card list) option" where
  "decodeExactAdd cd payload =
     (if payload = [] then None
      else (case cd_decodeAdd cd payload of
              None \<Rightarrow> None
            | Some (imt, cards) \<Rightarrow> if cd_add cd imt cards = Some payload then Some (imt, cards) else None))"

definition ErrProductActionConflict :: goerr where
  "ErrProductActionConflict = GoErr ErrConflict ''publication product action changed''"

definition ErrProductPlanSuperseded :: goerr where
  "ErrProductPlanSuperseded = GoErr ErrConflict ''publication plan superseded before dispatch''"

definition ErrProductPlanStopped :: goerr where
  "ErrProductPlanStopped = GoErr ErrConflict ''publication plan stopped after dispatch began''"

definition submissionClassifierVersion :: int where "submissionClassifierVersion = 1"

record product_candidate =
  pc_TransferID :: int
  pc_ActionID :: int
  pc_TargetID :: int
  pc_SellerID :: seller_id
  pc_AuthorizationID :: int
  pc_AuthorizationRevision :: int
  pc_PlanDigest :: digest
  pc_TargetSetRoot :: digest
  pc_CatalogVendorCodes :: "string list"

record product_member =
  mb_ID :: int
  mb_GroupTargetID :: int
  mb_TransferItemTargetID :: int
  mb_RequestMemberIndex :: int
  mb_VendorCode :: string
  mb_OutcomeClass :: string
  mb_OutcomeCode :: string
  mb_NMID :: int

record aborted_action =
  ab_ActionID :: int
  ab_Members :: "product_member list"

definition SubmissionNotDispatched :: string where "SubmissionNotDispatched = ''not_dispatched''"
definition SubmissionResponseReceived :: string where "SubmissionResponseReceived = ''response_received''"
definition SubmissionUnknownDelivery :: string where "SubmissionUnknownDelivery = ''unknown_delivery''"

definition SubmissionAccepted :: string where "SubmissionAccepted = ''accepted''"
definition SubmissionRejectedProven :: string where "SubmissionRejectedProven = ''rejected_proven''"
definition SubmissionUncertain :: string where "SubmissionUncertain = ''uncertain''"

lemmas delivery_defs = SubmissionNotDispatched_def SubmissionResponseReceived_def SubmissionUnknownDelivery_def
lemmas disposition_defs = SubmissionAccepted_def SubmissionRejectedProven_def SubmissionUncertain_def

record product_retry =
  prt_ID :: int
  prt_TransferID :: int
  prt_ActionID :: int
  prt_AuthorizationID :: int
  prt_RequestDigest :: digest
  prt_StartedAt :: int
  prt_FinishedAt :: int
  prt_Delivery :: string
  prt_HTTPStatus :: int
  prt_Disposition :: string
  prt_ClassifierVersion :: int
  prt_SafeCode :: string
  prt_UnmatchedCount :: int

definition no_retry :: product_retry where
  "no_retry = \<lparr>prt_ID = 0, prt_TransferID = 0, prt_ActionID = 0, prt_AuthorizationID = 0, prt_RequestDigest = zero_digest,
     prt_StartedAt = 0, prt_FinishedAt = 0, prt_Delivery = [], prt_HTTPStatus = 0, prt_Disposition = [],
     prt_ClassifierVersion = 0, prt_SafeCode = [], prt_UnmatchedCount = 0\<rparr>"

text \<open>The struct embeds its candidate; its own \<open>SellerID\<close> hides the candidate's.\<close>

record product_action = product_candidate +
  pa_PlanID :: int
  pa_Revision :: int
  pa_Kind :: string
  pa_State :: string
  pa_RequestDigest :: digest
  pa_RequestPayload :: string
  pa_MemberSetDigest :: digest
  pa_SellerID :: seller_id
  pa_ClientGeneration :: digest
  pa_CredentialExpiresAt :: int
  pa_PreflightObservationID :: int
  pa_Members :: "product_member list"
  pa_AttemptID :: int
  pa_RecheckObservationID :: int
  pa_AttemptStartedAt :: int
  pa_AttemptFinishedAt :: int
  pa_AttemptDelivery :: string
  pa_AttemptHTTPStatus :: int
  pa_AttemptSafeCode :: string
  pa_EmptyResponseRetry :: product_retry

definition action_VendorCodes :: "product_action \<Rightarrow> string list" where
  "action_VendorCodes action = map mb_VendorCode (pa_Members action)"

definition action_PendingMembers :: "product_action \<Rightarrow> product_member list" where
  "action_PendingMembers action = filter (\<lambda>m. mb_OutcomeClass m = []) (pa_Members action)"

definition action_PendingVendorCodes :: "product_action \<Rightarrow> string list" where
  "action_PendingVendorCodes action = map mb_VendorCode (action_PendingMembers action)"

definition action_GroupTargetIDs :: "product_action \<Rightarrow> int list" where
  "action_GroupTargetIDs action = sort (remdups (map mb_GroupTargetID (pa_Members action)))"

definition action_identity_err :: "product_action \<Rightarrow> goerr option" where
  "action_identity_err a =
     (if pc_TransferID a \<le> 0 \<or> pc_ActionID a \<le> 0 \<or> pc_TargetID a \<le> 0 \<or> SellerID_Validate (pa_SellerID a) \<noteq> None \<or>
         pc_AuthorizationID a \<le> 0 \<or> pc_AuthorizationRevision a < 0 \<or> pc_PlanDigest a = zero_digest \<or>
         pc_TargetSetRoot a = zero_digest \<or> pa_PlanID a \<le> 0 \<or> pa_Revision a < 0 \<or> pa_RequestDigest a = zero_digest \<or>
         pa_MemberSetDigest a = zero_digest \<or> pa_RequestPayload a = [] \<or> generation_IsZero (pa_ClientGeneration a) \<or>
         pa_CredentialExpiresAt a = 0 \<or> pa_PreflightObservationID a \<le> 0 \<or> pa_Members a = []
      then Some (plain_error ''publication product action is invalid'')
      else if pa_Kind a \<noteq> ActionCreateGroup \<and> pa_Kind a \<noteq> ActionAddToGroup
      then Some (plain_error ''publication action is not a product mutation'') else None)"

definition member_err :: "nat \<Rightarrow> product_member \<Rightarrow> goerr option" where
  "member_err index m =
     (if mb_ID m \<le> 0 \<or> mb_GroupTargetID m \<le> 0 \<or> mb_TransferItemTargetID m \<le> 0 \<or>
         mb_RequestMemberIndex m \<noteq> int index \<or> mb_VendorCode m = [] \<or> \<not> trimmed (mb_VendorCode m)
      then Some (plain_error ''publication product member is invalid'')
      else if mb_OutcomeClass m = [] then
        (if mb_OutcomeCode m \<noteq> [] \<or> mb_NMID m \<noteq> 0
         then Some (plain_error ''pending publication product member has a result'') else None)
      else if \<not> ResultClass_IsValid (mb_OutcomeClass m) \<or> mb_OutcomeCode m = [] \<or> \<not> trimmed (mb_OutcomeCode m) \<or>
              128 < length (mb_OutcomeCode m) \<or> mb_NMID m < 0 \<or> (mb_OutcomeClass m = ResultSuccess \<and> mb_NMID m \<le> 0)
      then Some (plain_error ''terminal publication product member is invalid'') else None)"

definition request_vendor_codes :: "exec_codec \<Rightarrow> product_action \<Rightarrow> string list result" where
  "request_vendor_codes cd a =
     (if pa_Kind a = ActionCreateGroup then
        (case decodeExactCreate cd (pa_RequestPayload a) of
           None \<Rightarrow> Inl (plain_error ''publication create request is invalid'')
         | Some request \<Rightarrow> Inr (concat (map (\<lambda>g. map uc_VendorCode (ug_Variants g)) request)))
      else
        (case decodeExactAdd cd (pa_RequestPayload a) of
           None \<Rightarrow> Inl (plain_error ''publication add request is invalid'')
         | Some (imt, cards) \<Rightarrow>
             if imt \<le> 0 then Inl (plain_error ''publication add request is invalid'') else Inr (map uc_VendorCode cards)))"

definition ProductAction_Validate :: "exec_codec \<Rightarrow> product_action \<Rightarrow> goerr option" where
  "ProductAction_Validate cd a =
     or_else (action_identity_err a)
    (or_else (each_err member_err 0 (pa_Members a))
     (if DigestParts ''cardpublication-request:v1'' [pa_RequestPayload a] \<noteq> pa_RequestDigest a
      then Some (plain_error ''publication product request digest differs'')
      else (case request_vendor_codes cd a of
              Inl e \<Rightarrow> Some e
            | Inr codes \<Rightarrow>
                if length codes \<noteq> length (pa_Members a) then Some (plain_error ''publication product request member count differs'')
                else if codes \<noteq> action_VendorCodes a then Some (plain_error ''publication product request member order differs'')
                else None)))"

section \<open>The recheck before an action is sent\<close>

record targeted_recheck =
  tr_Observation :: observation_draft
  tr_Stable :: bool
  tr_SafeCode :: string

fun productDecisionStillStable :: "product_member list \<Rightarrow> content_card list \<Rightarrow> trash_card list \<Rightarrow> bool \<times> string" where
  "productDecisionStillStable [] normal trash = (True, ''TARGETED_RECHECK_STABLE'')"
| "productDecisionStillStable (m # ms) normal trash =
     (if length (filter (\<lambda>c. cc_VendorCode c = mb_VendorCode m) normal) \<noteq> 0 \<or>
         length (filter (\<lambda>c. tc_VendorCode c = mb_VendorCode m) trash) \<noteq> 0
      then (False, ''TARGETED_RECHECK_REMOTE_CHANGED'')
      else productDecisionStillStable ms normal trash)"

definition add_request_imt :: "exec_codec \<Rightarrow> product_action \<Rightarrow> int option" where
  "add_request_imt cd action =
     (case decodeExactAdd cd (pa_RequestPayload action) of
        None \<Rightarrow> None | Some (imt, _) \<Rightarrow> if imt \<le> 0 then None else Some imt)"

definition recheck_observation :: "product_action \<Rightarrow> observation \<Rightarrow> int option \<Rightarrow> observation" where
  "recheck_observation action ob imt =
     \<lparr>ob_TargetID = ob_TargetID ob, ob_SellerID = ob_SellerID ob,
      ob_Normal = filter (\<lambda>c. cc_VendorCode c \<in> set (action_VendorCodes action) \<or> imt = Some (cc_IMTID c)) (ob_Normal ob),
      ob_Trash = filter (\<lambda>c. tc_VendorCode c \<in> set (action_VendorCodes action)) (ob_Trash ob),
      ob_ObservedAt = ob_ObservedAt ob\<rparr>"

definition BuildTargetedRecheck :: "exec_codec \<Rightarrow> product_action \<Rightarrow> observation \<Rightarrow> targeted_recheck result" where
  "BuildTargetedRecheck cd action ob =
     guard (ProductAction_Validate cd action)
     (if ob_TargetID ob \<noteq> pc_TargetID action \<or> ob_SellerID ob \<noteq> pa_SellerID action then Inl ErrProductActionConflict
      else if pa_Kind action = ActionAddToGroup \<and> add_request_imt cd action = None then Inl ErrProductActionConflict
      else
        (let targeted = recheck_observation action ob
               (if pa_Kind action = ActionAddToGroup then add_request_imt cd action else None)
         in rbind (DraftObservation (codec.truncate cd) targeted) (\<lambda>draft.
              let (stable, safeCode) = productDecisionStillStable (pa_Members action) (ob_Normal targeted) (ob_Trash targeted)
              in Inr \<lparr>tr_Observation = draft, tr_Stable = stable, tr_SafeCode = safeCode\<rparr>)))"

section \<open>Submissions and their classification\<close>

record product_attempt =
  pat_ID :: int
  pat_TransferID :: int
  pat_ActionID :: int
  pat_AuthorizationID :: int
  pat_RecheckObservationID :: int
  pat_RequestDigest :: digest
  pat_StartedAt :: int

record member_submission =
  ms_ActionMemberID :: int
  ms_OutcomeClass :: string
  ms_OutcomeCode :: string

record submission_result =
  sr_Delivery :: string
  sr_HTTPStatus :: int
  sr_ClassifierVersion :: int
  sr_Disposition :: string
  sr_SafeCode :: string
  sr_MemberResults :: "member_submission list"
  sr_UnmatchedCount :: int

datatype upload_call =
    CallUpload (call_SellerID: seller_id) (call_Generation: digest) "upload_group list"
  | CallAdd (call_SellerID: seller_id) (call_Generation: digest) int "upload_card list"

record response_meta =
  rm_Error :: bool
  rm_ErrorText :: string
  rm_AdditionalErrors :: json_value

type_synonym upload_answer = "classified_error option + response_meta"
type_synonym product_transport = "upload_call \<Rightarrow> upload_answer"

definition internalNotDispatched :: "product_action \<Rightarrow> string \<Rightarrow> submission_result" where
  "internalNotDispatched action safeCode =
     \<lparr>sr_Delivery = SubmissionNotDispatched, sr_HTTPStatus = 0, sr_ClassifierVersion = submissionClassifierVersion,
      sr_Disposition = SubmissionRejectedProven, sr_SafeCode = safeCode,
      sr_MemberResults = map (\<lambda>m. \<lparr>ms_ActionMemberID = mb_ID m, ms_OutcomeClass = ResultInternalError,
                                   ms_OutcomeCode = safeCode\<rparr>) (pa_Members action),
      sr_UnmatchedCount = 0\<rparr>"

text \<open>The strings and object keys of a decoded JSON value that are wanted.\<close>

fun walk :: "string list \<Rightarrow> json_value \<Rightarrow> string list" where
  "walk wanted (JObj kvs) =
     concat (map (\<lambda>(key, nested). (if key \<in> set wanted then [key] else []) @ walk wanted nested) kvs)"
| "walk wanted (JArr vs) = concat (map (walk wanted) vs)"
| "walk wanted (JStr s) = (if s \<in> set wanted then [s] else [])"
| "walk wanted JNull = []"
| "walk wanted (JBool b) = []"
| "walk wanted (JNum n) = []"

definition mappedVendorCodes :: "json_value \<Rightarrow> string list \<Rightarrow> string list" where
  "mappedVendorCodes value vendorCodes = remdups (walk vendorCodes value)"

definition classifySubmissionEnvelope :: "product_action \<Rightarrow> response_meta \<Rightarrow> submission_result" where
  "classifySubmissionEnvelope action meta =
     (let received = \<lparr>sr_Delivery = SubmissionResponseReceived, sr_HTTPStatus = 200,
            sr_ClassifierVersion = submissionClassifierVersion, sr_Disposition = SubmissionAccepted,
            sr_SafeCode = ''WB_SUBMISSION_ACCEPTED'', sr_MemberResults = [], sr_UnmatchedCount = 0\<rparr>
      in if \<not> rm_Error meta then received
         else (let matched = mappedVendorCodes (rm_AdditionalErrors meta) (action_VendorCodes action)
           in if length matched = length (pa_Members action) then
                received\<lparr>sr_Disposition := SubmissionRejectedProven, sr_SafeCode := ''WB_ENVELOPE_REJECTED'',
                  sr_MemberResults := map (\<lambda>m. \<lparr>ms_ActionMemberID = mb_ID m, ms_OutcomeClass = ResultRejected,
                                              ms_OutcomeCode = ''WB_ENVELOPE_MEMBER_REJECTED''\<rparr>) (pa_Members action)\<rparr>
              else
                received\<lparr>sr_Disposition := SubmissionUncertain, sr_SafeCode := ''WB_ENVELOPE_ERROR_UNMAPPED'',
                  sr_UnmatchedCount := int (length (pa_Members action)) - int (length matched)\<rparr>))"

text \<open>\<open>strings.ToUpper\<close> on the codes of \<open>client/errors.go\<close>, which are lower-case ASCII words.\<close>

definition upper_ascii :: "char \<Rightarrow> char" where
  "upper_ascii c = (let n = (of_char c :: int) in if 97 \<le> n \<and> n \<le> 122 then char_of (n - 32) else c)"

definition uncertain_result :: "product_action \<Rightarrow> string \<Rightarrow> int \<Rightarrow> string \<Rightarrow> submission_result" where
  "uncertain_result action delivery status safeCode =
     \<lparr>sr_Delivery = delivery, sr_HTTPStatus = status, sr_ClassifierVersion = submissionClassifierVersion,
      sr_Disposition = SubmissionUncertain, sr_SafeCode = safeCode, sr_MemberResults = [],
      sr_UnmatchedCount = int (length (pa_Members action))\<rparr>"

definition classifySubmissionError :: "product_action \<Rightarrow> classified_error option \<Rightarrow> submission_result" where
  "classifySubmissionError action err =
     (case err of
        None \<Rightarrow> internalNotDispatched action ''WB_CALL_NOT_DISPATCHED''
      | Some classified \<Rightarrow>
          (let safeCode = ''WB_TRANSPORT_'' @ map upper_ascii (ce_code classified)
           in case ce_delivery classified of
                NotDispatched \<Rightarrow> internalNotDispatched action safeCode
              | ResponseReceived \<Rightarrow>
                  uncertain_result action SubmissionResponseReceived (ce_httpStatus classified) safeCode
              | UnknownDelivery \<Rightarrow> uncertain_result action SubmissionUnknownDelivery 0 safeCode))"

text \<open>The result, and the calls that were made.\<close>

definition classify_answer :: "product_action \<Rightarrow> upload_answer \<Rightarrow> submission_result" where
  "classify_answer action answer =
     (case answer of Inl err \<Rightarrow> classifySubmissionError action err | Inr meta \<Rightarrow> classifySubmissionEnvelope action meta)"

definition executeProductMutation ::
  "exec_codec \<Rightarrow> product_transport \<Rightarrow> product_action \<Rightarrow> submission_result \<times> upload_call list" where
  "executeProductMutation cd transport action =
     (if pa_Kind action = ActionCreateGroup then
        (case decodeExactCreate cd (pa_RequestPayload action) of
           None \<Rightarrow> (classifySubmissionError action None, [])
         | Some request \<Rightarrow>
             (let call = CallUpload (pa_SellerID action) (pa_ClientGeneration action) request
              in (classify_answer action (transport call), [call])))
      else if pa_Kind action = ActionAddToGroup then
        (case decodeExactAdd cd (pa_RequestPayload action) of
           None \<Rightarrow> (classifySubmissionError action None, [])
         | Some (imt, cards) \<Rightarrow>
             (let call = CallAdd (pa_SellerID action) (pa_ClientGeneration action) imt cards
              in (classify_answer action (transport call), [call])))
      else (internalNotDispatched action ''UNSUPPORTED_PRODUCT_ACTION'', []))"

definition member_submission_bad :: "member_submission \<Rightarrow> bool" where
  "member_submission_bad m \<longleftrightarrow>
     ms_ActionMemberID m \<le> 0 \<or> ms_OutcomeCode m = [] \<or> 128 < length (ms_OutcomeCode m) \<or>
     (ms_OutcomeClass m \<noteq> ResultRejected \<and> ms_OutcomeClass m \<noteq> ResultInternalError)"

fun check_member_submissions :: "int list \<Rightarrow> member_submission list \<Rightarrow> goerr option" where
  "check_member_submissions seen [] = None"
| "check_member_submissions seen (m # ms) =
     (if member_submission_bad m then Some (plain_error ''proven rejection member result is invalid'')
      else if ms_ActionMemberID m \<in> set seen then Some (plain_error ''proven rejection member is duplicated'')
      else check_member_submissions (ms_ActionMemberID m # seen) ms)"

definition delivery_err :: "submission_result \<Rightarrow> goerr option" where
  "delivery_err r =
     (if sr_Delivery r = SubmissionNotDispatched then
        (if sr_HTTPStatus r \<noteq> 0 \<or> sr_Disposition r \<noteq> SubmissionRejectedProven
         then Some (plain_error ''not-dispatched submission result is invalid'') else None)
      else if sr_Delivery r = SubmissionResponseReceived then
        (if sr_HTTPStatus r \<noteq> 0 \<and> (sr_HTTPStatus r < 100 \<or> 599 < sr_HTTPStatus r)
         then Some (plain_error ''response status is invalid'') else None)
      else if sr_Delivery r = SubmissionUnknownDelivery then
        (if sr_HTTPStatus r \<noteq> 0 \<or> sr_Disposition r \<noteq> SubmissionUncertain
         then Some (plain_error ''unknown-delivery submission result is invalid'') else None)
      else Some (plain_error ''submission delivery is invalid''))"

definition disposition_err :: "submission_result \<Rightarrow> goerr option" where
  "disposition_err r =
     (if sr_Disposition r = SubmissionAccepted then
        (if sr_MemberResults r \<noteq> [] \<or> sr_UnmatchedCount r \<noteq> 0
         then Some (plain_error ''accepted submission has member failures'') else None)
      else if sr_Disposition r = SubmissionUncertain then
        (if sr_MemberResults r \<noteq> [] \<or> sr_UnmatchedCount r \<le> 0
         then Some (plain_error ''uncertain submission evidence is invalid'') else None)
      else if sr_Disposition r = SubmissionRejectedProven then
        (if sr_MemberResults r = [] \<or> sr_UnmatchedCount r \<noteq> 0
         then Some (plain_error ''proven rejection member evidence is invalid'')
         else check_member_submissions [] (sr_MemberResults r))
      else Some (plain_error ''submission disposition is invalid''))"

definition ValidateSubmissionResult :: "submission_result \<Rightarrow> goerr option" where
  "ValidateSubmissionResult r =
     (if sr_ClassifierVersion r \<le> 0 \<or> sr_SafeCode r = [] \<or> 128 < length (sr_SafeCode r) \<or> sr_UnmatchedCount r < 0
      then Some (plain_error ''submission result is invalid'')
      else or_else (delivery_err r) (disposition_err r))"

section \<open>Comparing two readings of an action\<close>

definition same_member :: "product_member \<Rightarrow> product_member \<Rightarrow> bool" where
  "same_member l r \<longleftrightarrow>
     mb_ID l = mb_ID r \<and> mb_GroupTargetID l = mb_GroupTargetID r \<and>
     mb_TransferItemTargetID l = mb_TransferItemTargetID r \<and> mb_RequestMemberIndex l = mb_RequestMemberIndex r \<and>
     mb_VendorCode l = mb_VendorCode r"

definition same_member_progress :: "product_member \<Rightarrow> product_member \<Rightarrow> bool" where
  "same_member_progress l r \<longleftrightarrow>
     mb_OutcomeClass l = mb_OutcomeClass r \<and> mb_OutcomeCode l = mb_OutcomeCode r \<and> mb_NMID l = mb_NMID r"

definition sameImmutableProductAction :: "product_action \<Rightarrow> product_action \<Rightarrow> bool" where
  "sameImmutableProductAction l r \<longleftrightarrow>
     pc_TransferID l = pc_TransferID r \<and> pc_ActionID l = pc_ActionID r \<and> pa_PlanID l = pa_PlanID r \<and>
     pc_TargetID l = pc_TargetID r \<and> pa_SellerID l = pa_SellerID r \<and> pa_Kind l = pa_Kind r \<and>
     pc_PlanDigest l = pc_PlanDigest r \<and> pc_TargetSetRoot l = pc_TargetSetRoot r \<and>
     pa_RequestDigest l = pa_RequestDigest r \<and> pa_MemberSetDigest l = pa_MemberSetDigest r \<and>
     pa_RequestPayload l = pa_RequestPayload r \<and> list_all2 same_member (pa_Members l) (pa_Members r)"

definition sameProductActionProgress :: "product_action \<Rightarrow> product_action \<Rightarrow> bool" where
  "sameProductActionProgress l r \<longleftrightarrow>
     sameImmutableProductAction l r \<and> list_all2 same_member_progress (pa_Members l) (pa_Members r)"

definition attemptFromAction :: "product_action \<Rightarrow> product_attempt" where
  "attemptFromAction action =
     \<lparr>pat_ID = pa_AttemptID action, pat_TransferID = pc_TransferID action, pat_ActionID = pc_ActionID action,
      pat_AuthorizationID = pc_AuthorizationID action, pat_RecheckObservationID = pa_RecheckObservationID action,
      pat_RequestDigest = pa_RequestDigest action, pat_StartedAt = pa_AttemptStartedAt action\<rparr>"

section \<open>Settling an open action\<close>

definition emptyResponseProductRetryDelay :: int where "emptyResponseProductRetryDelay = 10 * 60 * 1000000000"

record error_match =
  em_ID :: int
  em_BatchUUID :: string
  em_UpdatedAt :: int
  em_RejectedVendorCodes :: "string list"
  em_ErrorCodes :: "string list"

record member_reconciliation =
  mr_ActionMemberID :: int
  mr_OutcomeClass :: string
  mr_OutcomeCode :: string
  mr_NMID :: int
  mr_IMTID :: int
  mr_SubjectID :: int
  mr_ErrorBatchID :: int
  mr_AttributionLevel :: string

definition unsettled_member :: "int \<Rightarrow> member_reconciliation" where
  "unsettled_member memberID =
     \<lparr>mr_ActionMemberID = memberID, mr_OutcomeClass = [], mr_OutcomeCode = [], mr_NMID = 0, mr_IMTID = 0,
      mr_SubjectID = 0, mr_ErrorBatchID = 0, mr_AttributionLevel = []\<rparr>"

definition shouldRetryEmptyProductResponse ::
  "product_action \<Rightarrow> observation \<Rightarrow> error_match list \<Rightarrow> int \<Rightarrow> int \<Rightarrow> bool" where
  "shouldRetryEmptyProductResponse action ob matches now delay =
     (if delay \<le> 0 \<or> prt_ID (pa_EmptyResponseRetry action) \<noteq> 0 \<or>
         pa_AttemptDelivery action \<noteq> SubmissionResponseReceived \<or> pa_AttemptHTTPStatus action \<noteq> 200 \<or>
         pa_AttemptFinishedAt action = 0 \<or> now < pa_AttemptFinishedAt action + delay \<or>
         length (action_PendingMembers action) \<noteq> length (pa_Members action) \<or> length matches \<noteq> 0
      then False
      else if pa_AttemptSafeCode action \<noteq> ''WB_TRANSPORT_EMPTY_RESPONSE'' \<and>
              pa_AttemptSafeCode action \<noteq> ''WB_TRANSPORT_INVALID_RESPONSE''
      then False
      else length (ob_Normal ob) = 0 \<and> length (ob_Trash ob) = 0)"

definition retryResponseProvedRejection :: "product_retry \<Rightarrow> bool" where
  "retryResponseProvedRejection retry \<longleftrightarrow>
     0 < prt_ID retry \<and> prt_FinishedAt retry \<noteq> 0 \<and> prt_Delivery retry = SubmissionResponseReceived \<and>
     prt_Disposition retry = SubmissionRejectedProven"

definition rejectedRetryResults :: "product_action \<Rightarrow> member_reconciliation list" where
  "rejectedRetryResults action =
     map (\<lambda>m. (unsettled_member (mb_ID m))\<lparr>mr_OutcomeClass := ResultRejected,
                mr_OutcomeCode := ''WB_RETRY_ENVELOPE_MEMBER_REJECTED''\<rparr>)
       (filter (\<lambda>m. mb_OutcomeClass m = []) (pa_Members action))"

definition observedCardMatchesProductAction :: "exec_codec \<Rightarrow> product_action \<Rightarrow> product_member \<Rightarrow> content_card \<Rightarrow> bool" where
  "observedCardMatchesProductAction cd action m c =
     (if cc_NMID c \<le> 0 \<or> cc_IMTID c \<le> 0 \<or> cc_SubjectID c \<le> 0 \<or> cc_VendorCode c \<noteq> mb_VendorCode m then False
      else if pa_Kind action = ActionCreateGroup then
        (case decodeExactCreate cd (pa_RequestPayload action) of
           None \<Rightarrow> False
         | Some request \<Rightarrow>
             (let variants = concat (map (\<lambda>g. map (\<lambda>v. (g, v)) (ug_Variants g)) request)
              in if 0 \<le> mb_RequestMemberIndex m \<and> mb_RequestMemberIndex m < int (length variants) then
                   (let (g, v) = variants ! nat (mb_RequestMemberIndex m)
                    in uc_VendorCode v = mb_VendorCode m \<and> ug_SubjectID g = cc_SubjectID c)
                 else False))
      else if pa_Kind action = ActionAddToGroup then
        (case decodeExactAdd cd (pa_RequestPayload action) of
           None \<Rightarrow> False
         | Some (imt, cards) \<Rightarrow>
             if mb_RequestMemberIndex m < 0 \<or> int (length cards) \<le> mb_RequestMemberIndex m then False
             else imt = cc_IMTID c \<and> uc_VendorCode (cards ! nat (mb_RequestMemberIndex m)) = mb_VendorCode m)
      else False)"

definition errors_by_vendor :: "error_match list \<Rightarrow> string \<Rightarrow> error_match list" where
  "errors_by_vendor matches v =
     concat (map (\<lambda>e. map (\<lambda>_. e) (filter (\<lambda>x. x = v) (em_RejectedVendorCodes e))) matches)"

text \<open>The switch of the loop over the members: \<open>None\<close> for a member that stays pending.\<close>

definition settle_member ::
  "exec_codec \<Rightarrow> product_action \<Rightarrow> observation \<Rightarrow> error_match list \<Rightarrow> bool \<Rightarrow> product_member \<Rightarrow> member_reconciliation option" where
  "settle_member cd action ob matches deadlineReached m =
     (let normal = normal_by_vendor ob (mb_VendorCode m); trash = trash_by_vendor ob (mb_VendorCode m);
          errorMatches = errors_by_vendor matches (mb_VendorCode m); r = unsettled_member (mb_ID m);
          unresolved = (\<lambda>code. Some (r\<lparr>mr_OutcomeClass := ResultUnresolved, mr_OutcomeCode := code\<rparr>))
      in if length normal = 1 \<and> length trash = 0 \<and> length errorMatches = 0 then
           (let c = normal ! 0
            in if \<not> observedCardMatchesProductAction cd action m c then unresolved ''REMOTE_PRODUCT_BINDING_MISMATCH''
               else Some (r\<lparr>mr_OutcomeClass := ResultSuccess, mr_OutcomeCode := ''CREATED_CONFIRMED_BY_VENDOR_CODE'',
                      mr_NMID := cc_NMID c, mr_IMTID := cc_IMTID c, mr_SubjectID := cc_SubjectID c,
                      mr_AttributionLevel := ''observed_after_attempt''\<rparr>))
         else if length normal = 0 \<and> length trash = 0 \<and> length errorMatches = 1 then
           Some (r\<lparr>mr_OutcomeClass := ResultRejected, mr_OutcomeCode := ''WB_ERROR_LIST_REJECTED'',
                   mr_ErrorBatchID := em_ID (errorMatches ! 0)\<rparr>)
         else if 0 < length normal \<or> 0 < length trash \<or> 1 < length errorMatches then unresolved ''REMOTE_EVIDENCE_CONFLICT''
         else if deadlineReached then unresolved ''RECONCILIATION_TIMEOUT''
         else None)"

record evidence_counts =
  ec_unresolved :: nat
  ec_rejected :: nat
  ec_succeeded :: nat
  ec_pending :: nat

definition count_class :: "string \<Rightarrow> evidence_counts \<Rightarrow> evidence_counts" where
  "count_class cls n =
     (if cls = ResultSuccess \<or> cls = ResultSkipped then n\<lparr>ec_succeeded := Suc (ec_succeeded n)\<rparr>
      else if cls = ResultRejected then n\<lparr>ec_rejected := Suc (ec_rejected n)\<rparr>
      else n\<lparr>ec_unresolved := Suc (ec_unresolved n)\<rparr>)"

fun reconcile_members ::
  "(product_member \<Rightarrow> member_reconciliation option) \<Rightarrow> product_member list \<Rightarrow> member_reconciliation list \<Rightarrow> evidence_counts \<Rightarrow>
     member_reconciliation list \<times> evidence_counts" where
  "reconcile_members settle [] results n = (results, n)"
| "reconcile_members settle (m # ms) results n =
     (if mb_OutcomeClass m \<noteq> [] then reconcile_members settle ms results (count_class (mb_OutcomeClass m) n)
      else (case settle m of
              None \<Rightarrow> reconcile_members settle ms results (n\<lparr>ec_pending := Suc (ec_pending n)\<rparr>)
            | Some r \<Rightarrow> reconcile_members settle ms (results @ [r]) (count_class (mr_OutcomeClass r) n)))"

definition reconcile_verdict :: "nat \<Rightarrow> evidence_counts \<Rightarrow> bool \<times> string \<times> string" where
  "reconcile_verdict members n =
     (if 0 < ec_pending n then (False, [], [])
      else if 0 < ec_unresolved n then (True, ResultUnresolved, ''PRODUCT_RECONCILIATION_UNRESOLVED'')
      else if ec_rejected n = members then (True, ResultRejected, ''PRODUCT_REJECTED_BY_ERROR_LIST'')
      else if ec_succeeded n = members then (True, ResultSuccess, ''PRODUCT_CREATED_BY_VENDOR_CODE'')
      else (True, ResultPartial, ''PRODUCT_RECONCILIATION_PARTIAL''))"

definition reconcileProductEvidence ::
  "exec_codec \<Rightarrow> product_action \<Rightarrow> observation \<Rightarrow> error_match list \<Rightarrow> int \<Rightarrow> int \<Rightarrow>
     member_reconciliation list \<times> bool \<times> string \<times> string" where
  "reconcileProductEvidence cd action ob matches now timeout =
     (let deadlineReached = (pa_AttemptStartedAt action \<noteq> 0 \<and> pa_AttemptStartedAt action + timeout \<le> now);
          (results, n) = reconcile_members (settle_member cd action ob matches deadlineReached) (pa_Members action) []
             \<lparr>ec_unresolved = 0, ec_rejected = 0, ec_succeeded = 0, ec_pending = 0\<rparr>
      in (results, reconcile_verdict (length (pa_Members action)) n))"

definition reconciliation_bad :: "member_reconciliation \<Rightarrow> bool" where
  "reconciliation_bad r \<longleftrightarrow>
     mr_ActionMemberID r \<le> 0 \<or> \<not> ResultClass_IsValid (mr_OutcomeClass r) \<or> mr_OutcomeCode r = [] \<or>
     128 < length (mr_OutcomeCode r) \<or> mr_NMID r < 0 \<or> mr_IMTID r < 0 \<or> mr_SubjectID r < 0 \<or> mr_ErrorBatchID r < 0"

definition attribution_err :: "member_reconciliation \<Rightarrow> goerr option" where
  "attribution_err r =
     (if mr_AttributionLevel r \<noteq> [] \<and> mr_AttributionLevel r \<noteq> ''observed_after_attempt''
      then Some (plain_error ''member reconciliation attribution level is invalid'')
      else if mr_OutcomeClass r = ResultSuccess then
        (if mr_AttributionLevel r \<noteq> ''observed_after_attempt'' \<or> mr_NMID r \<le> 0 \<or> mr_IMTID r \<le> 0 \<or> mr_SubjectID r \<le> 0 \<or>
            mr_ErrorBatchID r \<noteq> 0
         then Some (plain_error ''successful member reconciliation attribution is invalid'') else None)
      else if mr_AttributionLevel r \<noteq> [] then Some (plain_error ''non-successful member reconciliation has attribution'')
      else None)"

fun check_reconciliations :: "int list \<Rightarrow> int list \<Rightarrow> member_reconciliation list \<Rightarrow> goerr option" where
  "check_reconciliations pending seen [] = None"
| "check_reconciliations pending seen (r # rs) =
     (if reconciliation_bad r then Some (plain_error ''member reconciliation result is invalid'')
      else if mr_ActionMemberID r \<in> set seen then Some ErrProductActionConflict
      else if mr_ActionMemberID r \<notin> set pending then Some ErrProductActionConflict
      else or_else (attribution_err r) (check_reconciliations pending (mr_ActionMemberID r # seen) rs))"

definition ValidateMemberReconciliationResults :: "product_action \<Rightarrow> member_reconciliation list \<Rightarrow> goerr option" where
  "ValidateMemberReconciliationResults action results =
     check_reconciliations (map mb_ID (filter (\<lambda>m. mb_OutcomeClass m = []) (pa_Members action))) [] results"

end
