(* ===== verification/ProductJournal.thy ===== *)
theory ProductJournal
  imports ProductAction
begin

text \<open>
  The journal of product actions
  (\<open>internal/feature/cardpublication/repository/postgres/product_*.go\<close> and the baseline of \<open>errorfeed.go\<close>): the
  tables of \<open>migration/000006_card_publication.up.sql\<close> the statements read and write, one function per statement.

  A table is the list of its rows in the order of their identifiers; \<open>NULL\<close> is \<open>None\<close>, or the empty string or 0
  where the schema excludes that value. A statement fails with \<open>pg_constraint\<close> where a \<open>CHECK\<close> or a unique
  index refuses the row. Row locks make every transaction atomic; \<open>now\<close> is its timestamp. Columns that nothing
  reads (\<open>started_at\<close>, \<open>finished_at\<close> of plans, actions and members) are left out; the columns the triggers
  protect are never written.
\<close>

section \<open>Tables\<close>

record plan_rec =
  pl_ID :: int
  pl_TransferID :: int
  pl_Digest :: digest
  pl_TargetSetRoot :: digest
  pl_Revision :: int
  pl_State :: string
  pl_OutcomeClass :: string
  pl_OutcomeCode :: string

record action_rec =
  ar_ID :: int
  ar_TransferID :: int
  ar_PlanID :: int
  ar_TargetID :: int
  ar_Revision :: int
  ar_Kind :: string
  ar_State :: string
  ar_OutcomeClass :: string
  ar_OutcomeCode :: string
  ar_RequestDigest :: digest
  ar_RequestPayload :: string
  ar_MemberSetDigest :: digest
  ar_AuthorizationID :: "int option"
  ar_CreatedAt :: int
  ar_UpdatedAt :: int

record member_rec =
  mw_ID :: int
  mw_TransferID :: int
  mw_ActionID :: int
  mw_GroupTargetID :: int
  mw_TransferItemTargetID :: int
  mw_RequestMemberIndex :: int
  mw_VendorCode :: string
  mw_OutcomeClass :: string
  mw_OutcomeCode :: string
  mw_NMID :: int

record identity_rec =
  iw_SellerID :: seller_id
  iw_VendorCode :: string
  iw_State :: string
  iw_NMID :: int
  iw_IMTID :: int
  iw_SubjectID :: int
  iw_Active :: "(int \<times> int) option"
  iw_Revision :: int

record attempt_rec =
  aw_ID :: int
  aw_TransferID :: int
  aw_ActionID :: int
  aw_AuthorizationID :: int
  aw_RecheckObservationID :: int
  aw_BaselineSellerID :: seller_id
  aw_BaselineRevision :: int
  aw_BaselineUpdatedAt :: "int option"
  aw_BaselineBatchUUID :: string
  aw_BaselineCapturedAt :: int
  aw_RequestDigest :: digest
  aw_RequestPayload :: string
  aw_Delivery :: string
  aw_HTTPStatus :: int
  aw_Disposition :: string
  aw_ClassifierVersion :: int
  aw_SafeCode :: string
  aw_UnmatchedCount :: int
  aw_StartedAt :: int
  aw_FinishedAt :: "int option"

record retry_rec =
  rw_ID :: int
  rw_TransferID :: int
  rw_ActionID :: int
  rw_AuthorizationID :: int
  rw_RequestDigest :: digest
  rw_RequestPayload :: string
  rw_Delivery :: string
  rw_HTTPStatus :: int
  rw_Disposition :: string
  rw_ClassifierVersion :: int
  rw_SafeCode :: string
  rw_UnmatchedCount :: int
  rw_StartedAt :: int
  rw_FinishedAt :: "int option"

record observation_rec =
  ow_ID :: int
  ow_TransferID :: int
  ow_TargetID :: int
  ow_SellerID :: seller_id
  ow_Kind :: string
  ow_Digest :: digest
  ow_NormalCount :: int
  ow_TrashCount :: int
  ow_Payload :: string
  ow_ObservedAt :: int
  ow_CreatedAt :: int

record attribution_rec =
  tn_TransferID :: int
  tn_GroupTargetID :: int
  tn_ActionID :: int
  tn_MemberID :: int
  tn_SellerID :: seller_id
  tn_NMID :: int
  tn_PlanDigest :: digest
  tn_AttemptID :: int
  tn_PreflightObservationID :: int
  tn_PostObservationID :: int
  tn_Level :: string
  tn_SafeReasonCode :: string

record correlation_rec =
  cn_TransferID :: int
  cn_ActionID :: int
  cn_MemberID :: int
  cn_AttemptID :: int
  cn_BatchID :: int
  cn_SafeResultCode :: string

record batch_rec =
  bw_ID :: int
  bw_SellerID :: seller_id
  bw_BatchUUID :: string
  bw_UpdatedAt :: int
  bw_SourceDigest :: digest
  bw_VendorCodes :: "string list"
  bw_RejectedVendorCodes :: "string list"
  bw_ErrorCodes :: "string list"
  bw_ObservedAt :: int

record cursor_rec =
  cw_SellerID :: seller_id
  cw_UpdatedAt :: int
  cw_BatchUUID :: string
  cw_Revision :: int
  cw_PolledAt :: int

record target_rec =
  tg_TransferID :: int
  tg_ID :: int
  tg_Position :: int
  tg_SellerID :: seller_id
  tg_ClientGeneration :: digest
  tg_CredentialExpiresAt :: int

record journal =
  jn_plans :: "plan_rec list"
  jn_actions :: "action_rec list"
  jn_members :: "member_rec list"
  jn_identities :: "identity_rec list"
  jn_attempts :: "attempt_rec list"
  jn_retries :: "retry_rec list"
  jn_observations :: "observation_rec list"
  jn_attributions :: "attribution_rec list"
  jn_correlations :: "correlation_rec list"
  jn_batches :: "batch_rec list"
  jn_cursors :: "cursor_rec list"
  jn_targets :: "target_rec list"
  jn_next :: int

text \<open>\<open>UPDATE ... SET f WHERE p\<close>, the rows it affects.\<close>

definition update_where :: "('r \<Rightarrow> bool) \<Rightarrow> ('r \<Rightarrow> 'r) \<Rightarrow> 'r list \<Rightarrow> 'r list" where
  "update_where p f rows = map (\<lambda>r. if p r then f r else r) rows"

definition affected :: "('r \<Rightarrow> bool) \<Rightarrow> 'r list \<Rightarrow> int" where
  "affected p rows = int (length (filter p rows))"

definition product_kind :: "string \<Rightarrow> bool" where
  "product_kind kind \<longleftrightarrow> kind = ActionCreateGroup \<or> kind = ActionAddToGroup"

definition state_finished :: "string \<Rightarrow> bool" where
  "state_finished state \<longleftrightarrow> state = ''terminal'' \<or> state = ''superseded''"

definition plan_action :: "int \<Rightarrow> int \<Rightarrow> action_rec \<Rightarrow> bool" where
  "plan_action transferID planID w \<longleftrightarrow> ar_TransferID w = transferID \<and> ar_PlanID w = planID"

definition action_key :: "int \<Rightarrow> int \<Rightarrow> action_rec \<Rightarrow> bool" where
  "action_key transferID actionID w \<longleftrightarrow> ar_TransferID w = transferID \<and> ar_ID w = actionID"

text \<open>The action row a member belongs to (\<open>JOIN ... ON transfer_id, id\<close>).\<close>

definition member_of :: "action_rec \<Rightarrow> member_rec \<Rightarrow> bool" where
  "member_of w m \<longleftrightarrow> mw_TransferID m = ar_TransferID w \<and> mw_ActionID m = ar_ID w"

section \<open>Reading an action\<close>

definition preflight_observation :: "journal \<Rightarrow> action_rec \<Rightarrow> int option" where
  "preflight_observation j w =
     (case map ow_ID (filter (\<lambda>ob. ow_TransferID ob = ar_TransferID w \<and> ow_TargetID ob = ar_TargetID w \<and>
            ow_Kind ob = ''normal_trash_preflight'' \<and> ow_CreatedAt ob \<le> ar_CreatedAt w) (jn_observations j)) of
        [] \<Rightarrow> None | i # is \<Rightarrow> Some (foldr max is i))"

definition action_attempt :: "journal \<Rightarrow> int \<Rightarrow> attempt_rec option" where
  "action_attempt j actionID = find (\<lambda>t. aw_ActionID t = actionID) (jn_attempts j)"

definition action_retry :: "journal \<Rightarrow> int \<Rightarrow> int \<Rightarrow> retry_rec option" where
  "action_retry j transferID actionID =
     find (\<lambda>r. rw_TransferID r = transferID \<and> rw_ActionID r = actionID) (jn_retries j)"

definition scan_member :: "member_rec \<Rightarrow> product_member" where
  "scan_member m =
     \<lparr>mb_ID = mw_ID m, mb_GroupTargetID = mw_GroupTargetID m, mb_TransferItemTargetID = mw_TransferItemTargetID m,
      mb_RequestMemberIndex = mw_RequestMemberIndex m, mb_VendorCode = mw_VendorCode m,
      mb_OutcomeClass = mw_OutcomeClass m, mb_OutcomeCode = mw_OutcomeCode m, mb_NMID = mw_NMID m\<rparr>"

definition action_members :: "journal \<Rightarrow> int \<Rightarrow> int \<Rightarrow> member_rec list" where
  "action_members j transferID actionID =
     sort_key mw_RequestMemberIndex (filter (\<lambda>m. mw_TransferID m = transferID \<and> mw_ActionID m = actionID) (jn_members j))"

definition scan_retry :: "product_candidate \<Rightarrow> retry_rec option \<Rightarrow> product_retry" where
  "scan_retry c row =
     (case row of
        None \<Rightarrow> no_retry
      | Some r \<Rightarrow>
          \<lparr>prt_ID = rw_ID r, prt_TransferID = pc_TransferID c, prt_ActionID = pc_ActionID c,
           prt_AuthorizationID = pc_AuthorizationID c, prt_RequestDigest = rw_RequestDigest r,
           prt_StartedAt = rw_StartedAt r, prt_FinishedAt = (case rw_FinishedAt r of None \<Rightarrow> 0 | Some t \<Rightarrow> t),
           prt_Delivery = rw_Delivery r, prt_HTTPStatus = rw_HTTPStatus r, prt_Disposition = rw_Disposition r,
           prt_ClassifierVersion = rw_ClassifierVersion r, prt_SafeCode = rw_SafeCode r,
           prt_UnmatchedCount = rw_UnmatchedCount r\<rparr>)"

definition candidate_row :: "journal \<Rightarrow> product_candidate \<Rightarrow> (action_rec \<times> target_rec) option" where
  "candidate_row j c =
     (case find (action_key (pc_TransferID c) (pc_ActionID c)) (jn_actions j) of
        None \<Rightarrow> None
      | Some w \<Rightarrow>
          (case (find (\<lambda>p. pl_TransferID p = ar_TransferID w \<and> pl_ID p = ar_PlanID w) (jn_plans j),
                 find (\<lambda>t. tg_TransferID t = ar_TransferID w \<and> tg_ID t = ar_TargetID w) (jn_targets j)) of
             (Some p, Some t) \<Rightarrow>
               if ar_TargetID w = pc_TargetID c \<and> tg_SellerID t = pc_SellerID c \<and> pl_Digest p = pc_PlanDigest c \<and>
                  pl_TargetSetRoot p = pc_TargetSetRoot c
               then Some (w, t) else None
           | _ \<Rightarrow> None))"

definition scan_action ::
  "journal \<Rightarrow> product_candidate \<Rightarrow> action_rec \<Rightarrow> target_rec \<Rightarrow> int \<Rightarrow> int \<Rightarrow> product_action" where
  "scan_action j c w t preflight revision =
     \<lparr>pc_TransferID = pc_TransferID c, pc_ActionID = pc_ActionID c, pc_TargetID = pc_TargetID c,
      pc_SellerID = pc_SellerID c, pc_AuthorizationID = pc_AuthorizationID c, pc_AuthorizationRevision = revision,
      pc_PlanDigest = pc_PlanDigest c, pc_TargetSetRoot = pc_TargetSetRoot c,
      pc_CatalogVendorCodes = pc_CatalogVendorCodes c,
      pa_PlanID = ar_PlanID w, pa_Revision = ar_Revision w, pa_Kind = ar_Kind w, pa_State = ar_State w,
      pa_RequestDigest = ar_RequestDigest w, pa_RequestPayload = ar_RequestPayload w,
      pa_MemberSetDigest = ar_MemberSetDigest w, pa_SellerID = tg_SellerID t,
      pa_ClientGeneration = tg_ClientGeneration t, pa_CredentialExpiresAt = tg_CredentialExpiresAt t,
      pa_PreflightObservationID = preflight,
      pa_Members = map scan_member (action_members j (pc_TransferID c) (pc_ActionID c)),
      pa_AttemptID = (case action_attempt j (ar_ID w) of None \<Rightarrow> 0 | Some x \<Rightarrow> aw_ID x),
      pa_RecheckObservationID = (case action_attempt j (ar_ID w) of None \<Rightarrow> 0 | Some x \<Rightarrow> aw_RecheckObservationID x),
      pa_AttemptStartedAt = (case action_attempt j (ar_ID w) of None \<Rightarrow> 0 | Some x \<Rightarrow> aw_StartedAt x),
      pa_AttemptFinishedAt =
        (case action_attempt j (ar_ID w) of None \<Rightarrow> 0 | Some x \<Rightarrow> (case aw_FinishedAt x of None \<Rightarrow> 0 | Some u \<Rightarrow> u)),
      pa_AttemptDelivery = (case action_attempt j (ar_ID w) of None \<Rightarrow> [] | Some x \<Rightarrow> aw_Delivery x),
      pa_AttemptHTTPStatus = (case action_attempt j (ar_ID w) of None \<Rightarrow> 0 | Some x \<Rightarrow> aw_HTTPStatus x),
      pa_AttemptSafeCode = (case action_attempt j (ar_ID w) of None \<Rightarrow> [] | Some x \<Rightarrow> aw_SafeCode x),
      pa_EmptyResponseRetry = scan_retry c (action_retry j (ar_TransferID w) (ar_ID w))\<rparr>"

definition lockProductIdentities :: "journal \<Rightarrow> product_action \<Rightarrow> goerr option" where
  "lockProductIdentities j action =
     (if affected (\<lambda>i. iw_SellerID i = pa_SellerID action \<and> iw_VendorCode i \<in> set (action_VendorCodes action))
           (jn_identities j) \<noteq> int (length (pa_Members action))
      then Some ErrProductActionConflict else None)"

definition LockProductAction ::
  "exec_codec \<Rightarrow> live_db \<Rightarrow> journal \<Rightarrow> product_candidate \<Rightarrow> product_action result" where
  "LockProductAction cd live j c =
     (if pc_TransferID c \<le> 0 \<or> pc_ActionID c \<le> 0 \<or> pc_AuthorizationID c \<le> 0
      then Inl (plain_error ''lock publication product action: identity is invalid'')
      else
        (case (candidate_row j c,
               find (\<lambda>a. av_TransferID a = pc_TransferID c \<and> av_ID a = pc_AuthorizationID c) (ld_auths live)) of
           (Some (w, t), Some auth) \<Rightarrow>
             (case preflight_observation j w of
                None \<Rightarrow> Inl ErrProductActionConflict
              | Some preflight \<Rightarrow>
                  if length (ar_RequestDigest w) \<noteq> 32 \<or> length (ar_MemberSetDigest w) \<noteq> 32 \<or>
                     SellerID_Validate (tg_SellerID t) \<noteq> None \<or> length (tg_ClientGeneration t) \<noteq> 32
                  then Inl ErrProductActionConflict
                  else
                    (let action = scan_action j c w t preflight (av_Revision auth)
                     in guard (lockProductIdentities j action) (guard (ProductAction_Validate cd action) (Inr action))))
         | _ \<Rightarrow> Inl ErrProductActionConflict))"

section \<open>Observations\<close>

definition five_minutes :: int where "five_minutes = 5 * 60 * 1000000000"

definition InsertActionObservation ::
  "int \<Rightarrow> int \<Rightarrow> string \<Rightarrow> observation_draft \<Rightarrow> journal \<Rightarrow> (journal \<times> int) result" where
  "InsertActionObservation now transferID kind ob j =
     (if transferID \<le> 0 \<or> (kind \<noteq> ''targeted_recheck'' \<and> kind \<noteq> ''post_submission'')
      then Inl (plain_error ''insert action observation command is invalid'')
      else
        (case find (\<lambda>r. ow_TransferID r = transferID \<and> ow_TargetID r = od_TargetID ob \<and> ow_Kind r = kind \<and>
                ow_Digest r = od_Digest ob) (jn_observations j) of
           Some r \<Rightarrow> Inr (j, ow_ID r)
         | None \<Rightarrow>
             if SellerID_Validate (od_SellerID ob) \<noteq> None \<or> length (od_Digest ob) \<noteq> 32 \<or> od_NormalCount ob < 0 \<or>
                od_TrashCount ob < 0 \<or> pg_time now + five_minutes < pg_time (od_ObservedAt ob)
             then Inl pg_constraint
             else Inr (j\<lparr>jn_observations := jn_observations j @
                         [\<lparr>ow_ID = jn_next j, ow_TransferID = transferID, ow_TargetID = od_TargetID ob,
                           ow_SellerID = od_SellerID ob, ow_Kind = kind, ow_Digest = od_Digest ob,
                           ow_NormalCount = od_NormalCount ob, ow_TrashCount = od_TrashCount ob,
                           ow_Payload = od_Payload ob, ow_ObservedAt = pg_time (od_ObservedAt ob),
                           ow_CreatedAt = pg_time now\<rparr>],
                       jn_next := jn_next j + 1\<rparr>, jn_next j)))"

section \<open>The plan as a whole\<close>

definition plan_attempts :: "journal \<Rightarrow> int \<Rightarrow> int \<Rightarrow> attempt_rec list" where
  "plan_attempts j transferID planID =
     filter (\<lambda>t. list_ex (\<lambda>w. plan_action transferID planID w \<and> ar_TransferID w = aw_TransferID t \<and> ar_ID w = aw_ActionID t)
                  (jn_actions j)) (jn_attempts j)"

definition PlanAttemptCount :: "journal \<Rightarrow> int \<Rightarrow> int \<Rightarrow> int" where
  "PlanAttemptCount j transferID planID = int (length (plan_attempts j transferID planID))"

definition safe_code_bad :: "string \<Rightarrow> bool" where
  "safe_code_bad code \<longleftrightarrow> code = [] \<or> 128 < length code"

text \<open>\<open>UPDATE\<close> of the pending members of the actions that satisfy \<open>p\<close>; \<open>f\<close> gives class and code by the action's kind.\<close>

definition finish_members ::
  "(action_rec \<Rightarrow> bool) \<Rightarrow> (action_rec \<Rightarrow> string \<times> string) \<Rightarrow> journal \<Rightarrow> journal" where
  "finish_members p f j = j\<lparr>jn_members := map (\<lambda>m.
     case find (\<lambda>w. member_of w m \<and> p w) (jn_actions j) of
       None \<Rightarrow> m
     | Some w \<Rightarrow> if mw_OutcomeClass m = [] then m\<lparr>mw_OutcomeClass := fst (f w), mw_OutcomeCode := snd (f w)\<rparr> else m)
     (jn_members j)\<rparr>"

definition finish_action :: "int \<Rightarrow> string \<Rightarrow> string \<Rightarrow> string \<Rightarrow> action_rec \<Rightarrow> action_rec" where
  "finish_action now state cls code w =
     w\<lparr>ar_State := state, ar_OutcomeClass := cls, ar_OutcomeCode := code, ar_Revision := ar_Revision w + 1,
       ar_UpdatedAt := pg_time now\<rparr>"

definition SupersedePlanBeforeDispatch :: "int \<Rightarrow> product_action \<Rightarrow> string \<Rightarrow> journal \<Rightarrow> journal result" where
  "SupersedePlanBeforeDispatch now action safeCode j =
     (if safe_code_bad safeCode then Inl (plain_error ''supersede publication plan command is invalid'')
      else
        (let ours = plan_action (pc_TransferID action) (pa_PlanID action);
             expected = affected ours (jn_actions j);
             j1 = finish_members ours (\<lambda>_. (ResultSkipped, safeCode)) j;
             planned = (\<lambda>w. ours w \<and> ar_State w = ''planned'');
             j2 = j1\<lparr>jn_actions := update_where planned (finish_action now ''superseded'' ResultSkipped safeCode) (jn_actions j1)\<rparr>;
             waiting = (\<lambda>p. pl_TransferID p = pc_TransferID action \<and> pl_ID p = pa_PlanID action \<and>
                            pl_State p = ''awaiting_authorization'')
         in if affected planned (jn_actions j1) \<noteq> expected then Inl ErrProductActionConflict
            else if affected waiting (jn_plans j2) \<noteq> 1 then Inl ErrProductActionConflict
            else Inr (j2\<lparr>jn_plans := update_where waiting (\<lambda>p. p\<lparr>pl_State := ''superseded'', pl_OutcomeClass := ResultSkipped,
                          pl_OutcomeCode := safeCode, pl_Revision := pl_Revision p + 1\<rparr>) (jn_plans j2)\<rparr>)))"

definition plan_count :: "(string \<Rightarrow> bool) \<Rightarrow> action_rec list \<Rightarrow> int" where
  "plan_count p ws = affected (\<lambda>w. p (ar_OutcomeClass w)) ws"

text \<open>The \<open>CASE\<close>s of the reduction over the plan's actions: class and code of the plan.\<close>

definition plan_outcome :: "action_rec list \<Rightarrow> string \<times> string" where
  "plan_outcome ws =
     (let rejected = plan_count (\<lambda>c. c = ResultRejected) ws;
          accepted = plan_count (\<lambda>c. c = ResultSuccess \<or> c = ResultSkipped) ws
      in if 0 < plan_count (\<lambda>c. c = ResultUnresolved) ws \<or> 0 < plan_count (\<lambda>c. c = ResultInternalError) ws
         then (ResultUnresolved, ''PUBLICATION_REQUIRES_ATTENTION'')
         else if rejected = int (length ws) then (ResultRejected, ''PUBLICATION_REJECTED'')
         else if 0 < rejected \<and> 0 < accepted then (ResultPartial, ''PUBLICATION_PARTIAL'')
         else (ResultSuccess, ''PUBLICATION_TERMINAL''))"

definition reducePublicationPlan :: "int \<Rightarrow> int \<Rightarrow> journal \<Rightarrow> journal result" where
  "reducePublicationPlan transferID planID j =
     (let ours = (\<lambda>p. pl_TransferID p = transferID \<and> pl_ID p = planID);
          actions = filter (plan_action transferID planID) (jn_actions j)
      in case find ours (jn_plans j) of
           None \<Rightarrow> Inl pg_no_rows
         | Some p \<Rightarrow>
             if pl_State p \<noteq> ''executing'' then Inr j
             else if list_ex (\<lambda>w. \<not> state_finished (ar_State w)) actions then Inr j
             else if actions = [] then Inr j
             else Inr (j\<lparr>jn_plans := update_where ours (\<lambda>p. p\<lparr>pl_State := ''terminal'',
                      pl_OutcomeClass := fst (plan_outcome actions), pl_OutcomeCode := snd (plan_outcome actions),
                      pl_Revision := pl_Revision p + 1\<rparr>) (jn_plans j)\<rparr>))"

definition planned_products :: "product_action \<Rightarrow> journal \<Rightarrow> action_rec list" where
  "planned_products action j =
     sort_key ar_ID (filter (\<lambda>w. plan_action (pc_TransferID action) (pa_PlanID action) w \<and> product_kind (ar_Kind w) \<and>
        ar_State w = ''planned'') (jn_actions j))"

definition aborted_member :: "member_rec \<Rightarrow> product_member" where
  "aborted_member m =
     \<lparr>mb_ID = mw_ID m, mb_GroupTargetID = mw_GroupTargetID m, mb_TransferItemTargetID = mw_TransferItemTargetID m,
      mb_RequestMemberIndex = mw_RequestMemberIndex m, mb_VendorCode = mw_VendorCode m,
      mb_OutcomeClass = [], mb_OutcomeCode = [], mb_NMID = 0\<rparr>"

definition aborted_actions :: "product_action \<Rightarrow> journal \<Rightarrow> aborted_action list" where
  "aborted_actions action j =
     filter (\<lambda>b. ab_Members b \<noteq> [])
       (map (\<lambda>w. \<lparr>ab_ActionID = ar_ID w,
                   ab_Members = map aborted_member (action_members j (ar_TransferID w) (ar_ID w))\<rparr>)
         (planned_products action j))"

definition identity_of_planned :: "product_action \<Rightarrow> journal \<Rightarrow> identity_rec \<Rightarrow> bool" where
  "identity_of_planned action j i \<longleftrightarrow>
     list_ex (\<lambda>w. list_ex (\<lambda>t. tg_TransferID t = ar_TransferID w \<and> tg_ID t = ar_TargetID w \<and> tg_SellerID t = iw_SellerID i)
                    (jn_targets j) \<and>
                  list_ex (\<lambda>m. member_of w m \<and> mw_VendorCode m = iw_VendorCode i) (jn_members j))
       (planned_products action j)"

definition media_skip_code :: string where "media_skip_code = ''VENDOR_CODE_ATTRIBUTION_UNAVAILABLE''"

definition abort_outcome :: "string \<Rightarrow> action_rec \<Rightarrow> string \<times> string" where
  "abort_outcome safeCode w =
     (if ar_Kind w = ActionUploadMedia then (ResultSkipped, media_skip_code) else (ResultUnresolved, safeCode))"

definition AbortPlanAfterDispatch ::
  "int \<Rightarrow> product_action \<Rightarrow> string \<Rightarrow> journal \<Rightarrow> (journal \<times> aborted_action list) result" where
  "AbortPlanAfterDispatch now action safeCode j =
     (if pa_State action \<noteq> ''planned'' \<or> safe_code_bad safeCode
      then Inl (plain_error ''abort publication plan command is invalid'')
      else if aborted_actions action j = [] then Inl ErrProductActionConflict
      else
        (let planned = (\<lambda>w. plan_action (pc_TransferID action) (pa_PlanID action) w \<and> ar_State w = ''planned'');
             j1 = j\<lparr>jn_identities := update_where
                     (\<lambda>i. iw_Active i = None \<and> iw_State i = IdentityRemoteMissing \<and> identity_of_planned action j i)
                     (\<lambda>i. i\<lparr>iw_State := ''blocked_uncertain'', iw_Revision := iw_Revision i + 1\<rparr>) (jn_identities j)\<rparr>;
             j2 = finish_members planned (abort_outcome safeCode) j1;
             j3 = j2\<lparr>jn_actions := update_where planned
                     (\<lambda>w. finish_action now ''terminal'' (fst (abort_outcome safeCode w)) (snd (abort_outcome safeCode w)) w)
                     (jn_actions j2)\<rparr>
         in rbind (reducePublicationPlan (pc_TransferID action) (pa_PlanID action) j3)
              (\<lambda>j4. Inr (j4, aborted_actions action j))))"

definition PublicationPlanTerminal :: "journal \<Rightarrow> int \<Rightarrow> int \<Rightarrow> bool result" where
  "PublicationPlanTerminal j transferID planID =
     (if transferID \<le> 0 \<or> planID \<le> 0 then Inl (plain_error ''publication terminal plan query is invalid'')
      else (case find (\<lambda>p. pl_TransferID p = transferID \<and> pl_ID p = planID) (jn_plans j) of
              None \<Rightarrow> Inl pg_no_rows
            | Some p \<Rightarrow> Inr (pl_State p = ''terminal'' \<and>
                \<not> list_ex (\<lambda>w. plan_action transferID planID w \<and> \<not> state_finished (ar_State w)) (jn_actions j))))"

section \<open>Attempts\<close>

record error_baseline =
  bl_TransferID :: int
  bl_ActionID :: int
  bl_SellerID :: seller_id
  bl_CursorRevision :: int
  bl_CursorUpdatedAt :: int
  bl_CursorBatchUUID :: string
  bl_CapturedAt :: int

definition ErrorBaseline_Validate :: "error_baseline \<Rightarrow> goerr option" where
  "ErrorBaseline_Validate b =
     (if bl_TransferID b \<le> 0 \<or> bl_ActionID b \<le> 0 \<or> bl_SellerID b = [] \<or> bl_CursorRevision b < 0 \<or> bl_CapturedAt b = 0 \<or>
         (bl_CursorUpdatedAt b = 0 \<and> bl_CursorBatchUUID b \<noteq> [])
      then Some (plain_error ''Cards Error List baseline is invalid'') else None)"

definition fresh_cursor :: "seller_id \<Rightarrow> cursor_rec" where
  "fresh_cursor sellerID =
     \<lparr>cw_SellerID = sellerID, cw_UpdatedAt = 0, cw_BatchUUID = [], cw_Revision = 0, cw_PolledAt = 0\<rparr>"

definition ensureErrorCursor :: "seller_id \<Rightarrow> journal \<Rightarrow> journal result" where
  "ensureErrorCursor sellerID j =
     (if list_ex (\<lambda>c. cw_SellerID c = sellerID) (jn_cursors j) then Inr j
      else if SellerID_Validate sellerID \<noteq> None then Inl pg_constraint
      else Inr (j\<lparr>jn_cursors := jn_cursors j @ [fresh_cursor sellerID]\<rparr>))"

definition lockErrorCursor :: "seller_id \<Rightarrow> journal \<Rightarrow> cursor_rec result" where
  "lockErrorCursor sellerID j =
     (case find (\<lambda>c. cw_SellerID c = sellerID) (jn_cursors j) of None \<Rightarrow> Inl pg_no_rows | Some c \<Rightarrow> Inr c)"

definition CaptureErrorBaseline ::
  "int \<Rightarrow> int \<Rightarrow> int \<Rightarrow> seller_id \<Rightarrow> journal \<Rightarrow> (journal \<times> error_baseline) result" where
  "CaptureErrorBaseline now transferID actionID sellerID j =
     rbind (ensureErrorCursor sellerID j) (\<lambda>j.
     rbind (lockErrorCursor sellerID j) (\<lambda>c.
       case find (\<lambda>w. action_key transferID actionID w \<and> ar_State w = ''planned'') (jn_actions j) of
         None \<Rightarrow> Inl pg_no_rows
       | Some w \<Rightarrow>
           if \<not> list_ex (\<lambda>t. tg_TransferID t = transferID \<and> tg_ID t = ar_TargetID w \<and> tg_SellerID t = sellerID) (jn_targets j)
           then Inl pg_no_rows
           else
             (let b = \<lparr>bl_TransferID = transferID, bl_ActionID = actionID, bl_SellerID = sellerID,
                        bl_CursorRevision = cw_Revision c, bl_CursorUpdatedAt = cw_UpdatedAt c,
                        bl_CursorBatchUUID = cw_BatchUUID c, bl_CapturedAt = pg_time now\<rparr>
              in guard (ErrorBaseline_Validate b) (Inr (j, b)))))"

definition CaptureBaseline ::
  "int \<Rightarrow> int \<Rightarrow> int \<Rightarrow> seller_id \<Rightarrow> journal \<Rightarrow> (journal \<times> error_baseline) result" where
  "CaptureBaseline now transferID actionID sellerID j =
     (if transferID \<le> 0 \<or> actionID \<le> 0 \<or> sellerID = []
      then Inl (plain_error ''capture Cards Error List baseline command is invalid'')
      else CaptureErrorBaseline now transferID actionID sellerID j)"

definition optional_status :: "int \<Rightarrow> int" where
  "optional_status status = (if 0 < status then status else 0)"

definition attempt_columns_ok :: "attempt_rec \<Rightarrow> bool" where
  "attempt_columns_ok t \<longleftrightarrow>
     (aw_HTTPStatus t = 0 \<or> (100 \<le> aw_HTTPStatus t \<and> aw_HTTPStatus t \<le> 599)) \<and>
     ((aw_Delivery t = SubmissionNotDispatched \<and> aw_HTTPStatus t = 0 \<and>
         ((aw_Disposition t = [] \<and> aw_FinishedAt t = None) \<or>
          (aw_Disposition t = SubmissionRejectedProven \<and> 0 < aw_ClassifierVersion t \<and> aw_FinishedAt t \<noteq> None))) \<or>
      (aw_Delivery t = SubmissionResponseReceived \<and> aw_Disposition t \<noteq> [] \<and> 0 < aw_ClassifierVersion t \<and>
         aw_FinishedAt t \<noteq> None) \<or>
      (aw_Delivery t = SubmissionUnknownDelivery \<and> aw_HTTPStatus t = 0 \<and> aw_Disposition t = SubmissionUncertain \<and>
         0 < aw_ClassifierVersion t \<and> aw_FinishedAt t \<noteq> None)) \<and>
     0 \<le> aw_UnmatchedCount t \<and> since (aw_StartedAt t) (aw_FinishedAt t)"

definition owned_identity :: "product_action \<Rightarrow> identity_rec \<Rightarrow> bool" where
  "owned_identity action i \<longleftrightarrow>
     iw_SellerID i = pa_SellerID action \<and> iw_Active i = Some (pc_TransferID action, pc_ActionID action)"

definition free_identity :: "product_action \<Rightarrow> identity_rec \<Rightarrow> bool" where
  "free_identity action i \<longleftrightarrow>
     iw_SellerID i = pa_SellerID action \<and> iw_VendorCode i \<in> set (action_VendorCodes action) \<and>
     iw_State i = IdentityRemoteMissing \<and> iw_Active i = None"

definition bind_identity :: "product_action \<Rightarrow> identity_rec \<Rightarrow> identity_rec" where
  "bind_identity action i =
     i\<lparr>iw_State := ''mutation_pending'', iw_Active := Some (pc_TransferID action, pc_ActionID action),
       iw_Revision := iw_Revision i + 1\<rparr>"

definition dispatchable_row :: "product_action \<Rightarrow> action_rec \<Rightarrow> bool" where
  "dispatchable_row action w \<longleftrightarrow>
     action_key (pc_TransferID action) (pc_ActionID action) w \<and> ar_Revision w = pa_Revision action \<and>
     ar_State w = ''planned'' \<and> ar_AuthorizationID w = None"

definition open_plan :: "product_action \<Rightarrow> plan_rec \<Rightarrow> bool" where
  "open_plan action p \<longleftrightarrow>
     pl_TransferID p = pc_TransferID action \<and> pl_ID p = pa_PlanID action \<and>
     (pl_State p = ''awaiting_authorization'' \<or> pl_State p = ''executing'')"

definition new_attempt :: "int \<Rightarrow> product_action \<Rightarrow> error_baseline \<Rightarrow> int \<Rightarrow> int \<Rightarrow> attempt_rec" where
  "new_attempt now action baseline recheckID attemptID =
     \<lparr>aw_ID = attemptID, aw_TransferID = pc_TransferID action, aw_ActionID = pc_ActionID action,
      aw_AuthorizationID = pc_AuthorizationID action, aw_RecheckObservationID = recheckID,
      aw_BaselineSellerID = bl_SellerID baseline, aw_BaselineRevision = bl_CursorRevision baseline,
      aw_BaselineUpdatedAt = (if bl_CursorUpdatedAt baseline = 0 then None else Some (pg_time (bl_CursorUpdatedAt baseline))),
      aw_BaselineBatchUUID = bl_CursorBatchUUID baseline, aw_BaselineCapturedAt = pg_time (bl_CapturedAt baseline),
      aw_RequestDigest = pa_RequestDigest action, aw_RequestPayload = pa_RequestPayload action,
      aw_Delivery = SubmissionNotDispatched, aw_HTTPStatus = 0, aw_Disposition = [], aw_ClassifierVersion = 0,
      aw_SafeCode = [], aw_UnmatchedCount = 0, aw_StartedAt = pg_time now, aw_FinishedAt = None\<rparr>"

definition BeginProductAttempt ::
  "int \<Rightarrow> product_action \<Rightarrow> live_evidence \<Rightarrow> error_baseline \<Rightarrow> int \<Rightarrow> journal \<Rightarrow> (journal \<times> product_attempt) result" where
  "BeginProductAttempt now action auth baseline recheckID j =
     (if pa_State action \<noteq> ''planned'' \<or> pa_AttemptID action \<noteq> 0 \<or>
         le_AuthorizationID auth \<noteq> pc_AuthorizationID action \<or> le_Revision auth \<noteq> pc_AuthorizationRevision action \<or>
         ErrorBaseline_Validate baseline \<noteq> None \<or> bl_TransferID baseline \<noteq> pc_TransferID action \<or>
         bl_ActionID baseline \<noteq> pc_ActionID action \<or> bl_SellerID baseline \<noteq> pa_SellerID action \<or> recheckID \<le> 0
      then Inl (plain_error ''begin publication product attempt command is invalid'')
      else if affected (free_identity action) (jn_identities j) \<noteq> int (length (pa_Members action))
      then Inl ErrProductActionConflict
      else if affected (dispatchable_row action) (jn_actions j) \<noteq> 1 then Inl ErrProductActionConflict
      else if affected (open_plan action) (jn_plans j) \<noteq> 1 then Inl ErrProductActionConflict
      else if list_ex (\<lambda>t. aw_ActionID t = pc_ActionID action) (jn_attempts j) \<or>
              10000000 < length (pa_RequestPayload action) then Inl pg_constraint
      else
        (let row = new_attempt now action baseline recheckID (jn_next j)
         in Inr (j\<lparr>jn_identities := update_where (free_identity action) (bind_identity action) (jn_identities j),
                   jn_actions := update_where (dispatchable_row action)
                     (\<lambda>w. w\<lparr>ar_State := ''dispatching'', ar_AuthorizationID := Some (pc_AuthorizationID action),
                            ar_Revision := ar_Revision w + 1, ar_UpdatedAt := pg_time now\<rparr>) (jn_actions j),
                   jn_plans := update_where (open_plan action)
                     (\<lambda>p. p\<lparr>pl_State := ''executing'', pl_Revision := pl_Revision p + 1\<rparr>) (jn_plans j),
                   jn_attempts := jn_attempts j @ [row], jn_next := jn_next j + 1\<rparr>,
                 \<lparr>pat_ID = aw_ID row, pat_TransferID = pc_TransferID action, pat_ActionID = pc_ActionID action,
                  pat_AuthorizationID = pc_AuthorizationID action, pat_RecheckObservationID = recheckID,
                  pat_RequestDigest = pa_RequestDigest action, pat_StartedAt = aw_StartedAt row\<rparr>)))"

section \<open>Results of an attempt\<close>

definition open_attempt :: "product_action \<Rightarrow> product_attempt \<Rightarrow> attempt_rec \<Rightarrow> bool" where
  "open_attempt action attempt t \<longleftrightarrow>
     aw_TransferID t = pc_TransferID action \<and> aw_ID t = pat_ID attempt \<and> aw_ActionID t = pc_ActionID action \<and>
     aw_AuthorizationID t = pc_AuthorizationID action \<and> aw_FinishedAt t = None"

definition finish_attempt :: "int \<Rightarrow> submission_result \<Rightarrow> attempt_rec \<Rightarrow> attempt_rec" where
  "finish_attempt now r t =
     t\<lparr>aw_Delivery := sr_Delivery r, aw_HTTPStatus := optional_status (sr_HTTPStatus r), aw_Disposition := sr_Disposition r,
       aw_ClassifierVersion := sr_ClassifierVersion r, aw_SafeCode := sr_SafeCode r,
       aw_UnmatchedCount := sr_UnmatchedCount r, aw_FinishedAt := Some (pg_time now)\<rparr>"

definition action_in_state :: "product_action \<Rightarrow> string \<Rightarrow> action_rec \<Rightarrow> bool" where
  "action_in_state action state w \<longleftrightarrow>
     action_key (pc_TransferID action) (pc_ActionID action) w \<and> ar_State w = state \<and>
     ar_AuthorizationID w = Some (pc_AuthorizationID action)"

definition pending_row :: "product_action \<Rightarrow> int \<Rightarrow> member_rec \<Rightarrow> bool" where
  "pending_row action memberID m \<longleftrightarrow>
     mw_TransferID m = pc_TransferID action \<and> mw_ActionID m = pc_ActionID action \<and> mw_ID m = memberID \<and>
     mw_OutcomeClass m = []"

definition finish_identity :: "string \<Rightarrow> bool \<Rightarrow> identity_rec \<Rightarrow> identity_rec" where
  "finish_identity state clearActive i =
     i\<lparr>iw_State := state, iw_Active := (if clearActive then None else iw_Active i), iw_Revision := iw_Revision i + 1\<rparr>"

definition submission_identity :: "string \<Rightarrow> string \<times> bool" where
  "submission_identity cls = (if cls = ResultInternalError then (''blocked_uncertain'', False) else (''rejected'', True))"

definition finish_submitted_member :: "product_action \<Rightarrow> product_member \<Rightarrow> string \<Rightarrow> string \<Rightarrow> journal \<Rightarrow> journal result" where
  "finish_submitted_member action m cls code j =
     (let ours = (\<lambda>i. owned_identity action i \<and> iw_VendorCode i = mb_VendorCode m)
      in if affected (pending_row action (mb_ID m)) (jn_members j) \<noteq> 1 then Inl ErrProductActionConflict
         else if affected ours (jn_identities j) \<noteq> 1 then Inl ErrProductActionConflict
         else Inr (j\<lparr>jn_members := update_where (pending_row action (mb_ID m))
                       (\<lambda>w. w\<lparr>mw_OutcomeClass := cls, mw_OutcomeCode := code\<rparr>) (jn_members j),
                     jn_identities := update_where ours
                       (finish_identity (fst (submission_identity cls)) (snd (submission_identity cls))) (jn_identities j)\<rparr>))"

definition member_submission_for :: "submission_result \<Rightarrow> int \<Rightarrow> member_submission option" where
  "member_submission_for r memberID = find (\<lambda>x. ms_ActionMemberID x = memberID) (rev (sr_MemberResults r))"

fun finish_submitted_members ::
  "product_action \<Rightarrow> submission_result \<Rightarrow> product_member list \<Rightarrow> string \<Rightarrow> journal \<Rightarrow> (journal \<times> string) result" where
  "finish_submitted_members action r [] actionClass j = Inr (j, actionClass)"
| "finish_submitted_members action r (m # ms) actionClass j =
     (case member_submission_for r (mb_ID m) of
        None \<Rightarrow> Inl ErrProductActionConflict
      | Some x \<Rightarrow>
          rbind (finish_submitted_member action m (ms_OutcomeClass x) (ms_OutcomeCode x) j)
            (finish_submitted_members action r ms
               (if ms_OutcomeClass x = ResultInternalError then ResultInternalError else actionClass)))"

text \<open>Media of members without an attribution are skipped; a media action with no pending member left is finished.\<close>

definition attributed_product ::
  "product_action \<Rightarrow> journal \<Rightarrow> action_rec \<Rightarrow> member_rec \<Rightarrow> bool" where
  "attributed_product action j media m \<longleftrightarrow>
     list_ex (\<lambda>w. plan_action (ar_TransferID media) (ar_PlanID media) w \<and> product_kind (ar_Kind w) \<and>
       list_ex (\<lambda>pm. member_of w pm \<and> mw_TransferItemTargetID pm = mw_TransferItemTargetID m \<and>
                     mw_VendorCode pm = mw_VendorCode m \<and>
         list_ex (\<lambda>t. tn_TransferID t = mw_TransferID pm \<and> tn_MemberID t = mw_ID pm \<and>
                      (tn_Level t = ''direct'' \<or> tn_Level t = ''observed_after_attempt'') \<and>
                      tn_PlanDigest t = pc_PlanDigest action \<and> tn_SellerID t = pa_SellerID action \<and>
                      tn_GroupTargetID t = mw_GroupTargetID m) (jn_attributions j)) (jn_members j)) (jn_actions j)"

definition planned_media :: "product_action \<Rightarrow> action_rec \<Rightarrow> bool" where
  "planned_media action w \<longleftrightarrow>
     plan_action (pc_TransferID action) (pa_PlanID action) w \<and> ar_Kind w = ActionUploadMedia \<and> ar_State w = ''planned''"

definition action_item_targets :: "product_action \<Rightarrow> int list" where
  "action_item_targets action = map mb_TransferItemTargetID (pa_Members action)"

definition skip_media_member :: "product_action \<Rightarrow> string \<Rightarrow> journal \<Rightarrow> member_rec \<Rightarrow> member_rec" where
  "skip_media_member action safeCode j m =
     (case find (\<lambda>w. member_of w m \<and> planned_media action w) (jn_actions j) of
        None \<Rightarrow> m
      | Some w \<Rightarrow>
          if mw_TransferItemTargetID m \<in> set (action_item_targets action) \<and> mw_OutcomeClass m = [] \<and>
             \<not> attributed_product action j w m
          then m\<lparr>mw_OutcomeClass := ResultSkipped, mw_OutcomeCode := safeCode\<rparr> else m)"

definition settled_media :: "product_action \<Rightarrow> journal \<Rightarrow> action_rec \<Rightarrow> bool" where
  "settled_media action j w \<longleftrightarrow>
     planned_media action w \<and>
     list_ex (\<lambda>m. member_of w m \<and> mw_TransferItemTargetID m \<in> set (action_item_targets action)) (jn_members j) \<and>
     \<not> list_ex (\<lambda>m. member_of w m \<and> mw_OutcomeClass m = []) (jn_members j)"

definition finishPotentialMediaActions :: "int \<Rightarrow> product_action \<Rightarrow> string \<Rightarrow> journal \<Rightarrow> journal" where
  "finishPotentialMediaActions now action safeCode j =
     (let j1 = j\<lparr>jn_members := map (skip_media_member action safeCode j) (jn_members j)\<rparr>
      in j1\<lparr>jn_actions := update_where (settled_media action j1) (finish_action now ''terminal'' ResultSkipped safeCode)
             (jn_actions j1)\<rparr>)"

definition PendingMediaGroupTargetIDs :: "journal \<Rightarrow> product_action \<Rightarrow> int list result" where
  "PendingMediaGroupTargetIDs j action =
     (if pc_TransferID action \<le> 0 \<or> pa_PlanID action \<le> 0 \<or> pa_Members action = [] then Inl ErrProductActionConflict
      else Inr (sort (remdups (map mw_GroupTargetID
        (filter (\<lambda>m. list_ex (\<lambda>w. member_of w m \<and> planned_media action w) (jn_actions j) \<and> mw_OutcomeClass m = [] \<and>
                     mw_TransferItemTargetID m \<in> set (action_item_targets action)) (jn_members j))))))"

definition block_identities :: "product_action \<Rightarrow> journal \<Rightarrow> journal" where
  "block_identities action j =
     j\<lparr>jn_identities := update_where
         (\<lambda>i. owned_identity action i \<and> iw_VendorCode i \<in> set (action_VendorCodes action) \<and> iw_State i = ''mutation_pending'')
         (\<lambda>i. i\<lparr>iw_State := ''blocked_uncertain'', iw_Revision := iw_Revision i + 1\<rparr>) (jn_identities j)\<rparr>"

definition finish_rejected ::
  "int \<Rightarrow> product_action \<Rightarrow> submission_result \<Rightarrow> journal \<Rightarrow> journal result" where
  "finish_rejected now action r j =
     (if length (remdups (map ms_ActionMemberID (sr_MemberResults r))) \<noteq> length (pa_Members action)
      then Inl ErrProductActionConflict
      else
        rbind (finish_submitted_members action r (pa_Members action) ResultRejected j) (\<lambda>(j, actionClass).
          let j = finishPotentialMediaActions now action media_skip_code j;
              ours = action_in_state action ''dispatching''
          in if affected ours (jn_actions j) \<noteq> 1 then Inl ErrProductActionConflict
             else reducePublicationPlan (pc_TransferID action) (pa_PlanID action)
                    (j\<lparr>jn_actions := update_where ours (finish_action now ''terminal'' actionClass (sr_SafeCode r))
                         (jn_actions j)\<rparr>)))"

definition RecordSubmission ::
  "int \<Rightarrow> product_action \<Rightarrow> product_attempt \<Rightarrow> submission_result \<Rightarrow> journal \<Rightarrow> journal result" where
  "RecordSubmission now action attempt r j =
     guard (ValidateSubmissionResult r)
     (if pa_State action \<noteq> ''dispatching'' \<or> pa_AttemptID action \<noteq> pat_ID attempt \<or>
         pat_ActionID attempt \<noteq> pc_ActionID action \<or> pat_TransferID attempt \<noteq> pc_TransferID action \<or>
         pat_AuthorizationID attempt \<noteq> pc_AuthorizationID action \<or> pat_RequestDigest attempt \<noteq> pa_RequestDigest action
      then Inl ErrProductActionConflict
      else
        (case find (open_attempt action attempt) (jn_attempts j) of
           None \<Rightarrow> Inl pg_no_rows
         | Some t \<Rightarrow>
             if aw_RequestDigest t \<noteq> pa_RequestDigest action then Inl ErrProductActionConflict
             else if \<not> attempt_columns_ok (finish_attempt now r t) then Inl pg_constraint
             else
               (let j = j\<lparr>jn_attempts := update_where (open_attempt action attempt) (finish_attempt now r) (jn_attempts j)\<rparr>;
                    ours = action_in_state action ''dispatching''
                in if sr_Disposition r = SubmissionAccepted \<or> sr_Disposition r = SubmissionUncertain then
                     (if affected ours (jn_actions j) \<noteq> 1 then Inl ErrProductActionConflict
                      else
                        (let j = j\<lparr>jn_actions := update_where ours (\<lambda>w. w\<lparr>ar_State := ''reconciling'',
                                   ar_Revision := ar_Revision w + 1, ar_UpdatedAt := pg_time now\<rparr>) (jn_actions j)\<rparr>
                         in Inr (if sr_Disposition r = SubmissionUncertain then block_identities action j else j)))
                   else finish_rejected now action r j)))"

section \<open>The retry after an unreadable response\<close>

definition ten_minutes :: int where "ten_minutes = 10 * 60 * 1000000000"

definition retryable_attempt :: "int \<Rightarrow> product_action \<Rightarrow> attempt_rec \<Rightarrow> bool" where
  "retryable_attempt now action t \<longleftrightarrow>
     aw_TransferID t = pc_TransferID action \<and> aw_ActionID t = pc_ActionID action \<and> aw_ID t = pa_AttemptID action \<and>
     (case aw_FinishedAt t of None \<Rightarrow> False | Some u \<Rightarrow> u \<le> pg_time now - ten_minutes) \<and>
     aw_Delivery t = SubmissionResponseReceived \<and> aw_HTTPStatus t = 200 \<and> aw_Disposition t = SubmissionUncertain \<and>
     (aw_SafeCode t = ''WB_TRANSPORT_EMPTY_RESPONSE'' \<or> aw_SafeCode t = ''WB_TRANSPORT_INVALID_RESPONSE'')"

definition touch_action :: "int \<Rightarrow> product_action \<Rightarrow> journal \<Rightarrow> journal result" where
  "touch_action now action j =
     (let ours = (\<lambda>w. action_key (pc_TransferID action) (pc_ActionID action) w \<and> ar_State w = ''reconciling'')
      in if affected ours (jn_actions j) \<noteq> 1 then Inl ErrProductActionConflict
         else Inr (j\<lparr>jn_actions := update_where ours
                (\<lambda>w. w\<lparr>ar_Revision := ar_Revision w + 1, ar_UpdatedAt := pg_time now\<rparr>) (jn_actions j)\<rparr>))"

definition new_retry :: "int \<Rightarrow> action_rec \<Rightarrow> int \<Rightarrow> int \<Rightarrow> retry_rec" where
  "new_retry now w authorizationID retryID =
     \<lparr>rw_ID = retryID, rw_TransferID = ar_TransferID w, rw_ActionID = ar_ID w, rw_AuthorizationID = authorizationID,
      rw_RequestDigest = ar_RequestDigest w, rw_RequestPayload = ar_RequestPayload w, rw_Delivery = [], rw_HTTPStatus = 0,
      rw_Disposition = [], rw_ClassifierVersion = 0, rw_SafeCode = [], rw_UnmatchedCount = 0,
      rw_StartedAt = pg_time now, rw_FinishedAt = None\<rparr>"

definition BeginProductRetry :: "int \<Rightarrow> product_action \<Rightarrow> journal \<Rightarrow> (journal \<times> product_retry) result" where
  "BeginProductRetry now action j =
     (if pa_State action \<noteq> ''reconciling'' \<or> pa_AttemptID action \<le> 0 \<or> prt_ID (pa_EmptyResponseRetry action) \<noteq> 0 \<or>
         pc_AuthorizationID action \<le> 0
      then Inl (plain_error ''begin publication product retry command is invalid'')
      else
        (case find (action_in_state action ''reconciling'') (jn_actions j) of
           None \<Rightarrow> Inl ErrProductActionConflict
         | Some w \<Rightarrow>
             if \<not> list_ex (retryable_attempt now action) (jn_attempts j) \<or>
                action_retry j (ar_TransferID w) (ar_ID w) \<noteq> None
             then Inl ErrProductActionConflict
             else
               (let row = new_retry now w (pc_AuthorizationID action) (jn_next j);
                    j1 = j\<lparr>jn_retries := jn_retries j @ [row], jn_next := jn_next j + 1\<rparr>
                in rbind (touch_action now action j1) (\<lambda>j2.
                     Inr (j2, no_retry\<lparr>prt_ID := rw_ID row, prt_TransferID := pc_TransferID action,
                                prt_ActionID := pc_ActionID action, prt_AuthorizationID := pc_AuthorizationID action,
                                prt_RequestDigest := pa_RequestDigest action, prt_StartedAt := rw_StartedAt row\<rparr>)))))"

definition finish_retry :: "int \<Rightarrow> submission_result \<Rightarrow> retry_rec \<Rightarrow> retry_rec" where
  "finish_retry now r t =
     t\<lparr>rw_Delivery := sr_Delivery r, rw_HTTPStatus := optional_status (sr_HTTPStatus r), rw_Disposition := sr_Disposition r,
       rw_ClassifierVersion := sr_ClassifierVersion r, rw_SafeCode := sr_SafeCode r,
       rw_UnmatchedCount := sr_UnmatchedCount r, rw_FinishedAt := Some (pg_time now)\<rparr>"

text \<open>The \<open>CHECK\<close>s of a finished retry: unlike an attempt, a received response must have a status.\<close>

definition retry_columns_ok :: "retry_rec \<Rightarrow> bool" where
  "retry_columns_ok t \<longleftrightarrow>
     (rw_HTTPStatus t = 0 \<or> (100 \<le> rw_HTTPStatus t \<and> rw_HTTPStatus t \<le> 599)) \<and>
     rw_Delivery t \<in> {SubmissionNotDispatched, SubmissionResponseReceived, SubmissionUnknownDelivery} \<and>
     rw_Disposition t \<noteq> [] \<and> 0 < rw_ClassifierVersion t \<and> rw_SafeCode t \<noteq> [] \<and> 0 \<le> rw_UnmatchedCount t \<and>
     (rw_Delivery t = SubmissionResponseReceived \<longleftrightarrow> rw_HTTPStatus t \<noteq> 0) \<and> since (rw_StartedAt t) (rw_FinishedAt t)"

definition open_retry :: "product_action \<Rightarrow> product_retry \<Rightarrow> retry_rec \<Rightarrow> bool" where
  "open_retry action retry t \<longleftrightarrow>
     rw_TransferID t = pc_TransferID action \<and> rw_ID t = prt_ID retry \<and> rw_ActionID t = pc_ActionID action \<and>
     rw_AuthorizationID t = pc_AuthorizationID action \<and> rw_RequestDigest t = pa_RequestDigest action \<and>
     rw_FinishedAt t = None"

definition covers_members :: "product_action \<Rightarrow> submission_result \<Rightarrow> bool" where
  "covers_members action r \<longleftrightarrow>
     length (sr_MemberResults r) = length (remdups (map mb_ID (pa_Members action))) \<and>
     distinct (map ms_ActionMemberID (sr_MemberResults r)) \<and>
     set (map ms_ActionMemberID (sr_MemberResults r)) \<subseteq> set (map mb_ID (pa_Members action))"

definition RecordProductRetry ::
  "int \<Rightarrow> product_action \<Rightarrow> product_retry \<Rightarrow> submission_result \<Rightarrow> journal \<Rightarrow> journal result" where
  "RecordProductRetry now action retry r j =
     guard (ValidateSubmissionResult r)
     (if pa_State action \<noteq> ''reconciling'' \<or> prt_ID retry \<le> 0 \<or> prt_TransferID retry \<noteq> pc_TransferID action \<or>
         prt_ActionID retry \<noteq> pc_ActionID action \<or> prt_AuthorizationID retry \<noteq> pc_AuthorizationID action \<or>
         prt_RequestDigest retry \<noteq> pa_RequestDigest action \<or> prt_FinishedAt retry \<noteq> 0
      then Inl ErrProductActionConflict
      else if sr_Disposition r = SubmissionRejectedProven \<and> \<not> covers_members action r then Inl ErrProductActionConflict
      else if list_ex (\<lambda>t. open_retry action retry t \<and> \<not> retry_columns_ok (finish_retry now r t)) (jn_retries j)
      then Inl pg_constraint
      else if affected (open_retry action retry) (jn_retries j) \<noteq> 1 then Inl ErrProductActionConflict
      else touch_action now action
             (j\<lparr>jn_retries := update_where (open_retry action retry) (finish_retry now r) (jn_retries j)\<rparr>))"

section \<open>Reconciliation\<close>

definition after_baseline :: "attempt_rec \<Rightarrow> batch_rec \<Rightarrow> bool" where
  "after_baseline t b \<longleftrightarrow>
     (case aw_BaselineUpdatedAt t of
        None \<Rightarrow> True
      | Some u \<Rightarrow> u < bw_UpdatedAt b \<or> (bw_UpdatedAt b = u \<and> bytes_less (aw_BaselineBatchUUID t) (bw_BatchUUID b)))"

definition batch_less :: "batch_rec \<Rightarrow> batch_rec \<Rightarrow> bool" where
  "batch_less a b =
     (if bw_UpdatedAt a \<noteq> bw_UpdatedAt b then bw_UpdatedAt a < bw_UpdatedAt b
      else if bw_BatchUUID a \<noteq> bw_BatchUUID b then bytes_less (bw_BatchUUID a) (bw_BatchUUID b)
      else bw_ID a < bw_ID b)"

definition LoadErrorBatchMatches :: "journal \<Rightarrow> product_action \<Rightarrow> error_match list result" where
  "LoadErrorBatchMatches j action =
     (if pa_AttemptID action \<le> 0 then Inl ErrProductActionConflict
      else
        (case find (\<lambda>t. aw_TransferID t = pc_TransferID action \<and> aw_ID t = pa_AttemptID action \<and>
                aw_ActionID t = pc_ActionID action) (jn_attempts j) of
           None \<Rightarrow> Inr []
         | Some t \<Rightarrow>
             Inr (map (\<lambda>b. \<lparr>em_ID = bw_ID b, em_BatchUUID = bw_BatchUUID b, em_UpdatedAt = bw_UpdatedAt b,
                             em_RejectedVendorCodes = bw_RejectedVendorCodes b, em_ErrorCodes = bw_ErrorCodes b\<rparr>)
               (sort_by batch_less (filter (\<lambda>b. bw_SellerID b = aw_BaselineSellerID t \<and>
                  list_ex (\<lambda>v. v \<in> set (bw_RejectedVendorCodes b)) (action_PendingVendorCodes action) \<and>
                  after_baseline t b) (jn_batches j))))))"

definition reconciled_identity :: "member_reconciliation \<Rightarrow> string \<times> bool" where
  "reconciled_identity r =
     (if mr_OutcomeClass r = ResultRejected then (''rejected'', True)
      else if 0 < mr_NMID r \<and> 0 < mr_IMTID r \<and> 0 < mr_SubjectID r then (IdentityRemotePresent, True)
      else (''blocked_uncertain'', False))"

definition nullablePositive :: "int \<Rightarrow> int" where
  "nullablePositive v = (if 0 < v then v else 0)"

definition insert_attribution ::
  "product_action \<Rightarrow> product_member \<Rightarrow> int \<Rightarrow> member_reconciliation \<Rightarrow> journal \<Rightarrow> journal result" where
  "insert_attribution action m postObservationID r j =
     (if mr_AttributionLevel r \<noteq> ''observed_after_attempt'' then Inr j
      else if mr_NMID r \<le> 0 \<or>
              list_ex (\<lambda>t. tn_TransferID t = pc_TransferID action \<and> tn_MemberID t = mb_ID m) (jn_attributions j)
      then Inl pg_constraint
      else Inr (j\<lparr>jn_attributions := jn_attributions j @
        [\<lparr>tn_TransferID = pc_TransferID action, tn_GroupTargetID = mb_GroupTargetID m, tn_ActionID = pc_ActionID action,
          tn_MemberID = mb_ID m, tn_SellerID = pa_SellerID action, tn_NMID = mr_NMID r, tn_PlanDigest = pc_PlanDigest action,
          tn_AttemptID = pa_AttemptID action, tn_PreflightObservationID = pa_PreflightObservationID action,
          tn_PostObservationID = postObservationID, tn_Level = ''observed_after_attempt'',
          tn_SafeReasonCode = mr_OutcomeCode r\<rparr>]\<rparr>))"

definition insert_correlation ::
  "product_action \<Rightarrow> product_member \<Rightarrow> member_reconciliation \<Rightarrow> journal \<Rightarrow> journal result" where
  "insert_correlation action m r j =
     (if mr_ErrorBatchID r \<le> 0 then Inr j
      else if \<not> list_ex (\<lambda>b. bw_ID b = mr_ErrorBatchID r \<and>
                list_ex (\<lambda>t. aw_TransferID t = pc_TransferID action \<and> aw_ID t = pa_AttemptID action \<and>
                             aw_ActionID t = pc_ActionID action \<and> bw_SellerID b = aw_BaselineSellerID t \<and>
                             after_baseline t b) (jn_attempts j) \<and>
                mb_VendorCode m \<in> set (bw_RejectedVendorCodes b)) (jn_batches j)
      then Inl pg_no_rows
      else if list_ex (\<lambda>c. cn_TransferID c = pc_TransferID action \<and> cn_MemberID c = mb_ID m \<and>
                           cn_BatchID c = mr_ErrorBatchID r) (jn_correlations j)
      then Inl pg_constraint
      else Inr (j\<lparr>jn_correlations := jn_correlations j @
        [\<lparr>cn_TransferID = pc_TransferID action, cn_ActionID = pc_ActionID action, cn_MemberID = mb_ID m,
          cn_AttemptID = pa_AttemptID action, cn_BatchID = mr_ErrorBatchID r, cn_SafeResultCode = mr_OutcomeCode r\<rparr>]\<rparr>))"

definition record_reconciled_member ::
  "product_action \<Rightarrow> product_member \<Rightarrow> int \<Rightarrow> member_reconciliation \<Rightarrow> journal \<Rightarrow> journal result" where
  "record_reconciled_member action m postObservationID r j =
     (let ours = (\<lambda>i. owned_identity action i \<and> iw_VendorCode i = mb_VendorCode m)
      in if affected (pending_row action (mb_ID m)) (jn_members j) \<noteq> 1 then Inl ErrProductActionConflict
         else if affected ours (jn_identities j) \<noteq> 1 then Inl ErrProductActionConflict
         else
           rbind (insert_attribution action m postObservationID r
             (j\<lparr>jn_members := update_where (pending_row action (mb_ID m))
                 (\<lambda>w. w\<lparr>mw_OutcomeClass := mr_OutcomeClass r, mw_OutcomeCode := mr_OutcomeCode r,
                        mw_NMID := nullablePositive (mr_NMID r)\<rparr>) (jn_members j),
               jn_identities := update_where ours
                 (\<lambda>i. (finish_identity (fst (reconciled_identity r)) (snd (reconciled_identity r)) i)
                        \<lparr>iw_NMID := nullablePositive (mr_NMID r), iw_IMTID := nullablePositive (mr_IMTID r),
                         iw_SubjectID := nullablePositive (mr_SubjectID r)\<rparr>) (jn_identities j)\<rparr>))
             (insert_correlation action m r))"

fun recordProductReconciliationMembers ::
  "product_action \<Rightarrow> int \<Rightarrow> member_reconciliation list \<Rightarrow> journal \<Rightarrow> journal result" where
  "recordProductReconciliationMembers action postObservationID [] j = Inr j"
| "recordProductReconciliationMembers action postObservationID (r # rs) j =
     (case find (\<lambda>m. mb_ID m = mr_ActionMemberID r) (rev (pa_Members action)) of
        None \<Rightarrow> Inl ErrProductActionConflict
      | Some m \<Rightarrow>
          if mb_OutcomeClass m \<noteq> [] then Inl ErrProductActionConflict
          else rbind (record_reconciled_member action m postObservationID r j)
                 (recordProductReconciliationMembers action postObservationID rs))"

definition RecordProductReconciliationPoll ::
  "int \<Rightarrow> product_action \<Rightarrow> int \<Rightarrow> member_reconciliation list \<Rightarrow> journal \<Rightarrow> journal result" where
  "RecordProductReconciliationPoll now action postObservationID results j =
     (if pa_State action \<noteq> ''reconciling'' \<or> pa_AttemptID action \<le> 0 \<or> postObservationID \<le> 0
      then Inl (plain_error ''record product reconciliation poll command is invalid'')
      else guard (ValidateMemberReconciliationResults action results)
       (rbind (recordProductReconciliationMembers action postObservationID results j) (\<lambda>j.
          let polled = (\<lambda>w. action_in_state action ''reconciling'' w \<and>
                list_ex (\<lambda>t. aw_TransferID t = ar_TransferID w \<and> aw_ActionID t = ar_ID w \<and> aw_ID t = pa_AttemptID action \<and>
                             aw_FinishedAt t \<noteq> None) (jn_attempts j) \<and>
                list_ex (\<lambda>ob. ow_TransferID ob = ar_TransferID w \<and> ow_ID ob = postObservationID \<and>
                              ow_TargetID ob = ar_TargetID w \<and> ow_Kind ob = ''post_submission'') (jn_observations j))
          in if affected polled (jn_actions j) \<noteq> 1 then Inl ErrProductActionConflict
             else Inr (j\<lparr>jn_actions := update_where polled (\<lambda>w. w\<lparr>ar_UpdatedAt := pg_time now\<rparr>) (jn_actions j)\<rparr>))))"

definition FinishProductReconciliation ::
  "int \<Rightarrow> product_action \<Rightarrow> int \<Rightarrow> member_reconciliation list \<Rightarrow> string \<Rightarrow> string \<Rightarrow> journal \<Rightarrow> journal result" where
  "FinishProductReconciliation now action postObservationID results actionClass actionCode j =
     (if pa_State action \<noteq> ''reconciling'' \<or> pa_AttemptID action \<le> 0 \<or> postObservationID \<le> 0 \<or>
         \<not> ResultClass_IsValid actionClass \<or> safe_code_bad actionCode
      then Inl (plain_error ''finish product reconciliation command is invalid'')
      else guard (ValidateMemberReconciliationResults action results)
       (rbind (recordProductReconciliationMembers action postObservationID results j) (\<lambda>j.
          let j = finishPotentialMediaActions now action media_skip_code j;
              ours = (\<lambda>w. action_in_state action ''reconciling'' w \<and>
                \<not> list_ex (\<lambda>m. member_of w m \<and> mw_OutcomeClass m = []) (jn_members j))
          in if affected ours (jn_actions j) \<noteq> 1 then Inl ErrProductActionConflict
             else reducePublicationPlan (pc_TransferID action) (pa_PlanID action)
                    (j\<lparr>jn_actions := update_where ours (finish_action now ''terminal'' actionClass actionCode)
                         (jn_actions j)\<rparr>))))"

end
