(* ===== verification/ProductDispatch.thy ===== *)
theory ProductDispatch
  imports ProductJournal
begin

text \<open>
  The dispatcher of product actions
  (\<open>internal/feature/cardpublication/service/execution/product_dispatcher.go\<close> and \<open>product_reconciliation.go\<close>): the
  transactions it runs around a call to the Content API, and their composition into the dispatch, the record of an
  interrupted attempt and the reconciliation of an action.

  A transaction is a function on the database, which has the journal, the tables of live authorization and the
  transfer projections; the last are abstract, and the operations on them are the argument \<open>result_ops\<close>. What is
  read from tables of other components is the \<open>publication_view\<close> of the transaction. \<open>dispatch\<close> and \<open>reconcile\<close>
  are sequences of such transactions with a call between them; the step relation at the end interleaves the
  transactions of any number of dispatchers with each other and with the rest of the system.
\<close>

section \<open>The database\<close>

record result_item =
  ti_GroupTargetID :: int
  ti_TransferItemTargetID :: int
  ti_OutcomeClass :: string
  ti_OutcomeCode :: string
  ti_NMID :: int

record apply_result =
  ap_TransferID :: int
  ap_ActionID :: int
  ap_Items :: "result_item list"
  ap_SkipMediaForGroups :: "int list"

record 't result_ops =
  ro_BeginWithin :: "int \<Rightarrow> 't \<Rightarrow> 't result"
  ro_MarkReconcilingWithin :: "int \<Rightarrow> 't \<Rightarrow> 't result"
  ro_ApplyWithin :: "apply_result \<Rightarrow> 't \<Rightarrow> 't result"
  ro_ResetPlanningWithin :: "int \<Rightarrow> int \<Rightarrow> 't \<Rightarrow> 't result"
  ro_transfer :: "'t \<Rightarrow> int \<Rightarrow> (string \<times> string) option"

record 't exec_db =
  xd_journal :: journal
  xd_live :: live_db
  xd_transfer :: 't

record 't dispatcher =
  dp_codec :: exec_codec
  dp_authorization :: live_service
  dp_results :: "'t result_ops"
  dp_reconciliationTimeout :: int

text \<open>The surroundings of one transaction: its fate, the clocks of the process and of the database, the rows of
  other components.\<close>

record step_env =
  se_tx :: tx_env
  se_now :: int
  se_clock :: int
  se_view :: publication_view

text \<open>The view \<open>LockValidLive\<close>, \<open>SupersedeWithin\<close> and \<open>CloseWithin\<close> have of actions, plans, targets and transfers.\<close>

definition journal_target ::
  "'t result_ops \<Rightarrow> publication_view \<Rightarrow> 't exec_db \<Rightarrow> int \<Rightarrow> int \<Rightarrow> int \<Rightarrow> int \<Rightarrow> target_row option" where
  "journal_target ops pv db transferID actionID planID targetID =
     (let j = xd_journal db in
      case (find (\<lambda>w. action_key transferID actionID w \<and> ar_PlanID w = planID \<and> ar_TargetID w = targetID) (jn_actions j),
            find (\<lambda>p. pl_TransferID p = transferID \<and> pl_ID p = planID) (jn_plans j),
            find (\<lambda>t. tg_TransferID t = transferID \<and> tg_ID t = targetID) (jn_targets j),
            ro_transfer ops (xd_transfer db) transferID, pv_target pv transferID actionID planID targetID) of
        (Some w, Some p, Some t, Some (phase, outcome), Some row) \<Rightarrow>
          Some (row\<lparr>tw_SellerID := tg_SellerID t, tw_ClientGeneration := tg_ClientGeneration t,
                    tw_CredentialExpiresAt := tg_CredentialExpiresAt t, tw_Phase := phase, tw_Outcome := outcome,
                    tw_ActionState := ar_State w, tw_ActionAuthorizationID := ar_AuthorizationID w,
                    tw_PlanState := pl_State p, tw_PlanDigest := pl_Digest p,
                    tw_PlanTargetSetRoot := pl_TargetSetRoot p\<rparr>)
      | _ \<Rightarrow> None)"

definition journal_view :: "'t result_ops \<Rightarrow> publication_view \<Rightarrow> 't exec_db \<Rightarrow> publication_view" where
  "journal_view ops pv db =
     pv\<lparr>pv_attempted := (\<lambda>transferID planID. plan_attempts (xd_journal db) transferID planID \<noteq> []),
        pv_unfinished := (\<lambda>transferID planID.
          list_ex (\<lambda>w. plan_action transferID planID w \<and> \<not> state_finished (ar_State w)) (jn_actions (xd_journal db))),
        pv_target := journal_target ops pv db\<rparr>"

definition change_command :: "product_action \<Rightarrow> string \<Rightarrow> change_live" where
  "change_command action reason =
     \<lparr>cl_TransferID = pc_TransferID action, cl_AuthorizationID = pc_AuthorizationID action,
      cl_ExpectedRevision = pc_AuthorizationRevision action, cl_ExpectedPlanDigest = pc_PlanDigest action,
      cl_SafeReasonCode = reason\<rparr>"

definition action_check :: "product_action \<Rightarrow> live_check" where
  "action_check action =
     \<lparr>lc_TransferID = pc_TransferID action, lc_ActionID = pc_ActionID action,
      lc_AuthorizationID = pc_AuthorizationID action, lc_ExpectedRevision = pc_AuthorizationRevision action,
      lc_PlanDigest = pc_PlanDigest action, lc_TargetSetRoot = pc_TargetSetRoot action, lc_TargetID = pc_TargetID action,
      lc_SellerID = pa_SellerID action, lc_ClientGeneration = pa_ClientGeneration action\<rparr>"

definition set_journal :: "'t exec_db \<Rightarrow> journal \<Rightarrow> 't exec_db" where
  "set_journal db j = db\<lparr>xd_journal := j\<rparr>"

definition set_transfer :: "'t exec_db \<Rightarrow> 't \<Rightarrow> 't exec_db" where
  "set_transfer db t = db\<lparr>xd_transfer := t\<rparr>"

definition closeAuthorizationIfPlanTerminal ::
  "'t dispatcher \<Rightarrow> step_env \<Rightarrow> product_action \<Rightarrow> 't exec_db \<Rightarrow> 't exec_db result" where
  "closeAuthorizationIfPlanTerminal dp env action db =
     rbind (PublicationPlanTerminal (xd_journal db) (pc_TransferID action) (pa_PlanID action)) (\<lambda>terminal.
       if \<not> terminal then Inr db
       else rbind (CloseWithin (journal_view (dp_results dp) (se_view env) db) (se_now env)
                     (change_command action ''publication_plan_terminal'') (xd_live db))
              (\<lambda>(live, _). Inr (db\<lparr>xd_live := live\<rparr>)))"

definition mediaGroupsToSkip :: "journal \<Rightarrow> product_action \<Rightarrow> int list result" where
  "mediaGroupsToSkip j action =
     rbind (PendingMediaGroupTargetIDs j action) (\<lambda>pending.
       Inr (filter (\<lambda>g. g \<notin> set pending) (action_GroupTargetIDs action)))"

definition apply_results ::
  "'t dispatcher \<Rightarrow> apply_result \<Rightarrow> 't exec_db \<Rightarrow> 't exec_db result" where
  "apply_results dp command db =
     rbind (ro_ApplyWithin (dp_results dp) command (xd_transfer db)) (\<lambda>t. Inr (set_transfer db t))"

definition loadLockedAction ::
  "'t dispatcher \<Rightarrow> step_env \<Rightarrow> product_candidate \<Rightarrow> 't exec_db \<Rightarrow> 't exec_db \<times> product_action result" where
  "loadLockedAction dp env candidate db =
     WithinTransaction (se_tx env) (\<lambda>db.
       rbind (LockProductAction (dp_codec dp) (xd_live db) (xd_journal db) candidate) (\<lambda>action. Inr (db, action))) db"

section \<open>Dispatch\<close>

datatype dispatch_outcome =
    Dispatched product_attempt | PlanSuperseded | PlanStopped | AuthorizationExpired

definition aborted_result :: "product_action \<Rightarrow> aborted_action \<Rightarrow> apply_result" where
  "aborted_result action aborted =
     \<lparr>ap_TransferID = pc_TransferID action, ap_ActionID = ab_ActionID aborted,
      ap_Items = map (\<lambda>m. \<lparr>ti_GroupTargetID = mb_GroupTargetID m, ti_TransferItemTargetID = mb_TransferItemTargetID m,
                           ti_OutcomeClass = ResultUnresolved, ti_OutcomeCode = ''PLAN_CHANGED_AFTER_DISPATCH_STARTED'',
                           ti_NMID = 0\<rparr>) (ab_Members aborted),
      ap_SkipMediaForGroups = remdups (map mb_GroupTargetID (ab_Members aborted))\<rparr>"

fun apply_aborted :: "'t dispatcher \<Rightarrow> product_action \<Rightarrow> aborted_action list \<Rightarrow> 't exec_db \<Rightarrow> 't exec_db result" where
  "apply_aborted dp action [] db = Inr db"
| "apply_aborted dp action (b # bs) db =
     rbind (apply_results dp (aborted_result action b) db) (apply_aborted dp action bs)"

definition stop_plan ::
  "'t dispatcher \<Rightarrow> step_env \<Rightarrow> product_action \<Rightarrow> 't exec_db \<Rightarrow> ('t exec_db \<times> dispatch_outcome) result" where
  "stop_plan dp env action db =
     rbind (AbortPlanAfterDispatch (se_clock env) action ''PLAN_CHANGED_AFTER_DISPATCH_STARTED'' (xd_journal db))
       (\<lambda>(j, aborted).
     rbind (apply_aborted dp action aborted (set_journal db j)) (\<lambda>db.
     rbind (closeAuthorizationIfPlanTerminal dp env action db) (\<lambda>db. Inr (db, PlanStopped))))"

definition supersede_plan ::
  "'t dispatcher \<Rightarrow> step_env \<Rightarrow> product_action \<Rightarrow> string \<Rightarrow> 't exec_db \<Rightarrow> ('t exec_db \<times> dispatch_outcome) result" where
  "supersede_plan dp env action safeCode db =
     rbind (SupersedeWithin (journal_view (dp_results dp) (se_view env) db) (se_now env)
              (change_command action ''targeted_recheck_changed'') (xd_live db)) (\<lambda>(live, _).
     rbind (SupersedePlanBeforeDispatch (se_clock env) action safeCode (xd_journal db)) (\<lambda>j.
     rbind (ro_ResetPlanningWithin (dp_results dp) (pc_TransferID action) (pa_PlanID action) (xd_transfer db)) (\<lambda>t.
       Inr (db\<lparr>xd_live := live, xd_journal := j, xd_transfer := t\<rparr>, PlanSuperseded))))"

text \<open>An expired authorization is marked as expired in the transaction that finds it so, and the transaction commits.\<close>

definition expired_live :: "int \<Rightarrow> int \<Rightarrow> live_db \<Rightarrow> live_db" where
  "expired_live now authorizationID live =
     (case rbind (lockLiveAuthorization authorizationID live) (\<lambda>a. expireLiveAuthorization now a live) of
        Inl _ \<Rightarrow> live | Inr (live', _) \<Rightarrow> live')"

definition begin_attempt ::
  "'t dispatcher \<Rightarrow> step_env \<Rightarrow> product_action \<Rightarrow> int \<Rightarrow> 't exec_db \<Rightarrow> ('t exec_db \<times> dispatch_outcome) result" where
  "begin_attempt dp env action recheckID db =
     (case LockValid (dp_authorization dp) (journal_view (dp_results dp) (se_view env) db) (se_now env)
             (action_check action) (xd_live db) of
        Inl e \<Rightarrow>
          if e = ErrLiveExpired
          then Inr (db\<lparr>xd_live := expired_live (se_now env) (pc_AuthorizationID action) (xd_live db)\<rparr>, AuthorizationExpired)
          else Inl e
      | Inr (live, evidence) \<Rightarrow>
          rbind (CaptureBaseline (se_clock env) (pc_TransferID action) (pc_ActionID action) (pa_SellerID action)
                   (xd_journal db)) (\<lambda>(j, baseline).
          rbind (BeginProductAttempt (se_clock env) action evidence baseline recheckID j) (\<lambda>(j, attempt).
          rbind (ro_BeginWithin (dp_results dp) (pc_TransferID action) (xd_transfer db)) (\<lambda>t.
            Inr (db\<lparr>xd_live := live, xd_journal := j, xd_transfer := t\<rparr>, Dispatched attempt)))))"

definition dispatch_tx ::
  "'t dispatcher \<Rightarrow> step_env \<Rightarrow> product_candidate \<Rightarrow> product_action \<Rightarrow> targeted_recheck \<Rightarrow> 't exec_db \<Rightarrow>
     ('t exec_db \<times> dispatch_outcome) result" where
  "dispatch_tx dp env candidate snapshot recheck db =
     rbind (LockProductAction (dp_codec dp) (xd_live db) (xd_journal db) candidate) (\<lambda>action.
       if \<not> sameImmutableProductAction snapshot action then Inl ErrProductActionConflict
       else
         rbind (InsertActionObservation (se_clock env) (pc_TransferID action) ''targeted_recheck'' (tr_Observation recheck)
                  (xd_journal db)) (\<lambda>(j, recheckID).
           let db = set_journal db j
           in if \<not> tr_Stable recheck then
                (if PlanAttemptCount j (pc_TransferID action) (pa_PlanID action) \<noteq> 0
                 then stop_plan dp env action db
                 else supersede_plan dp env action (tr_SafeCode recheck) db)
              else begin_attempt dp env action recheckID db))"

section \<open>Recording a submission\<close>

definition submission_items :: "product_action \<Rightarrow> submission_result \<Rightarrow> result_item list result" where
  "submission_items action r =
     (if list_ex (\<lambda>m. member_submission_for r (mb_ID m) = None) (pa_Members action) then Inl ErrProductActionConflict
      else Inr (map (\<lambda>m. let x = the (member_submission_for r (mb_ID m))
                          in \<lparr>ti_GroupTargetID = mb_GroupTargetID m, ti_TransferItemTargetID = mb_TransferItemTargetID m,
                              ti_OutcomeClass = ms_OutcomeClass x, ti_OutcomeCode = ms_OutcomeCode x, ti_NMID = 0\<rparr>)
             (pa_Members action)))"

definition record_submission_tx ::
  "'t dispatcher \<Rightarrow> step_env \<Rightarrow> product_candidate \<Rightarrow> product_attempt \<Rightarrow> submission_result \<Rightarrow> 't exec_db \<Rightarrow>
     ('t exec_db \<times> unit) result" where
  "record_submission_tx dp env candidate attempt r db =
     rbind (LockProductAction (dp_codec dp) (xd_live db) (xd_journal db) candidate) (\<lambda>action.
       if pa_State action \<noteq> ''dispatching'' \<or> pa_AttemptID action \<noteq> pat_ID attempt then Inl ErrProductActionConflict
       else
         rbind (RecordSubmission (se_clock env) action (attemptFromAction action) r (xd_journal db)) (\<lambda>j.
           let db = set_journal db j
           in if sr_Disposition r \<noteq> SubmissionRejectedProven then
                rbind (ro_MarkReconcilingWithin (dp_results dp) (pc_TransferID action) (xd_transfer db))
                  (\<lambda>t. Inr (set_transfer db t, ()))
              else
                rbind (mediaGroupsToSkip j action) (\<lambda>groups.
                rbind (submission_items action r) (\<lambda>items.
                rbind (apply_results dp \<lparr>ap_TransferID = pc_TransferID action, ap_ActionID = pc_ActionID action,
                         ap_Items = items, ap_SkipMediaForGroups = groups\<rparr> db) (\<lambda>db.
                rbind (closeAuthorizationIfPlanTerminal dp env action db) (\<lambda>db. Inr (db, ())))))))"

definition recordSubmission ::
  "'t dispatcher \<Rightarrow> step_env \<Rightarrow> product_candidate \<Rightarrow> product_attempt \<Rightarrow> submission_result \<Rightarrow> 't exec_db \<Rightarrow>
     't exec_db \<times> unit result" where
  "recordSubmission dp env candidate attempt r db =
     WithinTransaction (se_tx env) (record_submission_tx dp env candidate attempt r) db"

definition outcome_error :: "dispatch_outcome \<Rightarrow> goerr option" where
  "outcome_error out =
     (case out of
        PlanSuperseded \<Rightarrow> Some ErrProductPlanSuperseded
      | PlanStopped \<Rightarrow> Some ErrProductPlanStopped
      | AuthorizationExpired \<Rightarrow> Some ErrLiveExpired
      | Dispatched attempt \<Rightarrow> if pat_ID attempt \<le> 0 then Some ErrProductActionConflict else None)"

text \<open>One dispatch: load, recheck, the transaction that opens the attempt, the call, the record of its result. The
  calls that were made come with the result.\<close>

definition dispatch ::
  "'t dispatcher \<Rightarrow> (nat \<Rightarrow> step_env) \<Rightarrow> product_transport \<Rightarrow> product_candidate \<Rightarrow> observation \<Rightarrow> 't exec_db \<Rightarrow>
     't exec_db \<times> upload_call list \<times> goerr option" where
  "dispatch dp envs transport candidate ob db =
     (case loadLockedAction dp (envs 0) candidate db of
        (db, Inl e) \<Rightarrow> (db, [], Some e)
      | (db, Inr snapshot) \<Rightarrow>
          (case BuildTargetedRecheck (dp_codec dp) snapshot ob of
             Inl e \<Rightarrow> (db, [], Some e)
           | Inr recheck \<Rightarrow>
               (case WithinTransaction (se_tx (envs 1)) (dispatch_tx dp (envs 1) candidate snapshot recheck) db of
                  (db, Inl e) \<Rightarrow> (db, [], Some e)
                | (db, Inr out) \<Rightarrow>
                    (case outcome_error out of
                       Some e \<Rightarrow> (db, [], Some e)
                     | None \<Rightarrow>
                         (case out of
                            Dispatched attempt \<Rightarrow>
                              (let (r, calls) = executeProductMutation (dp_codec dp) transport snapshot
                               in (case recordSubmission dp (envs 2) candidate attempt r db of
                                     (db, Inl e) \<Rightarrow> (db, calls, Some e)
                                   | (db, Inr _) \<Rightarrow> (db, calls, None)))
                          | _ \<Rightarrow> (db, [], None))))))"

definition interrupted_result :: "product_action \<Rightarrow> submission_result" where
  "interrupted_result action = uncertain_result action SubmissionUnknownDelivery 0 ''PROCESS_INTERRUPTED_AFTER_ATTEMPT_COMMIT''"

definition recordInterrupted ::
  "'t dispatcher \<Rightarrow> (nat \<Rightarrow> step_env) \<Rightarrow> product_candidate \<Rightarrow> 't exec_db \<Rightarrow> 't exec_db \<times> unit result" where
  "recordInterrupted dp envs candidate db =
     (case loadLockedAction dp (envs 0) candidate db of
        (db, Inl e) \<Rightarrow> (db, Inl e)
      | (db, Inr action) \<Rightarrow>
          if pa_State action \<noteq> ''dispatching'' \<or> pa_AttemptID action \<le> 0 then (db, Inl ErrProductActionConflict)
          else recordSubmission dp (envs 1) candidate (attemptFromAction action) (interrupted_result action) db)"

section \<open>Reconciliation\<close>

definition retry_tx ::
  "'t dispatcher \<Rightarrow> step_env \<Rightarrow> product_candidate \<Rightarrow> product_action \<Rightarrow> targeted_recheck \<Rightarrow> 't exec_db \<Rightarrow>
     ('t exec_db \<times> product_retry) result" where
  "retry_tx dp env candidate snapshot targeted db =
     rbind (LockProductAction (dp_codec dp) (xd_live db) (xd_journal db) candidate) (\<lambda>action.
       if \<not> sameProductActionProgress snapshot action \<or> prt_ID (pa_EmptyResponseRetry action) \<noteq> 0
       then Inl ErrProductActionConflict
       else
         rbind (InsertActionObservation (se_clock env) (pc_TransferID action) ''post_submission'' (tr_Observation targeted)
                  (xd_journal db)) (\<lambda>(j, observationID).
         rbind (RecordProductReconciliationPoll (se_clock env) action observationID [] j) (\<lambda>j.
         rbind (BeginProductRetry (se_clock env) action j) (\<lambda>(j, retry). Inr (set_journal db j, retry)))))"

definition record_retry_tx ::
  "'t dispatcher \<Rightarrow> step_env \<Rightarrow> product_candidate \<Rightarrow> product_retry \<Rightarrow> submission_result \<Rightarrow> 't exec_db \<Rightarrow>
     ('t exec_db \<times> unit) result" where
  "record_retry_tx dp env candidate retry r db =
     rbind (LockProductAction (dp_codec dp) (xd_live db) (xd_journal db) candidate) (\<lambda>action.
       if pa_State action \<noteq> ''reconciling'' \<or> prt_ID (pa_EmptyResponseRetry action) \<noteq> prt_ID retry \<or>
          prt_FinishedAt (pa_EmptyResponseRetry action) \<noteq> 0
       then Inl ErrProductActionConflict
       else rbind (RecordProductRetry (se_clock env) action (pa_EmptyResponseRetry action) r (xd_journal db))
              (\<lambda>j. Inr (set_journal db j, ())))"

definition recordProductRetry ::
  "'t dispatcher \<Rightarrow> step_env \<Rightarrow> product_candidate \<Rightarrow> product_retry \<Rightarrow> submission_result \<Rightarrow> 't exec_db \<Rightarrow>
     't exec_db \<times> unit result" where
  "recordProductRetry dp env candidate retry r db =
     WithinTransaction (se_tx env) (record_retry_tx dp env candidate retry r) db"

definition retryAfterEmptyResponse ::
  "'t dispatcher \<Rightarrow> (nat \<Rightarrow> step_env) \<Rightarrow> product_transport \<Rightarrow> product_candidate \<Rightarrow> product_action \<Rightarrow> targeted_recheck \<Rightarrow>
     't exec_db \<Rightarrow> 't exec_db \<times> upload_call list \<times> goerr option" where
  "retryAfterEmptyResponse dp envs transport candidate snapshot targeted db =
     (case WithinTransaction (se_tx (envs 3)) (retry_tx dp (envs 3) candidate snapshot targeted) db of
        (db, Inl e) \<Rightarrow> (db, [], Some e)
      | (db, Inr retry) \<Rightarrow>
          (let (r, calls) = executeProductMutation (dp_codec dp) transport snapshot
           in (case recordProductRetry dp (envs 4) candidate retry r db of
                 (db, Inl e) \<Rightarrow> (db, calls, Some e)
               | (db, Inr _) \<Rightarrow> (db, calls, None))))"

definition poll_tx ::
  "'t dispatcher \<Rightarrow> step_env \<Rightarrow> product_candidate \<Rightarrow> product_action \<Rightarrow> targeted_recheck \<Rightarrow> member_reconciliation list \<Rightarrow>
     't exec_db \<Rightarrow> ('t exec_db \<times> unit) result" where
  "poll_tx dp env candidate action targeted results db =
     rbind (LockProductAction (dp_codec dp) (xd_live db) (xd_journal db) candidate) (\<lambda>locked.
       if pa_State locked \<noteq> ''reconciling'' \<or> \<not> sameProductActionProgress action locked \<or>
          pa_AttemptID locked \<noteq> pa_AttemptID action
       then Inl ErrProductActionConflict
       else
         rbind (InsertActionObservation (se_clock env) (pc_TransferID locked) ''post_submission'' (tr_Observation targeted)
                  (xd_journal db)) (\<lambda>(j, observationID).
         rbind (RecordProductReconciliationPoll (se_clock env) locked observationID results j)
           (\<lambda>j. Inr (set_journal db j, ()))))"

definition recordIncompleteReconciliation ::
  "'t dispatcher \<Rightarrow> step_env \<Rightarrow> product_candidate \<Rightarrow> product_action \<Rightarrow> targeted_recheck \<Rightarrow> member_reconciliation list \<Rightarrow>
     't exec_db \<Rightarrow> 't exec_db \<times> unit result" where
  "recordIncompleteReconciliation dp env candidate action targeted results db =
     WithinTransaction (se_tx env) (poll_tx dp env candidate action targeted results) db"

definition reconciled_item :: "member_reconciliation list \<Rightarrow> product_member \<Rightarrow> result_item option" where
  "reconciled_item results m =
     (case find (\<lambda>r. mr_ActionMemberID r = mb_ID m) (rev results) of
        Some r \<Rightarrow> Some \<lparr>ti_GroupTargetID = mb_GroupTargetID m, ti_TransferItemTargetID = mb_TransferItemTargetID m,
                        ti_OutcomeClass = mr_OutcomeClass r, ti_OutcomeCode = mr_OutcomeCode r, ti_NMID = mr_NMID r\<rparr>
      | None \<Rightarrow>
          if mb_OutcomeClass m \<noteq> []
          then Some \<lparr>ti_GroupTargetID = mb_GroupTargetID m, ti_TransferItemTargetID = mb_TransferItemTargetID m,
                     ti_OutcomeClass = mb_OutcomeClass m, ti_OutcomeCode = mb_OutcomeCode m, ti_NMID = mb_NMID m\<rparr>
          else None)"

fun reconciled_items :: "member_reconciliation list \<Rightarrow> product_member list \<Rightarrow> result_item list result" where
  "reconciled_items results [] = Inr []"
| "reconciled_items results (m # ms) =
     (case reconciled_item results m of
        None \<Rightarrow> Inl ErrProductActionConflict
      | Some item \<Rightarrow> rbind (reconciled_items results ms) (\<lambda>items. Inr (item # items)))"

definition finish_tx ::
  "'t dispatcher \<Rightarrow> step_env \<Rightarrow> product_candidate \<Rightarrow> product_action \<Rightarrow> targeted_recheck \<Rightarrow> member_reconciliation list \<Rightarrow>
     string \<Rightarrow> string \<Rightarrow> 't exec_db \<Rightarrow> ('t exec_db \<times> unit) result" where
  "finish_tx dp env candidate action targeted results actionClass actionCode db =
     rbind (LockProductAction (dp_codec dp) (xd_live db) (xd_journal db) candidate) (\<lambda>locked.
       if pa_State locked \<noteq> ''reconciling'' \<or> \<not> sameProductActionProgress action locked \<or>
          pa_AttemptID locked \<noteq> pa_AttemptID action
       then Inl ErrProductActionConflict
       else
         rbind (InsertActionObservation (se_clock env) (pc_TransferID locked) ''post_submission'' (tr_Observation targeted)
                  (xd_journal db)) (\<lambda>(j, observationID).
         rbind (FinishProductReconciliation (se_clock env) locked observationID results actionClass actionCode j) (\<lambda>j.
         rbind (mediaGroupsToSkip j locked) (\<lambda>groups.
         rbind (reconciled_items results (pa_Members locked)) (\<lambda>items.
         rbind (apply_results dp \<lparr>ap_TransferID = pc_TransferID locked, ap_ActionID = pc_ActionID locked,
                  ap_Items = items, ap_SkipMediaForGroups = groups\<rparr> (set_journal db j)) (\<lambda>db.
         rbind (closeAuthorizationIfPlanTerminal dp env locked db) (\<lambda>db. Inr (db, ()))))))))"

definition interrupted_retry_result :: "product_action \<Rightarrow> submission_result" where
  "interrupted_retry_result action =
     (uncertain_result action SubmissionUnknownDelivery 0 ''EMPTY_RESPONSE_RETRY_INTERRUPTED'')
       \<lparr>sr_UnmatchedCount := int (length (action_PendingMembers action))\<rparr>"

text \<open>The verdict on an action: a rejected retry settles it, otherwise the evidence does, with the deadline counted
  from the retry where there is one.\<close>

definition reconcile_result ::
  "'t dispatcher \<Rightarrow> product_action \<Rightarrow> observation \<Rightarrow> error_match list \<Rightarrow> int \<Rightarrow>
     member_reconciliation list \<times> bool \<times> string \<times> string" where
  "reconcile_result dp action ob matches now =
     (if retryResponseProvedRejection (pa_EmptyResponseRetry action)
      then (rejectedRetryResults action, True, ResultRejected, ''PRODUCT_RETRY_REJECTED_BY_WB'')
      else reconcileProductEvidence (dp_codec dp)
             (if 0 < prt_ID (pa_EmptyResponseRetry action)
              then action\<lparr>pa_AttemptStartedAt := prt_StartedAt (pa_EmptyResponseRetry action)\<rparr> else action)
             ob matches now (dp_reconciliationTimeout dp))"

definition settle_action ::
  "'t dispatcher \<Rightarrow> (nat \<Rightarrow> step_env) \<Rightarrow> product_transport \<Rightarrow> product_candidate \<Rightarrow> observation \<Rightarrow> int \<Rightarrow> product_action \<Rightarrow>
     't exec_db \<Rightarrow> 't exec_db \<times> upload_call list \<times> goerr option" where
  "settle_action dp envs transport candidate ob now action db =
     (case BuildTargetedRecheck (dp_codec dp) action ob of
        Inl e \<Rightarrow> (db, [], Some e)
      | Inr targeted \<Rightarrow>
          (case LoadErrorBatchMatches (xd_journal db) action of
             Inl e \<Rightarrow> (db, [], Some e)
           | Inr matches \<Rightarrow>
               if shouldRetryEmptyProductResponse action ob matches now emptyResponseProductRetryDelay
               then retryAfterEmptyResponse dp envs transport candidate action targeted db
               else
                 (let (results, isComplete, actionClass, actionCode) = reconcile_result dp action ob matches now;
                      (db, r) =
                        (if \<not> isComplete then recordIncompleteReconciliation dp (envs 3) candidate action targeted results db
                         else WithinTransaction (se_tx (envs 3))
                                (finish_tx dp (envs 3) candidate action targeted results actionClass actionCode) db)
                  in (db, [], case r of Inl e \<Rightarrow> Some e | Inr _ \<Rightarrow> None))))"

definition reconcile ::
  "'t dispatcher \<Rightarrow> (nat \<Rightarrow> step_env) \<Rightarrow> product_transport \<Rightarrow> product_candidate \<Rightarrow> observation \<Rightarrow> int \<Rightarrow> 't exec_db \<Rightarrow>
     't exec_db \<times> upload_call list \<times> goerr option" where
  "reconcile dp envs transport candidate ob now db =
     (case loadLockedAction dp (envs 0) candidate db of
        (db, Inl e) \<Rightarrow> (db, [], Some e)
      | (db, Inr action) \<Rightarrow>
          if pa_State action \<noteq> ''reconciling'' \<or> pa_AttemptID action \<le> 0 \<or> pa_AttemptStartedAt action = 0
          then (db, [], Some ErrProductActionConflict)
          else if 0 < prt_ID (pa_EmptyResponseRetry action) \<and> prt_FinishedAt (pa_EmptyResponseRetry action) = 0 then
            (case recordProductRetry dp (envs 1) candidate (pa_EmptyResponseRetry action) (interrupted_retry_result action) db of
               (db, Inl e) \<Rightarrow> (db, [], Some e)
             | (db, Inr _) \<Rightarrow>
                 (case loadLockedAction dp (envs 2) candidate db of
                    (db, Inl e) \<Rightarrow> (db, [], Some e)
                  | (db, Inr action) \<Rightarrow> settle_action dp envs transport candidate ob now action db))
          else settle_action dp envs transport candidate ob now action db)"

end
