(* ===== verification/ProductActionProps.thy ===== *)
theory ProductActionProps
  imports ProductAction
begin

text \<open>
  What the parts of the product execution guarantee that touch no table: the classification of an answer is
  valid evidence and says no more than the answer did; the settlement of an open action follows from what was
  observed; a recheck is stable exactly when none of the action's cards exists.
\<close>

section \<open>Valid actions\<close>

lemma each_err_0_None_iff: "each_err f 0 xs = None \<longleftrightarrow> (\<forall>k < length xs. f k (xs ! k) = None)"
  by (simp add: each_err_None_iff)

lemma Validate_member:
  assumes "ProductAction_Validate cd a = None" and "m \<in> set (pa_Members a)"
  shows "0 < mb_ID m" and "mb_VendorCode m \<noteq> []"
    and "mb_OutcomeClass m \<noteq> [] \<Longrightarrow> ResultClass_IsValid (mb_OutcomeClass m)"
proof -
  have checks: "each_err member_err 0 (pa_Members a) = None"
    using assms(1) by (simp add: ProductAction_Validate_def)
  obtain k where k: "k < length (pa_Members a)" "pa_Members a ! k = m"
    using assms(2) by (auto simp: in_set_conv_nth)
  have ok: "member_err k m = None"
    using checks k unfolding each_err_0_None_iff by auto
  show "0 < mb_ID m" "mb_VendorCode m \<noteq> []"
    using ok by (auto simp: member_err_def split: if_splits)
  show "mb_OutcomeClass m \<noteq> [] \<Longrightarrow> ResultClass_IsValid (mb_OutcomeClass m)"
    using ok by (auto simp: member_err_def split: if_splits)
qed

lemma Validate_members_index:
  assumes "ProductAction_Validate cd a = None" and "k < length (pa_Members a)"
  shows "mb_RequestMemberIndex (pa_Members a ! k) = int k"
proof -
  have "each_err member_err 0 (pa_Members a) = None"
    using assms(1) by (simp add: ProductAction_Validate_def)
  then have "member_err k (pa_Members a ! k) = None"
    using assms(2) unfolding each_err_0_None_iff by auto
  then show ?thesis by (auto simp: member_err_def split: if_splits)
qed

lemma Validate_members_ne: "ProductAction_Validate cd a = None \<Longrightarrow> pa_Members a \<noteq> []"
  by (auto simp: ProductAction_Validate_def action_identity_err_def split: if_splits)

lemma Validate_kind:
  "ProductAction_Validate cd a = None \<Longrightarrow> pa_Kind a = ActionCreateGroup \<or> pa_Kind a = ActionAddToGroup"
  by (auto simp: ProductAction_Validate_def action_identity_err_def split: if_splits)

lemma Validate_request:
  assumes "ProductAction_Validate cd a = None"
  shows "request_vendor_codes cd a = Inr (action_VendorCodes a)"
  using assms by (auto simp: ProductAction_Validate_def split: sum.splits if_splits)

section \<open>Classification of an answer\<close>

fun call_VendorCodes :: "upload_call \<Rightarrow> string list" where
  "call_VendorCodes (CallUpload s g request) = concat (map (\<lambda>u. map uc_VendorCode (ug_Variants u)) request)"
| "call_VendorCodes (CallAdd s g imt cards) = map uc_VendorCode cards"

definition not_dispatched_answer :: "upload_answer \<Rightarrow> bool" where
  "not_dispatched_answer answer =
     (case answer of Inl None \<Rightarrow> True | Inl (Some e) \<Rightarrow> ce_delivery e = NotDispatched | Inr _ \<Rightarrow> False)"

definition reasonable_error :: "classified_error \<Rightarrow> bool" where
  "reasonable_error e \<longleftrightarrow>
     length (ce_code e) \<le> 115 \<and>
     (ce_delivery e = ResponseReceived \<longrightarrow> ce_httpStatus e = 0 \<or> (100 \<le> ce_httpStatus e \<and> ce_httpStatus e \<le> 599))"

lemma walk_subset: "set (walk wanted v) \<subseteq> set wanted"
proof (induction wanted v rule: walk.induct)
  case (1 wanted kvs)
  then have "set (walk wanted b) \<subseteq> set wanted" if "(a, b) \<in> set kvs" for a b
    using that by blast
  then show ?case by (auto split: if_splits)
qed (auto split: if_splits)

lemma mapped_all:
  assumes "length (mappedVendorCodes v codes) = length codes"
  shows "set codes \<subseteq> set (walk codes v)"
proof -
  have sub: "set (walk codes v) \<subseteq> set codes" by (rule walk_subset)
  have "card (set codes) \<le> length codes" by (rule card_length)
  also have "length codes = card (set (walk codes v))"
    using assms by (simp add: mappedVendorCodes_def length_remdups_card_conv)
  finally have "set (walk codes v) = set codes"
    using sub by (intro card_subset_eq) (auto intro: card_mono antisym)
  then show ?thesis by simp
qed

lemma mapped_le: "length (mappedVendorCodes v codes) \<le> length codes"
proof -
  have "length (mappedVendorCodes v codes) = card (set (walk codes v))"
    by (simp add: mappedVendorCodes_def length_remdups_card_conv)
  also have "\<dots> \<le> card (set codes)" by (intro card_mono walk_subset) simp
  also have "\<dots> \<le> length codes" by (rule card_length)
  finally show ?thesis .
qed

lemma check_member_submissions_ok:
  assumes "\<forall>m \<in> set ms. \<not> member_submission_bad m" and "distinct (map ms_ActionMemberID ms)"
    and "set (map ms_ActionMemberID ms) \<inter> set seen = {}"
  shows "check_member_submissions seen ms = None"
  using assms by (induction ms arbitrary: seen) auto

lemma internalNotDispatched_valid:
  assumes "ProductAction_Validate cd a = None" and "distinct (map mb_ID (pa_Members a))"
    and "code \<noteq> []" and "length code \<le> 128"
  shows "ValidateSubmissionResult (internalNotDispatched a code) = None"
proof -
  let ?ms = "sr_MemberResults (internalNotDispatched a code)"
  have ids: "map ms_ActionMemberID ?ms = map mb_ID (pa_Members a)"
    by (simp add: internalNotDispatched_def comp_def)
  have "check_member_submissions [] ?ms = None"
  proof (rule check_member_submissions_ok)
    show "\<forall>m \<in> set ?ms. \<not> member_submission_bad m"
      using assms Validate_member(1) [OF assms(1)]
      by (fastforce simp: internalNotDispatched_def member_submission_bad_def)
    show "distinct (map ms_ActionMemberID ?ms)" using assms(2) unfolding ids .
  qed simp
  then show ?thesis
    using assms Validate_members_ne [OF assms(1)]
    by (simp add: ValidateSubmissionResult_def internalNotDispatched_def delivery_err_def disposition_err_def
        delivery_defs disposition_defs submissionClassifierVersion_def)
qed

lemma uncertain_valid:
  assumes "ProductAction_Validate cd a = None" and "code \<noteq> []" and "length code \<le> 128"
    and "(delivery = SubmissionResponseReceived \<and> (status = 0 \<or> (100 \<le> status \<and> status \<le> 599))) \<or>
         (delivery = SubmissionUnknownDelivery \<and> status = 0)"
  shows "ValidateSubmissionResult (uncertain_result a delivery status code) = None"
  using assms Validate_members_ne [OF assms(1)]
  by (auto simp: ValidateSubmissionResult_def uncertain_result_def delivery_err_def disposition_err_def
      delivery_defs disposition_defs submissionClassifierVersion_def)

lemma envelope_valid:
  assumes "ProductAction_Validate cd a = None" and "distinct (map mb_ID (pa_Members a))"
  shows "ValidateSubmissionResult (classifySubmissionEnvelope a meta) = None"
proof (cases "rm_Error meta \<and> length (mappedVendorCodes (rm_AdditionalErrors meta) (action_VendorCodes a)) = length (pa_Members a)")
  case True
  let ?ms = "sr_MemberResults (classifySubmissionEnvelope a meta)"
  have ids: "map ms_ActionMemberID ?ms = map mb_ID (pa_Members a)"
    using True by (simp add: classifySubmissionEnvelope_def comp_def)
  have "check_member_submissions [] ?ms = None"
  proof (rule check_member_submissions_ok)
    show "\<forall>m \<in> set ?ms. \<not> member_submission_bad m"
      using True Validate_member(1) [OF assms(1)]
      by (fastforce simp: classifySubmissionEnvelope_def member_submission_bad_def)
    show "distinct (map ms_ActionMemberID ?ms)" using assms(2) unfolding ids .
  qed simp
  then show ?thesis
    using True Validate_members_ne [OF assms(1)]
    by (simp add: ValidateSubmissionResult_def classifySubmissionEnvelope_def delivery_err_def disposition_err_def
        delivery_defs disposition_defs submissionClassifierVersion_def)
next
  case False
  have "length (mappedVendorCodes (rm_AdditionalErrors meta) (action_VendorCodes a)) \<le> length (pa_Members a)"
    using mapped_le [of _ "action_VendorCodes a"] by (simp add: action_VendorCodes_def)
  then show ?thesis
    using False
    by (auto simp: ValidateSubmissionResult_def classifySubmissionEnvelope_def delivery_err_def disposition_err_def
        delivery_defs disposition_defs submissionClassifierVersion_def Let_def)
qed

lemma classify_answer_valid:
  assumes "ProductAction_Validate cd a = None" and "distinct (map mb_ID (pa_Members a))"
    and "\<And>e. answer = Inl (Some e) \<Longrightarrow> reasonable_error e"
  shows "ValidateSubmissionResult (classify_answer a answer) = None"
proof (cases answer)
  case (Inr meta)
  then show ?thesis using envelope_valid [OF assms(1,2)] by (simp add: classify_answer_def)
next
  case (Inl err)
  show ?thesis
  proof (cases err)
    case None
    then show ?thesis using Inl internalNotDispatched_valid [OF assms(1,2)]
      by (simp add: classify_answer_def classifySubmissionError_def)
  next
    case (Some e)
    have ok: "reasonable_error e" using assms(3) Inl Some by simp
    show ?thesis
      using Inl Some ok internalNotDispatched_valid [OF assms(1,2)] uncertain_valid [OF assms(1)]
      by (cases "ce_delivery e")
         (auto simp: classify_answer_def classifySubmissionError_def Let_def reasonable_error_def)
  qed
qed

lemma execute_calls:
  assumes "ProductAction_Validate cd a = None"
  obtains call where "executeProductMutation cd tr a = (classify_answer a (tr call), [call])"
    and "call_SellerID call = pa_SellerID a" and "call_Generation call = pa_ClientGeneration a"
    and "call_VendorCodes call = action_VendorCodes a"
proof -
  have codes: "request_vendor_codes cd a = Inr (action_VendorCodes a)" by (rule Validate_request [OF assms])
  show ?thesis
  proof (cases "pa_Kind a = ActionCreateGroup")
    case True
    then obtain request where r: "decodeExactCreate cd (pa_RequestPayload a) = Some request"
      "concat (map (\<lambda>g. map uc_VendorCode (ug_Variants g)) request) = action_VendorCodes a"
      using codes by (auto simp: request_vendor_codes_def split: option.splits)
    show ?thesis
      by (rule that [of "CallUpload (pa_SellerID a) (pa_ClientGeneration a) request"])
         (use True r in \<open>simp_all add: executeProductMutation_def Let_def\<close>)
  next
    case False
    then have kind: "pa_Kind a = ActionAddToGroup" using Validate_kind [OF assms] by simp
    from False obtain imt cards where r: "decodeExactAdd cd (pa_RequestPayload a) = Some (imt, cards)"
      "map uc_VendorCode cards = action_VendorCodes a"
      using codes by (auto simp: request_vendor_codes_def split: option.splits prod.splits if_splits)
    show ?thesis
      by (rule that [of "CallAdd (pa_SellerID a) (pa_ClientGeneration a) imt cards"])
         (use False kind r in \<open>simp_all add: executeProductMutation_def Let_def\<close>)
  qed
qed

lemma classify_answer_accepted:
  "sr_Disposition (classify_answer a answer) = SubmissionAccepted \<longleftrightarrow> (\<exists>meta. answer = Inr meta \<and> \<not> rm_Error meta)"
  by (auto simp: classify_answer_def classifySubmissionError_def classifySubmissionEnvelope_def internalNotDispatched_def
      uncertain_result_def disposition_defs Let_def split: sum.splits option.splits delivery_state.splits)

lemma classify_answer_not_dispatched:
  "sr_Delivery (classify_answer a answer) = SubmissionNotDispatched \<longleftrightarrow> not_dispatched_answer answer"
  by (auto simp: classify_answer_def classifySubmissionError_def classifySubmissionEnvelope_def internalNotDispatched_def
      not_dispatched_answer_def uncertain_result_def delivery_defs Let_def split: sum.splits option.splits delivery_state.splits)

lemma classify_answer_rejected:
  assumes "sr_Disposition (classify_answer a answer) = SubmissionRejectedProven"
  shows "map ms_ActionMemberID (sr_MemberResults (classify_answer a answer)) = map mb_ID (pa_Members a)"
    and "not_dispatched_answer answer \<or>
         (\<exists>meta. answer = Inr meta \<and> rm_Error meta \<and>
            set (action_VendorCodes a) \<subseteq> set (walk (action_VendorCodes a) (rm_AdditionalErrors meta)))"
proof -
  show "map ms_ActionMemberID (sr_MemberResults (classify_answer a answer)) = map mb_ID (pa_Members a)"
    using assms
    by (auto simp: classify_answer_def classifySubmissionError_def classifySubmissionEnvelope_def internalNotDispatched_def
        uncertain_result_def disposition_defs Let_def comp_def
        split: sum.splits option.splits delivery_state.splits if_splits)
  show "not_dispatched_answer answer \<or>
         (\<exists>meta. answer = Inr meta \<and> rm_Error meta \<and>
            set (action_VendorCodes a) \<subseteq> set (walk (action_VendorCodes a) (rm_AdditionalErrors meta)))"
  proof (cases answer)
    case (Inl err)
    then show ?thesis
      using assms
      by (auto simp: classify_answer_def classifySubmissionError_def not_dispatched_answer_def uncertain_result_def
          disposition_defs Let_def split: option.splits delivery_state.splits)
  next
    case (Inr meta)
    then have "rm_Error meta"
      and "length (mappedVendorCodes (rm_AdditionalErrors meta) (action_VendorCodes a)) = length (action_VendorCodes a)"
      using assms
      by (auto simp: classify_answer_def classifySubmissionEnvelope_def disposition_defs Let_def action_VendorCodes_def
          split: if_splits)
    then show ?thesis using mapped_all Inr by blast
  qed
qed

text \<open>C14: sending a valid product action makes exactly one call, for the action's cabinet and with exactly its
  vendor codes in order. The result is always valid evidence; it is "accepted" exactly when the response carried
  no error, "not dispatched" exactly when the client says that nothing was sent; a proven rejection settles
  exactly the members of the action, and when a response was received, only if every vendor code of the action
  occurs in the error details.\<close>
theorem executeProductMutation_sound:
  assumes "ProductAction_Validate cd a = None" and "distinct (map mb_ID (pa_Members a))"
    and "\<And>call e. tr call = Inl (Some e) \<Longrightarrow> reasonable_error e"
    and "executeProductMutation cd tr a = (r, calls)"
  shows "ValidateSubmissionResult r = None \<and>
    (\<exists>call. calls = [call] \<and> call_SellerID call = pa_SellerID a \<and> call_Generation call = pa_ClientGeneration a \<and>
       call_VendorCodes call = action_VendorCodes a \<and>
       (sr_Disposition r = SubmissionAccepted \<longleftrightarrow> (\<exists>meta. tr call = Inr meta \<and> \<not> rm_Error meta)) \<and>
       (sr_Delivery r = SubmissionNotDispatched \<longleftrightarrow> not_dispatched_answer (tr call)) \<and>
       (sr_Disposition r = SubmissionRejectedProven \<longrightarrow>
          map ms_ActionMemberID (sr_MemberResults r) = map mb_ID (pa_Members a) \<and>
          (not_dispatched_answer (tr call) \<or>
           (\<exists>meta. tr call = Inr meta \<and> rm_Error meta \<and>
              set (action_VendorCodes a) \<subseteq> set (walk (action_VendorCodes a) (rm_AdditionalErrors meta))))))"
proof -
  obtain call where call: "executeProductMutation cd tr a = (classify_answer a (tr call), [call])"
    "call_SellerID call = pa_SellerID a" "call_Generation call = pa_ClientGeneration a"
    "call_VendorCodes call = action_VendorCodes a"
    by (rule execute_calls [OF assms(1)])
  have r: "r = classify_answer a (tr call)" "calls = [call]" using call(1) assms(4) by simp_all
  have "ValidateSubmissionResult r = None"
    unfolding r by (rule classify_answer_valid [OF assms(1,2)]) (rule assms(3))
  moreover have "sr_Disposition r = SubmissionAccepted \<longleftrightarrow> (\<exists>meta. tr call = Inr meta \<and> \<not> rm_Error meta)"
    unfolding r by (rule classify_answer_accepted)
  moreover have "sr_Delivery r = SubmissionNotDispatched \<longleftrightarrow> not_dispatched_answer (tr call)"
    unfolding r by (rule classify_answer_not_dispatched)
  moreover have "sr_Disposition r = SubmissionRejectedProven \<longrightarrow>
      map ms_ActionMemberID (sr_MemberResults r) = map mb_ID (pa_Members a) \<and>
      (not_dispatched_answer (tr call) \<or>
       (\<exists>meta. tr call = Inr meta \<and> rm_Error meta \<and>
          set (action_VendorCodes a) \<subseteq> set (walk (action_VendorCodes a) (rm_AdditionalErrors meta))))"
    unfolding r by (intro impI conjI classify_answer_rejected)
  ultimately show ?thesis using call(2-4) r(2) by simp
qed

section \<open>Settlement\<close>

definition settled :: "(product_member \<Rightarrow> member_reconciliation option) \<Rightarrow> product_member \<Rightarrow> member_reconciliation option" where
  "settled settle m = (if mb_OutcomeClass m = [] then settle m else None)"

definition final_class :: "(product_member \<Rightarrow> member_reconciliation option) \<Rightarrow> product_member \<Rightarrow> string option" where
  "final_class settle m =
     (if mb_OutcomeClass m \<noteq> [] then Some (mb_OutcomeClass m) else map_option mr_OutcomeClass (settle m))"

definition counted :: "(product_member \<Rightarrow> member_reconciliation option) \<Rightarrow> (string \<Rightarrow> bool) \<Rightarrow> product_member list \<Rightarrow> nat" where
  "counted settle p ms = length (filter (\<lambda>m. case final_class settle m of None \<Rightarrow> False | Some cls \<Rightarrow> p cls) ms)"

abbreviation good_class :: "string \<Rightarrow> bool" where
  "good_class cls \<equiv> cls = ResultSuccess \<or> cls = ResultSkipped"

lemma reconcile_members_eq:
  "reconcile_members settle ms rs n =
     (rs @ List.map_filter (settled settle) ms,
      \<lparr>ec_unresolved = ec_unresolved n + counted settle (\<lambda>cls. \<not> good_class cls \<and> cls \<noteq> ResultRejected) ms,
       ec_rejected = ec_rejected n + counted settle (\<lambda>cls. \<not> good_class cls \<and> cls = ResultRejected) ms,
       ec_succeeded = ec_succeeded n + counted settle good_class ms,
       ec_pending = ec_pending n + length (filter (\<lambda>m. final_class settle m = None) ms)\<rparr>)"
proof (induction ms arbitrary: rs n)
  case Nil
  then show ?case by (simp add: counted_def map_filter_def)
next
  case (Cons m ms)
  show ?case
  proof (cases "mb_OutcomeClass m = []")
    case True
    show ?thesis
    proof (cases "settle m")
      case None
      then show ?thesis using True Cons.IH
        by (simp add: counted_def final_class_def settled_def map_filter_simps)
    next
      case (Some r)
      then show ?thesis using True Cons.IH
        by (simp add: counted_def final_class_def settled_def map_filter_simps count_class_def)
    qed
  next
    case False
    then show ?thesis using Cons.IH
      by (simp add: counted_def final_class_def settled_def map_filter_simps count_class_def)
  qed
qed

lemma counted_all_iff:
  "counted settle p ms = length ms \<longleftrightarrow> (\<forall>m \<in> set ms. \<exists>cls. final_class settle m = Some cls \<and> p cls)"
proof -
  have "counted settle p ms = length ms \<longleftrightarrow>
        (\<forall>m \<in> set ms. case final_class settle m of None \<Rightarrow> False | Some cls \<Rightarrow> p cls)"
    unfolding counted_def by (metis filter_id_conv length_filter_less order_less_irrefl)
  then show ?thesis by (auto split: option.splits)
qed

lemma counted_pos_iff:
  "0 < counted settle p ms \<longleftrightarrow> (\<exists>m \<in> set ms. \<exists>cls. final_class settle m = Some cls \<and> p cls)"
  by (auto simp: counted_def filter_empty_conv split: option.splits)

lemma verdict_cases:
  assumes "reconcile_members settle ms [] \<lparr>ec_unresolved = 0, ec_rejected = 0, ec_succeeded = 0, ec_pending = 0\<rparr> = (results, n)"
    and "reconcile_verdict (length ms) n = (isdone, cls, code)" and "ms \<noteq> []"
  shows "results = List.map_filter (settled settle) ms"
    and "isdone \<longleftrightarrow> (\<forall>m \<in> set ms. final_class settle m \<noteq> None)"
    and "isdone \<Longrightarrow> ResultClass_IsValid cls \<and> code \<noteq> [] \<and> length code \<le> 128"
    and "isdone \<Longrightarrow> cls = ResultSuccess \<longleftrightarrow> (\<forall>m \<in> set ms. \<exists>c. final_class settle m = Some c \<and> good_class c)"
    and "isdone \<Longrightarrow> cls = ResultRejected \<longleftrightarrow> (\<forall>m \<in> set ms. final_class settle m = Some ResultRejected)"
    and "isdone \<Longrightarrow> cls = ResultUnresolved \<longleftrightarrow>
           (\<exists>m \<in> set ms. \<exists>c. final_class settle m = Some c \<and> \<not> good_class c \<and> c \<noteq> ResultRejected)"
proof -
  let ?u = "counted settle (\<lambda>cls. \<not> good_class cls \<and> cls \<noteq> ResultRejected) ms"
  let ?r = "counted settle (\<lambda>cls. \<not> good_class cls \<and> cls = ResultRejected) ms"
  let ?s = "counted settle good_class ms"
  let ?p = "length (filter (\<lambda>m. final_class settle m = None) ms)"
  have n: "n = \<lparr>ec_unresolved = ?u, ec_rejected = ?r, ec_succeeded = ?s, ec_pending = ?p\<rparr>"
    and results: "results = List.map_filter (settled settle) ms"
    using assms(1) unfolding reconcile_members_eq by simp_all
  show "results = List.map_filter (settled settle) ms" by (rule results)
  have p0: "?p = 0 \<longleftrightarrow> (\<forall>m \<in> set ms. final_class settle m \<noteq> None)"
    by (simp add: filter_empty_conv)
  have isdone: "isdone \<longleftrightarrow> ?p = 0"
    using assms(2) by (auto simp: reconcile_verdict_def n split: if_splits)
  show "isdone \<longleftrightarrow> (\<forall>m \<in> set ms. final_class settle m \<noteq> None)" using isdone p0 by simp
  have len: "0 < length ms" using assms(3) by simp
  have rej: "ResultRejected \<noteq> ResultSuccess" "ResultRejected \<noteq> ResultSkipped" "ResultUnresolved \<noteq> ResultSuccess"
    "ResultUnresolved \<noteq> ResultRejected" "ResultPartial \<noteq> ResultSuccess" "ResultPartial \<noteq> ResultRejected"
    "ResultPartial \<noteq> ResultUnresolved"
    by (simp_all add: result_defs)
  have s_all: "?s = length ms \<longleftrightarrow> (\<forall>m \<in> set ms. \<exists>c. final_class settle m = Some c \<and> good_class c)"
    by (rule counted_all_iff)
  have r_all: "?r = length ms \<longleftrightarrow> (\<forall>m \<in> set ms. final_class settle m = Some ResultRejected)"
    unfolding counted_all_iff using rej by auto
  have u_pos: "0 < ?u \<longleftrightarrow> (\<exists>m \<in> set ms. \<exists>c. final_class settle m = Some c \<and> \<not> good_class c \<and> c \<noteq> ResultRejected)"
    by (rule counted_pos_iff)
  have u0: "?u = 0" if all: "?r = length ms \<or> ?s = length ms"
  proof (rule ccontr)
    assume "?u \<noteq> 0"
    then obtain m c where m: "m \<in> set ms" "final_class settle m = Some c" "\<not> good_class c" "c \<noteq> ResultRejected"
      using u_pos by auto
    show False
    proof (cases "?r = length ms")
      case True
      then show False using r_all m by simp
    next
      case False
      then show False using all s_all m by force
    qed
  qed
  have rs: "\<not> (?r = length ms \<and> ?s = length ms)"
  proof
    assume both: "?r = length ms \<and> ?s = length ms"
    have "hd ms \<in> set ms" using assms(3) by simp
    then show False using both s_all r_all rej by force
  qed
  show "ResultClass_IsValid cls \<and> code \<noteq> [] \<and> length code \<le> 128" if isdone
    using assms(2) that isdone by (auto simp: reconcile_verdict_def n ResultClass_IsValid_def split: if_splits)
  have verdict: "(if 0 < ?u then cls = ResultUnresolved else if ?r = length ms then cls = ResultRejected
      else if ?s = length ms then cls = ResultSuccess else cls = ResultPartial)" if isdone
    using assms(2) that isdone by (auto simp: reconcile_verdict_def n split: if_splits)
  show "cls = ResultSuccess \<longleftrightarrow> (\<forall>m \<in> set ms. \<exists>c. final_class settle m = Some c \<and> good_class c)" if isdone
    using verdict [OF that] rej u0 rs unfolding s_all [symmetric] by (auto split: if_splits)
  show "cls = ResultRejected \<longleftrightarrow> (\<forall>m \<in> set ms. final_class settle m = Some ResultRejected)" if isdone
    using verdict [OF that] rej u0 rs unfolding r_all [symmetric] by (auto split: if_splits)
  show "cls = ResultUnresolved \<longleftrightarrow>
      (\<exists>m \<in> set ms. \<exists>c. final_class settle m = Some c \<and> \<not> good_class c \<and> c \<noteq> ResultRejected)" if isdone
    using verdict [OF that] rej unfolding u_pos [symmetric] by (auto split: if_splits)
qed

lemma errors_by_vendor_in: "e \<in> set (errors_by_vendor matches v) \<Longrightarrow> e \<in> set matches \<and> v \<in> set (em_RejectedVendorCodes e)"
  by (auto simp: errors_by_vendor_def)

lemma errors_by_vendor_empty:
  "errors_by_vendor matches v = [] \<longleftrightarrow> (\<forall>e \<in> set matches. v \<notin> set (em_RejectedVendorCodes e))"
  by (auto simp: errors_by_vendor_def filter_empty_conv)

text \<open>What each outcome of a member needs to have been observed.\<close>

definition member_evidence ::
  "exec_codec \<Rightarrow> product_action \<Rightarrow> observation \<Rightarrow> error_match list \<Rightarrow> bool \<Rightarrow> product_member \<Rightarrow> member_reconciliation \<Rightarrow> bool" where
  "member_evidence cd a ob matches deadline m r \<longleftrightarrow>
     (let normal = normal_by_vendor ob (mb_VendorCode m); trash = trash_by_vendor ob (mb_VendorCode m);
          rejections = errors_by_vendor matches (mb_VendorCode m)
      in if mr_OutcomeClass r = ResultSuccess then
           trash = [] \<and> rejections = [] \<and>
           (\<exists>c. normal = [c] \<and> observedCardMatchesProductAction cd a m c \<and> mr_NMID r = cc_NMID c \<and>
                mr_IMTID r = cc_IMTID c \<and> mr_SubjectID r = cc_SubjectID c)
         else if mr_OutcomeClass r = ResultRejected then
           normal = [] \<and> trash = [] \<and> (\<exists>e \<in> set matches. rejections = [e] \<and> mr_ErrorBatchID r = em_ID e)
         else mr_OutcomeClass r = ResultUnresolved \<and>
           (normal \<noteq> [] \<or> trash \<noteq> [] \<or> 1 < length rejections \<or> (deadline \<and> rejections = [])))"

lemma settle_member_evidence:
  assumes "settle_member cd a ob matches deadline m = Some r"
  shows "mr_ActionMemberID r = mb_ID m" and "member_evidence cd a ob matches deadline m r"
proof -
  show "mr_ActionMemberID r = mb_ID m"
    using assms by (auto simp: settle_member_def unsettled_member_def Let_def split: if_splits)
  show "member_evidence cd a ob matches deadline m r"
  proof (cases "length (normal_by_vendor ob (mb_VendorCode m)) = 1 \<and> length (trash_by_vendor ob (mb_VendorCode m)) = 0 \<and>
      length (errors_by_vendor matches (mb_VendorCode m)) = 0")
    case True
    then obtain c where "normal_by_vendor ob (mb_VendorCode m) = [c]" by (auto simp: length_Suc_conv)
    with True assms show ?thesis
      by (auto simp: settle_member_def member_evidence_def unsettled_member_def result_defs Let_def split: if_splits)
  next
    case no_card: False
    show ?thesis
    proof (cases "length (normal_by_vendor ob (mb_VendorCode m)) = 0 \<and> length (trash_by_vendor ob (mb_VendorCode m)) = 0 \<and>
        length (errors_by_vendor matches (mb_VendorCode m)) = 1")
      case True
      then obtain e where e: "errors_by_vendor matches (mb_VendorCode m) = [e]" by (auto simp: length_Suc_conv)
      then have "e \<in> set matches" using errors_by_vendor_in [of e matches "mb_VendorCode m"] by simp
      then show ?thesis
        using True e assms
        by (auto simp: settle_member_def member_evidence_def unsettled_member_def result_defs Let_def split: if_splits)
    next
      case False
      have none_or_more: "errors_by_vendor matches (mb_VendorCode m) = [] \<or>
          length (errors_by_vendor matches (mb_VendorCode m)) = Suc 0 \<or>
          Suc 0 < length (errors_by_vendor matches (mb_VendorCode m))"
        by (cases "errors_by_vendor matches (mb_VendorCode m)") auto
      show ?thesis
        using no_card False assms none_or_more
        by (auto simp: settle_member_def member_evidence_def unsettled_member_def result_defs Let_def split: if_splits)
    qed
  qed
qed

lemma settle_member_well_formed:
  assumes "settle_member cd a ob matches deadline m = Some r" and "0 < mb_ID m"
    and "\<forall>e \<in> set matches. 0 < em_ID e"
  shows "\<not> reconciliation_bad r \<and> attribution_err r = None"
proof -
  let ?normal = "normal_by_vendor ob (mb_VendorCode m)" and ?trash = "trash_by_vendor ob (mb_VendorCode m)"
    and ?errors = "errors_by_vendor matches (mb_VendorCode m)"
  have card: "0 < cc_NMID c \<and> 0 < cc_IMTID c \<and> 0 < cc_SubjectID c" if "observedCardMatchesProductAction cd a m c" for c
    using that by (auto simp: observedCardMatchesProductAction_def split: if_splits)
  have batch: "0 < em_ID (errors_by_vendor matches (mb_VendorCode m) ! 0)"
    if "length (errors_by_vendor matches (mb_VendorCode m)) = 1"
    using that assms(3) errors_by_vendor_in [of _ matches] by (metis nth_mem zero_less_one)
  have cases: "(mr_OutcomeClass r = ResultSuccess \<and> mr_OutcomeCode r = ''CREATED_CONFIRMED_BY_VENDOR_CODE'' \<and>
        0 < mr_NMID r \<and> 0 < mr_IMTID r \<and> 0 < mr_SubjectID r \<and> mr_ErrorBatchID r = 0 \<and>
        mr_AttributionLevel r = ''observed_after_attempt'') \<or>
      (mr_OutcomeClass r \<in> {ResultRejected, ResultUnresolved} \<and>
        mr_OutcomeCode r \<in> {''WB_ERROR_LIST_REJECTED'', ''REMOTE_PRODUCT_BINDING_MISMATCH'', ''REMOTE_EVIDENCE_CONFLICT'',
                             ''RECONCILIATION_TIMEOUT''} \<and>
        mr_NMID r = 0 \<and> mr_IMTID r = 0 \<and> mr_SubjectID r = 0 \<and> 0 \<le> mr_ErrorBatchID r \<and> mr_AttributionLevel r = [])"
  proof (cases "length ?normal = 1 \<and> length ?trash = 0 \<and> length ?errors = 0")
    case one: True
    show ?thesis
    proof (cases "observedCardMatchesProductAction cd a m (?normal ! 0)")
      case True
      then show ?thesis using one assms(1) card [OF True] by (simp add: settle_member_def Let_def unsettled_member_def) force
    next
      case False
      then show ?thesis using one assms(1) by (simp add: settle_member_def Let_def unsettled_member_def) force
    qed
  next
    case none: False
    show ?thesis
    proof (cases "length ?normal = 0 \<and> length ?trash = 0 \<and> length ?errors = 1")
      case True
      then have "r = (unsettled_member (mb_ID m))\<lparr>mr_OutcomeClass := ResultRejected,
          mr_OutcomeCode := ''WB_ERROR_LIST_REJECTED'', mr_ErrorBatchID := em_ID (?errors ! 0)\<rparr>"
        using assms(1) by (simp add: settle_member_def Let_def)
      then show ?thesis using batch True by (simp add: unsettled_member_def order.strict_implies_order)
    next
      case False
      show ?thesis
      proof (cases "0 < length ?normal \<or> 0 < length ?trash \<or> 1 < length ?errors")
        case True
        then have "r = (unsettled_member (mb_ID m))\<lparr>mr_OutcomeClass := ResultUnresolved,
            mr_OutcomeCode := ''REMOTE_EVIDENCE_CONFLICT''\<rparr>"
          using assms(1) none False unfolding settle_member_def Let_def by (simp only: if_False if_True option.inject)
        then show ?thesis by (simp add: unsettled_member_def)
      next
        case quiet: False
        then have "deadline \<and> r = (unsettled_member (mb_ID m))\<lparr>mr_OutcomeClass := ResultUnresolved,
            mr_OutcomeCode := ''RECONCILIATION_TIMEOUT''\<rparr>"
          using assms(1) none False unfolding settle_member_def Let_def
          by (simp only: if_False if_True option.inject) (simp split: if_splits)
        then show ?thesis by (simp add: unsettled_member_def)
      qed
    qed
  qed
  have id: "mr_ActionMemberID r = mb_ID m" by (rule settle_member_evidence(1) [OF assms(1)])
  from cases show ?thesis
  proof
    assume "mr_OutcomeClass r = ResultSuccess \<and> mr_OutcomeCode r = ''CREATED_CONFIRMED_BY_VENDOR_CODE'' \<and>
        0 < mr_NMID r \<and> 0 < mr_IMTID r \<and> 0 < mr_SubjectID r \<and> mr_ErrorBatchID r = 0 \<and>
        mr_AttributionLevel r = ''observed_after_attempt''"
    then show ?thesis using id assms(2)
      by (simp add: reconciliation_bad_def attribution_err_def ResultClass_IsValid_def)
  next
    assume "mr_OutcomeClass r \<in> {ResultRejected, ResultUnresolved} \<and>
        mr_OutcomeCode r \<in> {''WB_ERROR_LIST_REJECTED'', ''REMOTE_PRODUCT_BINDING_MISMATCH'', ''REMOTE_EVIDENCE_CONFLICT'',
                             ''RECONCILIATION_TIMEOUT''} \<and>
        mr_NMID r = 0 \<and> mr_IMTID r = 0 \<and> mr_SubjectID r = 0 \<and> 0 \<le> mr_ErrorBatchID r \<and> mr_AttributionLevel r = []"
    then show ?thesis using id assms(2)
      by (auto simp: reconciliation_bad_def attribution_err_def ResultClass_IsValid_def result_defs)
  qed
qed

lemma check_reconciliations_ok:
  assumes "\<forall>r \<in> set rs. \<not> reconciliation_bad r \<and> attribution_err r = None \<and> mr_ActionMemberID r \<in> set pending"
    and "distinct (map mr_ActionMemberID rs)" and "set (map mr_ActionMemberID rs) \<inter> set seen = {}"
  shows "check_reconciliations pending seen rs = None"
  using assms by (induction rs arbitrary: seen) auto

lemma settled_ids:
  assumes "\<And>m r. settle m = Some r \<Longrightarrow> mr_ActionMemberID r = mb_ID m" and "distinct (map mb_ID ms)"
  shows "distinct (map mr_ActionMemberID (List.map_filter (settled settle) ms))"
    and "set (map mr_ActionMemberID (List.map_filter (settled settle) ms)) \<subseteq> mb_ID ` set ms"
proof -
  have both: "distinct (map mr_ActionMemberID (List.map_filter (settled settle) ms)) \<and>
      set (map mr_ActionMemberID (List.map_filter (settled settle) ms)) \<subseteq> mb_ID ` set ms"
    using assms(2)
  proof (induction ms)
    case Nil
    then show ?case by (simp add: map_filter_simps)
  next
    case (Cons m ms)
    then have IH: "distinct (map mr_ActionMemberID (List.map_filter (settled settle) ms))"
      "set (map mr_ActionMemberID (List.map_filter (settled settle) ms)) \<subseteq> mb_ID ` set ms" by simp_all
    show ?case
    proof (cases "settled settle m")
      case None
      then show ?thesis using IH by (auto simp: map_filter_simps)
    next
      case (Some r)
      then have "mr_ActionMemberID r = mb_ID m" using assms(1) by (auto simp: settled_def split: if_splits)
      then show ?thesis using Some IH Cons.prems by (fastforce simp: map_filter_simps)
    qed
  qed
  then show "distinct (map mr_ActionMemberID (List.map_filter (settled settle) ms))"
    and "set (map mr_ActionMemberID (List.map_filter (settled settle) ms)) \<subseteq> mb_ID ` set ms" by blast+
qed

lemma map_filter_settledD:
  assumes "r \<in> set (List.map_filter (settled settle) ms)"
  obtains m where "m \<in> set ms" "mb_OutcomeClass m = []" "settle m = Some r"
proof -
  obtain m where "m \<in> set ms" "settled settle m = Some r"
    using assms by (auto simp: List.map_filter_def)
  then show ?thesis using that by (auto simp: settled_def split: if_splits)
qed

definition evidence_deadline :: "product_action \<Rightarrow> int \<Rightarrow> int \<Rightarrow> bool" where
  "evidence_deadline a now timeout \<longleftrightarrow> pa_AttemptStartedAt a \<noteq> 0 \<and> pa_AttemptStartedAt a + timeout \<le> now"

text \<open>C15: the settlement of an open product action is backed by what was observed. Its results pass the check of
  the repository; every one settles a pending member of the action, and it says success only for the one card with
  the member's vendor code, bound to the requested group or subject, with no copy in the trash and no error report;
  rejected only for exactly one error report and no card; unresolved only for contradictory evidence or after the
  deadline. The action is finished exactly when every member has a class, and its class is success, rejected or
  unresolved exactly when all members succeeded, all were rejected, or some member is unresolved.\<close>
theorem reconcileProductEvidence_sound:
  assumes "ProductAction_Validate cd a = None" and "distinct (map mb_ID (pa_Members a))"
    and "\<forall>e \<in> set matches. 0 < em_ID e"
    and "reconcileProductEvidence cd a ob matches now timeout = (results, finished, cls, code)"
  shows "ValidateMemberReconciliationResults a results = None \<and>
    (\<forall>r \<in> set results. \<exists>m \<in> set (pa_Members a). mb_ID m = mr_ActionMemberID r \<and> mb_OutcomeClass m = [] \<and>
       member_evidence cd a ob matches (evidence_deadline a now timeout) m r) \<and>
    (let final = final_class (settle_member cd a ob matches (evidence_deadline a now timeout)) in
     (finished \<longleftrightarrow> (\<forall>m \<in> set (pa_Members a). final m \<noteq> None)) \<and>
     (finished \<longrightarrow>
        ResultClass_IsValid cls \<and>
        (cls = ResultSuccess \<longleftrightarrow> (\<forall>m \<in> set (pa_Members a). \<exists>c. final m = Some c \<and> good_class c)) \<and>
        (cls = ResultRejected \<longleftrightarrow> (\<forall>m \<in> set (pa_Members a). final m = Some ResultRejected)) \<and>
        (cls = ResultUnresolved \<longleftrightarrow>
           (\<exists>m \<in> set (pa_Members a). \<exists>c. final m = Some c \<and> \<not> good_class c \<and> c \<noteq> ResultRejected))))"
proof -
  define settle where "settle = settle_member cd a ob matches (evidence_deadline a now timeout)"
  obtain n where members: "reconcile_members settle (pa_Members a) []
      \<lparr>ec_unresolved = 0, ec_rejected = 0, ec_succeeded = 0, ec_pending = 0\<rparr> = (results, n)"
    and verdict: "reconcile_verdict (length (pa_Members a)) n = (finished, cls, code)"
    using assms(4) by (auto simp: reconcileProductEvidence_def settle_def evidence_deadline_def Let_def split: prod.splits)
  note facts = verdict_cases [OF members verdict Validate_members_ne [OF assms(1)]]
  have ids: "\<And>m r. settle m = Some r \<Longrightarrow> mr_ActionMemberID r = mb_ID m"
    unfolding settle_def by (rule settle_member_evidence)
  have each: "\<exists>m \<in> set (pa_Members a). mb_ID m = mr_ActionMemberID r \<and> mb_OutcomeClass m = [] \<and> settle m = Some r"
    if "r \<in> set results" for r
    using that unfolding facts(1) by (elim map_filter_settledD) (use ids in fastforce)
  have "check_reconciliations (map mb_ID (filter (\<lambda>m. mb_OutcomeClass m = []) (pa_Members a))) [] results = None"
  proof (rule check_reconciliations_ok)
    show "\<forall>r \<in> set results. \<not> reconciliation_bad r \<and> attribution_err r = None \<and>
        mr_ActionMemberID r \<in> set (map mb_ID (filter (\<lambda>m. mb_OutcomeClass m = []) (pa_Members a)))"
    proof
      fix r assume "r \<in> set results"
      then obtain m where m: "m \<in> set (pa_Members a)" "mb_ID m = mr_ActionMemberID r" "mb_OutcomeClass m = []" "settle m = Some r"
        using each by blast
      then show "\<not> reconciliation_bad r \<and> attribution_err r = None \<and>
          mr_ActionMemberID r \<in> set (map mb_ID (filter (\<lambda>m. mb_OutcomeClass m = []) (pa_Members a)))"
        using settle_member_well_formed [OF _ _ assms(3)] Validate_member(1) [OF assms(1)]
        unfolding settle_def by (force simp: image_iff)
    qed
    show "distinct (map mr_ActionMemberID results)"
      unfolding facts(1) by (rule settled_ids [OF ids assms(2)])
  qed simp
  moreover have "\<forall>r \<in> set results. \<exists>m \<in> set (pa_Members a). mb_ID m = mr_ActionMemberID r \<and> mb_OutcomeClass m = [] \<and>
      member_evidence cd a ob matches (evidence_deadline a now timeout) m r"
    using each settle_member_evidence(2) unfolding settle_def by blast
  ultimately show ?thesis
    using facts(2-6) by (simp add: ValidateMemberReconciliationResults_def Let_def flip: settle_def)
qed

end
