(* ===== verification/ProductSystem.thy ===== *)
theory ProductSystem
  imports ProductDispatch ProductActionProps
begin

text \<open>
  What the journal promises about calls to the Content API. The transactions of the dispatcher are looked at
  through the part of the journal they must not disturb: the attempts, the retries and the identities of actions.
  A step relation interleaves the transactions of any number of dispatchers, their calls, crashes and the other
  components, and keeps a trace of the calls.
\<close>

section \<open>What a statement leaves alone\<close>

type_synonym ident = "int \<times> int \<times> int \<times> int \<times> string \<times> digest \<times> string"
type_synonym core = "attempt_rec list \<times> retry_rec list \<times> ident list"

definition action_ident :: "action_rec \<Rightarrow> ident" where
  "action_ident w = (ar_ID w, ar_TransferID w, ar_PlanID w, ar_TargetID w, ar_Kind w, ar_RequestDigest w, ar_RequestPayload w)"

definition journal_core :: "journal \<Rightarrow> core" where
  "journal_core j = (jn_attempts j, jn_retries j, map action_ident (jn_actions j))"

named_theorems keeps_core \<open>statements that leave the core of the journal alone\<close>

lemma map_ident_update_where:
  assumes "\<And>w. action_ident (f w) = action_ident w"
  shows "map action_ident (update_where p f ws) = map action_ident ws"
  using assms by (simp add: update_where_def)

lemma finish_action_ident [simp]: "action_ident (finish_action now st cls code w) = action_ident w"
  by (simp add: finish_action_def action_ident_def)

lemma core_InsertActionObservation [keeps_core]:
  "InsertActionObservation now transferID kind ob j = Inr (j', i) \<Longrightarrow> journal_core j' = journal_core j"
  by (auto simp: InsertActionObservation_def journal_core_def split: if_splits option.splits)

lemma core_finish_members [simp]: "journal_core (finish_members p f j) = journal_core j"
  by (simp add: finish_members_def journal_core_def)

lemma core_reduce [keeps_core]: "reducePublicationPlan t p j = Inr j' \<Longrightarrow> journal_core j' = journal_core j"
  by (auto simp: reducePublicationPlan_def journal_core_def Let_def split: if_splits option.splits)

lemma core_actions:
  assumes "\<And>w. action_ident (f w) = action_ident w"
  shows "journal_core (j\<lparr>jn_actions := update_where p f (jn_actions j)\<rparr>) = journal_core j"
  using map_ident_update_where [of f, OF assms] by (simp add: journal_core_def)

lemma core_supersede [keeps_core]:
  assumes "SupersedePlanBeforeDispatch now action code j = Inr j'"
  shows "journal_core j' = journal_core j"
proof -
  define j1 where "j1 = finish_members (plan_action (pc_TransferID action) (pa_PlanID action)) (\<lambda>_. (ResultSkipped, code)) j"
  define j2 where "j2 = j1\<lparr>jn_actions := update_where (\<lambda>w. plan_action (pc_TransferID action) (pa_PlanID action) w \<and> ar_State w = ''planned'')
    (finish_action now ''superseded'' ResultSkipped code) (jn_actions j1)\<rparr>"
  have "\<exists>ps. j' = j2\<lparr>jn_plans := ps\<rparr>"
    using assms by (auto simp: SupersedePlanBeforeDispatch_def Let_def j1_def j2_def split: if_splits)
  moreover have "journal_core j2 = journal_core j"
    unfolding j2_def by (subst core_actions) (simp_all add: j1_def)
  ultimately show ?thesis by (auto simp: journal_core_def)
qed

lemma core_abort [keeps_core]:
  assumes "AbortPlanAfterDispatch now action code j = Inr (j', bs)"
  shows "journal_core j' = journal_core j"
proof -
  define planned where "planned = (\<lambda>w. plan_action (pc_TransferID action) (pa_PlanID action) w \<and> ar_State w = ''planned'')"
  obtain ids where red: "reducePublicationPlan (pc_TransferID action) (pa_PlanID action)
      ((finish_members planned (abort_outcome code) (j\<lparr>jn_identities := ids\<rparr>))
        \<lparr>jn_actions := update_where planned (\<lambda>w. finish_action now ''terminal'' (fst (abort_outcome code w)) (snd (abort_outcome code w)) w)
            (jn_actions (finish_members planned (abort_outcome code) (j\<lparr>jn_identities := ids\<rparr>)))\<rparr>) = Inr j'"
    using assms by (auto simp: AbortPlanAfterDispatch_def Let_def planned_def rbind_eq_Inr_iff split: if_splits)
  show ?thesis
    unfolding core_reduce [OF red] by (subst core_actions) (simp_all add: finish_members_def journal_core_def)
qed

lemma core_finish_media [simp]: "journal_core (finishPotentialMediaActions now action code j) = journal_core j"
  by (simp add: finishPotentialMediaActions_def Let_def journal_core_def map_ident_update_where)

lemma core_finish_submitted_members [keeps_core]:
  "finish_submitted_members action r ms cls j = Inr (j', cls') \<Longrightarrow> journal_core j' = journal_core j"
proof (induction action r ms cls j rule: finish_submitted_members.induct)
  case (2 action r m ms cls j)
  then obtain x j1 where x: "member_submission_for r (mb_ID m) = Some x"
    "finish_submitted_member action m (ms_OutcomeClass x) (ms_OutcomeCode x) j = Inr j1"
    "finish_submitted_members action r ms (if ms_OutcomeClass x = ResultInternalError then ResultInternalError else cls) j1 = Inr (j', cls')"
    by (auto simp: rbind_eq_Inr_iff split: option.splits)
  have "journal_core j1 = journal_core j"
    using x(2) by (auto simp: finish_submitted_member_def journal_core_def Let_def split: if_splits)
  moreover have "journal_core j' = journal_core j1"
    using 2(1) [OF x(1)] x(3) by simp
  ultimately show ?case by simp
qed simp

lemma core_finish_rejected [keeps_core]:
  assumes "finish_rejected now action r j = Inr j'"
  shows "journal_core j' = journal_core j"
proof -
  obtain j1 cls where j1: "finish_submitted_members action r (pa_Members action) ResultRejected j = Inr (j1, cls)"
    and red: "reducePublicationPlan (pc_TransferID action) (pa_PlanID action)
      ((finishPotentialMediaActions now action media_skip_code j1)
        \<lparr>jn_actions := update_where (action_in_state action ''dispatching'') (finish_action now ''terminal'' cls (sr_SafeCode r))
          (jn_actions (finishPotentialMediaActions now action media_skip_code j1))\<rparr>) = Inr j'"
    using assms by (auto simp: finish_rejected_def Let_def rbind_eq_Inr_iff split: if_splits prod.splits)
  show ?thesis
    unfolding core_reduce [OF red] by (subst core_actions) (simp_all add: core_finish_submitted_members [OF j1])
qed

lemma core_touch [keeps_core]: "touch_action now action j = Inr j' \<Longrightarrow> journal_core j' = journal_core j"
  by (auto simp: touch_action_def Let_def journal_core_def map_ident_update_where action_ident_def split: if_splits)

lemma core_record_reconciled_member [keeps_core]:
  "record_reconciled_member action m i r j = Inr j' \<Longrightarrow> journal_core j' = journal_core j"
  by (auto simp: record_reconciled_member_def insert_attribution_def insert_correlation_def journal_core_def Let_def
      rbind_eq_Inr_iff split: if_splits)

lemma core_recordProductReconciliationMembers [keeps_core]:
  "recordProductReconciliationMembers action i rs j = Inr j' \<Longrightarrow> journal_core j' = journal_core j"
proof (induction action i rs j rule: recordProductReconciliationMembers.induct)
  case (2 action i r rs j)
  then obtain m j1 where m: "find (\<lambda>m. mb_ID m = mr_ActionMemberID r) (rev (pa_Members action)) = Some m"
    "mb_OutcomeClass m = []" "record_reconciled_member action m i r j = Inr j1"
    "recordProductReconciliationMembers action i rs j1 = Inr j'"
    by (auto simp: rbind_eq_Inr_iff split: option.splits if_splits)
  have "journal_core j' = journal_core j1" by (rule 2(1) [OF m(1)]) (use m in simp_all)
  then show ?case using core_record_reconciled_member [OF m(3)] by simp
qed simp

lemma core_poll [keeps_core]:
  assumes "RecordProductReconciliationPoll now action i rs j = Inr j'"
  shows "journal_core j' = journal_core j"
proof -
  obtain j1 p where "recordProductReconciliationMembers action i rs j = Inr j1"
    and "j' = j1\<lparr>jn_actions := update_where p (\<lambda>w. w\<lparr>ar_UpdatedAt := pg_time now\<rparr>) (jn_actions j1)\<rparr>"
    using assms by (auto simp: RecordProductReconciliationPoll_def Let_def rbind_eq_Inr_iff split: if_splits)
  then show ?thesis
    using core_recordProductReconciliationMembers by (simp add: core_actions action_ident_def)
qed

lemma core_finish [keeps_core]:
  assumes "FinishProductReconciliation now action i rs cls code j = Inr j'"
  shows "journal_core j' = journal_core j"
proof -
  obtain j1 p where j1: "recordProductReconciliationMembers action i rs j = Inr j1"
    and red: "reducePublicationPlan (pc_TransferID action) (pa_PlanID action)
      ((finishPotentialMediaActions now action media_skip_code j1)
        \<lparr>jn_actions := update_where p (finish_action now ''terminal'' cls code)
          (jn_actions (finishPotentialMediaActions now action media_skip_code j1))\<rparr>) = Inr j'"
    using assms by (auto simp: FinishProductReconciliation_def Let_def rbind_eq_Inr_iff split: if_splits)
  show ?thesis
    unfolding core_reduce [OF red]
    by (subst core_actions) (simp_all add: core_recordProductReconciliationMembers [OF j1])
qed

text \<open>The statements that do write attempts and retries.\<close>

lemma BeginProductAttempt_effect:
  assumes "BeginProductAttempt now action auth bl recheckID j = Inr (j', attempt)"
  shows "jn_attempts j' = jn_attempts j @ [new_attempt now action bl recheckID (jn_next j)]"
    and "jn_retries j' = jn_retries j"
    and "map action_ident (jn_actions j') = map action_ident (jn_actions j)"
    and "\<forall>t \<in> set (jn_attempts j). aw_ActionID t \<noteq> pc_ActionID action"
    and "pat_ID attempt = jn_next j"
  using assms
  by (auto simp: BeginProductAttempt_def Let_def new_attempt_def list_ex_iff map_ident_update_where action_ident_def
      split: if_splits)

lemma core_CaptureBaseline [keeps_core]:
  "CaptureBaseline now t a s j = Inr (j', b) \<Longrightarrow> journal_core j' = journal_core j"
  by (auto simp: CaptureBaseline_def CaptureErrorBaseline_def ensureErrorCursor_def Let_def rbind_eq_Inr_iff journal_core_def
      split: if_splits option.splits)

lemma RecordSubmission_effect:
  assumes "RecordSubmission now action attempt r j = Inr j'"
  shows "jn_attempts j' = update_where (open_attempt action attempt) (finish_attempt now r) (jn_attempts j)"
    and "jn_retries j' = jn_retries j"
    and "map action_ident (jn_actions j') = map action_ident (jn_actions j)"
proof -
  define j1 where "j1 = j\<lparr>jn_attempts := update_where (open_attempt action attempt) (finish_attempt now r) (jn_attempts j)\<rparr>"
  have "journal_core j' = journal_core j1"
  proof (cases "sr_Disposition r = SubmissionAccepted \<or> sr_Disposition r = SubmissionUncertain")
    case True
    define ws where "ws = update_where (action_in_state action ''dispatching'') (\<lambda>w. w\<lparr>ar_State := ''reconciling'',
      ar_Revision := ar_Revision w + 1, ar_UpdatedAt := pg_time now\<rparr>) (jn_actions j1)"
    from True have "j' = j1\<lparr>jn_actions := ws\<rparr> \<or> j' = block_identities action (j1\<lparr>jn_actions := ws\<rparr>)"
      using assms by (auto simp: RecordSubmission_def j1_def ws_def Let_def split: option.splits if_splits)
    moreover have "map action_ident ws = map action_ident (jn_actions j1)"
      unfolding ws_def by (rule map_ident_update_where) (simp add: action_ident_def)
    ultimately show ?thesis by (auto simp: journal_core_def block_identities_def)
  next
    case False
    then have "finish_rejected now action r j1 = Inr j'"
      using assms by (auto simp: RecordSubmission_def j1_def Let_def split: option.splits if_splits)
    then show ?thesis by (rule core_finish_rejected)
  qed
  then show "jn_attempts j' = update_where (open_attempt action attempt) (finish_attempt now r) (jn_attempts j)"
    and "jn_retries j' = jn_retries j"
    and "map action_ident (jn_actions j') = map action_ident (jn_actions j)"
    by (simp_all add: journal_core_def j1_def)
qed

lemma BeginProductRetry_effect:
  assumes "BeginProductRetry now action j = Inr (j', retry)"
  shows "jn_attempts j' = jn_attempts j"
    and "\<exists>w \<in> set (jn_actions j). ar_TransferID w = pc_TransferID action \<and> ar_ID w = pc_ActionID action \<and>
           jn_retries j' = jn_retries j @ [new_retry now w (pc_AuthorizationID action) (jn_next j)]"
    and "map action_ident (jn_actions j') = map action_ident (jn_actions j)"
    and "\<exists>t \<in> set (jn_attempts j). retryable_attempt now action t"
    and "action_retry j (pc_TransferID action) (pc_ActionID action) = None"
    and "prt_ID retry = jn_next j"
proof -
  obtain w where w: "find (action_in_state action ''reconciling'') (jn_actions j) = Some w"
    "list_ex (retryable_attempt now action) (jn_attempts j)" "action_retry j (ar_TransferID w) (ar_ID w) = None"
    "touch_action now action (j\<lparr>jn_retries := jn_retries j @ [new_retry now w (pc_AuthorizationID action) (jn_next j)],
       jn_next := jn_next j + 1\<rparr>) = Inr j'"
    and retry: "prt_ID retry = jn_next j"
    using assms by (auto simp: BeginProductRetry_def Let_def rbind_eq_Inr_iff new_retry_def split: if_splits option.splits)
  have wj: "w \<in> set (jn_actions j)" "ar_TransferID w = pc_TransferID action" "ar_ID w = pc_ActionID action"
    using find_Some_iff [of "action_in_state action ''reconciling''" "jn_actions j" w] w(1)
    by (auto simp: action_in_state_def action_key_def)
  note core = core_touch [OF w(4)]
  show "jn_attempts j' = jn_attempts j" "map action_ident (jn_actions j') = map action_ident (jn_actions j)"
    using core by (simp_all add: journal_core_def)
  show "\<exists>w \<in> set (jn_actions j). ar_TransferID w = pc_TransferID action \<and> ar_ID w = pc_ActionID action \<and>
      jn_retries j' = jn_retries j @ [new_retry now w (pc_AuthorizationID action) (jn_next j)]"
    using core wj by (auto simp: journal_core_def)
  show "\<exists>t \<in> set (jn_attempts j). retryable_attempt now action t" using w(2) by (simp add: list_ex_iff)
  show "action_retry j (pc_TransferID action) (pc_ActionID action) = None" using w(3) wj by simp
  show "prt_ID retry = jn_next j" by (rule retry)
qed

lemma RecordProductRetry_effect:
  assumes "RecordProductRetry now action retry r j = Inr j'"
  shows "jn_attempts j' = jn_attempts j"
    and "jn_retries j' = update_where (open_retry action retry) (finish_retry now r) (jn_retries j)"
    and "map action_ident (jn_actions j') = map action_ident (jn_actions j)"
proof -
  have "touch_action now action
      (j\<lparr>jn_retries := update_where (open_retry action retry) (finish_retry now r) (jn_retries j)\<rparr>) = Inr j'"
    using assms by (auto simp: RecordProductRetry_def split: if_splits)
  note core = core_touch [OF this]
  show "jn_attempts j' = jn_attempts j" "map action_ident (jn_actions j') = map action_ident (jn_actions j)"
    and "jn_retries j' = update_where (open_retry action retry) (finish_retry now r) (jn_retries j)"
    using core by (simp_all add: journal_core_def)
qed

section \<open>Reading an action\<close>

lemma find_Some: "find p xs = Some x \<Longrightarrow> x \<in> set xs \<and> p x"
  by (metis find_Some_iff nth_mem)

lemma find_None: "find p xs = None \<longleftrightarrow> (\<forall>x \<in> set xs. \<not> p x)"
  by (auto simp: find_None_iff)

lemma LockProductAction_facts:
  assumes "LockProductAction cd live j c = Inr action"
  obtains w where "w \<in> set (jn_actions j)" and "ar_ID w = pc_ActionID c" and "ar_TransferID w = pc_TransferID c"
    and "pc_ActionID action = pc_ActionID c" and "pc_TransferID action = pc_TransferID c"
    and "pc_AuthorizationID action = pc_AuthorizationID c"
    and "pa_State action = ar_State w" and "pa_Kind action = ar_Kind w"
    and "pa_RequestPayload action = ar_RequestPayload w" and "pa_RequestDigest action = ar_RequestDigest w"
    and "pa_PlanID action = ar_PlanID w" and "product_kind (ar_Kind w)"
    and "pa_AttemptID action = (case action_attempt j (pc_ActionID c) of None \<Rightarrow> 0 | Some t \<Rightarrow> aw_ID t)"
    and "pa_EmptyResponseRetry action = scan_retry c (action_retry j (pc_TransferID c) (pc_ActionID c))"
    and "ProductAction_Validate cd action = None"
proof -
  obtain w t preflight revision where row: "candidate_row j c = Some (w, t)"
    and action: "action = scan_action j c w t preflight revision"
    and valid: "ProductAction_Validate cd action = None"
    using assms unfolding LockProductAction_def Let_def
    by (simp split: if_splits option.splits prod.splits) blast
  have "find (action_key (pc_TransferID c) (pc_ActionID c)) (jn_actions j) = Some w"
    using row by (auto simp: candidate_row_def split: option.splits if_splits)
  then have w: "w \<in> set (jn_actions j)" "ar_ID w = pc_ActionID c" "ar_TransferID w = pc_TransferID c"
    by (auto dest!: find_Some simp: action_key_def)
  show ?thesis
    by (rule that [OF w]) (use action valid w Validate_kind [OF valid] in \<open>simp_all add: scan_action_def product_kind_def\<close>)
qed

section \<open>What a transaction writes\<close>

lemma WithinTransaction_cases:
  assumes "WithinTransaction env fn s = (s', r)"
  obtains (unchanged) "s' = s" "\<And>x. r \<noteq> Inr x" | (applied) x where "fn s = Inr (s', x)" "\<And>y. r = Inr y \<Longrightarrow> y = x"
  using assms by (fastforce simp: WithinTransaction_def split: option.splits sum.splits prod.splits if_splits)

abbreviation db_core :: "'t exec_db \<Rightarrow> core" where
  "db_core db \<equiv> journal_core (xd_journal db)"

lemma core_closeAuthorization [keeps_core]:
  "closeAuthorizationIfPlanTerminal dp env action db = Inr db' \<Longrightarrow> db_core db' = db_core db"
  by (auto simp: closeAuthorizationIfPlanTerminal_def rbind_eq_Inr_iff split: if_splits)

lemma core_apply_results [keeps_core]: "apply_results dp command db = Inr db' \<Longrightarrow> db_core db' = db_core db"
  by (auto simp: apply_results_def rbind_eq_Inr_iff set_transfer_def)

lemma core_apply_aborted [keeps_core]: "apply_aborted dp action bs db = Inr db' \<Longrightarrow> db_core db' = db_core db"
proof (induction dp action bs db rule: apply_aborted.induct)
  case (2 dp action b bs db)
  then obtain db1 where "apply_results dp (aborted_result action b) db = Inr db1" "apply_aborted dp action bs db1 = Inr db'"
    by (auto simp: rbind_eq_Inr_iff)
  then show ?case using 2(1) core_apply_results by metis
qed simp

lemma core_stop_plan [keeps_core]:
  assumes "stop_plan dp env action db = Inr (db', out)"
  shows "db_core db' = db_core db" and "out = PlanStopped"
  using assms
  by (auto simp: stop_plan_def rbind_eq_Inr_iff set_journal_def
      dest!: core_closeAuthorization core_apply_aborted core_abort)

lemma core_supersede_plan [keeps_core]:
  assumes "supersede_plan dp env action code db = Inr (db', out)"
  shows "db_core db' = db_core db" and "out = PlanSuperseded"
  using assms by (auto simp: supersede_plan_def rbind_eq_Inr_iff dest!: core_supersede)

lemma begin_attempt_effect:
  assumes "begin_attempt dp env action recheckID db = Inr (db', out)"
  shows "(out = AuthorizationExpired \<and> db_core db' = db_core db) \<or>
    (\<exists>attempt new. out = Dispatched attempt \<and> aw_ActionID new = pc_ActionID action \<and> aw_Delivery new = SubmissionNotDispatched \<and>
       db_core db' = (jn_attempts (xd_journal db) @ [new], snd (db_core db)) \<and>
       (\<forall>t \<in> set (jn_attempts (xd_journal db)). aw_ActionID t \<noteq> pc_ActionID action))"
proof (cases "LockValid (dp_authorization dp) (journal_view (dp_results dp) (se_view env) db) (se_now env) (action_check action) (xd_live db)")
  case (Inl e)
  then show ?thesis using assms by (auto simp: begin_attempt_def split: if_splits)
next
  case (Inr ev)
  obtain live evidence where ev: "ev = (live, evidence)" by (cases ev)
  obtain j1 bl j2 attempt t where steps:
    "CaptureBaseline (se_clock env) (pc_TransferID action) (pc_ActionID action) (pa_SellerID action) (xd_journal db) = Inr (j1, bl)"
    "BeginProductAttempt (se_clock env) action evidence bl recheckID j1 = Inr (j2, attempt)"
    "db' = db\<lparr>xd_live := live, xd_journal := j2, xd_transfer := t\<rparr>" "out = Dispatched attempt"
    using assms Inr ev by (auto simp: begin_attempt_def rbind_eq_Inr_iff)
  note core1 = core_CaptureBaseline [OF steps(1)]
  note opens = BeginProductAttempt_effect [OF steps(2)]
  have "db_core db' = (jn_attempts (xd_journal db) @ [new_attempt (se_clock env) action bl recheckID (jn_next j1)], snd (db_core db))"
    using core1 opens steps(3) by (simp add: journal_core_def)
  moreover have "\<forall>t \<in> set (jn_attempts (xd_journal db)). aw_ActionID t \<noteq> pc_ActionID action"
    using core1 opens(4) by (simp add: journal_core_def)
  ultimately show ?thesis
    using steps(4) by (intro disjI2 exI [of _ attempt] exI [of _ "new_attempt (se_clock env) action bl recheckID (jn_next j1)"])
      (simp add: new_attempt_def)
qed

text \<open>A request that is sent is the request of a row of the journal.\<close>

definition backed :: "ident list \<Rightarrow> product_candidate \<Rightarrow> product_action \<Rightarrow> bool" where
  "backed ids c action \<longleftrightarrow>
     (\<exists>plan target dig. (pc_ActionID c, pc_TransferID c, plan, target, pa_Kind action, dig, pa_RequestPayload action) \<in> set ids) \<and>
     product_kind (pa_Kind action)"

lemma LockProductAction_backed:
  assumes "LockProductAction cd live j c = Inr action"
  shows "backed (map action_ident (jn_actions j)) c action"
proof -
  obtain w where w: "w \<in> set (jn_actions j)" "ar_ID w = pc_ActionID c" "ar_TransferID w = pc_TransferID c"
    "pa_Kind action = ar_Kind w" "pa_RequestPayload action = ar_RequestPayload w" "product_kind (ar_Kind w)"
    using LockProductAction_facts [OF assms] by metis
  then have "(pc_ActionID c, pc_TransferID c, ar_PlanID w, ar_TargetID w, pa_Kind action, ar_RequestDigest w, pa_RequestPayload action)
      = action_ident w" by (simp add: action_ident_def)
  then show ?thesis using w unfolding backed_def by (metis image_eqI list.set_map)
qed

lemma dispatch_tx_effect:
  assumes "dispatch_tx dp env c snapshot recheck db = Inr (db', out)"
  shows "((\<forall>attempt. out \<noteq> Dispatched attempt) \<and> db_core db' = db_core db) \<or>
    (\<exists>attempt new. out = Dispatched attempt \<and> aw_ActionID new = pc_ActionID c \<and> aw_Delivery new = SubmissionNotDispatched \<and>
       db_core db' = (jn_attempts (xd_journal db) @ [new], snd (db_core db)) \<and>
       (\<forall>t \<in> set (jn_attempts (xd_journal db)). aw_ActionID t \<noteq> pc_ActionID c) \<and>
       backed (snd (snd (db_core db))) c snapshot)"
proof -
  obtain action j recheckID where lock: "LockProductAction (dp_codec dp) (xd_live db) (xd_journal db) c = Inr action"
    and same: "sameImmutableProductAction snapshot action"
    and obs: "InsertActionObservation (se_clock env) (pc_TransferID action) ''targeted_recheck'' (tr_Observation recheck) (xd_journal db)
                = Inr (j, recheckID)"
    and rest: "(if \<not> tr_Stable recheck then
         (if PlanAttemptCount j (pc_TransferID action) (pa_PlanID action) \<noteq> 0 then stop_plan dp env action (set_journal db j)
          else supersede_plan dp env action (tr_SafeCode recheck) (set_journal db j))
       else begin_attempt dp env action recheckID (set_journal db j)) = Inr (db', out)"
    using assms by (auto simp: dispatch_tx_def rbind_eq_Inr_iff Let_def split: if_splits prod.splits)
  have core: "journal_core j = db_core db" by (rule core_InsertActionObservation [OF obs])
  have set_core: "db_core (set_journal db j) = db_core db" using core by (simp add: set_journal_def)
  have id: "pc_ActionID action = pc_ActionID c" by (rule LockProductAction_facts [OF lock])
  have backed: "backed (snd (snd (db_core db))) c snapshot"
    using LockProductAction_backed [OF lock] same
    by (simp add: backed_def journal_core_def sameImmutableProductAction_def)
  show ?thesis
  proof (cases "tr_Stable recheck")
    case False
    then show ?thesis
      using rest set_core core_stop_plan core_supersede_plan by (metis dispatch_outcome.distinct(1,3))
  next
    case True
    then have "begin_attempt dp env action recheckID (set_journal db j) = Inr (db', out)" using rest by simp
    from begin_attempt_effect [OF this] show ?thesis
    proof
      assume "out = AuthorizationExpired \<and> db_core db' = db_core (set_journal db j)"
      then show ?thesis using set_core by simp
    next
      assume "\<exists>attempt new. out = Dispatched attempt \<and> aw_ActionID new = pc_ActionID action \<and> aw_Delivery new = SubmissionNotDispatched \<and>
        db_core db' = (jn_attempts (xd_journal (set_journal db j)) @ [new], snd (db_core (set_journal db j))) \<and>
        (\<forall>t \<in> set (jn_attempts (xd_journal (set_journal db j))). aw_ActionID t \<noteq> pc_ActionID action)"
      moreover have "jn_attempts (xd_journal (set_journal db j)) = jn_attempts (xd_journal db)"
        using core by (simp add: set_journal_def journal_core_def)
      ultimately show ?thesis using set_core id backed by (intro disjI2) simp
    qed
  qed
qed

lemma record_submission_effect:
  assumes "record_submission_tx dp env c attempt r db = Inr (db', u)"
  shows "\<exists>action now. pc_ActionID action = pc_ActionID c \<and>
    db_core db' = (update_where (open_attempt action (attemptFromAction action)) (finish_attempt now r) (jn_attempts (xd_journal db)),
                   snd (db_core db))"
proof -
  obtain action j where lock: "LockProductAction (dp_codec dp) (xd_live db) (xd_journal db) c = Inr action"
    and rec: "RecordSubmission (se_clock env) action (attemptFromAction action) r (xd_journal db) = Inr j"
    and core: "db_core db' = journal_core j"
    using assms
    by (auto simp: record_submission_tx_def rbind_eq_Inr_iff Let_def set_transfer_def set_journal_def split: if_splits
        dest!: core_closeAuthorization core_apply_results)
  have "pc_ActionID action = pc_ActionID c" by (rule LockProductAction_facts [OF lock])
  moreover have "journal_core j =
      (update_where (open_attempt action (attemptFromAction action)) (finish_attempt (se_clock env) r) (jn_attempts (xd_journal db)),
       snd (db_core db))"
    using RecordSubmission_effect [OF rec] by (simp add: journal_core_def)
  ultimately show ?thesis using core by auto
qed

lemma retry_tx_effect:
  assumes "retry_tx dp env c snapshot targeted db = Inr (db', retry)"
  shows "\<exists>new t. rw_TransferID new = pc_TransferID c \<and> rw_ActionID new = pc_ActionID c \<and>
    db_core db' = (jn_attempts (xd_journal db), jn_retries (xd_journal db) @ [new], snd (snd (db_core db))) \<and>
    (\<forall>r \<in> set (jn_retries (xd_journal db)). \<not> (rw_TransferID r = pc_TransferID c \<and> rw_ActionID r = pc_ActionID c)) \<and>
    t \<in> set (jn_attempts (xd_journal db)) \<and> aw_ActionID t = pc_ActionID c \<and> aw_Delivery t = SubmissionResponseReceived \<and>
    aw_HTTPStatus t = 200 \<and> aw_FinishedAt t \<noteq> None \<and>
    aw_SafeCode t \<in> {''WB_TRANSPORT_EMPTY_RESPONSE'', ''WB_TRANSPORT_INVALID_RESPONSE''} \<and>
    backed (snd (snd (db_core db))) c snapshot"
proof -
  obtain action j1 i j2 j3 where lock: "LockProductAction (dp_codec dp) (xd_live db) (xd_journal db) c = Inr action"
    and same: "sameProductActionProgress snapshot action"
    and steps: "InsertActionObservation (se_clock env) (pc_TransferID action) ''post_submission'' (tr_Observation targeted) (xd_journal db)
                  = Inr (j1, i)"
      "RecordProductReconciliationPoll (se_clock env) action i [] j1 = Inr j2"
      "BeginProductRetry (se_clock env) action j2 = Inr (j3, retry)"
    and db': "db' = set_journal db j3"
    using assms by (auto simp: retry_tx_def rbind_eq_Inr_iff split: if_splits prod.splits)
  have ids: "pc_ActionID action = pc_ActionID c" "pc_TransferID action = pc_TransferID c"
    by (rule LockProductAction_facts [OF lock], assumption)+
  have core: "journal_core j2 = db_core db"
    using core_InsertActionObservation [OF steps(1)] core_poll [OF steps(2)] by simp
  note opens = BeginProductRetry_effect [OF steps(3)]
  obtain w where w: "ar_TransferID w = pc_TransferID c" "ar_ID w = pc_ActionID c"
    "jn_retries j3 = jn_retries j2 @ [new_retry (se_clock env) w (pc_AuthorizationID action) (jn_next j2)]"
    using opens(2) ids by auto
  obtain t where t: "t \<in> set (jn_attempts j2)" "retryable_attempt (se_clock env) action t" using opens(4) by blast
  have backed: "backed (snd (snd (db_core db))) c snapshot"
    using LockProductAction_backed [OF lock] same
    by (simp add: backed_def journal_core_def sameProductActionProgress_def sameImmutableProductAction_def)
  have fresh: "\<forall>r \<in> set (jn_retries j2). \<not> (rw_TransferID r = pc_TransferID c \<and> rw_ActionID r = pc_ActionID c)"
    using opens(5) ids by (simp add: action_retry_def find_None)
  show ?thesis
  proof (intro exI conjI)
    show "rw_TransferID (new_retry (se_clock env) w (pc_AuthorizationID action) (jn_next j2)) = pc_TransferID c"
      "rw_ActionID (new_retry (se_clock env) w (pc_AuthorizationID action) (jn_next j2)) = pc_ActionID c"
      using w by (simp_all add: new_retry_def)
    show "db_core db' = (jn_attempts (xd_journal db), jn_retries (xd_journal db) @
        [new_retry (se_clock env) w (pc_AuthorizationID action) (jn_next j2)], snd (snd (db_core db)))"
      using core opens(1,3) w(3) db' by (simp add: journal_core_def set_journal_def)
    show "\<forall>r \<in> set (jn_retries (xd_journal db)). \<not> (rw_TransferID r = pc_TransferID c \<and> rw_ActionID r = pc_ActionID c)"
      using fresh core by (simp add: journal_core_def)
    show "t \<in> set (jn_attempts (xd_journal db))" using t core by (simp add: journal_core_def)
    show "backed (snd (snd (db_core db))) c snapshot" by (rule backed)
  qed (use t ids in \<open>auto simp: retryable_attempt_def split: option.splits\<close>)
qed

lemma record_retry_effect:
  assumes "record_retry_tx dp env c retry r db = Inr (db', u)"
  shows "\<exists>p now. db_core db' =
    (jn_attempts (xd_journal db), update_where p (finish_retry now r) (jn_retries (xd_journal db)), snd (snd (db_core db)))"
proof -
  obtain action j where rec: "RecordProductRetry (se_clock env) action (pa_EmptyResponseRetry action) r (xd_journal db) = Inr j"
    and db': "db' = set_journal db j"
    using assms by (auto simp: record_retry_tx_def rbind_eq_Inr_iff split: if_splits)
  show ?thesis
    using RecordProductRetry_effect [OF rec] db' unfolding journal_core_def set_journal_def by auto
qed

lemma core_poll_tx [keeps_core]:
  "poll_tx dp env c action targeted rs db = Inr (db', u) \<Longrightarrow> db_core db' = db_core db"
  by (auto simp: poll_tx_def rbind_eq_Inr_iff set_journal_def split: if_splits
      dest!: core_poll core_InsertActionObservation)

lemma core_finish_tx [keeps_core]:
  "finish_tx dp env c action targeted rs cls code db = Inr (db', u) \<Longrightarrow> db_core db' = db_core db"
  by (auto simp: finish_tx_def rbind_eq_Inr_iff set_journal_def split: if_splits
      dest!: core_closeAuthorization core_apply_results core_finish core_InsertActionObservation)

section \<open>Dispatchers and the rest of the system\<close>

text \<open>A goroutine that may call the API holds a ticket: the attempt or the retry its transaction opened. Once it has
  called, it owes the journal the result.\<close>

datatype ticket = AttemptTicket product_attempt | RetryTicket product_retry

record sending =
  sd_candidate :: product_candidate
  sd_action :: product_action
  sd_ticket :: ticket

record 't exec_system =
  sy_db :: "'t exec_db"
  sy_armed :: "sending list"
  sy_reports :: "(sending \<times> submission_result) list"
  sy_trace :: "(sending \<times> upload_call \<times> submission_result) list"

definition attempts_of :: "attempt_rec list \<Rightarrow> int \<Rightarrow> attempt_rec list" where
  "attempts_of ats actionID = filter (\<lambda>t. aw_ActionID t = actionID) ats"

text \<open>What planning, media, manual resolution and authorization may do meanwhile: anything to the tables of their
  own; they open no attempt or retry of a product action, and the schema's triggers keep rows and identities.\<close>

definition other_components :: "'t exec_db \<Rightarrow> 't exec_db \<Rightarrow> bool" where
  "other_components db db' \<longleftrightarrow>
     (let j = xd_journal db; j' = xd_journal db' in
      jn_retries j' = jn_retries j \<and> set (map action_ident (jn_actions j)) \<subseteq> set (map action_ident (jn_actions j')) \<and>
      distinct (map ar_ID (jn_actions j')) \<and>
      (\<forall>w \<in> set (jn_actions j'). product_kind (ar_Kind w) \<longrightarrow>
         attempts_of (jn_attempts j') (ar_ID w) = attempts_of (jn_attempts j) (ar_ID w) \<and>
         (attempts_of (jn_attempts j) (ar_ID w) = [] \<or> action_ident w \<in> set (map action_ident (jn_actions j)))))"

definition opened :: "dispatch_outcome result \<Rightarrow> product_attempt option" where
  "opened r = (case r of Inr (Dispatched attempt) \<Rightarrow> if 0 < pat_ID attempt then Some attempt else None | _ \<Rightarrow> None)"

inductive dispatcher_step :: "'t dispatcher \<Rightarrow> 't exec_system \<Rightarrow> 't exec_system \<Rightarrow> bool" for dp where
  open_attempt:
    "BuildTargetedRecheck (dp_codec dp) snapshot ob = Inr recheck \<Longrightarrow>
     WithinTransaction (se_tx env) (dispatch_tx dp env c snapshot recheck) (sy_db s) = (db', r) \<Longrightarrow>
     opened r = Some attempt \<Longrightarrow>
     dispatcher_step dp s (s\<lparr>sy_db := db',
       sy_armed := \<lparr>sd_candidate = c, sd_action = snapshot, sd_ticket = AttemptTicket attempt\<rparr> # sy_armed s\<rparr>)"
| no_attempt:
    "WithinTransaction (se_tx env) (dispatch_tx dp env c snapshot recheck) (sy_db s) = (db', r) \<Longrightarrow>
     opened r = None \<Longrightarrow> dispatcher_step dp s (s\<lparr>sy_db := db'\<rparr>)"
| open_retry:
    "BuildTargetedRecheck (dp_codec dp) snapshot ob = Inr targeted \<Longrightarrow>
     WithinTransaction (se_tx env) (retry_tx dp env c snapshot targeted) (sy_db s) = (db', Inr retry) \<Longrightarrow>
     dispatcher_step dp s (s\<lparr>sy_db := db',
       sy_armed := \<lparr>sd_candidate = c, sd_action = snapshot, sd_ticket = RetryTicket retry\<rparr> # sy_armed s\<rparr>)"
| no_retry:
    "WithinTransaction (se_tx env) (retry_tx dp env c snapshot targeted) (sy_db s) = (db', Inl e) \<Longrightarrow>
     dispatcher_step dp s (s\<lparr>sy_db := db'\<rparr>)"
| send:
    "x \<in> set (sy_armed s) \<Longrightarrow> executeProductMutation (dp_codec dp) transport (sd_action x) = (r, calls) \<Longrightarrow>
     dispatcher_step dp s (s\<lparr>sy_armed := remove1 x (sy_armed s), sy_reports := (x, r) # sy_reports s,
       sy_trace := sy_trace s @ map (\<lambda>call. (x, call, r)) calls\<rparr>)"
| report_submission:
    "(x, r) \<in> set (sy_reports s) \<Longrightarrow> sd_ticket x = AttemptTicket attempt \<Longrightarrow>
     recordSubmission dp env (sd_candidate x) attempt r (sy_db s) = (db', res) \<Longrightarrow>
     dispatcher_step dp s (s\<lparr>sy_db := db', sy_reports := remove1 (x, r) (sy_reports s)\<rparr>)"
| report_retry:
    "(x, r) \<in> set (sy_reports s) \<Longrightarrow> sd_ticket x = RetryTicket retry \<Longrightarrow>
     recordProductRetry dp env (sd_candidate x) retry r (sy_db s) = (db', res) \<Longrightarrow>
     dispatcher_step dp s (s\<lparr>sy_db := db', sy_reports := remove1 (x, r) (sy_reports s)\<rparr>)"
| crash_before_call: "dispatcher_step dp s (s\<lparr>sy_armed := remove1 x (sy_armed s)\<rparr>)"
| crash_after_call: "dispatcher_step dp s (s\<lparr>sy_reports := remove1 (x, r) (sy_reports s)\<rparr>)"
| interrupted:
    "recordSubmission dp env c (attemptFromAction action) (interrupted_result action) (sy_db s) = (db', res) \<Longrightarrow>
     dispatcher_step dp s (s\<lparr>sy_db := db'\<rparr>)"
| interrupted_retry:
    "recordProductRetry dp env c (pa_EmptyResponseRetry action) (interrupted_retry_result action) (sy_db s) = (db', res) \<Longrightarrow>
     dispatcher_step dp s (s\<lparr>sy_db := db'\<rparr>)"
| poll:
    "recordIncompleteReconciliation dp env c action targeted results (sy_db s) = (db', res) \<Longrightarrow>
     dispatcher_step dp s (s\<lparr>sy_db := db'\<rparr>)"
| finish:
    "WithinTransaction (se_tx env) (finish_tx dp env c action targeted results cls code) (sy_db s) = (db', res) \<Longrightarrow>
     dispatcher_step dp s (s\<lparr>sy_db := db'\<rparr>)"
| others: "other_components (sy_db s) db' \<Longrightarrow> dispatcher_step dp s (s\<lparr>sy_db := db'\<rparr>)"

definition system_start :: "'t exec_system \<Rightarrow> bool" where
  "system_start s \<longleftrightarrow>
     jn_attempts (xd_journal (sy_db s)) = [] \<and> jn_retries (xd_journal (sy_db s)) = [] \<and>
     distinct (map ar_ID (jn_actions (xd_journal (sy_db s)))) \<and>
     sy_armed s = [] \<and> sy_reports s = [] \<and> sy_trace s = []"

inductive product_reachable :: "'t dispatcher \<Rightarrow> 't exec_system \<Rightarrow> bool" for dp where
  start: "system_start s \<Longrightarrow> product_reachable dp s"
| step: "product_reachable dp s \<Longrightarrow> dispatcher_step dp s s' \<Longrightarrow> product_reachable dp s'"

section \<open>The invariant of the trace\<close>

definition first_of :: "int \<Rightarrow> sending \<Rightarrow> bool" where
  "first_of actionID x \<longleftrightarrow> (\<exists>attempt. sd_ticket x = AttemptTicket attempt) \<and> pc_ActionID (sd_candidate x) = actionID"

definition retry_of :: "int \<Rightarrow> int \<Rightarrow> sending \<Rightarrow> bool" where
  "retry_of transferID actionID x \<longleftrightarrow>
     (\<exists>retry. sd_ticket x = RetryTicket retry) \<and> pc_TransferID (sd_candidate x) = transferID \<and>
     pc_ActionID (sd_candidate x) = actionID"

definition tokens :: "(sending \<Rightarrow> bool) \<Rightarrow> sending list \<Rightarrow> (sending \<times> upload_call \<times> submission_result) list \<Rightarrow> nat" where
  "tokens p armed trace = length (filter p armed) + length (filter (\<lambda>e. p (fst e)) trace)"

definition product_id :: "ident list \<Rightarrow> int \<Rightarrow> bool" where
  "product_id ids actionID \<longleftrightarrow>
     (\<exists>transferID plan target kind dig payload. (actionID, transferID, plan, target, kind, dig, payload) \<in> set ids \<and> product_kind kind)"

definition unreadable :: "attempt_rec \<Rightarrow> bool" where
  "unreadable t \<longleftrightarrow>
     aw_Delivery t = SubmissionResponseReceived \<and> aw_HTTPStatus t = 200 \<and> aw_FinishedAt t \<noteq> None \<and>
     aw_SafeCode t \<in> {''WB_TRANSPORT_EMPTY_RESPONSE'', ''WB_TRANSPORT_INVALID_RESPONSE''}"

text \<open>The answer to the first call was received, with status 200, and could not be read.\<close>

definition unreadable_answer :: "submission_result \<Rightarrow> bool" where
  "unreadable_answer r \<longleftrightarrow>
     sr_Delivery r = SubmissionResponseReceived \<and> sr_HTTPStatus r = 200 \<and>
     sr_SafeCode r \<in> {''WB_TRANSPORT_EMPTY_RESPONSE'', ''WB_TRANSPORT_INVALID_RESPONSE''}"

definition first_answered :: "(sending \<times> upload_call \<times> submission_result) list \<Rightarrow> int \<Rightarrow> (submission_result \<Rightarrow> bool) \<Rightarrow> bool" where
  "first_answered trace actionID p \<longleftrightarrow> (\<exists>x call r. (x, call, r) \<in> set trace \<and> first_of actionID x \<and> p r)"

record sends =
  ss_core :: "core"
  ss_armed :: "sending list"
  ss_reports :: "(sending \<times> submission_result) list"
  ss_trace :: "(sending \<times> upload_call \<times> submission_result) list"

definition sends_of :: "'t exec_system \<Rightarrow> sends" where
  "sends_of s = \<lparr>ss_core = db_core (sy_db s), ss_armed = sy_armed s, ss_reports = sy_reports s, ss_trace = sy_trace s\<rparr>"

definition ids_unique :: "sends \<Rightarrow> bool" where
  "ids_unique v \<longleftrightarrow> distinct (map fst (snd (snd (ss_core v))))"

definition tokens_backed :: "sends \<Rightarrow> bool" where
  "tokens_backed v \<longleftrightarrow>
     (\<forall>x \<in> set (ss_armed v) \<union> fst ` set (ss_trace v). backed (snd (snd (ss_core v))) (sd_candidate x) (sd_action x))"

definition attempts_bound :: "sends \<Rightarrow> bool" where
  "attempts_bound v \<longleftrightarrow>
     (\<forall>a. product_id (snd (snd (ss_core v))) a \<longrightarrow>
        tokens (first_of a) (ss_armed v) (ss_trace v) \<le> length (attempts_of (fst (ss_core v)) a) \<and>
        length (attempts_of (fst (ss_core v)) a) \<le> 1)"

definition retries_at :: "retry_rec list \<Rightarrow> int \<Rightarrow> int \<Rightarrow> retry_rec list" where
  "retries_at rs t a = filter (\<lambda>r. rw_TransferID r = t \<and> rw_ActionID r = a) rs"

definition retries_bound :: "sends \<Rightarrow> bool" where
  "retries_bound v \<longleftrightarrow>
     (\<forall>t a. tokens (retry_of t a) (ss_armed v) (ss_trace v) \<le> length (retries_at (fst (snd (ss_core v))) t a) \<and>
            length (retries_at (fst (snd (ss_core v))) t a) \<le> 1)"

definition answers_traced :: "sends \<Rightarrow> bool" where
  "answers_traced v \<longleftrightarrow>
     (\<forall>(x, r) \<in> set (ss_reports v). sr_Delivery r = SubmissionResponseReceived \<longrightarrow> (\<exists>call. (x, call, r) \<in> set (ss_trace v))) \<and>
     (\<forall>t \<in> set (fst (ss_core v)). product_id (snd (snd (ss_core v))) (aw_ActionID t) \<longrightarrow> unreadable t \<longrightarrow>
        first_answered (ss_trace v) (aw_ActionID t) unreadable_answer)"

definition retries_justified :: "sends \<Rightarrow> bool" where
  "retries_justified v \<longleftrightarrow>
     (\<forall>r \<in> set (fst (snd (ss_core v))). product_id (snd (snd (ss_core v))) (rw_ActionID r) \<and>
        (\<exists>t \<in> set (fst (ss_core v)). aw_ActionID t = rw_ActionID r \<and> unreadable t))"

definition trace_ordered :: "sends \<Rightarrow> bool" where
  "trace_ordered v \<longleftrightarrow>
     (\<forall>before x call r after. ss_trace v = before @ (x, call, r) # after \<longrightarrow>
        (\<exists>retry. sd_ticket x = RetryTicket retry) \<longrightarrow>
        first_answered before (pc_ActionID (sd_candidate x)) unreadable_answer)"

definition sends_inv :: "sends \<Rightarrow> bool" where
  "sends_inv v \<longleftrightarrow> ids_unique v \<and> tokens_backed v \<and> attempts_bound v \<and> retries_bound v \<and> answers_traced v \<and>
     retries_justified v \<and> trace_ordered v"

lemma tokens_remove1 [simp]: "tokens p (remove1 x armed) trace \<le> tokens p armed trace"
proof -
  have "length (filter p (remove1 x armed)) \<le> length (filter p armed)"
    by (induction armed) auto
  then show ?thesis by (simp add: tokens_def)
qed

lemma length_filter_remove1:
  "x \<in> set xs \<Longrightarrow> length (filter p (remove1 x xs)) + (if p x then 1 else 0) = length (filter p xs)"
  by (induction xs) auto

lemma tokens_pos: "x \<in> set armed \<Longrightarrow> p x \<Longrightarrow> 0 < tokens p armed trace"
  by (auto simp: tokens_def filter_empty_conv)

lemma inv_drop:
  assumes "sends_inv v" and "ss_core w = ss_core v" and "ss_trace w = ss_trace v"
    and "ss_armed w = remove1 x (ss_armed v) \<or> ss_armed w = ss_armed v" and "set (ss_reports w) \<subseteq> set (ss_reports v)"
  shows "sends_inv w"
proof -
  have tok: "tokens p (ss_armed w) (ss_trace w) \<le> tokens p (ss_armed v) (ss_trace v)" for p
    using assms(3,4) by auto
  have armed: "set (ss_armed w) \<subseteq> set (ss_armed v)"
    using assms(4) set_remove1_subset [of x "ss_armed v"] by auto
  show ?thesis
    unfolding sends_inv_def
  proof (intro conjI)
    show "ids_unique w" "retries_justified w" "trace_ordered w"
      using assms(1-3) by (simp_all add: sends_inv_def ids_unique_def retries_justified_def trace_ordered_def)
    show "tokens_backed w" using assms(1-3) armed unfolding sends_inv_def tokens_backed_def by auto
    show "attempts_bound w" using assms(1,2) tok order.trans unfolding sends_inv_def attempts_bound_def by fastforce
    show "retries_bound w" using assms(1,2) tok order.trans unfolding sends_inv_def retries_bound_def by fastforce
    show "answers_traced w" using assms(1-3,5) unfolding sends_inv_def answers_traced_def by fastforce
  qed
qed

lemma backed_product_id: "backed ids c action \<Longrightarrow> product_id ids (pc_ActionID c)"
  unfolding backed_def product_id_def by blast

lemma inv_open_attempt:
  assumes inv: "sends_inv v" and core: "ss_core w = (fst (ss_core v) @ [new], snd (ss_core v))"
    and new: "aw_ActionID new = pc_ActionID c" "aw_Delivery new = SubmissionNotDispatched"
    and fresh: "\<forall>t \<in> set (fst (ss_core v)). aw_ActionID t \<noteq> pc_ActionID c"
    and backed: "backed (snd (snd (ss_core v))) c snapshot"
    and armed: "ss_armed w = \<lparr>sd_candidate = c, sd_action = snapshot, sd_ticket = AttemptTicket attempt\<rparr> # ss_armed v \<or>
                ss_armed w = ss_armed v"
    and same: "ss_reports w = ss_reports v" "ss_trace w = ss_trace v"
  shows "sends_inv w"
proof -
  have ids: "snd (snd (ss_core w)) = snd (snd (ss_core v))" "fst (snd (ss_core w)) = fst (snd (ss_core v))" using core by simp_all
  have at_w: "attempts_of (fst (ss_core w)) a = attempts_of (fst (ss_core v)) a @ (if a = pc_ActionID c then [new] else [])" for a
    using core new by (simp add: attempts_of_def)
  have none: "attempts_of (fst (ss_core v)) (pc_ActionID c) = []" using fresh by (simp add: attempts_of_def filter_empty_conv)
  have first: "tokens (first_of a) (ss_armed w) (ss_trace w)
      \<le> tokens (first_of a) (ss_armed v) (ss_trace v) + (if a = pc_ActionID c then 1 else 0)" for a
    using armed same by (auto simp: tokens_def first_of_def)
  have retry: "tokens (retry_of t a) (ss_armed w) (ss_trace w) = tokens (retry_of t a) (ss_armed v) (ss_trace v)" for t a
    using armed same by (auto simp: tokens_def retry_of_def)
  show ?thesis
    unfolding sends_inv_def
  proof (intro conjI)
    show "ids_unique w" "trace_ordered w" using inv ids same by (simp_all add: sends_inv_def ids_unique_def trace_ordered_def)
    show "tokens_backed w" using inv ids same armed backed unfolding sends_inv_def tokens_backed_def by auto
    show "retries_bound w" using inv ids retry unfolding sends_inv_def retries_bound_def by simp
    show "retries_justified w" using inv core unfolding sends_inv_def retries_justified_def by auto
    show "answers_traced w"
      using inv core same new unfolding sends_inv_def answers_traced_def
      by (auto simp: unreadable_def delivery_defs)
    show "attempts_bound w"
      unfolding attempts_bound_def ids
    proof (intro allI impI)
      fix a assume "product_id (snd (snd (ss_core v))) a"
      then have old: "tokens (first_of a) (ss_armed v) (ss_trace v) \<le> length (attempts_of (fst (ss_core v)) a)"
        "length (attempts_of (fst (ss_core v)) a) \<le> 1"
        using inv by (simp_all add: sends_inv_def attempts_bound_def)
      show "tokens (first_of a) (ss_armed w) (ss_trace w) \<le> length (attempts_of (fst (ss_core w)) a) \<and>
          length (attempts_of (fst (ss_core w)) a) \<le> 1"
        using old first [of a] none at_w [of a] by (cases "a = pc_ActionID c") auto
    qed
  qed
qed

lemma inv_open_retry:
  assumes inv: "sends_inv v"
    and core: "ss_core w = (fst (ss_core v), fst (snd (ss_core v)) @ [new], snd (snd (ss_core v)))"
    and new: "rw_TransferID new = pc_TransferID c" "rw_ActionID new = pc_ActionID c"
    and fresh: "\<forall>r \<in> set (fst (snd (ss_core v))). \<not> (rw_TransferID r = pc_TransferID c \<and> rw_ActionID r = pc_ActionID c)"
    and attempt: "t \<in> set (fst (ss_core v))" "aw_ActionID t = pc_ActionID c" "unreadable t"
    and backed: "backed (snd (snd (ss_core v))) c snapshot"
    and armed: "ss_armed w = \<lparr>sd_candidate = c, sd_action = snapshot, sd_ticket = RetryTicket retry\<rparr> # ss_armed v \<or>
                ss_armed w = ss_armed v"
    and same: "ss_reports w = ss_reports v" "ss_trace w = ss_trace v"
  shows "sends_inv w"
proof -
  have ids: "snd (snd (ss_core w)) = snd (snd (ss_core v))" "fst (ss_core w) = fst (ss_core v)" using core by simp_all
  have rt_w: "retries_at (fst (snd (ss_core w))) t a =
      retries_at (fst (snd (ss_core v))) t a @ (if t = pc_TransferID c \<and> a = pc_ActionID c then [new] else [])" for t a
    using core new by (simp add: retries_at_def)
  have none: "retries_at (fst (snd (ss_core v))) (pc_TransferID c) (pc_ActionID c) = []"
    using fresh by (simp add: retries_at_def filter_empty_conv)
  have retry: "tokens (retry_of t a) (ss_armed w) (ss_trace w)
      \<le> tokens (retry_of t a) (ss_armed v) (ss_trace v) + (if t = pc_TransferID c \<and> a = pc_ActionID c then 1 else 0)" for t a
    using armed same by (auto simp: tokens_def retry_of_def)
  have first: "tokens (first_of a) (ss_armed w) (ss_trace w) = tokens (first_of a) (ss_armed v) (ss_trace v)" for a
    using armed same by (auto simp: tokens_def first_of_def)
  show ?thesis
    unfolding sends_inv_def
  proof (intro conjI)
    show "ids_unique w" "trace_ordered w" using inv ids same by (simp_all add: sends_inv_def ids_unique_def trace_ordered_def)
    show "tokens_backed w" using inv ids same armed backed unfolding sends_inv_def tokens_backed_def by auto
    show "attempts_bound w" using inv ids first unfolding sends_inv_def attempts_bound_def by simp
    show "answers_traced w" using inv ids same unfolding sends_inv_def answers_traced_def by simp
    show "retries_justified w"
      using inv core new attempt backed_product_id [OF backed] unfolding sends_inv_def retries_justified_def by auto
    show "retries_bound w"
      unfolding retries_bound_def
    proof (intro allI)
      fix t a
      have old: "tokens (retry_of t a) (ss_armed v) (ss_trace v) \<le> length (retries_at (fst (snd (ss_core v))) t a)"
        "length (retries_at (fst (snd (ss_core v))) t a) \<le> 1"
        using inv by (simp_all add: sends_inv_def retries_bound_def)
      show "tokens (retry_of t a) (ss_armed w) (ss_trace w) \<le> length (retries_at (fst (snd (ss_core w))) t a) \<and>
          length (retries_at (fst (snd (ss_core w))) t a) \<le> 1"
        using old retry [of t a] none rt_w [of t a] by (cases "t = pc_TransferID c \<and> a = pc_ActionID c") auto
    qed
  qed
qed


text \<open>A call consumes its ticket.\<close>

lemma executeProductMutation_calls:
  assumes "executeProductMutation cd transport action = (r, calls)"
  shows "length calls \<le> 1" and "sr_Delivery r = SubmissionResponseReceived \<Longrightarrow> calls \<noteq> []"
  using assms
  by (auto simp: executeProductMutation_def Let_def classifySubmissionError_def internalNotDispatched_def delivery_defs
      split: if_splits option.splits)

lemma first_answered_mono: "set tr \<subseteq> set tr' \<Longrightarrow> first_answered tr a p \<Longrightarrow> first_answered tr' a p"
  unfolding first_answered_def by blast

lemma trace_ordered_append:
  assumes "trace_ordered v" and "ss_trace w = ss_trace v @ map (\<lambda>call. (x, call, r)) calls"
    and "(\<exists>retry. sd_ticket x = RetryTicket retry) \<Longrightarrow> first_answered (ss_trace v) (pc_ActionID (sd_candidate x)) unreadable_answer"
  shows "trace_ordered w"
  unfolding trace_ordered_def
proof (intro allI impI)
  fix before y call r' after
  assume split: "ss_trace w = before @ (y, call, r') # after" and retry: "\<exists>retry. sd_ticket y = RetryTicket retry"
  obtain us where "(ss_trace v = before @ us \<and> us @ map (\<lambda>call. (x, call, r)) calls = (y, call, r') # after) \<or>
      (ss_trace v @ us = before \<and> map (\<lambda>call. (x, call, r)) calls = us @ (y, call, r') # after)"
    using split assms(2) by (auto simp: append_eq_append_conv2)
  then show "first_answered before (pc_ActionID (sd_candidate y)) unreadable_answer"
  proof
    assume old: "ss_trace v = before @ us \<and> us @ map (\<lambda>call. (x, call, r)) calls = (y, call, r') # after"
    show ?thesis
    proof (cases us)
      case Nil
      then have "(y, call, r') \<in> set (map (\<lambda>call. (x, call, r)) calls)" using old by simp
      then have "y = x" by auto
      then show ?thesis using assms(3) retry old Nil by simp
    next
      case (Cons u us')
      then have "ss_trace v = before @ (y, call, r') # us'" using old by simp
      then show ?thesis using assms(1) retry unfolding trace_ordered_def by blast
    qed
  next
    assume new: "ss_trace v @ us = before \<and> map (\<lambda>call. (x, call, r)) calls = us @ (y, call, r') # after"
    then have "(y, call, r') \<in> set (map (\<lambda>call. (x, call, r)) calls)" by simp
    then have "y = x" by auto
    moreover have "set (ss_trace v) \<subseteq> set before" using new by auto
    ultimately show ?thesis using assms(3) retry first_answered_mono by metis
  qed
qed

lemma retry_token_justified:
  assumes inv: "sends_inv v" and x: "x \<in> set (ss_armed v)" and ticket: "sd_ticket x = RetryTicket retry"
  shows "first_answered (ss_trace v) (pc_ActionID (sd_candidate x)) unreadable_answer"
proof -
  define t a where "t = pc_TransferID (sd_candidate x)" and "a = pc_ActionID (sd_candidate x)"
  have "0 < tokens (retry_of t a) (ss_armed v) (ss_trace v)"
    by (rule tokens_pos [OF x]) (use ticket in \<open>simp add: retry_of_def t_def a_def\<close>)
  moreover have "tokens (retry_of t a) (ss_armed v) (ss_trace v) \<le> length (retries_at (fst (snd (ss_core v))) t a)"
    using inv unfolding sends_inv_def retries_bound_def by blast
  ultimately have "retries_at (fst (snd (ss_core v))) t a \<noteq> []" by auto
  then obtain rr where rr: "rr \<in> set (fst (snd (ss_core v)))" "rw_ActionID rr = a"
    by (auto simp: retries_at_def filter_empty_conv)
  then obtain at' where "product_id (snd (snd (ss_core v))) a" "at' \<in> set (fst (ss_core v))" "aw_ActionID at' = a" "unreadable at'"
    using inv unfolding sends_inv_def retries_justified_def by metis
  moreover have "\<forall>t \<in> set (fst (ss_core v)). product_id (snd (snd (ss_core v))) (aw_ActionID t) \<longrightarrow> unreadable t \<longrightarrow>
      first_answered (ss_trace v) (aw_ActionID t) unreadable_answer"
    using inv unfolding sends_inv_def answers_traced_def by blast
  ultimately show ?thesis unfolding a_def by metis
qed

lemma inv_send:
  assumes inv: "sends_inv v" and x: "x \<in> set (ss_armed v)" and one: "length calls \<le> 1"
    and received: "sr_Delivery r = SubmissionResponseReceived \<Longrightarrow> calls \<noteq> []"
    and w: "ss_core w = ss_core v" "ss_armed w = remove1 x (ss_armed v)" "ss_reports w = (x, r) # ss_reports v"
      "ss_trace w = ss_trace v @ map (\<lambda>call. (x, call, r)) calls"
  shows "sends_inv w"
proof -
  have tok: "tokens p (ss_armed w) (ss_trace w) \<le> tokens p (ss_armed v) (ss_trace v)" for p
  proof -
    have "length (filter (\<lambda>e. p (fst e)) (map (\<lambda>call. (x, call, r)) calls)) \<le> (if p x then 1 else 0)"
      using one by (cases calls) auto
    then show ?thesis using length_filter_remove1 [OF x, of p] w by (simp add: tokens_def)
  qed
  have sub: "set (ss_trace v) \<subseteq> set (ss_trace w)" using w by auto
  show ?thesis
    unfolding sends_inv_def
  proof (intro conjI)
    show "ids_unique w" "retries_justified w"
      using inv w by (simp_all add: sends_inv_def ids_unique_def retries_justified_def)
    show "tokens_backed w"
    proof -
      have "set (ss_armed w) \<union> fst ` set (ss_trace w) \<subseteq> set (ss_armed v) \<union> fst ` set (ss_trace v)"
        using w x set_remove1_subset [of x "ss_armed v"] by auto
      then show ?thesis using inv w(1) unfolding sends_inv_def tokens_backed_def by auto
    qed
    show "attempts_bound w" using inv w(1) tok order.trans unfolding sends_inv_def attempts_bound_def by fastforce
    show "retries_bound w" using inv w(1) tok order.trans unfolding sends_inv_def retries_bound_def by fastforce
    show "trace_ordered w"
      by (rule trace_ordered_append [of v w x r calls])
        (use inv w retry_token_justified [OF inv x] in \<open>auto simp: sends_inv_def\<close>)
    show "answers_traced w"
      unfolding answers_traced_def
    proof (intro conjI ballI impI)
      fix y assume y: "y \<in> set (ss_reports w)"
      show "case y of (x, r) \<Rightarrow> sr_Delivery r = SubmissionResponseReceived \<longrightarrow> (\<exists>call. (x, call, r) \<in> set (ss_trace w))"
      proof (cases "y = (x, r)")
        case True
        then show ?thesis using received w(4) by (cases calls) auto
      next
        case False
        then have "y \<in> set (ss_reports v)" using y w(3) by simp
        then show ?thesis using inv sub unfolding sends_inv_def answers_traced_def by fastforce
      qed
    next
      fix t assume "t \<in> set (fst (ss_core w))" "product_id (snd (snd (ss_core w))) (aw_ActionID t)" "unreadable t"
      then have "first_answered (ss_trace v) (aw_ActionID t) unreadable_answer"
        using inv w(1) unfolding sends_inv_def answers_traced_def by auto
      then show "first_answered (ss_trace w) (aw_ActionID t) unreadable_answer" by (rule first_answered_mono [OF sub])
    qed
  qed
qed


text \<open>Results are written to open attempts and retries only.\<close>

lemma in_update_where:
  "t \<in> set (update_where p f ts) \<Longrightarrow> (t \<in> set ts \<and> \<not> p t) \<or> (\<exists>t0 \<in> set ts. p t0 \<and> t = f t0)"
  by (auto simp: update_where_def split: if_splits)

lemma length_filter_update_where:
  assumes "\<And>t. q (f t) = q t"
  shows "length (filter q (update_where p f ts)) = length (filter q ts)"
  using assms by (induction ts) (auto simp: update_where_def)

lemma inv_finish_attempt:
  assumes inv: "sends_inv v"
    and core: "ss_core w = (update_where p (finish_attempt now r) (fst (ss_core v)), snd (ss_core v))"
    and p: "\<And>t. p t \<Longrightarrow> aw_FinishedAt t = None \<and> aw_ActionID t = a"
    and answered: "unreadable_answer r \<Longrightarrow> first_answered (ss_trace v) a unreadable_answer"
    and same: "ss_armed w = ss_armed v" "set (ss_reports w) \<subseteq> set (ss_reports v)" "ss_trace w = ss_trace v"
  shows "sends_inv w"
proof -
  have ids: "snd (snd (ss_core w)) = snd (snd (ss_core v))" "fst (snd (ss_core w)) = fst (snd (ss_core v))" using core by simp_all
  have len: "length (attempts_of (fst (ss_core w)) b) = length (attempts_of (fst (ss_core v)) b)" for b
    using core by (simp add: attempts_of_def length_filter_update_where finish_attempt_def)
  have kept: "t \<in> set (fst (ss_core w))" if "t \<in> set (fst (ss_core v))" "unreadable t" for t
    using that p [of t] core by (force simp: update_where_def unreadable_def image_iff)
  show ?thesis
    unfolding sends_inv_def
  proof (intro conjI)
    show "ids_unique w" "trace_ordered w" using inv ids same by (simp_all add: sends_inv_def ids_unique_def trace_ordered_def)
    show "tokens_backed w" using inv ids same unfolding sends_inv_def tokens_backed_def by simp
    show "attempts_bound w" using inv ids len same unfolding sends_inv_def attempts_bound_def by simp
    show "retries_bound w" using inv ids same unfolding sends_inv_def retries_bound_def by simp
    show "retries_justified w" using inv ids kept unfolding sends_inv_def retries_justified_def by metis
    show "answers_traced w"
      unfolding answers_traced_def
    proof (intro conjI ballI impI)
      fix y assume "y \<in> set (ss_reports w)"
      then show "case y of (x, r) \<Rightarrow> sr_Delivery r = SubmissionResponseReceived \<longrightarrow> (\<exists>call. (x, call, r) \<in> set (ss_trace w))"
        using inv same unfolding sends_inv_def answers_traced_def by auto
    next
      fix t assume t: "t \<in> set (fst (ss_core w))" "product_id (snd (snd (ss_core w))) (aw_ActionID t)" "unreadable t"
      have "t \<in> set (update_where p (finish_attempt now r) (fst (ss_core v)))" using t(1) core by simp
      from in_update_where [OF this] show "first_answered (ss_trace w) (aw_ActionID t) unreadable_answer"
      proof
        assume "t \<in> set (fst (ss_core v)) \<and> \<not> p t"
        then show ?thesis using inv t ids same unfolding sends_inv_def answers_traced_def by simp
      next
        assume "\<exists>t0 \<in> set (fst (ss_core v)). p t0 \<and> t = finish_attempt now r t0"
        then obtain t0 where t0: "p t0" "t = finish_attempt now r t0" by blast
        then have "unreadable_answer r"
          using t(3) by (auto simp: unreadable_def unreadable_answer_def finish_attempt_def optional_status_def split: if_splits)
        then show ?thesis using answered t0 p [OF t0(1)] same(3) by (simp add: finish_attempt_def)
      qed
    qed
  qed
qed

lemma inv_finish_retry:
  assumes inv: "sends_inv v"
    and core: "ss_core w = (fst (ss_core v), update_where p (finish_retry now r) (fst (snd (ss_core v))), snd (snd (ss_core v)))"
    and same: "ss_armed w = ss_armed v" "set (ss_reports w) \<subseteq> set (ss_reports v)" "ss_trace w = ss_trace v"
  shows "sends_inv w"
proof -
  have ids: "snd (snd (ss_core w)) = snd (snd (ss_core v))" "fst (ss_core w) = fst (ss_core v)" using core by simp_all
  have len: "length (retries_at (fst (snd (ss_core w))) t b) = length (retries_at (fst (snd (ss_core v))) t b)" for t b
    using core by (simp add: retries_at_def length_filter_update_where finish_retry_def)
  have keys: "\<exists>rr0 \<in> set (fst (snd (ss_core v))). rw_ActionID rr0 = rw_ActionID rr"
    if "rr \<in> set (fst (snd (ss_core w)))" for rr
  proof -
    have "rr \<in> set (update_where p (finish_retry now r) (fst (snd (ss_core v))))" using that core by simp
    then show ?thesis by (auto dest!: in_update_where simp: finish_retry_def)
  qed
  show ?thesis
    unfolding sends_inv_def
  proof (intro conjI)
    show "ids_unique w" "trace_ordered w" using inv ids same by (simp_all add: sends_inv_def ids_unique_def trace_ordered_def)
    show "tokens_backed w" using inv ids same unfolding sends_inv_def tokens_backed_def by simp
    show "attempts_bound w" using inv ids same unfolding sends_inv_def attempts_bound_def by simp
    show "retries_bound w" using inv len same unfolding sends_inv_def retries_bound_def by simp
    show "retries_justified w" using inv ids keys unfolding sends_inv_def retries_justified_def by metis
    show "answers_traced w" using inv ids same unfolding sends_inv_def answers_traced_def by auto
  qed
qed

lemma inv_others:
  assumes inv: "sends_inv v"
    and retries: "fst (snd (ss_core w)) = fst (snd (ss_core v))"
    and ids: "set (snd (snd (ss_core v))) \<subseteq> set (snd (snd (ss_core w)))" "distinct (map fst (snd (snd (ss_core w))))"
    and attempts: "\<And>a. product_id (snd (snd (ss_core w))) a \<Longrightarrow>
      attempts_of (fst (ss_core w)) a = attempts_of (fst (ss_core v)) a \<and>
      (attempts_of (fst (ss_core v)) a = [] \<or> product_id (snd (snd (ss_core v))) a)"
    and same: "ss_armed w = ss_armed v" "ss_reports w = ss_reports v" "ss_trace w = ss_trace v"
  shows "sends_inv w"
proof -
  have pid: "product_id (snd (snd (ss_core w))) a" if "product_id (snd (snd (ss_core v))) a" for a
    using that ids(1) unfolding product_id_def by blast
  have backed: "backed (snd (snd (ss_core w))) c action" if "backed (snd (snd (ss_core v))) c action" for c action
    using that ids(1) unfolding backed_def by blast
  have unbacked: "tokens (first_of a) (ss_armed v) (ss_trace v) = 0" if "\<not> product_id (snd (snd (ss_core v))) a" for a
  proof -
    have "\<not> first_of a x" if "x \<in> set (ss_armed v) \<union> fst ` set (ss_trace v)" for x
      using that inv \<open>\<not> product_id (snd (snd (ss_core v))) a\<close> backed_product_id
      unfolding sends_inv_def tokens_backed_def first_of_def by metis
    then show ?thesis by (auto simp: tokens_def filter_empty_conv)
  qed
  have kept: "t \<in> set (fst (ss_core w))" if "t \<in> set (fst (ss_core v))" "product_id (snd (snd (ss_core w))) (aw_ActionID t)" for t
    using attempts [OF that(2)] that(1) by (auto simp: attempts_of_def filter_eq_Cons_iff dest!: arg_cong [of _ _ set])
  show ?thesis
    unfolding sends_inv_def
  proof (intro conjI)
    show "ids_unique w" using ids(2) by (simp add: ids_unique_def)
    show "trace_ordered w" using inv same by (simp add: sends_inv_def trace_ordered_def)
    show "tokens_backed w" using inv same backed unfolding sends_inv_def tokens_backed_def by simp
    show "retries_bound w" using inv same retries unfolding sends_inv_def retries_bound_def by simp
    show "retries_justified w"
      using inv retries kept pid unfolding sends_inv_def retries_justified_def by metis
    show "attempts_bound w"
      unfolding attempts_bound_def
    proof (intro allI impI)
      fix a assume a: "product_id (snd (snd (ss_core w))) a"
      show "tokens (first_of a) (ss_armed w) (ss_trace w) \<le> length (attempts_of (fst (ss_core w)) a) \<and>
          length (attempts_of (fst (ss_core w)) a) \<le> 1"
      proof (cases "product_id (snd (snd (ss_core v))) a")
        case True
        then show ?thesis using inv attempts [OF a] same unfolding sends_inv_def attempts_bound_def by simp
      next
        case False
        then show ?thesis using attempts [OF a] unbacked [OF False] same by simp
      qed
    qed
    show "answers_traced w"
      unfolding answers_traced_def
    proof (intro conjI ballI impI)
      fix y assume "y \<in> set (ss_reports w)"
      then show "case y of (x, r) \<Rightarrow> sr_Delivery r = SubmissionResponseReceived \<longrightarrow> (\<exists>call. (x, call, r) \<in> set (ss_trace w))"
        using inv same unfolding sends_inv_def answers_traced_def by auto
    next
      fix t assume t: "t \<in> set (fst (ss_core w))" "product_id (snd (snd (ss_core w))) (aw_ActionID t)" "unreadable t"
      have "t \<in> set (attempts_of (fst (ss_core w)) (aw_ActionID t))" using t(1) by (simp add: attempts_of_def)
      then have old: "t \<in> set (attempts_of (fst (ss_core v)) (aw_ActionID t))" "product_id (snd (snd (ss_core v))) (aw_ActionID t)"
        using attempts [OF t(2)] by auto
      then have "t \<in> set (fst (ss_core v))" by (simp add: attempts_of_def)
      then show "first_answered (ss_trace w) (aw_ActionID t) unreadable_answer"
        using inv old(2) t(3) same unfolding sends_inv_def answers_traced_def by simp
    qed
  qed
qed


section \<open>Every reachable state\<close>

lemma sends_of_simps [simp]:
  "ss_core (sends_of s) = db_core (sy_db s)" "ss_armed (sends_of s) = sy_armed s"
  "ss_reports (sends_of s) = sy_reports s" "ss_trace (sends_of s) = sy_trace s"
  by (simp_all add: sends_of_def)

lemma core_selectors: "fst (journal_core j) = jn_attempts j" "fst (snd (journal_core j)) = jn_retries j"
  by (simp_all add: journal_core_def)

lemma inv_same_core:
  assumes "sends_inv (sends_of s)" and "db_core db' = db_core (sy_db s)" and "set reports \<subseteq> set (sy_reports s)"
  shows "sends_inv (sends_of (s\<lparr>sy_db := db', sy_reports := reports\<rparr>))"
  by (rule inv_drop [OF assms(1)]) (use assms in simp_all)

lemma inv_db:
  "sends_inv (sends_of s) \<Longrightarrow> db_core db' = db_core (sy_db s) \<Longrightarrow> sends_inv (sends_of (s\<lparr>sy_db := db'\<rparr>))"
  using inv_same_core [of s db' "sy_reports s"] by simp

lemma inv_recordSubmission:
  assumes inv: "sends_inv (sends_of s)" and rec: "recordSubmission dp env c attempt r (sy_db s) = (db', res)"
    and answered: "unreadable_answer r \<Longrightarrow> first_answered (sy_trace s) (pc_ActionID c) unreadable_answer"
    and reports: "set reports \<subseteq> set (sy_reports s)"
  shows "sends_inv (sends_of (s\<lparr>sy_db := db', sy_reports := reports\<rparr>))"
  using rec unfolding recordSubmission_def
proof (cases rule: WithinTransaction_cases)
  case unchanged
  have "sends_inv (sends_of (s\<lparr>sy_db := sy_db s, sy_reports := reports\<rparr>))" by (rule inv_same_core [OF inv refl reports])
  then show ?thesis using unchanged(1) by simp
next
  case (applied x)
  obtain action now where upd: "pc_ActionID action = pc_ActionID c"
    "db_core db' = (update_where (open_attempt action (attemptFromAction action)) (finish_attempt now r)
       (jn_attempts (xd_journal (sy_db s))), snd (db_core (sy_db s)))"
    using record_submission_effect [OF applied(1)] by blast
  show ?thesis
    by (rule inv_finish_attempt [OF inv, where p = "open_attempt action (attemptFromAction action)" and now = now and r = r
          and a = "pc_ActionID c"])
      (use upd answered reports in \<open>simp_all add: core_selectors open_attempt_def\<close>)
qed

lemma inv_recordProductRetry:
  assumes inv: "sends_inv (sends_of s)" and rec: "recordProductRetry dp env c retry r (sy_db s) = (db', res)"
    and reports: "set reports \<subseteq> set (sy_reports s)"
  shows "sends_inv (sends_of (s\<lparr>sy_db := db', sy_reports := reports\<rparr>))"
  using rec unfolding recordProductRetry_def
proof (cases rule: WithinTransaction_cases)
  case unchanged
  have "sends_inv (sends_of (s\<lparr>sy_db := sy_db s, sy_reports := reports\<rparr>))" by (rule inv_same_core [OF inv refl reports])
  then show ?thesis using unchanged(1) by simp
next
  case (applied x)
  obtain p now where "db_core db' = (jn_attempts (xd_journal (sy_db s)),
      update_where p (finish_retry now r) (jn_retries (xd_journal (sy_db s))), snd (snd (db_core (sy_db s))))"
    using record_retry_effect [OF applied(1)] by blast
  then show ?thesis
    by (intro inv_finish_retry [OF inv, where p = p and now = now and r = r]) (use reports in \<open>simp_all add: core_selectors\<close>)
qed

lemma inv_dispatch_tx:
  assumes inv: "sends_inv (sends_of s)"
    and tx: "WithinTransaction (se_tx env) (dispatch_tx dp env c snapshot recheck) (sy_db s) = (db', r)"
    and armed: "armed = sy_armed s \<or>
      (\<exists>attempt. opened r = Some attempt \<and>
        armed = \<lparr>sd_candidate = c, sd_action = snapshot, sd_ticket = AttemptTicket attempt\<rparr> # sy_armed s)"
  shows "sends_inv (sends_of (s\<lparr>sy_db := db', sy_armed := armed\<rparr>))"
  using tx
proof (cases rule: WithinTransaction_cases)
  case unchanged
  then have "opened r = None" by (cases r) (auto simp: opened_def)
  then show ?thesis using inv armed unchanged(1) by simp
next
  case (applied out)
  from dispatch_tx_effect [OF applied(1)] show ?thesis
  proof
    assume quiet: "(\<forall>attempt. out \<noteq> Dispatched attempt) \<and> db_core db' = db_core (sy_db s)"
    have "opened r = None"
    proof (cases r)
      case (Inr y)
      then show ?thesis using applied(2) quiet by (auto simp: opened_def split: dispatch_outcome.splits)
    qed (simp add: opened_def)
    then show ?thesis using inv_db [OF inv, of db'] armed quiet by simp
  next
    assume "\<exists>attempt new. out = Dispatched attempt \<and> aw_ActionID new = pc_ActionID c \<and> aw_Delivery new = SubmissionNotDispatched \<and>
       db_core db' = (jn_attempts (xd_journal (sy_db s)) @ [new], snd (db_core (sy_db s))) \<and>
       (\<forall>t \<in> set (jn_attempts (xd_journal (sy_db s))). aw_ActionID t \<noteq> pc_ActionID c) \<and>
       backed (snd (snd (db_core (sy_db s)))) c snapshot"
    then obtain attempt new where new: "aw_ActionID new = pc_ActionID c" "aw_Delivery new = SubmissionNotDispatched"
      "db_core db' = (jn_attempts (xd_journal (sy_db s)) @ [new], snd (db_core (sy_db s)))"
      "\<forall>t \<in> set (jn_attempts (xd_journal (sy_db s))). aw_ActionID t \<noteq> pc_ActionID c"
      "backed (snd (snd (db_core (sy_db s)))) c snapshot" by blast
    from armed show ?thesis
    proof
      assume "armed = sy_armed s"
      then show ?thesis
        by (intro inv_open_attempt [OF inv, where new = new and c = c and snapshot = snapshot])
          (use new in \<open>simp_all add: core_selectors\<close>)
    next
      assume "\<exists>attempt. opened r = Some attempt \<and>
        armed = \<lparr>sd_candidate = c, sd_action = snapshot, sd_ticket = AttemptTicket attempt\<rparr> # sy_armed s"
      then obtain a where "armed = \<lparr>sd_candidate = c, sd_action = snapshot, sd_ticket = AttemptTicket a\<rparr> # sy_armed s" by blast
      then show ?thesis
        by (intro inv_open_attempt [OF inv, where new = new and c = c and snapshot = snapshot and attempt = a])
          (use new in \<open>simp_all add: core_selectors\<close>)
    qed
  qed
qed

lemma inv_retry_tx:
  assumes inv: "sends_inv (sends_of s)"
    and tx: "WithinTransaction (se_tx env) (retry_tx dp env c snapshot targeted) (sy_db s) = (db', r)"
    and armed: "armed = sy_armed s \<or>
      (\<exists>retry. r = Inr retry \<and> armed = \<lparr>sd_candidate = c, sd_action = snapshot, sd_ticket = RetryTicket retry\<rparr> # sy_armed s)"
  shows "sends_inv (sends_of (s\<lparr>sy_db := db', sy_armed := armed\<rparr>))"
  using tx
proof (cases rule: WithinTransaction_cases)
  case unchanged
  then have "armed = sy_armed s" using armed by blast
  then show ?thesis using inv unchanged(1) by simp
next
  case (applied x)
  obtain new t where new: "rw_TransferID new = pc_TransferID c" "rw_ActionID new = pc_ActionID c"
    "db_core db' = (jn_attempts (xd_journal (sy_db s)), jn_retries (xd_journal (sy_db s)) @ [new], snd (snd (db_core (sy_db s))))"
    "\<forall>r \<in> set (jn_retries (xd_journal (sy_db s))). \<not> (rw_TransferID r = pc_TransferID c \<and> rw_ActionID r = pc_ActionID c)"
    "t \<in> set (jn_attempts (xd_journal (sy_db s)))" "aw_ActionID t = pc_ActionID c"
    "backed (snd (snd (db_core (sy_db s)))) c snapshot" and unreadable: "unreadable t"
    using retry_tx_effect [OF applied(1)] unfolding unreadable_def by blast
  obtain retry where "armed = sy_armed s \<or>
      armed = \<lparr>sd_candidate = c, sd_action = snapshot, sd_ticket = RetryTicket retry\<rparr> # sy_armed s"
    using armed by blast
  then show ?thesis
    by (intro inv_open_retry [OF inv, where new = new and c = c and snapshot = snapshot and t = t and retry = retry])
      (use new unreadable in \<open>auto simp: core_selectors\<close>)
qed

lemma core_WithinTransaction:
  assumes "WithinTransaction env fn db = (db', r)" and "\<And>db' x. fn db = Inr (db', x) \<Longrightarrow> db_core db' = db_core db"
  shows "db_core db' = db_core db"
  using assms(1) by (cases rule: WithinTransaction_cases) (use assms(2) in auto)

lemma dispatcher_step_inv: "dispatcher_step dp s s' \<Longrightarrow> sends_inv (sends_of s) \<Longrightarrow> sends_inv (sends_of s')"
proof (induction rule: dispatcher_step.induct)
  case (open_attempt snapshot ob recheck env c s db' r attempt)
  then show ?case using inv_dispatch_tx by blast
next
  case (no_attempt env c snapshot recheck s db' r)
  then show ?case using inv_dispatch_tx [of s env dp c snapshot recheck db' r "sy_armed s"] by simp
next
  case (open_retry snapshot ob targeted env c s db' retry)
  then show ?case using inv_retry_tx by blast
next
  case (no_retry env c snapshot targeted s db' e)
  then show ?case using inv_retry_tx [of s env dp c snapshot targeted db' "Inl e" "sy_armed s"] by simp
next
  case (send x s transport r calls)
  show ?case
    by (rule inv_send [OF send(3), where x = x and r = r and calls = calls])
      (use send executeProductMutation_calls [OF send(2)] in simp_all)
next
  case (report_submission x r s attempt env db' res)
  have "first_answered (sy_trace s) (pc_ActionID (sd_candidate x)) unreadable_answer" if un: "unreadable_answer r"
  proof -
    have "sr_Delivery r = SubmissionResponseReceived" using un by (simp add: unreadable_answer_def)
    moreover have "\<forall>(x, r) \<in> set (sy_reports s). sr_Delivery r = SubmissionResponseReceived \<longrightarrow> (\<exists>call. (x, call, r) \<in> set (sy_trace s))"
      using report_submission(4) by (simp add: sends_inv_def answers_traced_def)
    ultimately obtain call where "(x, call, r) \<in> set (sy_trace s)" using report_submission(1) by fastforce
    then show ?thesis using un report_submission(2) unfolding first_answered_def first_of_def by blast
  qed
  then show ?case
    using inv_recordSubmission [OF report_submission(4,3) _ set_remove1_subset] by blast
next
  case (report_retry x r s retry env db' res)
  then show ?case using inv_recordProductRetry [OF report_retry(4,3) set_remove1_subset] by blast
next
  case (crash_before_call s x)
  show ?case by (rule inv_drop [OF crash_before_call(1), where x = x]) simp_all
next
  case (crash_after_call s x r)
  show ?case by (rule inv_drop [OF crash_after_call(1), where x = x]) (simp_all add: set_remove1_subset)
next
  case (interrupted env c action s db' res)
  have "\<not> unreadable_answer (interrupted_result action)"
    by (simp add: unreadable_answer_def interrupted_result_def uncertain_result_def)
  then show ?case using inv_recordSubmission [OF interrupted(2,1), of "sy_reports s"] by simp
next
  case (interrupted_retry env c action s db' res)
  then show ?case using inv_recordProductRetry [OF interrupted_retry(2,1), of "sy_reports s"] by simp
next
  case (poll env c action targeted results s db' res)
  then have "db_core db' = db_core (sy_db s)"
    unfolding recordIncompleteReconciliation_def by (elim core_WithinTransaction) (rule core_poll_tx)
  then show ?case by (rule inv_db [OF poll(2)])
next
  case (finish env c action targeted results cls code s db' res)
  then have "db_core db' = db_core (sy_db s)" by (elim core_WithinTransaction) (rule core_finish_tx)
  then show ?case by (rule inv_db [OF finish(2)])
next
  case (others s db')
  show ?case
  proof (rule inv_others [OF others(2)])
    fix a assume "product_id (snd (snd (ss_core (sends_of (s\<lparr>sy_db := db'\<rparr>))))) a"
    then obtain w where w: "w \<in> set (jn_actions (xd_journal db'))" "ar_ID w = a" "product_kind (ar_Kind w)"
      by (auto simp: product_id_def journal_core_def action_ident_def)
    then have "attempts_of (jn_attempts (xd_journal db')) a = attempts_of (jn_attempts (xd_journal (sy_db s))) a"
      and old: "attempts_of (jn_attempts (xd_journal (sy_db s))) a = [] \<or>
                action_ident w \<in> set (map action_ident (jn_actions (xd_journal (sy_db s))))"
      using others(1) unfolding other_components_def Let_def by auto
    moreover have "product_id (map action_ident (jn_actions (xd_journal (sy_db s)))) a"
      if "action_ident w \<in> set (map action_ident (jn_actions (xd_journal (sy_db s))))"
    proof -
      have "(a, ar_TransferID w, ar_PlanID w, ar_TargetID w, ar_Kind w, ar_RequestDigest w, ar_RequestPayload w)
          \<in> set (map action_ident (jn_actions (xd_journal (sy_db s))))" using that w(2) by (simp add: action_ident_def)
      then show ?thesis using w(3) unfolding product_id_def by blast
    qed
    ultimately show "attempts_of (fst (ss_core (sends_of (s\<lparr>sy_db := db'\<rparr>)))) a = attempts_of (fst (ss_core (sends_of s))) a \<and>
        (attempts_of (fst (ss_core (sends_of s))) a = [] \<or> product_id (snd (snd (ss_core (sends_of s)))) a)"
      by (auto simp: journal_core_def)
  qed (use others(1) in \<open>auto simp: other_components_def Let_def journal_core_def action_ident_def comp_def\<close>)
qed

lemma reachable_sends_inv: "product_reachable dp s \<Longrightarrow> sends_inv (sends_of s)"
proof (induction rule: product_reachable.induct)
  case (start s)
  then show ?case
    by (auto simp: system_start_def sends_inv_def ids_unique_def tokens_backed_def attempts_bound_def retries_bound_def
        answers_traced_def retries_justified_def trace_ordered_def tokens_def attempts_of_def retries_at_def
        journal_core_def action_ident_def comp_def)
next
  case (step s s')
  then show ?case using dispatcher_step_inv by blast
qed

end
