(* ===== verification/ProductSystemProps.thy ===== *)
theory ProductSystemProps
  imports ProductSystem
begin

text \<open>
  What the journal of product actions guarantees: how often and with what request the Content API is called for an
  action, what was checked before a call may be made, and what the outcome of a plan says of its actions.
\<close>

section \<open>Calls of an action\<close>

datatype request_body = UploadBody "upload_group list" | AddBody int "upload_card list"

fun call_body :: "upload_call \<Rightarrow> request_body" where
  "call_body (CallUpload s g request) = UploadBody request"
| "call_body (CallAdd s g imt cards) = AddBody imt cards"

definition body_of :: "exec_codec \<Rightarrow> string \<Rightarrow> string \<Rightarrow> request_body option" where
  "body_of cd kind payload =
     (if kind = ActionCreateGroup then map_option UploadBody (decodeExactCreate cd payload)
      else if kind = ActionAddToGroup then map_option (\<lambda>(imt, cards). AddBody imt cards) (decodeExactAdd cd payload)
      else None)"

lemma executeProductMutation_body:
  assumes "executeProductMutation cd transport action = (r, calls)" and "call \<in> set calls"
  shows "body_of cd (pa_Kind action) (pa_RequestPayload action) = Some (call_body call)"
  using assms by (auto simp: executeProductMutation_def body_of_def Let_def split: if_splits option.splits)

definition trace_exact :: "exec_codec \<Rightarrow> (sending \<times> upload_call \<times> submission_result) list \<Rightarrow> bool" where
  "trace_exact cd trace \<longleftrightarrow>
     (\<forall>(x, call, r) \<in> set trace. body_of cd (pa_Kind (sd_action x)) (pa_RequestPayload (sd_action x)) = Some (call_body call))"

lemma trace_exactD:
  "trace_exact cd trace \<Longrightarrow> (x, call, r) \<in> set trace \<Longrightarrow>
   body_of cd (pa_Kind (sd_action x)) (pa_RequestPayload (sd_action x)) = Some (call_body call)"
  unfolding trace_exact_def by blast

lemma reachable_trace_exact: "product_reachable dp s \<Longrightarrow> trace_exact (dp_codec dp) (sy_trace s)"
proof (induction rule: product_reachable.induct)
  case (start s)
  then show ?case by (simp add: system_start_def trace_exact_def)
next
  case (step s s')
  from step(2,1,3) show ?case
  proof (induction rule: dispatcher_step.induct)
    case (send x s transport r calls)
    then show ?case
      using executeProductMutation_body [OF send(2)] by (auto simp: trace_exact_def)
  qed simp_all
qed

text \<open>Two readings that back a sending of the same action have the same kind and payload, and the same transfer.\<close>

lemma backed_same:
  assumes "distinct (map fst ids)" and "backed ids c a" and "backed ids c' a'" and "pc_ActionID c = pc_ActionID c'"
  shows "pa_Kind a = pa_Kind a'" and "pa_RequestPayload a = pa_RequestPayload a'" and "pc_TransferID c = pc_TransferID c'"
proof -
  obtain plan target dig where row: "(pc_ActionID c, pc_TransferID c, plan, target, pa_Kind a, dig, pa_RequestPayload a) \<in> set ids"
    using assms(2) unfolding backed_def by blast
  obtain plan' target' dig' where row':
    "(pc_ActionID c', pc_TransferID c', plan', target', pa_Kind a', dig', pa_RequestPayload a') \<in> set ids"
    using assms(3) unfolding backed_def by blast
  have "(pc_TransferID c, plan, target, pa_Kind a, dig, pa_RequestPayload a) =
      (pc_TransferID c', plan', target', pa_Kind a', dig', pa_RequestPayload a')"
    by (rule eq_key_imp_eq_value [OF assms(1) row]) (use row' assms(4) in simp)
  then show "pa_Kind a = pa_Kind a'" "pa_RequestPayload a = pa_RequestPayload a'" "pc_TransferID c = pc_TransferID c'"
    by simp_all
qed

lemma trace_backed:
  assumes "product_reachable dp s" and "(x, call, r) \<in> set (sy_trace s)"
  shows "backed (map action_ident (jn_actions (xd_journal (sy_db s)))) (sd_candidate x) (sd_action x)"
proof -
  have "x \<in> fst ` set (sy_trace s)" using assms(2) by force
  then show ?thesis
    using reachable_sends_inv [OF assms(1)] by (simp add: sends_inv_def tokens_backed_def journal_core_def)
qed

lemma same_action_same_body:
  assumes reach: "product_reachable dp s"
    and e: "(x, call, r) \<in> set (sy_trace s)" and e': "(x', call', r') \<in> set (sy_trace s)"
    and same: "pc_ActionID (sd_candidate x) = pc_ActionID (sd_candidate x')"
  shows "call_body call = call_body call'" and "pc_TransferID (sd_candidate x) = pc_TransferID (sd_candidate x')"
proof -
  have ids: "distinct (map fst (map action_ident (jn_actions (xd_journal (sy_db s)))))"
    using reachable_sends_inv [OF reach] by (simp add: sends_inv_def ids_unique_def journal_core_def)
  note eqs = backed_same [OF ids trace_backed [OF reach e] trace_backed [OF reach e'] same]
  show "call_body call = call_body call'"
    using trace_exactD [OF reachable_trace_exact [OF reach] e] trace_exactD [OF reachable_trace_exact [OF reach] e'] eqs
    by simp
  show "pc_TransferID (sd_candidate x) = pc_TransferID (sd_candidate x')" by (rule eqs)
qed

lemma first_sends_bound:
  assumes "product_reachable dp s"
  shows "length (filter (\<lambda>e. first_of a (fst e)) (sy_trace s)) \<le> 1"
proof (cases "product_id (map action_ident (jn_actions (xd_journal (sy_db s)))) a")
  case True
  have "attempts_bound (sends_of s)" using reachable_sends_inv [OF assms] by (simp add: sends_inv_def)
  then have "tokens (first_of a) (sy_armed s) (sy_trace s) \<le> length (attempts_of (jn_attempts (xd_journal (sy_db s))) a)"
    "length (attempts_of (jn_attempts (xd_journal (sy_db s))) a) \<le> 1"
    using True by (simp_all add: attempts_bound_def journal_core_def)
  then show ?thesis by (simp add: tokens_def)
next
  case False
  have "\<not> first_of a (fst e)" if "e \<in> set (sy_trace s)" for e
  proof
    assume "first_of a (fst e)"
    obtain x call r where e: "e = (x, call, r)" by (cases e)
    then show False
      using backed_product_id [OF trace_backed [OF assms, of x call r]] that False \<open>first_of a (fst e)\<close>
      by (simp add: first_of_def)
  qed
  then show ?thesis by (simp add: filter_False)
qed

lemma retry_sends_bound:
  assumes "product_reachable dp s"
  shows "length (filter (\<lambda>e. retry_of t a (fst e)) (sy_trace s)) \<le> 1"
proof -
  have "retries_bound (sends_of s)" using reachable_sends_inv [OF assms] by (simp add: sends_inv_def)
  then have "tokens (retry_of t a) (sy_armed s) (sy_trace s) \<le> length (retries_at (jn_retries (xd_journal (sy_db s))) t a)"
    "length (retries_at (jn_retries (xd_journal (sy_db s))) t a) \<le> 1"
    by (simp_all add: retries_bound_def journal_core_def)
  then show ?thesis by (simp add: tokens_def)
qed

lemma length_filter_or: "length (filter (\<lambda>e. p e \<or> q e) es) \<le> length (filter p es) + length (filter q es)"
  by (induction es) auto

lemma action_sends_bound:
  assumes reach: "product_reachable dp s"
  shows "length (filter (\<lambda>e. pc_ActionID (sd_candidate (fst e)) = a) (sy_trace s)) \<le> 2"
proof (cases "\<exists>e \<in> set (sy_trace s). pc_ActionID (sd_candidate (fst e)) = a")
  case False
  then show ?thesis by (simp add: filter_False)
next
  case True
  then obtain x0 call0 r0 where e0: "(x0, call0, r0) \<in> set (sy_trace s)" "pc_ActionID (sd_candidate x0) = a" by fastforce
  define t where "t = pc_TransferID (sd_candidate x0)"
  have transfer: "pc_TransferID (sd_candidate (fst e)) = t" if "e \<in> set (sy_trace s)" "pc_ActionID (sd_candidate (fst e)) = a" for e
  proof -
    obtain x call r where e: "e = (x, call, r)" by (cases e)
    show ?thesis
      using same_action_same_body(2) [OF reach, of x call r x0 call0 r0] that e0 e by (simp add: t_def)
  qed
  have split: "pc_ActionID (sd_candidate (fst e)) = a \<longleftrightarrow> first_of a (fst e) \<or> retry_of t a (fst e)" if "e \<in> set (sy_trace s)" for e
    using transfer [OF that] by (cases "sd_ticket (fst e)") (auto simp: first_of_def retry_of_def)
  have "filter (\<lambda>e. pc_ActionID (sd_candidate (fst e)) = a) (sy_trace s) =
      filter (\<lambda>e. first_of a (fst e) \<or> retry_of t a (fst e)) (sy_trace s)"
    by (rule filter_cong [OF refl split])
  then show ?thesis
    using length_filter_or [of "\<lambda>e. first_of a (fst e)" "\<lambda>e. retry_of t a (fst e)" "sy_trace s"]
      first_sends_bound [OF reach, of a] retry_sends_bound [OF reach, of t a] by simp
qed

text \<open>C1: However the transactions, calls, crashes and restarts of any number of dispatchers interleave, the Content
  API is called at most twice for a product action, at most once under its attempt. The second call, under the
  retry, comes only after the first was answered with status 200 and a body that could not be read, and carries
  exactly the request of the first.\<close>

theorem product_sent_at_most_twice:
  assumes "product_reachable dp s"
  shows "length (filter (\<lambda>e. pc_ActionID (sd_candidate (fst e)) = actionID) (sy_trace s)) \<le> 2 \<and>
    length (filter (\<lambda>e. first_of actionID (fst e)) (sy_trace s)) \<le> 1 \<and>
    (\<forall>before x call r after retry.
       sy_trace s = before @ (x, call, r) # after \<longrightarrow> sd_ticket x = RetryTicket retry \<longrightarrow>
       (\<exists>x0 call0 r0. (x0, call0, r0) \<in> set before \<and> first_of (pc_ActionID (sd_candidate x)) x0 \<and>
          unreadable_answer r0 \<and> call_body call0 = call_body call))"
proof (intro conjI allI impI action_sends_bound [OF assms] first_sends_bound [OF assms])
  fix before x call r after retry
  assume trace: "sy_trace s = before @ (x, call, r) # after" and ticket: "sd_ticket x = RetryTicket retry"
  have "first_answered before (pc_ActionID (sd_candidate x)) unreadable_answer"
    using reachable_sends_inv [OF assms] trace ticket unfolding sends_inv_def trace_ordered_def by simp
  then obtain x0 call0 r0 where e0: "(x0, call0, r0) \<in> set before" "first_of (pc_ActionID (sd_candidate x)) x0" "unreadable_answer r0"
    unfolding first_answered_def by blast
  have "call_body call0 = call_body call"
    by (rule same_action_same_body(1) [OF assms, of x0 call0 r0 x call r]) (use e0 trace in \<open>auto simp: first_of_def\<close>)
  then show "\<exists>x0 call0 r0. (x0, call0, r0) \<in> set before \<and> first_of (pc_ActionID (sd_candidate x)) x0 \<and>
      unreadable_answer r0 \<and> call_body call0 = call_body call"
    using e0 by blast
qed


section \<open>What is checked before a call\<close>

lemma none_with_code: "length (filter (\<lambda>c. code c = v) cs) = 0 \<longleftrightarrow> v \<notin> code ` set cs"
  by (auto simp: filter_empty_conv)

lemma codes_of_filter:
  assumes "v \<in> set codes"
  shows "v \<in> code ` set (filter (\<lambda>c. code c \<in> set codes \<or> q c) cs) \<longleftrightarrow> v \<in> code ` set cs"
    and "v \<in> code ` set (filter (\<lambda>c. code c \<in> set codes) cs) \<longleftrightarrow> v \<in> code ` set cs"
  using assms by auto

lemma productDecisionStillStable_True:
  "fst (productDecisionStillStable ms normal trash) \<longleftrightarrow>
     (\<forall>m \<in> set ms. mb_VendorCode m \<notin> cc_VendorCode ` set normal \<and> mb_VendorCode m \<notin> tc_VendorCode ` set trash)"
  by (induction ms) (simp_all add: none_with_code del: length_0_conv)

lemma BuildTargetedRecheck_stable:
  assumes "BuildTargetedRecheck cd action ob = Inr recheck"
  shows "tr_Stable recheck \<longleftrightarrow>
    (\<forall>v \<in> set (action_VendorCodes action). v \<notin> cc_VendorCode ` set (ob_Normal ob) \<and> v \<notin> tc_VendorCode ` set (ob_Trash ob))"
proof -
  obtain imt where "tr_Stable recheck = fst (productDecisionStillStable (pa_Members action)
      (ob_Normal (recheck_observation action ob imt)) (ob_Trash (recheck_observation action ob imt)))"
    using assms
    by (auto simp: BuildTargetedRecheck_def Let_def rbind_eq_Inr_iff guard_def case_prod_unfold split: if_splits option.splits)
  moreover have "m \<in> set (pa_Members action) \<Longrightarrow> mb_VendorCode m \<in> set (action_VendorCodes action)" for m
    by (simp add: action_VendorCodes_def)
  ultimately have "tr_Stable recheck \<longleftrightarrow> (\<forall>m \<in> set (pa_Members action).
      mb_VendorCode m \<notin> cc_VendorCode ` set (ob_Normal ob) \<and> mb_VendorCode m \<notin> tc_VendorCode ` set (ob_Trash ob))"
    unfolding productDecisionStillStable_True by (simp add: recheck_observation_def codes_of_filter del: set_filter)
  then show ?thesis by (simp add: action_VendorCodes_def)
qed

lemma journal_view_observations:
  "journal_view ops pv (db\<lparr>xd_journal := (xd_journal db)\<lparr>jn_observations := obs, jn_next := n\<rparr>\<rparr>) = journal_view ops pv db"
proof -
  have "journal_target ops pv (db\<lparr>xd_journal := (xd_journal db)\<lparr>jn_observations := obs, jn_next := n\<rparr>\<rparr>) = journal_target ops pv db"
    by (intro ext) (simp add: journal_target_def Let_def split: option.split)
  then show ?thesis by (simp add: journal_view_def plan_attempts_def)
qed

lemma InsertActionObservation_shape:
  assumes "InsertActionObservation now transferID kind ob j = Inr (j', i)"
  obtains obs n where "j' = j\<lparr>jn_observations := obs, jn_next := n\<rparr>"
proof -
  have "j' = j\<lparr>jn_observations := jn_observations j', jn_next := jn_next j'\<rparr>"
    using assms by (auto simp: InsertActionObservation_def split: if_splits option.splits)
  then show ?thesis by (rule that)
qed

lemma CaptureBaseline_shape:
  assumes "CaptureBaseline now t a seller j = Inr (j', b)"
  obtains cs where "j' = j\<lparr>jn_cursors := cs\<rparr>"
proof -
  have "j' = j\<lparr>jn_cursors := jn_cursors j'\<rparr>"
    using assms
    by (auto simp: CaptureBaseline_def CaptureErrorBaseline_def ensureErrorCursor_def guard_def Let_def rbind_eq_Inr_iff
        split: if_splits option.splits)
  then show ?thesis by (rule that)
qed

definition reserved :: "product_action \<Rightarrow> identity_rec list \<Rightarrow> identity_rec list \<Rightarrow> bool" where
  "reserved action before after \<longleftrightarrow>
     length (filter (free_identity action) before) = length (pa_Members action) \<and>
     after = map (\<lambda>i. if free_identity action i then bind_identity action i else i) before"

lemma begin_attempt_checked:
  assumes "begin_attempt dp env action recheckID db = Inr (db', Dispatched attempt)"
  shows "pa_State action = ''planned'' \<and> pa_AttemptID action = 0 \<and>
    (\<exists>live evidence. LockValid (dp_authorization dp) (journal_view (dp_results dp) (se_view env) db) (se_now env)
       (action_check action) (xd_live db) = Inr (live, evidence)) \<and>
    reserved action (jn_identities (xd_journal db)) (jn_identities (xd_journal db')) \<and>
    (\<exists>t. jn_attempts (xd_journal db') = jn_attempts (xd_journal db) @ [t] \<and> aw_ID t = pat_ID attempt \<and>
       aw_ActionID t = pc_ActionID action \<and> aw_RequestPayload t = pa_RequestPayload action \<and> aw_FinishedAt t = None)"
proof -
  obtain live evidence j1 bl j2 t where lock: "LockValid (dp_authorization dp) (journal_view (dp_results dp) (se_view env) db) (se_now env)
       (action_check action) (xd_live db) = Inr (live, evidence)"
    and bl: "CaptureBaseline (se_clock env) (pc_TransferID action) (pc_ActionID action) (pa_SellerID action) (xd_journal db) = Inr (j1, bl)"
    and opens: "BeginProductAttempt (se_clock env) action evidence bl recheckID j1 = Inr (j2, attempt)"
    and db': "db' = db\<lparr>xd_live := live, xd_journal := j2, xd_transfer := t\<rparr>"
    using assms by (auto simp: begin_attempt_def rbind_eq_Inr_iff split: sum.splits if_splits)
  obtain cs where j1: "j1 = (xd_journal db)\<lparr>jn_cursors := cs\<rparr>" by (rule CaptureBaseline_shape [OF bl])
  have effect: "pa_State action = ''planned''" "pa_AttemptID action = 0"
    "jn_identities j2 = update_where (free_identity action) (bind_identity action) (jn_identities (xd_journal db))"
    "affected (free_identity action) (jn_identities (xd_journal db)) = int (length (pa_Members action))"
    "jn_attempts j2 = jn_attempts (xd_journal db) @ [new_attempt (se_clock env) action bl recheckID (jn_next j1)]"
    "pat_ID attempt = jn_next j1"
    using opens unfolding BeginProductAttempt_def Let_def by (auto simp: j1 new_attempt_def split: if_splits)
  have "reserved action (jn_identities (xd_journal db)) (jn_identities (xd_journal db'))"
    using effect db' by (simp add: reserved_def update_where_def affected_def)
  then show ?thesis using effect lock db' by (auto simp: new_attempt_def)
qed

text \<open>C2: A call of an action is opened only if, in the same transaction, the action was still planned and had no
  attempt, the recheck of the catalog found none of its vendor codes among the cards or in the trash, the live
  authorization was valid for exactly this plan, target and client generation, and one free identity per member
  was reserved for the action; the attempt is written with the request that will be sent.\<close>

theorem dispatch_opens_checked:
  assumes "BuildTargetedRecheck (dp_codec dp) snapshot ob = Inr recheck"
    and "dispatch_tx dp env c snapshot recheck db = Inr (db', Dispatched attempt)"
  shows "\<exists>action live evidence t.
    LockProductAction (dp_codec dp) (xd_live db) (xd_journal db) c = Inr action \<and>
    sameImmutableProductAction snapshot action \<and> pa_State action = ''planned'' \<and> pa_AttemptID action = 0 \<and>
    (\<forall>v \<in> set (action_VendorCodes action). v \<notin> cc_VendorCode ` set (ob_Normal ob) \<and> v \<notin> tc_VendorCode ` set (ob_Trash ob)) \<and>
    LockValid (dp_authorization dp) (journal_view (dp_results dp) (se_view env) db) (se_now env)
      (action_check action) (xd_live db) = Inr (live, evidence) \<and>
    reserved action (jn_identities (xd_journal db)) (jn_identities (xd_journal db')) \<and>
    jn_attempts (xd_journal db') = jn_attempts (xd_journal db) @ [t] \<and> aw_ID t = pat_ID attempt \<and>
    aw_ActionID t = pc_ActionID c \<and> aw_RequestPayload t = pa_RequestPayload snapshot \<and> aw_FinishedAt t = None"
proof -
  obtain action j recheckID where lock: "LockProductAction (dp_codec dp) (xd_live db) (xd_journal db) c = Inr action"
    and same: "sameImmutableProductAction snapshot action"
    and obs: "InsertActionObservation (se_clock env) (pc_TransferID action) ''targeted_recheck'' (tr_Observation recheck) (xd_journal db)
                = Inr (j, recheckID)"
    and rest: "(if \<not> tr_Stable recheck then
         (if PlanAttemptCount j (pc_TransferID action) (pa_PlanID action) \<noteq> 0 then stop_plan dp env action (set_journal db j)
          else supersede_plan dp env action (tr_SafeCode recheck) (set_journal db j))
       else begin_attempt dp env action recheckID (set_journal db j)) = Inr (db', Dispatched attempt)"
    using assms(2) by (auto simp: dispatch_tx_def rbind_eq_Inr_iff Let_def split: if_splits prod.splits)
  obtain rows n where j: "j = (xd_journal db)\<lparr>jn_observations := rows, jn_next := n\<rparr>" by (rule InsertActionObservation_shape [OF obs])
  have stable: "tr_Stable recheck"
  proof (rule ccontr)
    assume "\<not> tr_Stable recheck"
    then show False
      using rest core_stop_plan(2) core_supersede_plan(2) by (metis dispatch_outcome.distinct(1,3))
  qed
  then have begins: "begin_attempt dp env action recheckID (set_journal db j) = Inr (db', Dispatched attempt)" using rest by simp
  have codes: "action_VendorCodes action = action_VendorCodes snapshot"
    using same by (auto simp: sameImmutableProductAction_def action_VendorCodes_def same_member_def list_all2_conv_all_nth
        intro!: nth_equalityI)
  have absent: "\<forall>v \<in> set (action_VendorCodes action). v \<notin> cc_VendorCode ` set (ob_Normal ob) \<and> v \<notin> tc_VendorCode ` set (ob_Trash ob)"
    using stable BuildTargetedRecheck_stable [OF assms(1)] codes by simp
  have view: "journal_view (dp_results dp) (se_view env) (set_journal db j) = journal_view (dp_results dp) (se_view env) db"
    using journal_view_observations by (simp add: set_journal_def j)
  have same_rows: "jn_identities (xd_journal (set_journal db j)) = jn_identities (xd_journal db)"
    "jn_attempts (xd_journal (set_journal db j)) = jn_attempts (xd_journal db)" "xd_live (set_journal db j) = xd_live db"
    by (simp_all add: set_journal_def j)
  have same_key: "pc_ActionID action = pc_ActionID c" by (rule LockProductAction_facts [OF lock])
  have same_request: "pa_RequestPayload action = pa_RequestPayload snapshot" using same by (simp add: sameImmutableProductAction_def)
  show ?thesis
    using begin_attempt_checked [OF begins] lock same absent same_key same_request unfolding view same_rows by metis
qed


section \<open>The retry and the authorization\<close>

lemma LockProductAction_revision:
  assumes "LockProductAction cd live j c = Inr action"
    and "find (\<lambda>a. av_TransferID a = pc_TransferID c \<and> av_ID a = pc_AuthorizationID c) (ld_auths live') = Some auth"
    and "0 \<le> av_Revision auth"
  shows "LockProductAction cd live' j c = Inr (action\<lparr>pc_AuthorizationRevision := av_Revision auth\<rparr>)"
proof -
  obtain w t preflight revision where row: "candidate_row j c = Some (w, t)" "preflight_observation j w = Some preflight"
    and action: "action = scan_action j c w t preflight revision"
    and valid: "ProductAction_Validate cd action = None" "lockProductIdentities j action = None"
    and ok: "\<not> (pc_TransferID c \<le> 0 \<or> pc_ActionID c \<le> 0 \<or> pc_AuthorizationID c \<le> 0)"
      "\<not> (length (ar_RequestDigest w) \<noteq> 32 \<or> length (ar_MemberSetDigest w) \<noteq> 32 \<or>
          SellerID_Validate (tg_SellerID t) \<noteq> None \<or> length (tg_ClientGeneration t) \<noteq> 32)"
    using assms(1) unfolding LockProductAction_def Let_def guard_def
    by (simp split: if_splits option.splits prod.splits) blast
  define action' where "action' = scan_action j c w t preflight (av_Revision auth)"
  have same: "action' = action\<lparr>pc_AuthorizationRevision := av_Revision auth\<rparr>"
    by (simp add: action action'_def scan_action_def)
  have codes: "request_vendor_codes cd action' = request_vendor_codes cd action" "action_VendorCodes action' = action_VendorCodes action"
    by (simp_all add: same request_vendor_codes_def action_VendorCodes_def)
  have rows: "pa_Members action' = pa_Members action" "pa_RequestPayload action' = pa_RequestPayload action"
    "pa_RequestDigest action' = pa_RequestDigest action" "pa_SellerID action' = pa_SellerID action" by (simp_all add: same)
  have "action_identity_err action = None" using valid(1) by (simp add: ProductAction_Validate_def)
  then have "action_identity_err action' = None"
    using assms(3) by (simp add: same action_identity_err_def split: if_splits)
  then have "ProductAction_Validate cd action' = None"
    using valid(1) \<open>action_identity_err action = None\<close> unfolding ProductAction_Validate_def codes rows by simp
  moreover have "lockProductIdentities j action' = None"
    using valid(2) unfolding lockProductIdentities_def codes rows .
  ultimately show ?thesis
    using row ok assms(2) by (simp add: LockProductAction_def action'_def [symmetric] same [symmetric] guard_def Let_def)
qed

lemma action_rows_revision:
  "action_in_state (action\<lparr>pc_AuthorizationRevision := n\<rparr>) state = action_in_state action state"
  "retryable_attempt now (action\<lparr>pc_AuthorizationRevision := n\<rparr>) = retryable_attempt now action"
  "touch_action now (action\<lparr>pc_AuthorizationRevision := n\<rparr>) = touch_action now action"
  by (intro ext, simp add: action_in_state_def retryable_attempt_def touch_action_def)+

lemma retry_statements_revision:
  "sameProductActionProgress snapshot (action\<lparr>pc_AuthorizationRevision := n\<rparr>) = sameProductActionProgress snapshot action"
  "RecordProductReconciliationPoll now (action\<lparr>pc_AuthorizationRevision := n\<rparr>) i [] j =
     RecordProductReconciliationPoll now action i [] j"
  by (simp_all add: sameProductActionProgress_def sameImmutableProductAction_def RecordProductReconciliationPoll_def
      ValidateMemberReconciliationResults_def action_rows_revision)

lemma BeginProductRetry_revision:
  "BeginProductRetry now (action\<lparr>pc_AuthorizationRevision := n\<rparr>) j = BeginProductRetry now action j"
  by (cases "find (action_in_state action ''reconciling'') (jn_actions j)")
    (simp_all add: BeginProductRetry_def action_rows_revision Let_def)

text \<open>C3: The second call of an action is opened without a look at the live authorization: where the transaction
  opens a retry it does so as well with the authorization row in any other state, revoked and expired included.\<close>

theorem retry_ignores_authorization:
  assumes "retry_tx dp env c snapshot targeted db = Inr (db', retry)"
    and "find (\<lambda>a. av_TransferID a = pc_TransferID c \<and> av_ID a = pc_AuthorizationID c) (ld_auths live) = Some auth"
    and "0 \<le> av_Revision auth"
  shows "retry_tx dp env c snapshot targeted (db\<lparr>xd_live := live\<rparr>) = Inr (db'\<lparr>xd_live := live\<rparr>, retry)"
proof -
  obtain action j1 i j2 j3 where lock: "LockProductAction (dp_codec dp) (xd_live db) (xd_journal db) c = Inr action"
    and same: "sameProductActionProgress snapshot action" "prt_ID (pa_EmptyResponseRetry action) = 0"
    and steps: "InsertActionObservation (se_clock env) (pc_TransferID action) ''post_submission'' (tr_Observation targeted) (xd_journal db)
                  = Inr (j1, i)"
      "RecordProductReconciliationPoll (se_clock env) action i [] j1 = Inr j2"
      "BeginProductRetry (se_clock env) action j2 = Inr (j3, retry)"
    and db': "db' = set_journal db j3"
    using assms(1) by (auto simp: retry_tx_def rbind_eq_Inr_iff split: if_splits prod.splits)
  then show ?thesis
    using LockProductAction_revision [OF lock assms(2,3)]
    by (simp add: retry_tx_def retry_statements_revision BeginProductRetry_revision set_journal_def)
qed

section \<open>The outcome of a plan\<close>

lemma plan_count_pos: "0 < plan_count p ws \<longleftrightarrow> (\<exists>w \<in> set ws. p (ar_OutcomeClass w))"
  by (auto simp: plan_count_def affected_def filter_empty_conv)

lemma plan_count_all: "plan_count p ws = int (length ws) \<longleftrightarrow> (\<forall>w \<in> set ws. p (ar_OutcomeClass w))"
  using length_filter_less [of _ ws "\<lambda>w. p (ar_OutcomeClass w)"]
  by (auto simp: plan_count_def affected_def filter_id_conv) fastforce

text \<open>C4: A plan that is reduced is terminal, with an outcome that calls for attention exactly when an action is
  unresolved or failed internally, rejected exactly when every action was, and partial exactly when some actions
  were rejected and others succeeded or were skipped. Every other plan is a success: so is a plan whose only
  action ended partially.\<close>

theorem reducePublicationPlan_outcome:
  assumes "distinct (map (\<lambda>p. (pl_TransferID p, pl_ID p)) (jn_plans j))"
    and "p \<in> set (jn_plans j)" "pl_TransferID p = transferID" "pl_ID p = planID" "pl_State p = ''executing''"
    and "actions = filter (plan_action transferID planID) (jn_actions j)" "actions \<noteq> []"
    and "\<forall>w \<in> set actions. state_finished (ar_State w)"
  shows "\<exists>j' p'. reducePublicationPlan transferID planID j = Inr j' \<and> jn_actions j' = jn_actions j \<and>
    p' \<in> set (jn_plans j') \<and> pl_TransferID p' = transferID \<and> pl_ID p' = planID \<and> pl_State p' = ''terminal'' \<and>
    (let some = (\<lambda>cls. \<exists>w \<in> set actions. ar_OutcomeClass w = cls); cls = pl_OutcomeClass p';
         attention = (some ResultUnresolved \<or> some ResultInternalError);
         rejected = (\<forall>w \<in> set actions. ar_OutcomeClass w = ResultRejected);
         mixed = (some ResultRejected \<and> (some ResultSuccess \<or> some ResultSkipped))
     in (cls = ResultUnresolved \<longleftrightarrow> attention) \<and> (cls = ResultRejected \<longleftrightarrow> rejected) \<and>
        (cls = ResultPartial \<longleftrightarrow> \<not> attention \<and> \<not> rejected \<and> mixed) \<and>
        (cls = ResultSuccess \<longleftrightarrow> \<not> attention \<and> \<not> rejected \<and> \<not> mixed))"
proof -
  define ours where "ours = (\<lambda>p :: plan_rec. pl_TransferID p = transferID \<and> pl_ID p = planID)"
  define upd where "upd = (\<lambda>p :: plan_rec. p\<lparr>pl_State := ''terminal'', pl_OutcomeClass := fst (plan_outcome actions),
      pl_OutcomeCode := snd (plan_outcome actions), pl_Revision := pl_Revision p + 1\<rparr>)"
  obtain q where q: "find ours (jn_plans j) = Some q"
    using assms(2-4) find_None [of ours "jn_plans j"] by (cases "find ours (jn_plans j)") (auto simp: ours_def)
  have "q = p"
  proof -
    have "q \<in> set (jn_plans j)" "ours q" using find_Some [OF q] by simp_all
    then show ?thesis using assms(1-4) by (auto simp: ours_def distinct_map dest: inj_onD)
  qed
  moreover have "\<not> list_ex (\<lambda>w. \<not> state_finished (ar_State w)) actions"
    using assms(8) by (auto simp: list_ex_iff)
  ultimately have red: "reducePublicationPlan transferID planID j = Inr (j\<lparr>jn_plans := update_where ours upd (jn_plans j)\<rparr>)"
    using q assms(5,7) unfolding reducePublicationPlan_def Let_def assms(6) [symmetric] ours_def [symmetric] upd_def [symmetric]
    by simp
  have "ours p" using assms(3,4) by (simp add: ours_def)
  then have row: "upd p \<in> set (update_where ours upd (jn_plans j))" using assms(2) by (force simp: update_where_def)
  have cls: "pl_OutcomeClass (upd p) = fst (plan_outcome actions)" by (simp add: upd_def)
  show ?thesis
    by (intro exI [of _ "j\<lparr>jn_plans := update_where ours upd (jn_plans j)\<rparr>"] exI [of _ "upd p"])
      (use red row assms(3,4) cls assms(7) in
       \<open>simp add: upd_def plan_outcome_def Let_def plan_count_pos plan_count_all result_defs; blast\<close>)
qed

end
