(* ===== verification/ProductSamples.thy ===== *)
theory ProductSamples
  imports ProductSystemProps LiveAuthSamples PublicationSamples
begin

text \<open>
  A product action from its plan to its retry: the attempt is opened and sent, the answer is empty, the answer is
  recorded, and eleven minutes later the action is sent once more. The guarantees of \<open>ProductActionProps\<close> and
  \<open>ProductSystemProps\<close> are applied to this run.
\<close>

section \<open>The action\<close>

definition request_dg :: digest where "request_dg = DigestParts ''cardpublication-request:v1'' [''V-1'']"
definition members_dg :: digest where "members_dg = replicate 32 (CHR ''m'')"

definition product_codec :: exec_codec where
  "product_codec = \<lparr>cd_upload = cd_upload sample_codec, cd_decodeUpload = cd_decodeUpload sample_codec, cd_add = cd_add sample_codec,
     cd_links = cd_links sample_codec, cd_value = cd_value sample_codec, cd_observation = cd_observation sample_codec,
     cd_decodeAdd = (\<lambda>_. None)\<rparr>"

definition member_one :: product_member where
  "member_one = \<lparr>mb_ID = 8, mb_GroupTargetID = 2, mb_TransferItemTargetID = 1, mb_RequestMemberIndex = 0,
     mb_VendorCode = ''V-1'', mb_OutcomeClass = [], mb_OutcomeCode = [], mb_NMID = 0\<rparr>"

definition candidate :: product_candidate where
  "candidate = \<lparr>pc_TransferID = 5, pc_ActionID = 3, pc_TargetID = 4, pc_SellerID = seller_a, pc_AuthorizationID = 1,
     pc_AuthorizationRevision = 1, pc_PlanDigest = plan_digest, pc_TargetSetRoot = root_digest,
     pc_CatalogVendorCodes = [''V-1'']\<rparr>"

definition product_at :: "string \<Rightarrow> int \<Rightarrow> product_action" where
  "product_at state revision =
     \<lparr>pc_TransferID = 5, pc_ActionID = 3, pc_TargetID = 4, pc_SellerID = seller_a, pc_AuthorizationID = 1,
      pc_AuthorizationRevision = 1, pc_PlanDigest = plan_digest, pc_TargetSetRoot = root_digest,
      pc_CatalogVendorCodes = [''V-1''],
      pa_PlanID = 6, pa_Revision = revision, pa_Kind = ActionCreateGroup, pa_State = state, pa_RequestDigest = request_dg,
      pa_RequestPayload = ''V-1'', pa_MemberSetDigest = members_dg, pa_SellerID = seller_a,
      pa_ClientGeneration = root_digest, pa_CredentialExpiresAt = 9000000, pa_PreflightObservationID = 1,
      pa_Members = [member_one], pa_AttemptID = 0, pa_RecheckObservationID = 0, pa_AttemptStartedAt = 0,
      pa_AttemptFinishedAt = 0, pa_AttemptDelivery = [], pa_AttemptHTTPStatus = 0, pa_AttemptSafeCode = [],
      pa_EmptyResponseRetry = no_retry\<rparr>"

lemma product_facts:
  "SellerID_Validate seller_a = None" "trimmed ''V-1''" "members_dg \<noteq> zero_digest" "length members_dg = 32"
  "decodeExactUpload sample_codec ''V-1'' = Some [sample_upload [''V-1'']]"
  by code_simp+

lemma product_truncate: "codec.truncate product_codec = sample_codec"
  by (simp add: codec.truncate_def product_codec_def)

lemma product_decode: "decodeExactCreate product_codec ''V-1'' = Some [sample_upload [''V-1'']]"
  using product_facts(5) by (simp add: decodeExactCreate_def product_truncate)

lemma upload_codes: "concat (map (\<lambda>g. map uc_VendorCode (ug_Variants g)) [sample_upload [''V-1'']]) = [''V-1'']"
  by (simp add: sample_upload_def sample_variant_def)

lemma product_Validate:
  assumes "request_dg \<noteq> zero_digest"
    and "pc_TransferID a = 5" "pc_ActionID a = 3" "pc_TargetID a = 4" "pa_SellerID a = seller_a" "pc_AuthorizationID a = 1"
      "pc_AuthorizationRevision a = 1" "pc_PlanDigest a = plan_digest" "pc_TargetSetRoot a = root_digest" "pa_PlanID a = 6"
      "0 \<le> pa_Revision a" "pa_Kind a = ActionCreateGroup" "pa_RequestDigest a = request_dg" "pa_RequestPayload a = ''V-1''"
      "pa_MemberSetDigest a = members_dg" "pa_ClientGeneration a = root_digest" "pa_CredentialExpiresAt a = 9000000"
      "pa_PreflightObservationID a = 1" "pa_Members a = [member_one]"
  shows "ProductAction_Validate product_codec a = None"
proof -
  have "action_identity_err a = None"
    using assms product_facts sample_facts(9,10) by (simp add: action_identity_err_def generation_IsZero_def)
  moreover have "each_err member_err 0 (pa_Members a) = None"
    using assms(19) product_facts(2) by (simp add: member_err_def member_one_def)
  moreover have "request_vendor_codes product_codec a = Inr [''V-1'']"
    using assms(12,14) product_decode upload_codes by (simp add: request_vendor_codes_def)
  moreover have "action_VendorCodes a = [''V-1'']" using assms(19) by (simp add: action_VendorCodes_def member_one_def)
  ultimately show ?thesis
    using assms(13,14,19) by (simp add: ProductAction_Validate_def request_dg_def)
qed

section \<open>The journal\<close>

definition action_row :: "string \<Rightarrow> int \<Rightarrow> int option \<Rightarrow> int \<Rightarrow> action_rec" where
  "action_row state revision auth updated =
     \<lparr>ar_ID = 3, ar_TransferID = 5, ar_PlanID = 6, ar_TargetID = 4, ar_Revision = revision, ar_Kind = ActionCreateGroup,
      ar_State = state, ar_OutcomeClass = [], ar_OutcomeCode = [], ar_RequestDigest = request_dg,
      ar_RequestPayload = ''V-1'', ar_MemberSetDigest = members_dg, ar_AuthorizationID = auth, ar_CreatedAt = 1000000,
      ar_UpdatedAt = updated\<rparr>"

definition observation_row :: "int \<Rightarrow> string \<Rightarrow> int \<Rightarrow> observation_rec" where
  "observation_row i kind created =
     \<lparr>ow_ID = i, ow_TransferID = 5, ow_TargetID = 4, ow_SellerID = seller_a, ow_Kind = kind,
      ow_Digest = DigestParts ''cardpublication-observation:v1'' [''o''], ow_NormalCount = 0, ow_TrashCount = 0,
      ow_Payload = ''o'', ow_ObservedAt = 0, ow_CreatedAt = created\<rparr>"

definition journal_start :: journal where
  "journal_start =
     \<lparr>jn_plans = [\<lparr>pl_ID = 6, pl_TransferID = 5, pl_Digest = plan_digest, pl_TargetSetRoot = root_digest, pl_Revision = 0,
        pl_State = ''awaiting_authorization'', pl_OutcomeClass = [], pl_OutcomeCode = []\<rparr>],
      jn_actions = [action_row ''planned'' 0 None 1000000],
      jn_members = [\<lparr>mw_ID = 8, mw_TransferID = 5, mw_ActionID = 3, mw_GroupTargetID = 2, mw_TransferItemTargetID = 1,
        mw_RequestMemberIndex = 0, mw_VendorCode = ''V-1'', mw_OutcomeClass = [], mw_OutcomeCode = [], mw_NMID = 0\<rparr>],
      jn_identities = [\<lparr>iw_SellerID = seller_a, iw_VendorCode = ''V-1'', iw_State = IdentityRemoteMissing, iw_NMID = 0,
        iw_IMTID = 0, iw_SubjectID = 0, iw_Active = None, iw_Revision = 0\<rparr>],
      jn_attempts = [], jn_retries = [], jn_observations = [observation_row 1 ''normal_trash_preflight'' 1000000],
      jn_attributions = [], jn_correlations = [], jn_batches = [], jn_cursors = [],
      jn_targets = [\<lparr>tg_TransferID = 5, tg_ID = 4, tg_Position = 1, tg_SellerID = seller_a,
        tg_ClientGeneration = root_digest, tg_CredentialExpiresAt = 9000000\<rparr>],
      jn_next = 10\<rparr>"

text \<open>The states the run goes through share plans, members, identities and targets but for their marks.\<close>

definition same_tables :: "journal \<Rightarrow> string \<Rightarrow> int \<Rightarrow> int option \<Rightarrow> int \<Rightarrow> bool" where
  "same_tables j state revision auth updated \<longleftrightarrow>
     jn_actions j = [action_row state revision auth updated] \<and> jn_members j = jn_members journal_start \<and>
     jn_targets j = jn_targets journal_start \<and>
     (\<exists>p. jn_plans j = [p] \<and> pl_ID p = 6 \<and> pl_TransferID p = 5 \<and> pl_Digest p = plan_digest \<and> pl_TargetSetRoot p = root_digest) \<and>
     (\<exists>i. jn_identities j = [i] \<and> iw_SellerID i = seller_a \<and> iw_VendorCode i = ''V-1'') \<and>
     (\<exists>obs. jn_observations j = observation_row 1 ''normal_trash_preflight'' 1000000 # obs \<and>
        (\<forall>ob \<in> set obs. ow_Kind ob \<noteq> ''normal_trash_preflight''))"

definition scanned :: "journal \<Rightarrow> string \<Rightarrow> int \<Rightarrow> product_action" where
  "scanned j state revision =
     (product_at state revision)
       \<lparr>pa_AttemptID := (case action_attempt j 3 of None \<Rightarrow> 0 | Some x \<Rightarrow> aw_ID x),
        pa_RecheckObservationID := (case action_attempt j 3 of None \<Rightarrow> 0 | Some x \<Rightarrow> aw_RecheckObservationID x),
        pa_AttemptStartedAt := (case action_attempt j 3 of None \<Rightarrow> 0 | Some x \<Rightarrow> aw_StartedAt x),
        pa_AttemptFinishedAt :=
          (case action_attempt j 3 of None \<Rightarrow> 0 | Some x \<Rightarrow> (case aw_FinishedAt x of None \<Rightarrow> 0 | Some u \<Rightarrow> u)),
        pa_AttemptDelivery := (case action_attempt j 3 of None \<Rightarrow> [] | Some x \<Rightarrow> aw_Delivery x),
        pa_AttemptHTTPStatus := (case action_attempt j 3 of None \<Rightarrow> 0 | Some x \<Rightarrow> aw_HTTPStatus x),
        pa_AttemptSafeCode := (case action_attempt j 3 of None \<Rightarrow> [] | Some x \<Rightarrow> aw_SafeCode x),
        pa_EmptyResponseRetry := scan_retry candidate (action_retry j 5 3)\<rparr>"

lemma authorized_find:
  "find (\<lambda>a. av_TransferID a = 5 \<and> av_ID a = 1) (ld_auths authorized_db) = Some authorized_auth" "av_Revision authorized_auth = 1"
  by (simp_all add: authorized_db_def authorized_auth_def requested_auth_def)

lemma scanned_Validate:
  assumes "request_dg \<noteq> zero_digest" and "0 \<le> revision"
  shows "ProductAction_Validate product_codec (scanned j state revision) = None"
  by (rule product_Validate [OF assms(1)]) (use assms(2) in \<open>simp_all add: scanned_def product_at_def\<close>)

lemma lock_sample:
  assumes "request_dg \<noteq> zero_digest" and "same_tables j state revision auth updated" and "0 \<le> revision"
  shows "LockProductAction product_codec authorized_db j candidate = Inr (scanned j state revision)"
proof -
  obtain p i obs where tables: "jn_actions j = [action_row state revision auth updated]" "jn_members j = jn_members journal_start"
    "jn_targets j = jn_targets journal_start"
    "jn_plans j = [p]" "pl_ID p = 6" "pl_TransferID p = 5" "pl_Digest p = plan_digest" "pl_TargetSetRoot p = root_digest"
    "jn_identities j = [i]" "iw_SellerID i = seller_a" "iw_VendorCode i = ''V-1''"
    "jn_observations j = observation_row 1 ''normal_trash_preflight'' 1000000 # obs"
    "\<forall>ob \<in> set obs. ow_Kind ob \<noteq> ''normal_trash_preflight''"
    using assms(2) unfolding same_tables_def by blast
  have cand: "candidate_row j candidate = Some (action_row state revision auth updated, hd (jn_targets journal_start))"
    using tables by (simp add: candidate_row_def action_key_def action_row_def candidate_def journal_start_def)
  have pre: "preflight_observation j (action_row state revision auth updated) = Some 1"
    using tables(12,13) by (simp add: preflight_observation_def observation_row_def action_row_def filter_False)
  have members: "map scan_member (action_members j 5 3) = [member_one]"
    using tables(2) by (simp add: action_members_def journal_start_def scan_member_def member_one_def)
  have scan: "scan_action j candidate (action_row state revision auth updated) (hd (jn_targets journal_start)) 1 1 = scanned j state revision"
    using members by (simp add: scan_action_def scanned_def product_at_def candidate_def action_row_def journal_start_def)
  have "lockProductIdentities j (scanned j state revision) = None"
    using tables by (simp add: lockProductIdentities_def scanned_def product_at_def affected_def action_VendorCodes_def member_one_def)
  then show ?thesis
    using cand pre scan scanned_Validate [OF assms(1,3)] authorized_find product_facts sample_facts
    unfolding LockProductAction_def
    by (simp add: candidate_def Let_def) (simp add: action_row_def journal_start_def request_dg_def)
qed


section \<open>The dispatch\<close>

definition unit_ops :: "unit result_ops" where
  "unit_ops = \<lparr>ro_BeginWithin = (\<lambda>_ t. Inr t), ro_MarkReconcilingWithin = (\<lambda>_ t. Inr t), ro_ApplyWithin = (\<lambda>_ t. Inr t),
     ro_ResetPlanningWithin = (\<lambda>_ _ t. Inr t), ro_transfer = (\<lambda>_ _. Some (''publishing'', ''running''))\<rparr>"

definition dispatcher_one :: "unit dispatcher" where
  "dispatcher_one = \<lparr>dp_codec = product_codec, dp_authorization = live_svc, dp_results = unit_ops, dp_reconciliationTimeout = 1000000\<rparr>"

definition env_at :: "int \<Rightarrow> step_env" where
  "env_at t = \<lparr>se_tx = ok_tx, se_now = t, se_clock = t, se_view = sample_view\<rparr>"

definition db_of :: "journal \<Rightarrow> unit exec_db" where
  "db_of j = \<lparr>xd_journal = j, xd_live = authorized_db, xd_transfer = ()\<rparr>"

definition quiet_catalog :: observation where
  "quiet_catalog = \<lparr>ob_TargetID = 4, ob_SellerID = seller_a, ob_Normal = [], ob_Trash = [], ob_ObservedAt = 0\<rparr>"

definition stable_recheck :: targeted_recheck where
  "stable_recheck = \<lparr>tr_Observation = \<lparr>od_TargetID = 4, od_SellerID = seller_a,
       od_Digest = DigestParts ''cardpublication-observation:v1'' [''o''], od_NormalCount = 0, od_TrashCount = 0,
       od_Payload = ''o'', od_ObservedAt = 0\<rparr>, tr_Stable = True, tr_SafeCode = ''TARGETED_RECHECK_STABLE''\<rparr>"

definition journal_sent :: journal where
  "journal_sent = journal_start
     \<lparr>jn_plans := [\<lparr>pl_ID = 6, pl_TransferID = 5, pl_Digest = plan_digest, pl_TargetSetRoot = root_digest, pl_Revision = 1,
        pl_State = ''executing'', pl_OutcomeClass = [], pl_OutcomeCode = []\<rparr>],
      jn_actions := [action_row ''dispatching'' 1 (Some 1) 1500000],
      jn_identities := [\<lparr>iw_SellerID = seller_a, iw_VendorCode = ''V-1'', iw_State = ''mutation_pending'', iw_NMID = 0,
        iw_IMTID = 0, iw_SubjectID = 0, iw_Active = Some (5, 3), iw_Revision = 1\<rparr>],
      jn_attempts := [\<lparr>aw_ID = 11, aw_TransferID = 5, aw_ActionID = 3, aw_AuthorizationID = 1, aw_RecheckObservationID = 10,
        aw_BaselineSellerID = seller_a, aw_BaselineRevision = 0, aw_BaselineUpdatedAt = None, aw_BaselineBatchUUID = [],
        aw_BaselineCapturedAt = 1500000, aw_RequestDigest = request_dg, aw_RequestPayload = ''V-1'',
        aw_Delivery = SubmissionNotDispatched, aw_HTTPStatus = 0, aw_Disposition = [], aw_ClassifierVersion = 0,
        aw_SafeCode = [], aw_UnmatchedCount = 0, aw_StartedAt = 1500000, aw_FinishedAt = None\<rparr>],
      jn_observations := [observation_row 1 ''normal_trash_preflight'' 1000000, observation_row 10 ''targeted_recheck'' 1500000],
      jn_cursors := [fresh_cursor seller_a], jn_next := 12\<rparr>"

definition attempt_one :: product_attempt where
  "attempt_one = \<lparr>pat_ID = 11, pat_TransferID = 5, pat_ActionID = 3, pat_AuthorizationID = 1, pat_RecheckObservationID = 10,
     pat_RequestDigest = request_dg, pat_StartedAt = 1500000\<rparr>"

lemma tables_start: "same_tables journal_start ''planned'' 0 None 1000000"
  by (simp add: same_tables_def journal_start_def)

lemma recheck_sample:
  assumes "request_dg \<noteq> zero_digest" and "0 \<le> revision"
  shows "BuildTargetedRecheck product_codec (scanned j state revision) quiet_catalog = Inr stable_recheck"
proof -
  have k: "pc_TargetID (scanned j state revision) = 4" "pa_SellerID (scanned j state revision) = seller_a"
    "pa_Kind (scanned j state revision) = ActionCreateGroup" "pa_Members (scanned j state revision) = [member_one]"
    by (simp_all add: scanned_def product_at_def)
  have "recheck_observation (scanned j state revision) quiet_catalog None = quiet_catalog"
    by (simp add: recheck_observation_def quiet_catalog_def)
  moreover have "DraftObservation sample_codec quiet_catalog = Inr (tr_Observation stable_recheck)"
    by (simp add: DraftObservation_def sample_codec_def quiet_catalog_def stable_recheck_def)
  ultimately show ?thesis
    using k scanned_Validate [OF assms]
    by (simp add: BuildTargetedRecheck_def product_truncate action_defs) (simp add: quiet_catalog_def stable_recheck_def member_one_def)
qed

lemma lock_valid_sample:
  assumes "author_digest \<noteq> zero_digest" and "pv_target pv 5 3 6 4 = Some w" and "target_row_ok 1500000 sample_check w"
    and "targetOwnerMayMutate (tw_OwnerRole w)"
  shows "\<exists>ev. LockValid live_svc pv 1500000 sample_check authorized_db = Inr (authorized_db, ev) \<and>
    le_AuthorizationID ev = 1 \<and> le_Revision ev = 1"
proof -
  have a: "av_ID authorized_auth = 1" "av_TransferID authorized_auth = 5" "av_Revision authorized_auth = 1"
    "av_PlanID authorized_auth = 6" "av_PlanDigest authorized_auth = plan_digest" "av_State authorized_auth = LiveAuthorizationAuthorized"
    "av_ExpiresAt authorized_auth = 2000000" "av_ApprovedAt authorized_auth = Some 1000000"
    "av_TargetSetRoot authorized_auth = root_digest"
    by (simp_all add: authorized_auth_def requested_auth_def)
  have "check_validate sample_check = None"
    using product_facts(1) sample_facts by (simp add: check_validate_def sample_check_def generation_IsZero_def)
  moreover have "lockLiveAuthorization 1 authorized_db = Inr authorized_auth"
    using sample_rows(4) [OF assms(1)] a by (simp add: lockLiveAuthorization_def authorized_db_def scan_auth_def)
  moreover have "expireLiveAuthorization 1500000 authorized_auth authorized_db = Inr (authorized_db, authorized_auth, False)"
    using a by (simp add: expireLiveAuthorization_def)
  moreover have "lc_AuthorizationID sample_check = 1" "lc_TransferID sample_check = 5" "lc_ExpectedRevision sample_check = 1"
    "lc_PlanDigest sample_check = plan_digest" "lc_TargetSetRoot sample_check = root_digest" "lc_ActionID sample_check = 3"
    "lc_TargetID sample_check = 4"
    by (simp_all add: sample_check_def)
  ultimately show ?thesis
    using a assms(2-4) by (simp add: LockValid_def live_svc_def LockValidLive_def)
qed

lemma view_sample:
  assumes "same_tables j ''planned'' 0 None updated" and "jn_plans j = jn_plans journal_start"
  shows "\<exists>w. pv_target (journal_view unit_ops sample_view (db_of j)) 5 3 6 4 = Some w \<and>
    target_row_ok 1500000 sample_check w \<and> targetOwnerMayMutate (tw_OwnerRole w)"
proof -
  have "jn_actions j = [action_row ''planned'' 0 None updated]" "jn_targets j = jn_targets journal_start"
    using assms(1) unfolding same_tables_def by blast+
  then have "pv_target (journal_view unit_ops sample_view (db_of j)) 5 3 6 4 =
      Some (sample_target_row\<lparr>tw_SellerID := seller_a, tw_ClientGeneration := root_digest, tw_CredentialExpiresAt := 9000000,
        tw_Phase := ''publishing'', tw_Outcome := ''running'', tw_ActionState := ''planned'', tw_ActionAuthorizationID := None,
        tw_PlanState := ''awaiting_authorization'', tw_PlanDigest := plan_digest, tw_PlanTargetSetRoot := root_digest\<rparr>)"
    using assms(2)
    by (simp add: journal_view_def journal_target_def db_of_def action_key_def action_row_def journal_start_def unit_ops_def
        sample_view_def)
  then show ?thesis
    by (simp add: target_row_ok_def sample_check_def sample_target_row_def targetOwnerMayMutate_def)
qed

lemma dispatch_sample:
  assumes "request_dg \<noteq> zero_digest" and "author_digest \<noteq> zero_digest"
  shows "dispatch_tx dispatcher_one (env_at 1500000) candidate (scanned journal_start ''planned'' 0) stable_recheck (db_of journal_start) =
    Inr (db_of journal_sent, Dispatched attempt_one)"
proof -
  define j1 where "j1 = journal_start\<lparr>jn_observations := [observation_row 1 ''normal_trash_preflight'' 1000000,
      observation_row 10 ''targeted_recheck'' 1500000], jn_next := 11\<rparr>"
  define action where "action = scanned journal_start ''planned'' 0"
  have action: "action = product_at ''planned'' 0"
    by (simp add: action_def scanned_def action_attempt_def action_retry_def journal_start_def scan_retry_def product_at_def)
  have lock: "LockProductAction product_codec authorized_db journal_start candidate = Inr action"
    using lock_sample [OF assms(1) tables_start] by (simp add: action_def)
  have same: "sameImmutableProductAction action action" by (simp add: sameImmutableProductAction_def same_member_def list_all2_same)
  have obs: "InsertActionObservation 1500000 5 ''targeted_recheck'' (tr_Observation stable_recheck) journal_start = Inr (j1, 10)"
    using product_facts(1)
    by (simp add: InsertActionObservation_def journal_start_def observation_row_def stable_recheck_def pg_time_def five_minutes_def j1_def)
  have "same_tables j1 ''planned'' 0 None 1000000" "jn_plans j1 = jn_plans journal_start"
    by (simp_all add: same_tables_def j1_def journal_start_def observation_row_def)
  then obtain ev where ev: "LockValid live_svc (journal_view unit_ops sample_view (db_of j1)) 1500000 sample_check authorized_db =
      Inr (authorized_db, ev)" "le_AuthorizationID ev = 1" "le_Revision ev = 1"
    using view_sample lock_valid_sample [OF assms(2)] by blast
  have check: "action_check action = sample_check"
    by (simp add: action_check_def action product_at_def sample_check_def)
  define bl where "bl = \<lparr>bl_TransferID = 5, bl_ActionID = 3, bl_SellerID = seller_a, bl_CursorRevision = 0, bl_CursorUpdatedAt = 0,
      bl_CursorBatchUUID = [], bl_CapturedAt = 1500000\<rparr>"
  have seller: "seller_a \<noteq> []" by (simp add: seller_a_def)
  have capture: "CaptureBaseline 1500000 5 3 seller_a j1 = Inr (j1\<lparr>jn_cursors := [fresh_cursor seller_a]\<rparr>, bl)"
    using product_facts(1) seller
    by (simp add: CaptureBaseline_def CaptureErrorBaseline_def ensureErrorCursor_def lockErrorCursor_def j1_def journal_start_def
        fresh_cursor_def action_key_def action_row_def ErrorBaseline_Validate_def bl_def pg_time_def)
  have begins: "BeginProductAttempt 1500000 action ev bl 10 (j1\<lparr>jn_cursors := [fresh_cursor seller_a]\<rparr>) = Inr (journal_sent, attempt_one)"
    using ev(2,3) seller
    by (simp add: BeginProductAttempt_def action product_at_def bl_def ErrorBaseline_Validate_def j1_def journal_start_def affected_def
        free_identity_def action_VendorCodes_def member_one_def dispatchable_row_def action_row_def action_key_def open_plan_def
        update_where_def bind_identity_def new_attempt_def pg_time_def Let_def journal_sent_def attempt_one_def)
  have keys: "pc_TransferID action = 5" "pc_ActionID action = 3" "pa_SellerID action = seller_a"
    by (simp_all add: action product_at_def)
  show ?thesis
    using lock same obs ev(1) check capture begins keys
    by (simp add: dispatch_tx_def dispatcher_one_def env_at_def db_of_def set_journal_def begin_attempt_def Let_def
        stable_recheck_def unit_ops_def action_def [symmetric])
qed


section \<open>An unreadable answer, and the retry\<close>

definition empty_answer :: classified_error where
  "empty_answer = \<lparr>ce_code = ''empty_response'', ce_delivery = ResponseReceived, ce_httpStatus = 200, ce_retryAfter = 0\<rparr>"

definition silent_api :: product_transport where
  "silent_api = (\<lambda>_. Inl (Some empty_answer))"

definition empty_result :: submission_result where
  "empty_result = \<lparr>sr_Delivery = SubmissionResponseReceived, sr_HTTPStatus = 200, sr_ClassifierVersion = 1,
     sr_Disposition = SubmissionUncertain, sr_SafeCode = ''WB_TRANSPORT_EMPTY_RESPONSE'', sr_MemberResults = [],
     sr_UnmatchedCount = 1\<rparr>"

definition call_one :: upload_call where
  "call_one = CallUpload seller_a root_digest [sample_upload [''V-1'']]"

lemma upper_sample: "map upper_ascii ''empty_response'' = ''EMPTY_RESPONSE''"
  by code_simp

lemma execute_sample:
  "executeProductMutation product_codec silent_api (scanned j state revision) = (empty_result, [call_one])"
  using product_decode upper_sample
  by (simp add: executeProductMutation_def scanned_def product_at_def action_defs silent_api_def classify_answer_def
      classifySubmissionError_def empty_answer_def uncertain_result_def empty_result_def submissionClassifierVersion_def call_one_def)

definition journal_open :: journal where
  "journal_open = journal_sent
     \<lparr>jn_actions := [action_row ''reconciling'' 2 (Some 1) 2500000],
      jn_identities := [\<lparr>iw_SellerID = seller_a, iw_VendorCode = ''V-1'', iw_State = ''blocked_uncertain'', iw_NMID = 0,
        iw_IMTID = 0, iw_SubjectID = 0, iw_Active = Some (5, 3), iw_Revision = 2\<rparr>],
      jn_attempts := [\<lparr>aw_ID = 11, aw_TransferID = 5, aw_ActionID = 3, aw_AuthorizationID = 1, aw_RecheckObservationID = 10,
        aw_BaselineSellerID = seller_a, aw_BaselineRevision = 0, aw_BaselineUpdatedAt = None, aw_BaselineBatchUUID = [],
        aw_BaselineCapturedAt = 1500000, aw_RequestDigest = request_dg, aw_RequestPayload = ''V-1'',
        aw_Delivery = SubmissionResponseReceived, aw_HTTPStatus = 200, aw_Disposition = SubmissionUncertain,
        aw_ClassifierVersion = 1, aw_SafeCode = ''WB_TRANSPORT_EMPTY_RESPONSE'', aw_UnmatchedCount = 1, aw_StartedAt = 1500000,
        aw_FinishedAt = Some 2500000\<rparr>]\<rparr>"

lemma tables_sent: "same_tables journal_sent ''dispatching'' 1 (Some 1) 1500000"
  by (simp add: same_tables_def journal_sent_def journal_start_def observation_row_def)

lemma tables_open: "same_tables journal_open ''reconciling'' 2 (Some 1) 2500000"
  by (simp add: same_tables_def journal_open_def journal_sent_def journal_start_def observation_row_def)

lemma record_sample:
  assumes "request_dg \<noteq> zero_digest"
  shows "record_submission_tx dispatcher_one (env_at 2500000) candidate attempt_one empty_result (db_of journal_sent) =
    Inr (db_of journal_open, ())"
proof -
  define action where "action = scanned journal_sent ''dispatching'' 1"
  have action: "pa_State action = ''dispatching''" "pa_AttemptID action = 11" "pc_TransferID action = 5" "pc_ActionID action = 3"
    "pc_AuthorizationID action = 1" "pa_RequestDigest action = request_dg" "pa_SellerID action = seller_a"
    "action_VendorCodes action = [''V-1'']"
    by (simp_all add: action_def scanned_def action_attempt_def journal_sent_def product_at_def action_VendorCodes_def member_one_def)
  have lock: "LockProductAction product_codec authorized_db journal_sent candidate = Inr action"
    using lock_sample [OF assms tables_sent] by (simp add: action_def)
  have valid: "ValidateSubmissionResult empty_result = None"
    by (simp add: ValidateSubmissionResult_def empty_result_def delivery_err_def disposition_err_def delivery_defs disposition_defs)
  have recorded: "RecordSubmission 2500000 action (attemptFromAction action) empty_result journal_sent = Inr journal_open"
    using valid action
    by (simp add: RecordSubmission_def attemptFromAction_def open_attempt_def journal_sent_def attempt_columns_ok_def
        finish_attempt_def empty_result_def optional_status_def delivery_defs disposition_defs pg_time_def since_def Let_def
        action_in_state_def action_key_def action_row_def affected_def update_where_def block_identities_def owned_identity_def
        journal_open_def)
  show ?thesis
    using lock action recorded
    by (simp add: record_submission_tx_def dispatcher_one_def env_at_def db_of_def set_journal_def set_transfer_def unit_ops_def
        attempt_one_def empty_result_def disposition_defs)
qed

definition journal_retried :: journal where
  "journal_retried = journal_open
     \<lparr>jn_actions := [action_row ''reconciling'' 3 (Some 1) 700000000000],
      jn_observations := jn_observations journal_open @ [observation_row 12 ''post_submission'' 700000000000],
      jn_retries := [\<lparr>rw_ID = 13, rw_TransferID = 5, rw_ActionID = 3, rw_AuthorizationID = 1, rw_RequestDigest = request_dg,
        rw_RequestPayload = ''V-1'', rw_Delivery = [], rw_HTTPStatus = 0, rw_Disposition = [], rw_ClassifierVersion = 0,
        rw_SafeCode = [], rw_UnmatchedCount = 0, rw_StartedAt = 700000000000, rw_FinishedAt = None\<rparr>],
      jn_next := 14\<rparr>"

definition retry_one :: product_retry where
  "retry_one = no_retry\<lparr>prt_ID := 13, prt_TransferID := 5, prt_ActionID := 3, prt_AuthorizationID := 1,
     prt_RequestDigest := request_dg, prt_StartedAt := 700000000000\<rparr>"

lemma retry_sample:
  assumes "request_dg \<noteq> zero_digest"
  shows "retry_tx dispatcher_one (env_at 700000000000) candidate (scanned journal_open ''reconciling'' 2) stable_recheck
      (db_of journal_open) = Inr (db_of journal_retried, retry_one)"
proof -
  define action where "action = scanned journal_open ''reconciling'' 2"
  have action: "pa_State action = ''reconciling''" "pa_AttemptID action = 11" "pc_TransferID action = 5" "pc_ActionID action = 3"
    "pc_AuthorizationID action = 1" "pa_RequestDigest action = request_dg" "pa_EmptyResponseRetry action = no_retry"
    by (simp_all add: action_def scanned_def action_attempt_def action_retry_def journal_open_def journal_sent_def journal_start_def
        product_at_def scan_retry_def)
  have lock: "LockProductAction product_codec authorized_db journal_open candidate = Inr action"
    using lock_sample [OF assms tables_open] by (simp add: action_def)
  have same: "sameProductActionProgress action action"
    by (simp add: sameProductActionProgress_def sameImmutableProductAction_def same_member_def same_member_progress_def list_all2_same)
  define j1 where "j1 = journal_open\<lparr>jn_observations := jn_observations journal_open @ [observation_row 12 ''post_submission'' 700000000000],
      jn_next := 13\<rparr>"
  define j2 where "j2 = j1\<lparr>jn_actions := [action_row ''reconciling'' 2 (Some 1) 700000000000]\<rparr>"
  have obs: "InsertActionObservation 700000000000 5 ''post_submission'' (tr_Observation stable_recheck) journal_open = Inr (j1, 12)"
    using product_facts(1)
    by (simp add: InsertActionObservation_def journal_open_def journal_sent_def journal_start_def observation_row_def
        stable_recheck_def pg_time_def five_minutes_def j1_def)
  have poll: "RecordProductReconciliationPoll 700000000000 action 12 [] j1 = Inr j2"
    using action
    by (simp add: RecordProductReconciliationPoll_def ValidateMemberReconciliationResults_def Let_def action_in_state_def
        action_key_def action_row_def affected_def update_where_def j1_def j2_def journal_open_def journal_sent_def
        observation_row_def pg_time_def)
  have begins: "BeginProductRetry 700000000000 action j2 = Inr (journal_retried, retry_one)"
    using action
    by (simp add: BeginProductRetry_def action_in_state_def action_key_def action_row_def retryable_attempt_def action_retry_def
        touch_action_def affected_def update_where_def new_retry_def pg_time_def ten_minutes_def Let_def j1_def j2_def
        journal_open_def journal_sent_def journal_start_def journal_retried_def retry_one_def no_retry_def)
  show ?thesis
    using lock same action obs poll begins
    by (simp add: retry_tx_def dispatcher_one_def env_at_def db_of_def set_journal_def action_def [symmetric]) (simp add: no_retry_def)
qed


section \<open>The run\<close>

definition first_sending :: sending where
  "first_sending = \<lparr>sd_candidate = candidate, sd_action = scanned journal_start ''planned'' 0, sd_ticket = AttemptTicket attempt_one\<rparr>"

definition second_sending :: sending where
  "second_sending = \<lparr>sd_candidate = candidate, sd_action = scanned journal_open ''reconciling'' 2, sd_ticket = RetryTicket retry_one\<rparr>"

definition system_one :: "unit exec_system" where
  "system_one = \<lparr>sy_db = db_of journal_start, sy_armed = [], sy_reports = [], sy_trace = []\<rparr>"

definition system_end :: "unit exec_system" where
  "system_end = \<lparr>sy_db = db_of journal_retried, sy_armed = [], sy_reports = [(second_sending, empty_result)],
     sy_trace = [(first_sending, call_one, empty_result), (second_sending, call_one, empty_result)]\<rparr>"

lemma committed: "fn db = Inr (db', x) \<Longrightarrow> WithinTransaction (se_tx (env_at t)) fn db = (db', Inr x)"
  by (simp add: WithinTransaction_def env_at_def ok_tx_def)

lemma sample_run:
  assumes "request_dg \<noteq> zero_digest" and "author_digest \<noteq> zero_digest"
  shows "product_reachable dispatcher_one system_end"
proof -
  let ?dp = dispatcher_one
  have codec: "dp_codec ?dp = product_codec" by (simp add: dispatcher_one_def)
  have r0: "product_reachable ?dp system_one"
    by (rule product_reachable.start) (simp add: system_start_def system_one_def db_of_def journal_start_def)
  have "dispatcher_step ?dp system_one (system_one\<lparr>sy_db := db_of journal_sent, sy_armed := first_sending # sy_armed system_one\<rparr>)"
    unfolding first_sending_def
  proof (rule dispatcher_step.open_attempt)
    show "BuildTargetedRecheck (dp_codec ?dp) (scanned journal_start ''planned'' 0) quiet_catalog = Inr stable_recheck"
      using recheck_sample [OF assms(1)] by (simp add: codec)
    show "WithinTransaction (se_tx (env_at 1500000)) (dispatch_tx ?dp (env_at 1500000) candidate (scanned journal_start ''planned'' 0)
        stable_recheck) (sy_db system_one) = (db_of journal_sent, Inr (Dispatched attempt_one))"
      by (rule committed) (use dispatch_sample [OF assms] in \<open>simp add: system_one_def\<close>)
    show "opened (Inr (Dispatched attempt_one)) = Some attempt_one" by (simp add: opened_def attempt_one_def)
  qed
  then have r1: "product_reachable ?dp \<lparr>sy_db = db_of journal_sent, sy_armed = [first_sending], sy_reports = [], sy_trace = []\<rparr>"
    using product_reachable.step [OF r0] by (simp add: system_one_def)
  have e1: "executeProductMutation (dp_codec ?dp) silent_api (sd_action first_sending) = (empty_result, [call_one])"
    by (simp add: codec first_sending_def execute_sample)
  have r2: "product_reachable ?dp \<lparr>sy_db = db_of journal_sent, sy_armed = [], sy_reports = [(first_sending, empty_result)],
      sy_trace = [(first_sending, call_one, empty_result)]\<rparr>"
    using product_reachable.step [OF r1 dispatcher_step.send [OF _ e1]] by simp
  have rec: "recordSubmission ?dp (env_at 2500000) (sd_candidate first_sending) attempt_one empty_result (db_of journal_sent) =
      (db_of journal_open, Inr ())"
    unfolding recordSubmission_def by (rule committed) (use record_sample [OF assms(1)] in \<open>simp add: first_sending_def\<close>)
  have "sd_ticket first_sending = AttemptTicket attempt_one" by (simp add: first_sending_def)
  note report = dispatcher_step.report_submission [OF _ this, where dp = ?dp]
  have r3: "product_reachable ?dp \<lparr>sy_db = db_of journal_open, sy_armed = [], sy_reports = [],
      sy_trace = [(first_sending, call_one, empty_result)]\<rparr>"
    using product_reachable.step [OF r2 report] rec by (simp add: exec_system.defs)
  define s3 :: "unit exec_system" where "s3 = \<lparr>sy_db = db_of journal_open, sy_armed = [], sy_reports = [],
      sy_trace = [(first_sending, call_one, empty_result)]\<rparr>"
  have "dispatcher_step ?dp s3 (s3\<lparr>sy_db := db_of journal_retried, sy_armed := second_sending # sy_armed s3\<rparr>)"
    unfolding second_sending_def
  proof (rule dispatcher_step.open_retry)
    show "BuildTargetedRecheck (dp_codec ?dp) (scanned journal_open ''reconciling'' 2) quiet_catalog = Inr stable_recheck"
      using recheck_sample [OF assms(1)] by (simp add: codec)
    show "WithinTransaction (se_tx (env_at 700000000000)) (retry_tx ?dp (env_at 700000000000) candidate (scanned journal_open ''reconciling'' 2)
        stable_recheck) (sy_db s3) = (db_of journal_retried, Inr retry_one)"
      by (rule committed) (simp add: s3_def retry_sample [OF assms(1)])
  qed
  then have r4: "product_reachable ?dp \<lparr>sy_db = db_of journal_retried, sy_armed = [second_sending], sy_reports = [],
      sy_trace = [(first_sending, call_one, empty_result)]\<rparr>"
    using product_reachable.step [OF r3] by (simp add: s3_def)
  have e2: "executeProductMutation (dp_codec ?dp) silent_api (sd_action second_sending) = (empty_result, [call_one])"
    by (simp add: codec second_sending_def execute_sample)
  show ?thesis
    using product_reachable.step [OF r4 dispatcher_step.send [OF _ e2]] by (simp add: system_end_def)
qed

theorem product_sent_at_most_twice_witness:
  "request_dg = zero_digest \<or> author_digest = zero_digest \<or>
   product_reachable dispatcher_one system_end \<and> length (sy_trace system_end) = 2 \<and>
   length (filter (\<lambda>e. pc_ActionID (sd_candidate (fst e)) = 3) (sy_trace system_end)) \<le> 2"
proof (cases "request_dg = zero_digest \<or> author_digest = zero_digest")
  case False
  then have "product_reachable dispatcher_one system_end" by (intro sample_run) simp_all
  then show ?thesis using product_sent_at_most_twice [of dispatcher_one system_end 3] by (simp add: system_end_def)
qed blast

theorem dispatch_opens_checked_witness:
  "request_dg = zero_digest \<or> author_digest = zero_digest \<or>
   (\<exists>action. LockProductAction product_codec authorized_db journal_start candidate = Inr action \<and>
      pa_State action = ''planned'' \<and> reserved action (jn_identities journal_start) (jn_identities journal_sent))"
proof (cases "request_dg = zero_digest \<or> author_digest = zero_digest")
  case False
  then have dg: "request_dg \<noteq> zero_digest" "author_digest \<noteq> zero_digest" by simp_all
  have "BuildTargetedRecheck (dp_codec dispatcher_one) (scanned journal_start ''planned'' 0) quiet_catalog = Inr stable_recheck"
    using recheck_sample [OF dg(1)] by (simp add: dispatcher_one_def)
  from dispatch_opens_checked [OF this dispatch_sample [OF dg]] show ?thesis
    by (auto simp: dispatcher_one_def db_of_def)
qed blast

definition revoked_db :: live_db where
  "revoked_db = authorized_db\<lparr>ld_auths := [authorized_auth\<lparr>av_State := LiveAuthorizationRevoked, av_Revision := 2\<rparr>]\<rparr>"

theorem retry_ignores_authorization_witness:
  "request_dg = zero_digest \<or>
   retry_tx dispatcher_one (env_at 700000000000) candidate (scanned journal_open ''reconciling'' 2) stable_recheck
     ((db_of journal_open)\<lparr>xd_live := revoked_db\<rparr>) = Inr ((db_of journal_retried)\<lparr>xd_live := revoked_db\<rparr>, retry_one)"
proof (cases "request_dg = zero_digest")
  case False
  have "find (\<lambda>a. av_TransferID a = pc_TransferID candidate \<and> av_ID a = pc_AuthorizationID candidate) (ld_auths revoked_db) =
      Some (authorized_auth\<lparr>av_State := LiveAuthorizationRevoked, av_Revision := 2\<rparr>)"
    by (simp add: revoked_db_def authorized_auth_def requested_auth_def candidate_def)
  from retry_ignores_authorization [OF retry_sample [OF False] this] show ?thesis by simp
qed blast

definition journal_partial :: journal where
  "journal_partial = journal_open\<lparr>jn_actions := [(action_row ''terminal'' 4 (Some 1) 1)\<lparr>ar_OutcomeClass := ResultPartial,
     ar_OutcomeCode := ''PRODUCT_RECONCILIATION_PARTIAL''\<rparr>]\<rparr>"

theorem reducePublicationPlan_outcome_witness:
  "\<exists>j' p'. reducePublicationPlan 5 6 journal_partial = Inr j' \<and> p' \<in> set (jn_plans j') \<and>
     pl_State p' = ''terminal'' \<and> pl_OutcomeClass p' = ResultSuccess"
proof -
  define p where "p = hd (jn_plans journal_partial)"
  define actions where "actions = jn_actions journal_partial"
  have facts: "distinct (map (\<lambda>p. (pl_TransferID p, pl_ID p)) (jn_plans journal_partial))" "p \<in> set (jn_plans journal_partial)"
    "pl_TransferID p = 5" "pl_ID p = 6" "pl_State p = ''executing''"
    "actions = filter (plan_action 5 6) (jn_actions journal_partial)" "actions \<noteq> []" "\<forall>w \<in> set actions. state_finished (ar_State w)"
    by (simp_all add: p_def actions_def journal_partial_def journal_open_def journal_sent_def plan_action_def action_row_def state_finished_def)
  have only: "set actions = {(action_row ''terminal'' 4 (Some 1) 1)\<lparr>ar_OutcomeClass := ResultPartial,
     ar_OutcomeCode := ''PRODUCT_RECONCILIATION_PARTIAL''\<rparr>}" by (simp add: actions_def journal_partial_def)
  show ?thesis
    using reducePublicationPlan_outcome [OF facts] unfolding Let_def only by (auto simp: result_defs)
qed

section \<open>The parts\<close>

definition accepting_api :: product_transport where
  "accepting_api = (\<lambda>_. Inr \<lparr>rm_Error = False, rm_ErrorText = [], rm_AdditionalErrors = JNull\<rparr>)"

theorem executeProductMutation_sound_witness:
  "request_dg = zero_digest \<or>
   (\<exists>r call. executeProductMutation product_codec accepting_api (product_at ''planned'' 0) = (r, [call]) \<and>
      ValidateSubmissionResult r = None \<and> call_VendorCodes call = [''V-1''] \<and> sr_Disposition r = SubmissionAccepted)"
proof (cases "request_dg = zero_digest")
  case False
  obtain r calls where run: "executeProductMutation product_codec accepting_api (product_at ''planned'' 0) = (r, calls)" by fastforce
  have valid: "ProductAction_Validate product_codec (product_at ''planned'' 0) = None"
    by (rule product_Validate [OF False]) (simp_all add: product_at_def)
  have "action_VendorCodes (product_at ''planned'' 0) = [''V-1'']" by (simp add: action_VendorCodes_def product_at_def member_one_def)
  then show ?thesis
    using executeProductMutation_sound [OF valid _ _ run] run
    by (auto simp: product_at_def accepting_api_def)
qed blast

definition created_catalog :: observation where
  "created_catalog = quiet_catalog\<lparr>ob_Normal := [remote_card ''V-1'' 90 9 7]\<rparr>"

theorem reconcileProductEvidence_sound_witness:
  "request_dg = zero_digest \<or>
   (\<exists>results code. reconcileProductEvidence product_codec (product_at ''reconciling'' 2) created_catalog [] 5 6 =
        (results, True, ResultSuccess, code) \<and>
      ValidateMemberReconciliationResults (product_at ''reconciling'' 2) results = None)"
proof (cases "request_dg = zero_digest")
  case False
  have valid: "ProductAction_Validate product_codec (product_at ''reconciling'' 2) = None"
    by (rule product_Validate [OF False]) (simp_all add: product_at_def)
  have matches: "observedCardMatchesProductAction product_codec (product_at ''reconciling'' 2) member_one (remote_card ''V-1'' 90 9 7)"
    using product_decode
    by (simp add: observedCardMatchesProductAction_def product_at_def member_one_def remote_card_def sample_upload_def sample_variant_def)
  obtain results finished cls code where
    run: "reconcileProductEvidence product_codec (product_at ''reconciling'' 2) created_catalog [] 5 6 = (results, finished, cls, code)"
    by (metis prod_cases4)
  have "finished" "cls = ResultSuccess"
    using run matches
    by (auto simp: reconcileProductEvidence_def product_at_def settle_member_def member_one_def normal_by_vendor_def trash_by_vendor_def
        errors_by_vendor_def created_catalog_def quiet_catalog_def count_class_def reconcile_verdict_def Let_def remote_card_def)
  then show ?thesis
    using reconcileProductEvidence_sound [OF valid _ _ run] run by (auto simp: product_at_def)
qed blast

end
