(* ===== verification/CardImport.thy ===== *)
theory CardImport
  imports CardPipeline
begin

text \<open>
  The import of product cards from a workbook: sessions and files
  (\<open>internal/feature/cardimport/service/model\<close>), the reader of the sheet
  (\<open>internal/feature/cardimport/transport/xlsx\<close>) and the merging of the rows of one card
  (\<open>internal/feature/cardimport/service/aggregation/aggregate.go\<close>).

  \<open>excelize\<close> is a parameter: a workbook is its sheet names and, for a sheet, the rows it yields. So are
  the parts of the standard library that rest on the Unicode tables or on IEEE arithmetic
  (\<open>strings.ToLower\<close>, \<open>strings.EqualFold\<close>, \<open>strconv.ParseFloat\<close>, the comparison of the two weights).
  The message texts of issues are left out.

  \<open>reflect.DeepEqual\<close> tells a \<open>nil\<close> slice from an empty one, so the slices it compares are options:
  \<open>None\<close> is \<open>nil\<close>.
\<close>

section \<open>Sessions and files\<close>

definition MaxFileSize :: int where "MaxFileSize = 20 * 2 ^ 20"

definition SessionStatusCollecting :: string where "SessionStatusCollecting = ''collecting''"
definition SessionStatusFinalized :: string where "SessionStatusFinalized = ''finalized''"
definition SessionStatusCancelled :: string where "SessionStatusCancelled = ''cancelled''"

definition SessionStatus_IsValid :: "string \<Rightarrow> bool" where
  "SessionStatus_IsValid s \<longleftrightarrow> s \<in> {SessionStatusCollecting, SessionStatusFinalized, SessionStatusCancelled}"

record session =
  ses_ID :: int
  ses_AuthorTelegramID :: int
  ses_Purpose :: purpose
  ses_Status :: string
  ses_Revision :: int
  ses_CreatedAt :: int
  ses_UpdatedAt :: int

definition invalidSession :: "string \<Rightarrow> goerr" where
  "invalidSession message = GoErr ErrInvalidArgument message"

definition Session_Validate :: "session \<Rightarrow> goerr option" where
  "Session_Validate s = first_err
     [(ses_ID s \<le> 0, invalidSession ''session ID must be positive''),
      (ses_AuthorTelegramID s \<le> 0, invalidSession ''author Telegram ID must be positive''),
      (\<not> purpose_IsValid (ses_Purpose s), invalidSession ''unknown purpose''),
      (\<not> SessionStatus_IsValid (ses_Status s), invalidSession ''unknown status''),
      (ses_Revision s < 0, invalidSession ''revision must not be negative''),
      (ses_CreatedAt s = 0, invalidSession ''created time is empty''),
      (ses_UpdatedAt s = 0, invalidSession ''updated time is empty''),
      (ses_UpdatedAt s < ses_CreatedAt s, invalidSession ''updated time precedes created time'')]"

definition FileStatusReserved :: string where "FileStatusReserved = ''reserved''"
definition FileStatusStored :: string where "FileStatusStored = ''stored''"
definition FileStatusParsing :: string where "FileStatusParsing = ''parsing''"
definition FileStatusValid :: string where "FileStatusValid = ''valid''"
definition FileStatusInvalid :: string where "FileStatusInvalid = ''invalid''"
definition FileStatusAbandoned :: string where "FileStatusAbandoned = ''abandoned''"

lemmas file_statuses = FileStatusReserved_def FileStatusStored_def FileStatusParsing_def FileStatusValid_def
  FileStatusInvalid_def FileStatusAbandoned_def

definition FileStatus_IsValid :: "string \<Rightarrow> bool" where
  "FileStatus_IsValid s \<longleftrightarrow>
     s \<in> {FileStatusReserved, FileStatusStored, FileStatusParsing, FileStatusValid, FileStatusInvalid, FileStatusAbandoned}"

record import_file =
  fl_ID :: int
  fl_SessionID :: int
  fl_TelegramFileID :: string
  fl_TelegramFileUniqueID :: string
  fl_TelegramMessageID :: int
  fl_OriginalFilename :: string
  fl_MIMEType :: string
  fl_DeclaredSize :: int
  fl_StoredSize :: int
  fl_SHA256 :: string
  fl_Status :: string
  fl_CreatedAt :: int
  fl_UpdatedAt :: int

definition invalidFile :: "string \<Rightarrow> goerr" where
  "invalidFile message = GoErr ErrInvalidArgument message"

definition file_content_err :: "import_file \<Rightarrow> goerr option" where
  "file_content_err f =
     (if fl_Status f = FileStatusReserved then
        (if fl_StoredSize f \<noteq> 0 \<or> fl_SHA256 f \<noteq> [] then Some (invalidFile ''reserved file contains stored metadata'') else None)
      else if fl_Status f \<in> {FileStatusStored, FileStatusParsing, FileStatusValid, FileStatusInvalid} then
        first_err [(fl_StoredSize f \<le> 0 \<or> MaxFileSize < fl_StoredSize f, invalidFile ''stored size is outside allowed bounds''),
                   (length (fl_SHA256 f) \<noteq> 64, invalidFile ''stored file SHA-256 is invalid'')]
      else None)"

definition File_Validate :: "import_file \<Rightarrow> goerr option" where
  "File_Validate f = or_else (first_err
     [(fl_ID f \<le> 0, invalidFile ''file ID must be positive''),
      (fl_SessionID f \<le> 0, invalidFile ''session ID must be positive''),
      (trim_space (fl_TelegramFileID f) = [], invalidFile ''Telegram file ID is empty''),
      (trim_space (fl_TelegramFileUniqueID f) = [], invalidFile ''Telegram unique file ID is empty''),
      (fl_TelegramMessageID f \<le> 0, invalidFile ''Telegram message ID must be positive''),
      (trim_space (fl_OriginalFilename f) = [], invalidFile ''original filename is empty''),
      (fl_DeclaredSize f \<le> 0 \<or> MaxFileSize < fl_DeclaredSize f, invalidFile ''declared size is outside allowed bounds''),
      (\<not> FileStatus_IsValid (fl_Status f), invalidFile ''unknown status''),
      (fl_CreatedAt f = 0, invalidFile ''created time is empty''),
      (fl_UpdatedAt f = 0, invalidFile ''updated time is empty''),
      (fl_UpdatedAt f < fl_CreatedAt f, invalidFile ''updated time precedes created time'')]) (file_content_err f)"

section \<open>Parsed rows and aggregated cards\<close>

definition IssueSeverityError :: string where "IssueSeverityError = ''error''"

record parse_issue =
  pis_Severity :: string
  pis_Code :: string
  pis_SheetName :: string
  pis_Row :: int
  pis_Column :: string

record parsed_row =
  row_SourceRow :: int
  row_Group :: string
  row_Category :: string
  row_Price :: int
  row_KIZRequirement :: string
  row_AdultOnly :: string
  row_MarkingConfirmed :: string
  row_VATRate :: string
  row_VendorCode :: string
  row_Title :: string
  row_Description :: string
  row_Brand :: string
  row_Dimensions :: dimensions
  row_Sizes :: "card_size list"
  row_Characteristics :: "raw_characteristic list option"
  row_Photos :: "string list option"
  row_Video :: string

record parsed_file =
  pf_FileID :: int
  pf_SheetName :: string
  pf_HeaderRow :: int
  pf_Rows :: "parsed_row list"
  pf_Issues :: "parse_issue list"

definition issues_have_errors :: "parse_issue list \<Rightarrow> bool" where
  "issues_have_errors issues \<longleftrightarrow> list_ex (\<lambda>i. pis_Severity i = IssueSeverityError) issues"

definition ParsedFile_HasErrors :: "parsed_file \<Rightarrow> bool" where
  "ParsedFile_HasErrors f = issues_have_errors (pf_Issues f)"

record aggregated_card =
  ac_SourceRows :: "int list"
  ac_Group :: string
  ac_Category :: string
  ac_Price :: int
  ac_KIZRequirement :: string
  ac_AdultOnly :: string
  ac_MarkingConfirmed :: string
  ac_VATRate :: string
  ac_VendorCode :: string
  ac_Title :: string
  ac_Description :: string
  ac_Brand :: string
  ac_Dimensions :: dimensions
  ac_Sizes :: "card_size list"
  ac_Characteristics :: "raw_characteristic list option"
  ac_Photos :: "string list option"
  ac_Video :: string

record aggregated_file =
  af_FileID :: int
  af_SheetName :: string
  af_Cards :: "aggregated_card list"
  af_Issues :: "parse_issue list"

definition AggregatedFile_HasErrors :: "aggregated_file \<Rightarrow> bool" where
  "AggregatedFile_HasErrors f = issues_have_errors (af_Issues f)"

section \<open>Aggregation\<close>

text \<open>\<open>append([]T(nil), s...)\<close>: a copy, \<open>nil\<close> when there is nothing to copy.\<close>

definition clone_slice :: "'a list option \<Rightarrow> 'a list option" where
  "clone_slice s = (case s of None \<Rightarrow> None | Some xs \<Rightarrow> if xs = [] then None else Some xs)"

fun add_skus :: "string list \<Rightarrow> string list \<Rightarrow> string list" where
  "add_skus known [] = known"
| "add_skus known (sku # skus) = (if sku \<in> set known then add_skus known skus else add_skus (known @ [sku]) skus)"

fun merge_size :: "card_size list \<Rightarrow> card_size \<Rightarrow> card_size list" where
  "merge_size [] sz = [sz]"
| "merge_size (t # ts) sz =
     (if size_TechSize t = size_TechSize sz \<and> size_WBSize t = size_WBSize sz
      then t\<lparr>size_SKUs := add_skus (size_SKUs t) (size_SKUs sz)\<rparr> # ts
      else t # merge_size ts sz)"

definition appendSizes :: "card_size list \<Rightarrow> card_size list \<Rightarrow> card_size list" where
  "appendSizes target sizes = foldl merge_size target sizes"

definition cardFromRow :: "parsed_row \<Rightarrow> aggregated_card" where
  "cardFromRow row =
     \<lparr>ac_SourceRows = [row_SourceRow row], ac_Group = row_Group row, ac_Category = row_Category row,
      ac_Price = row_Price row, ac_KIZRequirement = row_KIZRequirement row, ac_AdultOnly = row_AdultOnly row,
      ac_MarkingConfirmed = row_MarkingConfirmed row, ac_VATRate = row_VATRate row, ac_VendorCode = row_VendorCode row,
      ac_Title = row_Title row, ac_Description = row_Description row, ac_Brand = row_Brand row,
      ac_Dimensions = row_Dimensions row, ac_Sizes = appendSizes [] (row_Sizes row),
      ac_Characteristics = clone_slice (row_Characteristics row), ac_Photos = clone_slice (row_Photos row),
      ac_Video = row_Video row\<rparr>"

definition dimensions_equal :: "dimensions \<Rightarrow> dimensions \<Rightarrow> bool" where
  "dimensions_equal a b \<longleftrightarrow>
     float_eq (dim_Length a) (dim_Length b) \<and> float_eq (dim_Width a) (dim_Width b) \<and>
     float_eq (dim_Height a) (dim_Height b) \<and> float_eq (dim_WeightBrutto a) (dim_WeightBrutto b)"

text \<open>The names of the conflicting fields only reach the message; what matters is whether there are any.\<close>

definition conflictingCardFields :: "aggregated_card \<Rightarrow> parsed_row \<Rightarrow> nat list" where
  "conflictingCardFields c row =
     map fst (filter snd (enumerate 0
      [ac_Group c \<noteq> row_Group row, ac_Category c \<noteq> row_Category row, ac_Price c \<noteq> row_Price row,
       ac_KIZRequirement c \<noteq> row_KIZRequirement row, ac_AdultOnly c \<noteq> row_AdultOnly row,
       ac_MarkingConfirmed c \<noteq> row_MarkingConfirmed row, ac_VATRate c \<noteq> row_VATRate row,
       ac_Title c \<noteq> row_Title row, ac_Description c \<noteq> row_Description row, ac_Brand c \<noteq> row_Brand row,
       \<not> dimensions_equal (ac_Dimensions c) (row_Dimensions row), ac_Characteristics c \<noteq> row_Characteristics row,
       ac_Photos c \<noteq> row_Photos row \<or> ac_Video c \<noteq> row_Video row]))"

definition vendorCodeColumn :: string where
  "vendorCodeColumn =
     [CHR 0xD0, CHR 0x90, CHR 0xD1, CHR 0x80, CHR 0xD1, CHR 0x82, CHR 0xD0, CHR 0xB8, CHR 0xD0, CHR 0xBA,
      CHR 0xD1, CHR 0x83, CHR 0xD0, CHR 0xBB] @ '' '' @ [CHR 0xD0, CHR 0xBF, CHR 0xD1, CHR 0x80, CHR 0xD0, CHR 0xBE,
      CHR 0xD0, CHR 0xB4, CHR 0xD0, CHR 0xB0, CHR 0xD0, CHR 0xB2, CHR 0xD1, CHR 0x86, CHR 0xD0, CHR 0xB0]"

definition barcodesColumn :: string where
  "barcodesColumn =
     [CHR 0xD0, CHR 0x91, CHR 0xD0, CHR 0xB0, CHR 0xD1, CHR 0x80, CHR 0xD0, CHR 0xBA, CHR 0xD0, CHR 0xBE,
      CHR 0xD0, CHR 0xB4, CHR 0xD1, CHR 0x8B]"

definition newIssue :: "string \<Rightarrow> string \<Rightarrow> int \<Rightarrow> string \<Rightarrow> parse_issue" where
  "newIssue code sheetName row column =
     \<lparr>pis_Severity = IssueSeverityError, pis_Code = code, pis_SheetName = sheetName, pis_Row = row, pis_Column = column\<rparr>"

type_synonym seen_barcodes = "(string \<times> (int \<times> string)) list"

fun check_barcodes ::
  "string \<Rightarrow> int \<Rightarrow> string \<Rightarrow> string list \<Rightarrow> seen_barcodes \<Rightarrow> seen_barcodes \<times> parse_issue list" where
  "check_barcodes sheet row code [] seen = (seen, [])"
| "check_barcodes sheet row code (b # bs) seen =
     (let b = trim_space b in
      if b = [] then check_barcodes sheet row code bs seen
      else (case map_of seen b of
              None \<Rightarrow> check_barcodes sheet row code bs ((b, (row, code)) # seen)
            | Some _ \<Rightarrow>
                (let (seen', issues) = check_barcodes sheet row code bs seen
                 in (seen', newIssue ''duplicate_barcode_in_file'' sheet row barcodesColumn # issues))))"

definition duplicateBarcodeIssues :: "string \<Rightarrow> parsed_row \<Rightarrow> seen_barcodes \<Rightarrow> seen_barcodes \<times> parse_issue list" where
  "duplicateBarcodeIssues sheet row seen =
     check_barcodes sheet (row_SourceRow row) (trim_space (row_VendorCode row)) (concat (map size_SKUs (row_Sizes row))) seen"

record aggregation =
  ag_Cards :: "aggregated_card list"
  ag_Indexes :: "(string \<times> nat) list"
  ag_Barcodes :: seen_barcodes
  ag_Issues :: "parse_issue list"

definition aggregate_row :: "string \<Rightarrow> parsed_row \<Rightarrow> aggregation \<Rightarrow> aggregation" where
  "aggregate_row sheet row s =
     (let (seen, issues) = duplicateBarcodeIssues sheet row (ag_Barcodes s);
          s = s\<lparr>ag_Barcodes := seen, ag_Issues := ag_Issues s @ issues\<rparr>;
          code = trim_space (row_VendorCode row)
      in case map_of (ag_Indexes s) code of
           None \<Rightarrow> s\<lparr>ag_Indexes := (code, length (ag_Cards s)) # ag_Indexes s, ag_Cards := ag_Cards s @ [cardFromRow row]\<rparr>
         | Some i \<Rightarrow>
             (let c = ag_Cards s ! i in
              if conflictingCardFields c row \<noteq> []
              then s\<lparr>ag_Issues := ag_Issues s @ [newIssue ''vendor_code_fields_conflict'' sheet (row_SourceRow row) vendorCodeColumn]\<rparr>
              else s\<lparr>ag_Cards := (ag_Cards s)[i := c\<lparr>ac_SourceRows := ac_SourceRows c @ [row_SourceRow row],
                       ac_Sizes := appendSizes (ac_Sizes c) (row_Sizes row)\<rparr>]\<rparr>))"

fun aggregate_rows :: "string \<Rightarrow> parsed_row list \<Rightarrow> aggregation \<Rightarrow> aggregation" where
  "aggregate_rows sheet [] s = s"
| "aggregate_rows sheet (row # rows) s = aggregate_rows sheet rows (aggregate_row sheet row s)"

definition AggregateParsedFile :: "parsed_file \<Rightarrow> aggregated_file" where
  "AggregateParsedFile parsed =
     (let s = aggregate_rows (pf_SheetName parsed) (pf_Rows parsed)
                \<lparr>ag_Cards = [], ag_Indexes = [], ag_Barcodes = [], ag_Issues = pf_Issues parsed\<rparr>
      in \<lparr>af_FileID = pf_FileID parsed, af_SheetName = pf_SheetName parsed, af_Cards = ag_Cards s, af_Issues = ag_Issues s\<rparr>)"

section \<open>Values of cells\<close>

record xlsx_lib =
  xl_toLower :: "string \<Rightarrow> string"
  xl_equalFold :: "string \<Rightarrow> string \<Rightarrow> bool"
  xl_parseFloat :: "string \<Rightarrow> gofloat option"
  xl_columnName :: "nat \<Rightarrow> string"
  xl_weightsDiffer :: "gofloat \<Rightarrow> gofloat \<Rightarrow> bool"

function remove_all :: "string \<Rightarrow> string \<Rightarrow> string" where
  "remove_all old s =
     (if s = [] \<or> old = [] then s
      else if prefix old s then remove_all old (drop (length old) s) else hd s # remove_all old (tl s))"
  by pat_completeness auto
termination
  by (relation "measure (\<lambda>(old, s). length s)") (auto simp: prefix_def)

declare remove_all.simps [simp del]

definition normalizeNumber :: "string \<Rightarrow> string" where
  "normalizeNumber value = remove_all [CHR 0xC2, CHR 0xA0] (remove_all '' '' (trim_space value))"

definition comma_to_dot :: "string \<Rightarrow> string" where
  "comma_to_dot s = map (\<lambda>c. if c = CHR '','' then CHR ''.'' else c) s"

definition not_positive :: "gofloat \<Rightarrow> bool" where
  "not_positive x = (case x of FNaN \<Rightarrow> False | FPosInf \<Rightarrow> False | FNegInf \<Rightarrow> True | FFin q \<Rightarrow> q \<le> 0)"

definition parsePositiveInt64 :: "xlsx_lib \<Rightarrow> string \<Rightarrow> int option" where
  "parsePositiveInt64 L value =
     (let normalized = comma_to_dot (normalizeNumber value) in
      if normalized = [] then None
      else (case xl_parseFloat L normalized of
              Some (FFin q) \<Rightarrow>
                if q \<le> 0 then None
                else (let integer = floor (q + 1 / 2) in if max_int64 < integer \<or> integer \<le> 0 then None else Some integer)
            | _ \<Rightarrow> None))"

definition parsePositiveFloat64 :: "xlsx_lib \<Rightarrow> string \<Rightarrow> gofloat option" where
  "parsePositiveFloat64 L value =
     (let normalized = comma_to_dot (normalizeNumber value) in
      if normalized = [] then None
      else (case xl_parseFloat L normalized of
              None \<Rightarrow> None | Some x \<Rightarrow> if not_positive x then None else Some x))"

text \<open>\<open>strings.FieldsFunc\<close> on ASCII separators.\<close>

fun fields_on :: "(char \<Rightarrow> bool) \<Rightarrow> string \<Rightarrow> string \<Rightarrow> string list" where
  "fields_on sep cur [] = (if cur = [] then [] else [rev cur])"
| "fields_on sep cur (c # s) =
     (if sep c then (if cur = [] then fields_on sep [] s else rev cur # fields_on sep [] s) else fields_on sep (c # cur) s)"

fun unique_values :: "string list \<Rightarrow> string list \<Rightarrow> string list" where
  "unique_values seen [] = []"
| "unique_values seen (part # parts) =
     (let part = trim_space part in
      if part = [] \<or> part \<in> set seen then unique_values seen parts else part # unique_values (part # seen) parts)"

definition splitValues :: "string \<Rightarrow> bool \<Rightarrow> string list" where
  "splitValues value comma =
     unique_values [] (fields_on (\<lambda>c. c = CHR '';'' \<or> c = CHR 0x0A \<or> c = CHR 0x0D \<or> (comma \<and> c = CHR '','')) [] value)"

definition isRowEmpty :: "string list \<Rightarrow> bool" where
  "isRowEmpty row \<longleftrightarrow> list_all (\<lambda>v. trim_space v = []) row"

section \<open>Columns\<close>

definition columnGroup :: string where "columnGroup = ''group''"
definition columnVendorCode :: string where "columnVendorCode = ''vendor_code''"
definition columnWBArticleIgnored :: string where "columnWBArticleIgnored = ''wb_article_ignored''"
definition columnTitle :: string where "columnTitle = ''title''"
definition columnCategory :: string where "columnCategory = ''category''"
definition columnBrand :: string where "columnBrand = ''brand''"
definition columnDescription :: string where "columnDescription = ''description''"
definition columnPhoto :: string where "columnPhoto = ''photo''"
definition columnVideo :: string where "columnVideo = ''video''"
definition columnKIZ :: string where "columnKIZ = ''kiz''"
definition columnWeightBrutto :: string where "columnWeightBrutto = ''weight_brutto''"
definition columnAdultOnly :: string where "columnAdultOnly = ''adult_only''"
definition columnMarkingConfirmed :: string where "columnMarkingConfirmed = ''marking_confirmed''"
definition columnSKUs :: string where "columnSKUs = ''skus''"
definition columnTechSize :: string where "columnTechSize = ''tech_size''"
definition columnWBSize :: string where "columnWBSize = ''wb_size''"
definition columnPrice :: string where "columnPrice = ''price''"
definition columnVATRate :: string where "columnVATRate = ''vat_rate''"
definition columnWeightGrams :: string where "columnWeightGrams = ''weight_grams''"
definition columnHeight :: string where "columnHeight = ''height''"
definition columnLength :: string where "columnLength = ''length''"
definition columnWidth :: string where "columnWidth = ''width''"

lemmas column_defs = columnGroup_def columnVendorCode_def columnWBArticleIgnored_def columnTitle_def
  columnCategory_def columnBrand_def columnDescription_def columnPhoto_def columnVideo_def columnKIZ_def
  columnWeightBrutto_def columnAdultOnly_def columnMarkingConfirmed_def columnSKUs_def columnTechSize_def
  columnWBSize_def columnPrice_def columnVATRate_def columnWeightGrams_def columnHeight_def columnLength_def
  columnWidth_def

definition headerAliases :: "(string \<times> string) list" where
  "headerAliases =
    [(''group'', columnGroup),
     ([CHR 0xD0, CHR 0xB3, CHR 0xD1, CHR 0x80, CHR 0xD1, CHR 0x83, CHR 0xD0, CHR 0xBF, CHR 0xD0, CHR 0xBF, CHR 0xD0,
        CHR 0xB0], columnGroup),
     (''vendorcode'', columnVendorCode),
     ([CHR 0xD0, CHR 0xB0, CHR 0xD1, CHR 0x80, CHR 0xD1, CHR 0x82, CHR 0xD0, CHR 0xB8, CHR 0xD0, CHR 0xBA, CHR 0xD1,
        CHR 0x83, CHR 0xD0, CHR 0xBB, CHR 0xD0, CHR 0xBF, CHR 0xD1, CHR 0x80, CHR 0xD0, CHR 0xBE, CHR 0xD0, CHR 0xB4,
        CHR 0xD0, CHR 0xB0, CHR 0xD0, CHR 0xB2, CHR 0xD1, CHR 0x86, CHR 0xD0, CHR 0xB0], columnVendorCode),
     (''artikulwb'', columnWBArticleIgnored),
     ([CHR 0xD0, CHR 0xB0, CHR 0xD1, CHR 0x80, CHR 0xD1, CHR 0x82, CHR 0xD0, CHR 0xB8, CHR 0xD0, CHR 0xBA, CHR 0xD1,
        CHR 0x83, CHR 0xD0, CHR 0xBB] @ ''wb'', columnWBArticleIgnored),
     (''title'', columnTitle),
     ([CHR 0xD0, CHR 0xBD, CHR 0xD0, CHR 0xB0, CHR 0xD0, CHR 0xB8, CHR 0xD0, CHR 0xBC, CHR 0xD0, CHR 0xB5, CHR 0xD0,
        CHR 0xBD, CHR 0xD0, CHR 0xBE, CHR 0xD0, CHR 0xB2, CHR 0xD0, CHR 0xB0, CHR 0xD0, CHR 0xBD, CHR 0xD0, CHR 0xB8,
        CHR 0xD0, CHR 0xB5], columnTitle),
     (''category'', columnCategory),
     ([CHR 0xD0, CHR 0xBA, CHR 0xD0, CHR 0xB0, CHR 0xD1, CHR 0x82, CHR 0xD0, CHR 0xB5, CHR 0xD0, CHR 0xB3, CHR 0xD0,
        CHR 0xBE, CHR 0xD1, CHR 0x80, CHR 0xD0, CHR 0xB8, CHR 0xD1, CHR 0x8F, CHR 0xD0, CHR 0xBF, CHR 0xD1, CHR 0x80,
        CHR 0xD0, CHR 0xBE, CHR 0xD0, CHR 0xB4, CHR 0xD0, CHR 0xB0, CHR 0xD0, CHR 0xB2, CHR 0xD1, CHR 0x86, CHR 0xD0,
        CHR 0xB0], columnCategory),
     (''brand'', columnBrand),
     ([CHR 0xD0, CHR 0xB1, CHR 0xD1, CHR 0x80, CHR 0xD0, CHR 0xB5, CHR 0xD0, CHR 0xBD, CHR 0xD0, CHR 0xB4],
        columnBrand),
     (''description'', columnDescription),
     ([CHR 0xD0, CHR 0xBE, CHR 0xD0, CHR 0xBF, CHR 0xD0, CHR 0xB8, CHR 0xD1, CHR 0x81, CHR 0xD0, CHR 0xB0, CHR 0xD0,
        CHR 0xBD, CHR 0xD0, CHR 0xB8, CHR 0xD0, CHR 0xB5], columnDescription),
     (''photo'', columnPhoto),
     ([CHR 0xD1, CHR 0x84, CHR 0xD0, CHR 0xBE, CHR 0xD1, CHR 0x82, CHR 0xD0, CHR 0xBE], columnPhoto),
     (''video'', columnVideo),
     ([CHR 0xD0, CHR 0xB2, CHR 0xD0, CHR 0xB8, CHR 0xD0, CHR 0xB4, CHR 0xD0, CHR 0xB5, CHR 0xD0, CHR 0xBE],
        columnVideo),
     (''kiz'', columnKIZ),
     ([CHR 0xD0, CHR 0xBA, CHR 0xD0, CHR 0xB8, CHR 0xD0, CHR 0xB7], columnKIZ),
     (''weightbrutto'', columnWeightBrutto),
     ([CHR 0xD0, CHR 0xB2, CHR 0xD0, CHR 0xB5, CHR 0xD1, CHR 0x81, CHR 0xD1, CHR 0x81, CHR 0xD1, CHR 0x83, CHR 0xD0,
        CHR 0xBF, CHR 0xD0, CHR 0xB0, CHR 0xD0, CHR 0xBA, CHR 0xD0, CHR 0xBE, CHR 0xD0, CHR 0xB2, CHR 0xD0, CHR 0xBA,
        CHR 0xD0, CHR 0xBE, CHR 0xD0, CHR 0xB9] @ ''('' @ [CHR 0xD0, CHR 0xBA, CHR 0xD0, CHR 0xB3] @ '')'',
        columnWeightBrutto),
     ([CHR 0xD0, CHR 0xB2, CHR 0xD0, CHR 0xB5, CHR 0xD1, CHR 0x81, CHR 0xD1, CHR 0x81, CHR 0xD1, CHR 0x83, CHR 0xD0,
        CHR 0xBF, CHR 0xD0, CHR 0xB0, CHR 0xD0, CHR 0xBA, CHR 0xD0, CHR 0xBE, CHR 0xD0, CHR 0xB2, CHR 0xD0, CHR 0xBA,
        CHR 0xD0, CHR 0xBE, CHR 0xD0, CHR 0xB9, CHR 0xD0, CHR 0xBA, CHR 0xD0, CHR 0xB3], columnWeightBrutto),
     ([CHR 0xD0, CHR 0xB2, CHR 0xD0, CHR 0xB5, CHR 0xD1, CHR 0x81, CHR 0xD1, CHR 0x81, CHR 0xD1, CHR 0x83, CHR 0xD0,
        CHR 0xBF, CHR 0xD0, CHR 0xB0, CHR 0xD0, CHR 0xBA, CHR 0xD0, CHR 0xBE, CHR 0xD0, CHR 0xB2, CHR 0xD0, CHR 0xBA,
        CHR 0xD0, CHR 0xBE, CHR 0xD0, CHR 0xB9] @ ''('' @ [CHR 0xD0, CHR 0xBA, CHR 0xD0, CHR 0xB3] @ ''.)'',
        columnWeightBrutto),
     (''18+'', columnAdultOnly),
     ([CHR 0xD0, CHR 0xBF, CHR 0xD0, CHR 0xBE, CHR 0xD0, CHR 0xB4, CHR 0xD1, CHR 0x82, CHR 0xD0, CHR 0xB2, CHR 0xD0,
        CHR 0xB5, CHR 0xD1, CHR 0x80, CHR 0xD0, CHR 0xB6, CHR 0xD0, CHR 0xB4, CHR 0xD0, CHR 0xB0, CHR 0xD1,
        CHR 0x8E] @ '','' @ [CHR 0xD1, CHR 0x87, CHR 0xD1, CHR 0x82, CHR 0xD0, CHR 0xBE, CHR 0xD1, CHR 0x82,
        CHR 0xD0, CHR 0xBE, CHR 0xD0, CHR 0xB2, CHR 0xD0, CHR 0xB0, CHR 0xD1, CHR 0x80, CHR 0xD0, CHR 0xBF, CHR 0xD1,
        CHR 0x80, CHR 0xD0, CHR 0xBE, CHR 0xD0, CHR 0xBC, CHR 0xD0, CHR 0xB0, CHR 0xD1, CHR 0x80, CHR 0xD0, CHR 0xBA,
        CHR 0xD0, CHR 0xB8, CHR 0xD1, CHR 0x80, CHR 0xD0, CHR 0xBE, CHR 0xD0, CHR 0xB2, CHR 0xD0, CHR 0xB0, CHR 0xD0,
        CHR 0xBD], columnMarkingConfirmed),
     (''skus'', columnSKUs),
     ([CHR 0xD0, CHR 0xB1, CHR 0xD0, CHR 0xB0, CHR 0xD1, CHR 0x80, CHR 0xD0, CHR 0xBA, CHR 0xD0, CHR 0xBE, CHR 0xD0,
        CHR 0xB4, CHR 0xD1, CHR 0x8B], columnSKUs),
     ([CHR 0xD0, CHR 0xB1, CHR 0xD1, CHR 0x80, CHR 0xD0, CHR 0xB0, CHR 0xD0, CHR 0xBA, CHR 0xD0, CHR 0xBE, CHR 0xD0,
        CHR 0xB4, CHR 0xD1, CHR 0x8B], columnSKUs),
     (''techsize'', columnTechSize),
     ([CHR 0xD1, CHR 0x80, CHR 0xD0, CHR 0xB0, CHR 0xD0, CHR 0xB7, CHR 0xD0, CHR 0xBC, CHR 0xD0, CHR 0xB5, CHR 0xD1,
        CHR 0x80], columnTechSize),
     (''wbsize'', columnWBSize),
     ([CHR 0xD1, CHR 0x80, CHR 0xD0, CHR 0xBE, CHR 0xD1, CHR 0x81] @ ''.'' @ [CHR 0xD1, CHR 0x80, CHR 0xD0, CHR 0xB0,
        CHR 0xD0, CHR 0xB7, CHR 0xD0, CHR 0xBC, CHR 0xD0, CHR 0xB5, CHR 0xD1, CHR 0x80], columnWBSize),
     (''price'', columnPrice),
     ([CHR 0xD1, CHR 0x86, CHR 0xD0, CHR 0xB5, CHR 0xD0, CHR 0xBD, CHR 0xD0, CHR 0xB0], columnPrice),
     ([CHR 0xD1, CHR 0x81, CHR 0xD1, CHR 0x82, CHR 0xD0, CHR 0xB0, CHR 0xD0, CHR 0xB2, CHR 0xD0, CHR 0xBA, CHR 0xD0,
        CHR 0xB0, CHR 0xD0, CHR 0xBD, CHR 0xD0, CHR 0xB4, CHR 0xD1, CHR 0x81], columnVATRate),
     ([CHR 0xD0, CHR 0xB2, CHR 0xD0, CHR 0xB5, CHR 0xD1, CHR 0x81, CHR 0xD1, CHR 0x82, CHR 0xD0, CHR 0xBE, CHR 0xD0,
        CHR 0xB2, CHR 0xD0, CHR 0xB0, CHR 0xD1, CHR 0x80, CHR 0xD0, CHR 0xB0, CHR 0xD1, CHR 0x81, CHR 0xD1, CHR 0x83,
        CHR 0xD0, CHR 0xBF, CHR 0xD0, CHR 0xB0, CHR 0xD0, CHR 0xBA, CHR 0xD0, CHR 0xBE, CHR 0xD0, CHR 0xB2, CHR 0xD0,
        CHR 0xBA, CHR 0xD0, CHR 0xBE, CHR 0xD0, CHR 0xB9] @ ''('' @ [CHR 0xD0, CHR 0xB3] @ '')'', columnWeightGrams),
     (''height'', columnHeight),
     ([CHR 0xD0, CHR 0xB2, CHR 0xD1, CHR 0x8B, CHR 0xD1, CHR 0x81, CHR 0xD0, CHR 0xBE, CHR 0xD1, CHR 0x82, CHR 0xD0,
        CHR 0xB0, CHR 0xD1, CHR 0x83, CHR 0xD0, CHR 0xBF, CHR 0xD0, CHR 0xB0, CHR 0xD0, CHR 0xBA, CHR 0xD0, CHR 0xBE,
        CHR 0xD0, CHR 0xB2, CHR 0xD0, CHR 0xBA, CHR 0xD0, CHR 0xB8], columnHeight),
     (''length'', columnLength),
     ([CHR 0xD0, CHR 0xB4, CHR 0xD0, CHR 0xBB, CHR 0xD0, CHR 0xB8, CHR 0xD0, CHR 0xBD, CHR 0xD0, CHR 0xB0, CHR 0xD1,
        CHR 0x83, CHR 0xD0, CHR 0xBF, CHR 0xD0, CHR 0xB0, CHR 0xD0, CHR 0xBA, CHR 0xD0, CHR 0xBE, CHR 0xD0, CHR 0xB2,
        CHR 0xD0, CHR 0xBA, CHR 0xD0, CHR 0xB8], columnLength),
     (''width'', columnWidth),
     ([CHR 0xD1, CHR 0x88, CHR 0xD0, CHR 0xB8, CHR 0xD1, CHR 0x80, CHR 0xD0, CHR 0xB8, CHR 0xD0, CHR 0xBD, CHR 0xD0,
        CHR 0xB0, CHR 0xD1, CHR 0x83, CHR 0xD0, CHR 0xBF, CHR 0xD0, CHR 0xB0, CHR 0xD0, CHR 0xBA, CHR 0xD0, CHR 0xBE,
        CHR 0xD0, CHR 0xB2, CHR 0xD0, CHR 0xBA, CHR 0xD0, CHR 0xB8], columnWidth)]"

definition requiredColumns :: "string list" where
  "requiredColumns =
    [columnGroup, columnVendorCode, columnTitle, columnCategory, columnBrand, columnDescription, columnWeightBrutto,
      columnPrice, columnHeight, columnLength, columnWidth]"

text \<open>\<open>strings.Map\<close> that drops the white space; an invalid byte becomes the replacement character.\<close>

function drop_spaces :: "string \<Rightarrow> string" where
  "drop_spaces s =
     (if s = [] then []
      else (let n = rune_size s; r = take n s; rest = drop_spaces (drop n s) in
            if r \<in> set space_encodings then rest
            else if n = 1 \<and> 128 \<le> (of_char (hd s) :: int) then [CHR 0xEF, CHR 0xBF, CHR 0xBD] @ rest
            else r @ rest))"
  by pat_completeness auto
termination
  by (relation "measure length") auto

declare drop_spaces.simps [simp del]

definition normalizeHeader :: "xlsx_lib \<Rightarrow> string \<Rightarrow> string" where
  "normalizeHeader L value = drop_spaces (trim_space (xl_toLower L value))"

definition isHeaderRow :: "xlsx_lib \<Rightarrow> string list \<Rightarrow> bool" where
  "isHeaderRow L row \<longleftrightarrow>
     list_ex (\<lambda>cell. map_of headerAliases (normalizeHeader L cell) = Some columnVendorCode) row \<and>
     list_ex (\<lambda>cell. map_of headerAliases (normalizeHeader L cell) = Some columnCategory) row"

record columns =
  co_headers :: "string list"
  co_indexes :: "(nat \<times> string) list"

text \<open>The columns with a known header, with their canonical names: \<open>indexesByName\<close> lists the indexes of a
  name, \<open>systemIndexes\<close> holds them all.\<close>

definition known_columns :: "xlsx_lib \<Rightarrow> string list \<Rightarrow> (nat \<times> string) list" where
  "known_columns L headerRow =
     concat (map (\<lambda>(index, header).
       if trim_space header = [] then []
       else (case map_of headerAliases (normalizeHeader L (trim_space header)) of None \<Rightarrow> [] | Some name \<Rightarrow> [(index, name)]))
       (enumerate 0 headerRow))"

definition indexesByName :: "columns \<Rightarrow> string \<Rightarrow> nat list" where
  "indexesByName c name = map fst (filter (\<lambda>p. snd p = name) (co_indexes c))"

definition newColumns :: "xlsx_lib \<Rightarrow> string list \<Rightarrow> columns result" where
  "newColumns L headerRow =
     (let c = \<lparr>co_headers = headerRow, co_indexes = known_columns L headerRow\<rparr> in
      if list_ex (\<lambda>name. indexesByName c name = []) requiredColumns
      then Inl (GoErr NoSentinel ''required XLSX columns are missing'') else Inr c)"

definition columns_value :: "columns \<Rightarrow> string list \<Rightarrow> string \<Rightarrow> string" where
  "columns_value c row name =
     (case filter (\<lambda>v. v \<noteq> []) (map (\<lambda>i. trim_space (row ! i)) (filter (\<lambda>i. i < length row) (indexesByName c name))) of
        [] \<Rightarrow> [] | v # _ \<Rightarrow> v)"

definition firstColumn :: "xlsx_lib \<Rightarrow> columns \<Rightarrow> string \<Rightarrow> string" where
  "firstColumn L c name = (case indexesByName c name of [] \<Rightarrow> [] | i # _ \<Rightarrow> xl_columnName L i)"

definition columns_characteristics :: "columns \<Rightarrow> string list \<Rightarrow> raw_characteristic list" where
  "columns_characteristics c row =
     concat (map (\<lambda>(index, rawValue).
       if trim_space rawValue = [] \<or> index \<in> fst ` set (co_indexes c) \<or> length (co_headers c) \<le> index \<or>
          trim_space (co_headers c ! index) = []
       then [] else [\<lparr>rc_ID = 0, rc_Name = trim_space (co_headers c ! index), rc_Value = JStr (trim_space rawValue)\<rparr>])
       (enumerate 0 row))"

section \<open>Rows\<close>

definition requiredText :: "string \<Rightarrow> string \<Rightarrow> string \<Rightarrow> int \<Rightarrow> string \<Rightarrow> string \<times> parse_issue list" where
  "requiredText value code sheet row column =
     (let value = trim_space value in (value, if value = [] then [newIssue code sheet row column] else []))"

definition parsePositiveIntField :: "xlsx_lib \<Rightarrow> string \<Rightarrow> string \<Rightarrow> string \<Rightarrow> int \<Rightarrow> string \<Rightarrow> int \<times> parse_issue list" where
  "parsePositiveIntField L value code sheet row column =
     (case parsePositiveInt64 L value of None \<Rightarrow> (0, [newIssue code sheet row column]) | Some n \<Rightarrow> (n, []))"

definition parsePositiveFloatField ::
  "xlsx_lib \<Rightarrow> string \<Rightarrow> string \<Rightarrow> string \<Rightarrow> int \<Rightarrow> string \<Rightarrow> gofloat \<times> parse_issue list" where
  "parsePositiveFloatField L value code sheet row column =
     (case parsePositiveFloat64 L value of None \<Rightarrow> (FFin 0, [newIssue code sheet row column]) | Some x \<Rightarrow> (x, []))"

definition validateWeightGrams :: "xlsx_lib \<Rightarrow> string \<Rightarrow> gofloat \<Rightarrow> string \<Rightarrow> int \<Rightarrow> string \<Rightarrow> parse_issue list" where
  "validateWeightGrams L value kilograms sheet row column =
     (if trim_space value = [] \<or> column = [] then []
      else (case parsePositiveFloat64 L value of
              None \<Rightarrow> [newIssue ''weight_grams_invalid'' sheet row column]
            | Some grams \<Rightarrow>
                if not_positive kilograms then []
                else if xl_weightsDiffer L kilograms grams then [newIssue ''weight_units_conflict'' sheet row column] else []))"

definition parseRow :: "xlsx_lib \<Rightarrow> string \<Rightarrow> int \<Rightarrow> string list \<Rightarrow> columns \<Rightarrow> parsed_row \<times> parse_issue list" where
  "parseRow L sheet n row c =
     (let v = columns_value c row; col = firstColumn L c;
          (vendorCode, i1) = requiredText (v columnVendorCode) ''vendor_code_required'' sheet n (col columnVendorCode);
          (title, i2) = requiredText (v columnTitle) ''title_required'' sheet n (col columnTitle);
          (category, i3) = requiredText (v columnCategory) ''category_required'' sheet n (col columnCategory);
          (brand, i4) = requiredText (v columnBrand) ''brand_required'' sheet n (col columnBrand);
          (description, i5) = requiredText (v columnDescription) ''description_required'' sheet n (col columnDescription);
          (price, i6) = parsePositiveIntField L (v columnPrice) ''price_invalid'' sheet n (col columnPrice);
          (weight, i7) = parsePositiveFloatField L (v columnWeightBrutto) ''weight_invalid'' sheet n (col columnWeightBrutto);
          (height, i8) = parsePositiveFloatField L (v columnHeight) ''height_invalid'' sheet n (col columnHeight);
          (len, i9) = parsePositiveFloatField L (v columnLength) ''length_invalid'' sheet n (col columnLength);
          (width, i10) = parsePositiveFloatField L (v columnWidth) ''width_invalid'' sheet n (col columnWidth);
          i11 = validateWeightGrams L (v columnWeightGrams) weight sheet n (col columnWeightGrams);
          videos = splitValues (v columnVideo) False;
          i12 = (if 1 < length videos then [newIssue ''too_many_videos'' sheet n (col columnVideo)] else [])
      in (\<lparr>row_SourceRow = n, row_Group = trim_space (v columnGroup), row_Category = category, row_Price = price,
           row_KIZRequirement = v columnKIZ, row_AdultOnly = v columnAdultOnly, row_MarkingConfirmed = v columnMarkingConfirmed,
           row_VATRate = v columnVATRate, row_VendorCode = vendorCode, row_Title = title, row_Description = description,
           row_Brand = brand,
           row_Dimensions = \<lparr>dim_Length = len, dim_Width = width, dim_Height = height, dim_WeightBrutto = weight\<rparr>,
           row_Sizes = [\<lparr>size_TechSize = v columnTechSize, size_WBSize = v columnWBSize, size_Price = 0,
             size_SKUs = splitValues (v columnSKUs) True\<rparr>],
           row_Characteristics = Some (columns_characteristics c row), row_Photos = Some (splitValues (v columnPhoto) False),
           row_Video = (case videos of [] \<Rightarrow> [] | x # _ \<Rightarrow> x)\<rparr>,
          i1 @ i2 @ i3 @ i4 @ i5 @ i6 @ i7 @ i8 @ i9 @ i10 @ i11 @ i12))"

section \<open>The sheet\<close>

definition maxRows :: int where "maxRows = 100000"
definition maxCells :: int where "maxCells = 2000000"
definition maxParsedRows :: int where "maxParsedRows = 50000"

record workbook =
  wk_sheets :: "string list"
  wk_rows :: "string \<Rightarrow> (string list result list \<times> goerr option) result"

definition productsSheetName :: string where
  "productsSheetName = [CHR 0xD0, CHR 0xA2, CHR 0xD0, CHR 0xBE, CHR 0xD0, CHR 0xB2, CHR 0xD0, CHR 0xB0, CHR 0xD1, CHR 0x80,
     CHR 0xD1, CHR 0x8B]"

definition findProductsSheet :: "xlsx_lib \<Rightarrow> workbook \<Rightarrow> string result" where
  "findProductsSheet L w =
     (case find (\<lambda>s. xl_equalFold L (trim_space s) productsSheetName) (wk_sheets w) of
        None \<Rightarrow> Inl (GoErr NoSentinel ''XLSX sheet was not found'') | Some s \<Rightarrow> Inr s)"

record sheet_state =
  ss_columns :: "(columns \<times> int) option"
  ss_cells :: int
  ss_rows :: "parsed_row list"
  ss_issues :: "parse_issue list"

text \<open>The body of the row loop; \<open>n\<close> is the row number.\<close>

definition sheet_row :: "xlsx_lib \<Rightarrow> string \<Rightarrow> int \<Rightarrow> string list result \<Rightarrow> sheet_state \<Rightarrow> sheet_state result" where
  "sheet_row L sheet n input s =
     (if maxRows < n then Inl (GoErr NoSentinel ''XLSX row limit exceeded'')
      else rbind input (\<lambda>row.
        let s = s\<lparr>ss_cells := ss_cells s + int (length row)\<rparr> in
        if maxCells < ss_cells s then Inl (GoErr NoSentinel ''XLSX cell limit exceeded'')
        else (case ss_columns s of
                None \<Rightarrow>
                  if \<not> isHeaderRow L row then Inr s
                  else rbind (newColumns L row) (\<lambda>c. Inr (s\<lparr>ss_columns := Some (c, n)\<rparr>))
              | Some (c, headerRow) \<Rightarrow>
                  if n = headerRow + 1 \<or> isRowEmpty row then Inr s
                  else (let (parsed, issues) = parseRow L sheet n row c; s = s\<lparr>ss_issues := ss_issues s @ issues\<rparr> in
                        if issues_have_errors issues then Inr s
                        else (let s = s\<lparr>ss_rows := ss_rows s @ [parsed]\<rparr> in
                              if maxParsedRows < int (length (ss_rows s))
                              then Inl (GoErr NoSentinel ''XLSX parsed row limit exceeded'') else Inr s)))))"

fun sheet_rows :: "xlsx_lib \<Rightarrow> string \<Rightarrow> int \<Rightarrow> string list result list \<Rightarrow> sheet_state \<Rightarrow> sheet_state result" where
  "sheet_rows L sheet n [] s = Inr s"
| "sheet_rows L sheet n (r # rs) s = rbind (sheet_row L sheet n r s) (sheet_rows L sheet (n + 1) rs)"

definition Parse :: "xlsx_lib \<Rightarrow> int \<Rightarrow> workbook result \<Rightarrow> parsed_file result" where
  "Parse L fileID opened =
     (if fileID \<le> 0 then Inl (GoErr NoSentinel ''cardimport file ID must be positive'')
      else
        rbind opened (\<lambda>w.
        rbind (findProductsSheet L w) (\<lambda>sheet.
        rbind (wk_rows w sheet) (\<lambda>(rows, rowsErr).
        rbind (sheet_rows L sheet 1 rows \<lparr>ss_columns = None, ss_cells = 0, ss_rows = [], ss_issues = []\<rparr>) (\<lambda>s.
          case rowsErr of
            Some e \<Rightarrow> Inl e
          | None \<Rightarrow>
              (case ss_columns s of
                 None \<Rightarrow> Inl (GoErr NoSentinel ''XLSX header row with seller article and category was not found'')
               | Some (c, headerRow) \<Rightarrow>
                   Inr \<lparr>pf_FileID = fileID, pf_SheetName = sheet, pf_HeaderRow = headerRow, pf_Rows = ss_rows s,
                        pf_Issues = (if ss_rows s = [] \<and> ss_issues s = []
                          then [newIssue ''products_empty'' sheet headerRow []] else ss_issues s)\<rparr>))))))"

end
