(* ===== verification/CardImportProps.thy ===== *)
theory CardImportProps
  imports CardImport
begin

text \<open>
  What the import promises. The aggregation of a parsed file is compared with a grouping of its rows by
  vendor code; the reader of the sheet with a selection of the rows below the first header.
\<close>

section \<open>Aggregation as grouping\<close>

definition row_code :: "parsed_row \<Rightarrow> string" where
  "row_code row = trim_space (row_VendorCode row)"

definition row_barcodes :: "parsed_row \<Rightarrow> string list" where
  "row_barcodes row = filter (\<lambda>b. b \<noteq> []) (map trim_space (concat (map size_SKUs (row_Sizes row))))"

text \<open>The elements of a list in the order in which they first occur.\<close>

definition firsts :: "'a list \<Rightarrow> 'a list" where
  "firsts xs = rev (remdups (rev xs))"

lemma firsts_snoc: "firsts (xs @ [x]) = (if x \<in> set xs then firsts xs else firsts xs @ [x])"
  by (simp add: firsts_def)

lemma firsts_simps [simp]: "firsts [] = []" "set (firsts xs) = set xs" "distinct (firsts xs)"
  by (simp_all add: firsts_def)

text \<open>The rows of a vendor code that agree with its first row, and the card they give.\<close>

definition same_code :: "parsed_row list \<Rightarrow> string \<Rightarrow> parsed_row list" where
  "same_code rows code = filter (\<lambda>r. row_code r = code) rows"

definition agreeing :: "parsed_row list \<Rightarrow> parsed_row list" where
  "agreeing rows = (case rows of [] \<Rightarrow> [] | r # rest \<Rightarrow> r # filter (\<lambda>x. conflictingCardFields (cardFromRow r) x = []) rest)"

definition merged_card :: "parsed_row list \<Rightarrow> aggregated_card" where
  "merged_card rows = (cardFromRow (hd rows))\<lparr>ac_SourceRows := map row_SourceRow rows,
     ac_Sizes := appendSizes [] (concat (map row_Sizes rows))\<rparr>"

definition code_card :: "parsed_row list \<Rightarrow> string \<Rightarrow> aggregated_card" where
  "code_card rows code = merged_card (agreeing (same_code rows code))"

lemma same_code_simps:
  "same_code [] code = []"
  "same_code (rows @ [r]) code = (if row_code r = code then same_code rows code @ [r] else same_code rows code)"
  by (simp_all add: same_code_def)

lemma same_code_Nil_iff: "same_code rows code = [] \<longleftrightarrow> code \<notin> row_code ` set rows"
  by (auto simp: same_code_def filter_empty_conv)

lemma agreeing_simps: "agreeing [] = []" "agreeing [r] = [r]"
  by (simp_all add: agreeing_def)

lemma agreeing_snoc:
  "rows \<noteq> [] \<Longrightarrow> agreeing (rows @ [x]) =
     (if conflictingCardFields (cardFromRow (hd rows)) x = [] then agreeing rows @ [x] else agreeing rows)"
  by (cases rows) (simp_all add: agreeing_def)

lemma hd_agreeing: "rows \<noteq> [] \<Longrightarrow> hd (agreeing rows) = hd rows \<and> agreeing rows \<noteq> []"
  by (cases rows) (simp_all add: agreeing_def)

lemma agreeing_id_snoc:
  "agreeing (rows @ [x]) = rows @ [x] \<longleftrightarrow>
     agreeing rows = rows \<and> (rows = [] \<or> conflictingCardFields (cardFromRow (hd rows)) x = [])"
proof (cases rows)
  case (Cons r rest)
  have "length (filter P xs) \<noteq> length (xs @ [x])" for P :: "parsed_row \<Rightarrow> bool" and xs
    using length_filter_le [of P xs] by (simp del: length_filter_le)
  then have "filter P xs \<noteq> xs @ [x]" for P :: "parsed_row \<Rightarrow> bool" and xs
    by metis
  with Cons show ?thesis by (simp add: agreeing_def)
qed (simp add: agreeing_simps)

lemma conflictingCardFields_merged [simp]:
  "conflictingCardFields (merged_card rows) x = conflictingCardFields (cardFromRow (hd rows)) x"
  by (simp add: conflictingCardFields_def merged_card_def cardFromRow_def)

lemma appendSizes_append: "appendSizes ts (xs @ ys) = appendSizes (appendSizes ts xs) ys"
  by (simp add: appendSizes_def)

lemma merged_card_single: "merged_card [r] = cardFromRow r"
  by (simp add: merged_card_def cardFromRow_def)

lemma merged_card_snoc:
  assumes "rows \<noteq> []"
  shows "merged_card (rows @ [x]) = (merged_card rows)\<lparr>ac_SourceRows := ac_SourceRows (merged_card rows) @ [row_SourceRow x],
           ac_Sizes := appendSizes (ac_Sizes (merged_card rows)) (row_Sizes x)\<rparr>"
  using assms by (simp add: merged_card_def appendSizes_append)

definition all_errors :: "parse_issue list \<Rightarrow> bool" where
  "all_errors issues \<longleftrightarrow> (\<forall>i \<in> set issues. pis_Severity i = IssueSeverityError)"

lemma all_errors_simps [simp]:
  "all_errors []" "all_errors [newIssue code sheet n col]" "all_errors (xs @ ys) \<longleftrightarrow> all_errors xs \<and> all_errors ys"
  by (auto simp: all_errors_def newIssue_def)

lemma all_errors_Cons: "all_errors (x # xs) \<longleftrightarrow> pis_Severity x = IssueSeverityError \<and> all_errors xs"
  by (simp add: all_errors_def)

lemma all_errors_have_errors: "all_errors issues \<Longrightarrow> issues_have_errors issues \<longleftrightarrow> issues \<noteq> []"
  by (cases issues) (auto simp: all_errors_def issues_have_errors_def)

subsection \<open>Barcodes\<close>

lemma check_barcodes_spec:
  assumes "check_barcodes sheet row code bs seen = (seen', issues)"
  shows "all_errors issues \<and> fst ` set seen' = fst ` set seen \<union> set (filter (\<lambda>b. b \<noteq> []) (map trim_space bs)) \<and>
         (issues = [] \<longleftrightarrow> distinct (filter (\<lambda>b. b \<noteq> []) (map trim_space bs)) \<and>
            set (filter (\<lambda>b. b \<noteq> []) (map trim_space bs)) \<inter> fst ` set seen = {})"
  using assms
proof (induction sheet row code bs seen arbitrary: seen' issues rule: check_barcodes.induct)
  case (2 sheet row code b bs seen)
  show ?case
  proof (cases "trim_space b = []")
    case True
    with 2 show ?thesis by simp
  next
    case False
    show ?thesis
    proof (cases "map_of seen (trim_space b)")
      case None
      then have fresh: "trim_space b \<notin> fst ` set seen"
        by (simp add: map_of_eq_None_iff)
      have "check_barcodes sheet row code bs ((trim_space b, row, code) # seen) = (seen', issues)"
        using 2(4) False None by simp
      from 2(2) [OF refl False None this] show ?thesis
        using False fresh by auto
    next
      case (Some a)
      then have known: "trim_space b \<in> fst ` set seen"
        by (metis map_of_eq_None_iff option.distinct(1))
      obtain issues' where rest: "check_barcodes sheet row code bs seen = (seen', issues')"
        and "issues = newIssue ''duplicate_barcode_in_file'' sheet row barcodesColumn # issues'"
        using 2(4) False Some by (auto split: prod.splits)
      with 2(3) [OF refl False Some rest] show ?thesis
        using False known by (auto simp: all_errors_Cons newIssue_def)
    qed
  qed
qed simp

lemma duplicateBarcodeIssues_spec:
  assumes "duplicateBarcodeIssues sheet row seen = (seen', issues)"
  shows "fst ` set seen' = fst ` set seen \<union> set (row_barcodes row)"
    and "issues = [] \<longleftrightarrow> distinct (row_barcodes row) \<and> set (row_barcodes row) \<inter> fst ` set seen = {}"
    and "all_errors issues"
  using check_barcodes_spec [OF assms [unfolded duplicateBarcodeIssues_def]]
  by (simp_all add: row_barcodes_def)

subsection \<open>The loop\<close>

definition agg_ok :: "parsed_row list \<Rightarrow> bool" where
  "agg_ok rows \<longleftrightarrow> distinct (concat (map row_barcodes rows)) \<and>
     (\<forall>code. agreeing (same_code rows code) = same_code rows code)"

lemma agg_ok_snoc:
  "agg_ok (rows @ [r]) \<longleftrightarrow> agg_ok rows \<and>
     (distinct (row_barcodes r) \<and> set (row_barcodes r) \<inter> set (concat (map row_barcodes rows)) = {}) \<and>
     (same_code rows (row_code r) = [] \<or> conflictingCardFields (cardFromRow (hd (same_code rows (row_code r)))) r = [])"
proof -
  have "(\<forall>code. agreeing (same_code (rows @ [r]) code) = same_code (rows @ [r]) code) \<longleftrightarrow>
        (\<forall>code. agreeing (same_code rows code) = same_code rows code) \<and>
        agreeing (same_code rows (row_code r) @ [r]) = same_code rows (row_code r) @ [r]"
    by (auto simp: same_code_simps agreeing_id_snoc)
  then show ?thesis
    by (auto simp: agg_ok_def agreeing_id_snoc)
qed

definition agg_inv :: "parse_issue list \<Rightarrow> parsed_row list \<Rightarrow> aggregation \<Rightarrow> bool" where
  "agg_inv issues rows s \<longleftrightarrow>
     ag_Cards s = map (code_card rows) (firsts (map row_code rows)) \<and>
     (\<forall>code i. map_of (ag_Indexes s) code = Some i \<longleftrightarrow>
        i < length (firsts (map row_code rows)) \<and> firsts (map row_code rows) ! i = code) \<and>
     fst ` set (ag_Barcodes s) = set (concat (map row_barcodes rows)) \<and>
     (\<exists>extra. ag_Issues s = issues @ extra \<and> all_errors extra \<and> (extra = [] \<longleftrightarrow> agg_ok rows))"

lemma code_card_other: "code \<noteq> row_code r \<Longrightarrow> code_card (rows @ [r]) code = code_card rows code"
  by (simp add: code_card_def same_code_simps)

lemma code_card_new: "same_code rows (row_code r) = [] \<Longrightarrow> code_card (rows @ [r]) (row_code r) = cardFromRow r"
  by (simp add: code_card_def same_code_simps agreeing_simps merged_card_single)

lemma conflictingCardFields_code_card:
  "same_code rows code \<noteq> [] \<Longrightarrow>
     conflictingCardFields (code_card rows code) x = conflictingCardFields (cardFromRow (hd (same_code rows code))) x"
  by (simp add: code_card_def hd_agreeing)

lemma code_card_same:
  assumes "same_code rows (row_code r) \<noteq> []"
  shows "code_card (rows @ [r]) (row_code r) =
           (let c = code_card rows (row_code r) in
            if conflictingCardFields c r = []
            then c\<lparr>ac_SourceRows := ac_SourceRows c @ [row_SourceRow r], ac_Sizes := appendSizes (ac_Sizes c) (row_Sizes r)\<rparr>
            else c)"
  using assms
  by (simp add: code_card_def same_code_simps agreeing_snoc hd_agreeing merged_card_snoc Let_def)

lemma map_code_card_update:
  assumes "distinct codes" and "i < length codes" and "codes ! i = row_code r"
  shows "map (code_card (rows @ [r])) codes = (map (code_card rows) codes)[i := code_card (rows @ [r]) (row_code r)]"
proof (rule nth_equalityI)
  fix j
  assume "j < length (map (code_card (rows @ [r])) codes)"
  moreover from this have "codes ! j = row_code r \<longleftrightarrow> j = i"
    using assms by (simp add: nth_eq_iff_index_eq [symmetric])
  ultimately show "map (code_card (rows @ [r])) codes ! j = (map (code_card rows) codes)[i := code_card (rows @ [r]) (row_code r)] ! j"
    using assms by (cases "j = i") (simp_all add: code_card_other)
qed simp

lemma aggregate_row_inv:
  assumes inv: "agg_inv issues rows s"
  shows "agg_inv issues (rows @ [r]) (aggregate_row sheet r s)"
proof -
  define code where "code = row_code r"
  define codes where "codes = firsts (map row_code rows)"
  obtain seen new where bc: "duplicateBarcodeIssues sheet r (ag_Barcodes s) = (seen, new)"
    by (cases "duplicateBarcodeIssues sheet r (ag_Barcodes s)")
  from inv obtain extra where cards: "ag_Cards s = map (code_card rows) codes"
    and idx: "\<And>c i. map_of (ag_Indexes s) c = Some i \<longleftrightarrow> i < length codes \<and> codes ! i = c"
    and bars: "fst ` set (ag_Barcodes s) = set (concat (map row_barcodes rows))"
    and iss: "ag_Issues s = issues @ extra" "extra = [] \<longleftrightarrow> agg_ok rows" "all_errors extra"
    unfolding agg_inv_def codes_def by blast
  have bars': "fst ` set seen = set (concat (map row_barcodes (rows @ [r])))"
    and new: "new = [] \<longleftrightarrow> distinct (row_barcodes r) \<and> set (row_barcodes r) \<inter> set (concat (map row_barcodes rows)) = {}"
    and new_err: "all_errors new"
    using duplicateBarcodeIssues_spec [OF bc] bars by auto
  have code_eq: "trim_space (row_VendorCode r) = code"
    by (simp add: code_def row_code_def)
  have codes: "set codes = row_code ` set rows" "distinct codes"
    by (simp_all add: codes_def)
  show ?thesis
  proof (cases "map_of (ag_Indexes s) code")
    case None
    then have fresh: "code \<notin> set codes"
      using idx [of code] by (metis in_set_conv_nth option.distinct(1))
    then have empty: "same_code rows (row_code r) = []"
      by (simp add: same_code_Nil_iff codes code_def)
    have step: "aggregate_row sheet r s = s\<lparr>ag_Barcodes := seen, ag_Issues := ag_Issues s @ new,
        ag_Indexes := (code, length (ag_Cards s)) # ag_Indexes s, ag_Cards := ag_Cards s @ [cardFromRow r]\<rparr>"
      using None by (simp add: aggregate_row_def bc code_eq)
    have codes': "firsts (map row_code (rows @ [r])) = codes @ [code]"
      using fresh codes by (simp add: firsts_snoc codes_def code_def)
    have "map (code_card (rows @ [r])) (codes @ [code]) = ag_Cards s @ [cardFromRow r]"
      using fresh empty by (simp add: cards code_def code_card_new) (metis code_card_other)
    moreover have "map_of ((code, length codes) # ag_Indexes s) c = Some i \<longleftrightarrow>
        i < length (codes @ [code]) \<and> (codes @ [code]) ! i = c" for c i
      using idx [of c i] fresh by (auto simp: nth_append less_Suc_eq)
    moreover have "ag_Issues s @ new = issues @ (extra @ new)" "extra @ new = [] \<longleftrightarrow> agg_ok (rows @ [r])"
      "all_errors (extra @ new)"
      using iss new new_err empty by (simp_all add: agg_ok_snoc)
    ultimately show ?thesis
      using bars' cards unfolding agg_inv_def codes' step by auto
  next
    case (Some i)
    then have i: "i < length codes" "codes ! i = row_code r"
      using idx [of code i] by (simp_all add: code_def)
    then have known: "code \<in> set codes"
      unfolding code_def by (metis nth_mem)
    then have nonempty: "same_code rows (row_code r) \<noteq> []"
      by (simp add: same_code_Nil_iff codes code_def)
    have codes': "firsts (map row_code (rows @ [r])) = codes"
      using known codes by (simp add: firsts_snoc codes_def code_def)
    define c where "c = code_card rows (row_code r)"
    have c: "ag_Cards s ! i = c"
      using i by (simp add: cards c_def)
    define fields where "fields = conflictingCardFields c r"
    have fields: "fields = conflictingCardFields (cardFromRow (hd (same_code rows (row_code r)))) r"
      using nonempty by (simp add: fields_def c_def conflictingCardFields_code_card)
    define more where "more = (if fields = [] then [] else
        [newIssue ''vendor_code_fields_conflict'' sheet (row_SourceRow r) vendorCodeColumn])"
    have step: "aggregate_row sheet r s = s\<lparr>ag_Barcodes := seen, ag_Issues := ag_Issues s @ new @ more,
        ag_Cards := (ag_Cards s)[i := code_card (rows @ [r]) (row_code r)]\<rparr>"
    proof (cases "fields = []")
      case True
      with Some nonempty show ?thesis
        by (simp add: aggregate_row_def bc code_eq Let_def c code_card_same more_def fields_def c_def [symmetric])
    next
      case False
      have "(ag_Cards s)[i := c] = ag_Cards s"
        using c by (metis list_update_id)
      moreover have "s\<lparr>ag_Barcodes := x, ag_Issues := y\<rparr> = s\<lparr>ag_Barcodes := x, ag_Issues := y, ag_Cards := ag_Cards s\<rparr>" for x y
        by (cases s) simp
      ultimately show ?thesis
        using False Some nonempty
        by (simp add: aggregate_row_def bc code_eq Let_def c code_card_same more_def fields_def c_def [symmetric])
    qed
    have "map (code_card (rows @ [r])) codes = (ag_Cards s)[i := code_card (rows @ [r]) (row_code r)]"
      using i codes by (simp add: cards map_code_card_update)
    moreover have "ag_Issues s @ new @ more = issues @ (extra @ new @ more)"
      "extra @ new @ more = [] \<longleftrightarrow> agg_ok (rows @ [r])" "all_errors (extra @ new @ more)"
      using iss new new_err nonempty fields by (simp_all add: agg_ok_snoc more_def)
    ultimately show ?thesis
      using bars' idx unfolding agg_inv_def codes' step by auto
  qed
qed

lemma aggregate_rows_snoc: "aggregate_rows sheet (rows @ [r]) s = aggregate_row sheet r (aggregate_rows sheet rows s)"
  by (induction rows arbitrary: s) simp_all

lemma aggregate_rows_inv:
  "agg_inv issues rows (aggregate_rows sheet rows
     \<lparr>ag_Cards = [], ag_Indexes = [], ag_Barcodes = [], ag_Issues = issues\<rparr>)"
proof (induction rows rule: rev_induct)
  case Nil
  then show ?case by (simp add: agg_inv_def agg_ok_def same_code_simps agreeing_simps)
next
  case (snoc r rows)
  then show ?case by (simp only: aggregate_rows_snoc aggregate_row_inv)
qed

lemma AggregateParsedFile_spec:
  "af_Cards (AggregateParsedFile parsed) =
     map (\<lambda>code. merged_card (agreeing (same_code (pf_Rows parsed) code))) (firsts (map row_code (pf_Rows parsed))) \<and>
   (\<exists>extra. af_Issues (AggregateParsedFile parsed) = pf_Issues parsed @ extra \<and> all_errors extra \<and>
      (extra = [] \<longleftrightarrow> distinct (concat (map row_barcodes (pf_Rows parsed))) \<and>
         (\<forall>code. agreeing (same_code (pf_Rows parsed) code) = same_code (pf_Rows parsed) code)))"
  using aggregate_rows_inv [of "pf_Issues parsed" "pf_Rows parsed" "pf_SheetName parsed"]
  by (simp add: AggregateParsedFile_def agg_inv_def agg_ok_def Let_def code_card_def [abs_def])

text \<open>C: aggregation is a grouping: there is one card for every vendor code of the file, in the order in which
  the codes first occur; it has the fields of the first row with that code, the source rows of all rows that agree
  with it and their sizes merged. Error issues are added exactly when a barcode of the file occurs twice or a row
  disagrees with the first row of its code.\<close>

theorem AggregateParsedFile_groups:
  "af_Cards (AggregateParsedFile parsed) =
     map (\<lambda>code. merged_card (agreeing (same_code (pf_Rows parsed) code))) (firsts (map row_code (pf_Rows parsed))) \<and>
   (\<exists>extra. af_Issues (AggregateParsedFile parsed) = pf_Issues parsed @ extra \<and> all_errors extra \<and>
      (extra = [] \<longleftrightarrow> distinct (concat (map row_barcodes (pf_Rows parsed))) \<and>
         (\<forall>code. agreeing (same_code (pf_Rows parsed) code) = same_code (pf_Rows parsed) code)))"
  by (rule AggregateParsedFile_spec)

section \<open>The reader of the sheet\<close>

text \<open>What a row that is passed on looks like.\<close>

definition row_wf :: "parsed_row \<Rightarrow> bool" where
  "row_wf r \<longleftrightarrow>
     row_VendorCode r \<noteq> [] \<and> row_Title r \<noteq> [] \<and> row_Category r \<noteq> [] \<and> row_Brand r \<noteq> [] \<and> row_Description r \<noteq> [] \<and>
     trimmed (row_VendorCode r) \<and> trimmed (row_Title r) \<and> trimmed (row_Category r) \<and> trimmed (row_Brand r) \<and>
     trimmed (row_Description r) \<and> trimmed (row_Group r) \<and>
     0 < row_Price r \<and> row_Price r \<le> max_int64 \<and>
     \<not> not_positive (dim_Length (row_Dimensions r)) \<and> \<not> not_positive (dim_Width (row_Dimensions r)) \<and>
     \<not> not_positive (dim_Height (row_Dimensions r)) \<and> \<not> not_positive (dim_WeightBrutto (row_Dimensions r)) \<and>
     (\<exists>tech wb skus. row_Sizes r = [\<lparr>size_TechSize = tech, size_WBSize = wb, size_Price = 0, size_SKUs = skus\<rparr>] \<and>
        distinct skus \<and> [] \<notin> set skus) \<and>
     (\<exists>photos. row_Photos r = Some photos \<and> distinct photos \<and> [] \<notin> set photos)"

lemma unique_values_spec:
  "distinct (unique_values seen parts) \<and> [] \<notin> set (unique_values seen parts) \<and>
   set (unique_values seen parts) \<inter> set seen = {}"
  by (induction seen parts rule: unique_values.induct) (auto simp: Let_def)

lemma splitValues_spec: "distinct (splitValues v comma)" "[] \<notin> set (splitValues v comma)"
  using unique_values_spec [of "[]"] by (simp_all add: splitValues_def)

lemma requiredText_ok: "snd (requiredText v code sheet n col) = [] \<Longrightarrow> fst (requiredText v code sheet n col) \<noteq> []"
  by (simp add: requiredText_def Let_def split: if_splits)

lemma requiredText_trimmed: "trimmed (fst (requiredText v code sheet n col))"
  by (simp add: requiredText_def Let_def)

lemma parsePositiveInt64_range: "parsePositiveInt64 L v = Some n \<Longrightarrow> 0 < n \<and> n \<le> max_int64"
  by (auto simp: parsePositiveInt64_def Let_def split: if_splits option.splits gofloat.splits)

lemma parsePositiveFloat64_positive: "parsePositiveFloat64 L v = Some x \<Longrightarrow> \<not> not_positive x"
  by (auto simp: parsePositiveFloat64_def Let_def split: if_splits option.splits)

lemma parsePositiveIntField_ok:
  assumes "snd (parsePositiveIntField L v code sheet n col) = []"
  shows "0 < fst (parsePositiveIntField L v code sheet n col)"
    and "fst (parsePositiveIntField L v code sheet n col) \<le> max_int64"
  using assms by (simp_all add: parsePositiveIntField_def parsePositiveInt64_range split: option.splits)

lemma parsePositiveFloatField_ok:
  "snd (parsePositiveFloatField L v code sheet n col) = [] \<Longrightarrow>
     \<not> not_positive (fst (parsePositiveFloatField L v code sheet n col))"
  by (simp add: parsePositiveFloatField_def parsePositiveFloat64_positive split: option.splits)

lemmas parse_field_ok = requiredText_ok requiredText_trimmed parsePositiveIntField_ok parsePositiveFloatField_ok

lemma parseRow_wf: "parseRow L sheet n row c = (r, []) \<Longrightarrow> row_wf r \<and> row_SourceRow r = n"
  unfolding parseRow_def Let_def case_prod_beta prod.inject append_is_Nil_conv
  by (auto simp: row_wf_def parse_field_ok splitValues_spec)

lemma field_issues_all_errors:
  "all_errors (snd (requiredText v code sheet n col))"
  "all_errors (snd (parsePositiveIntField L v code sheet n col))"
  "all_errors (snd (parsePositiveFloatField L v code sheet n col))"
  "all_errors (validateWeightGrams L v kg sheet n col)"
  by (simp_all add: requiredText_def Let_def parsePositiveIntField_def parsePositiveFloatField_def validateWeightGrams_def
      split: option.splits)

lemma parseRow_all_errors: "all_errors (snd (parseRow L sheet n row c))"
  unfolding parseRow_def Let_def case_prod_beta snd_conv
  by (simp add: field_issues_all_errors)

lemma parseRow_has_errors: "issues_have_errors (snd (parseRow L sheet n row c)) \<longleftrightarrow> snd (parseRow L sheet n row c) \<noteq> []"
  by (simp add: all_errors_have_errors parseRow_all_errors)

text \<open>The outcomes of the non-empty rows, the first of which has number \<open>k\<close>.\<close>

definition row_results :: "xlsx_lib \<Rightarrow> string \<Rightarrow> columns \<Rightarrow> nat \<Rightarrow> string list list \<Rightarrow> (parsed_row \<times> parse_issue list) list" where
  "row_results L sheet c k rows =
     map (\<lambda>(n, row). parseRow L sheet (int n) row c) (filter (\<lambda>(n, row). \<not> isRowEmpty row) (enumerate k rows))"

lemma row_results_simps [simp]:
  "row_results L sheet c k [] = []"
  "row_results L sheet c k (row # rows) =
     (if isRowEmpty row then row_results L sheet c (Suc k) rows
      else parseRow L sheet (int k) row c # row_results L sheet c (Suc k) rows)"
  by (simp_all add: row_results_def)

definition good_rows :: "(parsed_row \<times> parse_issue list) list \<Rightarrow> parsed_row list" where
  "good_rows results = map fst (filter (\<lambda>p. snd p = []) results)"

lemma good_rows_simps [simp]:
  "good_rows [] = []" "good_rows (p # ps) = (if snd p = [] then fst p # good_rows ps else good_rows ps)"
  by (simp_all add: good_rows_def)

lemma sheet_rows_data:
  assumes "ss_columns s = Some (c, h)" and "h + 1 < int k" and "int (length (ss_rows s)) \<le> maxParsedRows"
    and "sheet_rows L sheet (int k) ins s = Inr s'"
  shows "\<exists>rows. ins = map Inr rows \<and> int k + int (length rows) \<le> max (int k) (maxRows + 1) \<and> ss_columns s' = Some (c, h) \<and>
     ss_rows s' = ss_rows s @ good_rows (row_results L sheet c k rows) \<and>
     ss_issues s' = ss_issues s @ concat (map snd (row_results L sheet c k rows)) \<and>
     int (length (ss_rows s')) \<le> maxParsedRows"
  using assms
proof (induction ins arbitrary: k s)
  case Nil
  then show ?case by simp
next
  case (Cons x ins)
  from Cons.prems(4) obtain s1 where s1: "sheet_row L sheet (int k) x s = Inr s1"
    and rest: "sheet_rows L sheet (int (Suc k)) ins s1 = Inr s'"
    by (auto simp: rbind_eq_Inr_iff algebra_simps)
  from s1 obtain row where row: "x = Inr row" "int k \<le> maxRows"
    by (auto simp: sheet_row_def rbind_eq_Inr_iff split: if_splits)
  have step: "ss_columns s1 = Some (c, h) \<and> int (length (ss_rows s1)) \<le> maxParsedRows \<and>
      ss_rows s1 = ss_rows s @ good_rows (row_results L sheet c k [row]) \<and>
      ss_issues s1 = ss_issues s @ concat (map snd (row_results L sheet c k [row]))"
    using s1 Cons.prems(1-3) row
    by (cases "parseRow L sheet (int k) row c")
       (use parseRow_has_errors [of L sheet "int k" row c] in
         \<open>auto simp: sheet_row_def Let_def split: if_splits\<close>)
  with Cons.IH [OF _ _ _ rest] Cons.prems(2) obtain rows where
    "ins = map Inr rows" "int (Suc k) + int (length rows) \<le> max (int (Suc k)) (maxRows + 1)"
    "ss_columns s' = Some (c, h)" "int (length (ss_rows s')) \<le> maxParsedRows"
    "ss_rows s' = ss_rows s1 @ good_rows (row_results L sheet c (Suc k) rows)"
    "ss_issues s' = ss_issues s1 @ concat (map snd (row_results L sheet c (Suc k) rows))"
    by auto
  with step row show ?case
    by (intro exI [of _ "row # rows"]) (auto simp: max_def split: if_splits)
qed

lemma sheet_rows_header:
  assumes "ss_columns s = None" and "sheet_rows L sheet (int k) ins s = Inr s'" and "ss_columns s' = Some (c, h)"
  shows "\<exists>pre hdr post s1. ins = map Inr pre @ Inr hdr # post \<and> list_all (\<lambda>r. \<not> isHeaderRow L r) pre \<and>
     isHeaderRow L hdr \<and> (\<exists>c1. newColumns L hdr = Inr c1 \<and> ss_columns s1 = Some (c1, int (k + length pre))) \<and>
     sheet_rows L sheet (int (Suc (k + length pre))) post s1 = Inr s' \<and> ss_rows s1 = ss_rows s \<and> ss_issues s1 = ss_issues s"
  using assms
proof (induction ins arbitrary: k s)
  case Nil
  then show ?case by simp
next
  case (Cons x ins)
  from Cons.prems(2) obtain s1 where s1: "sheet_row L sheet (int k) x s = Inr s1"
    and rest: "sheet_rows L sheet (int (Suc k)) ins s1 = Inr s'"
    by (auto simp: rbind_eq_Inr_iff algebra_simps)
  from s1 obtain row where row: "x = Inr row"
    by (auto simp: sheet_row_def rbind_eq_Inr_iff split: if_splits)
  show ?case
  proof (cases "isHeaderRow L row")
    case True
    with s1 row Cons.prems(1) rest show ?thesis
      by (intro exI [of _ "[]"] exI [of _ row] exI [of _ ins] exI [of _ s1])
         (auto simp: sheet_row_def Let_def rbind_eq_Inr_iff split: if_splits)
  next
    case False
    with s1 row Cons.prems(1) have same: "ss_columns s1 = None" "ss_rows s1 = ss_rows s" "ss_issues s1 = ss_issues s"
      by (auto simp: sheet_row_def Let_def split: if_splits)
    from Cons.IH [OF same(1) rest Cons.prems(3)] obtain pre hdr post s2 where
      "ins = map Inr pre @ Inr hdr # post" "list_all (\<lambda>r. \<not> isHeaderRow L r) pre" "isHeaderRow L hdr"
      "\<exists>c1. newColumns L hdr = Inr c1 \<and> ss_columns s2 = Some (c1, int (Suc k + length pre))"
      "sheet_rows L sheet (int (Suc (Suc k + length pre))) post s2 = Inr s'"
      "ss_rows s2 = ss_rows s1" "ss_issues s2 = ss_issues s1"
      by blast
    with False row same show ?thesis
      by (intro exI [of _ "row # pre"] exI [of _ hdr] exI [of _ post] exI [of _ s2]) simp
  qed
qed

text \<open>The row below the header is skipped.\<close>

lemma sheet_rows_below:
  assumes "ss_columns s = Some (c, int k)" and "ss_rows s = []" and "ss_issues s = []"
    and "sheet_rows L sheet (int (Suc k)) post s = Inr s'" and "int k < maxRows"
  shows "\<exists>rows. post = map Inr rows \<and> int (k + length rows) \<le> maxRows \<and> ss_columns s' = Some (c, int k) \<and>
     ss_rows s' = good_rows (row_results L sheet c (Suc (Suc k)) (tl rows)) \<and>
     ss_issues s' = concat (map snd (row_results L sheet c (Suc (Suc k)) (tl rows))) \<and>
     int (length (ss_rows s')) \<le> maxParsedRows"
proof (cases post)
  case Nil
  with assms show ?thesis by (simp add: maxParsedRows_def)
next
  case (Cons x post')
  with assms(4) obtain s1 where s1: "sheet_row L sheet (int (Suc k)) x s = Inr s1"
    and rest: "sheet_rows L sheet (int (Suc (Suc k))) post' s1 = Inr s'"
    by (auto simp: rbind_eq_Inr_iff algebra_simps)
  from s1 assms(1-3) obtain row where row: "x = Inr row"
    and same: "ss_columns s1 = Some (c, int k)" "ss_rows s1 = []" "ss_issues s1 = []"
    by (auto simp: sheet_row_def rbind_eq_Inr_iff Let_def split: if_splits)
  from sheet_rows_data [OF same(1) _ _ rest] same obtain rows where
    "post' = map Inr rows" "int (Suc (Suc k)) + int (length rows) \<le> max (int (Suc (Suc k))) (maxRows + 1)"
    "ss_columns s' = Some (c, int k)" "int (length (ss_rows s')) \<le> maxParsedRows"
    "ss_rows s' = good_rows (row_results L sheet c (Suc (Suc k)) rows)"
    "ss_issues s' = concat (map snd (row_results L sheet c (Suc (Suc k)) rows))"
    by (auto simp: maxParsedRows_def)
  with Cons row assms(5) show ?thesis
    by (intro exI [of _ "row # rows"]) (auto simp: max_def split: if_splits)
qed

lemma sheet_rows_number_bound: "sheet_rows L sheet n ins s = Inr s' \<Longrightarrow> ins \<noteq> [] \<Longrightarrow> n + int (length ins) \<le> maxRows + 1"
proof (induction ins arbitrary: n s)
  case (Cons x ins)
  from Cons.prems(1) obtain s1 where "sheet_row L sheet n x s = Inr s1" and rest: "sheet_rows L sheet (n + 1) ins s1 = Inr s'"
    by (auto simp: rbind_eq_Inr_iff)
  then have "n \<le> maxRows"
    by (auto simp: sheet_row_def split: if_splits)
  with Cons.IH [OF rest] show ?case by (cases "ins = []") auto
qed simp

text \<open>All that is known of a parsed file, in terms of the rows of the sheet.\<close>

lemma Parse_cases:
  assumes "Parse L fileID source = Inr pf"
  obtains w pre hdr post c where "0 < fileID" "source = Inr w" "pf_FileID pf = fileID"
    "findProductsSheet L w = Inr (pf_SheetName pf)"
    "wk_rows w (pf_SheetName pf) = Inr (map Inr (pre @ hdr # post), None)"
    "list_all (\<lambda>r. \<not> isHeaderRow L r) pre" "isHeaderRow L hdr" "newColumns L hdr = Inr c"
    "pf_HeaderRow pf = int (Suc (length pre))" "int (length (pre @ hdr # post)) \<le> maxRows"
    "pf_Rows pf = good_rows (row_results L (pf_SheetName pf) c (length pre + 3) (tl post))"
    "pf_Issues pf = (if row_results L (pf_SheetName pf) c (length pre + 3) (tl post) = []
       then [newIssue ''products_empty'' (pf_SheetName pf) (pf_HeaderRow pf) []]
       else concat (map snd (row_results L (pf_SheetName pf) c (length pre + 3) (tl post))))"
    "int (length (pf_Rows pf)) \<le> maxParsedRows"
proof -
  define init where "init = \<lparr>ss_columns = None, ss_cells = 0, ss_rows = [], ss_issues = []\<rparr>"
  from assms obtain w sheet ins s c h where top: "0 < fileID" "source = Inr w" "findProductsSheet L w = Inr sheet"
    "wk_rows w sheet = Inr (ins, None)" and run: "sheet_rows L sheet 1 ins init = Inr s"
    and h: "ss_columns s = Some (c, h)"
    and pf: "pf = \<lparr>pf_FileID = fileID, pf_SheetName = sheet, pf_HeaderRow = h, pf_Rows = ss_rows s,
       pf_Issues = (if ss_rows s = [] \<and> ss_issues s = [] then [newIssue ''products_empty'' sheet h []] else ss_issues s)\<rparr>"
    by (auto simp: Parse_def rbind_eq_Inr_iff init_def split: if_splits option.splits)
  have "sheet_rows L sheet (int 1) ins init = Inr s" "ss_columns init = None" "ss_rows init = []" "ss_issues init = []"
    using run by (simp_all add: init_def)
  with sheet_rows_header [OF _ _ h, of init L sheet 1 ins] obtain pre hdr post s1 c1 where hd:
    "ins = map Inr pre @ Inr hdr # post" "list_all (\<lambda>r. \<not> isHeaderRow L r) pre" "isHeaderRow L hdr"
    "newColumns L hdr = Inr c1" "ss_columns s1 = Some (c1, int (Suc (length pre)))"
    "sheet_rows L sheet (int (Suc (Suc (length pre)))) post s1 = Inr s" "ss_rows s1 = []" "ss_issues s1 = []"
    by auto
  have bound: "int (length ins) \<le> maxRows"
    using sheet_rows_number_bound [OF run] by (cases "ins = []") (simp_all add: maxRows_def)
  show thesis
  proof (cases "post = []")
    case True
    with hd have s: "s = s1" by simp
    show thesis
    proof (rule that)
      show "wk_rows w (pf_SheetName pf) = Inr (map Inr (pre @ hdr # []), None)"
        using hd(1) top True by (simp add: pf)
    qed (use top hd h pf bound s True in \<open>simp_all add: maxParsedRows_def\<close>)
  next
    case False
    with hd(1) bound have "int (Suc (length pre)) < maxRows" by (cases post) simp_all
    from sheet_rows_below [OF hd(5,7,8,6) this] obtain rows where rows: "post = map Inr rows"
      "ss_columns s = Some (c1, int (Suc (length pre)))"
      "ss_rows s = good_rows (row_results L sheet c1 (length pre + 3) (tl rows))"
      "ss_issues s = concat (map snd (row_results L sheet c1 (length pre + 3) (tl rows)))"
      "int (length (ss_rows s)) \<le> maxParsedRows"
      by (auto simp: numeral_3_eq_3)
    have empty: "good_rows ps = [] \<and> concat (map snd ps) = [] \<longleftrightarrow> ps = []" for ps :: "(parsed_row \<times> parse_issue list) list"
      by (induction ps) auto
    show thesis
    proof (rule that)
      show "wk_rows w (pf_SheetName pf) = Inr (map Inr (pre @ hdr # rows), None)"
        using hd(1) top rows(1) by (simp add: pf)
      show "pf_Issues pf = (if row_results L (pf_SheetName pf) c1 (length pre + 3) (tl rows) = []
         then [newIssue ''products_empty'' (pf_SheetName pf) (pf_HeaderRow pf) []]
         else concat (map snd (row_results L (pf_SheetName pf) c1 (length pre + 3) (tl rows))))"
        unfolding pf by (simp add: rows(3,4) empty del: concat_eq_Nil_conv)
    qed (use top hd h pf bound rows in simp_all)
  qed
qed

lemma good_rows_wf: "r \<in> set (good_rows (row_results L sheet c k rows)) \<Longrightarrow> row_wf r"
proof (induction rows arbitrary: k)
  case (Cons row rows)
  then show ?case
    by (cases "parseRow L sheet (int k) row c") (auto split: if_splits dest: parseRow_wf)
qed simp

lemma good_rows_numbers:
  "sorted_wrt (<) (map row_SourceRow (good_rows (row_results L sheet c k rows))) \<and>
   (\<forall>r \<in> set (good_rows (row_results L sheet c k rows)). int k \<le> row_SourceRow r \<and> row_SourceRow r < int (k + length rows))"
proof (induction rows arbitrary: k)
  case (Cons row rows)
  have "row_SourceRow (fst (parseRow L sheet (int k) row c)) = int k" if "snd (parseRow L sheet (int k) row c) = []"
    using that parseRow_wf by (metis prod.collapse)
  with Cons [of "Suc k"] show ?case by force
qed simp

text \<open>C: a file is read exactly: the sheet is the one named for the products, the header is the first row with a
  vendor code and a category column, the row below it is skipped, and of the rows further down every non-empty one
  is either passed on, in order and under its own number, or reported; a file with neither gets an issue too.\<close>

theorem Parse_exact:
  assumes "Parse L fileID source = Inr pf"
  shows "\<exists>w pre hdr post c. source = Inr w \<and> findProductsSheet L w = Inr (pf_SheetName pf) \<and>
     wk_rows w (pf_SheetName pf) = Inr (map Inr (pre @ hdr # post), None) \<and>
     list_all (\<lambda>r. \<not> isHeaderRow L r) pre \<and> isHeaderRow L hdr \<and> newColumns L hdr = Inr c \<and>
     pf_HeaderRow pf = int (Suc (length pre)) \<and>
     (let results = map (\<lambda>(n, row). parseRow L (pf_SheetName pf) (int n) row c)
                      (filter (\<lambda>(n, row). \<not> isRowEmpty row) (enumerate (length pre + 3) (tl post)))
      in pf_Rows pf = map fst (filter (\<lambda>(r, issues). issues = []) results) \<and>
         pf_Issues pf = (if results = [] then [newIssue ''products_empty'' (pf_SheetName pf) (pf_HeaderRow pf) []]
                         else concat (map snd results)))"
  using assms
proof (rule Parse_cases, goal_cases)
  case (1 w pre hdr post c)
  have good: "map fst (filter (\<lambda>(r, issues). issues = []) results) = good_rows results"
    for results :: "(parsed_row \<times> parse_issue list) list"
    by (simp add: good_rows_def case_prod_beta')
  show ?case
    unfolding Let_def good row_results_def [symmetric]
    by (rule exI [of _ w], rule exI [of _ pre], rule exI [of _ hdr], rule exI [of _ post], rule exI [of _ c]) (simp add: 1)
qed

text \<open>C: the rows of a parsed file are well typed: the required texts are there and trimmed, the price is a
  positive 64-bit integer, no dimension is zero or negative, there is one size with distinct barcodes, the row
  numbers increase and lie between the row below the header and the row limit, there are at most 50000 of them,
  and a file without error issues has at least one.\<close>

theorem Parse_rows_valid:
  assumes "Parse L fileID source = Inr pf"
  shows "list_all row_wf (pf_Rows pf) \<and> sorted_wrt (<) (map row_SourceRow (pf_Rows pf)) \<and>
     list_all (\<lambda>r. pf_HeaderRow pf + 1 < row_SourceRow r \<and> row_SourceRow r \<le> maxRows) (pf_Rows pf) \<and>
     int (length (pf_Rows pf)) \<le> maxParsedRows \<and> 0 < pf_FileID pf \<and>
     (pf_Rows pf \<noteq> [] \<or> ParsedFile_HasErrors pf)"
  using assms
proof (rule Parse_cases, goal_cases)
  case (1 w pre hdr post c)
  define results where "results = row_results L (pf_SheetName pf) c (length pre + 3) (tl post)"
  have rows: "pf_Rows pf = good_rows results"
    using 1 by (simp add: results_def)
  have "list_all row_wf (pf_Rows pf)"
    by (auto simp: rows results_def list_all_iff intro: good_rows_wf)
  moreover have "sorted_wrt (<) (map row_SourceRow (pf_Rows pf))"
    using good_rows_numbers [of L "pf_SheetName pf" c "length pre + 3" "tl post"] by (simp add: rows results_def)
  moreover have "pf_HeaderRow pf + 1 < row_SourceRow r \<and> row_SourceRow r \<le> maxRows" if "r \<in> set (pf_Rows pf)" for r
    using good_rows_numbers [of L "pf_SheetName pf" c "length pre + 3" "tl post"] 1 that by (cases post) auto
  moreover have "all_errors (pf_Issues pf)"
    using 1 parseRow_all_errors by (auto simp: row_results_def all_errors_def newIssue_def)
  moreover have "pf_Rows pf \<noteq> [] \<or> pf_Issues pf \<noteq> []"
    using 1 by (cases results) (auto simp: results_def good_rows_def)
  ultimately show ?case
    using 1 by (auto simp: list_all_iff ParsedFile_HasErrors_def all_errors_have_errors)
qed

section \<open>Rows without photos or characteristics\<close>

lemma clone_slice_not_empty: "clone_slice s \<noteq> Some []"
  by (simp add: clone_slice_def split: option.splits)

lemma bare_row_conflicts:
  assumes "row_Photos x = Some [] \<or> row_Characteristics x = Some []"
  shows "conflictingCardFields (cardFromRow r) x \<noteq> []"
proof -
  have ne: "clone_slice s \<noteq> row_Photos x" if "row_Photos x = Some []" for s :: "string list option"
    using that clone_slice_not_empty by metis
  have "clone_slice s \<noteq> row_Characteristics x" if "row_Characteristics x = Some []" for s :: "raw_characteristic list option"
    using that clone_slice_not_empty by metis
  with ne assms show ?thesis
    by (auto simp: conflictingCardFields_def cardFromRow_def filter_empty_conv)
qed

lemma agreeing_id_conflict:
  assumes "agreeing rows = rows" and "rows = r # rest" and "x \<in> set rest"
  shows "conflictingCardFields (cardFromRow r) x = []"
  using assms by (auto simp: agreeing_def filter_id_conv)

text \<open>C: when two rows of a file share a vendor code (two sizes of one card) and the later one has no photo or no
  characteristic, the file is rejected, even where the rows agree in every field: the copy of the first row's empty
  slice is \<open>nil\<close>, and the comparison tells it from the empty slice of the later row.\<close>

theorem bare_size_rows_rejected:
  assumes "Parse L fileID source = Inr pf" and "pf_Rows pf = before @ row # after"
    and "row_code row \<in> row_code ` set before"
    and "row_Photos row = Some [] \<or> row_Characteristics row = Some []"
  shows "AggregatedFile_HasErrors (AggregateParsedFile pf)"
proof -
  let ?same = "same_code (pf_Rows pf) (row_code row)"
  obtain r rest where before: "same_code before (row_code row) = r # rest"
    using assms(3) same_code_Nil_iff by (metis list.exhaust)
  then have same: "?same = r # rest @ row # same_code after (row_code row)"
    by (simp add: same_code_def assms(2))
  have "agreeing ?same \<noteq> ?same"
  proof
    assume "agreeing ?same = ?same"
    from agreeing_id_conflict [OF this same, of row] bare_row_conflicts [OF assms(4)] show False by simp
  qed
  with AggregateParsedFile_spec [of pf] obtain extra where
    "af_Issues (AggregateParsedFile pf) = pf_Issues pf @ extra" "all_errors extra" "extra \<noteq> []"
    by blast
  then show ?thesis
    by (cases extra) (auto simp: AggregatedFile_HasErrors_def issues_have_errors_def all_errors_Cons)
qed

end
