(* ===== verification/CardImportSamples.thy ===== *)
theory CardImportSamples
  imports CardImportProps
begin

text \<open>A workbook on which the reader and the aggregation are run, and two inputs on which they do what their authors
  cannot have meant.\<close>

lemma drop_spaces_printable: "list_all printable s \<Longrightarrow> drop_spaces s = s"
proof (induction s)
  case (Cons c s)
  then have c: "(33::int) \<le> of_char c" "of_char c \<le> (126::int)" by (simp_all add: printable_def)
  then have "rune_size (c # s) = 1"
    by (simp add: rune_size_def byte_in_def)
  moreover have "[c] \<notin> set space_encodings"
    using space_encodings_not_printable [of "[c]"] Cons.prems by auto
  ultimately show ?case
    using Cons c by (simp add: drop_spaces.simps [of "c # s"])
qed (simp add: drop_spaces.simps)

definition sample_xlsx_lib :: xlsx_lib where
  "sample_xlsx_lib =
     \<lparr>xl_toLower = (\<lambda>s. s), xl_equalFold = (=),
      xl_parseFloat = (\<lambda>s. if s = ''5'' then Some (FFin 5) else if s = ''NaN'' then Some FNaN else None),
      xl_columnName = (\<lambda>n. [char_of (65 + n)]), xl_weightsDiffer = (\<lambda>_ _. False)\<rparr>"

definition sample_header :: "string list" where
  "sample_header = [''group'', ''vendorcode'', ''title'', ''category'', ''brand'', ''description'', ''weightbrutto'',
     ''price'', ''height'', ''length'', ''width'', ''skus'', ''techsize'']"

definition sample_row :: "string \<Rightarrow> string \<Rightarrow> string \<Rightarrow> string list" where
  "sample_row code tech width = [''g'', code, ''t'', ''c'', ''b'', ''d'', ''5'', ''5'', ''5'', ''5'', width, code @ tech, tech]"

definition sample_workbook :: "string list list \<Rightarrow> workbook" where
  "sample_workbook rows = \<lparr>wk_sheets = [productsSheetName],
     wk_rows = (\<lambda>_. Inr (map Inr ([''note''] # sample_header # [''hint''] # rows), None))\<rparr>"

lemma sample_normalize: "list_all printable s \<Longrightarrow> normalizeHeader sample_xlsx_lib s = s"
  by (simp add: normalizeHeader_def sample_xlsx_lib_def trim_space_printable drop_spaces_printable)

lemmas sample_cells = sample_normalize trim_space_printable printable_def

lemma sample_known: "known_columns sample_xlsx_lib sample_header = enumerate 0
   [columnGroup, columnVendorCode, columnTitle, columnCategory, columnBrand, columnDescription, columnWeightBrutto,
    columnPrice, columnHeight, columnLength, columnWidth, columnSKUs, columnTechSize]"
  by (simp add: known_columns_def sample_header_def sample_cells headerAliases_def column_defs)

lemma sample_isHeader: "isHeaderRow sample_xlsx_lib sample_header" "\<not> isHeaderRow sample_xlsx_lib [''note'']"
  by (simp_all add: isHeaderRow_def sample_header_def sample_cells headerAliases_def column_defs)

definition sample_columns :: columns where
  "sample_columns = \<lparr>co_headers = sample_header, co_indexes = enumerate 0
     [columnGroup, columnVendorCode, columnTitle, columnCategory, columnBrand, columnDescription, columnWeightBrutto,
      columnPrice, columnHeight, columnLength, columnWidth, columnSKUs, columnTechSize]\<rparr>"

lemma sample_newColumns: "newColumns sample_xlsx_lib sample_header = Inr sample_columns"
  by (simp add: newColumns_def sample_columns_def sample_known requiredColumns_def indexesByName_def column_defs)

definition sample_result :: "int \<Rightarrow> string \<Rightarrow> parsed_row \<times> parse_issue list" where
  "sample_result n tech = parseRow sample_xlsx_lib productsSheetName n (sample_row ''a'' tech ''5'') sample_columns"

lemma sample_results:
  "snd (sample_result 4 ''S'') = [] \<and> row_VendorCode (fst (sample_result 4 ''S'')) = ''a''"
  "snd (sample_result 5 ''M'') = [] \<and> row_VendorCode (fst (sample_result 5 ''M'')) = ''a'' \<and>
     row_Photos (fst (sample_result 5 ''M'')) = Some []"
  by code_simp+

text \<open>Two sizes of one card, without photos.\<close>

definition sample_file :: parsed_file where
  "sample_file = \<lparr>pf_FileID = 7, pf_SheetName = productsSheetName, pf_HeaderRow = 2,
     pf_Rows = [fst (sample_result 4 ''S''), fst (sample_result 5 ''M'')], pf_Issues = []\<rparr>"

lemma sample_rows_not_empty: "\<not> isRowEmpty (sample_row ''a'' tech ''5'')"
  by (simp add: isRowEmpty_def sample_row_def trim_space_printable printable_def)

lemma sample_parse:
  "Parse sample_xlsx_lib 7 (Inr (sample_workbook [sample_row ''a'' ''S'' ''5'', sample_row ''a'' ''M'' ''5''])) = Inr sample_file"
proof -
  have sheet: "trim_space productsSheetName = productsSheetName" by code_simp
  have S: "parseRow sample_xlsx_lib productsSheetName 4 (sample_row ''a'' ''S'' ''5'') sample_columns =
      (fst (sample_result 4 ''S''), [])"
    using sample_results(1) by (simp add: sample_result_def prod_eq_iff)
  have M: "parseRow sample_xlsx_lib productsSheetName 5 (sample_row ''a'' ''M'' ''5'') sample_columns =
      (fst (sample_result 5 ''M''), [])"
    using sample_results(2) by (simp add: sample_result_def prod_eq_iff)
  have lens: "length (sample_row c tech w) = 13" "length sample_header = 13" for c tech w
    by (simp_all add: sample_row_def sample_header_def)
  have find: "findProductsSheet sample_xlsx_lib (sample_workbook rows) = Inr productsSheetName" for rows
    by (simp add: findProductsSheet_def sample_workbook_def sample_xlsx_lib_def sheet)
  show ?thesis
    by (simp add: Parse_def find) (simp add: sample_workbook_def sheet_row_def sample_isHeader sample_newColumns Let_def
        lens S M sample_rows_not_empty issues_have_errors_def sample_file_def maxRows_def maxCells_def maxParsedRows_def)
qed

lemma Parse_exact_witness:
  "\<exists>w pre hdr post c. Inr (sample_workbook [sample_row ''a'' ''S'' ''5'', sample_row ''a'' ''M'' ''5'']) = (Inr w :: workbook result) \<and>
     findProductsSheet sample_xlsx_lib w = Inr (pf_SheetName sample_file) \<and>
     wk_rows w (pf_SheetName sample_file) = Inr (map Inr (pre @ hdr # post), None) \<and>
     isHeaderRow sample_xlsx_lib hdr \<and> newColumns sample_xlsx_lib hdr = Inr c"
  using Parse_exact [OF sample_parse] by blast

lemma Parse_rows_valid_witness:
  "list_all row_wf (pf_Rows sample_file) \<and> length (pf_Rows sample_file) = 2 \<and> pf_HeaderRow sample_file = 2"
  using Parse_rows_valid [OF sample_parse] by (simp add: sample_file_def)

lemma bare_size_rows_rejected_witness: "AggregatedFile_HasErrors (AggregateParsedFile sample_file)"
proof (rule bare_size_rows_rejected [OF sample_parse])
  show "pf_Rows sample_file = [fst (sample_result 4 ''S'')] @ fst (sample_result 5 ''M'') # []"
    by (simp add: sample_file_def)
qed (use sample_results in \<open>simp_all add: row_code_def\<close>)

text \<open>A dimension that is not a number passes the check of the dimensions, as the price would not.\<close>

lemma dimension_accepts_NaN:
  "parsePositiveFloat64 sample_xlsx_lib ''NaN'' = Some FNaN" "parsePositiveInt64 sample_xlsx_lib ''NaN'' = None"
  by code_simp+

end
