(* ===== verification/TelegramArgs.thy ===== *)
theory TelegramArgs
  imports Domain
begin

text \<open>
  What the bot reads from and writes into callback data and texts:
  \<open>internal/core/transport/telegram/callback/arguments.go\<close>, \<open>identity/sender.go\<close>,
  \<open>ui/helpers.go\<close>, \<open>ui/pagination.go\<close> and \<open>ui/text.go\<close>. Buttons are represented by their text and
  arguments; the bot library that renders them is not modelled.
\<close>

section \<open>\<open>strconv.FormatInt\<close> and \<open>strconv.ParseInt\<close>\<close>

definition digit_char :: "int \<Rightarrow> char" where
  "digit_char d = (if d < 10 then char_of (48 + d) else char_of (87 + d))"

function format_base :: "int \<Rightarrow> int \<Rightarrow> string" where
  "format_base b n = (if n < b \<or> b < 2 then [digit_char n] else format_base b (n div b) @ [digit_char (n mod b)])"
  by pat_completeness auto
termination
proof (relation "measure (\<lambda>(b, n). nat n)", simp)
  fix b n :: int
  assume "\<not> (n < b \<or> b < 2)"
  then have "0 < n" "n div b < n" by (auto intro: int_div_less_self)
  then show "((b, n div b), (b, n)) \<in> measure (\<lambda>(b, n). nat n)" by simp
qed

declare format_base.simps [simp del]

definition FormatInt :: "int \<Rightarrow> int \<Rightarrow> string" where
  "FormatInt n base = (if n < 0 then CHR ''-'' # format_base base (- n) else format_base base n)"

definition digit_of :: "char \<Rightarrow> int option" where
  "digit_of c =
     (let k = (of_char c :: int) in
      if 48 \<le> k \<and> k \<le> 57 then Some (k - 48)
      else if 97 \<le> k \<and> k \<le> 122 then Some (k - 87)
      else if 65 \<le> k \<and> k \<le> 90 then Some (k - 55) else None)"

fun parse_digits :: "int \<Rightarrow> int \<Rightarrow> string \<Rightarrow> int option" where
  "parse_digits base acc [] = Some acc"
| "parse_digits base acc (c # s) =
     (case digit_of c of
        None \<Rightarrow> None
      | Some d \<Rightarrow> if d < base then parse_digits base (acc * base + d) s else None)"

text \<open>A syntax error and a value out of the 64-bit range are both errors.\<close>

definition ParseInt :: "string \<Rightarrow> int \<Rightarrow> int option" where
  "ParseInt s base =
     (let digits = (if s \<noteq> [] \<and> hd s \<in> {CHR ''+'', CHR ''-''} then tl s else s) in
      if digits = [] then None
      else (case parse_digits base 0 digits of
              None \<Rightarrow> None
            | Some n \<Rightarrow>
                (let value = (if hd s = CHR ''-'' then - n else n) in
                 if int64_range value then Some value else None)))"

section \<open>Callback arguments\<close>

definition callback_error :: "string \<Rightarrow> goerr" where
  "callback_error text = GoErr NoSentinel text"

definition ParseInt64Argument :: "string list \<Rightarrow> int \<Rightarrow> int \<Rightarrow> int \<Rightarrow> int \<Rightarrow> int result" where
  "ParseInt64Argument arguments index expected base minimum =
     (if expected < 0 \<or> int (length arguments) \<noteq> expected \<or> index < 0 \<or> int (length arguments) \<le> index
      then Inl (callback_error ''invalid callback arguments'')
      else (case ParseInt (arguments ! nat index) base of
              None \<Rightarrow> Inl (callback_error ''invalid callback integer'')
            | Some value \<Rightarrow>
                if value < minimum then Inl (callback_error ''invalid callback integer'') else Inr value))"

definition EncodeID :: "int \<Rightarrow> string" where
  "EncodeID n = FormatInt n 36"

definition ParseID :: "string \<Rightarrow> int result" where
  "ParseID value =
     (let value = trim_space value in
      if value = [] then Inl (callback_error ''empty Base-36 ID'')
      else (case ParseInt value 36 of
              None \<Rightarrow> Inl (callback_error ''invalid Base-36 ID'') | Some n \<Rightarrow> Inr n))"

definition ParseBase36Argument :: "string list \<Rightarrow> int \<Rightarrow> int \<Rightarrow> int \<Rightarrow> int result" where
  "ParseBase36Argument arguments index expected minimum = ParseInt64Argument arguments index expected 36 minimum"

definition ParseIDAndRevision :: "string list \<Rightarrow> (int \<times> int) result" where
  "ParseIDAndRevision arguments =
     (if length arguments < 2 then Inl (callback_error ''insufficient callback arguments'')
      else
        rbind (ParseInt64Argument arguments 0 (int (length arguments)) 10 1) (\<lambda>ident.
        rbind (ParseInt64Argument arguments 1 (int (length arguments)) 10 0) (\<lambda>revision.
          Inr (ident, revision))))"

definition ParsePageNumber :: "string \<Rightarrow> int result" where
  "ParsePageNumber value =
     (let value = trim_space value in
      if value = [] then Inr 1
      else (case ParseInt value 10 of
              None \<Rightarrow> Inl (callback_error ''invalid page'')
            | Some page \<Rightarrow> if page < 1 then Inl (callback_error ''invalid page'') else Inr page))"

definition ParseTelegramID :: "string \<Rightarrow> int result" where
  "ParseTelegramID value =
     (case ParseInt (trim_space value) 10 of
        None \<Rightarrow> Inl (callback_error ''invalid Telegram ID'')
      | Some n \<Rightarrow> if n \<le> 0 then Inl (callback_error ''invalid Telegram ID'') else Inr n)"

section \<open>Texts and pages\<close>

text \<open>\<open>None\<close> is the panic of \<open>strings.Repeat\<close> on a negative count.\<close>

definition repeat_byte :: "char \<Rightarrow> int \<Rightarrow> string option" where
  "repeat_byte c n = (if n < 0 then None else Some (replicate (nat n) c))"

definition clamp_done :: "int \<Rightarrow> int \<Rightarrow> int" where
  "clamp_done finished whole = (let d = (if finished < 0 then 0 else finished) in if whole < d then whole else d)"

definition FormatProgressBar :: "int \<Rightarrow> int \<Rightarrow> int \<Rightarrow> string option" where
  "FormatProgressBar finished whole width =
     (if whole \<le> 0 \<or> width \<le> 0 then Some []
      else (let filled = go_div (wrap64 (clamp_done finished whole * width)) whole in
            case (repeat_byte (CHR ''#'') filled, repeat_byte (CHR ''.'') (wrap64 (width - filled))) of
              (Some hashes, Some dots) \<Rightarrow> Some (''['' @ hashes @ dots @ '']'') | _ \<Rightarrow> None))"

definition CalcPercent :: "int \<Rightarrow> int \<Rightarrow> int" where
  "CalcPercent finished whole =
     (if whole \<le> 0 then 0
      else go_div (wrap64 (wrap64 (clamp_done finished whole * 100) + go_div whole 2)) whole)"

definition CalculateTotalPages :: "int \<Rightarrow> int \<Rightarrow> int" where
  "CalculateTotalPages totalItems pageSize =
     (if totalItems \<le> 0 \<or> pageSize \<le> 0 then 1
      else go_div (wrap64 (wrap64 (totalItems + pageSize) - 1)) pageSize)"

record pagination =
  pg_Page :: int
  pg_TotalPages :: int
  pg_CallbackUnique :: string
  pg_ArgPrefix :: "string list"
  pg_ArgSuffix :: "string list"
  pg_PrevText :: string
  pg_NextText :: string
  pg_PageEncoder :: "(int \<Rightarrow> string) option"

record nav_button =
  nb_Text :: string
  nb_Unique :: string
  nb_Args :: "string list"

definition default_prev :: string where
  "default_prev = [CHR 0xE2, CHR 0xAC, CHR 0x85, CHR 0xEF, CHR 0xB8, CHR 0x8F, CHR '' '', CHR 0xD0, CHR 0x9D, CHR 0xD0, CHR 0xB0,
     CHR 0xD0, CHR 0xB7, CHR 0xD0, CHR 0xB0, CHR 0xD0, CHR 0xB4]"

definition default_next :: string where
  "default_next = [CHR 0xD0, CHR 0x92, CHR 0xD0, CHR 0xBF, CHR 0xD0, CHR 0xB5, CHR 0xD1, CHR 0x80, CHR 0xD1, CHR 0x91, CHR 0xD0,
     CHR 0xB4, CHR '' '', CHR 0xE2, CHR 0x9E, CHR 0xA1, CHR 0xEF, CHR 0xB8, CHR 0x8F]"

text \<open>The row of buttons, \<open>None\<close> where the code returns \<open>nil, false\<close>; \<open>markup\<close> tells whether there is one.\<close>

definition BuildPaginationRow :: "bool \<Rightarrow> pagination \<Rightarrow> nav_button list option" where
  "BuildPaginationRow markup cfg =
     (if \<not> markup \<or> pg_TotalPages cfg \<le> 1 \<or> pg_CallbackUnique cfg = [] then None
      else
        (let encoder = (case pg_PageEncoder cfg of None \<Rightarrow> format_int | Some f \<Rightarrow> f);
             prevText = (if trim_space (pg_PrevText cfg) = [] then default_prev else trim_space (pg_PrevText cfg));
             nextText = (if trim_space (pg_NextText cfg) = [] then default_next else trim_space (pg_NextText cfg));
             args = (\<lambda>page. pg_ArgPrefix cfg @ [encoder page] @ pg_ArgSuffix cfg);
             buttons =
               (if 1 < pg_Page cfg
                then [\<lparr>nb_Text = prevText, nb_Unique = pg_CallbackUnique cfg, nb_Args = args (pg_Page cfg - 1)\<rparr>] else []) @
               (if pg_Page cfg < pg_TotalPages cfg
                then [\<lparr>nb_Text = nextText, nb_Unique = pg_CallbackUnique cfg, nb_Args = args (pg_Page cfg + 1)\<rparr>] else [])
         in if buttons = [] then None else Some buttons))"

text \<open>\<open>[]rune\<close>: the encodings of the runes of a string; an invalid byte becomes the replacement character.\<close>

function runes :: "string \<Rightarrow> string list" where
  "runes s =
     (if s = [] then []
      else (let n = rune_size s; r = take n s in
            (if n = 1 \<and> 128 \<le> (of_char (hd s) :: int) then [CHR 0xEF, CHR 0xBF, CHR 0xBD] else r) # runes (drop n s)))"
  by pat_completeness auto
termination
  by (relation "measure length") auto

declare runes.simps [simp del]

definition ellipsis :: string where
  "ellipsis = [CHR 0xE2, CHR 0x80, CHR 0xA6]"

definition TruncateRunes :: "string \<Rightarrow> int \<Rightarrow> string" where
  "TruncateRunes value maximum =
     (if maximum \<le> 0 then []
      else if int (length (runes value)) \<le> maximum then value
      else if maximum = 1 then ellipsis
      else concat (take (nat maximum - 1) (runes value)) @ ellipsis)"

record tele_sender =
  snd_ID :: int
  snd_FirstName :: string
  snd_LastName :: string
  snd_Username :: string

definition SenderID :: "tele_sender option \<Rightarrow> int result" where
  "SenderID sender =
     (case sender of
        None \<Rightarrow> Inl (GoErr ErrInvalidArgument ''Telegram sender is unavailable'')
      | Some s \<Rightarrow> if snd_ID s \<le> 0 then Inl (GoErr ErrInvalidArgument ''Telegram sender is unavailable'') else Inr (snd_ID s))"

definition UserFromContext :: "tele_sender option \<Rightarrow> user result" where
  "UserFromContext sender =
     rbind (SenderID sender) (\<lambda>telegramID.
       (let s = the sender;
            name = trim_space (snd_FirstName s @ '' '' @ snd_LastName s);
            name = (if name = [] then trim_space (snd_Username s) else name);
            name = (if rune_count name < 3 then ''Telegram '' @ format_int telegramID else name)
        in Inr (CreateUser telegramID (TruncateRunes name 100))))"

section \<open>Codec round trip\<close>

lemma digit_of_digit_char: "0 \<le> d \<Longrightarrow> d < 36 \<Longrightarrow> digit_of (digit_char d) = Some d"
proof -
  assume d: "0 \<le> d" "d < 36"
  have "(of_char (char_of (48 + d) :: char) :: int) = 48 + d" "(of_char (char_of (87 + d) :: char) :: int) = 87 + d"
    using d by simp_all
  with d show ?thesis by (simp add: digit_of_def digit_char_def Let_def)
qed

lemma digit_bound:
  fixes b n :: int
  assumes "2 \<le> b" "b \<le> 36"
  shows "0 \<le> n mod b" and "n mod b < 36"
proof -
  have "n mod b < b" using assms by (intro pos_mod_bound) simp
  with assms show "n mod b < 36" by linarith
qed (use assms in simp)

lemma parse_digits_append:
  "parse_digits b acc (s @ t) = (case parse_digits b acc s of None \<Rightarrow> None | Some n \<Rightarrow> parse_digits b n t)"
  by (induction s arbitrary: acc) (auto split: option.splits)

lemma parse_format_base:
  assumes "2 \<le> b" "b \<le> 36"
  shows "0 \<le> n \<Longrightarrow> parse_digits b 0 (format_base b n) = Some n"
  using assms
proof (induction b n rule: format_base.induct)
  case (1 b n)
  show ?case
  proof (cases "n < b")
    case True
    with 1 show ?thesis by (simp add: format_base.simps [of b n] digit_of_digit_char)
  next
    case False
    have "0 \<le> n mod b" "n mod b < 36" "n mod b < b" using 1 digit_bound [of b n] by simp_all
    then have "digit_of (digit_char (n mod b)) = Some (n mod b)" by (intro digit_of_digit_char)
    with False 1 \<open>n mod b < b\<close> show ?thesis
      by (simp add: format_base.simps [of b n] parse_digits_append pos_imp_zdiv_nonneg_iff)
  qed
qed

definition id_char :: "char \<Rightarrow> bool" where
  "id_char c \<longleftrightarrow> c \<in> set ''-0123456789abcdefghijklmnopqrstuvwxyz''"

lemma digit_char_id:
  assumes "0 \<le> d" "d < 36"
  shows "id_char (digit_char d) \<and> digit_char d \<noteq> CHR ''-'' \<and> digit_char d \<noteq> CHR ''+''"
proof -
  have "d \<in> set [0..35]" using assms by simp
  moreover have "\<forall>d \<in> set [0..35]. id_char (digit_char d) \<and> digit_char d \<noteq> CHR ''-'' \<and> digit_char d \<noteq> CHR ''+''"
    by code_simp
  ultimately show ?thesis by blast
qed

lemma format_base_chars:
  "2 \<le> b \<Longrightarrow> b \<le> 36 \<Longrightarrow> 0 \<le> n \<Longrightarrow> format_base b n \<noteq> [] \<and> list_all id_char (format_base b n) \<and>
     hd (format_base b n) \<noteq> CHR ''-'' \<and> hd (format_base b n) \<noteq> CHR ''+''"
proof (induction b n rule: format_base.induct)
  case (1 b n)
  show ?case
  proof (cases "n < b")
    case True
    with 1 show ?thesis by (simp add: format_base.simps [of b n] digit_char_id)
  next
    case False
    have "0 \<le> n mod b" "n mod b < 36" using 1 digit_bound [of b n] by simp_all
    then have "id_char (digit_char (n mod b))" using digit_char_id [of "n mod b"] by simp
    moreover have "0 \<le> n div b" using 1 by (simp add: pos_imp_zdiv_nonneg_iff)
    ultimately show ?thesis using False 1 by (auto simp: format_base.simps [of b n] hd_append)
  qed
qed

lemma ParseInt_FormatInt:
  assumes "2 \<le> b" "b \<le> 36" "int64_range n"
  shows "ParseInt (FormatInt n b) b = Some n"
proof (cases "n < 0")
  case True
  with assms parse_format_base [of b "- n"] format_base_chars [of b "- n"] show ?thesis
    by (simp add: ParseInt_def FormatInt_def)
next
  case False
  with assms parse_format_base [of b n] format_base_chars [of b n] show ?thesis
    by (simp add: ParseInt_def FormatInt_def)
qed

lemma format_base_length: "2 \<le> b \<Longrightarrow> n < b ^ k \<Longrightarrow> 0 < k \<Longrightarrow> length (format_base b n) \<le> k"
proof (induction b n arbitrary: k rule: format_base.induct)
  case (1 b n)
  show ?case
  proof (cases "n < b")
    case True
    with 1 show ?thesis by (simp add: format_base.simps [of b n])
  next
    case False
    with 1 have "k \<noteq> 1" by auto
    then obtain j where j: "k = Suc j" "0 < j" using 1 by (cases k) auto
    have "n div b < b ^ j"
    proof (rule ccontr)
      assume "\<not> n div b < b ^ j"
      then have "b * b ^ j \<le> b * (n div b)" using 1 by simp
      also have "\<dots> \<le> n" using 1 by (metis mult.commute mult_div_mod_eq le_add_same_cancel1 pos_mod_sign less_le_trans zero_less_numeral)
      finally show False using 1 j by simp
    qed
    with 1 False j have "length (format_base b (n div b)) \<le> j" by simp
    with False 1 j show ?thesis by (simp add: format_base.simps [of b n])
  qed
qed

lemma id_char_printable: "id_char c \<Longrightarrow> printable c \<and> c \<noteq> CHR ''|''"
proof -
  have "list_all (\<lambda>c. printable c \<and> c \<noteq> CHR ''|'') ''-0123456789abcdefghijklmnopqrstuvwxyz''"
    by code_simp
  then show "id_char c \<Longrightarrow> printable c \<and> c \<noteq> CHR ''|''"
    unfolding id_char_def list_all_iff by blast
qed

text \<open>C: an identifier written into callback data is read back: every 64-bit integer survives \<open>EncodeID\<close> and
  \<open>ParseID\<close>, and \<open>ParseBase36Argument\<close> at any position unless it lies below the minimum asked for; the text has at
  most 14 bytes (of the 64 that callback data may have) and no separator.\<close>

theorem EncodeID_roundtrip:
  assumes "int64_range n"
  shows "ParseID (EncodeID n) = Inr n \<and> length (EncodeID n) \<le> 14 \<and> list_all (\<lambda>c. printable c \<and> c \<noteq> CHR ''|'') (EncodeID n) \<and>
     ParseBase36Argument (before @ EncodeID n # after) (int (length before)) (int (length (before @ EncodeID n # after))) minimum =
       (if n < minimum then Inl (callback_error ''invalid callback integer'') else Inr n)"
proof -
  let ?m = "\<bar>n\<bar>"
  have n: "0 \<le> ?m" "?m < 36 ^ 13" using assms by (auto simp: int64_range_def max_int64_def)
  have enc: "EncodeID n = (if n < 0 then CHR ''-'' # format_base 36 ?m else format_base 36 ?m)"
    by (simp add: EncodeID_def FormatInt_def)
  have "length (format_base 36 ?m) \<le> 13" using format_base_length [of 36 ?m 13] n by simp
  then have len: "length (EncodeID n) \<le> 14" unfolding enc by (cases "n < 0") simp_all
  have "list_all id_char (EncodeID n)" "EncodeID n \<noteq> []"
    using format_base_chars [of 36 ?m] n by (cases "n < 0"; simp add: enc; simp add: id_char_def)+
  then have chars: "list_all (\<lambda>c. printable c \<and> c \<noteq> CHR ''|'') (EncodeID n)" and ne: "EncodeID n \<noteq> []"
    using id_char_printable by (simp_all add: list_all_iff)
  then have trim: "trim_space (EncodeID n) = EncodeID n"
    by (intro trim_space_printable) (simp add: list_all_iff)
  have parse: "ParseInt (EncodeID n) 36 = Some n"
    using ParseInt_FormatInt [of 36 n] assms by (simp add: EncodeID_def)
  show ?thesis
    using len chars ne trim parse by (simp add: ParseID_def ParseBase36Argument_def ParseInt64Argument_def)
qed

lemma EncodeID_roundtrip_witness:
  "ParseID (EncodeID (- 9223372036854775808)) = Inr (- 9223372036854775808)"
  using EncodeID_roundtrip [of "- 9223372036854775808"] by (simp add: int64_range_def max_int64_def)

end
