(* ===== verification/TelegramFlow.thy ===== *)
theory TelegramFlow
  imports TelegramArgs
begin

text \<open>
  What the bot remembers between two messages of a user: the leases of pending inputs
  (\<open>internal/core/transport/telegram/state/state_store.go\<close>), the owner of the next text message
  (\<open>menu/flow.go\<close>), the role check in front of every handler (\<open>middleware/role.go\<close>), the choice of an error
  text (\<open>presenter/error.go\<close>), the length limit of menus (\<open>menu/text.go\<close>) and the notifications shown once
  (\<open>menu/notification.go\<close>). A panic is \<open>None\<close>; handlers, role provider and the bot library are parameters; the
  clean-up calls a step makes are part of its result.
\<close>

section \<open>The state store\<close>

datatype state_claim = StateMissing | StateClaimed | StateBusy | StateExpired

record 'v lease =
  lease_ID :: int
  lease_Value :: 'v

record 'v stored_state =
  sto_id :: int
  sto_value :: 'v
  sto_expiresAt :: int
  sto_busy :: bool

record 'v state_store =
  sst_nextID :: int
  sst_states :: "int \<rightharpoonup> 'v stored_state"

definition NewStateStore :: "'v state_store" where
  "NewStateStore = \<lparr>sst_nextID = 0, sst_states = Map.empty\<rparr>"

definition next_id :: "int \<Rightarrow> int" where
  "next_id n = (let m = (n + 1) mod 2 ^ 64 in if m = 0 then 1 else m)"

definition store_Begin :: "'v state_store \<Rightarrow> int \<Rightarrow> int \<Rightarrow> 'v \<Rightarrow> int \<Rightarrow> ('v state_store \<times> int) option" where
  "store_Begin s now telegramID value ttl =
     (if telegramID \<le> 0 \<or> ttl \<le> 0 then None
      else (let new = next_id (sst_nextID s) in
        Some (s\<lparr>sst_nextID := new,
                sst_states := (sst_states s)(telegramID \<mapsto>
                  \<lparr>sto_id = new, sto_value = value, sto_expiresAt = now + ttl, sto_busy = False\<rparr>)\<rparr>, new)))"

text \<open>The zero lease of \<open>StateMissing\<close> is \<open>None\<close>.\<close>

definition store_Claim :: "'v state_store \<Rightarrow> int \<Rightarrow> int \<Rightarrow> 'v state_store \<times> 'v lease option \<times> state_claim" where
  "store_Claim s now telegramID =
     (if telegramID \<le> 0 then (s, None, StateMissing)
      else (case sst_states s telegramID of
              None \<Rightarrow> (s, None, StateMissing)
            | Some st \<Rightarrow>
                (let l = \<lparr>lease_ID = sto_id st, lease_Value = sto_value st\<rparr> in
                 if sto_busy st then (s, Some l, StateBusy)
                 else if sto_expiresAt st < now
                 then (s\<lparr>sst_states := (sst_states s)(telegramID := None)\<rparr>, Some l, StateExpired)
                 else (s\<lparr>sst_states := (sst_states s)(telegramID \<mapsto> st\<lparr>sto_busy := True\<rparr>)\<rparr>, Some l, StateClaimed))))"

definition store_Finish :: "'v state_store \<Rightarrow> int \<Rightarrow> int \<Rightarrow> 'v lease \<Rightarrow> bool \<Rightarrow> int \<Rightarrow> 'v state_store \<times> bool" where
  "store_Finish s now telegramID l retry ttl =
     (if telegramID \<le> 0 \<or> lease_ID l = 0 \<or> retry \<and> ttl \<le> 0 then (s, False)
      else (case sst_states s telegramID of
              None \<Rightarrow> (s, False)
            | Some st \<Rightarrow>
                if sto_id st \<noteq> lease_ID l \<or> \<not> sto_busy st then (s, False)
                else if retry
                then (s\<lparr>sst_states := (sst_states s)(telegramID \<mapsto>
                        st\<lparr>sto_value := lease_Value l, sto_expiresAt := now + ttl, sto_busy := False\<rparr>)\<rparr>, True)
                else (s\<lparr>sst_states := (sst_states s)(telegramID := None)\<rparr>, True)))"

definition store_Cancel :: "'v state_store \<Rightarrow> int \<Rightarrow> 'v state_store" where
  "store_Cancel s telegramID =
     (if telegramID \<le> 0 then s else s\<lparr>sst_states := (sst_states s)(telegramID := None)\<rparr>)"

text \<open>The store under concurrent handlers. Every operation runs under the mutex; \<open>held\<close> lists the leases that
  were claimed and not finished, the counter the calls of \<open>Begin\<close>. A handler finishes only what it holds.\<close>

inductive store_run :: "'v state_store \<Rightarrow> (int \<times> int) list \<Rightarrow> nat \<Rightarrow> bool" where
  run_new: "store_run NewStateStore [] 0"
| run_begin: "store_run s held n \<Longrightarrow> store_Begin s now u v ttl = Some (s', i) \<Longrightarrow> store_run s' held (Suc n)"
| run_claimed: "store_run s held n \<Longrightarrow> store_Claim s now u = (s', Some l, StateClaimed) \<Longrightarrow>
    store_run s' ((u, lease_ID l) # held) n"
| run_refused: "store_run s held n \<Longrightarrow> store_Claim s now u = (s', l, c) \<Longrightarrow> c \<noteq> StateClaimed \<Longrightarrow> store_run s' held n"
| run_finish: "store_run s held n \<Longrightarrow> (u, lease_ID l) \<in> set held \<Longrightarrow> store_Finish s now u l retry ttl = (s', ok) \<Longrightarrow>
    store_run s' (if ok then remove1 (u, lease_ID l) held else held) n"
| run_cancel: "store_run s held n \<Longrightarrow> store_run (store_Cancel s u) held n"

definition store_inv :: "'v state_store \<Rightarrow> (int \<times> int) list \<Rightarrow> nat \<Rightarrow> bool" where
  "store_inv s held n \<longleftrightarrow>
     sst_nextID s = int n \<and> distinct held \<and> (\<forall>(u, i) \<in> set held. i \<le> int n) \<and>
     (\<forall>u st. sst_states s u = Some st \<longrightarrow>
        0 < sto_id st \<and> sto_id st \<le> int n \<and> ((u, sto_id st) \<in> set held \<longrightarrow> sto_busy st))"

lemma store_invD:
  assumes "store_inv s held n"
  shows "sst_nextID s = int n" and "distinct held" and "(u, i) \<in> set held \<Longrightarrow> i \<le> int n"
    and "sst_states s u = Some st \<Longrightarrow> 0 < sto_id st \<and> sto_id st \<le> int n \<and> ((u, sto_id st) \<in> set held \<longrightarrow> sto_busy st)"
  using assms unfolding store_inv_def by auto

lemma store_invI:
  assumes "sst_nextID s = int n" "distinct held" "\<And>u i. (u, i) \<in> set held \<Longrightarrow> i \<le> int n"
    and "\<And>u st. sst_states s u = Some st \<Longrightarrow> 0 < sto_id st \<and> sto_id st \<le> int n \<and> ((u, sto_id st) \<in> set held \<longrightarrow> sto_busy st)"
  shows "store_inv s held n"
  using assms unfolding store_inv_def by auto

lemma next_id_small: "n < 2 ^ 64 - 1 \<Longrightarrow> next_id (int n) = int (Suc n)"
  by (simp add: next_id_def Let_def)

lemma Begin_cases:
  assumes "store_Begin s now u v ttl = Some (s', i)"
  shows "i = next_id (sst_nextID s) \<and> sst_nextID s' = i \<and> 0 < u \<and>
    sst_states s' = (sst_states s)(u \<mapsto> \<lparr>sto_id = i, sto_value = v, sto_expiresAt = now + ttl, sto_busy = False\<rparr>)"
  using assms by (auto simp: store_Begin_def Let_def split: if_splits)

lemma Claim_cases:
  assumes "store_Claim s now u = (s', Some l, StateClaimed)"
  obtains st where "sst_states s u = Some st" "\<not> sto_busy st" "now \<le> sto_expiresAt st"
    "l = \<lparr>lease_ID = sto_id st, lease_Value = sto_value st\<rparr>"
    "s' = s\<lparr>sst_states := (sst_states s)(u \<mapsto> st\<lparr>sto_busy := True\<rparr>)\<rparr>"
  using assms by (auto simp: store_Claim_def Let_def split: if_splits option.splits)

lemma Claim_refused:
  assumes "store_Claim s now u = (s', l, c)" and "c \<noteq> StateClaimed"
  shows "s' = s \<or> s' = s\<lparr>sst_states := (sst_states s)(u := None)\<rparr>"
  using assms by (auto simp: store_Claim_def Let_def split: if_splits option.splits)

lemma Finish_cases:
  assumes "store_Finish s now u l retry ttl = (s', True)"
  obtains st where "sst_states s u = Some st" "sto_id st = lease_ID l" "sto_busy st"
    "s' = s\<lparr>sst_states := (sst_states s)(u :=
       (if retry then Some (st\<lparr>sto_value := lease_Value l, sto_expiresAt := now + ttl, sto_busy := False\<rparr>) else None))\<rparr>"
  using assms by (auto simp: store_Finish_def split: if_splits option.splits)

lemma Finish_refused: "store_Finish s now u l retry ttl = (s', False) \<Longrightarrow> s' = s"
  by (auto simp: store_Finish_def split: if_splits option.splits)

lemma store_inv_forget:
  "store_inv s held n \<Longrightarrow> store_inv (s\<lparr>sst_states := (sst_states s)(u := None)\<rparr>) held n"
  unfolding store_inv_def by simp

lemma store_run_inv: "store_run s held n \<Longrightarrow> n < 2 ^ 64 - 1 \<Longrightarrow> store_inv s held n"
proof (induction rule: store_run.induct)
  case run_new
  then show ?case by (simp add: store_inv_def NewStateStore_def)
next
  case (run_begin s held n now u v ttl s' i)
  then have inv: "store_inv s held n" and "i = int (Suc n)"
    using Begin_cases [OF run_begin.hyps(2)] store_invD(1) [of s held n] next_id_small [of n] by auto
  with Begin_cases [OF run_begin.hyps(2)] store_invD [OF inv] show ?case
    by (intro store_invI) (fastforce split: if_splits)+
next
  case (run_claimed s held n now u s' l)
  then have inv: "store_inv s held n" by simp
  from run_claimed.hyps(2) obtain st where st: "sst_states s u = Some st" "\<not> sto_busy st" "lease_ID l = sto_id st"
    "s' = s\<lparr>sst_states := (sst_states s)(u \<mapsto> st\<lparr>sto_busy := True\<rparr>)\<rparr>"
    by (elim Claim_cases) simp
  with store_invD [OF inv] show ?case
    by (intro store_invI) (auto split: if_splits)
next
  case (run_refused s held n now u s' l c)
  with Claim_refused [OF run_refused.hyps(2,3)] show ?case
    by (auto simp: store_inv_forget)
next
  case (run_finish s held n u l now retry ttl s' ok)
  then have inv: "store_inv s held n" by simp
  show ?case
  proof (cases ok)
    case True
    then have "store_Finish s now u l retry ttl = (s', True)" using run_finish.hyps(3) by simp
    then obtain st where st: "sst_states s u = Some st" "sto_id st = lease_ID l"
      "s' = s\<lparr>sst_states := (sst_states s)(u :=
         (if retry then Some (st\<lparr>sto_value := lease_Value l, sto_expiresAt := now + ttl, sto_busy := False\<rparr>) else None))\<rparr>"
      by (elim Finish_cases) simp
    moreover have "0 < lease_ID l" "lease_ID l \<le> int n"
      using store_invD(4) [OF inv st(1)] st(2) by simp_all
    ultimately show ?thesis using store_invD [OF inv] True
      by (intro store_invI) (auto split: if_splits)
  next
    case False
    then have "s' = s" using run_finish.hyps(3) by (simp add: Finish_refused)
    with False inv show ?thesis by simp
  qed
next
  case (run_cancel s held n u)
  then show ?case by (auto simp: store_Cancel_def store_inv_forget)
qed

text \<open>C: while fewer than 2^64 - 1 inputs were begun, no lease is given out twice: leases that are held are
  distinct, a claim never returns one of them, and once a new input of the user has begun, a lease held before can
  no longer be finished.\<close>

theorem lease_exclusive:
  assumes "store_run s held n" and "n < 2 ^ 64 - 2"
  shows "distinct held \<and>
     (\<forall>now u s' l. store_Claim s now u = (s', Some l, StateClaimed) \<longrightarrow> (u, lease_ID l) \<notin> set held) \<and>
     (\<forall>now u v ttl s' i now' l retry ttl'. store_Begin s now u v ttl = Some (s', i) \<longrightarrow> (u, lease_ID l) \<in> set held \<longrightarrow>
        store_Finish s' now' u l retry ttl' = (s', False))"
proof (intro conjI allI impI)
  have inv: "store_inv s held n" using store_run_inv [OF assms(1)] assms(2) by simp
  note invD = store_invD [OF inv]
  show "distinct held" by (rule invD)
  show "(u, lease_ID l) \<notin> set held" if "store_Claim s now u = (s', Some l, StateClaimed)" for now u s' l
    using that invD(4) by (elim Claim_cases) auto
  fix now u v ttl s' i now' retry ttl' and l :: "'a lease"
  assume begun: "store_Begin s now u v ttl = Some (s', i)" and "(u, lease_ID l) \<in> set held"
  then have "lease_ID l \<le> int n" "i = int (Suc n)"
    using invD(1,3) Begin_cases [OF begun] next_id_small [of n] assms(2) by auto
  with Begin_cases [OF begun] show "store_Finish s' now' u l retry ttl' = (s', False)"
    by (simp add: store_Finish_def)
qed

lemma lease_exclusive_witness:
  "\<exists>s. store_run (s :: bool state_store) [(42, 1)] 1 \<and> distinct [(42 :: int, 1 :: int)] \<and>
     (\<forall>now u s' l. store_Claim s now u = (s', Some l, StateClaimed) \<longrightarrow> (u, lease_ID l) \<notin> set [(42, 1)])"
proof -
  obtain s1 :: "bool state_store" where b: "store_Begin NewStateStore 0 42 True 60 = Some (s1, 1)"
    by (simp add: store_Begin_def next_id_def NewStateStore_def)
  then have r1: "store_run s1 [] (Suc 0)" by (rule run_begin [OF run_new])
  have "\<exists>s2 l. store_Claim s1 5 42 = (s2, Some l, StateClaimed) \<and> lease_ID l = 1"
    using Begin_cases [OF b] by (simp add: store_Claim_def)
  then obtain s2 l where c: "store_Claim s1 5 42 = (s2, Some l, StateClaimed)" "lease_ID l = 1" by blast
  from run_claimed [OF r1 c(1)] c(2) have "store_run s2 [(42, 1)] 1" by simp
  with lease_exclusive [OF this] show ?thesis by auto
qed

section \<open>Roles\<close>

definition HasMinimumRole :: "user_role \<Rightarrow> user_role \<Rightarrow> bool" where
  "HasMinimumRole actualRole minimumRole \<longleftrightarrow>
     (if minimumRole = RoleUser then actualRole = RoleUser \<or> actualRole = RolePartner \<or> actualRole = RoleAdmin
      else if minimumRole = RolePartner then actualRole = RolePartner \<or> actualRole = RoleAdmin
      else if minimumRole = RoleAdmin then actualRole = RoleAdmin else False)"

text \<open>The context of an update as far as the handlers read it. \<open>None\<close> in place of a context is \<open>nil\<close>.\<close>

record tele_ctx =
  tc_Sender :: "tele_sender option"
  tc_Text :: string

definition errTelegramSenderUnavailable :: goerr where
  "errTelegramSenderUnavailable = GoErr NoSentinel ''Telegram sender is unavailable''"

definition telegramSenderID :: "tele_ctx option \<Rightarrow> int result" where
  "telegramSenderID ctx =
     (case ctx of
        None \<Rightarrow> Inl (GoErr NoSentinel ''telegram context is nil'')
      | Some c \<Rightarrow>
          (case tc_Sender c of
             None \<Rightarrow> Inl errTelegramSenderUnavailable
           | Some s \<Rightarrow> if snd_ID s \<le> 0 then Inl errTelegramSenderUnavailable else Inr (snd_ID s)))"

text \<open>\<open>getRole\<close>: the role and whether the user is known.\<close>

definition getRole :: "(int \<Rightarrow> user_role result) \<Rightarrow> int \<Rightarrow> (user_role \<times> bool) result" where
  "getRole provider telegramID =
     (case provider telegramID of
        Inl e \<Rightarrow> if err_sentinel e = ErrNotFound then Inr ([], False) else Inl e
      | Inr role \<Rightarrow>
          if \<not> role_IsValid role then Inl (GoErr NoSentinel ''invalid role for TelegramID'') else Inr (role, True))"

definition RoleAccess_GetRole :: "(int \<Rightarrow> user_role result) \<Rightarrow> tele_ctx option \<Rightarrow> (user_role \<times> bool) result" where
  "RoleAccess_GetRole provider ctx =
     (case telegramSenderID ctx of
        Inl e \<Rightarrow> if e = errTelegramSenderUnavailable then Inr ([], False) else Inl e
      | Inr telegramID \<Rightarrow> getRole provider telegramID)"

datatype role_refusal = SenderUnknown | RoleCheckFailed | RoleInsufficient

text \<open>\<open>Require\<close>: what the wrapped handler does and which error it returns. \<open>respond\<close> is the outcome of
  sending the refusal, \<open>handler\<close> the wrapped handler with its result; the first component tells
  whether the handler ran, and what it returned besides its error.\<close>

definition RequireRole ::
  "(int \<Rightarrow> user_role result) \<Rightarrow> user_role \<Rightarrow> (role_refusal \<Rightarrow> goerr option) \<Rightarrow> (tele_ctx option \<Rightarrow> 'r \<times> goerr option) \<Rightarrow>
   tele_ctx option \<Rightarrow> 'r option \<times> goerr option" where
  "RequireRole provider minimumRole respond handler ctx =
     (case telegramSenderID ctx of
        Inl e \<Rightarrow> (None, case respond SenderUnknown of None \<Rightarrow> None | Some _ \<Rightarrow> Some e)
      | Inr telegramID \<Rightarrow>
          (case getRole provider telegramID of
             Inl e \<Rightarrow> (None, Some e)
           | Inr (actualRole, known) \<Rightarrow>
               if \<not> known \<or> \<not> HasMinimumRole actualRole minimumRole then (None, respond RoleInsufficient)
               else (let (r, e) = handler ctx in (Some r, e))))"

lemma RequireRole_runs_iff:
  "fst (RequireRole provider minimumRole respond handler ctx) \<noteq> None \<longleftrightarrow>
     (\<exists>telegramID role. telegramSenderID ctx = Inr telegramID \<and> provider telegramID = Inr role \<and>
        role_IsValid role \<and> HasMinimumRole role minimumRole)"
  by (auto simp: RequireRole_def getRole_def split: sum.splits if_splits prod.splits)

section \<open>Text flows\<close>

record menu_flows =
  mf_textHandlers :: "string \<rightharpoonup> user_role"
  mf_documentHandlers :: "string \<rightharpoonup> user_role"
  mf_documentFallback :: "user_role option"
  mf_textOwners :: "int \<rightharpoonup> string"
  mf_flowCleanups :: "string \<Rightarrow> bool"

text \<open>A clean-up that is called: its key and the user.\<close>

type_synonym cleanup_call = "string \<times> int"

definition owner_of :: "menu_flows \<Rightarrow> int \<Rightarrow> string" where
  "owner_of h telegramID = (case mf_textOwners h telegramID of None \<Rightarrow> [] | Some key \<Rightarrow> key)"

definition RegisterFlowCleanup :: "menu_flows \<Rightarrow> string \<Rightarrow> menu_flows option" where
  "RegisterFlowCleanup h key =
     (let key = trim_space key in
      if key = [] \<or> mf_flowCleanups h key then None else Some (h\<lparr>mf_flowCleanups := (mf_flowCleanups h)(key := True)\<rparr>))"

definition registerFlow :: "(string \<rightharpoonup> user_role) \<Rightarrow> string \<Rightarrow> user_role \<Rightarrow> (string \<rightharpoonup> user_role) option" where
  "registerFlow flows key minimumRole =
     (let key = trim_space key in
      if key = [] \<or> \<not> role_IsValid minimumRole \<or> flows key \<noteq> None then None else Some (flows(key \<mapsto> minimumRole)))"

definition RegisterTextFlow :: "menu_flows \<Rightarrow> string \<Rightarrow> user_role \<Rightarrow> menu_flows option" where
  "RegisterTextFlow h key minimumRole =
     map_option (\<lambda>f. h\<lparr>mf_textHandlers := f\<rparr>) (registerFlow (mf_textHandlers h) key minimumRole)"

definition RegisterDocumentFlow :: "menu_flows \<Rightarrow> string \<Rightarrow> user_role \<Rightarrow> menu_flows option" where
  "RegisterDocumentFlow h key minimumRole =
     map_option (\<lambda>f. h\<lparr>mf_documentHandlers := f\<rparr>) (registerFlow (mf_documentHandlers h) key minimumRole)"

definition RegisterDocumentFallback :: "menu_flows \<Rightarrow> user_role \<Rightarrow> menu_flows option" where
  "RegisterDocumentFallback h minimumRole =
     (if \<not> role_IsValid minimumRole \<or> mf_documentFallback h \<noteq> None then None
      else Some (h\<lparr>mf_documentFallback := Some minimumRole\<rparr>))"

definition BeginTextFlow :: "menu_flows \<Rightarrow> int \<Rightarrow> string \<Rightarrow> (menu_flows \<times> cleanup_call list) option" where
  "BeginTextFlow h telegramID key =
     (let key = trim_space key; previous = owner_of h telegramID in
      if telegramID \<le> 0 \<or> key = [] \<or> mf_textHandlers h key = None then None
      else Some (h\<lparr>mf_textOwners := (mf_textOwners h)(telegramID \<mapsto> key)\<rparr>,
                 if previous \<noteq> [] \<and> previous \<noteq> key \<and> mf_flowCleanups h previous then [(previous, telegramID)] else []))"

definition EndTextFlow :: "menu_flows \<Rightarrow> int \<Rightarrow> string \<Rightarrow> menu_flows" where
  "EndTextFlow h telegramID key =
     (if telegramID \<le> 0 \<or> owner_of h telegramID \<noteq> trim_space key then h
      else h\<lparr>mf_textOwners := (mf_textOwners h)(telegramID := None)\<rparr>)"

definition EndTextFlows :: "menu_flows \<Rightarrow> int \<Rightarrow> menu_flows \<times> cleanup_call list" where
  "EndTextFlows h telegramID =
     (if telegramID \<le> 0 then (h, [])
      else (let key = owner_of h telegramID in
        (h\<lparr>mf_textOwners := (mf_textOwners h)(telegramID := None)\<rparr>,
         if mf_flowCleanups h key then [(key, telegramID)] else [])))"

definition HasTextFlow :: "menu_flows \<Rightarrow> int \<Rightarrow> string \<Rightarrow> bool" where
  "HasTextFlow h telegramID key \<longleftrightarrow> 0 < telegramID \<and> owner_of h telegramID = trim_space key"

text \<open>\<open>executeFlow\<close>: the handler runs behind the role check (\<open>allowed\<close> is \<open>RequireRole\<close> of its minimum
  role); when it did not take the input its flow is ended and cleaned up.\<close>

definition executeFlow ::
  "((tele_ctx option \<Rightarrow> bool \<times> goerr option) \<Rightarrow> bool option \<times> goerr option) \<Rightarrow> (tele_ctx option \<Rightarrow> bool \<times> goerr option) \<Rightarrow>
   menu_flows \<Rightarrow> int \<Rightarrow> string \<Rightarrow> menu_flows \<times> cleanup_call list \<times> goerr option" where
  "executeFlow allowed handler h telegramID key =
     (case allowed handler of
        (None, e) \<Rightarrow> (h, [], e)
      | (Some handled, Some e) \<Rightarrow> (h, [], Some e)
      | (Some handled, None) \<Rightarrow>
          if key \<noteq> [] \<and> \<not> handled
          then (EndTextFlow h telegramID key, if mf_flowCleanups h (trim_space key) then [(trim_space key, telegramID)] else [], None)
          else (h, [], None))"

datatype flow_choice = NoFlow | MainMenu | RunFlow string user_role

definition mainMenuReplyText :: string where
  "mainMenuReplyText = [CHR 0xF0, CHR 0x9F, CHR 0x8F, CHR 0xA0, CHR '' '', CHR 0xD0, CHR 0x93, CHR 0xD0, CHR 0xBB, CHR 0xD0, CHR 0xB0,
     CHR 0xD0, CHR 0xB2, CHR 0xD0, CHR 0xBD, CHR 0xD0, CHR 0xBE, CHR 0xD0, CHR 0xB5, CHR '' '', CHR 0xD0, CHR 0xBC, CHR 0xD0,
     CHR 0xB5, CHR 0xD0, CHR 0xBD, CHR 0xD1, CHR 0x8E]"

text \<open>Which flow takes a text and which a document; running it is \<open>executeFlow\<close>.\<close>

definition handleTextFlow :: "menu_flows \<Rightarrow> tele_ctx \<Rightarrow> flow_choice" where
  "handleTextFlow h ctx =
     (case tc_Sender ctx of
        None \<Rightarrow> NoFlow
      | Some s \<Rightarrow>
          if snd_ID s \<le> 0 then NoFlow
          else if trim_space (tc_Text ctx) = mainMenuReplyText then MainMenu
          else (let key = owner_of h (snd_ID s) in
                case mf_textHandlers h key of
                  None \<Rightarrow> NoFlow | Some role \<Rightarrow> if key = [] then NoFlow else RunFlow key role))"

definition handleDocumentFlow :: "menu_flows \<Rightarrow> tele_ctx \<Rightarrow> flow_choice" where
  "handleDocumentFlow h ctx =
     (case tc_Sender ctx of
        None \<Rightarrow> NoFlow
      | Some s \<Rightarrow>
          if snd_ID s \<le> 0 then NoFlow
          else (let key = owner_of h (snd_ID s) in
                if key \<noteq> [] then (case mf_documentHandlers h key of None \<Rightarrow> NoFlow | Some role \<Rightarrow> RunFlow key role)
                else (case mf_documentFallback h of None \<Rightarrow> NoFlow | Some role \<Rightarrow> RunFlow [] role)))"

text \<open>A flow that is displaced or ended is cleaned up exactly once, and an input goes to the owner only.\<close>

lemma BeginTextFlow_cleans_displaced:
  assumes "BeginTextFlow h u key = Some (h', calls)"
  shows "owner_of h' u = trim_space key \<and> (\<forall>v. v \<noteq> u \<longrightarrow> owner_of h' v = owner_of h v) \<and>
     calls = (if owner_of h u \<notin> {[], trim_space key} \<and> mf_flowCleanups h (owner_of h u) then [(owner_of h u, u)] else [])"
  using assms by (auto simp: BeginTextFlow_def Let_def owner_of_def split: if_splits)

lemma EndTextFlow_keeps_others: "owner_of h u \<noteq> trim_space key \<Longrightarrow> EndTextFlow h u key = h"
  by (simp add: EndTextFlow_def)

section \<open>Error texts\<close>

record error_case =
  ec_Target :: "sentinel option"
  ec_Key :: string
  ec_Text :: string

definition MatchError :: "goerr \<Rightarrow> error_case \<Rightarrow> error_case list \<Rightarrow> error_case" where
  "MatchError e fallback cases =
     (case find (\<lambda>c. ec_Target c = Some (err_sentinel e)) cases of None \<Rightarrow> fallback | Some c \<Rightarrow> c)"

definition MatchErrorWithDefaults :: "error_case list \<Rightarrow> goerr \<Rightarrow> error_case \<Rightarrow> error_case list \<Rightarrow> error_case" where
  "MatchErrorWithDefaults defaults e fallback cases =
     (case find (\<lambda>c. ec_Target c = Some (err_sentinel e)) cases of
        Some c \<Rightarrow> c | None \<Rightarrow> MatchError e fallback defaults)"

text \<open>The sentinels and keys of \<open>DefaultCoreErrorCases\<close>; \<open>texts\<close> are their messages.\<close>

definition DefaultCoreErrorCases :: "(string \<Rightarrow> string) \<Rightarrow> error_case list" where
  "DefaultCoreErrorCases texts =
     map (\<lambda>(target, key). \<lparr>ec_Target = Some target, ec_Key = key, ec_Text = texts key\<rparr>)
       [(ErrUnauthorized, ''common.unauthorized''), (ErrForbidden, ''common.forbidden''), (ErrNotFound, ''common.not_found''),
        (ErrConflict, ''common.conflict''), (ErrInvalidArgument, ''common.invalid_argument''),
        (ErrRateLimited, ''common.rate_limited''), (ErrQueueFull, ''common.queue_full''),
        (ErrCapacityExceeded, ''common.capacity_exceeded''), (ErrPayloadTooLarge, ''common.payload_too_large''),
        (ErrUnavailable, ''common.unavailable''), (ErrTimeout, ''common.timeout'')]"

section \<open>Texts of menus\<close>

text \<open>UTF-16 units: two for a rune of four bytes, one for any other.\<close>

definition rune_units :: "string \<Rightarrow> int" where
  "rune_units r = (if length r = 4 then 2 else 1)"

definition telegramTextUnits :: "string \<Rightarrow> int" where
  "telegramTextUnits s = sum_list (map rune_units (runes s))"

fun take_units :: "int \<Rightarrow> string list \<Rightarrow> string" where
  "take_units remaining [] = []"
| "take_units remaining (r # rs) = (if remaining < rune_units r then [] else r @ take_units (remaining - rune_units r) rs)"

definition truncateTelegramText :: "string \<Rightarrow> int \<Rightarrow> string" where
  "truncateTelegramText s maximumUnits =
     (if maximumUnits \<le> 0 then []
      else if telegramTextUnits s \<le> maximumUnits then s
      else take_units (maximumUnits - 1) (runes s) @ ellipsis)"

fun strip_tags :: "bool \<Rightarrow> string list \<Rightarrow> string" where
  "strip_tags inTag [] = []"
| "strip_tags inTag (r # rs) =
     (if r = ''<'' then strip_tags True rs
      else if r = ''>'' then (if inTag then strip_tags False rs else r @ strip_tags inTag rs)
      else if inTag then strip_tags inTag rs else r @ strip_tags inTag rs)"

definition plainTextFromMenuHTML :: "(string \<Rightarrow> string) \<Rightarrow> string \<Rightarrow> string" where
  "plainTextFromMenuHTML unescape s = unescape (strip_tags False (runes s))"

definition limitMenuText :: "(string \<Rightarrow> string) \<Rightarrow> (string \<Rightarrow> string) \<Rightarrow> string \<Rightarrow> string \<Rightarrow> string" where
  "limitMenuText escape unescape truncated s =
     (let plainText = plainTextFromMenuHTML unescape s in
      if telegramTextUnits plainText \<le> 4096 then s
      else escape (truncateTelegramText (trim_space plainText)
             (4096 - telegramTextUnits (plainTextFromMenuHTML unescape truncated))) @ truncated)"

section \<open>Notifications\<close>

definition notificationDedupeFor :: int where "notificationDedupeFor = 30 * 10 ^ 9"

definition normalizedNotificationKey :: "(string \<Rightarrow> string) \<Rightarrow> string \<Rightarrow> string \<Rightarrow> string" where
  "normalizedNotificationKey toLower key s =
     (if trim_space key \<noteq> [] then trim_space key else toLower (trim_space s))"

definition duplicateNotification :: "(string \<rightharpoonup> int) \<Rightarrow> string \<Rightarrow> int \<Rightarrow> bool" where
  "duplicateNotification shown key now =
     (let shownAt = (case shown key of None \<Rightarrow> 0 | Some t \<Rightarrow> t) in
      shownAt \<noteq> 0 \<and> 0 \<le> now - shownAt \<and> now - shownAt < notificationDedupeFor)"

text \<open>\<open>notify\<close>: \<open>chat\<close> tells whether the update has a chat; \<open>alert\<close> is the outcome of answering a callback
  (\<open>None\<close>: the update is no callback), \<open>sent\<close> that of sending a message. The last component is the
  message to be deleted later.\<close>

definition notify_menu ::
  "(string \<Rightarrow> string) \<Rightarrow> bool \<Rightarrow> int \<Rightarrow> goerr option option \<Rightarrow> int result \<Rightarrow> string \<Rightarrow> string \<Rightarrow> (string \<rightharpoonup> int) \<Rightarrow>
   (string \<rightharpoonup> int) \<times> goerr option \<times> int option" where
  "notify_menu toLower chat now alert sent key s shown =
     (let s = trim_space s; key = normalizedNotificationKey toLower key s in
      if \<not> chat then (shown, Some (GoErr NoSentinel ''bad context''), None)
      else if s = [] then (shown, Some (GoErr NoSentinel ''Telegram menu notification is empty''), None)
      else if duplicateNotification shown key now then (shown, None, None)
      else (case alert of
              Some None \<Rightarrow> (shown(key \<mapsto> now), None, None)
            | Some (Some e) \<Rightarrow> (shown, Some e, None)
            | None \<Rightarrow>
                (case sent of
                   Inl e \<Rightarrow> (shown, Some e, None)
                 | Inr messageID \<Rightarrow>
                     if messageID \<le> 0
                     then (shown, Some (GoErr NoSentinel ''temporary Telegram notification has no message ID''), None)
                     else (shown(key \<mapsto> now), None, Some messageID))))"

text \<open>\<open>acceptCallback\<close>: only the buttons of the menu recorded for the chat are accepted; the first button
  seen records its menu. \<open>saved\<close> is the outcome of recording it, \<open>answered\<close> that of the alert.\<close>

definition acceptCallback ::
  "(int \<times> int) option \<Rightarrow> (int \<Rightarrow> int option result) \<Rightarrow> goerr option \<Rightarrow> goerr option \<Rightarrow> bool \<times> goerr option \<times> (int \<times> int) option" where
  "acceptCallback callback get saved answered =
     (case callback of
        None \<Rightarrow> (True, None, None)
      | Some (chatID, messageID) \<Rightarrow>
          if chatID = 0 \<or> messageID \<le> 0 then (False, answered, None)
          else (case get chatID of
                  Inl e \<Rightarrow> (False, Some e, None)
                | Inr None \<Rightarrow> (case saved of Some e \<Rightarrow> (False, Some e, None) | None \<Rightarrow> (True, None, Some (chatID, messageID)))
                | Inr (Some current) \<Rightarrow> if current = messageID then (True, None, None) else (False, answered, None)))"

end
