(* ===== verification/TransferStore.thy ===== *)
theory TransferStore
  imports TransferWorkflow ProductDispatch
begin

text \<open>
  The tables of a transfer and the statements on them
  (\<open>internal/feature/transfer/repository/postgres\<close>: \<open>transfer.go\<close>, \<open>initialization.go\<close>, \<open>preparation_source.go\<close>,
  \<open>preparation_result.go\<close>, \<open>publication_result.go\<close>, \<open>publication_execution.go\<close>, \<open>outcome.go\<close>), with the commands of
  \<open>service/publication\<close> and \<open>service/preparation\<close> that reach them.

  A table is the list of its rows. \<open>NULL\<close> is the empty string, 0 or \<open>None\<close>; the \<open>CHECK\<close>s of
  \<open>migration/000004_transfer.up.sql\<close>, \<open>000005\<close> and \<open>000006\<close> exclude these values otherwise. An \<open>UPDATE\<close> whose new row
  violates a \<open>CHECK\<close>, or an insert that repeats a unique key, fails with \<open>pg_constraint\<close>. Foreign keys and the
  lengths of \<open>VARCHAR\<close> columns are left out: the code writes identifiers it has read or created in the same
  transaction, and texts it has bounded in bytes. One counter stands for the sequences of all tables. \<open>now\<close> is the
  timestamp of the transaction; a transaction that returns an error leaves the tables as they were.
\<close>

section \<open>Tables\<close>

record stored_target = target_rec +
  tg_BindingRevision :: int
  tg_CapabilityRevision :: int
  tg_ContentRead :: bool
  tg_ContentWrite :: bool
  tg_CreatedAt :: int

record source_group_row =
  sg_ID :: int
  sg_TransferID :: int
  sg_Key :: digest
  sg_FileID :: int
  sg_Name :: string

record source_item_row =
  si_ID :: int
  si_TransferID :: int
  si_BatchItemID :: int
  si_Position :: int
  si_SourceFileID :: int
  si_SourceRows :: "int list"
  si_SourceGroupID :: int
  si_VendorCode :: string
  si_Payload :: string

record group_row =
  gt_ID :: int
  gt_TransferID :: int
  gt_SourceGroupID :: int
  gt_TargetID :: int
  gt_Revision :: int
  gt_PreparationStatus :: string
  gt_ResultRevision :: int
  gt_ResultCode :: string
  gt_ProposalRoot :: "digest option"
  gt_ItemPosition :: int
  gt_Field :: string
  gt_PreparationStartedAt :: "int option"
  gt_PreparationFinishedAt :: "int option"
  gt_PublicationStatus :: string
  gt_MediaStatus :: string
  gt_Overall :: string
  gt_AttentionCode :: string
  gt_PlanID :: int
  gt_CreatedAt :: int
  gt_StartedAt :: "int option"
  gt_FinishedAt :: "int option"
  gt_UpdatedAt :: int

record item_row = item_target_projection +
  itp_SourceGroupID :: int

record artifact_row =
  af_GroupTargetID :: int
  af_TransferID :: int
  af_SubjectID :: int
  af_SemanticDigest :: digest
  af_MetadataDigest :: digest
  af_ProposalRoot :: digest
  af_RequestPayload :: string
  af_MetadataSnapshot :: string
  af_LimitsFree :: int
  af_LimitsPaid :: int
  af_LimitsObservedAt :: int

record store =
  st_transfers :: "transfer list"
  st_targets :: "stored_target list"
  st_groups :: "source_group_row list"
  st_items :: "source_item_row list"
  st_group_targets :: "group_row list"
  st_item_targets :: "item_row list"
  st_artifacts :: "artifact_row list"
  st_next :: int

text \<open>\<open>encoding/json\<close> and the type \<open>jsonb\<close>: \<open>json.Valid\<close>, \<open>json.Marshal\<close> of a \<open>json.RawMessage\<close>, whether a text is
  accepted as \<open>jsonb\<close> and an object, and equality of \<open>jsonb\<close> values.\<close>

record json_ops =
  jo_Valid :: "string \<Rightarrow> bool"
  jo_MarshalRaw :: "string \<Rightarrow> string option"
  jo_Object :: "string \<Rightarrow> bool"
  jo_Same :: "string \<Rightarrow> string \<Rightarrow> bool"

definition transfer_checks :: "transfer \<Rightarrow> bool" where
  "transfer_checks t \<longleftrightarrow>
     Phase_IsValid (tr_Phase t) \<and> Outcome_IsValid (tr_Outcome t) \<and> 0 \<le> tr_Revision t \<and>
     0 < tr_BatchSchemaVersion t \<and> 0 < tr_BatchNormalizationVersion t \<and> length (tr_BatchChecksum t) = 32 \<and>
     0 < tr_ItemsCount t \<and> 0 < tr_GroupsCount t \<and> tr_GroupsCount t \<le> tr_ItemsCount t \<and> tr_CohortName t \<noteq> [] \<and>
     length (tr_TargetSnapshotRevision t) = 32 \<and> length (tr_TargetSetRoot t) = 32 \<and>
     0 < tr_TargetsCount t \<and> 0 < tr_ItemTargetsCount t \<and> 0 < tr_GroupTargetsCount t \<and>
     (tr_Phase t = PhaseFinished \<and> tr_Outcome t \<noteq> OutcomeRunning \<and> tr_FinishedAt t \<noteq> None \<or>
      tr_Phase t \<noteq> PhaseFinished \<and> tr_Outcome t = OutcomeRunning \<and> tr_FinishedAt t = None) \<and>
     (tr_Outcome t = OutcomeRunning \<and> tr_AttentionCode t = [] \<or>
      tr_Outcome t = OutcomeFailed \<and> tr_AttentionCode t \<noteq> [] \<or>
      tr_Outcome t = OutcomeUnresolved \<or>
      tr_Outcome t \<in> {OutcomeSucceeded, OutcomePartial, OutcomeRejected, OutcomeCancelled}) \<and>
     tr_CreatedAt t \<le> tr_StartedAt t \<and> \<not> opt_before (tr_FinishedAt t) (tr_StartedAt t) \<and>
     tr_CreatedAt t \<le> tr_UpdatedAt t"

definition target_checks :: "stored_target \<Rightarrow> bool" where
  "target_checks t \<longleftrightarrow>
     0 < tg_Position t \<and> SellerID_Validate (tg_SellerID t) = None \<and> length (tg_ClientGeneration t) = 32 \<and>
     0 < tg_BindingRevision t \<and> 0 < tg_CapabilityRevision t \<and> tg_ContentRead t \<and> tg_ContentWrite t \<and>
     tg_CreatedAt t < tg_CredentialExpiresAt t"

definition status_valid :: "string \<Rightarrow> bool" where
  "status_valid s \<longleftrightarrow> s \<in> {''not_started'', ''running'', ''succeeded'', ''rejected'', ''unresolved'', ''skipped''}"

definition preparation_checks :: "group_row \<Rightarrow> bool" where
  "preparation_checks g \<longleftrightarrow>
     gt_PreparationStatus g \<in> {''not_started'', ''running'', ''skipped''} \<and> gt_ResultRevision g = 0 \<and>
       gt_ResultCode g = [] \<and> gt_ProposalRoot g = None \<and> gt_ItemPosition g = 0 \<and> gt_Field g = [] \<and>
       gt_PreparationFinishedAt g = None \<or>
     gt_PreparationStatus g = ''succeeded'' \<and> gt_ResultRevision g = 1 \<and> gt_ResultCode g = ''prepared'' \<and>
       gt_ProposalRoot g \<noteq> None \<and> gt_ItemPosition g = 0 \<and> gt_Field g = [] \<and>
       gt_PreparationStartedAt g \<noteq> None \<and> gt_PreparationFinishedAt g \<noteq> None \<or>
     gt_PreparationStatus g \<in> {''rejected'', ''unresolved''} \<and> gt_ResultRevision g = 1 \<and> gt_ResultCode g \<noteq> [] \<and>
       gt_ProposalRoot g = None \<and> gt_PreparationStartedAt g \<noteq> None \<and> gt_PreparationFinishedAt g \<noteq> None"

definition group_checks :: "group_row \<Rightarrow> bool" where
  "group_checks g \<longleftrightarrow>
     0 \<le> gt_Revision g \<and> (\<forall>root \<in> set_option (gt_ProposalRoot g). length root = 32) \<and> 0 \<le> gt_ItemPosition g \<and>
     status_valid (gt_PublicationStatus g) \<and> status_valid (gt_MediaStatus g) \<and>
     preparation_checks g \<and>
     (gt_PreparationFinishedAt g = None \<or>
      gt_PreparationStartedAt g \<noteq> None \<and> \<not> opt_before_opt (gt_PreparationFinishedAt g) (gt_PreparationStartedAt g)) \<and>
     (gt_Overall g = ''running'' \<and> gt_AttentionCode g = [] \<and> gt_FinishedAt g = None \<or>
      gt_Overall g \<in> {''unresolved'', ''internal_error'', ''success'', ''skipped'', ''rejected'', ''partial''} \<and>
        gt_FinishedAt g \<noteq> None) \<and>
     \<not> opt_before (gt_StartedAt g) (gt_CreatedAt g) \<and>
     (gt_FinishedAt g = None \<or> gt_StartedAt g \<noteq> None \<and> \<not> opt_before_opt (gt_FinishedAt g) (gt_StartedAt g)) \<and>
     gt_CreatedAt g \<le> gt_UpdatedAt g \<and>
     (gt_PublicationStatus g = ''not_started'' \<and> gt_PlanID g = 0 \<or>
      gt_PublicationStatus g \<noteq> ''not_started'' \<and> gt_PlanID g \<noteq> 0 \<or>
      gt_PreparationStatus g \<in> {''rejected'', ''unresolved''} \<and> gt_PublicationStatus g = ''skipped'' \<and>
        gt_MediaStatus g = ''skipped'' \<and> gt_PlanID g = 0)"

definition item_checks :: "item_row \<Rightarrow> bool" where
  "item_checks i \<longleftrightarrow>
     0 \<le> itp_Revision i \<and> (itp_OutcomeClass i = [] \<or> ResultClass_IsValid (itp_OutcomeClass i)) \<and>
     0 \<le> itp_NMID i \<and> 0 \<le> itp_SourceActionID i \<and>
     (itp_State i = ItemTargetPending \<and> itp_OutcomeClass i = [] \<and> itp_OutcomeCode i = [] \<and> itp_NMID i = 0 \<and>
        itp_SourceActionID i = 0 \<and> itp_AttentionClosedAt i = None \<and> itp_StartedAt i = None \<and> itp_FinishedAt i = None \<or>
      itp_State i = ItemTargetRunning \<and> itp_OutcomeClass i = [] \<and> itp_OutcomeCode i = [] \<and>
        itp_AttentionClosedAt i = None \<and> itp_FinishedAt i = None \<and> itp_StartedAt i \<noteq> None \<or>
      itp_State i = ItemTargetTerminal \<and> itp_OutcomeClass i \<noteq> [] \<and> itp_OutcomeCode i \<noteq> [] \<and>
        itp_StartedAt i \<noteq> None \<and> itp_FinishedAt i \<noteq> None) \<and>
     (itp_AttentionClosedAt i = None \<or>
      itp_State i = ItemTargetTerminal \<and> itp_OutcomeClass i \<in> {ResultUnresolved, ResultInternalError} \<and>
        \<not> opt_before_opt (itp_AttentionClosedAt i) (itp_FinishedAt i)) \<and>
     \<not> opt_before (itp_StartedAt i) (itp_CreatedAt i) \<and> \<not> opt_before_opt (itp_FinishedAt i) (itp_StartedAt i) \<and>
     itp_CreatedAt i \<le> itp_UpdatedAt i"

section \<open>Statements\<close>

definition ErrPreparationResultConflict :: goerr where
  "ErrPreparationResultConflict = GoErr ErrConflict ''conflict''"

definition ErrInitializationConflict :: goerr where
  "ErrInitializationConflict = GoErr ErrConflict ''transfer initialization conflicts with stored state''"

text \<open>\<open>UPDATE ... SET f WHERE p\<close> with the table's \<open>CHECK\<close>s: the rows and how many of them it affected.\<close>

definition pg_update :: "('r \<Rightarrow> bool) \<Rightarrow> ('r \<Rightarrow> bool) \<Rightarrow> ('r \<Rightarrow> 'r) \<Rightarrow> 'r list \<Rightarrow> ('r list \<times> int) result" where
  "pg_update checks p f rows =
     (if list_ex (\<lambda>r. p r \<and> \<not> checks (f r)) rows then Inl pg_constraint
      else Inr (update_where p f rows, affected p rows))"

definition pg_update_exactly ::
  "('r \<Rightarrow> bool) \<Rightarrow> int \<Rightarrow> ('r \<Rightarrow> bool) \<Rightarrow> ('r \<Rightarrow> 'r) \<Rightarrow> 'r list \<Rightarrow> 'r list result" where
  "pg_update_exactly checks n p f rows =
     rbind (pg_update checks p f rows) (\<lambda>(rows', k). if k \<noteq> n then Inl ErrPreparationResultConflict else Inr rows')"

definition with_transfers :: "store \<Rightarrow> transfer list result \<Rightarrow> store result" where
  "with_transfers st r = rbind r (\<lambda>rows. Inr (st\<lparr>st_transfers := rows\<rparr>))"

definition with_groups :: "store \<Rightarrow> group_row list result \<Rightarrow> store result" where
  "with_groups st r = rbind r (\<lambda>rows. Inr (st\<lparr>st_group_targets := rows\<rparr>))"

definition with_items :: "store \<Rightarrow> item_row list result \<Rightarrow> store result" where
  "with_items st r = rbind r (\<lambda>rows. Inr (st\<lparr>st_item_targets := rows\<rparr>))"

text \<open>\<open>revision = revision + 1, updated_at = CURRENT_TIMESTAMP\<close>.\<close>

definition touch_transfer :: "int \<Rightarrow> transfer \<Rightarrow> transfer" where
  "touch_transfer now t = t\<lparr>tr_Revision := tr_Revision t + 1, tr_UpdatedAt := pg_time now\<rparr>"

definition touch_group :: "int \<Rightarrow> group_row \<Rightarrow> group_row" where
  "touch_group now g = g\<lparr>gt_Revision := gt_Revision g + 1, gt_UpdatedAt := pg_time now\<rparr>"

definition touch_item :: "int \<Rightarrow> item_row \<Rightarrow> item_row" where
  "touch_item now i = i\<lparr>itp_Revision := itp_Revision i + 1, itp_UpdatedAt := pg_time now\<rparr>"

definition running_in :: "string list \<Rightarrow> transfer \<Rightarrow> bool" where
  "running_in phases t \<longleftrightarrow> tr_Phase t \<in> set phases \<and> tr_Outcome t = OutcomeRunning"

definition active_phases :: "string list" where
  "active_phases = [PhasePublishing, PhaseReconciling, PhaseMedia]"

definition pipeline_phases :: "string list" where
  "pipeline_phases = [PhasePreparing, PhaseAwaitingAuthorization, PhasePublishing, PhaseReconciling, PhaseMedia]"

text \<open>The subquery on \<open>wb.transfers\<close> that guards the updates of groups and items.\<close>

definition transfer_active :: "string list \<Rightarrow> int \<Rightarrow> store \<Rightarrow> bool" where
  "transfer_active phases transferID st \<longleftrightarrow>
     list_ex (\<lambda>t. tr_ID t = transferID \<and> running_in phases t) (st_transfers st)"

definition transfer_groups :: "int \<Rightarrow> store \<Rightarrow> group_row list" where
  "transfer_groups transferID st = filter (\<lambda>g. gt_TransferID g = transferID) (st_group_targets st)"

definition group_items :: "int \<Rightarrow> int \<Rightarrow> store \<Rightarrow> item_row list" where
  "group_items transferID groupTargetID st =
     filter (\<lambda>i. itp_TransferID i = transferID \<and> itp_GroupTargetID i = groupTargetID) (st_item_targets st)"

definition scanTransfer :: "transfer \<Rightarrow> transfer result" where
  "scanTransfer t =
     (if length (tr_BatchChecksum t) \<noteq> 32 \<or> length (tr_TargetSnapshotRevision t) \<noteq> 32 \<or> length (tr_TargetSetRoot t) \<noteq> 32
      then Inl (plain_error ''stored transfer digest has invalid length'')
      else guard (Transfer_Validate t) (Inr t))"

definition lockTransferByID :: "int \<Rightarrow> store \<Rightarrow> transfer result" where
  "lockTransferByID transferID st =
     (case find (\<lambda>t. tr_ID t = transferID) (st_transfers st) of
        None \<Rightarrow> Inl (GoErr ErrNotFound ''not found'')
      | Some t \<Rightarrow> scanTransfer t)"

section \<open>Outcomes\<close>

definition outcome_count :: "string \<Rightarrow> group_row list \<Rightarrow> int" where
  "outcome_count k gs = affected (\<lambda>g. gt_Overall g = k) gs"

definition terminal_groups :: "group_row list \<Rightarrow> int" where
  "terminal_groups gs = affected (\<lambda>g. gt_Overall g \<noteq> ''running'') gs"

text \<open>\<open>groupToTransferOutcomeExpression\<close>, and the condition under which a transfer asks for attention.\<close>

definition groups_unsettled :: "group_row list \<Rightarrow> bool" where
  "groups_unsettled gs \<longleftrightarrow> 0 < outcome_count ''unresolved'' gs \<or> 0 < outcome_count ''internal_error'' gs"

definition groupToTransferOutcome :: "group_row list \<Rightarrow> string" where
  "groupToTransferOutcome gs =
     (if groups_unsettled gs then OutcomeUnresolved
      else if outcome_count ''rejected'' gs = int (length gs) then OutcomeRejected
      else if 0 < outcome_count ''rejected'' gs \<or> 0 < outcome_count ''partial'' gs then OutcomePartial
      else OutcomeSucceeded)"

definition class_count :: "string list \<Rightarrow> item_row list \<Rightarrow> int" where
  "class_count ks is = affected (\<lambda>i. itp_OutcomeClass i \<in> set ks) is"

definition terminal_items :: "item_row list \<Rightarrow> int" where
  "terminal_items is = affected (\<lambda>i. itp_State i = ItemTargetTerminal) is"

definition items_unsettled :: "item_row list \<Rightarrow> bool" where
  "items_unsettled is \<longleftrightarrow> 0 < class_count [ResultUnresolved] is \<or> 0 < class_count [ResultInternalError] is"

definition items_publication :: "item_row list \<Rightarrow> string" where
  "items_publication is =
     (if items_unsettled is then ''unresolved''
      else if 0 < class_count [ResultRejected] is then ''rejected'' else ''succeeded'')"

definition items_overall :: "item_row list \<Rightarrow> string" where
  "items_overall is =
     (if items_unsettled is then ''unresolved''
      else if class_count [ResultRejected] is = int (length is) then ''rejected''
      else if 0 < class_count [ResultRejected] is \<and> 0 < class_count [ResultSuccess, ResultSkipped] is then ''partial''
      else ''success'')"

definition items_complete :: "item_row list \<Rightarrow> bool" where
  "items_complete is \<longleftrightarrow> is \<noteq> [] \<and> terminal_items is = int (length is)"

section \<open>Commands of the publication\<close>

definition code_ok :: "string \<Rightarrow> bool" where
  "code_ok code \<longleftrightarrow> code \<noteq> [] \<and> trimmed code \<and> length code \<le> 128"

record media_result =
  am_TransferID :: int
  am_GroupTargetID :: int
  am_OutcomeClass :: string
  am_OutcomeCode :: string

definition ApplyPublicationMediaResultCommand_Validate :: "media_result \<Rightarrow> goerr option" where
  "ApplyPublicationMediaResultCommand_Validate c =
     (if am_TransferID c \<le> 0 \<or> am_GroupTargetID c \<le> 0 \<or> \<not> ResultClass_IsValid (am_OutcomeClass c) \<or>
         \<not> code_ok (am_OutcomeCode c) \<or> am_OutcomeClass c = ResultPartial
      then Some (plain_error ''publication media result command is invalid'') else None)"

record correction =
  co_TransferID :: int
  co_ActionID :: int
  co_GroupTargetID :: int
  co_TransferItemTargetID :: int
  co_ExpectedItemRevision :: int
  co_ExpectedOutcomeClass :: string
  co_ExpectedOutcomeCode :: string
  co_ExpectedNMID :: int
  co_ExpectedAttentionClosed :: bool
  co_OutcomeClass :: string
  co_OutcomeCode :: string
  co_NMID :: int
  co_CloseAttentionNoRetry :: bool

definition CorrectPublicationItemResultCommand_Validate :: "correction \<Rightarrow> goerr option" where
  "CorrectPublicationItemResultCommand_Validate c =
     (if co_TransferID c \<le> 0 \<or> co_ActionID c \<le> 0 \<or> co_GroupTargetID c \<le> 0 \<or> co_TransferItemTargetID c \<le> 0 \<or>
         co_ExpectedItemRevision c < 0 \<or>
         co_ExpectedOutcomeClass c \<noteq> ResultUnresolved \<and> co_ExpectedOutcomeClass c \<noteq> ResultInternalError \<or>
         \<not> code_ok (co_ExpectedOutcomeCode c) \<or> co_ExpectedNMID c < 0 \<or> \<not> ResultClass_IsValid (co_OutcomeClass c) \<or>
         \<not> code_ok (co_OutcomeCode c) \<or> co_NMID c < 0
      then Some (plain_error ''publication item correction command is invalid'')
      else if co_CloseAttentionNoRetry c then
        first_err
          [(co_ExpectedAttentionClosed c, plain_error ''publication attention is already closed''),
           (co_OutcomeClass c \<noteq> co_ExpectedOutcomeClass c \<or> co_OutcomeCode c \<noteq> co_ExpectedOutcomeCode c \<or>
              co_NMID c \<noteq> co_ExpectedNMID c, plain_error ''publication attention closure changes item result'')]
      else
        first_err
          [(co_OutcomeClass c \<noteq> ResultSuccess \<and> co_OutcomeClass c \<noteq> ResultRejected,
              plain_error ''publication evidence correction result is invalid''),
           (co_OutcomeClass c = ResultSuccess \<and> co_NMID c \<le> 0 \<or> co_OutcomeClass c = ResultRejected \<and> co_NMID c \<noteq> 0,
              plain_error ''publication evidence correction remote identity is invalid'')])"

fun check_result_items :: "int list \<Rightarrow> result_item list \<Rightarrow> goerr option" where
  "check_result_items seen [] = None"
| "check_result_items seen (i # is) =
     (if ti_GroupTargetID i \<le> 0 \<or> ti_TransferItemTargetID i \<le> 0 \<or> \<not> ResultClass_IsValid (ti_OutcomeClass i) \<or>
         \<not> code_ok (ti_OutcomeCode i) \<or> ti_NMID i < 0
      then Some (plain_error ''publication terminal item is invalid'')
      else if ti_TransferItemTargetID i \<in> set seen then Some (plain_error ''publication terminal item is duplicated'')
      else check_result_items (ti_TransferItemTargetID i # seen) is)"

fun check_media_groups :: "int list \<Rightarrow> int list \<Rightarrow> goerr option" where
  "check_media_groups seen [] = None"
| "check_media_groups seen (g # gs) =
     (if g \<le> 0 then Some (plain_error ''publication media group is invalid'')
      else if g \<in> set seen then Some (plain_error ''publication media group is duplicated'')
      else check_media_groups (g # seen) gs)"

definition ApplyPublicationActionResultCommand_Validate :: "apply_result \<Rightarrow> goerr option" where
  "ApplyPublicationActionResultCommand_Validate c =
     (if ap_TransferID c \<le> 0 \<or> ap_ActionID c \<le> 0 \<or> ap_Items c = []
      then Some (plain_error ''publication action result command is invalid'')
      else or_else (check_result_items [] (ap_Items c)) (check_media_groups [] (ap_SkipMediaForGroups c)))"

section \<open>Results of product actions\<close>

definition BeginPublicationAction :: "int \<Rightarrow> int \<Rightarrow> store \<Rightarrow> store result" where
  "BeginPublicationAction now transferID st =
     with_transfers st (pg_update_exactly transfer_checks 1
       (\<lambda>t. tr_ID t = transferID \<and> running_in [PhaseAwaitingAuthorization, PhasePublishing, PhaseReconciling, PhaseMedia] t)
       (\<lambda>t. touch_transfer now (t\<lparr>tr_Phase := if tr_Phase t = PhaseMedia then PhaseMedia else PhasePublishing\<rparr>))
       (st_transfers st))"

definition MarkPublicationReconciling :: "int \<Rightarrow> int \<Rightarrow> store \<Rightarrow> store result" where
  "MarkPublicationReconciling now transferID st =
     with_transfers st (pg_update_exactly transfer_checks 1
       (\<lambda>t. tr_ID t = transferID \<and> running_in active_phases t)
       (\<lambda>t. touch_transfer now (t\<lparr>tr_Phase := if tr_Phase t = PhaseMedia then PhaseMedia else PhaseReconciling\<rparr>))
       (st_transfers st))"

definition BeginPublicationMedia :: "int \<Rightarrow> int \<Rightarrow> store \<Rightarrow> store result" where
  "BeginPublicationMedia now transferID st =
     with_transfers st (pg_update_exactly transfer_checks 1
       (\<lambda>t. tr_ID t = transferID \<and> running_in [PhaseAwaitingAuthorization, PhasePublishing, PhaseReconciling, PhaseMedia] t)
       (\<lambda>t. touch_transfer now (t\<lparr>tr_Phase := PhaseMedia\<rparr>))
       (st_transfers st))"

definition result_item_for :: "result_item list \<Rightarrow> item_row \<Rightarrow> result_item option" where
  "result_item_for items i =
     find (\<lambda>r. ti_GroupTargetID r = itp_GroupTargetID i \<and> ti_TransferItemTargetID r = itp_ID i) items"

definition finish_item_row :: "int \<Rightarrow> result_item list \<Rightarrow> item_row \<Rightarrow> item_row" where
  "finish_item_row now items i =
     (case result_item_for items i of
        None \<Rightarrow> i
      | Some r \<Rightarrow> touch_item now (i\<lparr>itp_State := ItemTargetTerminal, itp_OutcomeClass := ti_OutcomeClass r,
                    itp_OutcomeCode := ti_OutcomeCode r, itp_NMID := ti_NMID r,
                    itp_FinishedAt := Some (pg_time now)\<rparr>))"

definition finishPublicationActionItems :: "int \<Rightarrow> apply_result \<Rightarrow> store \<Rightarrow> store result" where
  "finishPublicationActionItems now c st =
     with_items st (pg_update_exactly item_checks (int (length (ap_Items c)))
       (\<lambda>i. itp_TransferID i = ap_TransferID c \<and> itp_SourceActionID i = ap_ActionID c \<and>
            result_item_for (ap_Items c) i \<noteq> None \<and> itp_State i = ItemTargetRunning \<and>
            transfer_active active_phases (itp_TransferID i) st)
       (finish_item_row now (ap_Items c)) (st_item_targets st))"

definition media_open :: "group_row \<Rightarrow> bool" where
  "media_open g \<longleftrightarrow> gt_MediaStatus g = ''not_started'' \<or> gt_MediaStatus g = ''running''"

definition skipPublicationActionMedia :: "int \<Rightarrow> apply_result \<Rightarrow> store \<Rightarrow> store result" where
  "skipPublicationActionMedia now c st =
     (if ap_SkipMediaForGroups c = [] then Inr st
      else with_groups st (pg_update_exactly group_checks (int (length (ap_SkipMediaForGroups c)))
        (\<lambda>g. gt_TransferID g = ap_TransferID c \<and> gt_ID g \<in> set (ap_SkipMediaForGroups c) \<and>
             (media_open g \<or> gt_MediaStatus g = ''skipped'') \<and> transfer_active active_phases (gt_TransferID g) st)
        (\<lambda>g. touch_group now (g\<lparr>gt_MediaStatus := ''skipped''\<rparr>)) (st_group_targets st)))"

definition finish_group_row :: "int \<Rightarrow> item_row list \<Rightarrow> group_row \<Rightarrow> group_row" where
  "finish_group_row now is g =
     touch_group now (g\<lparr>
       gt_PublicationStatus := items_publication is,
       gt_MediaStatus := (if gt_MediaStatus g = ''not_started'' then ''running'' else gt_MediaStatus g),
       gt_Overall :=
         (if gt_MediaStatus g = ''unresolved'' then ''unresolved''
          else if gt_MediaStatus g = ''rejected'' then ''partial''
          else if media_open g then ''running'' else items_overall is),
       gt_AttentionCode :=
         (if gt_MediaStatus g = ''unresolved'' then ''media_requires_attention''
          else if media_open g then []
          else if items_unsettled is then ''publication_requires_attention'' else []),
       gt_FinishedAt := (if media_open g then None else Some (pg_time now))\<rparr>)"

definition finishPublicationActionGroups :: "int \<Rightarrow> int \<Rightarrow> int list \<Rightarrow> store \<Rightarrow> store result" where
  "finishPublicationActionGroups now transferID groupTargetIDs st =
     with_groups st (pg_update_exactly group_checks (int (length groupTargetIDs))
       (\<lambda>g. gt_TransferID g = transferID \<and> gt_ID g \<in> set groupTargetIDs \<and> gt_Overall g = ''running'' \<and>
            items_complete (group_items transferID (gt_ID g) st) \<and>
            transfer_active active_phases (gt_TransferID g) st)
       (\<lambda>g. finish_group_row now (group_items transferID (gt_ID g) st) g) (st_group_targets st))"

definition finishPublicationTransfer :: "int \<Rightarrow> int \<Rightarrow> store \<Rightarrow> store result" where
  "finishPublicationTransfer now transferID st =
     (let gs = transfer_groups transferID st in
      with_transfers st (pg_update_exactly transfer_checks 1
        (\<lambda>t. tr_ID t = transferID \<and> running_in active_phases t \<and> int (length gs) = tr_GroupTargetsCount t \<and>
             \<not> list_ex (\<lambda>g. gt_Overall g = ''running'') gs)
        (\<lambda>t. touch_transfer now (t\<lparr>tr_Phase := PhaseFinished, tr_Outcome := groupToTransferOutcome gs,
               tr_AttentionCode := (if groups_unsettled gs then ''publication_requires_attention'' else []),
               tr_FinishedAt := Some (pg_time now)\<rparr>))
        (st_transfers st)))"

definition advanceOrFinishPublicationTransfer :: "int \<Rightarrow> int \<Rightarrow> string \<Rightarrow> store \<Rightarrow> store result" where
  "advanceOrFinishPublicationTransfer now transferID activePhase st =
     rbind (lockTransferByID transferID st) (\<lambda>t.
       if \<not> running_in active_phases t then Inl ErrPreparationResultConflict
       else
         rbind (pg_update transfer_checks
             (\<lambda>t. tr_ID t = transferID \<and> running_in active_phases t \<and>
                  list_ex (\<lambda>g. gt_Overall g = ''running'') (transfer_groups (tr_ID t) st))
             (\<lambda>t. touch_transfer now (t\<lparr>tr_Phase := if tr_Phase t = PhaseMedia then PhaseMedia else activePhase\<rparr>))
             (st_transfers st)) (\<lambda>(rows, n).
           if n = 1 then Inr (st\<lparr>st_transfers := rows\<rparr>)
           else finishPublicationTransfer now transferID (st\<lparr>st_transfers := rows\<rparr>)))"

definition affected_groups :: "apply_result \<Rightarrow> int list" where
  "affected_groups c = remdups (map ti_GroupTargetID (ap_Items c) @ ap_SkipMediaForGroups c)"

definition ApplyPublicationActionResult :: "int \<Rightarrow> apply_result \<Rightarrow> store \<Rightarrow> store result" where
  "ApplyPublicationActionResult now c st =
     guard (ApplyPublicationActionResultCommand_Validate c)
      (rbind (finishPublicationActionItems now c st) (\<lambda>st.
       rbind (skipPublicationActionMedia now c st) (\<lambda>st.
       rbind (finishPublicationActionGroups now (ap_TransferID c) (affected_groups c) st) (\<lambda>st.
         advanceOrFinishPublicationTransfer now (ap_TransferID c) PhaseReconciling st))))"

section \<open>Corrections of item results\<close>

definition open_attention :: "item_row list \<Rightarrow> int" where
  "open_attention is =
     affected (\<lambda>i. itp_OutcomeClass i \<in> {ResultUnresolved, ResultInternalError} \<and> itp_AttentionClosedAt i = None) is"

definition correctItem :: "int \<Rightarrow> correction \<Rightarrow> store \<Rightarrow> store result" where
  "correctItem now c st =
     with_items st (pg_update_exactly item_checks 1
       (\<lambda>i. itp_TransferID i = co_TransferID c \<and> itp_GroupTargetID i = co_GroupTargetID c \<and>
            itp_ID i = co_TransferItemTargetID c \<and> itp_SourceActionID i = co_ActionID c \<and>
            itp_Revision i = co_ExpectedItemRevision c \<and> itp_State i = ItemTargetTerminal \<and>
            itp_OutcomeClass i = co_ExpectedOutcomeClass c \<and> itp_OutcomeCode i = co_ExpectedOutcomeCode c \<and>
            itp_NMID i = co_ExpectedNMID c \<and> (itp_AttentionClosedAt i \<noteq> None) = co_ExpectedAttentionClosed c)
       (\<lambda>i. touch_item now (i\<lparr>itp_OutcomeClass := co_OutcomeClass c, itp_OutcomeCode := co_OutcomeCode c,
              itp_NMID := (if 0 < co_NMID c then co_NMID c else 0),
              itp_AttentionClosedAt := (if co_CloseAttentionNoRetry c then Some (pg_time now) else None)\<rparr>))
       (st_item_targets st))"

definition corrected_group_row :: "int \<Rightarrow> item_row list \<Rightarrow> group_row \<Rightarrow> group_row" where
  "corrected_group_row now is g =
     touch_group now (g\<lparr>
       gt_PublicationStatus := items_publication is,
       gt_Overall :=
         (if gt_MediaStatus g = ''unresolved'' then ''unresolved''
          else if gt_MediaStatus g = ''rejected'' then ''partial'' else items_overall is),
       gt_AttentionCode :=
         (if 0 < open_attention is then ''publication_requires_attention''
          else if gt_MediaStatus g = ''unresolved''
          then (if gt_AttentionCode g = [] then ''publication_requires_attention'' else gt_AttentionCode g)
          else [])\<rparr>)"

definition reduceCorrectedGroup :: "int \<Rightarrow> correction \<Rightarrow> store \<Rightarrow> store result" where
  "reduceCorrectedGroup now c st =
     (let is = group_items (co_TransferID c) (co_GroupTargetID c) st in
      with_groups st (pg_update_exactly group_checks 1
        (\<lambda>g. gt_TransferID g = co_TransferID c \<and> gt_ID g = co_GroupTargetID c \<and> gt_Overall g \<noteq> ''running'' \<and>
             items_complete is)
        (corrected_group_row now is) (st_group_targets st)))"

definition groups_open_attention :: "group_row list \<Rightarrow> int" where
  "groups_open_attention gs =
     affected (\<lambda>g. gt_Overall g \<in> {''unresolved'', ''internal_error''} \<and> gt_AttentionCode g \<noteq> []) gs"

definition reduceCorrectedTransfer :: "int \<Rightarrow> correction \<Rightarrow> store \<Rightarrow> store result" where
  "reduceCorrectedTransfer now c st =
     (let gs = transfer_groups (co_TransferID c) st in
      with_transfers st (pg_update_exactly transfer_checks 1
        (\<lambda>t. tr_ID t = co_TransferID c \<and> tr_Phase t = PhaseFinished \<and>
             tr_Outcome t \<in> {OutcomeSucceeded, OutcomePartial, OutcomeRejected, OutcomeUnresolved} \<and>
             int (length gs) = tr_GroupTargetsCount t \<and> terminal_groups gs = int (length gs))
        (\<lambda>t. touch_transfer now (t\<lparr>tr_Outcome := groupToTransferOutcome gs,
               tr_AttentionCode := (if 0 < groups_open_attention gs then ''publication_requires_attention'' else [])\<rparr>))
        (st_transfers st)))"

definition CorrectPublicationItemResult :: "int \<Rightarrow> correction \<Rightarrow> store \<Rightarrow> store result" where
  "CorrectPublicationItemResult now c st =
     guard (CorrectPublicationItemResultCommand_Validate c)
      (rbind (lockTransferByID (co_TransferID c) st) (\<lambda>t.
         if tr_Phase t \<noteq> PhaseFinished \<or> tr_Outcome t = OutcomeRunning \<or> tr_Outcome t = OutcomeFailed \<or>
            tr_Outcome t = OutcomeCancelled
         then Inl ErrPreparationResultConflict
         else
           rbind (correctItem now c st) (\<lambda>st.
           rbind (reduceCorrectedGroup now c st) (\<lambda>st. reduceCorrectedTransfer now c st))))"

section \<open>Results of media actions\<close>

definition media_status_of :: "string \<Rightarrow> string option" where
  "media_status_of result =
     (if result = ResultSuccess then Some ''succeeded''
      else if result = ResultSkipped then Some ''skipped''
      else if result = ResultRejected then Some ''rejected''
      else if result = ResultUnresolved \<or> result = ResultInternalError then Some ''unresolved''
      else None)"

definition media_group_row :: "int \<Rightarrow> string \<Rightarrow> string \<Rightarrow> item_row list \<Rightarrow> group_row \<Rightarrow> group_row" where
  "media_group_row now mediaStatus code is g =
     touch_group now (g\<lparr>
       gt_MediaStatus := mediaStatus,
       gt_Overall :=
         (if mediaStatus = ''unresolved'' then ''unresolved''
          else if mediaStatus = ''rejected'' then ''partial'' else items_overall is),
       gt_AttentionCode :=
         (if mediaStatus = ''unresolved'' then code
          else if items_unsettled is then ''publication_requires_attention'' else []),
       gt_FinishedAt := Some (pg_time now)\<rparr>)"

definition ApplyPublicationMediaResult :: "int \<Rightarrow> media_result \<Rightarrow> store \<Rightarrow> store result" where
  "ApplyPublicationMediaResult now c st =
     guard (ApplyPublicationMediaResultCommand_Validate c)
      (case media_status_of (am_OutcomeClass c) of
         None \<Rightarrow> Inl ErrPreparationResultConflict
       | Some mediaStatus \<Rightarrow>
           (let is = group_items (am_TransferID c) (am_GroupTargetID c) st in
            rbind (with_groups st (pg_update_exactly group_checks 1
                (\<lambda>g. gt_TransferID g = am_TransferID c \<and> gt_ID g = am_GroupTargetID c \<and>
                     gt_MediaStatus g = ''running'' \<and> gt_Overall g = ''running'' \<and>
                     gt_PublicationStatus g \<in> {''succeeded'', ''rejected'', ''unresolved'', ''skipped''} \<and>
                     items_complete is \<and> transfer_active [PhaseMedia] (gt_TransferID g) st)
                (media_group_row now mediaStatus (am_OutcomeCode c) is) (st_group_targets st)))
              (advanceOrFinishPublicationTransfer now (am_TransferID c) PhaseMedia)))"

section \<open>Publication plans\<close>

record projected_group =
  pgr_GroupTargetID :: int
  pgr_Status :: string
  pgr_OutcomeClass :: string
  pgr_OutcomeCode :: string
  pgr_HasMediaAction :: bool

record projected_item =
  pit_GroupTargetID :: int
  pit_TransferItemTargetID :: int
  pit_SourceActionID :: int
  pit_OutcomeClass :: string
  pit_OutcomeCode :: string
  pit_NMID :: int

record plan_result =
  pn_TransferID :: int
  pn_PlanID :: int
  pn_Groups :: "projected_group list"
  pn_Items :: "projected_item list"
  pn_ActionCount :: int

fun check_projected_groups :: "int list \<Rightarrow> projected_group list \<Rightarrow> goerr option" where
  "check_projected_groups seen [] = None"
| "check_projected_groups seen (g # gs) =
     or_else (first_err
      [(pgr_GroupTargetID g \<le> 0 \<or> \<not> code_ok (pgr_OutcomeCode g), plain_error ''publication planned group is invalid''),
       (pgr_Status g = ''running'' \<and> pgr_OutcomeClass g \<noteq> [],
          plain_error ''running publication group has terminal outcome''),
       (pgr_Status g = ''skipped'' \<and> pgr_OutcomeClass g \<noteq> ResultSkipped,
          plain_error ''skipped publication group has invalid outcome''),
       (pgr_Status g = ''rejected'' \<and> pgr_OutcomeClass g \<noteq> ResultRejected,
          plain_error ''rejected publication group has invalid outcome''),
       (pgr_Status g \<notin> {''running'', ''skipped'', ''rejected''},
          plain_error ''publication planned group status is invalid''),
       (pgr_GroupTargetID g \<in> set seen, plain_error ''publication planned group is duplicated'')])
     (check_projected_groups (pgr_GroupTargetID g # seen) gs)"

fun check_projected_items :: "int list \<Rightarrow> projected_item list \<Rightarrow> goerr option" where
  "check_projected_items seen [] = None"
| "check_projected_items seen (i # is) =
     or_else (first_err
      [(pit_GroupTargetID i \<le> 0 \<or> pit_TransferItemTargetID i \<le> 0 \<or> pit_SourceActionID i < 0 \<or> pit_NMID i < 0 \<or>
          \<not> trimmed (pit_OutcomeCode i) \<or> 128 < length (pit_OutcomeCode i),
          plain_error ''publication planned item is invalid''),
       (0 < pit_SourceActionID i \<and> (pit_OutcomeClass i \<noteq> [] \<or> pit_OutcomeCode i \<noteq> [] \<or> pit_NMID i \<noteq> 0),
          plain_error ''action-backed publication item has terminal result''),
       (\<not> 0 < pit_SourceActionID i \<and> (\<not> ResultClass_IsValid (pit_OutcomeClass i) \<or> pit_OutcomeCode i = []),
          plain_error ''read-only publication item has incomplete result''),
       (pit_TransferItemTargetID i \<in> set seen, plain_error ''publication planned item is duplicated'')])
     (check_projected_items (pit_TransferItemTargetID i # seen) is)"

definition ApplyPublicationPlanResultCommand_Validate :: "plan_result \<Rightarrow> goerr option" where
  "ApplyPublicationPlanResultCommand_Validate c =
     (if pn_TransferID c \<le> 0 \<or> pn_PlanID c \<le> 0 \<or> pn_ActionCount c < 0
      then Some (plain_error ''apply publication plan result command is invalid'')
      else or_else (check_projected_groups [] (pn_Groups c)) (check_projected_items [] (pn_Items c)))"

definition projected_finished :: "projected_group \<Rightarrow> bool" where
  "projected_finished g \<longleftrightarrow> pgr_Status g \<noteq> ''running'' \<and> \<not> pgr_HasMediaAction g"

definition planned_group_row :: "int \<Rightarrow> int \<Rightarrow> projected_group \<Rightarrow> group_row \<Rightarrow> group_row" where
  "planned_group_row now planID p g =
     touch_group now (g\<lparr>
       gt_PublicationStatus := pgr_Status p,
       gt_MediaStatus := (if \<not> projected_finished p \<and> pgr_HasMediaAction p then ''running'' else ''skipped''),
       gt_Overall := (if projected_finished p then pgr_OutcomeClass p else ''running''),
       gt_AttentionCode := [],
       gt_PlanID := planID,
       gt_FinishedAt := (if projected_finished p then Some (pg_time now) else None)\<rparr>)"

definition projection_for :: "projected_group list \<Rightarrow> group_row \<Rightarrow> projected_group option" where
  "projection_for gs g = find (\<lambda>p. pgr_GroupTargetID p = gt_ID g) gs"

definition updatePublicationPlanGroups :: "int \<Rightarrow> plan_result \<Rightarrow> store \<Rightarrow> store result" where
  "updatePublicationPlanGroups now c st =
     (if pn_Groups c = [] then Inr st
      else with_groups st (pg_update_exactly group_checks (int (length (pn_Groups c)))
        (\<lambda>g. gt_TransferID g = pn_TransferID c \<and> projection_for (pn_Groups c) g \<noteq> None \<and>
             gt_PreparationStatus g = ''succeeded'' \<and> gt_PublicationStatus g = ''not_started'' \<and>
             gt_Overall g = ''running'')
        (\<lambda>g. case projection_for (pn_Groups c) g of None \<Rightarrow> g | Some p \<Rightarrow> planned_group_row now (pn_PlanID c) p g)
        (st_group_targets st)))"

definition planned_item_for :: "projected_item list \<Rightarrow> item_row \<Rightarrow> projected_item option" where
  "planned_item_for ps i =
     find (\<lambda>p. pit_GroupTargetID p = itp_GroupTargetID i \<and> pit_TransferItemTargetID p = itp_ID i) ps"

definition planned_item_row :: "int \<Rightarrow> projected_item \<Rightarrow> item_row \<Rightarrow> item_row" where
  "planned_item_row now p i =
     touch_item now (i\<lparr>
       itp_State := (if 0 < pit_SourceActionID p then ItemTargetRunning else ItemTargetTerminal),
       itp_SourceActionID := pit_SourceActionID p,
       itp_OutcomeClass := pit_OutcomeClass p,
       itp_OutcomeCode := pit_OutcomeCode p,
       itp_NMID := pit_NMID p,
       itp_FinishedAt := (if 0 < pit_SourceActionID p then None else Some (pg_time now))\<rparr>)"

definition updatePublicationPlanItems :: "int \<Rightarrow> plan_result \<Rightarrow> store \<Rightarrow> store result" where
  "updatePublicationPlanItems now c st =
     (if pn_Items c = [] then Inr st
      else with_items st (pg_update_exactly item_checks (int (length (pn_Items c)))
        (\<lambda>i. itp_TransferID i = pn_TransferID c \<and> planned_item_for (pn_Items c) i \<noteq> None \<and>
             itp_State i = ItemTargetRunning \<and> itp_SourceActionID i = 0)
        (\<lambda>i. case planned_item_for (pn_Items c) i of None \<Rightarrow> i | Some p \<Rightarrow> planned_item_row now p i)
        (st_item_targets st)))"

definition transfer_items :: "int \<Rightarrow> store \<Rightarrow> item_row list" where
  "transfer_items transferID st = filter (\<lambda>i. itp_TransferID i = transferID) (st_item_targets st)"

definition reduceTransferAfterPlanning :: "int \<Rightarrow> int \<Rightarrow> store \<Rightarrow> store result" where
  "reduceTransferAfterPlanning now transferID st =
     (let gs = transfer_groups transferID st; is = transfer_items transferID st;
          groupsDone = (terminal_groups gs = int (length gs)); itemsDone = (terminal_items is = int (length is)) in
      with_transfers st (pg_update_exactly transfer_checks 1
        (\<lambda>t. tr_ID t = transferID \<and> running_in pipeline_phases t \<and>
             int (length gs) = tr_GroupTargetsCount t \<and> int (length is) = tr_ItemTargetsCount t)
        (\<lambda>t. touch_transfer now (t\<lparr>
           tr_Phase := (if groupsDone \<and> itemsDone then PhaseFinished else tr_Phase t),
           tr_Outcome := (if \<not> groupsDone \<or> \<not> itemsDone then OutcomeRunning else groupToTransferOutcome gs),
           tr_AttentionCode := (if groupsDone \<and> groups_unsettled gs then ''terminal_item_requires_attention'' else []),
           tr_FinishedAt := (if groupsDone \<and> itemsDone then Some (pg_time now) else None)\<rparr>))
        (st_transfers st)))"

definition ApplyPublicationPlanResult :: "int \<Rightarrow> plan_result \<Rightarrow> store \<Rightarrow> store result" where
  "ApplyPublicationPlanResult now c st =
     guard (ApplyPublicationPlanResultCommand_Validate c)
      (rbind (lockTransferByID (pn_TransferID c) st) (\<lambda>t.
         if \<not> running_in pipeline_phases t then Inl ErrPreparationResultConflict
         else
           rbind (updatePublicationPlanGroups now c st) (\<lambda>st.
           rbind (updatePublicationPlanItems now c st) (\<lambda>st.
             if 0 < pn_ActionCount c then
               with_transfers st (pg_update_exactly transfer_checks 1
                 (\<lambda>t. tr_ID t = pn_TransferID c \<and> running_in pipeline_phases t)
                 (\<lambda>t. touch_transfer now (t\<lparr>tr_Phase :=
                    if tr_Phase t = PhasePreparing then PhaseAwaitingAuthorization else tr_Phase t\<rparr>))
                 (st_transfers st))
             else reduceTransferAfterPlanning now (pn_TransferID c) st))))"

definition ResetPublicationPlanning :: "int \<Rightarrow> int \<Rightarrow> int \<Rightarrow> store \<Rightarrow> store result" where
  "ResetPublicationPlanning now transferID planID st =
     (if planID \<le> 0 then Inl (plain_error ''reset publication planning dependency is invalid'')
      else rbind (lockTransferByID transferID st) (\<lambda>t.
        if \<not> running_in pipeline_phases t then Inl ErrPreparationResultConflict
        else
          rbind (pg_update item_checks
              (\<lambda>i. itp_TransferID i = transferID \<and>
                   list_ex (\<lambda>g. gt_TransferID g = itp_TransferID i \<and> gt_ID g = itp_GroupTargetID i \<and>
                     gt_PlanID g = planID \<and> gt_PreparationStatus g = ''succeeded'') (st_group_targets st))
              (\<lambda>i. touch_item now (i\<lparr>itp_State := ItemTargetRunning, itp_OutcomeClass := [], itp_OutcomeCode := [],
                     itp_NMID := 0, itp_SourceActionID := 0, itp_AttentionClosedAt := None, itp_FinishedAt := None\<rparr>))
              (st_item_targets st)) (\<lambda>(items, _).
          rbind (pg_update group_checks
              (\<lambda>g. gt_TransferID g = transferID \<and> gt_PlanID g = planID \<and> gt_PreparationStatus g = ''succeeded'')
              (\<lambda>g. touch_group now (g\<lparr>gt_PublicationStatus := ''not_started'', gt_MediaStatus := ''not_started'',
                     gt_Overall := ''running'', gt_AttentionCode := [], gt_PlanID := 0, gt_FinishedAt := None\<rparr>))
              (st_group_targets st)) (\<lambda>(groups, n).
            if n = 0 then Inl ErrPreparationResultConflict
            else
              (let st = st\<lparr>st_item_targets := items, st_group_targets := groups\<rparr>
               in with_transfers st (pg_update_exactly transfer_checks 1
                    (\<lambda>t. tr_ID t = transferID \<and> running_in pipeline_phases t) (touch_transfer now) (st_transfers st)))))))"

section \<open>Results of the preparation\<close>

record prep_artifact =
  pf_SubjectID :: int
  pf_SemanticDigest :: digest
  pf_MetadataDigest :: digest
  pf_ProposalRoot :: digest
  pf_RequestPayload :: string
  pf_MetadataSnapshot :: string
  pf_LimitsFree :: int
  pf_LimitsPaid :: int
  pf_LimitsObservedAt :: int

record prep_result =
  pz_TransferID :: int
  pz_GroupTargetID :: int
  pz_Status :: string
  pz_OutcomeCode :: string
  pz_ItemPosition :: int
  pz_Field :: string
  pz_StartedAt :: int
  pz_FinishedAt :: int
  pz_ProposalRoot :: digest
  pz_Artifact :: "prep_artifact option"
  pz_Revision :: int

definition artifact_err :: "json_ops \<Rightarrow> prep_result \<Rightarrow> prep_artifact \<Rightarrow> goerr option" where
  "artifact_err jo c a =
     (case DigestJSON ''cardprepare-metadata:v1'' (jo_MarshalRaw jo (pf_MetadataSnapshot a)) of
        None \<Rightarrow> Some (plain_error ''transfer preparation artifact integrity is invalid'')
      | Some metadataDigest \<Rightarrow>
          if pf_SubjectID a \<le> 0 \<or> pf_SemanticDigest a = zero_digest \<or> pf_MetadataDigest a \<noteq> metadataDigest \<or>
             pf_ProposalRoot a \<noteq> pz_ProposalRoot c \<or> \<not> jo_Valid jo (pf_RequestPayload a) \<or>
             pf_LimitsObservedAt a = 0 \<or> pf_LimitsFree a < 0 \<or> pf_LimitsPaid a < 0 \<or>
             DigestProposal (pf_SemanticDigest a) (pf_MetadataDigest a) (pf_RequestPayload a) \<noteq> pz_ProposalRoot c
          then Some (plain_error ''transfer preparation artifact integrity is invalid'') else None)"

definition ApplyPreparationResultCommand_Validate :: "json_ops \<Rightarrow> prep_result \<Rightarrow> goerr option" where
  "ApplyPreparationResultCommand_Validate jo c =
     or_else (first_err
      [(pz_TransferID c \<le> 0 \<or> pz_GroupTargetID c \<le> 0 \<or> pz_Revision c \<noteq> 1 \<or> \<not> code_ok (pz_OutcomeCode c) \<or>
          pz_StartedAt c = 0 \<or> pz_FinishedAt c = 0 \<or> pz_FinishedAt c < pz_StartedAt c,
          plain_error ''apply transfer preparation result command is invalid''),
       (pz_ItemPosition c < 0 \<or> 128 < length (pz_Field c) \<or> \<not> trimmed (pz_Field c),
          plain_error ''apply transfer preparation result diagnostics are invalid'')])
     (if pz_Status c = ''succeeded'' then
        (case pz_Artifact c of
           None \<Rightarrow> Some (plain_error ''successful transfer preparation result is invalid'')
         | Some a \<Rightarrow>
             if pz_OutcomeCode c \<noteq> ''prepared'' \<or> pz_ProposalRoot c = zero_digest \<or> pz_ItemPosition c \<noteq> 0 \<or>
                pz_Field c \<noteq> []
             then Some (plain_error ''successful transfer preparation result is invalid'')
             else artifact_err jo c a)
      else if pz_Status c = ''rejected'' \<or> pz_Status c = ''unresolved'' then
        (if pz_ProposalRoot c \<noteq> zero_digest \<or> pz_Artifact c \<noteq> None
         then Some (plain_error ''unsuccessful transfer preparation result has proposal root'') else None)
      else Some (plain_error ''transfer preparation result status is invalid''))"

definition prepared_status :: "string \<Rightarrow> bool" where
  "prepared_status s \<longleftrightarrow> s = ''succeeded'' \<or> s = ''rejected'' \<or> s = ''unresolved''"

definition isSamePreparationResult :: "prep_result \<Rightarrow> group_row \<Rightarrow> bool" where
  "isSamePreparationResult c g \<longleftrightarrow>
     gt_PreparationStatus g = pz_Status c \<and> gt_ResultRevision g = pz_Revision c \<and>
     gt_ResultCode g \<noteq> [] \<and> gt_ResultCode g = pz_OutcomeCode c \<and>
     (if pz_Status c = ''succeeded''
      then gt_ProposalRoot g = Some (pz_ProposalRoot c) \<and> gt_ItemPosition g = 0 \<and> gt_Field g = []
      else (case gt_ProposalRoot g of None \<Rightarrow> True | Some r \<Rightarrow> r = []) \<and>
           gt_ItemPosition g = pz_ItemPosition c \<and> gt_Field g = pz_Field c)"

definition artifact_of :: "prep_result \<Rightarrow> prep_artifact \<Rightarrow> artifact_row" where
  "artifact_of c a =
     \<lparr>af_GroupTargetID = pz_GroupTargetID c, af_TransferID = pz_TransferID c, af_SubjectID = pf_SubjectID a,
      af_SemanticDigest = pf_SemanticDigest a, af_MetadataDigest = pf_MetadataDigest a,
      af_ProposalRoot = pf_ProposalRoot a, af_RequestPayload = pf_RequestPayload a,
      af_MetadataSnapshot = pf_MetadataSnapshot a, af_LimitsFree = pf_LimitsFree a, af_LimitsPaid = pf_LimitsPaid a,
      af_LimitsObservedAt = pg_time (pf_LimitsObservedAt a)\<rparr>"

definition artifact_checks :: "json_ops \<Rightarrow> artifact_row \<Rightarrow> bool" where
  "artifact_checks jo a \<longleftrightarrow>
     0 < af_SubjectID a \<and> length (af_SemanticDigest a) = 32 \<and> length (af_MetadataDigest a) = 32 \<and>
     length (af_ProposalRoot a) = 32 \<and> af_RequestPayload a \<noteq> [] \<and> length (af_RequestPayload a) \<le> 10000000 \<and>
     jo_Object jo (af_MetadataSnapshot a) \<and> 0 \<le> af_LimitsFree a \<and> 0 \<le> af_LimitsPaid a"

definition insertArtifact :: "json_ops \<Rightarrow> artifact_row \<Rightarrow> store \<Rightarrow> store result" where
  "insertArtifact jo a st =
     (if \<not> artifact_checks jo a \<or>
         list_ex (\<lambda>b. af_TransferID b = af_TransferID a \<and>
           (af_GroupTargetID b = af_GroupTargetID a \<or> af_ProposalRoot b = af_ProposalRoot a)) (st_artifacts st)
      then Inl pg_constraint
      else Inr (st\<lparr>st_artifacts := st_artifacts st @ [a]\<rparr>))"

definition same_artifact :: "json_ops \<Rightarrow> artifact_row \<Rightarrow> artifact_row \<Rightarrow> bool" where
  "same_artifact jo a b \<longleftrightarrow>
     jo_Same jo (af_MetadataSnapshot a) (af_MetadataSnapshot b) \<and>
     a = b\<lparr>af_MetadataSnapshot := af_MetadataSnapshot a\<rparr>"

definition verifyStoredPreparationArtifact :: "json_ops \<Rightarrow> prep_result \<Rightarrow> prep_artifact \<Rightarrow> store \<Rightarrow> goerr option" where
  "verifyStoredPreparationArtifact jo c a st =
     (if list_ex (\<lambda>b. same_artifact jo b (artifact_of c a)) (st_artifacts st) then None
      else Some ErrPreparationResultConflict)"

definition prepared_group_row :: "int \<Rightarrow> prep_result \<Rightarrow> group_row \<Rightarrow> group_row" where
  "prepared_group_row now c g =
     touch_group now (g\<lparr>
       gt_PreparationStatus := pz_Status c,
       gt_ResultRevision := pz_Revision c,
       gt_ResultCode := pz_OutcomeCode c,
       gt_ProposalRoot := (if pz_Status c = ''succeeded'' then Some (pz_ProposalRoot c) else None),
       gt_ItemPosition := (if 0 < pz_ItemPosition c then pz_ItemPosition c else 0),
       gt_Field := pz_Field c,
       gt_PreparationStartedAt := Some (pg_time (pz_StartedAt c)),
       gt_PreparationFinishedAt := Some (pg_time (pz_FinishedAt c)),
       gt_PublicationStatus := (if pz_Status c = ''succeeded'' then gt_PublicationStatus g else ''skipped''),
       gt_MediaStatus := (if pz_Status c = ''succeeded'' then gt_MediaStatus g else ''skipped''),
       gt_Overall := (if pz_Status c = ''succeeded'' then ''running'' else pz_Status c),
       gt_AttentionCode := (if pz_Status c = ''unresolved'' then pz_OutcomeCode c else []),
       gt_FinishedAt := (if pz_Status c = ''succeeded'' then None else Some (pg_time (pz_FinishedAt c)))\<rparr>)"

definition finishPreparationItems :: "int \<Rightarrow> prep_result \<Rightarrow> store \<Rightarrow> store result" where
  "finishPreparationItems now c st =
     (if pz_Status c = ''succeeded'' then Inr st
      else rbind (pg_update item_checks
          (\<lambda>i. itp_TransferID i = pz_TransferID c \<and> itp_GroupTargetID i = pz_GroupTargetID c \<and>
               itp_State i = ItemTargetRunning)
          (\<lambda>i. touch_item now (i\<lparr>itp_State := ItemTargetTerminal, itp_OutcomeClass := pz_Status c,
                 itp_OutcomeCode := pz_OutcomeCode c, itp_FinishedAt := Some (pg_time (pz_FinishedAt c))\<rparr>))
          (st_item_targets st)) (\<lambda>(rows, _). Inr (st\<lparr>st_item_targets := rows\<rparr>)))"

definition advanceTransferAfterPreparation :: "int \<Rightarrow> int \<Rightarrow> store \<Rightarrow> store result" where
  "advanceTransferAfterPreparation now transferID st =
     (let gs = transfer_groups transferID st; groupsDone = (terminal_groups gs = int (length gs)) in
      rbind (pg_update transfer_checks
          (\<lambda>t. tr_ID t = transferID \<and> running_in pipeline_phases t \<and> int (length gs) = tr_GroupTargetsCount t \<and>
               \<not> list_ex (\<lambda>g. \<not> prepared_status (gt_PreparationStatus g)) gs)
          (\<lambda>t. touch_transfer now (t\<lparr>
             tr_Phase := (if groupsDone then PhaseFinished
                          else if tr_Phase t = PhasePreparing then PhaseAwaitingAuthorization else tr_Phase t),
             tr_Outcome := (if \<not> groupsDone then OutcomeRunning else groupToTransferOutcome gs),
             tr_AttentionCode := (if groupsDone \<and> groups_unsettled gs then ''preparation_requires_attention'' else []),
             tr_FinishedAt := (if groupsDone then Some (pg_time now) else None)\<rparr>))
          (st_transfers st)) (\<lambda>(rows, _). Inr (st\<lparr>st_transfers := rows\<rparr>)))"

definition ApplyPreparationResult :: "json_ops \<Rightarrow> int \<Rightarrow> prep_result \<Rightarrow> store \<Rightarrow> store result" where
  "ApplyPreparationResult jo now c st =
     guard (ApplyPreparationResultCommand_Validate jo c)
      (case (find (\<lambda>t. tr_ID t = pz_TransferID c) (st_transfers st),
             find (\<lambda>g. gt_TransferID g = pz_TransferID c \<and> gt_ID g = pz_GroupTargetID c) (st_group_targets st)) of
         (Some t, Some g) \<Rightarrow>
           if prepared_status (gt_PreparationStatus g) then
             (if isSamePreparationResult c g then
                (case pz_Artifact c of
                   None \<Rightarrow> Inr st
                 | Some a \<Rightarrow> guard (verifyStoredPreparationArtifact jo c a st) (Inr st))
              else Inl ErrPreparationResultConflict)
           else if \<not> running_in pipeline_phases t \<or> gt_PreparationStatus g \<noteq> ''running'' \<or> gt_ResultRevision g \<noteq> 0
           then Inl ErrPreparationResultConflict
           else
             rbind (case pz_Artifact c of
                      None \<Rightarrow> Inr st
                    | Some a \<Rightarrow> if pz_Status c = ''succeeded'' then insertArtifact jo (artifact_of c a) st else Inr st) (\<lambda>st.
             rbind (pg_update group_checks
                 (\<lambda>g. gt_TransferID g = pz_TransferID c \<and> gt_ID g = pz_GroupTargetID c \<and>
                      gt_PreparationStatus g = ''running'' \<and> gt_ResultRevision g = 0)
                 (prepared_group_row now c) (st_group_targets st)) (\<lambda>(rows, n).
               if n = 0 then Inl ErrPreparationResultConflict
               else
                 rbind (finishPreparationItems now c (st\<lparr>st_group_targets := rows\<rparr>))
                   (advanceTransferAfterPreparation now (pz_TransferID c))))
       | _ \<Rightarrow> Inl ErrPreparationResultConflict)"

definition validPreparationActivation :: "transfer \<Rightarrow> int \<Rightarrow> int \<Rightarrow> int \<Rightarrow> int \<Rightarrow> bool" where
  "validPreparationActivation t totalGroups activeGroups totalItems activeItems \<longleftrightarrow>
     totalGroups = tr_GroupTargetsCount t \<and> activeGroups = totalGroups \<and>
     totalItems = tr_ItemTargetsCount t \<and> activeItems = totalItems"

definition coalesce :: "int option \<Rightarrow> int \<Rightarrow> int option" where
  "coalesce p t = (case p of None \<Rightarrow> Some t | Some x \<Rightarrow> Some x)"

definition BeginPreparation :: "int \<Rightarrow> int \<Rightarrow> store \<Rightarrow> store result" where
  "BeginPreparation now transferID st =
     rbind (lockTransferByID transferID st) (\<lambda>t.
       if tr_Phase t \<noteq> PhasePreparing
       then (if tr_Phase t = PhaseInitializing then Inl ErrPreparationResultConflict else Inr st)
       else
         rbind (pg_update group_checks
             (\<lambda>g. gt_TransferID g = transferID \<and> gt_PreparationStatus g = ''not_started'')
             (\<lambda>g. touch_group now (g\<lparr>gt_PreparationStatus := ''running'',
                    gt_StartedAt := coalesce (gt_StartedAt g) (pg_time now)\<rparr>)) (st_group_targets st)) (\<lambda>(groups, _).
         rbind (pg_update item_checks
             (\<lambda>i. itp_TransferID i = transferID \<and> itp_State i = ItemTargetPending)
             (\<lambda>i. touch_item now (i\<lparr>itp_State := ItemTargetRunning,
                    itp_StartedAt := coalesce (itp_StartedAt i) (pg_time now)\<rparr>)) (st_item_targets st)) (\<lambda>(items, _).
           let st = st\<lparr>st_group_targets := groups, st_item_targets := items\<rparr>;
               gs = transfer_groups transferID st; is = transfer_items transferID st
           in if \<not> validPreparationActivation t (int (length gs))
                   (affected (\<lambda>g. gt_PreparationStatus g \<in> {''running'', ''succeeded'', ''rejected'', ''unresolved'', ''skipped''}) gs)
                   (int (length is)) (affected (\<lambda>i. itp_State i \<in> {ItemTargetRunning, ItemTargetTerminal}) is)
              then Inl ErrPreparationResultConflict else Inr st)))"

section \<open>Initialization\<close>

definition wrap32 :: "int \<Rightarrow> int" where
  "wrap32 x = (x + 2 ^ 31) mod 2 ^ 32 - 2 ^ 31"

definition loadInitializationTargetIDs :: "transfer \<Rightarrow> store \<Rightarrow> int list result" where
  "loadInitializationTargetIDs t st =
     (let targetIDs = map tg_ID (sort_key tg_Position (filter (\<lambda>r. tg_TransferID r = tr_ID t) (st_targets st))) in
      if int (length targetIDs) \<noteq> tr_TargetsCount t then Inl ErrInitializationConflict else Inr targetIDs)"

definition initialization_counts :: "int \<Rightarrow> store \<Rightarrow> int \<times> int \<times> int \<times> int" where
  "initialization_counts transferID st =
     (affected (\<lambda>r. sg_TransferID r = transferID) (st_groups st),
      affected (\<lambda>r. si_TransferID r = transferID) (st_items st),
      affected (\<lambda>r. gt_TransferID r = transferID) (st_group_targets st),
      affected (\<lambda>r. itp_TransferID r = transferID) (st_item_targets st))"

text \<open>\<open>nextval\<close> for every number of a series.\<close>

definition reserveIDs :: "int \<Rightarrow> store \<Rightarrow> (store \<times> int list) result" where
  "reserveIDs n st =
     (if n \<le> 0 then Inl ErrInitializationConflict
      else Inr (st\<lparr>st_next := st_next st + n\<rparr>, map (\<lambda>k. st_next st + int k) [0..<nat n]))"

definition unique_by :: "('r \<Rightarrow> 'k) \<Rightarrow> 'r list \<Rightarrow> bool" where
  "unique_by key rows \<longleftrightarrow> distinct (map key rows)"

text \<open>\<open>COPY\<close>: the new rows meet the \<open>CHECK\<close>s and their keys are unique in the table.\<close>

definition pg_copy :: "('r \<Rightarrow> bool) \<Rightarrow> ('r list \<Rightarrow> bool) \<Rightarrow> 'r list \<Rightarrow> 'r list \<Rightarrow> 'r list result" where
  "pg_copy checks unique new rows =
     (if \<not> list_all checks new \<or> \<not> unique (rows @ new) then Inl pg_constraint else Inr (rows @ new))"

definition source_group_rows :: "int \<Rightarrow> int list \<Rightarrow> init_group list \<Rightarrow> source_group_row list" where
  "source_group_rows transferID groupIDs groups =
     map (\<lambda>k. \<lparr>sg_ID = groupIDs ! k, sg_TransferID = transferID, sg_Key = ig_SourceGroupKey (groups ! k),
              sg_FileID = ig_SourceFileID (groups ! k), sg_Name = ig_SourceGroupName (groups ! k)\<rparr>) [0..<length groups]"

definition source_item_rows :: "int \<Rightarrow> int list \<Rightarrow> int list \<Rightarrow> init_item list \<Rightarrow> source_item_row list" where
  "source_item_rows transferID groupIDs itemIDs items =
     map (\<lambda>k. let item = items ! k in
       \<lparr>si_ID = itemIDs ! k, si_TransferID = transferID, si_BatchItemID = ii_BatchItemID item,
        si_Position = ii_Position item, si_SourceFileID = ii_SourceFileID item,
        si_SourceRows = map wrap32 (ii_SourceRows item), si_SourceGroupID = groupIDs ! nat (ii_GroupPosition item),
        si_VendorCode = ii_VendorCode item, si_Payload = ii_Payload item\<rparr>) [0..<length items]"

definition new_group_target :: "int \<Rightarrow> int \<Rightarrow> int \<Rightarrow> int \<Rightarrow> int \<Rightarrow> group_row" where
  "new_group_target now i transferID sourceGroupID targetID =
     \<lparr>gt_ID = i, gt_TransferID = transferID, gt_SourceGroupID = sourceGroupID, gt_TargetID = targetID, gt_Revision = 0,
      gt_PreparationStatus = ''not_started'', gt_ResultRevision = 0, gt_ResultCode = [], gt_ProposalRoot = None,
      gt_ItemPosition = 0, gt_Field = [], gt_PreparationStartedAt = None, gt_PreparationFinishedAt = None,
      gt_PublicationStatus = ''not_started'', gt_MediaStatus = ''not_started'', gt_Overall = ''running'',
      gt_AttentionCode = [], gt_PlanID = 0, gt_CreatedAt = pg_time now, gt_StartedAt = None, gt_FinishedAt = None,
      gt_UpdatedAt = pg_time now\<rparr>"

definition group_target_rows :: "int \<Rightarrow> int \<Rightarrow> int list \<Rightarrow> int list \<Rightarrow> int list \<Rightarrow> group_row list" where
  "group_target_rows now transferID groupIDs targetIDs groupTargetIDs =
     map (\<lambda>k. new_group_target now (groupTargetIDs ! k) transferID (groupIDs ! (k div length targetIDs))
                (targetIDs ! (k mod length targetIDs))) [0..<length groupTargetIDs]"

definition new_item_target :: "int \<Rightarrow> int \<Rightarrow> int \<Rightarrow> int \<Rightarrow> int \<Rightarrow> int \<Rightarrow> item_row" where
  "new_item_target now i transferID sourceGroupID itemID groupTargetID =
     \<lparr>itp_ID = i, itp_TransferID = transferID, itp_GroupTargetID = groupTargetID, itp_TransferItemID = itemID,
      itp_Revision = 0, itp_State = ItemTargetPending, itp_OutcomeClass = [], itp_OutcomeCode = [], itp_NMID = 0,
      itp_SourceActionID = 0, itp_AttentionClosedAt = None, itp_CreatedAt = pg_time now, itp_StartedAt = None,
      itp_FinishedAt = None, itp_UpdatedAt = pg_time now, itp_SourceGroupID = sourceGroupID\<rparr>"

definition item_target_rows ::
  "int \<Rightarrow> int \<Rightarrow> int \<Rightarrow> int list \<Rightarrow> int list \<Rightarrow> int list \<Rightarrow> int list \<Rightarrow> init_item list \<Rightarrow> item_row list" where
  "item_target_rows now first transferID groupIDs itemIDs targetIDs groupTargetIDs items =
     map (\<lambda>k. let itemPosition = k div length targetIDs; targetPosition = k mod length targetIDs;
                  groupPosition = nat (ii_GroupPosition (items ! itemPosition));
                  groupTargetPosition = groupPosition * length targetIDs + targetPosition
       in new_item_target now (first + int k) transferID (groupIDs ! groupPosition) (itemIDs ! itemPosition)
            (groupTargetIDs ! groupTargetPosition)) [0..<length items * length targetIDs]"

definition store_Initialize :: "json_ops \<Rightarrow> int \<Rightarrow> init_command \<Rightarrow> store \<Rightarrow> store result" where
  "store_Initialize jo now c st =
     guard (InitializeTransferCommand_Validate c)
      (rbind (lockTransferByID (ic_TransferID c) st) (\<lambda>t.
       if tr_Phase t \<noteq> PhaseInitializing then Inr st
       else if tr_BatchID t \<noteq> ic_BatchID c \<or> tr_BatchChecksum t \<noteq> ic_BatchChecksum c \<or>
               tr_ItemsCount t \<noteq> ic_ItemsCount c \<or> tr_GroupsCount t \<noteq> ic_GroupsCount c
       then Inl ErrInitializationConflict
       else
         rbind (loadInitializationTargetIDs t st) (\<lambda>targetIDs.
         if initialization_counts (tr_ID t) st \<noteq> (0, 0, 0, 0) then Inl ErrInitializationConflict
         else
           (let groupTargetCount = wrap64 (int (length (ic_Groups c)) * int (length targetIDs));
                itemTargetCount = wrap64 (int (length (ic_Items c)) * int (length targetIDs)) in
            if groupTargetCount \<noteq> tr_GroupTargetsCount t \<or> itemTargetCount \<noteq> tr_ItemTargetsCount t \<or>
               max_int64 < groupTargetCount \<or> max_int64 < itemTargetCount
            then Inl ErrInitializationConflict
            else
              rbind (reserveIDs (int (length (ic_Groups c))) st) (\<lambda>(st, groupIDs).
              rbind (reserveIDs (int (length (ic_Items c))) st) (\<lambda>(st, itemIDs).
              rbind (reserveIDs groupTargetCount st) (\<lambda>(st, groupTargetIDs).
              rbind (pg_copy (\<lambda>r. length (sg_Key r) = 32 \<and> 0 < sg_FileID r) (unique_by (\<lambda>r. (sg_TransferID r, sg_Key r)))
                (source_group_rows (tr_ID t) groupIDs (ic_Groups c)) (st_groups st)) (\<lambda>groups.
              rbind (pg_copy (\<lambda>r. 0 < si_BatchItemID r \<and> 0 < si_Position r \<and> 0 < si_SourceFileID r \<and>
                      si_SourceRows r \<noteq> [] \<and> si_VendorCode r \<noteq> [] \<and> jo_Object jo (si_Payload r))
                (\<lambda>rs. unique_by (\<lambda>r. (si_TransferID r, si_BatchItemID r)) rs \<and> unique_by (\<lambda>r. (si_TransferID r, si_Position r)) rs)
                (source_item_rows (tr_ID t) groupIDs itemIDs (ic_Items c)) (st_items st)) (\<lambda>items.
              rbind (pg_copy group_checks (unique_by (\<lambda>r. (gt_TransferID r, gt_SourceGroupID r, gt_TargetID r)))
                (group_target_rows now (tr_ID t) groupIDs targetIDs groupTargetIDs) (st_group_targets st)) (\<lambda>groupTargets.
              rbind (pg_copy item_checks (unique_by (\<lambda>r. (itp_TransferID r, itp_TransferItemID r, itp_GroupTargetID r)))
                (item_target_rows now (st_next st) (tr_ID t) groupIDs itemIDs targetIDs groupTargetIDs (ic_Items c))
                (st_item_targets st)) (\<lambda>itemTargets.
                let st = st\<lparr>st_groups := groups, st_items := items, st_group_targets := groupTargets,
                            st_item_targets := itemTargets,
                            st_next := st_next st + int (length (ic_Items c) * length targetIDs)\<rparr>
                in if initialization_counts (tr_ID t) st \<noteq>
                        (tr_GroupsCount t, tr_ItemsCount t, tr_GroupTargetsCount t, tr_ItemTargetsCount t)
                   then Inl ErrInitializationConflict
                   else
                     (case pg_update_exactly transfer_checks 1
                         (\<lambda>r. tr_ID r = tr_ID t \<and> running_in [PhaseInitializing] r)
                         (\<lambda>r. touch_transfer now (r\<lparr>tr_Phase := PhasePreparing\<rparr>)) (st_transfers st) of
                        Inl e \<Rightarrow> Inl (if e = ErrPreparationResultConflict then ErrInitializationConflict else e)
                      | Inr rows \<Rightarrow> Inr (st\<lparr>st_transfers := rows\<rparr>)))))))))))))"

definition MarkInitializationFailed :: "int \<Rightarrow> int \<Rightarrow> string \<Rightarrow> store \<Rightarrow> store result" where
  "MarkInitializationFailed now transferID failureCode st =
     (if transferID \<le> 0 \<or> failureCode = [] \<or> 128 < length failureCode
      then Inl (GoErr ErrInvalidArgument ''invalid argument'')
      else
        rbind (pg_update transfer_checks
            (\<lambda>t. tr_ID t = transferID \<and> running_in [PhaseInitializing] t)
            (\<lambda>t. touch_transfer now (t\<lparr>tr_Phase := PhaseFinished, tr_Outcome := OutcomeFailed,
                   tr_AttentionCode := failureCode, tr_FinishedAt := Some (pg_time now)\<rparr>))
            (st_transfers st)) (\<lambda>(rows, n).
          if n = 1 then Inr (st\<lparr>st_transfers := rows\<rparr>)
          else
            (case find (\<lambda>t. tr_ID t = transferID) rows of
               None \<Rightarrow> Inl (plain_error ''load failed transfer state'')
             | Some t \<Rightarrow>
                 if tr_Phase t = PhaseFinished \<and> tr_Outcome t = OutcomeFailed \<and> tr_AttentionCode t = failureCode
                 then Inr st else Inl ErrInitializationConflict)))"

section \<open>Creation and queries\<close>

definition loadByBatch :: "int \<Rightarrow> store \<Rightarrow> transfer result" where
  "loadByBatch batchID st =
     (case find (\<lambda>t. tr_BatchID t = batchID) (st_transfers st) of
        None \<Rightarrow> Inl (GoErr ErrNotFound ''transfer for batch ID: not found'')
      | Some t \<Rightarrow> scanTransfer t)"

definition FindByID :: "int \<Rightarrow> store \<Rightarrow> transfer result" where
  "FindByID transferID st =
     (case find (\<lambda>t. tr_ID t = transferID) (st_transfers st) of
        None \<Rightarrow> Inl (GoErr ErrNotFound ''transfer ID: not found'')
      | Some t \<Rightarrow> scanTransfer t)"

definition ListTargetSellerIDs :: "int \<Rightarrow> store \<Rightarrow> seller_id list result" where
  "ListTargetSellerIDs transferID st =
     Inr (map tg_SellerID (sort_key tg_Position (filter (\<lambda>r. tg_TransferID r = transferID) (st_targets st))))"

definition new_transfer :: "int \<Rightarrow> int \<Rightarrow> create_transfer \<Rightarrow> transfer" where
  "new_transfer now i c =
     \<lparr>tr_ID = i, tr_BatchID = bh_ID (ct_Batch c), tr_Phase = PhaseInitializing, tr_Outcome = OutcomeRunning,
      tr_AttentionCode = [], tr_Revision = 0, tr_BatchSchemaVersion = bh_SchemaVersion (ct_Batch c),
      tr_BatchNormalizationVersion = bh_NormalizationVersion (ct_Batch c), tr_BatchChecksum = bh_Checksum (ct_Batch c),
      tr_ItemsCount = bh_ItemsCount (ct_Batch c), tr_GroupsCount = bh_GroupsCount (ct_Batch c),
      tr_CohortName = ts_CohortName (ct_Snapshot c), tr_TargetSnapshotRevision = ts_Revision (ct_Snapshot c),
      tr_TargetSetRoot = ct_TargetSetRoot c, tr_TargetsCount = cap_Targets (ct_Capacity c),
      tr_ItemTargetsCount = cap_ItemTargets (ct_Capacity c), tr_GroupTargetsCount = cap_GroupTargets (ct_Capacity c),
      tr_CreatedAt = pg_time now, tr_StartedAt = pg_time now, tr_FinishedAt = None, tr_UpdatedAt = pg_time now\<rparr>"

definition target_rows :: "int \<Rightarrow> int \<Rightarrow> int \<Rightarrow> mutation_target list \<Rightarrow> stored_target list" where
  "target_rows now first transferID targets =
     map (\<lambda>k. let target = targets ! k in
       \<lparr>tg_TransferID = transferID, tg_ID = first + int k, tg_Position = mt_Position target,
        tg_SellerID = mt_SellerID target, tg_ClientGeneration = mt_ClientGeneration target,
        tg_CredentialExpiresAt = pg_time (mt_CredentialExpiresAt target),
        tg_BindingRevision = mt_BindingRevision target, tg_CapabilityRevision = mt_CapabilityRevision target,
        tg_ContentRead = mt_ContentRead target, tg_ContentWrite = mt_ContentWrite target,
        tg_CreatedAt = pg_time now\<rparr>) [0..<length targets]"

definition store_Create :: "int \<Rightarrow> create_transfer \<Rightarrow> store \<Rightarrow> (store \<times> transfer \<times> bool) result" where
  "store_Create now c st =
     (let t = new_transfer now (st_next st) c in
      if \<not> transfer_checks t then Inl pg_constraint
      else if list_ex (\<lambda>r. tr_BatchID r = tr_BatchID t) (st_transfers st) then
        rbind (loadByBatch (bh_ID (ct_Batch c)) st) (\<lambda>existing. Inr (st, existing, False))
      else
        rbind (scanTransfer t) (\<lambda>t.
        rbind (pg_copy target_checks (\<lambda>rs. unique_by (\<lambda>r. (tg_TransferID r, tg_Position r)) rs \<and> unique_by (\<lambda>r. (tg_TransferID r, tg_SellerID r)) rs)
          (target_rows now (st_next st + 1) (tr_ID t) (ts_Targets (ct_Snapshot c))) (st_targets st)) (\<lambda>targets.
          Inr (st\<lparr>st_transfers := st_transfers st @ [t], st_targets := targets,
                  st_next := st_next st + 1 + int (length (ts_Targets (ct_Snapshot c)))\<rparr>, t, True))))"

fun scan_all :: "transfer list \<Rightarrow> transfer list result" where
  "scan_all [] = Inr []"
| "scan_all (t # ts) = rbind (scanTransfer t) (\<lambda>t. rbind (scan_all ts) (\<lambda>ts. Inr (t # ts)))"

definition initializationListPageLimit :: int where "initializationListPageLimit = 1000"

definition list_transfers :: "(transfer \<Rightarrow> bool) \<Rightarrow> int \<Rightarrow> int \<Rightarrow> store \<Rightarrow> transfer list result" where
  "list_transfers p afterID limit st =
     (if afterID < 0 \<or> limit \<le> 0 \<or> initializationListPageLimit < limit
      then Inl (GoErr ErrInvalidArgument ''invalid argument'')
      else scan_all (take (nat limit) (sort_key tr_ID (filter (\<lambda>t. p t \<and> afterID < tr_ID t) (st_transfers st)))))"

definition ListInitializing :: "int \<Rightarrow> int \<Rightarrow> store \<Rightarrow> transfer list result" where
  "ListInitializing afterID limit st = list_transfers (running_in [PhaseInitializing]) afterID limit st"

definition ListPreparing :: "int \<Rightarrow> int \<Rightarrow> store \<Rightarrow> transfer list result" where
  "ListPreparing afterID limit st =
     list_transfers (\<lambda>t. running_in pipeline_phases t \<and>
       list_ex (\<lambda>g. gt_PreparationStatus g = ''not_started'' \<or> gt_PreparationStatus g = ''running'')
         (transfer_groups (tr_ID t) st)) afterID limit st"

section \<open>The appliers\<close>

text \<open>\<open>PublicationExecutionResultApplier\<close>: the checks in front of the repository.\<close>

definition applier_BeginWithin :: "int \<Rightarrow> int \<Rightarrow> store \<Rightarrow> store result" where
  "applier_BeginWithin now transferID st =
     (if transferID \<le> 0 then Inl (plain_error ''begin publication action dependency is invalid'')
      else BeginPublicationAction now transferID st)"

definition applier_MarkReconcilingWithin :: "int \<Rightarrow> int \<Rightarrow> store \<Rightarrow> store result" where
  "applier_MarkReconcilingWithin now transferID st =
     (if transferID \<le> 0 then Inl (plain_error ''mark publication reconciling dependency is invalid'')
      else MarkPublicationReconciling now transferID st)"

definition applier_ApplyWithin :: "int \<Rightarrow> apply_result \<Rightarrow> store \<Rightarrow> store result" where
  "applier_ApplyWithin now c st =
     guard (ApplyPublicationActionResultCommand_Validate c) (ApplyPublicationActionResult now c st)"

definition applier_ResetPlanningWithin :: "int \<Rightarrow> int \<Rightarrow> int \<Rightarrow> store \<Rightarrow> store result" where
  "applier_ResetPlanningWithin now transferID planID st =
     (if transferID \<le> 0 \<or> planID \<le> 0 then Inl (plain_error ''reset publication planning dependency is invalid'')
      else ResetPublicationPlanning now transferID planID st)"

text \<open>The projections as the dispatcher of product actions uses them.\<close>

definition store_ops :: "int \<Rightarrow> store result_ops" where
  "store_ops now =
     \<lparr>ro_BeginWithin = applier_BeginWithin now, ro_MarkReconcilingWithin = applier_MarkReconcilingWithin now,
      ro_ApplyWithin = applier_ApplyWithin now, ro_ResetPlanningWithin = applier_ResetPlanningWithin now,
      ro_transfer = (\<lambda>st transferID. map_option (\<lambda>t. (tr_Phase t, tr_Outcome t))
                       (find (\<lambda>t. tr_ID t = transferID) (st_transfers st)))\<rparr>"

end
