(* ===== verification/TransferStoreProps.thy ===== *)
theory TransferStoreProps
  imports TransferStore
begin

text \<open>
  What the tables of a transfer guarantee: the rows stay within the \<open>CHECK\<close>s, identifiers are unique, and a transfer
  that has finished has finished all its groups and carries the outcome they reduce to.
\<close>

section \<open>Statements\<close>

lemma list_all_update_where:
  assumes "list_all q rows" and "\<And>r. r \<in> set rows \<Longrightarrow> p r \<Longrightarrow> q (f r)"
  shows "list_all q (update_where p f rows)"
  using assms by (auto simp: list_all_iff update_where_def)

lemma pg_updateD:
  assumes "pg_update checks p f rows = Inr (rows', n)"
  shows "rows' = update_where p f rows" "n = affected p rows" "\<And>r. r \<in> set rows \<Longrightarrow> p r \<Longrightarrow> checks (f r)"
  using assms by (auto simp: pg_update_def list_ex_iff split: if_splits)

lemma pg_update_exactlyD:
  assumes "pg_update_exactly checks n p f rows = Inr rows'"
  shows "rows' = update_where p f rows" "affected p rows = n" "\<And>r. r \<in> set rows \<Longrightarrow> p r \<Longrightarrow> checks (f r)"
proof -
  obtain k where u: "pg_update checks p f rows = Inr (rows', k)" and k: "k = n"
    using assms by (auto simp: pg_update_exactly_def rbind_eq_Inr_iff split: if_splits)
  show "rows' = update_where p f rows" using pg_updateD(1) [OF u] .
  show "affected p rows = n" using pg_updateD(2) [OF u] k by simp
  show "checks (f r)" if "r \<in> set rows" "p r" for r using pg_updateD(3) [OF u that] .
qed

lemma affected_pos: "0 < affected p rows \<longleftrightarrow> (\<exists>r \<in> set rows. p r)"
  by (auto simp: affected_def filter_empty_conv)

lemma affected_zero: "affected p rows = 0 \<Longrightarrow> update_where p f rows = rows"
  by (auto simp: affected_def update_where_def filter_empty_conv intro!: map_idI)

lemma affected_all: "affected p rows = int (length rows) \<longleftrightarrow> (\<forall>r \<in> set rows. p r)"
  by (metis affected_def filter_True filter_id_conv length_filter_less of_nat_eq_iff order_less_irrefl)

lemma map_update_where: "(\<And>r. key (f r) = key r) \<Longrightarrow> map key (update_where p f rows) = map key rows"
  by (auto simp: update_where_def)

lemma filter_update_where:
  assumes "\<And>r. p r \<Longrightarrow> \<not> q r" "\<And>r. p r \<Longrightarrow> \<not> q (f r)"
  shows "filter q (update_where p f rows) = filter q rows"
  using assms by (induction rows) (auto simp: update_where_def)

lemma in_update_where_other:
  assumes "\<And>r. p r \<Longrightarrow> \<not> q r" "\<And>r. p r \<Longrightarrow> \<not> q (f r)" "q r"
  shows "r \<in> set (update_where p f rows) \<longleftrightarrow> r \<in> set rows"
proof -
  have "r \<in> set (filter q (update_where p f rows)) \<longleftrightarrow> r \<in> set (filter q rows)"
    using filter_update_where [of p q f rows] assms(1,2) by metis
  with assms(3) show ?thesis by simp
qed

section \<open>The invariant\<close>

definition settled :: "group_row list \<Rightarrow> transfer \<Rightarrow> bool" where
  "settled gs t \<longleftrightarrow>
     (tr_Phase t = PhaseFinished \<and> tr_Outcome t \<noteq> OutcomeFailed \<longrightarrow>
        int (length gs) = tr_GroupTargetsCount t \<and> \<not> list_ex (\<lambda>g. gt_Overall g = ''running'') gs \<and>
        tr_Outcome t = groupToTransferOutcome gs)"

definition rows_checked :: "store \<Rightarrow> bool" where
  "rows_checked st \<longleftrightarrow> list_all transfer_checks (st_transfers st) \<and> list_all target_checks (st_targets st) \<and>
     list_all group_checks (st_group_targets st) \<and> list_all item_checks (st_item_targets st)"

definition keys_unique :: "store \<Rightarrow> bool" where
  "keys_unique st \<longleftrightarrow> distinct (map gt_ID (st_group_targets st)) \<and> distinct (map itp_ID (st_item_targets st)) \<and>
     list_all (\<lambda>n. n < st_next st) (map gt_ID (st_group_targets st)) \<and>
     list_all (\<lambda>n. n < st_next st) (map itp_ID (st_item_targets st))"

definition ids_unique :: "store \<Rightarrow> bool" where
  "ids_unique st \<longleftrightarrow> distinct (map tr_ID (st_transfers st)) \<and> distinct (map tg_ID (st_targets st)) \<and>
     list_all (\<lambda>t. tr_ID t < st_next st) (st_transfers st) \<and> list_all (\<lambda>r. tg_ID r < st_next st) (st_targets st)"

definition store_inv :: "store \<Rightarrow> bool" where
  "store_inv st \<longleftrightarrow> rows_checked st \<and> ids_unique st \<and> keys_unique st \<and>
     list_all (\<lambda>t. settled (transfer_groups (tr_ID t) st) t) (st_transfers st)"

text \<open>An operation on one transfer: the rows of the others stay.\<close>

definition only_transfer :: "int \<Rightarrow> store \<Rightarrow> store \<Rightarrow> bool" where
  "only_transfer k st st' \<longleftrightarrow>
     map tr_ID (st_transfers st') = map tr_ID (st_transfers st) \<and> st_targets st' = st_targets st \<and>
     st_next st \<le> st_next st' \<and>
     (\<forall>t. tr_ID t \<noteq> k \<longrightarrow> (t \<in> set (st_transfers st') \<longleftrightarrow> t \<in> set (st_transfers st))) \<and>
     (\<forall>j. j \<noteq> k \<longrightarrow> transfer_groups j st' = transfer_groups j st) \<and> (rows_checked st \<longrightarrow> rows_checked st') \<and> (keys_unique st \<longrightarrow> keys_unique st')"

lemma only_transfer_refl: "only_transfer k st st"
  by (simp add: only_transfer_def)

lemma only_transfer_trans: "only_transfer k st st' \<Longrightarrow> only_transfer k st' st'' \<Longrightarrow> only_transfer k st st''"
  unfolding only_transfer_def by auto

lemma settled_active: "tr_Phase t \<noteq> PhaseFinished \<Longrightarrow> settled gs t"
  by (simp add: settled_def)

lemma store_inv_only:
  assumes "store_inv st" and "only_transfer k st st'"
    and "\<And>t. t \<in> set (st_transfers st') \<Longrightarrow> tr_ID t = k \<Longrightarrow> settled (transfer_groups k st') t"
  shows "store_inv st'"
proof -
  have "ids_unique st'"
  proof -
    have ids: "map tr_ID (st_transfers st') = map tr_ID (st_transfers st)" and "st_targets st' = st_targets st"
      and "st_next st \<le> st_next st'" and "ids_unique st"
      using assms(1,2) by (simp_all add: only_transfer_def store_inv_def)
    have "list_all (\<lambda>n. n < st_next st') (map tr_ID (st_transfers st'))"
      unfolding ids using \<open>ids_unique st\<close> \<open>st_next st \<le> st_next st'\<close> by (auto simp: ids_unique_def list_all_iff)
    then have "list_all (\<lambda>t. tr_ID t < st_next st') (st_transfers st')" by (simp add: list.pred_map comp_def)
    moreover have "list_all (\<lambda>r. tg_ID r < st_next st') (st_targets st')"
      using \<open>ids_unique st\<close> \<open>st_next st \<le> st_next st'\<close> \<open>st_targets st' = st_targets st\<close>
      by (auto simp: ids_unique_def list_all_iff)
    ultimately show ?thesis
      using \<open>ids_unique st\<close> \<open>st_targets st' = st_targets st\<close> by (simp add: ids_unique_def ids)
  qed
  moreover have "settled (transfer_groups (tr_ID t) st') t" if "t \<in> set (st_transfers st')" for t
    using that assms by (cases "tr_ID t = k") (auto simp: only_transfer_def store_inv_def list_all_iff)
  ultimately show ?thesis
    using assms(1,2) by (simp add: store_inv_def only_transfer_def list_all_iff)
qed

text \<open>The single row a statement on one transfer changes.\<close>

lemma one_transfer_row:
  assumes "distinct (map tr_ID ts)" and "affected (\<lambda>t. tr_ID t = k \<and> q t) ts = 1"
    and f: "\<And>t. tr_ID (f t) = tr_ID t"
  shows "\<exists>t \<in> set ts. tr_ID t = k \<and> q t \<and>
    (\<forall>r \<in> set (update_where (\<lambda>t. tr_ID t = k \<and> q t) f ts). tr_ID r = k \<longrightarrow> r = f t)"
proof -
  have "0 < affected (\<lambda>t. tr_ID t = k \<and> q t) ts" using assms(2) by simp
  then obtain t where t: "t \<in> set ts" "tr_ID t = k" "q t" by (auto simp: affected_pos)
  have "r = f t" if r: "r \<in> set (update_where (\<lambda>t. tr_ID t = k \<and> q t) f ts)" "tr_ID r = k" for r
  proof -
    obtain u where u: "u \<in> set ts" "r = (if tr_ID u = k \<and> q u then f u else u)"
      using r(1) by (auto simp: update_where_def)
    then have "tr_ID u = k" using f r(2) by (simp split: if_splits)
    then have "u = t" using assms(1) t u(1) by (auto simp: distinct_map dest: inj_onD)
    then show ?thesis using u t by simp
  qed
  with t show ?thesis by blast
qed

lemma keys_unique_cong:
  "map gt_ID (st_group_targets st') = map gt_ID (st_group_targets st) \<Longrightarrow>
   map itp_ID (st_item_targets st') = map itp_ID (st_item_targets st) \<Longrightarrow> st_next st' = st_next st \<Longrightarrow>
   keys_unique st' = keys_unique st"
  by (simp add: keys_unique_def)

lemma only_transfer_transfers:
  assumes "\<And>t. tr_ID (f t) = tr_ID t" "\<And>t. t \<in> set (st_transfers st) \<Longrightarrow> p t \<Longrightarrow> transfer_checks (f t)"
    "\<And>t. p t \<Longrightarrow> tr_ID t = k"
  shows "only_transfer k st (st\<lparr>st_transfers := update_where p f (st_transfers st)\<rparr>)"
proof -
  have "t \<in> set (update_where p f (st_transfers st)) \<longleftrightarrow> t \<in> set (st_transfers st)" if "tr_ID t \<noteq> k" for t
    by (rule in_update_where_other [where q = "\<lambda>t. tr_ID t \<noteq> k"]) (use assms that in auto)
  then show ?thesis
    using assms keys_unique_cong [of st "st\<lparr>st_transfers := update_where p f (st_transfers st)\<rparr>"]
    by (auto simp: only_transfer_def map_update_where rows_checked_def transfer_groups_def
        intro!: list_all_update_where)
qed

lemma only_transfer_groups:
  assumes "\<And>g. gt_TransferID (f g) = gt_TransferID g" and "\<And>g. gt_ID (f g) = gt_ID g"
    and "\<And>g. g \<in> set (st_group_targets st) \<Longrightarrow> p g \<Longrightarrow> group_checks (f g)" and "\<And>g. p g \<Longrightarrow> gt_TransferID g = k"
  shows "only_transfer k st (st\<lparr>st_group_targets := update_where p f (st_group_targets st)\<rparr>)"
proof -
  have "filter (\<lambda>g. gt_TransferID g = j) (update_where p f (st_group_targets st)) =
      filter (\<lambda>g. gt_TransferID g = j) (st_group_targets st)" if "j \<noteq> k" for j
    by (rule filter_update_where) (use assms that in auto)
  moreover have "keys_unique (st\<lparr>st_group_targets := update_where p f (st_group_targets st)\<rparr>) = keys_unique st"
    by (rule keys_unique_cong) (simp_all add: map_update_where assms(2))
  ultimately show ?thesis
    using assms by (auto simp: only_transfer_def rows_checked_def transfer_groups_def intro!: list_all_update_where)
qed

lemma only_transfer_items:
  assumes "\<And>i. itp_ID (f i) = itp_ID i" and "\<And>i. i \<in> set (st_item_targets st) \<Longrightarrow> p i \<Longrightarrow> item_checks (f i)"
  shows "only_transfer k st (st\<lparr>st_item_targets := update_where p f (st_item_targets st)\<rparr>)"
proof -
  have "keys_unique (st\<lparr>st_item_targets := update_where p f (st_item_targets st)\<rparr>) = keys_unique st"
    by (rule keys_unique_cong) (simp_all add: map_update_where assms(1))
  then show ?thesis
    using assms by (auto simp: only_transfer_def rows_checked_def transfer_groups_def intro!: list_all_update_where)
qed

text \<open>What an operation on a transfer has to show.\<close>

definition settles :: "int \<Rightarrow> store \<Rightarrow> store \<Rightarrow> bool" where
  "settles k st st' \<longleftrightarrow> only_transfer k st st' \<and>
     (\<forall>t \<in> set (st_transfers st'). tr_ID t = k \<longrightarrow> settled (transfer_groups k st') t)"

lemma settles_inv: "store_inv st \<Longrightarrow> settles k st st' \<Longrightarrow> store_inv st'"
  using store_inv_only by (metis settles_def)

lemma settles_trans: "only_transfer k st st' \<Longrightarrow> settles k st' st'' \<Longrightarrow> settles k st st''"
  by (auto simp: settles_def intro: only_transfer_trans)

lemma only_transfer_distinct:
  "only_transfer k st st' \<Longrightarrow> distinct (map tr_ID (st_transfers st)) \<Longrightarrow> distinct (map tr_ID (st_transfers st'))"
  by (simp add: only_transfer_def)

lemma store_inv_distinct: "store_inv st \<Longrightarrow> distinct (map tr_ID (st_transfers st))"
  by (simp add: store_inv_def ids_unique_def)

lemma with_items_effect:
  assumes "with_items st (pg_update_exactly item_checks n p f (st_item_targets st)) = Inr st'"
    and "\<And>i. itp_ID (f i) = itp_ID i"
  shows "st' = st\<lparr>st_item_targets := update_where p f (st_item_targets st)\<rparr>" "only_transfer k st st'"
    "affected p (st_item_targets st) = n"
proof -
  obtain rows where u: "pg_update_exactly item_checks n p f (st_item_targets st) = Inr rows"
    and st': "st' = st\<lparr>st_item_targets := rows\<rparr>"
    using assms(1) by (auto simp: with_items_def rbind_eq_Inr_iff)
  note D = pg_update_exactlyD [OF u]
  show "st' = st\<lparr>st_item_targets := update_where p f (st_item_targets st)\<rparr>" using st' D(1) by simp
  show "affected p (st_item_targets st) = n" by (rule D(2))
  show "only_transfer k st st'" unfolding st' D(1) by (rule only_transfer_items, rule assms(2), rule D(3))
qed

lemma with_groups_effect:
  assumes "with_groups st (pg_update_exactly group_checks n p f (st_group_targets st)) = Inr st'"
    and "\<And>g. gt_TransferID (f g) = gt_TransferID g" and "\<And>g. gt_ID (f g) = gt_ID g"
    and "\<And>g. p g \<Longrightarrow> gt_TransferID g = k"
  shows "st' = st\<lparr>st_group_targets := update_where p f (st_group_targets st)\<rparr>" "only_transfer k st st'"
    "affected p (st_group_targets st) = n"
proof -
  obtain rows where u: "pg_update_exactly group_checks n p f (st_group_targets st) = Inr rows"
    and st': "st' = st\<lparr>st_group_targets := rows\<rparr>"
    using assms(1) by (auto simp: with_groups_def rbind_eq_Inr_iff)
  note D = pg_update_exactlyD [OF u]
  show "st' = st\<lparr>st_group_targets := update_where p f (st_group_targets st)\<rparr>" using st' D(1) by simp
  show "affected p (st_group_targets st) = n" by (rule D(2))
  show "only_transfer k st st'" unfolding st' D(1) by (rule only_transfer_groups) (use assms(2-4) D(3) in auto)
qed

lemma one_row_settles:
  assumes "distinct (map tr_ID (st_transfers st))"
    and "pg_update transfer_checks (\<lambda>t. tr_ID t = k \<and> q t) f (st_transfers st) = Inr (rows, 1)"
    and "\<And>t. tr_ID (f t) = tr_ID t"
    and "\<And>t. t \<in> set (st_transfers st) \<Longrightarrow> tr_ID t = k \<Longrightarrow> q t \<Longrightarrow> settled (transfer_groups k st) (f t)"
  shows "settles k st (st\<lparr>st_transfers := rows\<rparr>)"
proof -
  note D = pg_updateD [OF assms(2)]
  from D(2) have "affected (\<lambda>t. tr_ID t = k \<and> q t) (st_transfers st) = 1" by simp
  from one_transfer_row [OF assms(1) this assms(3)] obtain t where t: "t \<in> set (st_transfers st)" "tr_ID t = k" "q t"
    and only: "\<And>r. r \<in> set rows \<Longrightarrow> tr_ID r = k \<Longrightarrow> r = f t"
    unfolding D(1) by blast
  have "only_transfer k st (st\<lparr>st_transfers := rows\<rparr>)"
    unfolding D(1) by (rule only_transfer_transfers) (use assms(3) D(3) in auto)
  moreover have "settled (transfer_groups k st) r" if "r \<in> set rows" "tr_ID r = k" for r
    using only [OF that] assms(4) [OF t] by simp
  ultimately show ?thesis by (simp add: settles_def transfer_groups_def)
qed

lemma with_transfers_settles:
  assumes "with_transfers st (pg_update_exactly transfer_checks 1 (\<lambda>t. tr_ID t = k \<and> q t) f (st_transfers st)) = Inr st'"
    and "distinct (map tr_ID (st_transfers st))"
    and "\<And>t. tr_ID (f t) = tr_ID t"
    and "\<And>t. t \<in> set (st_transfers st) \<Longrightarrow> tr_ID t = k \<Longrightarrow> q t \<Longrightarrow> settled (transfer_groups k st) (f t)"
  shows "settles k st st'"
proof -
  obtain rows where u: "pg_update transfer_checks (\<lambda>t. tr_ID t = k \<and> q t) f (st_transfers st) = Inr (rows, 1)"
    and st': "st' = st\<lparr>st_transfers := rows\<rparr>"
    using assms(1) by (auto simp: with_transfers_def pg_update_exactly_def rbind_eq_Inr_iff split: if_splits)
  show ?thesis unfolding st' by (rule one_row_settles [OF assms(2) u assms(3)]) (rule assms(4))
qed

lemma update_settles:
  assumes "pg_update transfer_checks (\<lambda>t. tr_ID t = k \<and> q t) f (st_transfers st) = Inr (rows, n)"
    and "\<And>t. tr_ID (f t) = tr_ID t"
    and "\<And>t. t \<in> set (st_transfers st) \<Longrightarrow> tr_ID t = k \<Longrightarrow> q t \<Longrightarrow> settled (transfer_groups k st) (f t)"
    and "\<And>t. t \<in> set (st_transfers st) \<Longrightarrow> tr_ID t = k \<Longrightarrow> \<not> q t \<Longrightarrow> settled (transfer_groups k st) t"
  shows "settles k st (st\<lparr>st_transfers := rows\<rparr>)"
proof -
  note D = pg_updateD [OF assms(1)]
  have "settled (transfer_groups k st) r" if r: "r \<in> set rows" "tr_ID r = k" for r
  proof -
    obtain t where t: "t \<in> set (st_transfers st)" "r = (if tr_ID t = k \<and> q t then f t else t)"
      using r(1) by (auto simp: D(1) update_where_def)
    then have "tr_ID t = k" using r(2) assms(2) by (simp split: if_splits)
    with t assms(3,4) show ?thesis by (cases "q t") auto
  qed
  moreover have "only_transfer k st (st\<lparr>st_transfers := rows\<rparr>)"
    unfolding D(1) by (rule only_transfer_transfers) (use assms(2) D(3) in auto)
  ultimately show ?thesis by (simp add: settles_def transfer_groups_def)
qed

lemma touch_ids [simp]:
  "tr_ID (touch_transfer now t) = tr_ID t" "tr_Phase (touch_transfer now t) = tr_Phase t"
  "tr_Outcome (touch_transfer now t) = tr_Outcome t"
  "tr_GroupTargetsCount (touch_transfer now t) = tr_GroupTargetsCount t"
  "gt_TransferID (touch_group now g) = gt_TransferID g" "gt_ID (touch_group now g) = gt_ID g"
  "gt_Overall (touch_group now g) = gt_Overall g" "gt_MediaStatus (touch_group now g) = gt_MediaStatus g"
  "itp_ID (touch_item now i) = itp_ID i"
  by (simp_all add: touch_transfer_def touch_group_def touch_item_def)

lemma active_not_finished:
  "running_in active_phases t \<Longrightarrow> tr_Phase t \<noteq> PhaseFinished"
  "running_in pipeline_phases t \<Longrightarrow> tr_Phase t \<noteq> PhaseFinished"
  by (auto simp: running_in_def active_phases_def pipeline_phases_def phase_defs)

lemma phases_not_finished [simp]:
  "PhaseInitializing \<noteq> PhaseFinished" "PhasePreparing \<noteq> PhaseFinished" "PhaseAwaitingAuthorization \<noteq> PhaseFinished"
  "PhasePublishing \<noteq> PhaseFinished" "PhaseReconciling \<noteq> PhaseFinished" "PhaseMedia \<noteq> PhaseFinished"
  by (simp_all add: phase_defs)

section \<open>Operations keep the invariant\<close>

lemma begin_settles:
  assumes "distinct (map tr_ID (st_transfers st))"
  shows "BeginPublicationAction now k st = Inr st' \<Longrightarrow> settles k st st'"
    and "MarkPublicationReconciling now k st = Inr st' \<Longrightarrow> settles k st st'"
    and "BeginPublicationMedia now k st = Inr st' \<Longrightarrow> settles k st st'"
proof -
  assume s: "BeginPublicationAction now k st = Inr st'"
  show "settles k st st'"
    by (rule with_transfers_settles [OF s [unfolded BeginPublicationAction_def] assms])
      (auto intro!: settled_active)
next
  assume s: "MarkPublicationReconciling now k st = Inr st'"
  show "settles k st st'"
    by (rule with_transfers_settles [OF s [unfolded MarkPublicationReconciling_def] assms])
      (auto intro!: settled_active)
next
  assume s: "BeginPublicationMedia now k st = Inr st'"
  show "settles k st st'"
    by (rule with_transfers_settles [OF s [unfolded BeginPublicationMedia_def] assms])
      (auto intro!: settled_active)
qed

lemma finishPublicationTransfer_settles:
  assumes "finishPublicationTransfer now k st = Inr st'" and "distinct (map tr_ID (st_transfers st))"
  shows "settles k st st'"
  by (rule with_transfers_settles [OF assms(1) [unfolded finishPublicationTransfer_def Let_def] assms(2)])
    (auto simp: settled_def)

lemma advanceOrFinish_settles:
  assumes "advanceOrFinishPublicationTransfer now k phase st = Inr st'" and "distinct (map tr_ID (st_transfers st))"
    and "phase \<noteq> PhaseFinished"
  shows "settles k st st'"
proof -
  let ?q = "\<lambda>t. running_in active_phases t \<and> list_ex (\<lambda>g. gt_Overall g = ''running'') (transfer_groups (tr_ID t) st)"
  let ?f = "\<lambda>t. touch_transfer now (t\<lparr>tr_Phase := if tr_Phase t = PhaseMedia then PhaseMedia else phase\<rparr>)"
  obtain rows n where u: "pg_update transfer_checks (\<lambda>t. tr_ID t = k \<and> ?q t) ?f (st_transfers st) = Inr (rows, n)"
    and r: "(if n = 1 then Inr (st\<lparr>st_transfers := rows\<rparr>)
             else finishPublicationTransfer now k (st\<lparr>st_transfers := rows\<rparr>)) = Inr st'"
    using assms(1) by (auto simp: advanceOrFinishPublicationTransfer_def rbind_eq_Inr_iff split: if_splits)
  note D = pg_updateD [OF u]
  show ?thesis
  proof (cases "n = 1")
    case True
    have "settles k st (st\<lparr>st_transfers := rows\<rparr>)"
      by (rule one_row_settles [OF assms(2) u [unfolded True]]) (auto intro!: settled_active simp: assms(3))
    with r True show ?thesis by simp
  next
    case False
    have only: "only_transfer k st (st\<lparr>st_transfers := rows\<rparr>)"
      unfolding D(1) by (rule only_transfer_transfers, simp, erule (1) D(3), simp)
    with r False assms(2) show ?thesis
      by (auto intro!: settles_trans [OF only] finishPublicationTransfer_settles dest: only_transfer_distinct)
  qed
qed

lemma row_ids [simp]:
  "itp_ID (finish_item_row now rs i) = itp_ID i" "itp_ID (planned_item_row now q i) = itp_ID i"
  "gt_ID (corrected_group_row now is g) = gt_ID g" "gt_ID (media_group_row now s c is g) = gt_ID g"
  "gt_ID (planned_group_row now p r g) = gt_ID g"
  "gt_TransferID (finish_group_row now is g) = gt_TransferID g" "gt_ID (finish_group_row now is g) = gt_ID g"
  "gt_TransferID (corrected_group_row now is g) = gt_TransferID g"
  "gt_TransferID (media_group_row now s c is g) = gt_TransferID g"
  "gt_TransferID (planned_group_row now p r g) = gt_TransferID g"
  "gt_TransferID (prepared_group_row now pc g) = gt_TransferID g" "gt_ID (prepared_group_row now pc g) = gt_ID g"
  by (simp_all add: finish_group_row_def corrected_group_row_def media_group_row_def planned_group_row_def
      prepared_group_row_def finish_item_row_def planned_item_row_def split: option.split)

lemma finish_items_only:
  assumes "finishPublicationActionItems now c st = Inr st'"
  shows "only_transfer k st st'"
  using assms unfolding finishPublicationActionItems_def by (rule with_items_effect(2)) simp

lemma skip_media_only:
  assumes "skipPublicationActionMedia now c st = Inr st'"
  shows "only_transfer (ap_TransferID c) st st'"
proof (cases "ap_SkipMediaForGroups c = []")
  case True
  with assms show ?thesis by (simp add: skipPublicationActionMedia_def only_transfer_refl)
next
  case False
  with assms have "with_groups st (pg_update_exactly group_checks (int (length (ap_SkipMediaForGroups c)))
        (\<lambda>g. gt_TransferID g = ap_TransferID c \<and> gt_ID g \<in> set (ap_SkipMediaForGroups c) \<and>
             (media_open g \<or> gt_MediaStatus g = ''skipped'') \<and> transfer_active active_phases (gt_TransferID g) st)
        (\<lambda>g. touch_group now (g\<lparr>gt_MediaStatus := ''skipped''\<rparr>)) (st_group_targets st)) = Inr st'"
    by (simp add: skipPublicationActionMedia_def)
  then show ?thesis by (rule with_groups_effect(2)) auto
qed

lemma finish_groups_only:
  assumes "finishPublicationActionGroups now k gs st = Inr st'"
  shows "only_transfer k st st'"
  using assms unfolding finishPublicationActionGroups_def by (rule with_groups_effect(2)) auto

lemma ApplyPublicationActionResult_settles:
  assumes "ApplyPublicationActionResult now c st = Inr st'" and "distinct (map tr_ID (st_transfers st))"
  shows "settles (ap_TransferID c) st st'"
proof -
  let ?k = "ap_TransferID c"
  obtain st1 st2 st3 where s1: "finishPublicationActionItems now c st = Inr st1"
    and s2: "skipPublicationActionMedia now c st1 = Inr st2"
    and s3: "finishPublicationActionGroups now ?k (affected_groups c) st2 = Inr st3"
    and s4: "advanceOrFinishPublicationTransfer now ?k PhaseReconciling st3 = Inr st'"
    using assms(1) by (auto simp: ApplyPublicationActionResult_def rbind_eq_Inr_iff)
  have only: "only_transfer ?k st st3"
    using finish_items_only [OF s1, of ?k] skip_media_only [OF s2] finish_groups_only [OF s3]
    by (blast intro: only_transfer_trans)
  then show ?thesis
    using advanceOrFinish_settles [OF s4 only_transfer_distinct [OF only assms(2)]] settles_trans by simp
qed

lemma terminal_groups_all:
  "terminal_groups gs = int (length gs) \<longleftrightarrow> \<not> list_ex (\<lambda>g. gt_Overall g = ''running'') gs"
  by (auto simp: terminal_groups_def affected_all list_ex_iff)

lemma CorrectPublicationItemResult_settles:
  assumes "CorrectPublicationItemResult now c st = Inr st'" and "distinct (map tr_ID (st_transfers st))"
  shows "settles (co_TransferID c) st st'"
proof -
  let ?k = "co_TransferID c"
  obtain st1 st2 where s1: "correctItem now c st = Inr st1" and s2: "reduceCorrectedGroup now c st1 = Inr st2"
    and s3: "reduceCorrectedTransfer now c st2 = Inr st'"
    using assms(1) by (auto simp: CorrectPublicationItemResult_def rbind_eq_Inr_iff split: if_splits)
  have "only_transfer ?k st st1" using s1 unfolding correctItem_def by (rule with_items_effect(2)) simp
  moreover have "only_transfer ?k st1 st2"
    using s2 unfolding reduceCorrectedGroup_def Let_def by (rule with_groups_effect(2)) auto
  ultimately have only: "only_transfer ?k st st2" by (rule only_transfer_trans)
  have "settles ?k st2 st'"
    by (rule with_transfers_settles [OF s3 [unfolded reduceCorrectedTransfer_def Let_def] only_transfer_distinct [OF only assms(2)]])
      (auto simp: settled_def terminal_groups_all)
  with only show ?thesis by (rule settles_trans)
qed

lemma ApplyPublicationMediaResult_settles:
  assumes "ApplyPublicationMediaResult now c st = Inr st'" and "distinct (map tr_ID (st_transfers st))"
  shows "settles (am_TransferID c) st st'"
proof -
  let ?k = "am_TransferID c"
  let ?is = "group_items ?k (am_GroupTargetID c) st"
  obtain s st1 where s1: "with_groups st (pg_update_exactly group_checks 1
                (\<lambda>g. gt_TransferID g = ?k \<and> gt_ID g = am_GroupTargetID c \<and>
                     gt_MediaStatus g = ''running'' \<and> gt_Overall g = ''running'' \<and>
                     gt_PublicationStatus g \<in> {''succeeded'', ''rejected'', ''unresolved'', ''skipped''} \<and>
                     items_complete ?is \<and> transfer_active [PhaseMedia] (gt_TransferID g) st)
                (media_group_row now s (am_OutcomeCode c) ?is) (st_group_targets st)) = Inr st1"
    and s2: "advanceOrFinishPublicationTransfer now ?k PhaseMedia st1 = Inr st'"
    using assms(1) by (auto simp: ApplyPublicationMediaResult_def rbind_eq_Inr_iff Let_def split: option.splits)
  have only: "only_transfer ?k st st1" using s1 by (rule with_groups_effect(2)) auto
  then show ?thesis
    using advanceOrFinish_settles [OF s2 only_transfer_distinct [OF only assms(2)]] settles_trans by simp
qed

lemma plan_groups_only:
  assumes "updatePublicationPlanGroups now c st = Inr st'"
  shows "only_transfer (pn_TransferID c) st st'"
proof (cases "pn_Groups c = []")
  case True
  with assms show ?thesis by (simp add: updatePublicationPlanGroups_def only_transfer_refl)
next
  case False
  with assms have "with_groups st (pg_update_exactly group_checks (int (length (pn_Groups c)))
        (\<lambda>g. gt_TransferID g = pn_TransferID c \<and> projection_for (pn_Groups c) g \<noteq> None \<and>
             gt_PreparationStatus g = ''succeeded'' \<and> gt_PublicationStatus g = ''not_started'' \<and>
             gt_Overall g = ''running'')
        (\<lambda>g. case projection_for (pn_Groups c) g of None \<Rightarrow> g | Some p \<Rightarrow> planned_group_row now (pn_PlanID c) p g)
        (st_group_targets st)) = Inr st'"
    by (simp add: updatePublicationPlanGroups_def)
  then show ?thesis by (rule with_groups_effect(2)) (auto split: option.split)
qed

lemma plan_items_only:
  assumes "updatePublicationPlanItems now c st = Inr st'"
  shows "only_transfer k st st'"
proof (cases "pn_Items c = []")
  case True
  with assms show ?thesis by (simp add: updatePublicationPlanItems_def only_transfer_refl)
next
  case False
  with assms have "with_items st (pg_update_exactly item_checks (int (length (pn_Items c)))
        (\<lambda>i. itp_TransferID i = pn_TransferID c \<and> planned_item_for (pn_Items c) i \<noteq> None \<and>
             itp_State i = ItemTargetRunning \<and> itp_SourceActionID i = 0)
        (\<lambda>i. case planned_item_for (pn_Items c) i of None \<Rightarrow> i | Some p \<Rightarrow> planned_item_row now p i)
        (st_item_targets st)) = Inr st'"
    by (simp add: updatePublicationPlanItems_def)
  then show ?thesis by (rule with_items_effect(2)) (auto split: option.split)
qed

lemma reduceTransferAfterPlanning_settles:
  assumes "reduceTransferAfterPlanning now k st = Inr st'" and "distinct (map tr_ID (st_transfers st))"
  shows "settles k st st'"
proof (rule with_transfers_settles [OF assms(1) [unfolded reduceTransferAfterPlanning_def Let_def] assms(2)])
  fix t
  assume "running_in pipeline_phases t \<and> int (length (transfer_groups k st)) = tr_GroupTargetsCount t \<and>
    int (length (transfer_items k st)) = tr_ItemTargetsCount t"
  then show "settled (transfer_groups k st) (touch_transfer now (t\<lparr>
     tr_Phase := if terminal_groups (transfer_groups k st) = int (length (transfer_groups k st)) \<and>
                   terminal_items (transfer_items k st) = int (length (transfer_items k st))
                 then PhaseFinished else tr_Phase t,
     tr_Outcome := if terminal_groups (transfer_groups k st) \<noteq> int (length (transfer_groups k st)) \<or>
                     terminal_items (transfer_items k st) \<noteq> int (length (transfer_items k st))
                   then OutcomeRunning else groupToTransferOutcome (transfer_groups k st),
     tr_AttentionCode := if terminal_groups (transfer_groups k st) = int (length (transfer_groups k st)) \<and>
                           groups_unsettled (transfer_groups k st)
                         then ''terminal_item_requires_attention'' else [],
     tr_FinishedAt := if terminal_groups (transfer_groups k st) = int (length (transfer_groups k st)) \<and>
                        terminal_items (transfer_items k st) = int (length (transfer_items k st))
                      then Some (pg_time now) else None\<rparr>))"
    using active_not_finished(2) [of t] terminal_groups_all [of "transfer_groups k st"] by (auto simp: settled_def)
qed simp

lemma ApplyPublicationPlanResult_settles:
  assumes "ApplyPublicationPlanResult now c st = Inr st'" and "distinct (map tr_ID (st_transfers st))"
  shows "settles (pn_TransferID c) st st'"
proof -
  let ?k = "pn_TransferID c"
  obtain st1 st2 where s1: "updatePublicationPlanGroups now c st = Inr st1"
    and s2: "updatePublicationPlanItems now c st1 = Inr st2"
    and s3: "(if 0 < pn_ActionCount c then
               with_transfers st2 (pg_update_exactly transfer_checks 1
                 (\<lambda>t. tr_ID t = ?k \<and> running_in pipeline_phases t)
                 (\<lambda>t. touch_transfer now (t\<lparr>tr_Phase :=
                    if tr_Phase t = PhasePreparing then PhaseAwaitingAuthorization else tr_Phase t\<rparr>))
                 (st_transfers st2))
             else reduceTransferAfterPlanning now ?k st2) = Inr st'"
    using assms(1) by (auto simp: ApplyPublicationPlanResult_def rbind_eq_Inr_iff split: if_splits)
  have only: "only_transfer ?k st st2"
    using plan_groups_only [OF s1] plan_items_only [OF s2] by (rule only_transfer_trans)
  note d = only_transfer_distinct [OF only assms(2)]
  have "settles ?k st2 st'"
  proof (cases "0 < pn_ActionCount c")
    case True
    with s3 have s: "with_transfers st2 (pg_update_exactly transfer_checks 1
        (\<lambda>t. tr_ID t = ?k \<and> running_in pipeline_phases t)
        (\<lambda>t. touch_transfer now (t\<lparr>tr_Phase :=
           if tr_Phase t = PhasePreparing then PhaseAwaitingAuthorization else tr_Phase t\<rparr>)) (st_transfers st2)) = Inr st'"
      by simp
    show ?thesis by (rule with_transfers_settles [OF s d]) (auto intro!: settled_active dest: active_not_finished)
  qed (use s3 reduceTransferAfterPlanning_settles d in simp)
  with only show ?thesis by (rule settles_trans)
qed

lemma ResetPublicationPlanning_settles:
  assumes "ResetPublicationPlanning now k planID st = Inr st'" and "distinct (map tr_ID (st_transfers st))"
  shows "settles k st st'"
proof -
  let ?fi = "\<lambda>i. touch_item now (i\<lparr>itp_State := ItemTargetRunning, itp_OutcomeClass := [], itp_OutcomeCode := [],
     itp_NMID := 0, itp_SourceActionID := 0, itp_AttentionClosedAt := None, itp_FinishedAt := None\<rparr>)"
  let ?fg = "\<lambda>g. touch_group now (g\<lparr>gt_PublicationStatus := ''not_started'', gt_MediaStatus := ''not_started'',
     gt_Overall := ''running'', gt_AttentionCode := [], gt_PlanID := 0, gt_FinishedAt := None\<rparr>)"
  let ?pi = "\<lambda>i. itp_TransferID i = k \<and> list_ex (\<lambda>g. gt_TransferID g = itp_TransferID i \<and> gt_ID g = itp_GroupTargetID i \<and>
     gt_PlanID g = planID \<and> gt_PreparationStatus g = ''succeeded'') (st_group_targets st)"
  let ?pg = "\<lambda>g. gt_TransferID g = k \<and> gt_PlanID g = planID \<and> gt_PreparationStatus g = ''succeeded''"
  obtain items groups m n where u1: "pg_update item_checks ?pi ?fi (st_item_targets st) = Inr (items, m)"
    and u2: "pg_update group_checks ?pg ?fg (st_group_targets st) = Inr (groups, n)"
    and s: "with_transfers (st\<lparr>st_item_targets := items, st_group_targets := groups\<rparr>) (pg_update_exactly transfer_checks 1
        (\<lambda>t. tr_ID t = k \<and> running_in pipeline_phases t) (touch_transfer now) (st_transfers st)) = Inr st'"
    using assms(1) by (auto simp: ResetPublicationPlanning_def rbind_eq_Inr_iff Let_def split: if_splits)
  note D1 = pg_updateD [OF u1] and D2 = pg_updateD [OF u2]
  let ?st1 = "st\<lparr>st_item_targets := items\<rparr>"
  let ?st2 = "?st1\<lparr>st_group_targets := groups\<rparr>"
  have "only_transfer k st ?st1" unfolding D1(1) by (rule only_transfer_items, simp, erule (1) D1(3))
  moreover have "only_transfer k ?st1 (?st1\<lparr>st_group_targets := update_where ?pg ?fg (st_group_targets ?st1)\<rparr>)"
    by (rule only_transfer_groups) (simp, simp, rule D2(3), simp_all)
  then have "only_transfer k ?st1 ?st2" by (simp add: D2(1))
  ultimately have only: "only_transfer k st ?st2" by (rule only_transfer_trans)
  have "settles k ?st2 st'"
    by (rule with_transfers_settles [where st = ?st2, simplified, OF s _ _ settled_active])
      (use assms(2) in \<open>auto dest: active_not_finished\<close>)
  with only show ?thesis by (rule settles_trans)
qed

lemma advanceTransferAfterPreparation_settles:
  assumes "advanceTransferAfterPreparation now k st = Inr st'" and "distinct (map tr_ID (st_transfers st))"
    and "\<And>t. t \<in> set (st_transfers st) \<Longrightarrow> tr_ID t = k \<Longrightarrow> tr_Phase t \<noteq> PhaseFinished"
  shows "settles k st st'"
proof -
  let ?gs = "transfer_groups k st"
  let ?fin = "terminal_groups ?gs = int (length ?gs)"
  let ?q = "\<lambda>t. running_in pipeline_phases t \<and> int (length ?gs) = tr_GroupTargetsCount t \<and>
    \<not> list_ex (\<lambda>g. \<not> prepared_status (gt_PreparationStatus g)) ?gs"
  let ?f = "\<lambda>t. touch_transfer now (t\<lparr>
     tr_Phase := if ?fin then PhaseFinished else if tr_Phase t = PhasePreparing then PhaseAwaitingAuthorization else tr_Phase t,
     tr_Outcome := if \<not> ?fin then OutcomeRunning else groupToTransferOutcome ?gs,
     tr_AttentionCode := if ?fin \<and> groups_unsettled ?gs then ''preparation_requires_attention'' else [],
     tr_FinishedAt := if ?fin then Some (pg_time now) else None\<rparr>)"
  obtain rows n where u: "pg_update transfer_checks (\<lambda>t. tr_ID t = k \<and> ?q t) ?f (st_transfers st) = Inr (rows, n)"
    and st': "st' = st\<lparr>st_transfers := rows\<rparr>"
    using assms(1) by (auto simp: advanceTransferAfterPreparation_def rbind_eq_Inr_iff Let_def)
  show ?thesis
    unfolding st'
  proof (rule update_settles [OF u])
    fix t assume "t \<in> set (st_transfers st)" "tr_ID t = k"
    then have a: "tr_Phase t \<noteq> PhaseFinished" by (rule assms(3))
    then show "settled ?gs t" by (rule settled_active)
    show "settled ?gs (?f t)" if "?q t"
      using a that terminal_groups_all [of ?gs] by (auto simp: settled_def)
  qed simp
qed

lemma unique_transfer:
  "distinct (map tr_ID ts) \<Longrightarrow> t \<in> set ts \<Longrightarrow> u \<in> set ts \<Longrightarrow> tr_ID t = tr_ID u \<Longrightarrow> t = u"
  by (auto simp: distinct_map dest: inj_onD)

lemma find_transfer:
  assumes "find (\<lambda>t. tr_ID t = k) ts = Some t"
  shows "t \<in> set ts" "tr_ID t = k"
  using assms by (auto simp: find_Some_iff)

lemma lockTransferByIDD:
  assumes "lockTransferByID k st = Inr t"
  shows "t \<in> set (st_transfers st)" "tr_ID t = k" "Transfer_Validate t = None"
  using assms find_transfer
  by (auto simp: lockTransferByID_def scanTransfer_def split: option.splits if_splits)

lemma insertArtifact_only: "insertArtifact jo a st = Inr st' \<Longrightarrow> only_transfer k st st' \<and> st_transfers st' = st_transfers st"
  by (auto simp: insertArtifact_def only_transfer_def rows_checked_def keys_unique_def transfer_groups_def split: if_splits)

lemma finishPreparationItems_only:
  assumes "finishPreparationItems now c st = Inr st'"
  shows "only_transfer k st st'" "st_transfers st' = st_transfers st"
proof -
  have "only_transfer k st st' \<and> st_transfers st' = st_transfers st"
  proof (cases "pz_Status c = ''succeeded''")
    case True
    with assms show ?thesis by (simp add: finishPreparationItems_def only_transfer_refl)
  next
    case False
    then obtain rows n where u: "pg_update item_checks
          (\<lambda>i. itp_TransferID i = pz_TransferID c \<and> itp_GroupTargetID i = pz_GroupTargetID c \<and>
               itp_State i = ItemTargetRunning)
          (\<lambda>i. touch_item now (i\<lparr>itp_State := ItemTargetTerminal, itp_OutcomeClass := pz_Status c,
                 itp_OutcomeCode := pz_OutcomeCode c, itp_FinishedAt := Some (pg_time (pz_FinishedAt c))\<rparr>))
          (st_item_targets st) = Inr (rows, n)" and st': "st' = st\<lparr>st_item_targets := rows\<rparr>"
      using assms by (auto simp: finishPreparationItems_def rbind_eq_Inr_iff)
    note D = pg_updateD [OF u]
    have "only_transfer k st st'" unfolding st' D(1) by (rule only_transfer_items, simp, erule (1) D(3))
    then show ?thesis by (simp add: st')
  qed
  then show "only_transfer k st st'" "st_transfers st' = st_transfers st" by simp_all
qed

text \<open>A first preparation result, as opposed to a repeated one.\<close>

lemma ApplyPreparationResult_cases:
  assumes "ApplyPreparationResult jo now c st = Inr st'"
  obtains (repeated) t g where "st' = st"
      "find (\<lambda>t. tr_ID t = pz_TransferID c) (st_transfers st) = Some t"
      "find (\<lambda>g. gt_TransferID g = pz_TransferID c \<and> gt_ID g = pz_GroupTargetID c) (st_group_targets st) = Some g"
      "prepared_status (gt_PreparationStatus g)"
    | (stored) t g st1 rows n st3 where
      "find (\<lambda>t. tr_ID t = pz_TransferID c) (st_transfers st) = Some t"
      "find (\<lambda>g. gt_TransferID g = pz_TransferID c \<and> gt_ID g = pz_GroupTargetID c) (st_group_targets st) = Some g"
      "\<not> prepared_status (gt_PreparationStatus g)" "gt_PreparationStatus g = ''running''" "gt_ResultRevision g = 0"
      "running_in pipeline_phases t"
      "(case pz_Artifact c of None \<Rightarrow> Inr st
        | Some a \<Rightarrow> if pz_Status c = ''succeeded'' then insertArtifact jo (artifact_of c a) st else Inr st) = Inr st1"
      "pg_update group_checks (\<lambda>g. gt_TransferID g = pz_TransferID c \<and> gt_ID g = pz_GroupTargetID c \<and>
         gt_PreparationStatus g = ''running'' \<and> gt_ResultRevision g = 0)
         (prepared_group_row now c) (st_group_targets st1) = Inr (rows, n)"
      "finishPreparationItems now c (st1\<lparr>st_group_targets := rows\<rparr>) = Inr st3"
      "advanceTransferAfterPreparation now (pz_TransferID c) st3 = Inr st'"
proof -
  obtain t g where t: "find (\<lambda>t. tr_ID t = pz_TransferID c) (st_transfers st) = Some t"
    and g: "find (\<lambda>g. gt_TransferID g = pz_TransferID c \<and> gt_ID g = pz_GroupTargetID c) (st_group_targets st) = Some g"
    using assms by (auto simp: ApplyPreparationResult_def split: option.splits)
  show thesis
  proof (cases "prepared_status (gt_PreparationStatus g)")
    case True
    with assms t g have "st' = st"
      by (auto simp: ApplyPreparationResult_def split: if_splits option.splits)
    then show thesis using t g True by (rule repeated)
  next
    case False
    with assms t g show thesis
      by (auto simp: ApplyPreparationResult_def rbind_eq_Inr_iff split: if_splits intro!: stored)
  qed
qed

lemma ApplyPreparationResult_settles:
  assumes "ApplyPreparationResult jo now c st = Inr st'" and inv: "store_inv st"
  shows "settles (pz_TransferID c) st st'"
  using assms(1)
proof (cases rule: ApplyPreparationResult_cases)
  case repeated
  with inv show ?thesis by (auto simp: settles_def only_transfer_refl store_inv_def list_all_iff)
next
  case (stored t g st1 rows n st3)
  let ?k = "pz_TransferID c"
  note D = pg_updateD [OF stored(8)]
  have one: "only_transfer ?k st st1 \<and> st_transfers st1 = st_transfers st"
    using stored(7) insertArtifact_only [of jo _ st st1 ?k] by (auto simp: only_transfer_refl split: option.splits if_splits)
  have two: "only_transfer ?k st1 (st1\<lparr>st_group_targets := rows\<rparr>)"
    unfolding D(1) by (rule only_transfer_groups, simp, simp, erule (1) D(3), simp)
  note three = finishPreparationItems_only [OF stored(9)]
  have only: "only_transfer ?k st st3" using one two three(1) only_transfer_trans by blast
  have same: "st_transfers st3 = st_transfers st" using one three(2) by simp
  have "settles ?k st3 st'"
  proof (rule advanceTransferAfterPreparation_settles [OF stored(10)])
    show "distinct (map tr_ID (st_transfers st3))" using store_inv_distinct [OF inv] by (simp add: same)
    fix u assume "u \<in> set (st_transfers st3)" "tr_ID u = ?k"
    then have "u = t"
      using unique_transfer [OF store_inv_distinct [OF inv]] find_transfer [OF stored(1)] by (simp add: same)
    with stored(6) show "tr_Phase u \<noteq> PhaseFinished" by (simp add: active_not_finished)
  qed
  with only show ?thesis by (rule settles_trans)
qed

lemma BeginPreparation_settles:
  assumes "BeginPreparation now k st = Inr st'" and inv: "store_inv st"
  shows "settles k st st'"
proof -
  obtain t where lock: "lockTransferByID k st = Inr t"
    using assms(1) by (auto simp: BeginPreparation_def rbind_eq_Inr_iff)
  note L = lockTransferByIDD [OF lock]
  show ?thesis
  proof (cases "tr_Phase t = PhasePreparing")
    case False
    with assms(1) lock have "st' = st" by (auto simp: BeginPreparation_def split: if_splits)
    with inv show ?thesis by (auto simp: settles_def only_transfer_refl store_inv_def list_all_iff)
  next
    case True
    let ?pg = "\<lambda>g. gt_TransferID g = k \<and> gt_PreparationStatus g = ''not_started''"
    let ?fg = "\<lambda>g. touch_group now (g\<lparr>gt_PreparationStatus := ''running'', gt_StartedAt := coalesce (gt_StartedAt g) (pg_time now)\<rparr>)"
    let ?pi = "\<lambda>i. itp_TransferID i = k \<and> itp_State i = ItemTargetPending"
    let ?fi = "\<lambda>i. touch_item now (i\<lparr>itp_State := ItemTargetRunning, itp_StartedAt := coalesce (itp_StartedAt i) (pg_time now)\<rparr>)"
    obtain groups m items n where u1: "pg_update group_checks ?pg ?fg (st_group_targets st) = Inr (groups, m)"
      and u2: "pg_update item_checks ?pi ?fi (st_item_targets st) = Inr (items, n)"
      and st': "st' = st\<lparr>st_group_targets := groups, st_item_targets := items\<rparr>"
      using assms(1) lock True by (auto simp: BeginPreparation_def rbind_eq_Inr_iff Let_def split: if_splits)
    note D1 = pg_updateD [OF u1] and D2 = pg_updateD [OF u2]
    let ?st1 = "st\<lparr>st_group_targets := groups\<rparr>"
    have "only_transfer k st ?st1"
      unfolding D1(1) by (rule only_transfer_groups, simp, simp, erule (1) D1(3), simp)
    moreover have "only_transfer k ?st1 (?st1\<lparr>st_item_targets := update_where ?pi ?fi (st_item_targets ?st1)\<rparr>)"
      by (rule only_transfer_items) (simp, rule D2(3), simp_all)
    then have "only_transfer k ?st1 st'" by (simp add: st' D2(1))
    ultimately have only: "only_transfer k st st'" by (rule only_transfer_trans)
    moreover have "settled gs u" if "u \<in> set (st_transfers st')" "tr_ID u = k" for u gs
    proof -
      have "u = t" using unique_transfer [OF store_inv_distinct [OF inv]] L(1,2) that by (simp add: st')
      with True show ?thesis by (simp add: settled_active)
    qed
    ultimately show ?thesis by (simp add: settles_def)
  qed
qed

lemma MarkInitializationFailed_settles:
  assumes "MarkInitializationFailed now k code st = Inr st'" and inv: "store_inv st"
  shows "settles k st st'"
proof -
  let ?f = "\<lambda>t. touch_transfer now (t\<lparr>tr_Phase := PhaseFinished, tr_Outcome := OutcomeFailed,
    tr_AttentionCode := code, tr_FinishedAt := Some (pg_time now)\<rparr>)"
  obtain rows n where u: "pg_update transfer_checks (\<lambda>t. tr_ID t = k \<and> running_in [PhaseInitializing] t) ?f
      (st_transfers st) = Inr (rows, n)" and st': "n = 1 \<and> st' = st\<lparr>st_transfers := rows\<rparr> \<or> st' = st"
    using assms(1) by (auto simp: MarkInitializationFailed_def rbind_eq_Inr_iff split: if_splits option.splits)
  from st' show ?thesis
  proof
    assume s: "n = 1 \<and> st' = st\<lparr>st_transfers := rows\<rparr>"
    then have u': "pg_update transfer_checks (\<lambda>t. tr_ID t = k \<and> running_in [PhaseInitializing] t) ?f
        (st_transfers st) = Inr (rows, 1)" using u by simp
    have "settles k st (st\<lparr>st_transfers := rows\<rparr>)"
      by (rule one_row_settles [OF store_inv_distinct [OF inv] u']) (simp_all add: settled_def)
    with s show ?thesis by simp
  next
    assume "st' = st"
    with inv show ?thesis by (auto simp: settles_def only_transfer_refl store_inv_def list_all_iff)
  qed
qed

lemma pg_copyD:
  assumes "pg_copy checks unique new rows = Inr rows'"
  shows "rows' = rows @ new" "list_all checks new" "unique (rows @ new)"
  using assms by (auto simp: pg_copy_def split: if_splits)

text \<open>A successful initialization of a transfer that was still initializing.\<close>

lemma store_Initialize_cases:
  assumes "store_Initialize jo now c st = Inr st'"
  obtains (again) t where "lockTransferByID (ic_TransferID c) st = Inr t" "tr_Phase t \<noteq> PhaseInitializing" "st' = st"
    | (filled) t targetIDs st1 groupIDs st2 itemIDs st3 groupTargetIDs groups items groupTargets itemTargets rows where
      "InitializeTransferCommand_Validate c = None"
      "lockTransferByID (ic_TransferID c) st = Inr t" "tr_Phase t = PhaseInitializing"
      "tr_ItemsCount t = ic_ItemsCount c" "tr_GroupsCount t = ic_GroupsCount c"
      "loadInitializationTargetIDs t st = Inr targetIDs"
      "initialization_counts (tr_ID t) st = (0, 0, 0, 0)"
      "wrap64 (int (length (ic_Groups c)) * int (length targetIDs)) = tr_GroupTargetsCount t"
      "wrap64 (int (length (ic_Items c)) * int (length targetIDs)) = tr_ItemTargetsCount t"
      "reserveIDs (int (length (ic_Groups c))) st = Inr (st1, groupIDs)"
      "reserveIDs (int (length (ic_Items c))) st1 = Inr (st2, itemIDs)"
      "reserveIDs (tr_GroupTargetsCount t) st2 = Inr (st3, groupTargetIDs)"
      "pg_copy (\<lambda>r. length (sg_Key r) = 32 \<and> 0 < sg_FileID r) (unique_by (\<lambda>r. (sg_TransferID r, sg_Key r)))
         (source_group_rows (tr_ID t) groupIDs (ic_Groups c)) (st_groups st) = Inr groups"
      "pg_copy (\<lambda>r. 0 < si_BatchItemID r \<and> 0 < si_Position r \<and> 0 < si_SourceFileID r \<and>
           si_SourceRows r \<noteq> [] \<and> si_VendorCode r \<noteq> [] \<and> jo_Object jo (si_Payload r))
         (\<lambda>rs. unique_by (\<lambda>r. (si_TransferID r, si_BatchItemID r)) rs \<and> unique_by (\<lambda>r. (si_TransferID r, si_Position r)) rs)
         (source_item_rows (tr_ID t) groupIDs itemIDs (ic_Items c)) (st_items st) = Inr items"
      "pg_copy group_checks (unique_by (\<lambda>r. (gt_TransferID r, gt_SourceGroupID r, gt_TargetID r)))
         (group_target_rows now (tr_ID t) groupIDs targetIDs groupTargetIDs) (st_group_targets st) = Inr groupTargets"
      "pg_copy item_checks (unique_by (\<lambda>r. (itp_TransferID r, itp_TransferItemID r, itp_GroupTargetID r)))
         (item_target_rows now (st_next st3) (tr_ID t) groupIDs itemIDs targetIDs groupTargetIDs (ic_Items c))
         (st_item_targets st) = Inr itemTargets"
      "pg_update transfer_checks (\<lambda>r. tr_ID r = tr_ID t \<and> running_in [PhaseInitializing] r)
         (\<lambda>r. touch_transfer now (r\<lparr>tr_Phase := PhasePreparing\<rparr>)) (st_transfers st) = Inr (rows, 1)"
      "st' = st\<lparr>st_transfers := rows, st_groups := groups, st_items := items, st_group_targets := groupTargets,
         st_item_targets := itemTargets, st_next := st_next st3 + int (length (ic_Items c) * length targetIDs)\<rparr>"
proof -
  obtain t where t: "lockTransferByID (ic_TransferID c) st = Inr t" and v: "InitializeTransferCommand_Validate c = None"
    using assms by (auto simp: store_Initialize_def rbind_eq_Inr_iff)
  show thesis
  proof (cases "tr_Phase t = PhaseInitializing")
    case False
    with assms t v show thesis by (auto simp: store_Initialize_def intro: again)
  next
    case True
    from assms t v True obtain targetIDs where
      a: "loadInitializationTargetIDs t st = Inr targetIDs" "initialization_counts (tr_ID t) st = (0, 0, 0, 0)"
        "tr_ItemsCount t = ic_ItemsCount c" "tr_GroupsCount t = ic_GroupsCount c"
        "wrap64 (int (length (ic_Groups c)) * int (length targetIDs)) = tr_GroupTargetsCount t"
        "wrap64 (int (length (ic_Items c)) * int (length targetIDs)) = tr_ItemTargetsCount t"
      by (auto simp: store_Initialize_def rbind_eq_Inr_iff Let_def split: if_splits)
    have same: "st_groups st3 = st_groups st" "st_items st3 = st_items st" "st_group_targets st3 = st_group_targets st"
      "st_item_targets st3 = st_item_targets st" "st_transfers st3 = st_transfers st"
      "st3\<lparr>st_transfers := rows, st_groups := gs, st_items := sis, st_group_targets := gts, st_item_targets := its, st_next := n\<rparr> =
       st\<lparr>st_transfers := rows, st_groups := gs, st_items := sis, st_group_targets := gts, st_item_targets := its, st_next := n\<rparr>"
      if "reserveIDs m1 st = Inr (st1, x1)" "reserveIDs m2 st1 = Inr (st2, x2)" "reserveIDs m3 st2 = Inr (st3, x3)"
      for m1 m2 m3 st1 st2 st3 x1 x2 x3 rows gs sis gts its n
      using that by (auto simp: reserveIDs_def split: if_splits)
    from assms t v True a obtain st1 groupIDs st2 itemIDs st3 groupTargetIDs where
      b: "reserveIDs (int (length (ic_Groups c))) st = Inr (st1, groupIDs)"
        "reserveIDs (int (length (ic_Items c))) st1 = Inr (st2, itemIDs)"
        "reserveIDs (tr_GroupTargetsCount t) st2 = Inr (st3, groupTargetIDs)"
      by (auto simp: store_Initialize_def rbind_eq_Inr_iff Let_def split: if_splits)
    note s = same [OF b]
    from assms t v True a b s(1-5) obtain groups items groupTargets itemTargets rows n where
      d: "pg_copy (\<lambda>r. length (sg_Key r) = 32 \<and> 0 < sg_FileID r) (unique_by (\<lambda>r. (sg_TransferID r, sg_Key r)))
           (source_group_rows (tr_ID t) groupIDs (ic_Groups c)) (st_groups st) = Inr groups"
        "pg_copy (\<lambda>r. 0 < si_BatchItemID r \<and> 0 < si_Position r \<and> 0 < si_SourceFileID r \<and>
             si_SourceRows r \<noteq> [] \<and> si_VendorCode r \<noteq> [] \<and> jo_Object jo (si_Payload r))
           (\<lambda>rs. unique_by (\<lambda>r. (si_TransferID r, si_BatchItemID r)) rs \<and> unique_by (\<lambda>r. (si_TransferID r, si_Position r)) rs)
           (source_item_rows (tr_ID t) groupIDs itemIDs (ic_Items c)) (st_items st) = Inr items"
        "pg_copy group_checks (unique_by (\<lambda>r. (gt_TransferID r, gt_SourceGroupID r, gt_TargetID r)))
           (group_target_rows now (tr_ID t) groupIDs targetIDs groupTargetIDs) (st_group_targets st) = Inr groupTargets"
        "pg_copy item_checks (unique_by (\<lambda>r. (itp_TransferID r, itp_TransferItemID r, itp_GroupTargetID r)))
           (item_target_rows now (st_next st3) (tr_ID t) groupIDs itemIDs targetIDs groupTargetIDs (ic_Items c))
           (st_item_targets st) = Inr itemTargets"
        "pg_update_exactly transfer_checks 1 (\<lambda>r. tr_ID r = tr_ID t \<and> running_in [PhaseInitializing] r)
           (\<lambda>r. touch_transfer now (r\<lparr>tr_Phase := PhasePreparing\<rparr>)) (st_transfers st) = Inr rows"
        "st' = st3\<lparr>st_transfers := rows, st_groups := groups, st_items := items, st_group_targets := groupTargets,
           st_item_targets := itemTargets, st_next := st_next st3 + int (length (ic_Items c) * length targetIDs)\<rparr>"
      by (auto simp: store_Initialize_def rbind_eq_Inr_iff Let_def split: if_splits sum.splits)
    have e: "pg_update transfer_checks (\<lambda>r. tr_ID r = tr_ID t \<and> running_in [PhaseInitializing] r)
         (\<lambda>r. touch_transfer now (r\<lparr>tr_Phase := PhasePreparing\<rparr>)) (st_transfers st) = Inr (rows, 1)"
      using d(5) by (auto simp: pg_update_exactly_def rbind_eq_Inr_iff split: if_splits)
    show thesis
      by (rule filled [OF v t True a(3,4) a(1,2) a(5,6) b d(1-4) e]) (simp only: d(6) s(6))
  qed
qed

lemma reserveIDsD:
  assumes "reserveIDs n st = Inr (st', ids)"
  shows "0 < n" "st' = st\<lparr>st_next := st_next st + n\<rparr>" "ids = map (\<lambda>k. st_next st + int k) [0..<nat n]"
  using assms by (auto simp: reserveIDs_def split: if_splits)

lemma group_target_rows_transfer:
  "g \<in> set (group_target_rows now k groupIDs targetIDs ids) \<Longrightarrow> gt_TransferID g = k"
  by (auto simp: group_target_rows_def new_group_target_def)

lemma keys_unique_update:
  "keys_unique (st\<lparr>st_group_targets := gs, st_item_targets := xs, st_next := n\<rparr>) \<longleftrightarrow>
     distinct (map gt_ID gs) \<and> distinct (map itp_ID xs) \<and>
     list_all (\<lambda>m. m < n) (map gt_ID gs) \<and> list_all (\<lambda>m. m < n) (map itp_ID xs)"
  by (simp add: keys_unique_def)

lemma fresh_keys:
  fixes a d :: int
  assumes "list_all (\<lambda>x. a \<le> x \<and> x < d) ys" and "distinct ys" and "distinct xs" and "list_all (\<lambda>x. x < a) xs" and "a \<le> d"
  shows "distinct (xs @ ys) \<and> list_all (\<lambda>x. x < d) (xs @ ys)"
  using assms by (fastforce simp: list_all_iff)

lemma initialized_keys:
  assumes "reserveIDs m st = Inr (st1, groupIDs)" "reserveIDs n st1 = Inr (st2, itemIDs)" "reserveIDs l st2 = Inr (st3, ids)"
    and "keys_unique st"
  shows "keys_unique (st'\<lparr>st_group_targets := st_group_targets st @ group_target_rows now k groupIDs targetIDs ids,
    st_item_targets := st_item_targets st @ item_target_rows now (st_next st3) k groupIDs itemIDs targetIDs ids items,
    st_next := st_next st3 + int (length items * length targetIDs)\<rparr>)"
proof -
  note r1 = reserveIDsD [OF assms(1)] and r2 = reserveIDsD [OF assms(2)] and r3 = reserveIDsD [OF assms(3)]
  have next3: "st_next st \<le> st_next st2" "st_next st3 = st_next st2 + l" "0 < l" using r1 r2 r3 by simp_all
  have ids: "map gt_ID (group_target_rows now k groupIDs targetIDs ids) = ids"
    by (simp add: group_target_rows_def new_group_target_def comp_def map_nth)
  have xs: "map itp_ID (item_target_rows now (st_next st3) k groupIDs itemIDs targetIDs ids items) =
      map (\<lambda>j. st_next st3 + int j) [0..<length items * length targetIDs]"
    by (simp add: item_target_rows_def new_item_target_def comp_def Let_def)
  let ?n = "int (length items * length targetIDs)"
  let ?xs = "map (\<lambda>j. st_next st3 + int j) [0..<length items * length targetIDs]"
  have "distinct (map gt_ID (st_group_targets st) @ ids) \<and>
      list_all (\<lambda>x. x < st_next st3 + ?n) (map gt_ID (st_group_targets st) @ ids)"
  proof (rule fresh_keys)
    show "list_all (\<lambda>x. st_next st \<le> x \<and> x < st_next st3 + ?n) ids"
      using next3 by (auto simp: r3(3) list_all_iff simp del: of_nat_mult)
    show "distinct ids" by (simp add: r3(3) distinct_map inj_on_def)
  qed (use assms(4) next3 in \<open>simp_all add: keys_unique_def del: of_nat_mult\<close>)
  moreover have "distinct (map itp_ID (st_item_targets st) @ ?xs) \<and>
      list_all (\<lambda>x. x < st_next st3 + ?n) (map itp_ID (st_item_targets st) @ ?xs)"
  proof (rule fresh_keys)
    show "list_all (\<lambda>x. st_next st \<le> x \<and> x < st_next st3 + ?n) ?xs"
      using next3 by (auto simp: list_all_iff simp del: of_nat_mult)
    show "distinct ?xs" by (simp add: distinct_map inj_on_def)
  qed (use assms(4) next3 in \<open>simp_all add: keys_unique_def del: of_nat_mult\<close>)
  ultimately show ?thesis unfolding keys_unique_update map_append ids xs by blast
qed

lemma store_Initialize_settles:
  assumes "store_Initialize jo now c st = Inr st'" and inv: "store_inv st"
  shows "settles (ic_TransferID c) st st'"
  using assms(1)
proof (cases rule: store_Initialize_cases)
  case again
  with inv show ?thesis by (auto simp: settles_def only_transfer_refl store_inv_def list_all_iff)
next
  case (filled t targetIDs st1 groupIDs st2 itemIDs st3 groupTargetIDs groups items groupTargets itemTargets rows)
  let ?k = "tr_ID t"
  let ?f = "\<lambda>r. touch_transfer now (r\<lparr>tr_Phase := PhasePreparing\<rparr>)"
  have k: "ic_TransferID c = ?k" using lockTransferByIDD(2) [OF filled(2)] by simp
  note g = pg_copyD [OF filled(15)] and i = pg_copyD [OF filled(16)] and D = pg_updateD [OF filled(17)]
  define st4 where "st4 = st\<lparr>st_groups := groups, st_items := items, st_group_targets := groupTargets,
     st_item_targets := itemTargets, st_next := st_next st3 + int (length (ic_Items c) * length targetIDs)\<rparr>"
  have "st_next st \<le> st_next st3"
    using reserveIDsD(1,2) [OF filled(10)] reserveIDsD(1,2) [OF filled(11)] reserveIDsD(1,2) [OF filled(12)] by simp
  then have "st_next st \<le> st_next st4" by (simp add: st4_def del: of_nat_mult)
  moreover have "filter (\<lambda>g. gt_TransferID g = j) groupTargets = filter (\<lambda>g. gt_TransferID g = j) (st_group_targets st)"
    if "j \<noteq> ?k" for j
    using that group_target_rows_transfer [of _ now ?k groupIDs targetIDs groupTargetIDs]
    by (auto simp: g(1) filter_empty_conv)
  moreover have "keys_unique st \<longrightarrow> keys_unique st4"
    using initialized_keys [OF filled(10-12), where st' = "st\<lparr>st_groups := groups, st_items := items\<rparr>" and now = now and k = ?k and
        targetIDs = targetIDs and items = "ic_Items c"] g(1) i(1) by (simp add: st4_def)
  ultimately have only: "only_transfer ?k st st4"
    using g(1,2) i(1,2) by (simp add: st4_def only_transfer_def rows_checked_def transfer_groups_def)
  have "settles ?k st4 (st4\<lparr>st_transfers := rows\<rparr>)"
    by (rule one_row_settles [where q = "running_in [PhaseInitializing]" and f = ?f])
      (use store_inv_distinct [OF inv] filled(17) in \<open>simp_all add: st4_def settled_active\<close>)
  moreover have "st4\<lparr>st_transfers := rows\<rparr> = st'" by (simp add: st4_def filled(18))
  ultimately show ?thesis using settles_trans [OF only] k by simp
qed

lemma store_Create_inv:
  assumes "store_Create now c st = Inr (st', t, created)" and inv: "store_inv st"
  shows "store_inv st'"
proof (cases "list_ex (\<lambda>r. tr_BatchID r = tr_BatchID (new_transfer now (st_next st) c)) (st_transfers st)")
  case True
  with assms show ?thesis by (auto simp: store_Create_def rbind_eq_Inr_iff Let_def split: if_splits)
next
  case False
  let ?t = "new_transfer now (st_next st) c"
  let ?n = "length (ts_Targets (ct_Snapshot c))"
  let ?new = "target_rows now (st_next st + 1) (tr_ID ?t) (ts_Targets (ct_Snapshot c))"
  have scan: "t' = ?t" if "scanTransfer ?t = Inr t'" for t'
    using that by (auto simp: scanTransfer_def split: if_splits)
  obtain targets where ok: "transfer_checks ?t" and
    cp: "pg_copy target_checks (\<lambda>rs. unique_by (\<lambda>r. (tg_TransferID r, tg_Position r)) rs \<and>
        unique_by (\<lambda>r. (tg_TransferID r, tg_SellerID r)) rs) ?new (st_targets st) = Inr targets"
    and st': "st' = st\<lparr>st_transfers := st_transfers st @ [?t], st_targets := targets, st_next := st_next st + 1 + int ?n\<rparr>"
    using assms(1) False by (auto simp: store_Create_def rbind_eq_Inr_iff Let_def split: if_splits dest!: scan)
  note cp = pg_copyD [OF cp]
  have id: "tr_ID ?t = st_next st" "tr_Phase ?t \<noteq> PhaseFinished" by (simp_all add: new_transfer_def)
  have new_ids: "map tg_ID ?new = map (\<lambda>k. st_next st + 1 + int k) [0..<?n]"
    by (simp add: target_rows_def Let_def comp_def)
  have bound: "r \<in> set (st_transfers st) \<Longrightarrow> tr_ID r < st_next st" "s \<in> set (st_targets st) \<Longrightarrow> tg_ID s < st_next st" for r s
    using inv by (auto simp: store_inv_def ids_unique_def list_all_iff)
  have new_bound: "st_next st < tg_ID s \<and> tg_ID s < st_next st + 1 + int ?n" if "s \<in> set ?new" for s
  proof -
    from that have "tg_ID s \<in> set (map tg_ID ?new)" by simp
    then show ?thesis unfolding new_ids by auto
  qed
  have "distinct (map tg_ID ?new)" unfolding new_ids by (simp add: distinct_map inj_on_def)
  moreover have "set (map tg_ID (st_targets st)) \<inter> set (map tg_ID ?new) = {}"
    using bound(2) new_bound by fastforce
  ultimately have "distinct (map tg_ID targets)" using inv by (simp add: cp(1) store_inv_def ids_unique_def)
  moreover have "distinct (map tr_ID (st_transfers st'))"
    using store_inv_distinct [OF inv] bound(1) id by (fastforce simp: st')
  moreover have "list_all (\<lambda>r. tr_ID r < st_next st') (st_transfers st')" "list_all (\<lambda>s. tg_ID s < st_next st') targets"
    using bound new_bound id by (fastforce simp: st' cp(1) list_all_iff)+
  ultimately have "ids_unique st'" by (simp add: ids_unique_def st')
  moreover have "keys_unique st'" using inv by (auto simp: st' store_inv_def keys_unique_def list_all_iff)
  moreover have "rows_checked st'" using inv ok cp(1,2) by (simp add: st' store_inv_def rows_checked_def)
  moreover have "list_all (\<lambda>t. settled (transfer_groups (tr_ID t) st') t) (st_transfers st')"
    using inv id by (simp add: st' store_inv_def transfer_groups_def settled_active)
  ultimately show ?thesis by (simp add: store_inv_def)
qed

section \<open>Runs\<close>

text \<open>The operations on the tables; each is one transaction, or a part of one.\<close>

datatype store_op =
    OpCreate create_transfer
  | OpInitialize init_command
  | OpFail int string
  | OpBeginPreparation int
  | OpPrepared prep_result
  | OpPlanned plan_result
  | OpReset int int
  | OpBegin int
  | OpReconciling int
  | OpMedia int
  | OpApply apply_result
  | OpApplyMedia media_result
  | OpCorrect correction

fun perform :: "json_ops \<Rightarrow> int \<Rightarrow> store_op \<Rightarrow> store \<Rightarrow> store result" where
  "perform jo now (OpCreate c) st = rbind (store_Create now c st) (\<lambda>(st', _). Inr st')"
| "perform jo now (OpInitialize c) st = store_Initialize jo now c st"
| "perform jo now (OpFail k code) st = MarkInitializationFailed now k code st"
| "perform jo now (OpBeginPreparation k) st = BeginPreparation now k st"
| "perform jo now (OpPrepared c) st = ApplyPreparationResult jo now c st"
| "perform jo now (OpPlanned c) st = ApplyPublicationPlanResult now c st"
| "perform jo now (OpReset k planID) st = ResetPublicationPlanning now k planID st"
| "perform jo now (OpBegin k) st = BeginPublicationAction now k st"
| "perform jo now (OpReconciling k) st = MarkPublicationReconciling now k st"
| "perform jo now (OpMedia k) st = BeginPublicationMedia now k st"
| "perform jo now (OpApply c) st = ApplyPublicationActionResult now c st"
| "perform jo now (OpApplyMedia c) st = ApplyPublicationMediaResult now c st"
| "perform jo now (OpCorrect c) st = CorrectPublicationItemResult now c st"

fun run_ops :: "json_ops \<Rightarrow> (int \<times> store_op) list \<Rightarrow> store \<Rightarrow> store" where
  "run_ops jo [] st = st"
| "run_ops jo ((now, oper) # ops) st =
     run_ops jo ops (case perform jo now oper st of Inl _ \<Rightarrow> st | Inr st' \<Rightarrow> st')"

definition empty_store :: store where
  "empty_store = \<lparr>st_transfers = [], st_targets = [], st_groups = [], st_items = [], st_group_targets = [],
     st_item_targets = [], st_artifacts = [], st_next = 1\<rparr>"

lemma perform_inv:
  assumes "perform jo now oper st = Inr st'" and inv: "store_inv st"
  shows "store_inv st'"
proof -
  note d = store_inv_distinct [OF inv]
  show ?thesis
  proof (cases oper)
    case (OpCreate c)
    with assms show ?thesis by (auto simp: rbind_eq_Inr_iff intro: store_Create_inv)
  next
    case (OpInitialize c)
    with assms show ?thesis by (auto intro: settles_inv [OF inv store_Initialize_settles])
  next
    case (OpFail k code)
    with assms show ?thesis by (auto intro: settles_inv [OF inv MarkInitializationFailed_settles])
  next
    case (OpBeginPreparation k)
    with assms show ?thesis by (auto intro: settles_inv [OF inv BeginPreparation_settles])
  next
    case (OpPrepared c)
    with assms show ?thesis by (auto intro: settles_inv [OF inv ApplyPreparationResult_settles])
  next
    case (OpPlanned c)
    with assms d show ?thesis by (auto intro: settles_inv [OF inv ApplyPublicationPlanResult_settles])
  next
    case (OpReset k planID)
    with assms d show ?thesis by (auto intro: settles_inv [OF inv ResetPublicationPlanning_settles])
  next
    case (OpBegin k)
    with assms d show ?thesis by (auto intro: settles_inv [OF inv begin_settles(1)])
  next
    case (OpReconciling k)
    with assms d show ?thesis by (auto intro: settles_inv [OF inv begin_settles(2)])
  next
    case (OpMedia k)
    with assms d show ?thesis by (auto intro: settles_inv [OF inv begin_settles(3)])
  next
    case (OpApply c)
    with assms d show ?thesis by (auto intro: settles_inv [OF inv ApplyPublicationActionResult_settles])
  next
    case (OpApplyMedia c)
    with assms d show ?thesis by (auto intro: settles_inv [OF inv ApplyPublicationMediaResult_settles])
  next
    case (OpCorrect c)
    with assms d show ?thesis by (auto intro: settles_inv [OF inv CorrectPublicationItemResult_settles])
  qed
qed

lemma empty_store_inv: "store_inv empty_store"
  by (simp add: store_inv_def empty_store_def rows_checked_def ids_unique_def keys_unique_def)

lemma run_ops_inv: "store_inv st \<Longrightarrow> store_inv (run_ops jo ops st)"
proof (induction jo ops st rule: run_ops.induct)
  case (2 jo now oper ops st)
  have "store_inv (case perform jo now oper st of Inl _ \<Rightarrow> st | Inr st' \<Rightarrow> st')"
    using "2.prems" by (auto split: sum.split intro: perform_inv)
  then show ?case using "2.IH" by (simp only: run_ops.simps)
qed simp

end
