(* ===== verification/TransferProjections.thy ===== *)
theory TransferProjections
  imports TransferStoreProps
begin

text \<open>
  What the operations on the tables of a transfer do: the matrix that initialization builds, the results of product
  actions, the repetition of a preparation result, and the outcome of a finished transfer.
\<close>

section \<open>The outcome of a finished transfer\<close>

lemma outcome_count_zero: "\<not> 0 < outcome_count k gs \<longleftrightarrow> (\<forall>g \<in> set gs. gt_Overall g \<noteq> k)"
  by (simp only: outcome_count_def affected_pos) blast

lemma outcome_count_all: "outcome_count k gs = int (length gs) \<longleftrightarrow> (\<forall>g \<in> set gs. gt_Overall g = k)"
  by (simp only: outcome_count_def affected_all)

lemma group_checks_overall:
  "group_checks g \<Longrightarrow>
     gt_Overall g \<in> {''running'', ''success'', ''skipped'', ''rejected'', ''partial'', ''unresolved'', ''internal_error''}"
  by (auto simp: group_checks_def)

lemma groupToTransferOutcome_succeeded:
  assumes "gs \<noteq> []" and "\<forall>g \<in> set gs. group_checks g \<and> gt_Overall g \<noteq> ''running''"
  shows "groupToTransferOutcome gs = OutcomeSucceeded \<longleftrightarrow> (\<forall>g \<in> set gs. gt_Overall g \<in> {''success'', ''skipped''})"
proof
  assume s: "groupToTransferOutcome gs = OutcomeSucceeded"
  then have "\<not> 0 < outcome_count k gs" if "k \<in> {''unresolved'', ''internal_error'', ''rejected'', ''partial''}" for k
    using that by (auto simp: groupToTransferOutcome_def groups_unsettled_def outcome_defs split: if_splits)
  then have "\<forall>g \<in> set gs. gt_Overall g \<notin> {''unresolved'', ''internal_error'', ''rejected'', ''partial''}"
    unfolding outcome_count_zero by blast
  then show "\<forall>g \<in> set gs. gt_Overall g \<in> {''success'', ''skipped''}"
    using assms(2) group_checks_overall by blast
next
  assume a: "\<forall>g \<in> set gs. gt_Overall g \<in> {''success'', ''skipped''}"
  then have "\<not> 0 < outcome_count k gs" if "k \<in> {''unresolved'', ''internal_error'', ''rejected'', ''partial''}" for k
    unfolding outcome_count_zero using that by fastforce
  moreover obtain g where g: "g \<in> set gs" using assms(1) by (cases gs) auto
  with a have "gt_Overall g \<noteq> ''rejected''" by auto
  with g have "outcome_count ''rejected'' gs \<noteq> int (length gs)" unfolding outcome_count_all by blast
  ultimately show "groupToTransferOutcome gs = OutcomeSucceeded"
    by (simp add: groupToTransferOutcome_def groups_unsettled_def)
qed

lemma groupToTransferOutcome_unresolved:
  "groupToTransferOutcome gs = OutcomeUnresolved \<longleftrightarrow>
     (\<exists>g \<in> set gs. gt_Overall g \<in> {''unresolved'', ''internal_error''})"
  using outcome_count_zero [of "''unresolved''" gs] outcome_count_zero [of "''internal_error''" gs]
  by (auto simp: groupToTransferOutcome_def groups_unsettled_def outcome_defs)

lemma finished_spec:
  assumes "store_inv st" and "t \<in> set (st_transfers st)" and "tr_Phase t = PhaseFinished" and "tr_Outcome t \<noteq> OutcomeFailed"
  shows "int (length (transfer_groups (tr_ID t) st)) = tr_GroupTargetsCount t"
    and "g \<in> set (transfer_groups (tr_ID t) st) \<Longrightarrow> group_checks g \<and> gt_Overall g \<noteq> ''running''"
    and "tr_Outcome t = groupToTransferOutcome (transfer_groups (tr_ID t) st)"
    and "transfer_groups (tr_ID t) st \<noteq> []"
proof -
  let ?gs = "transfer_groups (tr_ID t) st"
  from assms(1,2) have s: "settled ?gs t" and c: "transfer_checks t" and gc: "list_all group_checks (st_group_targets st)"
    by (auto simp: store_inv_def list_all_iff rows_checked_def)
  from s assms(3,4) show len: "int (length ?gs) = tr_GroupTargetsCount t" and "tr_Outcome t = groupToTransferOutcome ?gs"
    by (simp_all add: settled_def)
  from len c show "?gs \<noteq> []" by (auto simp: transfer_checks_def)
  show "group_checks g \<and> gt_Overall g \<noteq> ''running''" if "g \<in> set ?gs"
    using that s assms(3,4) gc by (auto simp: settled_def list_ex_iff list_all_iff transfer_groups_def)
qed

text \<open>C5: Whatever sequence of operations led to the tables, a finished transfer that was initialized has all its
  group-targets, none of which is still running; its outcome is \<open>succeeded\<close> exactly when every group was accepted or
  skipped, and \<open>unresolved\<close> exactly when some group is unresolved or ended in an internal error.\<close>

theorem finished_transfer_outcome:
  assumes "t \<in> set (st_transfers (run_ops jo ops empty_store))"
    and "tr_Phase t = PhaseFinished" and "tr_Outcome t \<noteq> OutcomeFailed"
  shows "int (length (transfer_groups (tr_ID t) (run_ops jo ops empty_store))) = tr_GroupTargetsCount t \<and>
    (\<forall>g \<in> set (transfer_groups (tr_ID t) (run_ops jo ops empty_store)). gt_Overall g \<noteq> ''running'') \<and>
    (tr_Outcome t = OutcomeSucceeded \<longleftrightarrow>
      (\<forall>g \<in> set (transfer_groups (tr_ID t) (run_ops jo ops empty_store)). gt_Overall g \<in> {''success'', ''skipped''})) \<and>
    (tr_Outcome t = OutcomeUnresolved \<longleftrightarrow>
      (\<exists>g \<in> set (transfer_groups (tr_ID t) (run_ops jo ops empty_store)). gt_Overall g \<in> {''unresolved'', ''internal_error''}))"
proof -
  note F = finished_spec [OF run_ops_inv [OF empty_store_inv] assms]
  show ?thesis
    using F(1,2) groupToTransferOutcome_succeeded [OF F(4)] groupToTransferOutcome_unresolved
    unfolding F(3) by blast
qed

section \<open>Initialization\<close>

lemma grid_index:
  fixes i j n w :: nat
  assumes "i < n" "j < w"
  shows "i * w + j < n * w" "(i * w + j) div w = i" "(i * w + j) mod w = j"
proof -
  have "i * w + j < Suc i * w" using assms(2) by simp
  also have "\<dots> \<le> n * w" using assms(1) by (simp add: mult_le_mono1 Suc_leI del: mult_Suc)
  finally show "i * w + j < n * w" .
qed (use assms(2) in simp_all)

lemma grid_bounds:
  fixes n w m :: nat
  assumes "m < n * w"
  shows "m div w < n" "m mod w < w" "m = m div w * w + m mod w"
proof -
  have "0 < w" using assms by (cases w) auto
  then show "m mod w < w" "m = m div w * w + m mod w" "m div w < n" using assms by (simp_all add: less_mult_imp_div_less)
qed

lemma group_grid:
  assumes "distinct groupIDs" "distinct targetIDs" "length ids = length groupIDs * length targetIDs"
    and "i < length groupIDs" "j < length targetIDs"
  shows "\<exists>!g. g \<in> set (group_target_rows now k groupIDs targetIDs ids) \<and>
    gt_SourceGroupID g = groupIDs ! i \<and> gt_TargetID g = targetIDs ! j"
proof (rule ex1I)
  let ?w = "length targetIDs"
  let ?row = "\<lambda>m. new_group_target now (ids ! m) k (groupIDs ! (m div ?w)) (targetIDs ! (m mod ?w))"
  note ix = grid_index [OF assms(4,5)]
  show "?row (i * ?w + j) \<in> set (group_target_rows now k groupIDs targetIDs ids) \<and>
      gt_SourceGroupID (?row (i * ?w + j)) = groupIDs ! i \<and> gt_TargetID (?row (i * ?w + j)) = targetIDs ! j"
    using ix assms(3) by (auto simp: group_target_rows_def new_group_target_def)
  fix g assume g: "g \<in> set (group_target_rows now k groupIDs targetIDs ids) \<and>
    gt_SourceGroupID g = groupIDs ! i \<and> gt_TargetID g = targetIDs ! j"
  then obtain m where m: "m < length groupIDs * ?w" "g = ?row m" by (auto simp: group_target_rows_def assms(3))
  note b = grid_bounds [OF m(1)]
  from g m have "groupIDs ! (m div ?w) = groupIDs ! i" "targetIDs ! (m mod ?w) = targetIDs ! j"
    by (simp_all add: new_group_target_def)
  then have "m div ?w = i" "m mod ?w = j" using assms b by (simp_all add: nth_eq_iff_index_eq)
  with b(3) m(2) show "g = ?row (i * ?w + j)" by metis
qed

lemma item_grid:
  assumes "distinct groupIDs" "distinct itemIDs" "distinct targetIDs" "distinct ids"
    and "length ids = length groupIDs * length targetIDs" "length itemIDs = length items"
    and "\<forall>item \<in> set items. nat (ii_GroupPosition item) < length groupIDs"
    and "p < length items" "j < length targetIDs"
  shows "\<exists>!x. x \<in> set (item_target_rows now first k groupIDs itemIDs targetIDs ids items) \<and>
    itp_TransferItemID x = itemIDs ! p \<and>
    (\<exists>g \<in> set (group_target_rows now k groupIDs targetIDs ids). gt_ID g = itp_GroupTargetID x \<and>
       gt_SourceGroupID g = groupIDs ! nat (ii_GroupPosition (items ! p)) \<and> gt_TargetID g = targetIDs ! j)"
    (is "\<exists>!x. ?P x")
proof (rule ex1I)
  let ?w = "length targetIDs"
  let ?gp = "\<lambda>m. nat (ii_GroupPosition (items ! (m div ?w)))"
  let ?g = "\<lambda>m. new_group_target now (ids ! m) k (groupIDs ! (m div ?w)) (targetIDs ! (m mod ?w))"
  let ?x = "\<lambda>m. new_item_target now (first + int m) k (groupIDs ! ?gp m) (itemIDs ! (m div ?w)) (ids ! (?gp m * ?w + m mod ?w))"
  note ix = grid_index [OF assms(8,9)]
  have gp: "nat (ii_GroupPosition (items ! q)) < length groupIDs" if "q < length items" for q using assms(7) that by simp
  note gx = grid_index [OF gp [OF assms(8)] assms(9)]
  have g_in: "?g m \<in> set (group_target_rows now k groupIDs targetIDs ids)" if "m < length groupIDs * ?w" for m
    using that by (simp add: group_target_rows_def assms(5))
  have x_in: "?x m \<in> set (item_target_rows now first k groupIDs itemIDs targetIDs ids items)" if "m < length items * ?w" for m
    using that by (simp add: item_target_rows_def Let_def)
  note g_in [OF gx(1)] moreover note x_in [OF ix(1)]
  ultimately show "?P (?x (p * ?w + j))"
    using ix gx by (auto simp: new_item_target_def new_group_target_def intro!: bexI)
  fix x assume x: "?P x"
  then obtain m where m: "m < length items * ?w" "x = ?x m" by (auto simp: item_target_rows_def Let_def)
  note b = grid_bounds [OF m(1)]
  from x m have "itemIDs ! (m div ?w) = itemIDs ! p" by (simp add: new_item_target_def)
  then have p: "m div ?w = p" using assms(2,6,8) b by (simp add: nth_eq_iff_index_eq)
  from x obtain n where n: "n < length groupIDs * ?w" "gt_ID (?g n) = itp_GroupTargetID x" "gt_TargetID (?g n) = targetIDs ! j"
    by (auto simp: group_target_rows_def assms(5))
  have pos: "?gp m * ?w + m mod ?w < length groupIDs * ?w" using grid_index(1) [OF gp [OF b(1)] b(2)] .
  from n m(2) have "ids ! n = ids ! (?gp m * ?w + m mod ?w)" by (simp add: new_group_target_def new_item_target_def)
  then have "n = ?gp m * ?w + m mod ?w" using assms(4,5) n(1) pos by (simp add: nth_eq_iff_index_eq)
  then have "n mod ?w = m mod ?w" using grid_index(3) [OF gp [OF b(1)] b(2)] by simp
  with n(3) have "targetIDs ! (m mod ?w) = targetIDs ! j" by (simp add: new_group_target_def)
  then have "m mod ?w = j" using assms(3,9) b by (simp add: nth_eq_iff_index_eq)
  with p b(3) m(2) show "x = ?x (p * ?w + j)" by metis
qed

lemma reserved_ids:
  assumes "reserveIDs (int n) st = Inr (st', ids)"
  shows "length ids = n" "distinct ids"
  using reserveIDsD(3) [OF assms] by (simp_all add: distinct_map inj_on_def)

lemma map_source_group_rows:
  "length ids = length groups \<Longrightarrow> map sg_ID (source_group_rows k ids groups) = ids \<and>
     map (\<lambda>s. (sg_Key s, sg_FileID s, sg_Name s)) (source_group_rows k ids groups) =
     map (\<lambda>g. (ig_SourceGroupKey g, ig_SourceFileID g, ig_SourceGroupName g)) groups"
  by (auto simp: source_group_rows_def intro!: nth_equalityI)

lemma map_source_item_rows:
  "length itemIDs = length items \<Longrightarrow> map si_ID (source_item_rows k ids itemIDs items) = itemIDs \<and>
     map (\<lambda>s. (si_BatchItemID s, si_Position s, si_SourceFileID s, si_VendorCode s, si_Payload s))
       (source_item_rows k ids itemIDs items) =
     map (\<lambda>i. (ii_BatchItemID i, ii_Position i, ii_SourceFileID i, ii_VendorCode i, ii_Payload i)) items"
  by (auto simp: source_item_rows_def Let_def intro!: nth_equalityI)

lemma in_source_group_rows:
  "s \<in> set (source_group_rows k ids groups) \<Longrightarrow> \<exists>i < length groups. sg_ID s = ids ! i \<and> sg_TransferID s = k"
  by (auto simp: source_group_rows_def)

lemma in_source_item_rows:
  "s \<in> set (source_item_rows k ids itemIDs items) \<Longrightarrow>
     \<exists>p < length items. si_ID s = itemIDs ! p \<and> si_SourceGroupID s = ids ! nat (ii_GroupPosition (items ! p)) \<and>
       si_TransferID s = k"
  by (auto simp: source_item_rows_def Let_def)

definition source_groups :: "int \<Rightarrow> store \<Rightarrow> source_group_row list" where
  "source_groups k st = filter (\<lambda>s. sg_TransferID s = k) (st_groups st)"

definition source_items :: "int \<Rightarrow> store \<Rightarrow> source_item_row list" where
  "source_items k st = filter (\<lambda>s. si_TransferID s = k) (st_items st)"

definition transfer_targets :: "int \<Rightarrow> store \<Rightarrow> stored_target list" where
  "transfer_targets k st = filter (\<lambda>r. tg_TransferID r = k) (st_targets st)"

lemma affected_zero_filter: "affected p rows = 0 \<longleftrightarrow> filter p rows = []"
  by (auto simp: affected_def)

text \<open>The rows of an initialized transfer.\<close>

lemma initialized_rows:
  assumes "store_Initialize jo now c st = Inr st'" and "store_inv st"
    and "lockTransferByID (ic_TransferID c) st = Inr t" and "tr_Phase t = PhaseInitializing"
  obtains groupIDs itemIDs targetIDs ids first where
    "distinct groupIDs" "distinct itemIDs" "distinct targetIDs" "distinct ids"
    "length groupIDs = length (ic_Groups c)" "length itemIDs = length (ic_Items c)"
    "length ids = length groupIDs * length targetIDs"
    "set targetIDs = tg_ID ` set (transfer_targets (tr_ID t) st')"
    "\<forall>item \<in> set (ic_Items c). nat (ii_GroupPosition item) < length groupIDs"
    "source_groups (tr_ID t) st' = source_group_rows (tr_ID t) groupIDs (ic_Groups c)"
    "source_items (tr_ID t) st' = source_item_rows (tr_ID t) groupIDs itemIDs (ic_Items c)"
    "transfer_groups (tr_ID t) st' = group_target_rows now (tr_ID t) groupIDs targetIDs ids"
    "transfer_items (tr_ID t) st' = item_target_rows now first (tr_ID t) groupIDs itemIDs targetIDs ids (ic_Items c)"
  using assms(1)
proof (cases rule: store_Initialize_cases)
  case again
  with assms(3,4) show thesis by simp
next
  case (filled u targetIDs st1 groupIDs st2 itemIDs st3 ids groups items groupTargets itemTargets rows)
  with assms(3) have u: "u = t" by simp
  note F = filled [unfolded u]
  let ?k = "tr_ID t"
  note L = lockTransferByIDD [OF assms(3)]
  have tg: "targetIDs = map tg_ID (sort_key tg_Position (filter (\<lambda>r. tg_TransferID r = ?k) (st_targets st)))"
    and len: "int (length targetIDs) = tr_TargetsCount t"
    using F(6) by (auto simp: loadInitializationTargetIDs_def Let_def split: if_splits)
  have "inj_on tg_ID (set (st_targets st))" and dt: "distinct (st_targets st)"
    using assms(2) by (simp_all add: store_inv_def ids_unique_def distinct_map)
  then have "distinct targetIDs" by (auto simp: tg distinct_map intro: inj_on_subset)
  moreover have "distinct groupIDs" "length groupIDs = length (ic_Groups c)" using reserved_ids [OF F(10)] by simp_all
  moreover have "distinct itemIDs" "length itemIDs = length (ic_Items c)" using reserved_ids [OF F(11)] by simp_all
  moreover have "length ids = length groupIDs * length targetIDs" "distinct ids"
  proof -
    have "int (length (ic_Groups c)) = tr_GroupsCount t"
      using F(1,5) by (simp add: InitializeTransferCommand_Validate_def split: if_splits)
    moreover have "tr_GroupTargetsCount t = tr_GroupsCount t * tr_TargetsCount t"
      using L(3) by (auto simp: Transfer_Validate_def first_err_None_iff checkedMultiply_exact split: if_splits)
    ultimately have "tr_GroupTargetsCount t = int (length groupIDs * length targetIDs)"
      using len \<open>length groupIDs = length (ic_Groups c)\<close> by simp
    from reserved_ids [OF F(12) [unfolded this]] show "length ids = length groupIDs * length targetIDs" "distinct ids" .
  qed
  moreover have "\<forall>item \<in> set (ic_Items c). nat (ii_GroupPosition item) < length groupIDs"
  proof
    fix item assume "item \<in> set (ic_Items c)"
    then obtain p where p: "p < length (ic_Items c)" "item = ic_Items c ! p" by (auto simp: in_set_conv_nth)
    have "\<forall>p < length (ic_Items c). 0 \<le> ii_GroupPosition (ic_Items c ! p) \<and>
        ii_GroupPosition (ic_Items c ! p) < int (length (ic_Groups c))"
      using F(1) by (auto simp: InitializeTransferCommand_Validate_def each_err_None_iff split: if_splits)
        (meson linorder_not_less)+
    with p \<open>length groupIDs = length (ic_Groups c)\<close> show "nat (ii_GroupPosition item) < length groupIDs"
      by (simp add: nat_less_iff)
  qed
  moreover have none: "filter (\<lambda>r. sg_TransferID r = ?k) (st_groups st) = []" "filter (\<lambda>r. si_TransferID r = ?k) (st_items st) = []"
    "filter (\<lambda>r. gt_TransferID r = ?k) (st_group_targets st) = []" "filter (\<lambda>r. itp_TransferID r = ?k) (st_item_targets st) = []"
    using F(7) by (simp_all add: initialization_counts_def affected_zero_filter)
  have "source_groups ?k st' = source_group_rows ?k groupIDs (ic_Groups c)"
    using none(1) by (auto simp: source_groups_def F(18) pg_copyD(1) [OF F(13)] filter_id_conv dest: in_source_group_rows)
  moreover have "source_items ?k st' = source_item_rows ?k groupIDs itemIDs (ic_Items c)"
    using none(2) by (auto simp: source_items_def F(18) pg_copyD(1) [OF F(14)] filter_id_conv dest: in_source_item_rows)
  moreover have "transfer_groups ?k st' = group_target_rows now ?k groupIDs targetIDs ids"
    using none(3) by (auto simp: transfer_groups_def F(18) pg_copyD(1) [OF F(15)] filter_id_conv dest: group_target_rows_transfer)
  moreover have "transfer_items ?k st' =
      item_target_rows now (st_next st3) ?k groupIDs itemIDs targetIDs ids (ic_Items c)"
    using none(4) by (auto simp: transfer_items_def F(18) pg_copyD(1) [OF F(16)] filter_id_conv item_target_rows_def
        new_item_target_def Let_def)
  moreover have "set targetIDs = tg_ID ` set (transfer_targets ?k st')"
    by (simp add: tg transfer_targets_def F(18))
  ultimately show thesis using that by blast
qed

text \<open>C8: Initializing a transfer writes the groups and items of the command, one group-target for every group and
  target, and one item-target for every item and target, which belongs to the group-target of the item's group in
  that target. All of them start as pending.\<close>

theorem Initialize_matrix:
  assumes "store_Initialize jo now c st = Inr st'" and "store_inv st"
    and "lockTransferByID (ic_TransferID c) st = Inr t" and "tr_Phase t = PhaseInitializing"
  shows "map (\<lambda>s. (sg_Key s, sg_FileID s, sg_Name s)) (source_groups (tr_ID t) st') =
      map (\<lambda>g. (ig_SourceGroupKey g, ig_SourceFileID g, ig_SourceGroupName g)) (ic_Groups c) \<and>
    map (\<lambda>s. (si_BatchItemID s, si_Position s, si_SourceFileID s, si_VendorCode s, si_Payload s)) (source_items (tr_ID t) st') =
      map (\<lambda>i. (ii_BatchItemID i, ii_Position i, ii_SourceFileID i, ii_VendorCode i, ii_Payload i)) (ic_Items c) \<and>
    (\<forall>s \<in> set (source_groups (tr_ID t) st'). \<forall>r \<in> set (transfer_targets (tr_ID t) st').
       \<exists>!g. g \<in> set (transfer_groups (tr_ID t) st') \<and> gt_SourceGroupID g = sg_ID s \<and> gt_TargetID g = tg_ID r) \<and>
    (\<forall>s \<in> set (source_items (tr_ID t) st'). \<forall>r \<in> set (transfer_targets (tr_ID t) st').
       \<exists>!x. x \<in> set (transfer_items (tr_ID t) st') \<and> itp_TransferItemID x = si_ID s \<and>
         (\<exists>g \<in> set (transfer_groups (tr_ID t) st'). gt_ID g = itp_GroupTargetID x \<and>
            gt_SourceGroupID g = si_SourceGroupID s \<and> gt_TargetID g = tg_ID r)) \<and>
    (\<forall>g \<in> set (transfer_groups (tr_ID t) st'). gt_PreparationStatus g = ''not_started'' \<and> gt_Overall g = ''running'') \<and>
    (\<forall>x \<in> set (transfer_items (tr_ID t) st'). itp_State x = ItemTargetPending)"
proof -
  obtain groupIDs itemIDs targetIDs ids first where d: "distinct groupIDs" "distinct itemIDs" "distinct targetIDs" "distinct ids"
    and l: "length groupIDs = length (ic_Groups c)" "length itemIDs = length (ic_Items c)"
      "length ids = length groupIDs * length targetIDs"
    and tg: "set targetIDs = tg_ID ` set (transfer_targets (tr_ID t) st')"
    and gp: "\<forall>item \<in> set (ic_Items c). nat (ii_GroupPosition item) < length groupIDs"
    and sg: "source_groups (tr_ID t) st' = source_group_rows (tr_ID t) groupIDs (ic_Groups c)"
    and si: "source_items (tr_ID t) st' = source_item_rows (tr_ID t) groupIDs itemIDs (ic_Items c)"
    and gt: "transfer_groups (tr_ID t) st' = group_target_rows now (tr_ID t) groupIDs targetIDs ids"
    and it: "transfer_items (tr_ID t) st' = item_target_rows now first (tr_ID t) groupIDs itemIDs targetIDs ids (ic_Items c)"
    using initialized_rows [OF assms] by blast
  have target: "\<exists>j < length targetIDs. tg_ID r = targetIDs ! j" if "r \<in> set (transfer_targets (tr_ID t) st')" for r
    using that tg by (metis imageI in_set_conv_nth)
  have "\<exists>!g. g \<in> set (transfer_groups (tr_ID t) st') \<and> gt_SourceGroupID g = sg_ID s \<and> gt_TargetID g = tg_ID r"
    if s: "s \<in> set (source_groups (tr_ID t) st')" and r: "r \<in> set (transfer_targets (tr_ID t) st')" for s r
  proof -
    obtain i where i: "i < length groupIDs" "sg_ID s = groupIDs ! i"
      using in_source_group_rows [OF s [unfolded sg]] l(1) by auto
    obtain j where j: "j < length targetIDs" "tg_ID r = targetIDs ! j" using target [OF r] by blast
    show ?thesis unfolding gt i(2) j(2) by (rule group_grid [OF d(1,3) l(3) i(1) j(1)])
  qed
  moreover have "\<exists>!x. x \<in> set (transfer_items (tr_ID t) st') \<and> itp_TransferItemID x = si_ID s \<and>
         (\<exists>g \<in> set (transfer_groups (tr_ID t) st'). gt_ID g = itp_GroupTargetID x \<and>
            gt_SourceGroupID g = si_SourceGroupID s \<and> gt_TargetID g = tg_ID r)"
    if s: "s \<in> set (source_items (tr_ID t) st')" and r: "r \<in> set (transfer_targets (tr_ID t) st')" for s r
  proof -
    obtain p where p: "p < length (ic_Items c)" "si_ID s = itemIDs ! p"
        "si_SourceGroupID s = groupIDs ! nat (ii_GroupPosition (ic_Items c ! p))"
      using in_source_item_rows [OF s [unfolded si]] by blast
    obtain j where j: "j < length targetIDs" "tg_ID r = targetIDs ! j" using target [OF r] by blast
    show ?thesis unfolding gt it p(2,3) j(2) by (rule item_grid [OF d(1-4) l(3) l(2) gp p(1) j(1)])
  qed
  moreover have "\<forall>g \<in> set (transfer_groups (tr_ID t) st'). gt_PreparationStatus g = ''not_started'' \<and> gt_Overall g = ''running''"
    by (auto simp: gt group_target_rows_def new_group_target_def)
  moreover have "\<forall>x \<in> set (transfer_items (tr_ID t) st'). itp_State x = ItemTargetPending"
    by (auto simp: it item_target_rows_def new_item_target_def Let_def)
  ultimately show ?thesis using map_source_group_rows [OF l(1)] map_source_item_rows [OF l(2)] sg si by simp
qed

section \<open>Repeated preparation results\<close>

lemma find_update_where:
  assumes "\<And>r. key (f r) = key r"
  shows "find key (update_where p f rows) = map_option (\<lambda>r. if p r then f r else r) (find key rows)"
  using assms by (induction rows) (auto simp: update_where_def)

lemma find_key_update:
  "(\<And>t. tr_ID (f t) = tr_ID t) \<Longrightarrow>
     find (\<lambda>t. tr_ID t = k) (update_where p f ts) = map_option (\<lambda>t. if p t then f t else t) (find (\<lambda>t. tr_ID t = k) ts)"
  by (rule find_update_where) simp

lemma preparation_kept:
  assumes "finishPreparationItems now c st = Inr st1" and "advanceTransferAfterPreparation now k st1 = Inr st'"
  shows "st_group_targets st' = st_group_targets st" "st_artifacts st' = st_artifacts st"
    "find (\<lambda>t. tr_ID t = k) (st_transfers st') = None \<longleftrightarrow> find (\<lambda>t. tr_ID t = k) (st_transfers st) = None"
proof -
  have one: "st_group_targets st1 = st_group_targets st \<and> st_artifacts st1 = st_artifacts st \<and> st_transfers st1 = st_transfers st"
    using assms(1) by (auto simp: finishPreparationItems_def rbind_eq_Inr_iff split: if_splits)
  let ?gs = "transfer_groups k st1"
  let ?fin = "terminal_groups ?gs = int (length ?gs)"
  let ?p = "\<lambda>t. tr_ID t = k \<and> running_in pipeline_phases t \<and> int (length ?gs) = tr_GroupTargetsCount t \<and>
    \<not> list_ex (\<lambda>g. \<not> prepared_status (gt_PreparationStatus g)) ?gs"
  let ?f = "\<lambda>t. touch_transfer now (t\<lparr>
     tr_Phase := if ?fin then PhaseFinished else if tr_Phase t = PhasePreparing then PhaseAwaitingAuthorization else tr_Phase t,
     tr_Outcome := if \<not> ?fin then OutcomeRunning else groupToTransferOutcome ?gs,
     tr_AttentionCode := if ?fin \<and> groups_unsettled ?gs then ''preparation_requires_attention'' else [],
     tr_FinishedAt := if ?fin then Some (pg_time now) else None\<rparr>)"
  obtain rows n where u: "pg_update transfer_checks ?p ?f (st_transfers st1) = Inr (rows, n)"
    and st': "st' = st1\<lparr>st_transfers := rows\<rparr>"
    using assms(2) by (auto simp: advanceTransferAfterPreparation_def rbind_eq_Inr_iff Let_def)
  show "st_group_targets st' = st_group_targets st" "st_artifacts st' = st_artifacts st" using one st' by simp_all
  have "find (\<lambda>t. tr_ID t = k) rows = map_option (\<lambda>t. if ?p t then ?f t else t) (find (\<lambda>t. tr_ID t = k) (st_transfers st1))"
    unfolding pg_updateD(1) [OF u] by (rule find_key_update) simp
  then have "find (\<lambda>t. tr_ID t = k) rows = None \<longleftrightarrow> find (\<lambda>t. tr_ID t = k) (st_transfers st1) = None"
    by (simp only: map_option_is_None)
  then show "find (\<lambda>t. tr_ID t = k) (st_transfers st') = None \<longleftrightarrow> find (\<lambda>t. tr_ID t = k) (st_transfers st) = None"
    using one st' by simp
qed

lemma Validate_prepared:
  assumes "ApplyPreparationResultCommand_Validate jo c = None"
  shows "prepared_status (pz_Status c)" "pz_OutcomeCode c \<noteq> []" "pz_ItemPosition c \<ge> 0"
    "pz_Status c = ''succeeded'' \<Longrightarrow> pz_ItemPosition c = 0 \<and> pz_Field c = []"
    "pz_Artifact c = Some a \<Longrightarrow> pz_Status c = ''succeeded''"
  using assms
  by (auto simp: ApplyPreparationResultCommand_Validate_def prepared_status_def code_ok_def first_err_None_iff
      split: if_splits option.splits)

text \<open>A group that holds the result of a command.\<close>

lemma ApplyPreparationResult_repeat:
  assumes "ApplyPreparationResultCommand_Validate jo c = None"
    and "find (\<lambda>t. tr_ID t = pz_TransferID c) (st_transfers st) \<noteq> None"
    and "find (\<lambda>g. gt_TransferID g = pz_TransferID c \<and> gt_ID g = pz_GroupTargetID c) (st_group_targets st) = Some g"
    and "prepared_status (gt_PreparationStatus g)" and "isSamePreparationResult c g"
    and "\<And>a. pz_Artifact c = Some a \<Longrightarrow> verifyStoredPreparationArtifact jo c a st = None"
  shows "ApplyPreparationResult jo now c st = Inr st"
  using assms by (auto simp: ApplyPreparationResult_def split: option.split)

lemma isSame_prepared:
  assumes "ApplyPreparationResultCommand_Validate jo c = None"
  shows "isSamePreparationResult c (prepared_group_row now c g)"
  using Validate_prepared [OF assms]
  by (auto simp: isSamePreparationResult_def prepared_group_row_def touch_group_def)

text \<open>C9: A preparation result can be delivered again: once it has been applied, applying the same command to the
  tables it left, at any later time, succeeds and changes nothing, although the group and the transfer have moved on.\<close>

theorem ApplyPreparationResult_idempotent:
  assumes "ApplyPreparationResult jo now c st = Inr st'" and "\<And>text. jo_Same jo text text"
  shows "ApplyPreparationResult jo later c st' = Inr st'"
proof -
  have valid: "ApplyPreparationResultCommand_Validate jo c = None"
    using assms(1) by (simp add: ApplyPreparationResult_def)
  show ?thesis
    using assms(1)
  proof (cases rule: ApplyPreparationResult_cases)
    case (repeated t g)
    with assms(1) have "isSamePreparationResult c g"
      "\<And>a. pz_Artifact c = Some a \<Longrightarrow> verifyStoredPreparationArtifact jo c a st = None"
      by (auto simp: ApplyPreparationResult_def split: if_splits)
    then show ?thesis
      using repeated by (auto intro!: ApplyPreparationResult_repeat [OF valid])
  next
    case (stored t g st1 rows n st3)
    let ?p = "\<lambda>g. gt_TransferID g = pz_TransferID c \<and> gt_ID g = pz_GroupTargetID c \<and>
         gt_PreparationStatus g = ''running'' \<and> gt_ResultRevision g = 0"
    let ?key = "\<lambda>g. gt_TransferID g = pz_TransferID c \<and> gt_ID g = pz_GroupTargetID c"
    note kept = preparation_kept [OF stored(9,10)]
    have same: "st_transfers st1 = st_transfers st" "st_group_targets st1 = st_group_targets st"
      using stored(7) by (auto simp: insertArtifact_def split: option.splits if_splits)
    have "find ?key rows = map_option (\<lambda>r. if ?p r then prepared_group_row now c r else r) (find ?key (st_group_targets st1))"
      unfolding pg_updateD(1) [OF stored(8)] by (rule find_update_where) simp
    then have g': "find ?key (st_group_targets st') = Some (prepared_group_row now c g)"
      using stored(2,4,5) kept(1) same by (auto simp: find_Some_iff)
    show ?thesis
    proof (rule ApplyPreparationResult_repeat [OF valid _ g'])
      show "find (\<lambda>t. tr_ID t = pz_TransferID c) (st_transfers st') \<noteq> None"
        using kept(3) stored(1) same by simp
      show "prepared_status (gt_PreparationStatus (prepared_group_row now c g))"
        using Validate_prepared(1) [OF valid] by (simp add: prepared_group_row_def touch_group_def)
      show "isSamePreparationResult c (prepared_group_row now c g)" by (rule isSame_prepared [OF valid])
      fix a assume a: "pz_Artifact c = Some a"
      then have "artifact_of c a \<in> set (st_artifacts st1)"
        using stored(7) Validate_prepared(5) [OF valid a] by (auto simp: insertArtifact_def split: if_splits)
      then have "artifact_of c a \<in> set (st_artifacts st')" using kept(2) by simp
      then show "verifyStoredPreparationArtifact jo c a st' = None"
        using assms(2) by (auto simp: verifyStoredPreparationArtifact_def list_ex_iff same_artifact_def intro!: bexI)
    qed
  qed
qed

section \<open>Results of product actions\<close>

lemma all_keys_hit:
  assumes "distinct (map key rows)" and "distinct ks" and "affected p rows = int (length ks)"
    and "\<And>r. r \<in> set rows \<Longrightarrow> p r \<Longrightarrow> key r \<in> set ks" and "x \<in> set ks"
  shows "\<exists>r \<in> set rows. p r \<and> key r = x"
proof -
  have d: "distinct (map key (filter p rows))" using assms(1) by (simp add: distinct_map_filter)
  have "set (map key (filter p rows)) = set ks"
  proof (rule card_subset_eq)
    show "set (map key (filter p rows)) \<subseteq> set ks" using assms(4) by auto
    have "card (set (map key (filter p rows))) = length (filter p rows)" using distinct_card [OF d] by simp
    also have "\<dots> = card (set ks)" using assms(2,3) by (simp add: affected_def distinct_card)
    finally show "card (set (map key (filter p rows))) = card (set ks)" .
  qed simp
  with assms(5) have "x \<in> set (map key (filter p rows))" by blast
  then show ?thesis by auto
qed

lemma update_where_origin:
  "r \<in> set (update_where p f rows) \<Longrightarrow> \<exists>t \<in> set rows. r = (if p t then f t else t)"
  by (auto simp: update_where_def)

lemma check_result_items_None:
  "check_result_items seen xs = None \<Longrightarrow>
     distinct (map ti_TransferItemTargetID xs) \<and> ti_TransferItemTargetID ` set xs \<inter> set seen = {}"
  by (induction seen xs rule: check_result_items.induct) (auto split: if_splits)

lemma check_media_groups_None: "check_media_groups seen gs = None \<Longrightarrow> distinct gs \<and> set gs \<inter> set seen = {}"
  by (induction seen gs rule: check_media_groups.induct) (auto split: if_splits)

lemma advance_kept:
  assumes "advanceOrFinishPublicationTransfer now k phase st = Inr st'"
  shows "st_item_targets st' = st_item_targets st" "st_group_targets st' = st_group_targets st"
proof -
  have "st_item_targets st' = st_item_targets st \<and> st_group_targets st' = st_group_targets st"
    using assms
    by (auto simp: advanceOrFinishPublicationTransfer_def finishPublicationTransfer_def with_transfers_def rbind_eq_Inr_iff
        Let_def split: if_splits)
  then show "st_item_targets st' = st_item_targets st" "st_group_targets st' = st_group_targets st" by simp_all
qed

text \<open>The three statements on items and groups.\<close>

lemma ApplyPublicationActionResult_steps:
  assumes "ApplyPublicationActionResult now c st = Inr st'"
  obtains st1 st2 st3 where
    "finishPublicationActionItems now c st = Inr st1" "skipPublicationActionMedia now c st1 = Inr st2"
    "finishPublicationActionGroups now (ap_TransferID c) (affected_groups c) st2 = Inr st3"
    "advanceOrFinishPublicationTransfer now (ap_TransferID c) PhaseReconciling st3 = Inr st'"
    "distinct (map ti_TransferItemTargetID (ap_Items c))" "distinct (ap_SkipMediaForGroups c)"
    "st_item_targets st' = st_item_targets st1" "st_group_targets st' = st_group_targets st3"
    "st_item_targets st2 = st_item_targets st1" "st_group_targets st1 = st_group_targets st"
proof -
  obtain st1 st2 st3 where s: "finishPublicationActionItems now c st = Inr st1"
    "skipPublicationActionMedia now c st1 = Inr st2"
    "finishPublicationActionGroups now (ap_TransferID c) (affected_groups c) st2 = Inr st3"
    "advanceOrFinishPublicationTransfer now (ap_TransferID c) PhaseReconciling st3 = Inr st'"
    and v: "check_result_items [] (ap_Items c) = None" "check_media_groups [] (ap_SkipMediaForGroups c) = None"
    using assms
    by (auto simp: ApplyPublicationActionResult_def ApplyPublicationActionResultCommand_Validate_def rbind_eq_Inr_iff
        split: if_splits)
  moreover have "st_item_targets st2 = st_item_targets st1"
    using s(2) by (auto simp: skipPublicationActionMedia_def with_groups_def rbind_eq_Inr_iff split: if_splits)
  moreover have "st_item_targets st3 = st_item_targets st2"
    using s(3) by (auto simp: finishPublicationActionGroups_def with_groups_def rbind_eq_Inr_iff)
  moreover have "st_group_targets st1 = st_group_targets st"
    using s(1) by (auto simp: finishPublicationActionItems_def with_items_def rbind_eq_Inr_iff)
  ultimately show thesis
    using that [OF s] check_result_items_None [OF v(1)] check_media_groups_None [OF v(2)] advance_kept [OF s(4)] by simp
qed

lemma finished_items:
  assumes "finishPublicationActionItems now c st = Inr st1" and "keys_unique st"
    and "distinct (map ti_TransferItemTargetID (ap_Items c))"
  shows "r \<in> set (ap_Items c) \<Longrightarrow> \<exists>i \<in> set (st_item_targets st1).
      itp_TransferID i = ap_TransferID c \<and> itp_ID i = ti_TransferItemTargetID r \<and>
      itp_GroupTargetID i = ti_GroupTargetID r \<and> itp_State i = ItemTargetTerminal \<and>
      itp_OutcomeClass i = ti_OutcomeClass r \<and> itp_OutcomeCode i = ti_OutcomeCode r \<and> itp_NMID i = ti_NMID r"
    and "i \<in> set (st_item_targets st) \<Longrightarrow> itp_ID i \<notin> ti_TransferItemTargetID ` set (ap_Items c) \<Longrightarrow>
      i \<in> set (st_item_targets st1)"
proof -
  let ?p = "\<lambda>i. itp_TransferID i = ap_TransferID c \<and> itp_SourceActionID i = ap_ActionID c \<and>
    result_item_for (ap_Items c) i \<noteq> None \<and> itp_State i = ItemTargetRunning \<and>
    transfer_active active_phases (itp_TransferID i) st"
  have E: "st1 = st\<lparr>st_item_targets := update_where ?p (finish_item_row now (ap_Items c)) (st_item_targets st)\<rparr>"
    "affected ?p (st_item_targets st) = int (length (ap_Items c))"
    using with_items_effect(1,3) [OF assms(1) [unfolded finishPublicationActionItems_def]] by simp_all
  have for_item: "ti_TransferItemTargetID q = itp_ID i \<and> ti_GroupTargetID q = itp_GroupTargetID i \<and> q \<in> set (ap_Items c)"
    if "result_item_for (ap_Items c) i = Some q" for i q
    using that by (auto simp: result_item_for_def find_Some_iff)
  have named: "itp_ID i \<in> set (map ti_TransferItemTargetID (ap_Items c))" if "?p i" for i
  proof -
    from that obtain q where "result_item_for (ap_Items c) i = Some q" by auto
    with for_item [OF this] show ?thesis by (metis in_set_conv_nth length_map nth_map)
  qed
  show "\<exists>i \<in> set (st_item_targets st1).
      itp_TransferID i = ap_TransferID c \<and> itp_ID i = ti_TransferItemTargetID r \<and>
      itp_GroupTargetID i = ti_GroupTargetID r \<and> itp_State i = ItemTargetTerminal \<and>
      itp_OutcomeClass i = ti_OutcomeClass r \<and> itp_OutcomeCode i = ti_OutcomeCode r \<and> itp_NMID i = ti_NMID r"
    if r: "r \<in> set (ap_Items c)"
  proof -
    have keys: "distinct (map itp_ID (st_item_targets st))" using assms(2) by (simp add: keys_unique_def)
    have len: "affected ?p (st_item_targets st) = int (length (map ti_TransferItemTargetID (ap_Items c)))" using E(2) by simp
    have "\<exists>i \<in> set (st_item_targets st). ?p i \<and> itp_ID i = ti_TransferItemTargetID r"
      by (rule all_keys_hit [OF keys assms(3) len named]) (use r in auto)
    then obtain i where i: "i \<in> set (st_item_targets st)" "?p i" "itp_ID i = ti_TransferItemTargetID r" by blast
    then obtain q where q: "result_item_for (ap_Items c) i = Some q" by auto
    then have "q = r" using for_item [OF q] i(3) r assms(3) by (auto simp: distinct_map dest: inj_onD)
    moreover have "finish_item_row now (ap_Items c) i \<in> set (st_item_targets st1)"
      using i(1,2) by (auto simp: E(1) update_where_def intro!: image_eqI [of _ _ i])
    ultimately show ?thesis
      using i q for_item [OF q]
      by (intro bexI [of _ "finish_item_row now (ap_Items c) i"]) (simp_all add: finish_item_row_def touch_item_def)
  qed
  show "i \<in> set (st_item_targets st1)"
    if "i \<in> set (st_item_targets st)" "itp_ID i \<notin> ti_TransferItemTargetID ` set (ap_Items c)"
  proof -
    have "\<not> ?p i" using named [of i] that(2) by auto
    with that(1) show ?thesis by (auto simp: E(1) update_where_def intro!: image_eqI [of _ _ i])
  qed
qed

lemma skipped_media:
  assumes "skipPublicationActionMedia now c st1 = Inr st2" and "keys_unique st1" and "distinct (ap_SkipMediaForGroups c)"
  shows "g \<in> set (st_group_targets st2) \<Longrightarrow> gt_ID g \<in> set (ap_SkipMediaForGroups c) \<Longrightarrow> gt_MediaStatus g = ''skipped''"
    and "map gt_ID (st_group_targets st2) = map gt_ID (st_group_targets st1)"
    and "g \<in> set (st_group_targets st1) \<Longrightarrow> gt_ID g \<notin> set (ap_SkipMediaForGroups c) \<Longrightarrow> g \<in> set (st_group_targets st2)"
proof -
  let ?p = "\<lambda>g. gt_TransferID g = ap_TransferID c \<and> gt_ID g \<in> set (ap_SkipMediaForGroups c) \<and>
    (media_open g \<or> gt_MediaStatus g = ''skipped'') \<and> transfer_active active_phases (gt_TransferID g) st1"
  let ?f = "\<lambda>g. touch_group now (g\<lparr>gt_MediaStatus := ''skipped''\<rparr>)"
  have E: "st_group_targets st2 = update_where ?p ?f (st_group_targets st1)"
    "affected ?p (st_group_targets st1) = int (length (ap_SkipMediaForGroups c))"
  proof -
    have "st_group_targets st2 = update_where ?p ?f (st_group_targets st1) \<and>
        affected ?p (st_group_targets st1) = int (length (ap_SkipMediaForGroups c))"
    proof (cases "ap_SkipMediaForGroups c = []")
      case True
      then have "?p = (\<lambda>_. False)" by auto
      with True assms(1) show ?thesis by (simp add: skipPublicationActionMedia_def update_where_def affected_def)
    next
      case False
      with assms(1) have "with_groups st1 (pg_update_exactly group_checks (int (length (ap_SkipMediaForGroups c))) ?p ?f
          (st_group_targets st1)) = Inr st2"
        by (simp add: skipPublicationActionMedia_def)
      from with_groups_effect(1,3) [OF this, of "ap_TransferID c"] show ?thesis by simp
    qed
    then show "st_group_targets st2 = update_where ?p ?f (st_group_targets st1)"
      "affected ?p (st_group_targets st1) = int (length (ap_SkipMediaForGroups c))" by blast+
  qed
  show "map gt_ID (st_group_targets st2) = map gt_ID (st_group_targets st1)"
    unfolding E(1) by (rule map_update_where) simp
  have keys: "distinct (map gt_ID (st_group_targets st1))" using assms(2) by (simp add: keys_unique_def)
  show "gt_MediaStatus g = ''skipped''" if g: "g \<in> set (st_group_targets st2)" "gt_ID g \<in> set (ap_SkipMediaForGroups c)"
  proof -
    obtain h where h: "h \<in> set (st_group_targets st1)" "g = (if ?p h then ?f h else h)"
      using update_where_origin [OF g(1) [unfolded E(1)]] by blast
    then have "gt_ID h \<in> set (ap_SkipMediaForGroups c)" using g(2) by (simp split: if_splits)
    with all_keys_hit [OF keys assms(3) E(2)] obtain u where u: "u \<in> set (st_group_targets st1)" "?p u" "gt_ID u = gt_ID h"
      by blast
    with keys h(1) have "u = h" by (auto simp: distinct_map dest: inj_onD)
    then have "?p h" using u(2) by blast
    have "g = ?f h" by (rule trans [OF h(2) if_P [OF \<open>?p h\<close>]])
    then show ?thesis by (simp add: touch_group_def)
  qed
  show "g \<in> set (st_group_targets st2)" if "g \<in> set (st_group_targets st1)" "gt_ID g \<notin> set (ap_SkipMediaForGroups c)"
    using that by (auto simp: E(1) update_where_def intro!: image_eqI [of _ _ g])
qed

lemma finished_groups:
  assumes "finishPublicationActionGroups now k ids st2 = Inr st3" and "distinct (map gt_ID (st_group_targets st2))"
    and "distinct ids"
  shows "x \<in> set ids \<Longrightarrow> \<exists>g \<in> set (st_group_targets st2). gt_ID g = x \<and> gt_TransferID g = k \<and>
      items_complete (group_items k x st2) \<and>
      finish_group_row now (group_items k x st2) g \<in> set (st_group_targets st3)"
    and "g \<in> set (st_group_targets st2) \<Longrightarrow> gt_ID g \<notin> set ids \<Longrightarrow> g \<in> set (st_group_targets st3)"
proof -
  let ?p = "\<lambda>g. gt_TransferID g = k \<and> gt_ID g \<in> set ids \<and> gt_Overall g = ''running'' \<and>
    items_complete (group_items k (gt_ID g) st2) \<and> transfer_active active_phases (gt_TransferID g) st2"
  let ?f = "\<lambda>g. finish_group_row now (group_items k (gt_ID g) st2) g"
  have E: "st_group_targets st3 = update_where ?p ?f (st_group_targets st2)"
    "affected ?p (st_group_targets st2) = int (length ids)"
    using with_groups_effect(1,3) [OF assms(1) [unfolded finishPublicationActionGroups_def], of k] by simp_all
  show "\<exists>g \<in> set (st_group_targets st2). gt_ID g = x \<and> gt_TransferID g = k \<and> items_complete (group_items k x st2) \<and>
      finish_group_row now (group_items k x st2) g \<in> set (st_group_targets st3)" if x: "x \<in> set ids"
  proof -
    obtain g where g: "g \<in> set (st_group_targets st2)" "?p g" "gt_ID g = x"
      using all_keys_hit [OF assms(2,3) E(2) _ x] by blast
    then have "?f g \<in> set (st_group_targets st3)" by (auto simp: E(1) update_where_def intro!: image_eqI [of _ _ g])
    with g show ?thesis by (intro bexI [of _ g]) simp_all
  qed
  show "g \<in> set (st_group_targets st3)" if "g \<in> set (st_group_targets st2)" "gt_ID g \<notin> set ids"
    using that by (auto simp: E(1) update_where_def intro!: image_eqI [of _ _ g])
qed

text \<open>The groups a result does not concern.\<close>

lemma unaffected_group:
  assumes "ApplyPublicationActionResult now c st = Inr st'" and "keys_unique st"
    and "g \<in> set (st_group_targets st)" and "gt_ID g \<notin> set (affected_groups c)"
  shows "g \<in> set (st_group_targets st')"
  using assms(1)
proof (rule ApplyPublicationActionResult_steps)
  fix st1 st2 st3
  assume s: "finishPublicationActionItems now c st = Inr st1" "skipPublicationActionMedia now c st1 = Inr st2"
    "finishPublicationActionGroups now (ap_TransferID c) (affected_groups c) st2 = Inr st3"
    and d: "distinct (ap_SkipMediaForGroups c)"
    and k: "st_group_targets st' = st_group_targets st3" "st_group_targets st1 = st_group_targets st"
  have "keys_unique st1" using finish_items_only [OF s(1)] assms(2) by (simp add: only_transfer_def)
  note M = skipped_media [OF s(2) this d]
  have "distinct (map gt_ID (st_group_targets st2))" using M(2) assms(2) k(2) by (simp add: keys_unique_def)
  note G = finished_groups [OF s(3) this]
  have "g \<in> set (st_group_targets st2)" using M(3) assms(3,4) k(2) by (auto simp: affected_groups_def)
  then show ?thesis using G(2) assms(4) k(1) by (simp add: affected_groups_def)
qed

text \<open>C7: The result of a product action settles exactly the items it names, with the outcome it gives them; every group
  it concerns then has all its items settled and the publication status they reduce to, and where the result skips the
  media of the group, also their overall outcome. The other items and groups are as before.\<close>

theorem ApplyPublicationActionResult_exact:
  assumes "ApplyPublicationActionResult now c st = Inr st'" and "store_inv st"
  shows "(\<forall>r \<in> set (ap_Items c). \<exists>i \<in> set (st_item_targets st').
      itp_TransferID i = ap_TransferID c \<and> itp_ID i = ti_TransferItemTargetID r \<and>
      itp_GroupTargetID i = ti_GroupTargetID r \<and> itp_State i = ItemTargetTerminal \<and>
      itp_OutcomeClass i = ti_OutcomeClass r \<and> itp_OutcomeCode i = ti_OutcomeCode r \<and> itp_NMID i = ti_NMID r) \<and>
    (\<forall>i \<in> set (st_item_targets st). itp_ID i \<notin> ti_TransferItemTargetID ` set (ap_Items c) \<longrightarrow>
      i \<in> set (st_item_targets st')) \<and>
    (\<forall>x \<in> set (affected_groups c). \<exists>g \<in> set (transfer_groups (ap_TransferID c) st'). gt_ID g = x \<and>
      items_complete (group_items (ap_TransferID c) x st') \<and>
      gt_PublicationStatus g = items_publication (group_items (ap_TransferID c) x st') \<and>
      (x \<in> set (ap_SkipMediaForGroups c) \<longrightarrow>
         gt_MediaStatus g = ''skipped'' \<and> gt_Overall g = items_overall (group_items (ap_TransferID c) x st'))) \<and>
    (\<forall>g \<in> set (st_group_targets st). gt_ID g \<notin> set (affected_groups c) \<longrightarrow> g \<in> set (st_group_targets st'))"
proof -
  from assms(2) have keys: "keys_unique st" by (simp add: store_inv_def)
  obtain st1 st2 st3 where s: "finishPublicationActionItems now c st = Inr st1" "skipPublicationActionMedia now c st1 = Inr st2"
    "finishPublicationActionGroups now (ap_TransferID c) (affected_groups c) st2 = Inr st3"
    and d: "distinct (map ti_TransferItemTargetID (ap_Items c))" "distinct (ap_SkipMediaForGroups c)"
    and k: "st_item_targets st' = st_item_targets st1" "st_group_targets st' = st_group_targets st3"
      "st_item_targets st2 = st_item_targets st1" "st_group_targets st1 = st_group_targets st"
    using assms(1) by (rule ApplyPublicationActionResult_steps)
  have "keys_unique st1" using finish_items_only [OF s(1)] keys by (simp add: only_transfer_def)
  note I = finished_items [OF s(1) keys d(1)] and M = skipped_media [OF s(2) this d(2)]
  have "distinct (map gt_ID (st_group_targets st2))" using M(2) keys k(4) by (simp add: keys_unique_def)
  note G = finished_groups [OF s(3) this]
  have same: "group_items (ap_TransferID c) x st2 = group_items (ap_TransferID c) x st'" for x
    by (simp add: group_items_def k)
  have "\<exists>g \<in> set (transfer_groups (ap_TransferID c) st'). gt_ID g = x \<and>
      items_complete (group_items (ap_TransferID c) x st') \<and>
      gt_PublicationStatus g = items_publication (group_items (ap_TransferID c) x st') \<and>
      (x \<in> set (ap_SkipMediaForGroups c) \<longrightarrow>
         gt_MediaStatus g = ''skipped'' \<and> gt_Overall g = items_overall (group_items (ap_TransferID c) x st'))"
    if x: "x \<in> set (affected_groups c)" for x
  proof -
    let ?is = "group_items (ap_TransferID c) x st'"
    obtain g where g: "g \<in> set (st_group_targets st2)" "gt_ID g = x" "gt_TransferID g = ap_TransferID c"
      "items_complete ?is" "finish_group_row now ?is g \<in> set (st_group_targets st')"
      using G(1) [OF _ x] by (auto simp: affected_groups_def same k(2))
    then have "finish_group_row now ?is g \<in> set (transfer_groups (ap_TransferID c) st')" by (simp add: transfer_groups_def)
    moreover have "gt_MediaStatus g = ''skipped''" if "x \<in> set (ap_SkipMediaForGroups c)" using M(1) [OF g(1)] g(2) that by simp
    ultimately show ?thesis
      using g(2,4)
      by (intro bexI [of _ "finish_group_row now ?is g"]) (auto simp: finish_group_row_def touch_group_def media_open_def)
  qed
  then show ?thesis using I unaffected_group [OF assms(1) keys] k(1) by simp
qed

end
