(* ===== verification/ResultProjection.thy ===== *)
theory ResultProjection
  imports TransferProjections
begin

text \<open>
  What the dispatcher of product actions relies on when it projects results onto a transfer, as a contract: a result
  changes the groups it names and no others. The contract is proved for the tables of \<open>TransferStore\<close>; its lemmas say
  what the dispatcher's transactions leave alone.
\<close>

section \<open>The contract\<close>

locale result_projection =
  fixes ops :: "'t result_ops"
    and ok :: "'t \<Rightarrow> bool"
    and holds :: "'t \<Rightarrow> 'g \<Rightarrow> bool"
    and ident :: "'g \<Rightarrow> int"
  assumes apply_ok: "ok t \<Longrightarrow> ro_ApplyWithin ops c t = Inr t' \<Longrightarrow> ok t'"
    and apply_frame: "ok t \<Longrightarrow> ro_ApplyWithin ops c t = Inr t' \<Longrightarrow> holds t g \<Longrightarrow>
      ident g \<notin> set (affected_groups c) \<Longrightarrow> holds t' g"
    and mark_frame: "ok t \<Longrightarrow> ro_MarkReconcilingWithin ops k t = Inr t' \<Longrightarrow> holds t g \<Longrightarrow> holds t' g"
begin

lemma results_frame:
  assumes "dp_results dp = ops" and "apply_results dp c db = Inr db'" and "ok (xd_transfer db)"
  shows "ok (xd_transfer db')" and "xd_journal db' = xd_journal db"
    and "holds (xd_transfer db) g \<Longrightarrow> ident g \<notin> set (affected_groups c) \<Longrightarrow> holds (xd_transfer db') g"
  using assms apply_ok apply_frame by (auto simp: apply_results_def rbind_eq_Inr_iff set_transfer_def)

lemma aborted_frame:
  assumes "dp_results dp = ops" and "apply_aborted dp action bs db = Inr db'" and "ok (xd_transfer db)"
  shows "ok (xd_transfer db') \<and> xd_journal db' = xd_journal db \<and>
    (holds (xd_transfer db) g \<longrightarrow> (\<forall>b \<in> set bs. \<forall>m \<in> set (ab_Members b). mb_GroupTargetID m \<noteq> ident g) \<longrightarrow>
       holds (xd_transfer db') g)"
  using assms(2,3)
proof (induction bs arbitrary: db)
  case (Cons b bs)
  then obtain db1 where one: "apply_results dp (aborted_result action b) db = Inr db1"
    and rest: "apply_aborted dp action bs db1 = Inr db'" by (auto simp: rbind_eq_Inr_iff)
  note F = results_frame [OF assms(1) one Cons.prems(2)]
  have "ident g \<notin> set (affected_groups (aborted_result action b))"
    if "\<forall>m \<in> set (ab_Members b). mb_GroupTargetID m \<noteq> ident g"
    using that by (auto simp: affected_groups_def aborted_result_def)
  with F Cons.IH [OF rest F(1)] show ?case by auto
qed simp

lemma close_frame: "closeAuthorizationIfPlanTerminal dp env action db = Inr db' \<Longrightarrow>
    xd_transfer db' = xd_transfer db \<and> xd_journal db' = xd_journal db"
  by (auto simp: closeAuthorizationIfPlanTerminal_def rbind_eq_Inr_iff split: if_splits)

text \<open>Stopping a plan: the aborted product actions are projected, nothing else is.\<close>

lemma stop_plan_frame:
  assumes "dp_results dp = ops" and "stop_plan dp env action db = Inr (db', out)" and "ok (xd_transfer db)"
  obtains j db1 where
    "AbortPlanAfterDispatch (se_clock env) action ''PLAN_CHANGED_AFTER_DISPATCH_STARTED'' (xd_journal db) =
       Inr (j, aborted_actions action (xd_journal db))"
    "xd_journal db' = j" "apply_aborted dp action (aborted_actions action (xd_journal db)) (set_journal db j) = Inr db1"
    "xd_transfer db' = xd_transfer db1"
    "\<And>g. holds (xd_transfer db) g \<Longrightarrow>
       \<forall>b \<in> set (aborted_actions action (xd_journal db)). \<forall>m \<in> set (ab_Members b). mb_GroupTargetID m \<noteq> ident g \<Longrightarrow>
       holds (xd_transfer db') g"
proof -
  obtain j bs db1 where a: "AbortPlanAfterDispatch (se_clock env) action ''PLAN_CHANGED_AFTER_DISPATCH_STARTED'' (xd_journal db) =
       Inr (j, bs)" and b: "apply_aborted dp action bs (set_journal db j) = Inr db1"
    and c: "closeAuthorizationIfPlanTerminal dp env action db1 = Inr db'"
    using assms(2) by (auto simp: stop_plan_def rbind_eq_Inr_iff)
  from a have bs: "bs = aborted_actions action (xd_journal db)"
    by (auto simp: AbortPlanAfterDispatch_def Let_def rbind_eq_Inr_iff split: if_splits)
  have "ok (xd_transfer (set_journal db j))" using assms(3) by (simp add: set_journal_def)
  note F = aborted_frame [OF assms(1) b this] and C = close_frame [OF c]
  show thesis
    by (rule that [OF a [unfolded bs] _ b [unfolded bs]]) (use F C in \<open>simp_all add: set_journal_def bs\<close>)
qed

text \<open>A recorded rejection and a settlement concern the groups of their action only.\<close>

lemma submission_items_groups:
  "submission_items action r = Inr items \<Longrightarrow> ti_GroupTargetID ` set items \<subseteq> mb_GroupTargetID ` set (pa_Members action)"
  by (auto simp: submission_items_def Let_def split: if_splits)

lemma mediaGroupsToSkip_groups:
  "mediaGroupsToSkip j action = Inr groups \<Longrightarrow> set groups \<subseteq> mb_GroupTargetID ` set (pa_Members action)"
  by (auto simp: mediaGroupsToSkip_def action_GroupTargetIDs_def rbind_eq_Inr_iff)

lemma record_submission_frame:
  assumes "dp_results dp = ops" and "record_submission_tx dp env c attempt r db = Inr (db', u)" and "ok (xd_transfer db)"
    and "LockProductAction (dp_codec dp) (xd_live db) (xd_journal db) c = Inr action"
    and "holds (xd_transfer db) g" and "ident g \<notin> mb_GroupTargetID ` set (pa_Members action)"
  shows "holds (xd_transfer db') g"
proof (cases "sr_Disposition r = SubmissionRejectedProven")
  case False
  with assms mark_frame show ?thesis
    by (auto simp: record_submission_tx_def rbind_eq_Inr_iff set_transfer_def set_journal_def Let_def split: if_splits)
next
  case True
  obtain j groups items db1 where skip: "mediaGroupsToSkip j action = Inr groups" and items: "submission_items action r = Inr items"
    and app: "apply_results dp \<lparr>ap_TransferID = pc_TransferID action, ap_ActionID = pc_ActionID action,
        ap_Items = items, ap_SkipMediaForGroups = groups\<rparr> (set_journal db j) = Inr db1"
    and cl: "closeAuthorizationIfPlanTerminal dp env action db1 = Inr db'"
    using assms(2,4) True by (auto simp: record_submission_tx_def rbind_eq_Inr_iff Let_def split: if_splits)
  have "ok (xd_transfer (set_journal db j))" using assms(3) by (simp add: set_journal_def)
  from results_frame(3) [OF assms(1) app this, of g] show ?thesis
    using assms(5,6) close_frame [OF cl] submission_items_groups [OF items] mediaGroupsToSkip_groups [OF skip]
    by (auto simp: set_journal_def affected_groups_def)
qed

end

section \<open>The tables keep the contract\<close>

lemma mark_keeps_groups:
  "MarkPublicationReconciling now k st = Inr st' \<Longrightarrow> st_group_targets st' = st_group_targets st"
  by (auto simp: MarkPublicationReconciling_def with_transfers_def rbind_eq_Inr_iff)

interpretation transfer_store: result_projection "store_ops now" store_inv "\<lambda>st g. g \<in> set (st_group_targets st)" gt_ID
  for now :: int
proof
  fix st c st' and g :: group_row and k :: int
  assume inv: "store_inv st"
  then have keys: "keys_unique st" by (simp add: store_inv_def)
  show "store_inv st'" if "ro_ApplyWithin (store_ops now) c st = Inr st'"
    using that settles_inv [OF inv ApplyPublicationActionResult_settles] store_inv_distinct [OF inv]
    by (auto simp: store_ops_def applier_ApplyWithin_def)
  show "g \<in> set (st_group_targets st')" if "ro_ApplyWithin (store_ops now) c st = Inr st'"
    "g \<in> set (st_group_targets st)" "gt_ID g \<notin> set (affected_groups c)"
    using that unaffected_group [OF _ keys] by (auto simp: store_ops_def applier_ApplyWithin_def)
  show "g \<in> set (st_group_targets st')" if "ro_MarkReconcilingWithin (store_ops now) k st = Inr st'"
    "g \<in> set (st_group_targets st)"
    using that mark_keeps_groups by (auto simp: store_ops_def applier_MarkReconcilingWithin_def split: if_splits)
qed

section \<open>Stopping a plan\<close>

lemma apply_leaves_active:
  assumes "ApplyPublicationActionResult now c st = Inr st'"
    and "g \<in> set (st_group_targets st')" and "gt_TransferID g = ap_TransferID c" and "gt_Overall g = ''running''"
  shows "transfer_active active_phases (ap_TransferID c) st'"
  using assms(1)
proof (rule ApplyPublicationActionResult_steps)
  fix st3
  assume adv: "advanceOrFinishPublicationTransfer now (ap_TransferID c) PhaseReconciling st3 = Inr st'"
  let ?k = "ap_TransferID c"
  let ?p = "\<lambda>t. tr_ID t = ?k \<and> running_in active_phases t \<and>
    list_ex (\<lambda>g. gt_Overall g = ''running'') (transfer_groups (tr_ID t) st3)"
  let ?f = "\<lambda>t. touch_transfer now (t\<lparr>tr_Phase := if tr_Phase t = PhaseMedia then PhaseMedia else PhaseReconciling\<rparr>)"
  have run: "list_ex (\<lambda>g. gt_Overall g = ''running'') (transfer_groups ?k st3)"
    using assms(2-4) advance_kept(2) [OF adv] by (auto simp: transfer_groups_def list_ex_iff)
  obtain rows n where u: "pg_update transfer_checks ?p ?f (st_transfers st3) = Inr (rows, n)"
    and r: "(if n = 1 then Inr (st3\<lparr>st_transfers := rows\<rparr>)
             else finishPublicationTransfer now ?k (st3\<lparr>st_transfers := rows\<rparr>)) = Inr st'"
    using adv by (auto simp: advanceOrFinishPublicationTransfer_def rbind_eq_Inr_iff split: if_splits)
  note D = pg_updateD [OF u]
  have "n = 1"
  proof (rule ccontr)
    assume "n \<noteq> 1"
    with r have "finishPublicationTransfer now ?k (st3\<lparr>st_transfers := rows\<rparr>) = Inr st'" by simp
    then have "0 < affected (\<lambda>t. tr_ID t = ?k \<and> running_in active_phases t \<and>
        int (length (transfer_groups ?k (st3\<lparr>st_transfers := rows\<rparr>))) = tr_GroupTargetsCount t \<and>
        \<not> list_ex (\<lambda>g. gt_Overall g = ''running'') (transfer_groups ?k (st3\<lparr>st_transfers := rows\<rparr>))) rows"
      by (auto simp: finishPublicationTransfer_def with_transfers_def rbind_eq_Inr_iff Let_def dest!: pg_update_exactlyD(2))
    then show False using run by (auto simp: affected_pos transfer_groups_def)
  qed
  with D(2) have "0 < affected ?p (st_transfers st3)" by simp
  then obtain t where t: "t \<in> set (st_transfers st3)" "?p t" by (auto simp: affected_pos)
  then have "?f t \<in> set rows" by (auto simp: D(1) update_where_def intro!: image_eqI [of _ _ t])
  moreover have "tr_ID (?f t) = ?k \<and> running_in active_phases (?f t)"
    using t by (auto simp: running_in_def active_phases_def)
  ultimately show ?thesis using r \<open>n = 1\<close> by (auto simp: transfer_active_def list_ex_iff intro!: bexI [of _ "?f t"])
qed

lemma abort_leaves_nothing_planned:
  assumes "AbortPlanAfterDispatch now action code j = Inr (j', bs)"
  shows "bs \<noteq> []" "w \<in> set (jn_actions j') \<Longrightarrow> plan_action (pc_TransferID action) (pa_PlanID action) w \<Longrightarrow> ar_State w \<noteq> ''planned''"
proof -
  let ?planned = "\<lambda>w. plan_action (pc_TransferID action) (pa_PlanID action) w \<and> ar_State w = ''planned''"
  let ?f = "\<lambda>w. finish_action now ''terminal'' (fst (abort_outcome code w)) (snd (abort_outcome code w)) w"
  show "bs \<noteq> []" using assms by (auto simp: AbortPlanAfterDispatch_def Let_def rbind_eq_Inr_iff split: if_splits)
  obtain j3 where red: "reducePublicationPlan (pc_TransferID action) (pa_PlanID action) j3 = Inr j'"
    and j3: "jn_actions j3 = update_where ?planned ?f (jn_actions j)"
    using assms by (auto simp: AbortPlanAfterDispatch_def Let_def rbind_eq_Inr_iff finish_members_def split: if_splits)
  have "jn_actions j' = jn_actions j3"
    using red by (auto simp: reducePublicationPlan_def Let_def split: option.splits if_splits)
  then show "ar_State w \<noteq> ''planned''" if "w \<in> set (jn_actions j')" "plan_action (pc_TransferID action) (pa_PlanID action) w"
    using that by (auto simp: j3 update_where_def finish_action_def split: if_splits)
qed

lemma aborted_leaves_active:
  assumes "dp_results dp = store_ops now" and "apply_aborted dp action bs db = Inr db'" and "bs \<noteq> []"
    and "store_inv (xd_transfer db)"
    and "g \<in> set (st_group_targets (xd_transfer db))" and "gt_TransferID g = pc_TransferID action" and "gt_Overall g = ''running''"
    and "\<forall>b \<in> set bs. \<forall>m \<in> set (ab_Members b). mb_GroupTargetID m \<noteq> gt_ID g"
  shows "transfer_active active_phases (pc_TransferID action) (xd_transfer db')"
  using assms(2-5,8)
proof (induction bs arbitrary: db)
  case (Cons b bs)
  then obtain db1 where one: "apply_results dp (aborted_result action b) db = Inr db1"
    and rest: "apply_aborted dp action bs db1 = Inr db'" by (auto simp: rbind_eq_Inr_iff)
  note F = transfer_store.results_frame [OF assms(1) one Cons.prems(3)]
  have "gt_ID g \<notin> set (affected_groups (aborted_result action b))"
    using Cons.prems(5) by (auto simp: affected_groups_def aborted_result_def)
  with F(3) Cons.prems(4) have g: "g \<in> set (st_group_targets (xd_transfer db1))" by simp
  show ?case
  proof (cases "bs = []")
    case True
    have "ApplyPublicationActionResult now (aborted_result action b) (xd_transfer db) = Inr (xd_transfer db1)"
      using one assms(1)
      by (auto simp: apply_results_def rbind_eq_Inr_iff set_transfer_def store_ops_def applier_ApplyWithin_def)
    from apply_leaves_active [OF this g] have "transfer_active active_phases (pc_TransferID action) (xd_transfer db1)"
      using assms(6,7) by (simp add: aborted_result_def)
    with rest True show ?thesis by simp
  next
    case False
    with Cons.IH [OF rest _ F(1) g] Cons.prems(5) show ?thesis by simp
  qed
qed simp

text \<open>C6: Stopping a plan ends every planned action of it, uploads of media included, but projects only the aborted
  product actions: a group that waits for its media and is not among theirs keeps its running row, and its transfer
  stays active, although no action is left that could finish it.\<close>

theorem stop_plan_strands_media:
  assumes "dp_results dp = store_ops now" and "store_inv (xd_transfer db)"
    and "stop_plan dp env action db = Inr (db', out)"
    and "g \<in> set (st_group_targets (xd_transfer db))" and "gt_TransferID g = pc_TransferID action"
    and "gt_Overall g = ''running''"
    and "\<forall>b \<in> set (aborted_actions action (xd_journal db)). \<forall>m \<in> set (ab_Members b). mb_GroupTargetID m \<noteq> gt_ID g"
  shows "g \<in> set (st_group_targets (xd_transfer db')) \<and>
    transfer_active active_phases (pc_TransferID action) (xd_transfer db') \<and>
    (\<forall>w \<in> set (jn_actions (xd_journal db')). plan_action (pc_TransferID action) (pa_PlanID action) w \<longrightarrow>
       ar_State w \<noteq> ''planned'')"
proof (rule transfer_store.stop_plan_frame [OF assms(1,3,2)])
  fix j db1
  assume abort: "AbortPlanAfterDispatch (se_clock env) action ''PLAN_CHANGED_AFTER_DISPATCH_STARTED'' (xd_journal db) =
       Inr (j, aborted_actions action (xd_journal db))"
    and j: "xd_journal db' = j"
    and app: "apply_aborted dp action (aborted_actions action (xd_journal db)) (set_journal db j) = Inr db1"
    and t: "xd_transfer db' = xd_transfer db1"
    and keeps: "\<And>h. h \<in> set (st_group_targets (xd_transfer db)) \<Longrightarrow>
       \<forall>b \<in> set (aborted_actions action (xd_journal db)). \<forall>m \<in> set (ab_Members b). mb_GroupTargetID m \<noteq> gt_ID h \<Longrightarrow>
       h \<in> set (st_group_targets (xd_transfer db'))"
  note A = abort_leaves_nothing_planned [OF abort]
  have "transfer_active active_phases (pc_TransferID action) (xd_transfer db1)"
    by (rule aborted_leaves_active [OF assms(1) app A(1)]) (use assms in \<open>simp_all add: set_journal_def\<close>)
  with A(2) keeps [OF assms(4,7)] j t show ?thesis by simp
qed

end
