(* ===== verification/InitializationFlow.thy ===== *)
theory InitializationFlow
  imports TransferProjections
begin

text \<open>
  The initialization of a transfer from end to end: \<open>Initialize\<close> of \<open>TransferWorkflow\<close>, which reads the batch and builds
  the command, over the tables of \<open>TransferStore\<close>.
\<close>

definition store_repo :: "json_ops \<Rightarrow> int \<Rightarrow> store init_repo" where
  "store_repo jo now =
     \<lparr>ir_FindByID = FindByID, ir_Initialize = store_Initialize jo now,
      ir_MarkInitializationFailed = MarkInitializationFailed now\<rparr>"

lemma FindByID_lock: "FindByID k st = Inr t \<Longrightarrow> lockTransferByID k st = Inr t"
  by (simp add: FindByID_def lockTransferByID_def split: option.splits)

lemma FindByIDD:
  assumes "FindByID k st = Inr t"
  shows "t \<in> set (st_transfers st)" "tr_ID t = k"
  using lockTransferByIDD [OF FindByID_lock [OF assms]] by simp_all

section \<open>Marking a transfer as failed\<close>

lemma affected_one:
  assumes "distinct (map tr_ID ts)" and "t \<in> set ts" and "tr_ID t = k" and "q t"
  shows "affected (\<lambda>t. tr_ID t = k \<and> q t) ts = 1"
proof -
  have "set (filter (\<lambda>t. tr_ID t = k \<and> q t) ts) = {t}"
    using assms unique_transfer by auto
  moreover have "distinct (filter (\<lambda>t. tr_ID t = k \<and> q t) ts)" using assms(1) by (simp add: distinct_map)
  ultimately show ?thesis by (metis affected_def distinct_card card.empty card_insert_disjoint finite.emptyI empty_iff of_nat_1 One_nat_def)
qed

lemma MarkInitializationFailed_marks:
  assumes "MarkInitializationFailed now k code st = Inr st'" and inv: "store_inv st"
    and t: "FindByID k st = Inr t" "tr_Phase t = PhaseInitializing"
  shows "(\<exists>t' \<in> set (st_transfers st'). tr_ID t' = k \<and> tr_Phase t' = PhaseFinished \<and> tr_Outcome t' = OutcomeFailed \<and>
      tr_AttentionCode t' = code) \<and> st' = st\<lparr>st_transfers := st_transfers st'\<rparr>"
proof -
  note T = FindByIDD [OF t(1)] and D = store_inv_distinct [OF inv]
  let ?q = "running_in [PhaseInitializing]"
  let ?f = "\<lambda>t. touch_transfer now (t\<lparr>tr_Phase := PhaseFinished, tr_Outcome := OutcomeFailed,
    tr_AttentionCode := code, tr_FinishedAt := Some (pg_time now)\<rparr>)"
  let ?rows = "update_where (\<lambda>t. tr_ID t = k \<and> ?q t) ?f (st_transfers st)"
  have f: "tr_ID (?f u) = tr_ID u" "tr_Phase (?f u) = PhaseFinished" "tr_Outcome (?f u) = OutcomeFailed"
    "tr_AttentionCode (?f u) = code" for u by (simp_all add: touch_transfer_def)
  show ?thesis
  proof (cases "?q t")
    case True
    then have one: "affected (\<lambda>t. tr_ID t = k \<and> ?q t) (st_transfers st) = 1" using affected_one [OF D T] by simp
    obtain rows n where u: "pg_update transfer_checks (\<lambda>t. tr_ID t = k \<and> ?q t) ?f (st_transfers st) = Inr (rows, n)"
      using assms(1) by (auto simp: MarkInitializationFailed_def rbind_eq_Inr_iff split: if_splits)
    note U = pg_updateD [OF u]
    from U(1,2) u one assms(1) have st': "st' = st\<lparr>st_transfers := rows\<rparr>"
      by (auto simp: MarkInitializationFailed_def split: if_splits)
    have "?f t \<in> set rows" using T True by (force simp: U(1) update_where_def)
    then have "?f t \<in> set (st_transfers st')" by (simp add: st')
    then have "\<exists>t' \<in> set (st_transfers st'). tr_ID t' = k \<and> tr_Phase t' = PhaseFinished \<and> tr_Outcome t' = OutcomeFailed \<and>
      tr_AttentionCode t' = code" by (rule rev_bexI) (simp only: f T(2) simp_thms)
    moreover have "st' = st\<lparr>st_transfers := st_transfers st'\<rparr>" by (simp add: st')
    ultimately show ?thesis ..
  next
    case False
    have "\<not> (tr_ID u = k \<and> ?q u)" if "u \<in> set (st_transfers st)" for u
    proof
      assume u: "tr_ID u = k \<and> ?q u"
      then have "t = u" by (intro unique_transfer [OF D T(1) that]) (simp add: T(2))
      with False u show False by simp
    qed
    then have none: "affected (\<lambda>t. tr_ID t = k \<and> ?q t) (st_transfers st) = 0"
      by (simp add: affected_zero_filter filter_empty_conv)
    have same: "?rows = st_transfers st"
      using \<open>\<And>u. u \<in> set (st_transfers st) \<Longrightarrow> \<not> (tr_ID u = k \<and> ?q u)\<close> unfolding update_where_def by (intro map_idI) auto
    obtain rows n where u: "pg_update transfer_checks (\<lambda>t. tr_ID t = k \<and> ?q t) ?f (st_transfers st) = Inr (rows, n)"
      using assms(1) by (auto simp: MarkInitializationFailed_def rbind_eq_Inr_iff split: if_splits)
    from pg_updateD(1,2) [OF u] same none have r: "rows = st_transfers st" "n = 0" by simp_all
    have "find (\<lambda>t. tr_ID t = k) (st_transfers st) = Some t"
      using t(1) by (auto simp: FindByID_def scanTransfer_def split: option.splits if_splits)
    with assms(1) u r t(2) have False
      by (auto simp: MarkInitializationFailed_def phase_defs split: if_splits)
    then show ?thesis ..
  qed
qed

section \<open>Storing the command\<close>

definition stored_item :: "(card \<Rightarrow> string option) \<Rightarrow> source_group_row list \<Rightarrow> batch_item \<Rightarrow> source_item_row \<Rightarrow> bool" where
  "stored_item marshal groups item s \<longleftrightarrow>
     si_BatchItemID s = bi_ID item \<and> si_Position s = bi_Position item \<and> si_VendorCode s = bi_VendorCode item \<and>
     marshal (bi_Payload item) = Some (si_Payload s) \<and>
     (\<exists>g \<in> set groups. sg_ID g = si_SourceGroupID s \<and> sg_Key g = bi_SourceGroupKey item \<and>
        sg_FileID g = bi_SourceFileID item \<and> sg_Name g = card_Group (bi_Payload item))"

lemma stored_items:
  assumes "list_all2 (placed marshal groups) items outs" and "length groupIDs = length groups"
  shows "list_all2 (stored_item marshal (source_group_rows k groupIDs groups)) items (source_item_rows k groupIDs itemIDs outs)"
proof (rule list_all2_all_nthI)
  show "length items = length (source_item_rows k groupIDs itemIDs outs)"
    using list_all2_lengthD [OF assms(1)] by (simp add: source_item_rows_def)
  fix n assume n: "n < length items"
  let ?p = "nat (ii_GroupPosition (outs ! n))"
  let ?g = "source_group_rows k groupIDs groups ! ?p"
  have P: "placed marshal groups (items ! n) (outs ! n)" using list_all2_nthD [OF assms(1) n] .
  then have p: "?p < length groups" "groups ! ?p = group_of (items ! n)" by (simp_all add: placed_def)
  then have "?g \<in> set (source_group_rows k groupIDs groups)" by (intro nth_mem) (simp add: source_group_rows_def)
  moreover have "sg_ID ?g = groupIDs ! ?p" "sg_Key ?g = bi_SourceGroupKey (items ! n)"
    "sg_FileID ?g = bi_SourceFileID (items ! n)" "sg_Name ?g = card_Group (bi_Payload (items ! n))"
    using p by (simp_all add: source_group_rows_def group_of_def)
  moreover have "source_item_rows k groupIDs itemIDs outs ! n =
    \<lparr>si_ID = itemIDs ! n, si_TransferID = k, si_BatchItemID = ii_BatchItemID (outs ! n), si_Position = ii_Position (outs ! n),
     si_SourceFileID = ii_SourceFileID (outs ! n), si_SourceRows = map wrap32 (ii_SourceRows (outs ! n)),
     si_SourceGroupID = groupIDs ! ?p, si_VendorCode = ii_VendorCode (outs ! n), si_Payload = ii_Payload (outs ! n)\<rparr>"
    using n list_all2_lengthD [OF assms(1)] by (simp add: source_item_rows_def Let_def)
  ultimately show "stored_item marshal (source_group_rows k groupIDs groups) (items ! n) (source_item_rows k groupIDs itemIDs outs ! n)"
    using P unfolding stored_item_def placed_def by auto
qed

lemma store_Initialize_prepares:
  assumes "store_Initialize jo now c st = Inr st'" and "lockTransferByID (ic_TransferID c) st = Inr t"
    and "tr_Phase t = PhaseInitializing"
  shows "\<exists>t' \<in> set (st_transfers st'). tr_ID t' = tr_ID t \<and> tr_Phase t' = PhasePreparing"
  using assms(1)
proof (cases rule: store_Initialize_cases)
  case again
  with assms(2,3) show ?thesis by simp
next
  case (filled u targetIDs st1 groupIDs st2 itemIDs st3 ids groups items groupTargets itemTargets rows)
  with assms(2) have u: "u = t" by simp
  note U = pg_updateD(1,2) [OF filled(17) [unfolded u]]
  have "0 < affected (\<lambda>r. tr_ID r = tr_ID t \<and> running_in [PhaseInitializing] r) (st_transfers st)" using U(2) by simp
  then obtain r where r: "r \<in> set (st_transfers st)" "tr_ID r = tr_ID t" "running_in [PhaseInitializing] r"
    by (auto simp: affected_pos)
  let ?r = "touch_transfer now (r\<lparr>tr_Phase := PhasePreparing\<rparr>)"
  have "?r \<in> set rows" using r by (force simp: U(1) update_where_def)
  then have "?r \<in> set (st_transfers st')" by (simp add: filled(18))
  then show ?thesis by (rule rev_bexI) (simp add: touch_transfer_def r(2))
qed

section \<open>End to end\<close>

text \<open>The transfer is prepared, with the items of its own batch in the tables.\<close>

definition batch_stored ::
  "(card \<Rightarrow> string option) \<Rightarrow> (int \<Rightarrow> batch_header result) \<Rightarrow> (int \<Rightarrow> batch_item list result) \<Rightarrow> transfer \<Rightarrow> store \<Rightarrow> bool" where
  "batch_stored marshal getBatch reader t st \<longleftrightarrow>
     (\<exists>batch items. getBatch (tr_BatchID t) = Inr batch \<and> readAllBatchItems reader batch = Some (Inr items) \<and>
        BatchChecksum marshal (bh_Purpose batch) (tr_GroupsCount t) items = Inr (tr_BatchChecksum t) \<and>
        list_all2 (stored_item marshal (source_groups (tr_ID t) st)) items (source_items (tr_ID t) st)) \<and>
     (\<exists>t' \<in> set (st_transfers st). tr_ID t' = tr_ID t \<and> tr_Phase t' = PhasePreparing)"

lemma store_Initialize_batch:
  assumes "store_Initialize jo now c st = Inr st'" and "store_inv st" and t: "FindByID k st = Inr t" "tr_Phase t = PhaseInitializing"
    and built: "buildInitialization marshal (getBatch (tr_BatchID t)) reader t = Some (Inr c)"
  shows "batch_stored marshal getBatch reader t st'"
proof -
  obtain batch items where b: "getBatch (tr_BatchID t) = Inr batch" "bh_GroupsCount batch = tr_GroupsCount t"
      "bh_Checksum batch = tr_BatchChecksum t" "readAllBatchItems reader batch = Some (Inr items)"
      "BatchChecksum marshal (bh_Purpose batch) (bh_GroupsCount batch) items = Inr (bh_Checksum batch)"
    and i: "init_items marshal items [] (\<lambda>_. None) = Inr (ic_Groups c, ic_Items c)" and c: "ic_TransferID c = tr_ID t"
    using built by (rule buildInitialization_cases)
  have "groups_inv [] (\<lambda>_. None)" by (simp add: groups_inv_def)
  from init_items_sound [OF i this] have placed: "list_all2 (placed marshal (ic_Groups c)) items (ic_Items c)" by blast
  have lock: "lockTransferByID (ic_TransferID c) st = Inr t"
    using FindByID_lock [OF t(1)] FindByIDD(2) [OF t(1)] c by simp
  obtain groupIDs itemIDs targetIDs ids first where "length groupIDs = length (ic_Groups c)"
    "source_groups (tr_ID t) st' = source_group_rows (tr_ID t) groupIDs (ic_Groups c)"
    "source_items (tr_ID t) st' = source_item_rows (tr_ID t) groupIDs itemIDs (ic_Items c)"
    by (rule initialized_rows [OF assms(1,2) lock t(2)])
  with stored_items [OF placed] have
    "list_all2 (stored_item marshal (source_groups (tr_ID t) st')) items (source_items (tr_ID t) st')" by simp
  with b store_Initialize_prepares [OF assms(1) lock t(2)] show ?thesis unfolding batch_stored_def by metis
qed


end
