(* ===== verification/TransferSamples.thy ===== *)
theory TransferSamples
  imports ResultProjection InitializationFlow ProductSamples
begin

text \<open>
  Transfers run through the tables of \<open>TransferStore\<close>: one that is created, initialized and rejected by the
  preparation, and one whose plan is stopped. The guarantees of \<open>TransferProjections\<close> and \<open>ResultProjection\<close> are
  applied to them.
\<close>

section \<open>A transfer from its creation to its end\<close>

definition json_sample :: json_ops where
  "json_sample = \<lparr>jo_Valid = (\<lambda>_. True), jo_MarshalRaw = Some, jo_Object = (\<lambda>_. True), jo_Same = (\<lambda>a b. a = b)\<rparr>"

definition create_sample :: create_transfer where
  "create_sample =
     \<lparr>ct_Batch = \<lparr>bh_ID = 9, bh_SourceSessionID = 1, bh_Purpose = PurposeTransfer, bh_ItemsCount = 1, bh_GroupsCount = 1,
        bh_SchemaVersion = 1, bh_NormalizationVersion = 1, bh_Checksum = root_digest,
        bh_AuthorSnapshot = \<lparr>as_UserID = Some 1, as_TelegramUserID = 1, as_DisplayName = ''a''\<rparr>, bh_FinalizedAt = 1\<rparr>,
      ct_Snapshot = \<lparr>ts_CohortName = ''c'', ts_Revision = root_digest,
        ts_Targets = [\<lparr>mt_Position = 1, mt_SellerID = seller_a, mt_ClientGeneration = root_digest, mt_BindingRevision = 1,
          mt_CapabilityRevision = 1, mt_ContentRead = True, mt_ContentWrite = True, mt_CredentialExpiresAt = 9000000\<rparr>]\<rparr>,
      ct_TargetSetRoot = root_digest,
      ct_Capacity = \<lparr>cap_Items = 1, cap_Groups = 1, cap_Targets = 1, cap_ItemTargets = 1, cap_GroupTargets = 1\<rparr>\<rparr>"

definition init_sample :: init_command where
  "init_sample =
     \<lparr>ic_TransferID = 1, ic_BatchID = 9, ic_BatchChecksum = root_digest, ic_ItemsCount = 1, ic_GroupsCount = 1,
      ic_Groups = [\<lparr>ig_SourceGroupKey = root_digest, ig_SourceFileID = 3, ig_SourceGroupName = ''g''\<rparr>],
      ic_Items = [\<lparr>ii_BatchItemID = 4, ii_Position = 1, ii_SourceFileID = 3, ii_SourceRows = [2], ii_GroupPosition = 0,
        ii_VendorCode = ''V'', ii_Payload = ''p''\<rparr>]\<rparr>"

definition rejected_sample :: prep_result where
  "rejected_sample =
     \<lparr>pz_TransferID = 1, pz_GroupTargetID = 5, pz_Status = ''rejected'', pz_OutcomeCode = ''no'', pz_ItemPosition = 1,
      pz_Field = ''f'', pz_StartedAt = 4000, pz_FinishedAt = 5000, pz_ProposalRoot = zero_digest, pz_Artifact = None,
      pz_Revision = 1\<rparr>"

definition sample_ops :: "(int \<times> store_op) list" where
  "sample_ops =
     [(1000, OpCreate create_sample), (2000, OpInitialize init_sample), (3000, OpBeginPreparation 1),
      (6000, OpPrepared rejected_sample)]"

definition store_after :: "nat \<Rightarrow> store" where
  "store_after n = run_ops json_sample (take n sample_ops) empty_store"

lemma store_after_inv: "store_inv (store_after n)"
  by (simp add: store_after_def run_ops_inv [OF empty_store_inv])

lemma sample_steps:
  "store_Initialize json_sample 2000 init_sample (store_after 1) = Inr (store_after 2)"
  "ApplyPreparationResult json_sample 6000 rejected_sample (store_after 3) = Inr (store_after 4)"
  by code_simp+

lemma sample_end:
  "map (\<lambda>t. (tr_ID t, tr_Phase t, tr_Outcome t)) (st_transfers (store_after 4)) = [(1, PhaseFinished, OutcomeRejected)]"
  "map tr_Phase (st_transfers (store_after 1)) = [PhaseInitializing]"
  "lockTransferByID 1 (store_after 1) = Inr (hd (st_transfers (store_after 1)))"
  by code_simp+

text \<open>The finished transfer is rejected, has its one group-target, and asks for nobody's attention.\<close>

theorem finished_transfer_outcome_witness:
  "tr_Outcome (hd (st_transfers (store_after 4))) \<noteq> OutcomeSucceeded \<and>
   int (length (transfer_groups 1 (store_after 4))) = tr_GroupTargetsCount (hd (st_transfers (store_after 4)))"
proof -
  obtain t where t: "st_transfers (store_after 4) = [t]" "tr_ID t = 1" "tr_Phase t = PhaseFinished" "tr_Outcome t = OutcomeRejected"
    using sample_end(1) by auto
  have "tr_Outcome t \<noteq> OutcomeFailed" "tr_Outcome t \<noteq> OutcomeSucceeded"
    unfolding t(4) by (simp_all add: OutcomeRejected_def OutcomeFailed_def OutcomeSucceeded_def)
  with finished_transfer_outcome [of t json_sample "take 4 sample_ops"] t show ?thesis
    by (simp add: store_after_def)
qed

theorem Initialize_matrix_witness:
  "map (\<lambda>s. (si_BatchItemID s, si_Position s, si_SourceFileID s, si_VendorCode s, si_Payload s)) (source_items 1 (store_after 2)) =
     [(4, 1, 3, ''V'', ''p'')]"
proof -
  have "tr_Phase (hd (st_transfers (store_after 1))) = PhaseInitializing" "tr_ID (hd (st_transfers (store_after 1))) = 1"
    by code_simp+
  with Initialize_matrix [OF sample_steps(1) store_after_inv, of "hd (st_transfers (store_after 1))"] sample_end(3)
  show ?thesis by (simp add: init_sample_def)
qed

theorem ApplyPreparationResult_idempotent_witness:
  "ApplyPreparationResult json_sample 7000 rejected_sample (store_after 4) = Inr (store_after 4)"
  by (rule ApplyPreparationResult_idempotent [OF sample_steps(2)]) (simp add: json_sample_def)

text \<open>The batch of the transfer is gone: the transfer fails.\<close>

definition batch_gone :: "(store \<times> goerr option) option" where
  "batch_gone =
     Initialize (\<lambda>_. Some ''p'') (store_repo json_sample 2000) (\<lambda>_. Inl (GoErr ErrNotFound [])) (\<lambda>_. Inr []) 1 (store_after 1)"


section \<open>A transfer whose plan is executed\<close>

text \<open>Group 2 waits for its product action 3, group 20 for action 14; group 7 is accepted and waits for its media.\<close>

definition group_running :: "int \<Rightarrow> string \<Rightarrow> string \<Rightarrow> group_row" where
  "group_running i publication media =
     (new_group_target 1000 i 5 i 4)
       \<lparr>gt_PreparationStatus := ''succeeded'', gt_ResultRevision := 1, gt_ResultCode := ''prepared'',
        gt_ProposalRoot := Some root_digest, gt_PreparationStartedAt := Some 1000, gt_PreparationFinishedAt := Some 1000,
        gt_PublicationStatus := publication, gt_MediaStatus := media, gt_PlanID := 6, gt_StartedAt := Some 1000\<rparr>"

definition item_running :: "int \<Rightarrow> int \<Rightarrow> int \<Rightarrow> item_row" where
  "item_running i groupID actionID =
     (new_item_target 1000 i 5 groupID i groupID)
       \<lparr>itp_State := ItemTargetRunning, itp_SourceActionID := actionID, itp_StartedAt := Some 1000\<rparr>"

definition running_store :: store where
  "running_store =
     \<lparr>st_transfers = [(new_transfer 1000 5 create_sample)
        \<lparr>tr_Phase := PhaseReconciling, tr_ItemsCount := 3, tr_GroupsCount := 3, tr_ItemTargetsCount := 3, tr_GroupTargetsCount := 3\<rparr>],
      st_targets = target_rows 1000 4 5 (ts_Targets (ct_Snapshot create_sample)), st_groups = [], st_items = [],
      st_group_targets = [group_running 2 ''running'' ''not_started'', group_running 7 ''succeeded'' ''running'',
        group_running 20 ''running'' ''not_started''],
      st_item_targets = [item_running 1 2 3,
        (item_running 9 7 1)\<lparr>itp_State := ItemTargetTerminal, itp_OutcomeClass := ResultSuccess, itp_OutcomeCode := ''ok'',
           itp_NMID := 70, itp_FinishedAt := Some 1000\<rparr>,
        item_running 21 20 14],
      st_artifacts = [], st_next = 30\<rparr>"

lemma running_store_inv: "store_inv running_store"
  by code_simp

definition result_sample :: apply_result where
  "result_sample =
     \<lparr>ap_TransferID = 5, ap_ActionID = 3,
      ap_Items = [\<lparr>ti_GroupTargetID = 2, ti_TransferItemTargetID = 1, ti_OutcomeClass = ResultSuccess,
        ti_OutcomeCode = ''ok'', ti_NMID = 77\<rparr>],
      ap_SkipMediaForGroups = [2]\<rparr>"

definition value_of :: "store result \<Rightarrow> store" where
  "value_of r = (case r of Inl _ \<Rightarrow> empty_store | Inr st \<Rightarrow> st)"

lemma result_applied:
  "ApplyPublicationActionResult 2000 result_sample running_store =
     Inr (value_of (ApplyPublicationActionResult 2000 result_sample running_store))"
  by code_simp

theorem ApplyPublicationActionResult_exact_witness:
  "(\<exists>i. i \<in> set (st_item_targets (value_of (ApplyPublicationActionResult 2000 result_sample running_store))) \<and>
      itp_ID i = 1 \<and> itp_State i = ItemTargetTerminal \<and> itp_NMID i = 77) \<and>
   group_running 7 ''succeeded'' ''running'' \<in>
      set (st_group_targets (value_of (ApplyPublicationActionResult 2000 result_sample running_store)))"
proof -
  have "group_running 7 ''succeeded'' ''running'' \<in> set (st_group_targets running_store)"
    by (simp add: running_store_def)
  moreover have "gt_ID (group_running 7 ''succeeded'' ''running'') = 7"
    by (simp add: group_running_def new_group_target_def)
  ultimately show ?thesis
    using ApplyPublicationActionResult_exact [OF result_applied running_store_inv]
    by (auto simp: result_sample_def affected_groups_def)
qed

section \<open>A plan that is stopped\<close>

definition sample_action_row :: "int \<Rightarrow> string \<Rightarrow> string \<Rightarrow> string \<Rightarrow> string \<Rightarrow> action_rec" where
  "sample_action_row i kind state cls code =
     \<lparr>ar_ID = i, ar_TransferID = 5, ar_PlanID = 6, ar_TargetID = 4, ar_Revision = 0, ar_Kind = kind, ar_State = state,
      ar_OutcomeClass = cls, ar_OutcomeCode = code, ar_RequestDigest = root_digest, ar_RequestPayload = ''x'',
      ar_MemberSetDigest = root_digest, ar_AuthorizationID = None, ar_CreatedAt = 1000, ar_UpdatedAt = 1000\<rparr>"

definition member_of_plan :: "int \<Rightarrow> int \<Rightarrow> int \<Rightarrow> int \<Rightarrow> string \<Rightarrow> member_rec" where
  "member_of_plan i actionID groupID itemID cls =
     \<lparr>mw_ID = i, mw_TransferID = 5, mw_ActionID = actionID, mw_GroupTargetID = groupID, mw_TransferItemTargetID = itemID,
      mw_RequestMemberIndex = 0, mw_VendorCode = ''V'', mw_OutcomeClass = cls, mw_OutcomeCode = cls, mw_NMID = 0\<rparr>"

definition plan_journal :: journal where
  "plan_journal =
     \<lparr>jn_plans = [\<lparr>pl_ID = 6, pl_TransferID = 5, pl_Digest = root_digest, pl_TargetSetRoot = root_digest, pl_Revision = 1,
        pl_State = ''executing'', pl_OutcomeClass = [], pl_OutcomeCode = []\<rparr>],
      jn_actions = [sample_action_row 1 ActionCreateGroup ''terminal'' ResultSuccess ''ok'', sample_action_row 3 ActionCreateGroup ''planned'' [] [],
        sample_action_row 12 ActionUploadMedia ''planned'' [] [], sample_action_row 14 ActionCreateGroup ''reconciling'' [] []],
      jn_members = [member_of_plan 101 1 7 9 ResultSuccess, member_of_plan 102 3 2 1 [], member_of_plan 103 12 7 9 [],
        member_of_plan 104 14 20 21 []],
      jn_identities = [], jn_attempts = [], jn_retries = [], jn_observations = [], jn_attributions = [], jn_correlations = [],
      jn_batches = [], jn_cursors = [], jn_targets = [], jn_next = 200\<rparr>"

definition stopping :: product_action where
  "stopping =
     \<lparr>pc_TransferID = 5, pc_ActionID = 3, pc_TargetID = 4, pc_SellerID = seller_a, pc_AuthorizationID = 1,
      pc_AuthorizationRevision = 1, pc_PlanDigest = root_digest, pc_TargetSetRoot = root_digest, pc_CatalogVendorCodes = [],
      pa_PlanID = 6, pa_Revision = 0, pa_Kind = ActionCreateGroup, pa_State = ''planned'', pa_RequestDigest = root_digest,
      pa_RequestPayload = ''x'', pa_MemberSetDigest = root_digest, pa_SellerID = seller_a,
      pa_ClientGeneration = root_digest, pa_CredentialExpiresAt = 9000000, pa_PreflightObservationID = 1,
      pa_Members = [], pa_AttemptID = 0, pa_RecheckObservationID = 0, pa_AttemptStartedAt = 0,
      pa_AttemptFinishedAt = 0, pa_AttemptDelivery = [], pa_AttemptHTTPStatus = 0, pa_AttemptSafeCode = [],
      pa_EmptyResponseRetry = no_retry\<rparr>"

definition aborted_sample :: aborted_action where
  "aborted_sample = \<lparr>ab_ActionID = 3, ab_Members = [\<lparr>mb_ID = 102, mb_GroupTargetID = 2, mb_TransferItemTargetID = 1,
     mb_RequestMemberIndex = 0, mb_VendorCode = ''V'', mb_OutcomeClass = [], mb_OutcomeCode = [], mb_NMID = 0\<rparr>]\<rparr>"

definition stopped_journal :: journal where
  "stopped_journal =
     (case AbortPlanAfterDispatch 2000 stopping ''PLAN_CHANGED_AFTER_DISPATCH_STARTED'' plan_journal of
        Inl _ \<Rightarrow> plan_journal | Inr (j, _) \<Rightarrow> j)"

lemma stopping_fields: "pc_TransferID stopping = 5" "pa_PlanID stopping = 6" "pa_State stopping = ''planned''"
  by (simp_all add: stopping_def)

lemma plan_aborted:
  "aborted_actions stopping plan_journal = [aborted_sample]"
  "AbortPlanAfterDispatch 2000 stopping ''PLAN_CHANGED_AFTER_DISPATCH_STARTED'' plan_journal = Inr (stopped_journal, [aborted_sample])"
  "PublicationPlanTerminal stopped_journal 5 6 = Inr False"
  by code_simp+

definition stop_command :: apply_result where
  "stop_command = aborted_result stopping aborted_sample"

definition stopped_store :: store where
  "stopped_store =
     value_of (rbind (finishPublicationActionItems 2000 stop_command running_store) (\<lambda>st.
       rbind (skipPublicationActionMedia 2000 stop_command st) (\<lambda>st.
       rbind (finishPublicationActionGroups 2000 5 [2] st) (advanceOrFinishPublicationTransfer 2000 5 PhaseReconciling))))"

lemma stop_applied: "ApplyPublicationActionResult 2000 stop_command running_store = Inr stopped_store"
proof -
  have "code_ok ''PLAN_CHANGED_AFTER_DISPATCH_STARTED''"
    by (simp add: code_ok_def trim_space_printable printable_def)
  then have "ApplyPublicationActionResultCommand_Validate stop_command = None"
    by (simp add: ApplyPublicationActionResultCommand_Validate_def stop_command_def aborted_result_def aborted_sample_def
        stopping_fields ResultClass_IsValid_def)
  moreover have "ap_TransferID stop_command = 5" "affected_groups stop_command = [2]" by code_simp+
  moreover have "rbind (finishPublicationActionItems 2000 stop_command running_store) (\<lambda>st.
       rbind (skipPublicationActionMedia 2000 stop_command st) (\<lambda>st.
       rbind (finishPublicationActionGroups 2000 5 [2] st) (advanceOrFinishPublicationTransfer 2000 5 PhaseReconciling))) =
     Inr stopped_store" by code_simp
  ultimately show ?thesis by (simp add: ApplyPublicationActionResult_def)
qed

definition store_dispatcher :: "store dispatcher" where
  "store_dispatcher = \<lparr>dp_codec = product_codec, dp_authorization = live_svc, dp_results = store_ops 2000,
     dp_reconciliationTimeout = 1000000\<rparr>"

definition plan_db :: "journal \<Rightarrow> store \<Rightarrow> store exec_db" where
  "plan_db j st = \<lparr>xd_journal = j, xd_live = authorized_db, xd_transfer = st\<rparr>"

lemma plan_stopped:
  "stop_plan store_dispatcher (env_at 2000) stopping (plan_db plan_journal running_store) =
     Inr (plan_db stopped_journal stopped_store, PlanStopped)"
proof -
  have valid: "ApplyPublicationActionResultCommand_Validate stop_command = None"
    using stop_applied by (simp add: ApplyPublicationActionResult_def split: option.splits)
  show ?thesis
    using stop_applied valid
    by (simp add: stop_plan_def plan_aborted stopping_fields env_at_def plan_db_def apply_results_def store_dispatcher_def
        store_ops_def applier_ApplyWithin_def set_journal_def set_transfer_def closeAuthorizationIfPlanTerminal_def
        flip: stop_command_def)
qed

theorem stop_plan_strands_media_witness:
  "group_running 7 ''succeeded'' ''running'' \<in> set (st_group_targets stopped_store) \<and>
   transfer_active active_phases 5 stopped_store \<and> map ar_State (jn_actions stopped_journal) \<noteq> map ar_State (jn_actions plan_journal)"
proof -
  let ?g = "group_running 7 ''succeeded'' ''running''"
  have g: "?g \<in> set (st_group_targets running_store)" by (simp add: running_store_def)
  have f: "gt_ID ?g = 7" "gt_TransferID ?g = 5" "gt_Overall ?g = ''running''"
    by (simp_all add: group_running_def new_group_target_def)
  have m: "\<forall>b \<in> set [aborted_sample]. \<forall>m \<in> set (ab_Members b). mb_GroupTargetID m \<noteq> gt_ID ?g"
    by (simp add: aborted_sample_def f)
  have p: "ar_State (jn_actions plan_journal ! 2) = ''planned''" "plan_action 5 6 (jn_actions stopped_journal ! 2)"
    "jn_actions stopped_journal ! 2 \<in> set (jn_actions stopped_journal)" "length (jn_actions plan_journal) = 4" "length (jn_actions stopped_journal) = 4"
    by code_simp+
  have S: "?g \<in> set (st_group_targets stopped_store) \<and> transfer_active active_phases 5 stopped_store \<and>
    (\<forall>w \<in> set (jn_actions stopped_journal). plan_action 5 6 w \<longrightarrow> ar_State w \<noteq> ''planned'')"
    using stop_plan_strands_media [OF _ _ plan_stopped, of 2000 ?g] running_store_inv g f m plan_aborted(1) stopping_fields
    by (simp add: plan_db_def store_dispatcher_def)
  have "map ar_State (jn_actions stopped_journal) ! 2 \<noteq> map ar_State (jn_actions plan_journal) ! 2"
    using S p by auto
  with S show ?thesis by metis
qed

end
