(* ===== verification/CardPrepare.thy ===== *)
theory CardPrepare
  imports PublicationPlan
begin

text \<open>
  The preparation of cards (\<open>internal/feature/cardprepare/service/preparation\<close>: \<open>planner.go\<close>, \<open>upload_validation.go\<close>;
  \<open>service/model\<close>): a group of imported cards and a snapshot of the marketplace's catalogue give an upload request in
  the marketplace's terms, or an outcome that says which item and field stand against it.

  Parameters (\<open>prepare_lib\<close>): \<open>strings.ToLower\<close>, \<open>strconv.ParseFloat\<close> and \<open>encoding/json\<close>. Cards are read from the
  database, so a characteristic value is what \<open>encoding/json\<close> decodes: the cases of the type switches for \<open>[]string\<close>,
  \<open>float32\<close>, \<open>int\<close>, \<open>int64\<close> and \<open>json.Number\<close> do not occur, and a slice is \<open>[]any\<close>. \<open>OutcomeDetails\<close>, which only the log
  reads, is left out.
\<close>

section \<open>Data\<close>

record api_subject =
  su_SubjectID :: int
  su_ParentID :: int
  su_SubjectName :: string
  su_ParentName :: string

record api_characteristic =
  ch_ID :: int
  ch_SubjectName :: string
  ch_SubjectID :: int
  ch_Name :: string
  ch_Required :: bool
  ch_HasFilter :: bool
  ch_UnitName :: string
  ch_MaxCount :: int
  ch_Popular :: bool
  ch_Type :: int

record api_brand =
  br_ID :: int
  br_LogoURL :: string
  br_Name :: string

record directory_snapshot =
  dr_Colors :: "string list"
  dr_Kinds :: "string list"
  dr_Countries :: "string list"
  dr_Seasons :: "string list"
  dr_VAT :: "string list"
  dr_TNVED :: "string list"

record cards_limits =
  lim_FreeLimits :: int
  lim_PaidLimits :: int

record catalog_snapshot =
  cs_Subjects :: "api_subject list"
  cs_Characteristics :: "api_characteristic list"
  cs_Brands :: "api_brand list"
  cs_Directories :: directory_snapshot
  cs_Limits :: cards_limits
  cs_ObservedAt :: int

record source_item =
  so_Position :: int
  so_Card :: card

record upload_size =
  usz_TechSize :: string
  usz_WBSize :: string
  usz_Price :: "int option"
  usz_SKUs :: "string list"

record upload_variant =
  uv_VendorCode :: string
  uv_KIZMarked :: bool
  uv_Title :: string
  uv_Description :: string
  uv_Brand :: string
  uv_Dimensions :: dimensions
  uv_Characteristics :: "content_characteristic list"
  uv_Sizes :: "upload_size list"

record upload_request =
  uq_SubjectID :: int
  uq_Variants :: "upload_variant list"

record card_proposal =
  cpp_SubjectID :: int
  cpp_Request :: "upload_request list"
  cpp_EncodedRequest :: string
  cpp_MetadataSnapshot :: catalog_snapshot
  cpp_SemanticDigest :: digest
  cpp_MetadataDigest :: digest
  cpp_ProposalRoot :: digest
  cpp_Limits :: cards_limits
  cpp_LimitsObservedAt :: int

record prepare_outcome =
  oc_Code :: string
  oc_ItemPosition :: int
  oc_Field :: string

record prepared_group =
  re_Outcome :: prepare_outcome
  re_Proposal :: "card_proposal option"

record prepare_lib =
  lb_toLower :: "string \<Rightarrow> string"
  lb_parseFloat :: "string \<Rightarrow> gofloat option"
  lb_value :: "json_value \<Rightarrow> string option"
  lb_request :: "upload_request list \<Rightarrow> string option"
  lb_group :: "source_item list \<Rightarrow> string option"
  lb_snapshot :: "catalog_snapshot \<Rightarrow> string option"

definition OutcomePrepared :: string where "OutcomePrepared = ''prepared''"
definition OutcomeSubjectNotFound :: string where "OutcomeSubjectNotFound = ''subject_not_found''"
definition OutcomeSubjectAmbiguous :: string where "OutcomeSubjectAmbiguous = ''subject_ambiguous''"
definition OutcomeCharacteristicMissing :: string where "OutcomeCharacteristicMissing = ''characteristic_missing''"
definition OutcomeCharacteristicInvalid :: string where "OutcomeCharacteristicInvalid = ''characteristic_invalid''"
definition OutcomeBrandNotFound :: string where "OutcomeBrandNotFound = ''brand_not_found''"
definition OutcomeDirectoryValueInvalid :: string where "OutcomeDirectoryValueInvalid = ''directory_value_invalid''"
definition OutcomeCardLimitExceeded :: string where "OutcomeCardLimitExceeded = ''card_limit_exceeded''"
definition OutcomePayloadTooLarge :: string where "OutcomePayloadTooLarge = ''payload_too_large''"
definition OutcomeTargetTemporarilyUnavailable :: string where "OutcomeTargetTemporarilyUnavailable = ''target_temporarily_unavailable''"
definition OutcomeCatalogContractError :: string where "OutcomeCatalogContractError = ''catalog_contract_error''"

lemmas prepare_outcomes = OutcomePrepared_def OutcomeSubjectNotFound_def OutcomeSubjectAmbiguous_def OutcomeCharacteristicMissing_def OutcomeCharacteristicInvalid_def OutcomeBrandNotFound_def OutcomeDirectoryValueInvalid_def OutcomeCardLimitExceeded_def OutcomePayloadTooLarge_def OutcomeTargetTemporarilyUnavailable_def OutcomeCatalogContractError_def

text \<open>\<open>outcome\<close>: the result without a proposal. A step either ends the preparation with one or goes on with a value.\<close>

definition outcome :: "string \<Rightarrow> int \<Rightarrow> string \<Rightarrow> prepare_outcome" where
  "outcome code position field = \<lparr>oc_Code = code, oc_ItemPosition = position, oc_Field = field\<rparr>"

definition sbind :: "'e + 'a \<Rightarrow> ('a \<Rightarrow> 'e + 'b) \<Rightarrow> 'e + 'b" where
  "sbind r f = (case r of Inl e \<Rightarrow> Inl e | Inr x \<Rightarrow> f x)"

lemma sbind_simps [simp]: "sbind (Inl e) f = Inl e" "sbind (Inr x) f = f x"
  by (simp_all add: sbind_def)

lemma sbind_Inr: "sbind r f = Inr y \<longleftrightarrow> (\<exists>x. r = Inr x \<and> f x = Inr y)"
  by (cases r) auto

definition invalid :: "int \<Rightarrow> string \<Rightarrow> prepare_outcome + 'a" where
  "invalid position field = Inl (outcome OutcomeCharacteristicInvalid position field)"

definition contract_error :: "int \<Rightarrow> string \<Rightarrow> prepare_outcome + 'a" where
  "contract_error position field = Inl (outcome OutcomeCatalogContractError position field)"

section \<open>Keys\<close>

definition join_strings :: "string \<Rightarrow> string list \<Rightarrow> string" where
  "join_strings sep ws = (case ws of [] \<Rightarrow> [] | w # ws \<Rightarrow> w @ concat (map (\<lambda>v. sep @ v) ws))"

text \<open>\<open>strings.FieldsFunc(s, unicode.IsSpace)\<close>; \<open>w\<close> is the field read so far.\<close>

function fields_from :: "string \<Rightarrow> string \<Rightarrow> string list" where
  "fields_from w s =
     (if s = [] then (if w = [] then [] else [w])
      else let n = rune_size s; r = take n s
           in if r \<in> set space_encodings then (if w = [] then fields_from [] (drop n s) else w # fields_from [] (drop n s))
              else fields_from (w @ r) (drop n s))"
  by pat_completeness auto
termination
  by (relation "measure (length \<circ> snd)") auto

declare fields_from.simps [simp del]

definition normalizeKey :: "prepare_lib \<Rightarrow> string \<Rightarrow> string" where
  "normalizeKey L value = join_strings '' '' (fields_from [] (lb_toLower L (trim_space value)))"

definition utf8 :: "int list \<Rightarrow> string" where
  "utf8 bs = map char_of bs"

text \<open>The words of the marketplace, in UTF-8: rate of VAT, colour, colour of the goods, gender, country of production,
  season, three names of the customs code, and no and yes.\<close>

definition key_vat :: string where
  "key_vat = utf8 [0xD1, 0x81, 0xD1, 0x82, 0xD0, 0xB0, 0xD0, 0xB2, 0xD0, 0xBA, 0xD0, 0xB0, 0x20, 0xD0, 0xBD,
     0xD0, 0xB4, 0xD1, 0x81]"

definition key_color :: string where
  "key_color = utf8 [0xD1, 0x86, 0xD0, 0xB2, 0xD0, 0xB5, 0xD1, 0x82]"

definition key_color_goods :: string where
  "key_color_goods = utf8 [0xD1, 0x86, 0xD0, 0xB2, 0xD0, 0xB5, 0xD1, 0x82, 0x20, 0xD1, 0x82, 0xD0, 0xBE, 0xD0, 0xB2,
     0xD0, 0xB0, 0xD1, 0x80, 0xD0, 0xB0]"

definition key_kind :: string where
  "key_kind = utf8 [0xD0, 0xBF, 0xD0, 0xBE, 0xD0, 0xBB]"

definition key_country :: string where
  "key_country = utf8 [0xD1, 0x81, 0xD1, 0x82, 0xD1, 0x80, 0xD0, 0xB0, 0xD0, 0xBD, 0xD0, 0xB0, 0x20, 0xD0, 0xBF,
     0xD1, 0x80, 0xD0, 0xBE, 0xD0, 0xB8, 0xD0, 0xB7, 0xD0, 0xB2, 0xD0, 0xBE, 0xD0, 0xB4, 0xD1, 0x81, 0xD1, 0x82, 0xD0, 0xB2, 0xD0, 0xB0]"

definition key_season :: string where
  "key_season = utf8 [0xD1, 0x81, 0xD0, 0xB5, 0xD0, 0xB7, 0xD0, 0xBE, 0xD0, 0xBD]"

definition key_tnved :: string where
  "key_tnved = utf8 [0xD1, 0x82, 0xD0, 0xBD, 0x20, 0xD0, 0xB2, 0xD1, 0x8D, 0xD0, 0xB4]"

definition key_tnved_joined :: string where
  "key_tnved_joined = utf8 [0xD1, 0x82, 0xD0, 0xBD, 0xD0, 0xB2, 0xD1, 0x8D, 0xD0, 0xB4]"

definition key_tnved_code :: string where
  "key_tnved_code = utf8 [0xD0, 0xBA, 0xD0, 0xBE, 0xD0, 0xB4, 0x20, 0xD1, 0x82, 0xD0, 0xBD, 0x20, 0xD0, 0xB2, 0xD1,
     0x8D, 0xD0, 0xB4]"

definition word_no :: string where
  "word_no = utf8 [0xD0, 0xBD, 0xD0, 0xB5, 0xD1, 0x82]"

definition word_yes :: string where
  "word_yes = utf8 [0xD0, 0xB4, 0xD0, 0xB0]"

section \<open>Normal forms\<close>

definition emptyCharacteristicValue :: "json_value \<Rightarrow> bool" where
  "emptyCharacteristicValue v =
     (case v of JNull \<Rightarrow> True | JStr s \<Rightarrow> trim_space s = [] | JArr vs \<Rightarrow> vs = [] | _ \<Rightarrow> False)"

definition normalizeCharacteristicInput :: "json_value \<Rightarrow> json_value" where
  "normalizeCharacteristicInput v = (case v of JStr s \<Rightarrow> JStr (trim_space s) | _ \<Rightarrow> v)"

definition size_key :: "card_size \<Rightarrow> string" where
  "size_key s = size_TechSize s @ [CHR 0x00] @ size_WBSize s @ [CHR 0x00] @ format_int (size_Price s) @ [CHR 0x00] @
     join_strings [CHR 0x00] (size_SKUs s)"

definition normalize_size :: "card_size \<Rightarrow> card_size" where
  "normalize_size s =
     s\<lparr>size_TechSize := trim_space (size_TechSize s), size_WBSize := trim_space (size_WBSize s),
       size_SKUs := sort_by bytes_less (map trim_space (size_SKUs s))\<rparr>"

text \<open>The error of \<open>json.Marshal\<close> is dropped; the value then counts as the empty string.\<close>

definition characteristic_key :: "prepare_lib \<Rightarrow> raw_characteristic \<Rightarrow> string" where
  "characteristic_key L r = format_int (rc_ID r) @ [CHR 0x00] @ normalizeKey L (rc_Name r) @ [CHR 0x00] @
     (case lb_value L (rc_Value r) of None \<Rightarrow> [] | Some s \<Rightarrow> s)"

definition normalize_characteristic :: "raw_characteristic \<Rightarrow> raw_characteristic" where
  "normalize_characteristic r =
     r\<lparr>rc_Name := trim_space (rc_Name r), rc_Value := normalizeCharacteristicInput (rc_Value r)\<rparr>"

definition normalize_variant :: "prepare_lib \<Rightarrow> variant \<Rightarrow> variant" where
  "normalize_variant L v =
     v\<lparr>var_VendorCode := trim_space (var_VendorCode v), var_Title := trim_space (var_Title v),
       var_Description := trim_space (var_Description v), var_Brand := trim_space (var_Brand v),
       var_Sizes := sort_by (\<lambda>a b. bytes_less (size_key a) (size_key b)) (map normalize_size (var_Sizes v)),
       var_Characteristics := sort_by (\<lambda>a b. bytes_less (characteristic_key L a) (characteristic_key L b))
                                (map normalize_characteristic (var_Characteristics v))\<rparr>"

definition cloneAndNormalizeCard :: "prepare_lib \<Rightarrow> card \<Rightarrow> card" where
  "cloneAndNormalizeCard L c =
     c\<lparr>card_Group := trim_space (card_Group c), card_Category := trim_space (card_Category c),
       card_KIZRequirement := trim_space (card_KIZRequirement c), card_AdultOnly := trim_space (card_AdultOnly c),
       card_MarkingConfirmed := trim_space (card_MarkingConfirmed c), card_VATRate := trim_space (card_VATRate c),
       card_Variant := normalize_variant L (card_Variant c)\<rparr>"

definition normalize_item :: "prepare_lib \<Rightarrow> source_item \<Rightarrow> source_item" where
  "normalize_item L i = \<lparr>so_Position = so_Position i, so_Card = cloneAndNormalizeCard L (so_Card i)\<rparr>"

definition normalizeSourceGroup :: "prepare_lib \<Rightarrow> source_item list \<Rightarrow> source_item list result" where
  "normalizeSourceGroup L items =
     (if items = [] then Inl (plain_error ''cardprepare source group is empty'')
      else if list_ex (\<lambda>i. so_Position i \<le> 0) items
      then Inl (plain_error ''cardprepare source item position must be positive'')
      else
        (let sorted = sort_by (\<lambda>a b. so_Position a < so_Position b) (map (normalize_item L) items) in
         if list_ex (\<lambda>(a, b). so_Position a = so_Position b) (zip sorted (tl sorted))
         then Inl (plain_error ''cardprepare source item position is duplicated'') else Inr sorted))"

definition cloneAndSortStrings :: "string list \<Rightarrow> string list" where
  "cloneAndSortStrings vs = sort_by bytes_less (map trim_space vs)"

definition normalizeDirectories :: "directory_snapshot \<Rightarrow> directory_snapshot" where
  "normalizeDirectories d =
     \<lparr>dr_Colors = cloneAndSortStrings (dr_Colors d), dr_Kinds = cloneAndSortStrings (dr_Kinds d),
      dr_Countries = cloneAndSortStrings (dr_Countries d), dr_Seasons = cloneAndSortStrings (dr_Seasons d),
      dr_VAT = cloneAndSortStrings (dr_VAT d), dr_TNVED = cloneAndSortStrings (dr_TNVED d)\<rparr>"

definition subject_less :: "api_subject \<Rightarrow> api_subject \<Rightarrow> bool" where
  "subject_less a b =
     (if su_SubjectID a \<noteq> su_SubjectID b then su_SubjectID a < su_SubjectID b
      else bytes_less (su_SubjectName a) (su_SubjectName b))"

definition characteristic_less :: "api_characteristic \<Rightarrow> api_characteristic \<Rightarrow> bool" where
  "characteristic_less a b =
     (if ch_SubjectID a \<noteq> ch_SubjectID b then ch_SubjectID a < ch_SubjectID b
      else if ch_ID a \<noteq> ch_ID b then ch_ID a < ch_ID b else bytes_less (ch_Name a) (ch_Name b))"

definition brand_less :: "api_brand \<Rightarrow> api_brand \<Rightarrow> bool" where
  "brand_less a b = (if br_ID a \<noteq> br_ID b then br_ID a < br_ID b else bytes_less (br_Name a) (br_Name b))"

definition normalizeCatalogSnapshot :: "catalog_snapshot \<Rightarrow> catalog_snapshot" where
  "normalizeCatalogSnapshot s =
     s\<lparr>cs_Subjects := sort_by subject_less (cs_Subjects s),
       cs_Characteristics := sort_by characteristic_less (cs_Characteristics s),
       cs_Brands := sort_by brand_less (cs_Brands s), cs_Directories := normalizeDirectories (cs_Directories s)\<rparr>"

section \<open>The subject and its characteristics\<close>

definition category_err :: "prepare_lib \<Rightarrow> string \<Rightarrow> source_item list \<Rightarrow> prepare_outcome option" where
  "category_err L key items =
     (case find (\<lambda>i. normalizeKey L (card_Category (so_Card i)) \<noteq> key) items of
        None \<Rightarrow> None
      | Some i \<Rightarrow> Some (outcome OutcomeCharacteristicInvalid (so_Position i) ''category''))"

fun match_subjects :: "prepare_lib \<Rightarrow> string \<Rightarrow> api_subject list \<Rightarrow> api_subject list \<Rightarrow> prepare_outcome + api_subject list" where
  "match_subjects L key matches [] = Inr matches"
| "match_subjects L key matches (s # ss) =
     (if normalizeKey L (su_SubjectName s) \<noteq> key then match_subjects L key matches ss
      else if su_SubjectID s \<le> 0 then contract_error 0 ''subject_id''
      else if su_SubjectID s \<in> su_SubjectID ` set matches then match_subjects L key matches ss
      else match_subjects L key (matches @ [s]) ss)"

definition resolveSubject :: "prepare_lib \<Rightarrow> source_item list \<Rightarrow> api_subject list \<Rightarrow> prepare_outcome + api_subject" where
  "resolveSubject L items subjects =
     (let key = normalizeKey L (card_Category (so_Card (hd items))) in
      case category_err L key (tl items) of
        Some e \<Rightarrow> Inl e
      | None \<Rightarrow> sbind (match_subjects L key [] subjects) (\<lambda>matches.
          case matches of
            [] \<Rightarrow> Inl (outcome OutcomeSubjectNotFound 0 ''category'')
          | [s] \<Rightarrow> Inr s
          | _ \<Rightarrow> Inl (outcome OutcomeSubjectAmbiguous 0 ''category'')))"

text \<open>\<open>characteristicSchema\<close>: the accepted characteristics; its two maps are lookups by identifier and by name key.\<close>

type_synonym schema = "api_characteristic list"

definition by_id :: "schema \<Rightarrow> int \<Rightarrow> api_characteristic option" where
  "by_id schema i = find (\<lambda>c. ch_ID c = i) schema"

definition by_name :: "prepare_lib \<Rightarrow> schema \<Rightarrow> string \<Rightarrow> api_characteristic option" where
  "by_name L schema key = find (\<lambda>c. normalizeKey L (ch_Name c) = key) schema"

fun schema_loop :: "prepare_lib \<Rightarrow> int \<Rightarrow> schema \<Rightarrow> api_characteristic list \<Rightarrow> prepare_outcome + schema" where
  "schema_loop L subjectID schema [] = Inr schema"
| "schema_loop L subjectID schema (c # cs) =
     (if ch_SubjectID c \<noteq> subjectID then schema_loop L subjectID schema cs
      else if ch_ID c \<le> 0 \<or> normalizeKey L (ch_Name c) = [] \<or> ch_MaxCount c < 0
      then contract_error 0 ''characteristics''
      else case by_id schema (ch_ID c) of
             Some old \<Rightarrow>
               if normalizeKey L (ch_Name old) = normalizeKey L (ch_Name c) then schema_loop L subjectID schema cs
               else contract_error 0 ''characteristic_id''
           | None \<Rightarrow>
               (case by_name L schema (normalizeKey L (ch_Name c)) of
                  Some old \<Rightarrow>
                    if ch_ID old = ch_ID c then schema_loop L subjectID schema cs
                    else contract_error 0 ''characteristic_name''
                | None \<Rightarrow> schema_loop L subjectID (schema @ [c]) cs))"

definition buildCharacteristicSchema ::
  "prepare_lib \<Rightarrow> int \<Rightarrow> api_characteristic list \<Rightarrow> prepare_outcome + schema" where
  "buildCharacteristicSchema L subjectID cs =
     sbind (schema_loop L subjectID [] cs) (\<lambda>schema. Inr (sort_by (\<lambda>a b. ch_ID a < ch_ID b) schema))"

definition characteristicNameAliases :: "string \<Rightarrow> string list" where
  "characteristicNameAliases key =
     (if key \<in> {key_tnved_code, key_tnved_joined, key_tnved} then [key_tnved_joined, key_tnved_code, key_tnved]
      else if key \<in> {key_color, key_color_goods} then [key_color, key_color_goods] else [])"

fun first_by_name :: "prepare_lib \<Rightarrow> schema \<Rightarrow> string list \<Rightarrow> api_characteristic option" where
  "first_by_name L schema [] = None"
| "first_by_name L schema (k # ks) =
     (case by_name L schema k of Some c \<Rightarrow> Some c | None \<Rightarrow> first_by_name L schema ks)"

definition resolveCharacteristicSpecification ::
  "prepare_lib \<Rightarrow> schema \<Rightarrow> int \<Rightarrow> string \<Rightarrow> api_characteristic option" where
  "resolveCharacteristicSpecification L schema i name =
     (case (if 0 < i then by_id schema i else None) of
        Some c \<Rightarrow> Some c
      | None \<Rightarrow> first_by_name L schema (normalizeKey L name # characteristicNameAliases (normalizeKey L name)))"

section \<open>Values\<close>

fun distinct_texts :: "prepare_lib \<Rightarrow> string list \<Rightarrow> string list \<Rightarrow> string list option" where
  "distinct_texts L seen [] = Some []"
| "distinct_texts L seen (v # vs) =
     (let key = normalizeKey L (trim_space v) in
      if key = [] \<or> key \<in> set seen then None
      else map_option ((#) (trim_space v)) (distinct_texts L (key # seen) vs))"

text \<open>\<open>normalizeCharacteristicValues\<close> and \<open>splitCharacteristicValues\<close>.\<close>

definition normalizeCharacteristicValues :: "prepare_lib \<Rightarrow> string list \<Rightarrow> string list option" where
  "normalizeCharacteristicValues L vs =
     (case distinct_texts L [] vs of Some (w # ws) \<Rightarrow> Some (w # ws) | _ \<Rightarrow> None)"

definition splitCharacteristicValues :: "prepare_lib \<Rightarrow> string \<Rightarrow> string list option" where
  "splitCharacteristicValues L s = normalizeCharacteristicValues L (split_on (CHR '';'') s)"

fun texts_of :: "json_value list \<Rightarrow> string list option" where
  "texts_of [] = Some []"
| "texts_of (v # vs) = (case v of JStr s \<Rightarrow> map_option ((#) s) (texts_of vs) | _ \<Rightarrow> None)"

definition characteristicValues :: "prepare_lib \<Rightarrow> json_value \<Rightarrow> string list option" where
  "characteristicValues L v =
     (case v of
        JStr s \<Rightarrow> splitCharacteristicValues L s
      | JArr vs \<Rightarrow> (case texts_of vs of None \<Rightarrow> None | Some ts \<Rightarrow> normalizeCharacteristicValues L ts)
      | _ \<Rightarrow> None)"

definition comma_to_point :: "string \<Rightarrow> string" where
  "comma_to_point s = map (\<lambda>c. if c = CHR '','' then CHR ''.'' else c) s"

definition characteristicNumber :: "prepare_lib \<Rightarrow> json_value \<Rightarrow> gofloat option" where
  "characteristicNumber L v =
     (case v of JNum x \<Rightarrow> Some x | JStr s \<Rightarrow> lb_parseFloat L (comma_to_point (trim_space s)) | _ \<Rightarrow> None)"

definition directoryFor :: "string \<Rightarrow> directory_snapshot \<Rightarrow> string list option" where
  "directoryFor key d =
     (if key \<in> {key_color, key_color_goods} then Some (dr_Colors d)
      else if key = key_kind then Some (dr_Kinds d)
      else if key = key_country then Some (dr_Countries d)
      else if key = key_season then Some (dr_Seasons d)
      else if key = key_vat then Some (dr_VAT d)
      else if key \<in> {key_tnved, key_tnved_joined, key_tnved_code} then Some (dr_TNVED d)
      else None)"

text \<open>\<open>exactDirectoryValue\<close>: the entry with the value's key, and whether two different ones have it.\<close>

fun exact_entry :: "prepare_lib \<Rightarrow> string \<Rightarrow> string option \<Rightarrow> string list \<Rightarrow> string option \<times> bool" where
  "exact_entry L key canonical [] = (canonical, False)"
| "exact_entry L key canonical (c # cs) =
     (if normalizeKey L c \<noteq> key then exact_entry L key canonical cs
      else case canonical of
             None \<Rightarrow> exact_entry L key (Some c) cs
           | Some x \<Rightarrow> if x \<noteq> c then (None, True) else exact_entry L key canonical cs)"

definition exactDirectoryValue :: "prepare_lib \<Rightarrow> string \<Rightarrow> string list \<Rightarrow> string option \<times> bool" where
  "exactDirectoryValue L value directory = exact_entry L (normalizeKey L value) None directory"

fun canonical_values :: "prepare_lib \<Rightarrow> int \<Rightarrow> string list \<Rightarrow> string list \<Rightarrow> prepare_outcome + string list" where
  "canonical_values L position directory [] = Inr []"
| "canonical_values L position directory (v # vs) =
     (case exactDirectoryValue L v directory of
        (_, True) \<Rightarrow> contract_error position ''directory_ambiguous''
      | (None, False) \<Rightarrow> Inl (outcome OutcomeDirectoryValueInvalid position ''directory_value'')
      | (Some c, False) \<Rightarrow> sbind (canonical_values L position directory vs) (\<lambda>cs. Inr (c # cs)))"

definition float_finite :: "gofloat \<Rightarrow> bool" where
  "float_finite x = (case x of FFin _ \<Rightarrow> True | _ \<Rightarrow> False)"

definition characteristicValue ::
  "prepare_lib \<Rightarrow> int \<Rightarrow> api_characteristic \<Rightarrow> json_value \<Rightarrow> directory_snapshot \<Rightarrow> prepare_outcome + json_value" where
  "characteristicValue L position spec raw directories =
     (if ch_Type spec = 0 then invalid position ''characteristic_deprecated''
      else if ch_Type spec = 1 then
        (case characteristicValues L raw of
           None \<Rightarrow> invalid position ''characteristic_count''
         | Some vs \<Rightarrow>
             if 0 < ch_MaxCount spec \<and> ch_MaxCount spec < int (length vs) then invalid position ''characteristic_count''
             else case directoryFor (normalizeKey L (ch_Name spec)) directories of
                    Some (d # ds) \<Rightarrow> sbind (canonical_values L position (d # ds) vs) (\<lambda>cs. Inr (JArr (map JStr cs)))
                  | _ \<Rightarrow> Inr (JArr (map JStr vs)))
      else if ch_Type spec = 4 then
        (case characteristicNumber L raw of
           Some x \<Rightarrow> if float_finite x then Inr (JNum x) else invalid position ''characteristic_number''
         | None \<Rightarrow> invalid position ''characteristic_number'')
      else contract_error position ''characteristic_type'')"

section \<open>Variants\<close>

definition parseOptionalBoolean :: "prepare_lib \<Rightarrow> string \<Rightarrow> bool option" where
  "parseOptionalBoolean L value =
     (let key = normalizeKey L value in
      if key \<in> {[], word_no, ''no'', ''false'', ''0'', ''-''} then Some False
      else if key \<in> {word_yes, ''yes'', ''true'', ''1'', ''+''} then Some True
      else None)"

fun match_brands :: "prepare_lib \<Rightarrow> int \<Rightarrow> string \<Rightarrow> api_brand list \<Rightarrow> api_brand list \<Rightarrow> prepare_outcome + api_brand list" where
  "match_brands L position key matches [] = Inr matches"
| "match_brands L position key matches (b # bs) =
     (if normalizeKey L (br_Name b) \<noteq> key then match_brands L position key matches bs
      else if br_ID b \<le> 0 then contract_error position ''brand_id''
      else if br_ID b \<in> br_ID ` set matches then match_brands L position key matches bs
      else match_brands L position key (matches @ [b]) bs)"

definition resolveBrand :: "prepare_lib \<Rightarrow> source_item \<Rightarrow> api_brand list \<Rightarrow> prepare_outcome + string" where
  "resolveBrand L item brands =
     (let key = normalizeKey L (var_Brand (card_Variant (so_Card item))) in
      if key = [] then Inr []
      else sbind (match_brands L (so_Position item) key [] brands) (\<lambda>matches.
        case matches of
          [] \<Rightarrow> Inl (outcome OutcomeBrandNotFound (so_Position item) ''brand'')
        | [b] \<Rightarrow> Inr (br_Name b)
        | _ \<Rightarrow> contract_error (so_Position item) ''brand_ambiguous''))"

text \<open>The map of raw values by characteristic, as an association list.\<close>

fun collect_values ::
  "prepare_lib \<Rightarrow> int \<Rightarrow> schema \<Rightarrow> (int \<times> json_value) list \<Rightarrow> raw_characteristic list \<Rightarrow>
     prepare_outcome + (int \<times> json_value) list" where
  "collect_values L position schema vals [] = Inr vals"
| "collect_values L position schema vals (r # rs) =
     (if emptyCharacteristicValue (rc_Value r) then invalid position ''characteristics''
      else case resolveCharacteristicSpecification L schema (rc_ID r) (rc_Name r) of
             None \<Rightarrow> collect_values L position schema vals rs
           | Some spec \<Rightarrow>
               if ch_ID spec \<in> fst ` set vals then invalid position ''characteristic_duplicate''
               else collect_values L position schema (vals @ [(ch_ID spec, normalizeCharacteristicInput (rc_Value r))]) rs)"

definition add_vat ::
  "prepare_lib \<Rightarrow> int \<Rightarrow> schema \<Rightarrow> string \<Rightarrow> (int \<times> json_value) list \<Rightarrow> prepare_outcome + (int \<times> json_value) list" where
  "add_vat L position schema rate vals =
     (if trim_space rate = [] then Inr vals
      else case by_name L schema key_vat of
             None \<Rightarrow> Inr vals
           | Some spec \<Rightarrow>
               if ch_ID spec \<in> fst ` set vals then invalid position ''vat_duplicate''
               else Inr (vals @ [(ch_ID spec, JStr (trim_space rate))]))"

fun schema_values ::
  "prepare_lib \<Rightarrow> int \<Rightarrow> directory_snapshot \<Rightarrow> (int \<times> json_value) list \<Rightarrow> schema \<Rightarrow>
     prepare_outcome + content_characteristic list" where
  "schema_values L position directories vals [] = Inr []"
| "schema_values L position directories vals (spec # specs) =
     (if ch_Type spec = 0 then schema_values L position directories vals specs
      else case map_of vals (ch_ID spec) of
             None \<Rightarrow>
               if ch_Required spec then Inl (outcome OutcomeCharacteristicMissing position ''characteristic_required'')
               else schema_values L position directories vals specs
           | Some raw \<Rightarrow>
               sbind (characteristicValue L position spec raw directories) (\<lambda>v.
               sbind (schema_values L position directories vals specs) (\<lambda>cs.
                 Inr (\<lparr>cch_ID = ch_ID spec, cch_Value = v\<rparr> # cs))))"

definition upload_size_of :: "card \<Rightarrow> card_size \<Rightarrow> upload_size" where
  "upload_size_of c s =
     \<lparr>usz_TechSize = size_TechSize s, usz_WBSize = size_WBSize s,
      usz_Price = Some (if size_Price s \<le> 0 then card_Price c else size_Price s), usz_SKUs = size_SKUs s\<rparr>"

definition buildVariant :: "prepare_lib \<Rightarrow> source_item \<Rightarrow> schema \<Rightarrow> catalog_snapshot \<Rightarrow> prepare_outcome + upload_variant" where
  "buildVariant L item schema snapshot =
     (let position = so_Position item; c = so_Card item; v = card_Variant c in
      sbind (resolveBrand L item (cs_Brands snapshot)) (\<lambda>brand.
      case parseOptionalBoolean L (card_MarkingConfirmed c) of
        None \<Rightarrow> invalid position ''marking_confirmed''
      | Some kizMarked \<Rightarrow>
          if parseOptionalBoolean L (card_AdultOnly c) \<noteq> Some False then invalid position ''adult_only_unsupported''
          else
            sbind (collect_values L position schema [] (var_Characteristics v)) (\<lambda>vals.
            sbind (add_vat L position schema (card_VATRate c) vals) (\<lambda>vals.
            sbind (schema_values L position (cs_Directories snapshot) vals schema) (\<lambda>cs.
              Inr \<lparr>uv_VendorCode = var_VendorCode v, uv_KIZMarked = kizMarked, uv_Title = var_Title v,
                   uv_Description = var_Description v, uv_Brand = brand, uv_Dimensions = var_Dimensions v,
                   uv_Characteristics = cs, uv_Sizes = map (upload_size_of c) (var_Sizes v)\<rparr>)))))"

fun build_variants :: "prepare_lib \<Rightarrow> schema \<Rightarrow> catalog_snapshot \<Rightarrow> source_item list \<Rightarrow> prepare_outcome + upload_variant list" where
  "build_variants L schema snapshot [] = Inr []"
| "build_variants L schema snapshot (i # is) =
     sbind (buildVariant L i schema snapshot) (\<lambda>v.
     sbind (build_variants L schema snapshot is) (\<lambda>vs. Inr (v # vs)))"

section \<open>Validation of the request\<close>

datatype upload_error = InvalidUploadAt int int string | PayloadTooBig | MarshalFailed

definition MaxProductTitleRunes :: nat where "MaxProductTitleRunes = 60"
definition MaxProductDescriptionRunes :: nat where "MaxProductDescriptionRunes = 5000"

definition validPositiveNumber :: "gofloat \<Rightarrow> bool" where
  "validPositiveNumber x = (case x of FFin r \<Rightarrow> 0 < r | _ \<Rightarrow> False)"

definition validDimensions :: "dimensions \<Rightarrow> bool" where
  "validDimensions d \<longleftrightarrow> validPositiveNumber (dim_Length d) \<and> validPositiveNumber (dim_Width d) \<and>
     validPositiveNumber (dim_Height d) \<and> validPositiveNumber (dim_WeightBrutto d)"

fun characteristics_bad :: "int list \<Rightarrow> content_characteristic list \<Rightarrow> bool" where
  "characteristics_bad seen [] = False"
| "characteristics_bad seen (c # cs) \<longleftrightarrow>
     cch_ID c \<le> 0 \<or> cch_Value c = JNull \<or> cch_ID c \<in> set seen \<or> characteristics_bad (cch_ID c # seen) cs"

fun sizes_err :: "int \<Rightarrow> int \<Rightarrow> upload_size list \<Rightarrow> upload_error option" where
  "sizes_err g v [] = None"
| "sizes_err g v (s # ss) =
     (if (case usz_Price s of None \<Rightarrow> False | Some p \<Rightarrow> p \<le> 0) then Some (InvalidUploadAt g v ''sizes.price'')
      else if list_ex (\<lambda>k. trim_space k = []) (usz_SKUs s) then Some (InvalidUploadAt g v ''sizes.skus'')
      else sizes_err g v ss)"

definition variant_err :: "int \<Rightarrow> int \<Rightarrow> string list \<Rightarrow> upload_variant \<Rightarrow> upload_error option" where
  "variant_err g v seen u =
     (let bad = (\<lambda>field. Some (InvalidUploadAt g v field)) in
      if trim_space (uv_VendorCode u) = [] \<or> uv_VendorCode u \<in> set seen then bad ''vendorCode''
      else if MaxProductTitleRunes < rune_count (uv_Title u) then bad ''title''
      else if MaxProductDescriptionRunes < rune_count (uv_Description u) then bad ''description''
      else if \<not> validDimensions (uv_Dimensions u) then bad ''dimensions''
      else if uv_Sizes u = [] then bad ''sizes''
      else if characteristics_bad [] (uv_Characteristics u) then bad ''characteristics''
      else sizes_err g v (uv_Sizes u))"

fun variants_err :: "int \<Rightarrow> int \<Rightarrow> string list \<Rightarrow> upload_variant list \<Rightarrow> upload_error option" where
  "variants_err g v seen [] = None"
| "variants_err g v seen (u # us) =
     (case variant_err g v seen u of
        Some e \<Rightarrow> Some e
      | None \<Rightarrow> variants_err g (v + 1) (uv_VendorCode u # seen) us)"

fun requests_err :: "int \<Rightarrow> string list \<Rightarrow> upload_request list \<Rightarrow> upload_error option" where
  "requests_err g seen [] = None"
| "requests_err g seen (r # rs) =
     (if uq_SubjectID r \<le> 0 then Some (InvalidUploadAt g (-1) ''subjectID'')
      else if uq_Variants r = [] \<or> MaxVariantsPerGroup < length (uq_Variants r) then Some (InvalidUploadAt g (-1) ''variants'')
      else case variants_err g 0 seen (uq_Variants r) of
             Some e \<Rightarrow> Some e
           | None \<Rightarrow> requests_err (g + 1) (map uv_VendorCode (uq_Variants r) @ seen) rs)"

definition marshalAndValidateUploadCardsRequest :: "prepare_lib \<Rightarrow> upload_request list \<Rightarrow> upload_error + string" where
  "marshalAndValidateUploadCardsRequest L request =
     (if request = [] \<or> MaxUploadGroups < length request then Inl (InvalidUploadAt (-1) (-1) ''groups'')
      else case requests_err 0 [] request of
             Some e \<Rightarrow> Inl e
           | None \<Rightarrow>
               (case lb_request L request of
                  None \<Rightarrow> Inl MarshalFailed
                | Some encoded \<Rightarrow>
                    if op_MaxRequestBytes uploadCardsOperation < int (length encoded) then Inl PayloadTooBig
                    else Inr encoded))"

section \<open>Prepare\<close>

definition ended :: "prepare_outcome \<Rightarrow> prepared_group result" where
  "ended e = Inr \<lparr>re_Outcome = e, re_Proposal = None\<rparr>"

definition upload_failed :: "source_item list \<Rightarrow> upload_error \<Rightarrow> prepared_group result" where
  "upload_failed items e =
     (case e of
        PayloadTooBig \<Rightarrow> ended (outcome OutcomePayloadTooLarge 0 ''request'')
      | MarshalFailed \<Rightarrow> Inl (plain_error ''marshal upload cards request'')
      | InvalidUploadAt _ v field \<Rightarrow>
          ended (outcome OutcomeCharacteristicInvalid
            (if 0 \<le> v \<and> v < int (length items) then so_Position (items ! nat v) else 0) field))"

definition limits_broken :: "cards_limits \<Rightarrow> bool" where
  "limits_broken l \<longleftrightarrow> lim_FreeLimits l < 0 \<or> lim_PaidLimits l < 0 \<or> max_int64 - lim_PaidLimits l < lim_FreeLimits l"

definition build_proposal ::
  "prepare_lib \<Rightarrow> source_item list \<Rightarrow> catalog_snapshot \<Rightarrow> api_subject \<Rightarrow> upload_variant list \<Rightarrow> prepared_group result" where
  "build_proposal L items snapshot subject variants =
     (let request = [\<lparr>uq_SubjectID = su_SubjectID subject, uq_Variants = variants\<rparr>] in
      case marshalAndValidateUploadCardsRequest L request of
        Inl e \<Rightarrow> upload_failed items e
      | Inr encoded \<Rightarrow>
          (case DigestJSON ''cardprepare-semantic:v1'' (lb_group L items) of
             None \<Rightarrow> Inl (plain_error ''digest source group'')
           | Some semantic \<Rightarrow>
               (case DigestJSON ''cardprepare-metadata:v1'' (lb_snapshot L snapshot) of
                  None \<Rightarrow> Inl (plain_error ''digest catalog snapshot'')
                | Some metadata \<Rightarrow>
                    Inr \<lparr>re_Outcome = outcome OutcomePrepared 0 [],
                         re_Proposal = Some \<lparr>cpp_SubjectID = su_SubjectID subject, cpp_Request = request,
                           cpp_EncodedRequest = encoded, cpp_MetadataSnapshot = snapshot, cpp_SemanticDigest = semantic,
                           cpp_MetadataDigest = metadata, cpp_ProposalRoot = DigestProposal semantic metadata encoded,
                           cpp_Limits = cs_Limits snapshot, cpp_LimitsObservedAt = cs_ObservedAt snapshot\<rparr>\<rparr>)))"

definition map_group :: "prepare_lib \<Rightarrow> source_item list \<Rightarrow> catalog_snapshot \<Rightarrow> prepare_outcome + api_subject \<times> upload_variant list" where
  "map_group L items snapshot =
     (if cs_ObservedAt snapshot = 0 then contract_error 0 ''observed_at''
      else if limits_broken (cs_Limits snapshot) then contract_error 0 ''cards_limits''
      else
        sbind (resolveSubject L items (cs_Subjects snapshot)) (\<lambda>subject.
        if lim_FreeLimits (cs_Limits snapshot) + lim_PaidLimits (cs_Limits snapshot) < int (length items)
        then Inl (outcome OutcomeCardLimitExceeded 0 ''cards_limits'')
        else
          sbind (buildCharacteristicSchema L (su_SubjectID subject) (cs_Characteristics snapshot)) (\<lambda>schema.
          sbind (build_variants L schema snapshot items) (\<lambda>variants. Inr (subject, variants)))))"

definition Prepare :: "prepare_lib \<Rightarrow> source_item list \<Rightarrow> catalog_snapshot \<Rightarrow> prepared_group result" where
  "Prepare L items snapshot =
     rbind (normalizeSourceGroup L items) (\<lambda>items.
       let snapshot = normalizeCatalogSnapshot snapshot in
       case map_group L items snapshot of
         Inl e \<Rightarrow> ended e
       | Inr (subject, variants) \<Rightarrow> build_proposal L items snapshot subject variants)"

text \<open>\<open>Proposal.ValidateIntegrity\<close>.\<close>

definition ValidateIntegrity :: "prepare_lib \<Rightarrow> card_proposal \<Rightarrow> goerr option" where
  "ValidateIntegrity L p =
     (if cpp_SubjectID p \<le> 0 \<or> length (cpp_Request p) \<noteq> 1 \<or> uq_Variants (hd (cpp_Request p)) = [] \<or>
         uq_SubjectID (hd (cpp_Request p)) \<noteq> cpp_SubjectID p \<or> cpp_EncodedRequest p = [] \<or>
         cpp_SemanticDigest p = zero_digest \<or> cpp_MetadataDigest p = zero_digest \<or> cpp_ProposalRoot p = zero_digest \<or>
         cpp_LimitsObservedAt p = 0 \<or> cs_ObservedAt (cpp_MetadataSnapshot p) = 0 \<or>
         cpp_LimitsObservedAt p \<noteq> cs_ObservedAt (cpp_MetadataSnapshot p) \<or>
         cpp_Limits p \<noteq> cs_Limits (cpp_MetadataSnapshot p)
      then Some (plain_error ''card preparation proposal shape is invalid'')
      else first_err
        [(lb_request L (cpp_Request p) \<noteq> Some (cpp_EncodedRequest p),
            plain_error ''card preparation proposal request bytes differ''),
         (DigestJSON ''cardprepare-metadata:v1'' (lb_snapshot L (cpp_MetadataSnapshot p)) \<noteq> Some (cpp_MetadataDigest p),
            plain_error ''card preparation proposal metadata digest differs''),
         (DigestProposal (cpp_SemanticDigest p) (cpp_MetadataDigest p) (cpp_EncodedRequest p) \<noteq> cpp_ProposalRoot p,
            plain_error ''card preparation proposal root differs'')])"

end
