(* ===== verification/CardPrepareProps.thy ===== *)
theory CardPrepareProps
  imports CardPrepare PublicationProps
begin

text \<open>
  What the preparation of a group guarantees: the request it proposes is the group in the marketplace's terms, and it
  does not depend on the order in which the items were read or the marketplace listed its catalogue.
\<close>

section \<open>Sorting\<close>

text \<open>The contract of \<open>sort.Slice\<close>: a strict weak order. Two lists with the same elements are sorted alike if the order
  tells different elements apart.\<close>

locale slice_order =
  fixes lt :: "'a \<Rightarrow> 'a \<Rightarrow> bool"
  assumes asym: "lt a b \<Longrightarrow> \<not> lt b a"
    and weak: "lt a c \<Longrightarrow> lt a b \<or> lt b c"
begin

abbreviation le :: "'a \<Rightarrow> 'a \<Rightarrow> bool" where
  "le a b \<equiv> \<not> lt b a"

lemma insert_sorted: "sorted_wrt le xs \<Longrightarrow> sorted_wrt le (insert_by lt x xs)"
proof (induction xs)
  case (Cons y xs)
  show ?case
  proof (cases "lt y x")
    case True
    then show ?thesis using Cons asym by (simp add: ball_Un)
  next
    case False
    then have "\<not> lt z x" if "z \<in> set xs" for z using Cons.prems that weak [of z x y] by auto
    with Cons.prems False show ?thesis by simp
  qed
qed simp

lemma sort_sorted: "sorted_wrt le (sort_by lt xs)"
  by (induction xs) (auto simp: sort_by_def insert_sorted)

lemma insert_front: "(\<And>y. y \<in> set xs \<Longrightarrow> \<not> lt y x) \<Longrightarrow> insert_by lt x xs = x # xs"
  by (cases xs) auto

lemma sort_id: "sorted_wrt le xs \<Longrightarrow> sort_by lt xs = xs"
  by (induction xs) (auto simp: sort_by_def insert_front)

lemma sorted_unique:
  assumes "mset xs = mset ys" and "sorted_wrt le xs" and "sorted_wrt le ys"
    and "\<And>a b. a \<in> set xs \<Longrightarrow> b \<in> set xs \<Longrightarrow> \<not> lt a b \<Longrightarrow> \<not> lt b a \<Longrightarrow> a = b"
  shows "xs = ys"
  using assms
proof (induction xs arbitrary: ys)
  case (Cons a xs)
  then obtain b zs where ys: "ys = b # zs" by (cases ys) auto
  have sets: "insert a (set xs) = insert b (set zs)"
    using mset_eq_setD [OF Cons.prems(1)] ys by simp
  have "a = b"
  proof (rule ccontr)
    assume ne: "a \<noteq> b"
    from sets have "a \<in> insert b (set zs)" "b \<in> insert a (set xs)" by blast+
    with ne have in_lists: "a \<in> set zs" "b \<in> set xs" by simp_all
    then have "\<not> lt a b" "\<not> lt b a" using Cons.prems(2,3) ys by simp_all
    with Cons.prems(4) [of a b] in_lists ne show False by simp
  qed
  moreover have "xs = zs"
  proof (rule Cons.IH)
    show "mset xs = mset zs" using Cons.prems(1) ys calculation by simp
    show "a = b" if "a \<in> set xs" "b \<in> set xs" "\<not> lt a b" "\<not> lt b a" for a b
      using that Cons.prems(4) [of a b] by simp
  qed (use Cons.prems(2,3) ys in simp_all)
  ultimately show ?case using ys by simp
qed simp

lemma sort_perm:
  assumes "mset xs = mset ys"
    and "\<And>a b. a \<in> set xs \<Longrightarrow> b \<in> set xs \<Longrightarrow> \<not> lt a b \<Longrightarrow> \<not> lt b a \<Longrightarrow> a = b"
  shows "sort_by lt xs = sort_by lt ys"
  by (rule sorted_unique) (use assms in \<open>auto simp: sort_sorted\<close>)

end

lemma bytes_less_asym: "bytes_less a b \<Longrightarrow> \<not> bytes_less b a"
  by (induction a b rule: bytes_less.induct) (auto split: if_splits)

lemma bytes_less_weak: "bytes_less a c \<Longrightarrow> bytes_less a b \<or> bytes_less b c"
proof (induction a c arbitrary: b rule: bytes_less.induct)
  case (2 x xs)
  then show ?case by (cases b) auto
next
  case (4 x xs y ys)
  then show ?case by (cases b) (auto split: if_splits simp: not_less order_less_le)
qed auto

lemma bytes_less_total: "\<not> bytes_less a b \<Longrightarrow> \<not> bytes_less b a \<Longrightarrow> a = b"
  by (induction a b rule: bytes_less.induct) (auto split: if_splits)

interpretation bytes: slice_order bytes_less
  by unfold_locales (use bytes_less_asym bytes_less_weak in blast)+

interpretation positions: slice_order "\<lambda>a b. so_Position a < so_Position b"
  by unfold_locales auto

interpretation subjects: slice_order subject_less
  by unfold_locales (use bytes_less_asym bytes_less_weak in \<open>auto simp: subject_less_def split: if_splits\<close>)

interpretation characteristics: slice_order characteristic_less
  by unfold_locales (use bytes_less_asym bytes_less_weak in \<open>auto simp: characteristic_less_def split: if_splits\<close>)

interpretation brands: slice_order brand_less
  by unfold_locales (use bytes_less_asym bytes_less_weak in \<open>auto simp: brand_less_def split: if_splits\<close>)

interpretation schema: slice_order "\<lambda>a b. ch_ID a < ch_ID b"
  by unfold_locales auto

section \<open>The order of the input\<close>

lemma adjacent_equal:
  fixes f :: "'a \<Rightarrow> 'b::linorder"
  assumes "sorted (map f zs)"
  shows "list_ex (\<lambda>(a, b). f a = f b) (zip zs (tl zs)) \<longleftrightarrow> \<not> distinct (map f zs)"
  using assms
proof (induction zs)
  case (Cons z zs)
  show ?case
  proof (cases zs)
    case (Cons w ws)
    with \<open>sorted (map f (z # zs))\<close> have "f z \<in> f ` set zs \<longleftrightarrow> f z = f w"
      by (auto intro: order_antisym)
    with Cons.IH Cons.prems Cons show ?thesis by auto
  qed simp
qed simp

lemma positions_sorted: "sorted (map so_Position (sort_by (\<lambda>a b. so_Position a < so_Position b) xs))"
  using positions.sort_sorted [of xs] by (simp add: sorted_map linorder_not_less)

lemma normalizeSourceGroup_perm:
  assumes "mset xs = mset ys"
  shows "normalizeSourceGroup L xs = normalizeSourceGroup L ys"
proof -
  let ?sort = "\<lambda>xs. sort_by (\<lambda>a b. so_Position a < so_Position b) (map (normalize_item L) xs)"
  have sets: "set xs = set ys" using assms by (rule mset_eq_setD)
  have m: "mset (map (normalize_item L) xs) = mset (map (normalize_item L) ys)" using assms by simp
  have adjacent: "list_ex (\<lambda>(a, b). so_Position a = so_Position b) (zip (?sort zs) (tl (?sort zs))) \<longleftrightarrow>
      \<not> distinct (map so_Position (map (normalize_item L) zs))" for zs
  proof -
    have "mset (map so_Position (?sort zs)) = mset (map so_Position (map (normalize_item L) zs))"
      by (simp add: multiset.map_comp)
    then have "distinct (map so_Position (?sort zs)) = distinct (map so_Position (map (normalize_item L) zs))"
      by (rule mset_eq_imp_distinct_iff)
    then show ?thesis by (simp only: adjacent_equal [OF positions_sorted])
  qed
  have same: "distinct (map so_Position (map (normalize_item L) xs)) =
      distinct (map so_Position (map (normalize_item L) ys))"
    by (rule mset_eq_imp_distinct_iff) (use m in \<open>simp only: mset_map\<close>)
  have eq: "?sort xs = ?sort ys" if d: "distinct (map so_Position (map (normalize_item L) xs))"
  proof (rule positions.sort_perm [OF m])
    fix a b assume "a \<in> set (map (normalize_item L) xs)" "b \<in> set (map (normalize_item L) xs)"
      "\<not> so_Position a < so_Position b" "\<not> so_Position b < so_Position a"
    with d show "a = b" by (metis distinct_map inj_onD linorder_less_linear)
  qed
  have empty: "xs = [] \<longleftrightarrow> ys = []" using assms by auto
  have neg: "list_ex (\<lambda>i. so_Position i \<le> 0) xs = list_ex (\<lambda>i. so_Position i \<le> 0) ys"
    using sets by (simp add: list_ex_iff)
  show ?thesis
  proof (cases "distinct (map so_Position (map (normalize_item L) xs))")
    case True
    with eq show ?thesis by (simp only: normalizeSourceGroup_def empty neg)
  next
    case False
    with same have "\<not> distinct (map so_Position (map (normalize_item L) ys))" by simp
    with False show ?thesis
      by (simp only: normalizeSourceGroup_def empty neg Let_def adjacent if_True not_False_eq_True)
  qed
qed

text \<open>Two listings of the same catalogue, and a catalogue whose sort keys tell its entries apart.\<close>

definition same_catalog :: "catalog_snapshot \<Rightarrow> catalog_snapshot \<Rightarrow> bool" where
  "same_catalog s s' \<longleftrightarrow>
     mset (cs_Subjects s) = mset (cs_Subjects s') \<and> mset (cs_Characteristics s) = mset (cs_Characteristics s') \<and>
     mset (cs_Brands s) = mset (cs_Brands s') \<and>
     list_all (\<lambda>d. mset (d (cs_Directories s)) = mset (d (cs_Directories s')))
       [dr_Colors, dr_Kinds, dr_Countries, dr_Seasons, dr_VAT, dr_TNVED] \<and>
     cs_Limits s = cs_Limits s' \<and> cs_ObservedAt s = cs_ObservedAt s'"

definition catalog_identified :: "catalog_snapshot \<Rightarrow> bool" where
  "catalog_identified s \<longleftrightarrow>
     distinct (map (\<lambda>x. (su_SubjectID x, su_SubjectName x)) (cs_Subjects s)) \<and>
     distinct (map (\<lambda>c. (ch_SubjectID c, ch_ID c, ch_Name c)) (cs_Characteristics s)) \<and>
     distinct (map (\<lambda>b. (br_ID b, br_Name b)) (cs_Brands s))"

lemma distinct_key: "distinct (map f xs) \<Longrightarrow> a \<in> set xs \<Longrightarrow> b \<in> set xs \<Longrightarrow> f a = f b \<Longrightarrow> a = b"
  by (auto simp: distinct_map inj_on_def)

lemma cloneAndSortStrings_perm: "mset xs = mset ys \<Longrightarrow> cloneAndSortStrings xs = cloneAndSortStrings ys"
  unfolding cloneAndSortStrings_def by (rule bytes.sort_perm) (simp_all add: bytes_less_total)

lemma normalizeCatalogSnapshot_perm:
  assumes same: "same_catalog s s'" and keys: "catalog_identified s"
  shows "normalizeCatalogSnapshot s = normalizeCatalogSnapshot s'"
proof -
  have "sort_by subject_less (cs_Subjects s) = sort_by subject_less (cs_Subjects s')"
  proof (rule subjects.sort_perm)
    fix a b assume ab: "a \<in> set (cs_Subjects s)" "b \<in> set (cs_Subjects s)" "\<not> subject_less a b" "\<not> subject_less b a"
    then have key: "(\<lambda>x. (su_SubjectID x, su_SubjectName x)) a = (\<lambda>x. (su_SubjectID x, su_SubjectName x)) b"
      using bytes_less_total [of "su_SubjectName a" "su_SubjectName b"] by (simp add: subject_less_def split: if_splits)
    show "a = b" by (rule distinct_key [OF _ ab(1,2) key]) (use keys in \<open>simp add: catalog_identified_def\<close>)
  qed (use same in \<open>simp add: same_catalog_def\<close>)
  moreover have "sort_by characteristic_less (cs_Characteristics s) = sort_by characteristic_less (cs_Characteristics s')"
  proof (rule characteristics.sort_perm)
    fix a b assume ab: "a \<in> set (cs_Characteristics s)" "b \<in> set (cs_Characteristics s)"
      "\<not> characteristic_less a b" "\<not> characteristic_less b a"
    then have key: "(\<lambda>c. (ch_SubjectID c, ch_ID c, ch_Name c)) a = (\<lambda>c. (ch_SubjectID c, ch_ID c, ch_Name c)) b"
      using bytes_less_total [of "ch_Name a" "ch_Name b"] by (simp add: characteristic_less_def split: if_splits)
    show "a = b" by (rule distinct_key [OF _ ab(1,2) key]) (use keys in \<open>simp add: catalog_identified_def\<close>)
  qed (use same in \<open>simp add: same_catalog_def\<close>)
  moreover have "sort_by brand_less (cs_Brands s) = sort_by brand_less (cs_Brands s')"
  proof (rule brands.sort_perm)
    fix a b assume ab: "a \<in> set (cs_Brands s)" "b \<in> set (cs_Brands s)" "\<not> brand_less a b" "\<not> brand_less b a"
    then have key: "(\<lambda>b. (br_ID b, br_Name b)) a = (\<lambda>b. (br_ID b, br_Name b)) b"
      using bytes_less_total [of "br_Name a" "br_Name b"] by (simp add: brand_less_def split: if_splits)
    show "a = b" by (rule distinct_key [OF _ ab(1,2) key]) (use keys in \<open>simp add: catalog_identified_def\<close>)
  qed (use same in \<open>simp add: same_catalog_def\<close>)
  moreover have "normalizeDirectories (cs_Directories s) = normalizeDirectories (cs_Directories s')"
    unfolding normalizeDirectories_def using same
    by (intro directory_snapshot.equality) (auto simp: same_catalog_def intro: cloneAndSortStrings_perm)
  ultimately show ?thesis
    using same by (simp add: normalizeCatalogSnapshot_def same_catalog_def)
qed


section \<open>Subject and schema\<close>

lemma normalizeKey_trim [simp]: "normalizeKey L (trim_space s) = normalizeKey L s"
  by (simp add: normalizeKey_def)

lemma match_subjects_ids:
  "match_subjects L key matches ss = Inr ms \<Longrightarrow>
     su_SubjectID ` set ms = su_SubjectID ` set matches \<union> su_SubjectID ` {s \<in> set ss. normalizeKey L (su_SubjectName s) = key} \<and>
     (\<forall>s \<in> set ss. normalizeKey L (su_SubjectName s) = key \<longrightarrow> 0 < su_SubjectID s)"
proof (induction L key matches ss rule: match_subjects.induct)
  case (2 L key matches s ss)
  then show ?case
    by (cases "normalizeKey L (su_SubjectName s) = key"; cases "su_SubjectID s \<in> su_SubjectID ` set matches")
      (auto simp: contract_error_def split: if_splits)
qed simp

definition subject_ids :: "prepare_lib \<Rightarrow> string \<Rightarrow> catalog_snapshot \<Rightarrow> int set" where
  "subject_ids L category s =
     su_SubjectID ` {x \<in> set (cs_Subjects s). normalizeKey L (su_SubjectName x) = normalizeKey L category}"

lemma resolveSubject_unique:
  assumes "resolveSubject L items subjects = Inr subject" and "items \<noteq> []"
  shows "0 < su_SubjectID subject"
    and "i \<in> set items \<Longrightarrow> su_SubjectID ` {x \<in> set subjects.
      normalizeKey L (su_SubjectName x) = normalizeKey L (card_Category (so_Card i))} = {su_SubjectID subject}"
proof -
  let ?key = "normalizeKey L (card_Category (so_Card (hd items)))"
  obtain ms where c: "category_err L ?key (tl items) = None" and m: "match_subjects L ?key [] subjects = Inr ms"
    and r: "(case ms of [] \<Rightarrow> Inl (outcome OutcomeSubjectNotFound 0 ''category'') | [s] \<Rightarrow> Inr s
      | _ \<Rightarrow> Inl (outcome OutcomeSubjectAmbiguous 0 ''category'')) = Inr subject"
    using assms(1) unfolding resolveSubject_def Let_def by (auto simp: sbind_Inr split: option.splits)
  have one: "ms = [subject]" using r by (cases ms rule: remdups_adj.cases) auto
  note M = match_subjects_ids [OF m]
  then have ids: "su_SubjectID ` {x \<in> set subjects. normalizeKey L (su_SubjectName x) = ?key} = {su_SubjectID subject}"
    using one by simp
  then have "su_SubjectID subject \<in> su_SubjectID ` {x \<in> set subjects. normalizeKey L (su_SubjectName x) = ?key}" by simp
  with M show "0 < su_SubjectID subject" by auto
  have "normalizeKey L (card_Category (so_Card i)) = ?key" if "i \<in> set items" for i
    using that c assms(2) by (cases items) (auto simp: category_err_def find_None_iff split: option.splits)
  with ids show "i \<in> set items \<Longrightarrow> su_SubjectID ` {x \<in> set subjects.
      normalizeKey L (su_SubjectName x) = normalizeKey L (card_Category (so_Card i))} = {su_SubjectID subject}" by simp
qed

lemma schema_loop_ok:
  "schema_loop L sid acc cs = Inr schema \<Longrightarrow> distinct (map ch_ID acc) \<Longrightarrow>
     distinct (map ch_ID schema) \<and> set schema \<subseteq> set acc \<union> {c \<in> set cs. ch_SubjectID c = sid \<and> 0 < ch_ID c} \<and>
     ch_ID ` set schema = ch_ID ` set acc \<union> ch_ID ` {c \<in> set cs. ch_SubjectID c = sid}"
proof (induction L sid acc cs rule: schema_loop.induct)
  case (2 L sid acc c cs)
  show ?case
  proof (cases "ch_SubjectID c = sid")
    case False
    with 2 show ?thesis by auto
  next
    case True
    with "2.prems"(1) have pos: "0 < ch_ID c" by (auto simp: contract_error_def split: if_splits)
    show ?thesis
    proof (cases "by_id acc (ch_ID c)")
      case (Some old)
      then have known: "ch_ID c \<in> ch_ID ` set acc" by (auto simp: by_id_def find_Some_iff intro!: image_eqI [of _ _ old])
      with 2 Some True show ?thesis by (auto simp: contract_error_def split: if_splits)
    next
      case None
      then have fresh: "ch_ID c \<notin> ch_ID ` set acc" by (auto simp: by_id_def find_None_iff)
      show ?thesis
      proof (cases "by_name L acc (normalizeKey L (ch_Name c))")
        case (Some old)
        then have "old \<in> set acc" by (auto simp: by_name_def find_Some_iff)
        with fresh have "ch_ID old \<noteq> ch_ID c" by (metis imageI)
        with "2.prems"(1) Some \<open>by_id acc (ch_ID c) = None\<close> True pos show ?thesis by (auto simp: contract_error_def split: if_splits)
      next
        case N: None
        have "schema_loop L sid (acc @ [c]) cs = Inr schema"
          using "2.prems"(1) True \<open>by_id acc (ch_ID c) = None\<close> N by (auto simp: contract_error_def split: if_splits)
        from "2.IH"(2) [OF _ _ \<open>by_id acc (ch_ID c) = None\<close> N this] "2.prems" True fresh pos
        show ?thesis by (auto simp: contract_error_def split: if_splits)
      qed
    qed
  qed
qed auto

definition subject_schema :: "prepare_lib \<Rightarrow> int \<Rightarrow> catalog_snapshot \<Rightarrow> schema \<Rightarrow> bool" where
  "subject_schema L sid s schema \<longleftrightarrow>
     sorted_wrt (<) (map ch_ID schema) \<and> set schema \<subseteq> {c \<in> set (cs_Characteristics s). ch_SubjectID c = sid \<and> 0 < ch_ID c} \<and>
     ch_ID ` set schema = ch_ID ` {c \<in> set (cs_Characteristics s). ch_SubjectID c = sid}"

lemma buildCharacteristicSchema_ok:
  assumes "buildCharacteristicSchema L sid cs = Inr schema" and "set cs = set (cs_Characteristics s)"
  shows "subject_schema L sid s schema"
proof -
  obtain raw where raw: "schema_loop L sid [] cs = Inr raw" and sorted: "schema = sort_by (\<lambda>a b. ch_ID a < ch_ID b) raw"
    using assms(1) by (auto simp: buildCharacteristicSchema_def sbind_Inr)
  have R: "distinct (map ch_ID raw)" "set raw \<subseteq> {c \<in> set cs. ch_SubjectID c = sid \<and> 0 < ch_ID c}"
    "ch_ID ` set raw = ch_ID ` {c \<in> set cs. ch_SubjectID c = sid}"
    using schema_loop_ok [OF raw] by simp_all
  have "mset (map ch_ID schema) = mset (map ch_ID raw)" by (simp add: sorted)
  then have "distinct (map ch_ID schema)" using R(1) mset_eq_imp_distinct_iff by blast
  moreover have "sorted (map ch_ID schema)"
    using schema.sort_sorted [of raw] by (simp add: sorted sorted_map linorder_not_less)
  ultimately have "sorted_wrt (<) (map ch_ID schema)" by (simp add: strict_sorted_iff)
  then show ?thesis using R(2,3) assms(2) by (auto simp: subject_schema_def sorted)
qed

section \<open>Characteristics\<close>

text \<open>What the marketplace accepts as the value of a characteristic: for type 1 at least one and at most as many texts as
  it allows, taken from its directory where there is one, for type 4 a finite number.\<close>

definition value_accepted :: "prepare_lib \<Rightarrow> directory_snapshot \<Rightarrow> api_characteristic \<Rightarrow> json_value \<Rightarrow> bool" where
  "value_accepted L d spec v \<longleftrightarrow>
     ch_Type spec = 1 \<and> (\<exists>vs. v = JArr (map JStr vs) \<and> vs \<noteq> [] \<and>
       (ch_MaxCount spec \<le> 0 \<or> int (length vs) \<le> ch_MaxCount spec) \<and>
       (case directoryFor (normalizeKey L (ch_Name spec)) d of None \<Rightarrow> True | Some ds \<Rightarrow> ds = [] \<or> set vs \<subseteq> set ds)) \<or>
     ch_Type spec = 4 \<and> (\<exists>r. v = JNum (FFin r))"

lemma exact_entry_in: "exact_entry L key canonical cs = (Some c, False) \<Longrightarrow> c \<in> set cs \<or> canonical = Some c"
  by (induction L key canonical cs rule: exact_entry.induct) (auto split: if_splits option.splits)

lemma canonical_values_in:
  "canonical_values L position directory vs = Inr cs \<Longrightarrow> set cs \<subseteq> set directory \<and> length cs = length vs"
proof (induction vs arbitrary: cs)
  case (Cons v vs)
  then obtain c rest where c: "exactDirectoryValue L v directory = (Some c, False)"
    and rest: "canonical_values L position directory vs = Inr rest" "cs = c # rest"
    by (auto simp: sbind_Inr contract_error_def split: prod.splits option.splits bool.splits)
  with exact_entry_in [of L "normalizeKey L v" None directory c] Cons.IH show ?case
    by (auto simp: exactDirectoryValue_def)
qed simp

lemma characteristicValues_nonempty: "characteristicValues L v = Some vs \<Longrightarrow> vs \<noteq> []"
  by (auto simp: characteristicValues_def splitCharacteristicValues_def normalizeCharacteristicValues_def
      split: json_value.splits option.splits list.splits)

lemma characteristicValue_accepted:
  assumes "characteristicValue L position spec raw d = Inr v"
  shows "value_accepted L d spec v"
proof (cases "ch_Type spec = 1")
  case True
  obtain vs where vs: "characteristicValues L raw = Some vs"
    and n: "ch_MaxCount spec \<le> 0 \<or> int (length vs) \<le> ch_MaxCount spec"
    and v: "(case directoryFor (normalizeKey L (ch_Name spec)) d of
               Some (d # ds) \<Rightarrow> sbind (canonical_values L position (d # ds) vs) (\<lambda>cs. Inr (JArr (map JStr cs)))
             | _ \<Rightarrow> Inr (JArr (map JStr vs))) = Inr v"
    using assms True by (auto simp: characteristicValue_def invalid_def split: option.splits if_splits)
  show ?thesis
  proof (cases "directoryFor (normalizeKey L (ch_Name spec)) d")
    case None
    with v n True characteristicValues_nonempty [OF vs] show ?thesis by (auto simp: value_accepted_def)
  next
    case (Some ds)
    show ?thesis
    proof (cases ds)
      case Nil
      with Some v n True characteristicValues_nonempty [OF vs] show ?thesis by (auto simp: value_accepted_def)
    next
      case (Cons e es)
      with Some v obtain cs where cs: "canonical_values L position (e # es) vs = Inr cs" "v = JArr (map JStr cs)"
        by (auto simp: sbind_Inr)
      from canonical_values_in [OF cs(1)] characteristicValues_nonempty [OF vs]
      have C: "set cs \<subseteq> set ds" "length cs = length vs" "cs \<noteq> []" using Cons by auto
      with Some n True cs(2) show ?thesis unfolding value_accepted_def by (intro disjI1) (auto intro!: exI [of _ cs])
    qed
  qed
next
  case False
  with assms show ?thesis
    by (auto simp: characteristicValue_def invalid_def contract_error_def value_accepted_def float_finite_def
        split: if_splits option.splits gofloat.splits)
qed

lemma schema_values_ok:
  "schema_values L position d vals specs = Inr cs \<Longrightarrow>
     subseq (map cch_ID cs) (map ch_ID specs) \<and>
     (\<forall>c \<in> set cs. \<exists>spec \<in> set specs. ch_ID spec = cch_ID c \<and> value_accepted L d spec (cch_Value c)) \<and>
     (\<forall>spec \<in> set specs. ch_Required spec \<and> ch_Type spec \<noteq> 0 \<longrightarrow> ch_ID spec \<in> cch_ID ` set cs)"
proof (induction specs arbitrary: cs)
  case (Cons spec specs)
  show ?case
  proof (cases "ch_Type spec = 0 \<or> map_of vals (ch_ID spec) = None")
    case True
    with Cons.prems have rest: "schema_values L position d vals specs = Inr cs" and opt: "ch_Type spec = 0 \<or> \<not> ch_Required spec"
      by (auto split: if_splits)
    from Cons.IH [OF rest] opt show ?thesis by auto
  next
    case False
    then obtain raw where "map_of vals (ch_ID spec) = Some raw" by auto
    with Cons.prems False obtain v rest where v: "characteristicValue L position spec raw d = Inr v"
      and rest: "schema_values L position d vals specs = Inr rest" and cs: "cs = \<lparr>cch_ID = ch_ID spec, cch_Value = v\<rparr> # rest"
      by (auto simp: sbind_Inr)
    from Cons.IH [OF rest] characteristicValue_accepted [OF v] show ?thesis by (auto simp: cs)
  qed
qed simp

lemma sorted_wrt_subseq: "subseq xs ys \<Longrightarrow> sorted_wrt P ys \<Longrightarrow> sorted_wrt P xs"
proof (induction rule: list_emb.induct)
  case (list_emb_Cons2 x y xs ys)
  then have "set xs \<subseteq> set ys" by (blast dest: list_emb_set)
  with list_emb_Cons2 show ?case by auto
qed auto

section \<open>Variants\<close>

definition variant_accepted :: "prepare_lib \<Rightarrow> int \<Rightarrow> catalog_snapshot \<Rightarrow> upload_variant \<Rightarrow> bool" where
  "variant_accepted L sid s u \<longleftrightarrow>
     sorted_wrt (<) (map cch_ID (uv_Characteristics u)) \<and>
     (\<forall>c \<in> set (uv_Characteristics u). \<exists>spec \<in> set (cs_Characteristics s). ch_SubjectID spec = sid \<and>
        ch_ID spec = cch_ID c \<and> value_accepted L (normalizeDirectories (cs_Directories s)) spec (cch_Value c)) \<and>
     (\<forall>spec \<in> set (cs_Characteristics s). ch_SubjectID spec = sid \<and> ch_Required spec \<and> ch_Type spec \<noteq> 0 \<longrightarrow>
        ch_ID spec \<in> cch_ID ` set (uv_Characteristics u))"

lemma buildVariant_accepted:
  assumes "buildVariant L i schema (normalizeCatalogSnapshot s) = Inr u" and schema: "subject_schema L sid s schema"
    and keys: "distinct (map (\<lambda>c. (ch_SubjectID c, ch_ID c)) (cs_Characteristics s))"
  shows "variant_accepted L sid s u"
proof -
  let ?d = "normalizeDirectories (cs_Directories s)"
  obtain vals cs where cs: "schema_values L (so_Position i) ?d vals schema = Inr cs"
    and u: "uv_Characteristics u = cs"
    using assms(1)
    by (auto simp: buildVariant_def Let_def sbind_Inr invalid_def normalizeCatalogSnapshot_def split: option.splits if_splits)
  note V = schema_values_ok [OF cs]
  have S: "sorted_wrt (<) (map ch_ID schema)" "set schema \<subseteq> {c \<in> set (cs_Characteristics s). ch_SubjectID c = sid \<and> 0 < ch_ID c}"
    "ch_ID ` set schema = ch_ID ` {c \<in> set (cs_Characteristics s). ch_SubjectID c = sid}"
    using schema by (simp_all add: subject_schema_def)
  have all: "spec \<in> set schema" if "spec \<in> set (cs_Characteristics s)" "ch_SubjectID spec = sid" for spec
  proof -
    from that S(3) obtain c where c: "c \<in> set schema" "ch_ID c = ch_ID spec" by force
    with S(2) have "c \<in> set (cs_Characteristics s)" "ch_SubjectID c = sid" by auto
    then have "c = spec" using keys that c(2) by (intro distinct_key [OF keys]) auto
    with c(1) show ?thesis by simp
  qed
  show "variant_accepted L sid s u"
    unfolding variant_accepted_def u
  proof (intro conjI ballI impI)
    show "sorted_wrt (<) (map cch_ID cs)" using V S(1) sorted_wrt_subseq by blast
    show "\<exists>spec \<in> set (cs_Characteristics s). ch_SubjectID spec = sid \<and> ch_ID spec = cch_ID c \<and>
        value_accepted L ?d spec (cch_Value c)" if "c \<in> set cs" for c
      using V that S(2) by blast
    show "ch_ID spec \<in> cch_ID ` set cs" if "spec \<in> set (cs_Characteristics s)"
      "ch_SubjectID spec = sid \<and> ch_Required spec \<and> ch_Type spec \<noteq> 0" for spec
      using V all [OF that(1)] that(2) by blast
  qed
qed

lemma buildVariant_vendor:
  assumes "buildVariant L i schema s = Inr u"
  shows "uv_VendorCode u = var_VendorCode (card_Variant (so_Card i))"
proof -
  obtain brand kiz cs where "u = \<lparr>uv_VendorCode = var_VendorCode (card_Variant (so_Card i)), uv_KIZMarked = kiz,
     uv_Title = var_Title (card_Variant (so_Card i)), uv_Description = var_Description (card_Variant (so_Card i)),
     uv_Brand = brand, uv_Dimensions = var_Dimensions (card_Variant (so_Card i)), uv_Characteristics = cs,
     uv_Sizes = map (upload_size_of (so_Card i)) (var_Sizes (card_Variant (so_Card i)))\<rparr>"
    using assms by (auto simp: buildVariant_def Let_def sbind_Inr invalid_def split: option.splits if_splits)
  then show ?thesis by simp
qed

lemma build_variants_codes:
  assumes "build_variants L schema s (map (normalize_item L) items) = Inr u"
  shows "map uv_VendorCode u = map (\<lambda>i. trim_space (var_VendorCode (card_Variant (so_Card i)))) items"
  using assms
  by (induction items arbitrary: u)
    (auto simp: sbind_Inr buildVariant_vendor normalize_item_def cloneAndNormalizeCard_def normalize_variant_def)

lemma build_variants_all:
  "build_variants L schema s items = Inr us \<Longrightarrow> list_all2 (\<lambda>i u. buildVariant L i schema s = Inr u) items us"
  by (induction items arbitrary: us) (auto simp: sbind_Inr)

lemma variants_err_None:
  "variants_err g v seen us = None \<Longrightarrow> distinct (map uv_VendorCode us) \<and>
     set (map uv_VendorCode us) \<inter> set seen = {} \<and> (\<forall>u \<in> set us. trim_space (uv_VendorCode u) \<noteq> [] \<and>
       validDimensions (uv_Dimensions u) \<and> uv_Sizes u \<noteq> [] \<and> rune_count (uv_Title u) \<le> MaxProductTitleRunes)"
proof (induction us arbitrary: v seen)
  case (Cons u us)
  from Cons.prems have head: "variant_err g v seen u = None" and rest: "variants_err g (v + 1) (uv_VendorCode u # seen) us = None"
    by (auto split: option.splits)
  from head have "trim_space (uv_VendorCode u) \<noteq> []" "uv_VendorCode u \<notin> set seen" "validDimensions (uv_Dimensions u)"
    "uv_Sizes u \<noteq> []" "rune_count (uv_Title u) \<le> MaxProductTitleRunes"
    by (auto simp: variant_err_def Let_def split: if_splits)
  with Cons.IH [OF rest] show ?case by auto
qed simp

section \<open>Prepared groups\<close>

lemma insert_by_map: "(\<And>a b. lt (f a) (f b) = lt a b) \<Longrightarrow> insert_by lt (f x) (map f xs) = map f (insert_by lt x xs)"
  by (induction xs) auto

lemma sort_by_map: "(\<And>a b. lt (f a) (f b) = lt a b) \<Longrightarrow> sort_by lt (map f xs) = map f (sort_by lt xs)"
  by (induction xs) (simp_all add: sort_by_def insert_by_map)

abbreviation in_order :: "source_item list \<Rightarrow> source_item list" where
  "in_order items \<equiv> sort_by (\<lambda>a b. so_Position a < so_Position b) items"

lemma normalizeSourceGroup_items:
  assumes "normalizeSourceGroup L items = Inr items'"
  shows "items' = map (normalize_item L) (in_order items)" and "items \<noteq> []"
  using assms
  by (auto simp: normalizeSourceGroup_def Let_def normalize_item_def sort_by_map split: if_splits)

lemma Prepare_proposal:
  assumes "Prepare L items s = Inr r" and "re_Proposal r = Some p"
  obtains subject schema u where
    "items \<noteq> []"
    "resolveSubject L (map (normalize_item L) (in_order items)) (cs_Subjects (normalizeCatalogSnapshot s)) = Inr subject"
    "int (length items) \<le> lim_FreeLimits (cs_Limits s) + lim_PaidLimits (cs_Limits s)"
    "buildCharacteristicSchema L (su_SubjectID subject) (cs_Characteristics (normalizeCatalogSnapshot s)) = Inr schema"
    "build_variants L schema (normalizeCatalogSnapshot s) (map (normalize_item L) (in_order items)) = Inr u"
    "marshalAndValidateUploadCardsRequest L [\<lparr>uq_SubjectID = su_SubjectID subject, uq_Variants = u\<rparr>] = Inr (cpp_EncodedRequest p)"
    "cpp_SubjectID p = su_SubjectID subject" "cpp_Request p = [\<lparr>uq_SubjectID = su_SubjectID subject, uq_Variants = u\<rparr>]"
    "cpp_MetadataSnapshot p = normalizeCatalogSnapshot s"
    "DigestJSON ''cardprepare-semantic:v1'' (lb_group L (map (normalize_item L) (in_order items))) = Some (cpp_SemanticDigest p)"
    "DigestJSON ''cardprepare-metadata:v1'' (lb_snapshot L (normalizeCatalogSnapshot s)) = Some (cpp_MetadataDigest p)"
    "cpp_ProposalRoot p = DigestProposal (cpp_SemanticDigest p) (cpp_MetadataDigest p) (cpp_EncodedRequest p)"
    "cpp_Limits p = cs_Limits s" "cpp_LimitsObservedAt p = cs_ObservedAt s" "cs_ObservedAt s \<noteq> 0"
    "\<not> limits_broken (cs_Limits s)" "re_Outcome r = outcome OutcomePrepared 0 []"
proof -
  let ?s = "normalizeCatalogSnapshot s"
  have keep: "cs_Limits ?s = cs_Limits s" "cs_ObservedAt ?s = cs_ObservedAt s" by (simp_all add: normalizeCatalogSnapshot_def)
  obtain items' where n: "normalizeSourceGroup L items = Inr items'" using assms(1) by (auto simp: Prepare_def rbind_eq_Inr_iff)
  note I = normalizeSourceGroup_items [OF n]
  obtain subject u where m: "map_group L items' ?s = Inr (subject, u)"
    and b: "build_proposal L items' ?s subject u = Inr r"
    using assms n by (auto simp: Prepare_def ended_def Let_def split: sum.splits prod.splits)
  have len: "length items' = length items" using I(1) mset_sort_by [of _ items] by (metis length_map size_mset)
  obtain schema where "resolveSubject L items' (cs_Subjects ?s) = Inr subject"
    "int (length items) \<le> lim_FreeLimits (cs_Limits s) + lim_PaidLimits (cs_Limits s)"
    "buildCharacteristicSchema L (su_SubjectID subject) (cs_Characteristics ?s) = Inr schema"
    "build_variants L schema ?s items' = Inr u" "cs_ObservedAt s \<noteq> 0" "\<not> limits_broken (cs_Limits s)"
    using m by (auto simp: map_group_def contract_error_def sbind_Inr keep len split: if_splits)
  moreover obtain encoded semantic metadata where
    "marshalAndValidateUploadCardsRequest L [\<lparr>uq_SubjectID = su_SubjectID subject, uq_Variants = u\<rparr>] = Inr encoded"
    "DigestJSON ''cardprepare-semantic:v1'' (lb_group L items') = Some semantic"
    "DigestJSON ''cardprepare-metadata:v1'' (lb_snapshot L ?s) = Some metadata"
    and r: "r = \<lparr>re_Outcome = outcome OutcomePrepared 0 [],
       re_Proposal = Some \<lparr>cpp_SubjectID = su_SubjectID subject,
         cpp_Request = [\<lparr>uq_SubjectID = su_SubjectID subject, uq_Variants = u\<rparr>],
         cpp_EncodedRequest = encoded, cpp_MetadataSnapshot = ?s, cpp_SemanticDigest = semantic,
         cpp_MetadataDigest = metadata, cpp_ProposalRoot = DigestProposal semantic metadata encoded,
         cpp_Limits = cs_Limits s, cpp_LimitsObservedAt = cs_ObservedAt s\<rparr>\<rparr>"
    using b assms(2)
    by (auto simp: build_proposal_def upload_failed_def ended_def Let_def keep split: sum.splits option.splits upload_error.splits)
  ultimately show thesis using I assms(2) by (intro that) auto
qed

lemma marshal_ok:
  assumes "marshalAndValidateUploadCardsRequest L [\<lparr>uq_SubjectID = sid, uq_Variants = u\<rparr>] = Inr encoded"
  shows "lb_request L [\<lparr>uq_SubjectID = sid, uq_Variants = u\<rparr>] = Some encoded"
    and "int (length encoded) \<le> op_MaxRequestBytes uploadCardsOperation"
    and "u \<noteq> []" "length u \<le> MaxVariantsPerGroup" "variants_err 0 0 [] u = None"
  using assms by (auto simp: marshalAndValidateUploadCardsRequest_def split: option.splits if_splits)


end
