(* ===== verification/CardPrepareFlow.thy ===== *)
theory CardPrepareFlow
  imports CardPrepare TransferStore
begin

text \<open>
  The preparation of a group-target (\<open>feature/cardprepare\<close>: \<open>service/preparation/catalog.go\<close>,
  \<open>service/workflow/processor.go\<close>, \<open>repository/postgres/proposal.go\<close>) over the tables of a transfer
  (\<open>feature/transfer/repository/postgres/preparation_source.go\<close>): the source is read, the marketplace's catalogue is
  queried for what the group uses, the outcome is stored, and the planner reads the stored proposal back.

  The answers of the marketplace during one preparation are a function of the call (\<open>catalog_transport\<close>): no call is
  made twice. Its cache per batch is left out. A cursor that no transfer has is the zero value of the struct.
\<close>

section \<open>Reading the catalogue\<close>

type_synonym 'a enveloped = "(bool \<times> 'a) result"

record catalog_transport =
  ct_CardsLimits :: "seller_id \<Rightarrow> cards_limits enveloped"
  ct_Subjects :: "seller_id \<Rightarrow> string \<Rightarrow> int \<Rightarrow> (api_subject list) enveloped"
  ct_SubjectCharacteristics :: "seller_id \<Rightarrow> int \<Rightarrow> (api_characteristic list) enveloped"
  ct_Brands :: "seller_id \<Rightarrow> int \<Rightarrow> int \<Rightarrow> (api_brand list \<times> int \<times> int) result"
  ct_Colors :: "seller_id \<Rightarrow> (string list) enveloped"
  ct_Kinds :: "seller_id \<Rightarrow> (string list) enveloped"
  ct_Countries :: "seller_id \<Rightarrow> ((string \<times> string) list) enveloped"
  ct_Seasons :: "seller_id \<Rightarrow> (string list) enveloped"
  ct_VAT :: "seller_id \<Rightarrow> (string list) enveloped"
  ct_TNVED :: "seller_id \<Rightarrow> int \<Rightarrow> (string list) enveloped"

text \<open>A step fails, ends the preparation with an outcome, or goes on.\<close>

type_synonym 'a prepare_step = "(prepare_outcome + 'a) result"

definition pbind :: "'a prepare_step \<Rightarrow> ('a \<Rightarrow> 'b prepare_step) \<Rightarrow> 'b prepare_step" where
  "pbind r f = rbind r (\<lambda>x. case x of Inl e \<Rightarrow> Inr (Inl e) | Inr y \<Rightarrow> f y)"

text \<open>\<open>envelopeOutcome\<close> on an answer.\<close>

definition opened :: "string \<Rightarrow> 'a enveloped \<Rightarrow> 'a prepare_step" where
  "opened field r =
     rbind r (\<lambda>(failed, x).
       if failed then Inr (Inl (outcome OutcomeTargetTemporarilyUnavailable 0 field)) else Inr (Inr x))"

definition maxCatalogPages :: nat where "maxCatalogPages = 1000"
definition MaxSubjectsPageSize :: nat where "MaxSubjectsPageSize = 1000"

fun subject_pages ::
  "nat \<Rightarrow> catalog_transport \<Rightarrow> seller_id \<Rightarrow> string \<Rightarrow> int \<Rightarrow> api_subject list \<Rightarrow> api_subject list prepare_step" where
  "subject_pages 0 T seller category offset acc =
     Inr (Inl (outcome OutcomeCatalogContractError 0 ''subjects_pagination''))"
| "subject_pages (Suc n) T seller category offset acc =
     pbind (opened ''subjects'' (ct_Subjects T seller category offset)) (\<lambda>page.
       if length page < MaxSubjectsPageSize then Inr (Inr (acc @ page))
       else subject_pages n T seller category (offset + int (length page)) (acc @ page))"

definition readSubjects :: "catalog_transport \<Rightarrow> seller_id \<Rightarrow> string \<Rightarrow> api_subject list prepare_step" where
  "readSubjects T seller category = subject_pages maxCatalogPages T seller category 0 []"

fun brand_pages ::
  "nat \<Rightarrow> catalog_transport \<Rightarrow> seller_id \<Rightarrow> int \<Rightarrow> int \<Rightarrow> int list \<Rightarrow> api_brand list \<Rightarrow> api_brand list prepare_step" where
  "brand_pages 0 T seller subjectID from seen acc =
     Inr (Inl (outcome OutcomeCatalogContractError 0 ''brands_pagination''))"
| "brand_pages (Suc n) T seller subjectID from seen acc =
     rbind (ct_Brands T seller subjectID from) (\<lambda>(page, nxt, matching).
       if nxt < 0 \<or> matching < 0 then Inr (Inl (outcome OutcomeCatalogContractError 0 ''brands_pagination''))
       else if nxt = 0 then Inr (Inr (acc @ page))
       else if nxt \<in> set seen then Inr (Inl (outcome OutcomeCatalogContractError 0 ''brands_pagination''))
       else brand_pages n T seller subjectID nxt (nxt # seen) (acc @ page))"

definition readBrands :: "catalog_transport \<Rightarrow> seller_id \<Rightarrow> int \<Rightarrow> api_brand list prepare_step" where
  "readBrands T seller subjectID = brand_pages maxCatalogPages T seller subjectID 0 [] []"

datatype directory_kind = DirColors | DirKinds | DirCountries | DirSeasons | DirVAT | DirTNVED

definition directoryKindForName :: "string \<Rightarrow> directory_kind option" where
  "directoryKindForName key =
     (if key \<in> {key_color, key_color_goods} then Some DirColors
      else if key = key_kind then Some DirKinds
      else if key = key_country then Some DirCountries
      else if key = key_season then Some DirSeasons
      else if key = key_vat then Some DirVAT
      else if key \<in> {key_tnved, key_tnved_joined, key_tnved_code} then Some DirTNVED
      else None)"

text \<open>The maps from identifiers and name keys to directories: the last characteristic of a key wins.\<close>

definition kind_by_id :: "prepare_lib \<Rightarrow> api_characteristic list \<Rightarrow> int \<Rightarrow> directory_kind option" where
  "kind_by_id L cs i =
     (case find (\<lambda>c. ch_ID c = i \<and> directoryKindForName (normalizeKey L (ch_Name c)) \<noteq> None) (rev cs) of
        None \<Rightarrow> None | Some c \<Rightarrow> directoryKindForName (normalizeKey L (ch_Name c)))"

definition kind_by_name :: "prepare_lib \<Rightarrow> api_characteristic list \<Rightarrow> string \<Rightarrow> directory_kind option" where
  "kind_by_name L cs key =
     (if list_ex (\<lambda>c. normalizeKey L (ch_Name c) = key) cs then directoryKindForName key else None)"

definition kind_of_raw :: "prepare_lib \<Rightarrow> api_characteristic list \<Rightarrow> raw_characteristic \<Rightarrow> directory_kind option" where
  "kind_of_raw L cs r =
     (if emptyCharacteristicValue (rc_Value r) then None
      else case kind_by_id L cs (rc_ID r) of
             Some k \<Rightarrow> Some k
           | None \<Rightarrow>
               (case kind_by_name L cs (normalizeKey L (rc_Name r)) of
                  Some k \<Rightarrow> Some k
                | None \<Rightarrow> directoryKindForName (normalizeKey L (rc_Name r))))"

definition usedDirectoryKinds :: "prepare_lib \<Rightarrow> source_item list \<Rightarrow> api_characteristic list \<Rightarrow> directory_kind \<Rightarrow> bool" where
  "usedDirectoryKinds L items cs k \<longleftrightarrow>
     list_ex (\<lambda>i. list_ex (\<lambda>r. kind_of_raw L cs r = Some k) (var_Characteristics (card_Variant (so_Card i))) \<or>
                  k = DirVAT \<and> trim_space (card_VATRate (so_Card i)) \<noteq> []) items"

definition read_if :: "bool \<Rightarrow> string list prepare_step \<Rightarrow> string list prepare_step" where
  "read_if used r = (if used then r else Inr (Inr []))"

definition country_names :: "(string \<times> string) list \<Rightarrow> string list" where
  "country_names cs = concat (map (\<lambda>(name, full). if trim_space full \<noteq> [] then [name, full] else [name]) cs)"

definition readUsedDirectories ::
  "prepare_lib \<Rightarrow> catalog_transport \<Rightarrow> seller_id \<Rightarrow> int \<Rightarrow> source_item list \<Rightarrow> api_characteristic list \<Rightarrow>
     directory_snapshot prepare_step" where
  "readUsedDirectories L T seller subjectID items cs =
     (let used = usedDirectoryKinds L items cs in
      pbind (read_if (used DirColors) (opened ''directory_colors'' (ct_Colors T seller))) (\<lambda>colors.
      pbind (read_if (used DirKinds) (opened ''directory_kinds'' (ct_Kinds T seller))) (\<lambda>kinds.
      pbind (read_if (used DirCountries) (pbind (opened ''directory_countries'' (ct_Countries T seller))
               (\<lambda>names. Inr (Inr (country_names names))))) (\<lambda>countries.
      pbind (read_if (used DirSeasons) (opened ''directory_seasons'' (ct_Seasons T seller))) (\<lambda>seasons.
      pbind (read_if (used DirVAT) (opened ''directory_vat'' (ct_VAT T seller))) (\<lambda>vat.
      pbind (read_if (used DirTNVED) (opened ''directory_tnved'' (ct_TNVED T seller subjectID))) (\<lambda>tnved.
        Inr (Inr \<lparr>dr_Colors = colors, dr_Kinds = kinds, dr_Countries = countries, dr_Seasons = seasons, dr_VAT = vat,
                  dr_TNVED = tnved\<rparr>))))))))"

definition groupUsesBrand :: "source_item list \<Rightarrow> bool" where
  "groupUsesBrand items \<longleftrightarrow> list_ex (\<lambda>i. trim_space (var_Brand (card_Variant (so_Card i))) \<noteq> []) items"

definition validateLocalGroupCategory :: "prepare_lib \<Rightarrow> source_item list \<Rightarrow> prepare_outcome option" where
  "validateLocalGroupCategory L items =
     (let key = normalizeKey L (card_Category (so_Card (hd items))) in
      if key = [] then Some (outcome OutcomeSubjectNotFound 0 ''category'') else category_err L key (tl items))"

text \<open>\<open>PrepareTarget\<close>; \<open>now\<close> is the clock after the limits were read.\<close>

definition read_snapshot ::
  "prepare_lib \<Rightarrow> catalog_transport \<Rightarrow> seller_id \<Rightarrow> int \<Rightarrow> source_item list \<Rightarrow> catalog_snapshot prepare_step" where
  "read_snapshot L T seller now items =
     pbind (opened ''cards_limits'' (ct_CardsLimits T seller)) (\<lambda>limits.
     if pg_time now = 0 then Inl (plain_error ''prepare target: current time is empty'')
     else
       pbind (readSubjects T seller (card_Category (so_Card (hd items)))) (\<lambda>subjects.
       pbind (Inr (resolveSubject L items subjects)) (\<lambda>subject.
       pbind (opened ''subject_characteristics'' (ct_SubjectCharacteristics T seller (su_SubjectID subject))) (\<lambda>cs.
       pbind (if groupUsesBrand items then readBrands T seller (su_SubjectID subject) else Inr (Inr [])) (\<lambda>brands.
       pbind (readUsedDirectories L T seller (su_SubjectID subject) items cs) (\<lambda>directories.
         Inr (Inr \<lparr>cs_Subjects = subjects, cs_Characteristics = cs, cs_Brands = brands, cs_Directories = directories,
                   cs_Limits = limits, cs_ObservedAt = pg_time now\<rparr>)))))))"

definition PrepareTarget ::
  "prepare_lib \<Rightarrow> catalog_transport \<Rightarrow> int \<Rightarrow> seller_id \<Rightarrow> source_item list \<Rightarrow> prepared_group result" where
  "PrepareTarget L T now seller items =
     (if \<not> trimmed seller \<or> seller = [] then Inl (plain_error ''prepare target: seller ID is invalid'')
      else
        rbind (normalizeSourceGroup L items) (\<lambda>items.
        case validateLocalGroupCategory L items of
          Some e \<Rightarrow> ended e
        | None \<Rightarrow>
            rbind (read_snapshot L T seller now items) (\<lambda>r.
              case r of Inl e \<Rightarrow> ended e | Inr snapshot \<Rightarrow> Prepare L items snapshot)))"

section \<open>The source of a group-target\<close>

record pending_group =
  pnd_GroupTargetID :: int
  pnd_SourceGroupID :: int
  pnd_TargetID :: int
  pnd_SellerID :: seller_id

definition zero_pending :: pending_group where
  "zero_pending = \<lparr>pnd_GroupTargetID = 0, pnd_SourceGroupID = 0, pnd_TargetID = 0, pnd_SellerID = []\<rparr>"

definition pending_Validate :: "pending_group \<Rightarrow> goerr option" where
  "pending_Validate g =
     (if pnd_GroupTargetID g \<le> 0 \<or> pnd_SourceGroupID g \<le> 0 \<or> pnd_TargetID g \<le> 0 \<or>
         \<not> trimmed (pnd_SellerID g) \<or> pnd_SellerID g = []
      then Some (plain_error ''transfer preparation pending group is invalid'') else None)"

definition group_target_of :: "store \<Rightarrow> group_row \<Rightarrow> stored_target option" where
  "group_target_of st g = find (\<lambda>t. tg_TransferID t = gt_TransferID g \<and> tg_ID t = gt_TargetID g) (st_targets st)"

definition key_before :: "int \<times> int \<Rightarrow> int \<times> int \<Rightarrow> bool" where
  "key_before p q \<longleftrightarrow> fst p < fst q \<or> fst p = fst q \<and> snd p < snd q"

definition pending_key :: "pending_group \<Rightarrow> int \<times> int" where
  "pending_key g = (pnd_SourceGroupID g, pnd_TargetID g)"

definition pending_row :: "int \<Rightarrow> group_row \<Rightarrow> bool" where
  "pending_row transferID g \<longleftrightarrow>
     gt_TransferID g = transferID \<and> gt_PreparationStatus g = ''running'' \<and> gt_ResultRevision g = 0"

definition pending_of :: "store \<Rightarrow> group_row \<Rightarrow> pending_group list" where
  "pending_of st g =
     (case group_target_of st g of
        None \<Rightarrow> []
      | Some t \<Rightarrow> [\<lparr>pnd_GroupTargetID = gt_ID g, pnd_SourceGroupID = gt_SourceGroupID g, pnd_TargetID = gt_TargetID g,
                    pnd_SellerID = tg_SellerID t\<rparr>])"

definition pending_groups :: "int \<Rightarrow> store \<Rightarrow> pending_group list" where
  "pending_groups transferID st =
     sort_by (\<lambda>a b. key_before (pending_key a) (pending_key b))
       (concat (map (pending_of st) (filter (pending_row transferID) (st_group_targets st))))"

fun check_pending :: "pending_group list \<Rightarrow> goerr option" where
  "check_pending [] = None"
| "check_pending (g # gs) = or_else (pending_Validate g) (check_pending gs)"

definition ListPendingPreparationGroups :: "int \<Rightarrow> int \<Rightarrow> pending_group \<Rightarrow> store \<Rightarrow> pending_group list result" where
  "ListPendingPreparationGroups transferID limit after st =
     (if transferID \<le> 0 \<or> limit \<le> 0 \<or> pnd_SourceGroupID after < 0 \<or> pnd_TargetID after < 0
      then Inl (GoErr ErrInvalidArgument ''invalid argument'')
      else
        (let page = take (nat limit) (filter (\<lambda>g. key_before (pending_key after) (pending_key g)) (pending_groups transferID st))
         in guard (check_pending page) (Inr page)))"

record prep_source_item =
  psi_TransferItemID :: int
  psi_Position :: int
  psi_VendorCode :: string
  psi_Card :: card

record prep_source =
  pso_TransferID :: int
  pso_GroupTargetID :: int
  pso_SourceGroupID :: int
  pso_TargetID :: int
  pso_SellerID :: seller_id
  pso_Items :: "prep_source_item list"

fun check_source_items :: "int list \<Rightarrow> int option \<Rightarrow> prep_source_item list \<Rightarrow> goerr option" where
  "check_source_items seen prev [] = None"
| "check_source_items seen prev (i # is) =
     or_else (first_err
      [(psi_TransferItemID i \<le> 0 \<or> psi_Position i \<le> 0 \<or> \<not> trimmed (psi_VendorCode i) \<or> psi_VendorCode i = [] \<or>
          var_VendorCode (card_Variant (psi_Card i)) \<noteq> psi_VendorCode i,
          plain_error ''transfer preparation source item is invalid''),
       ((case prev of None \<Rightarrow> False | Some p \<Rightarrow> psi_Position i \<le> p),
          plain_error ''transfer preparation source positions are not increasing''),
       (psi_TransferItemID i \<in> set seen, plain_error ''transfer preparation source item is duplicated'')])
     (check_source_items (psi_TransferItemID i # seen) (Some (psi_Position i)) is)"

definition PreparationSource_Validate :: "prep_source \<Rightarrow> goerr option" where
  "PreparationSource_Validate s =
     (if pso_TransferID s \<le> 0 \<or> pso_GroupTargetID s \<le> 0 \<or> pso_SourceGroupID s \<le> 0 \<or> pso_TargetID s \<le> 0 \<or>
         \<not> trimmed (pso_SellerID s) \<or> pso_SellerID s = [] \<or> pso_Items s = []
      then Some (plain_error ''transfer preparation source is invalid'')
      else check_source_items [] None (pso_Items s))"

definition group_source_items :: "store \<Rightarrow> group_row \<Rightarrow> source_item_row list" where
  "group_source_items st g =
     sort_by (\<lambda>a b. si_Position a < si_Position b)
       (filter (\<lambda>i. si_TransferID i = gt_TransferID g \<and> si_SourceGroupID i = gt_SourceGroupID g) (st_items st))"

fun decode_items :: "(string \<Rightarrow> card option) \<Rightarrow> source_item_row list \<Rightarrow> prep_source_item list result" where
  "decode_items decode [] = Inr []"
| "decode_items decode (i # is) =
     (case decode (si_Payload i) of
        None \<Rightarrow> Inl (plain_error ''decode transfer preparation source payload'')
      | Some c \<Rightarrow> rbind (decode_items decode is) (\<lambda>rest.
          Inr (\<lparr>psi_TransferItemID = si_ID i, psi_Position = si_Position i, psi_VendorCode = si_VendorCode i,
                psi_Card = c\<rparr> # rest)))"

definition LoadPreparationSource :: "(string \<Rightarrow> card option) \<Rightarrow> int \<Rightarrow> int \<Rightarrow> store \<Rightarrow> prep_source result" where
  "LoadPreparationSource decode transferID groupTargetID st =
     (let missing = GoErr ErrNotFound ''transfer preparation source: not found'' in
      case find (\<lambda>g. gt_TransferID g = transferID \<and> gt_ID g = groupTargetID) (st_group_targets st) of
        None \<Rightarrow> Inl missing
      | Some g \<Rightarrow>
          (case group_target_of st g of
             None \<Rightarrow> Inl missing
           | Some t \<Rightarrow>
               if \<not> transfer_active pipeline_phases transferID st \<or> gt_PreparationStatus g \<noteq> ''running'' then Inl missing
               else
                 rbind (decode_items decode (group_source_items st g)) (\<lambda>items.
                   if items = [] then Inl missing
                   else
                     (let s = \<lparr>pso_TransferID = transferID, pso_GroupTargetID = groupTargetID,
                               pso_SourceGroupID = gt_SourceGroupID g, pso_TargetID = gt_TargetID g,
                               pso_SellerID = tg_SellerID t, pso_Items = items\<rparr>
                      in guard (PreparationSource_Validate s) (Inr s)))))"

section \<open>Preparing a group-target\<close>

record prepare_env =
  pe_lib :: prepare_lib
  pe_json :: json_ops
  pe_decodeCard :: "string \<Rightarrow> card option"
  pe_transport :: "int \<Rightarrow> catalog_transport"
  pe_startedAt :: "int \<Rightarrow> int"
  pe_observedAt :: "int \<Rightarrow> int"
  pe_finishedAt :: "int \<Rightarrow> int"
  pe_now :: "int \<Rightarrow> int"

definition ErrPreparationMismatch :: goerr where
  "ErrPreparationMismatch = GoErr ErrConflict ''conflict''"

definition result_status :: "prepared_group \<Rightarrow> string" where
  "result_status r =
     (if oc_Code (re_Outcome r) = OutcomePrepared then ''succeeded''
      else if oc_Code (re_Outcome r) = OutcomeCatalogContractError then ''unresolved'' else ''rejected'')"

definition proposal_artifact :: "card_proposal \<Rightarrow> string \<Rightarrow> prep_artifact" where
  "proposal_artifact p snapshot =
     \<lparr>pf_SubjectID = cpp_SubjectID p, pf_SemanticDigest = cpp_SemanticDigest p, pf_MetadataDigest = cpp_MetadataDigest p,
      pf_ProposalRoot = cpp_ProposalRoot p, pf_RequestPayload = cpp_EncodedRequest p, pf_MetadataSnapshot = snapshot,
      pf_LimitsFree = lim_FreeLimits (cpp_Limits p), pf_LimitsPaid = lim_PaidLimits (cpp_Limits p),
      pf_LimitsObservedAt = cpp_LimitsObservedAt p\<rparr>"

text \<open>The artifact of a prepared group, nothing for the other outcomes.\<close>

definition result_artifact :: "prepare_lib \<Rightarrow> prepared_group \<Rightarrow> prep_artifact option result" where
  "result_artifact L r =
     (if oc_Code (re_Outcome r) \<noteq> OutcomePrepared then Inr None
      else case re_Proposal r of
             None \<Rightarrow> Inl (plain_error ''prepared card proposal is invalid'')
           | Some p \<Rightarrow>
               if ValidateIntegrity L p \<noteq> None then Inl (plain_error ''prepared card proposal is invalid'')
               else (case lb_snapshot L (cpp_MetadataSnapshot p) of
                       None \<Rightarrow> Inl (plain_error ''encode metadata snapshot'')
                     | Some snapshot \<Rightarrow> Inr (Some (proposal_artifact p snapshot))))"

definition result_command :: "int \<Rightarrow> int \<Rightarrow> int \<Rightarrow> int \<Rightarrow> prepared_group \<Rightarrow> prep_artifact option \<Rightarrow> prep_result" where
  "result_command transferID groupTargetID startedAt finishedAt r artifact =
     \<lparr>pz_TransferID = transferID, pz_GroupTargetID = groupTargetID, pz_Status = result_status r,
      pz_OutcomeCode = oc_Code (re_Outcome r), pz_ItemPosition = oc_ItemPosition (re_Outcome r),
      pz_Field = oc_Field (re_Outcome r), pz_StartedAt = startedAt, pz_FinishedAt = finishedAt,
      pz_ProposalRoot = (case artifact of None \<Rightarrow> zero_digest | Some a \<Rightarrow> pf_ProposalRoot a),
      pz_Artifact = artifact, pz_Revision = 1\<rparr>"

definition source_group :: "prep_source \<Rightarrow> source_item list" where
  "source_group s = map (\<lambda>i. \<lparr>so_Position = psi_Position i, so_Card = psi_Card i\<rparr>) (pso_Items s)"

definition pending_result :: "prepare_env \<Rightarrow> int \<Rightarrow> pending_group \<Rightarrow> store \<Rightarrow> prepared_group result" where
  "pending_result env transferID grp st =
     rbind (LoadPreparationSource (pe_decodeCard env) transferID (pnd_GroupTargetID grp) st) (\<lambda>source.
       if pso_SourceGroupID source \<noteq> pnd_SourceGroupID grp \<or> pso_TargetID source \<noteq> pnd_TargetID grp \<or>
          pso_SellerID source \<noteq> pnd_SellerID grp
       then Inl ErrPreparationMismatch
       else PrepareTarget (pe_lib env) (pe_transport env (pnd_GroupTargetID grp)) (pe_observedAt env (pnd_GroupTargetID grp))
              (pnd_SellerID grp) (source_group source))"

definition preparePendingGroup :: "prepare_env \<Rightarrow> int \<Rightarrow> pending_group \<Rightarrow> store \<Rightarrow> store result" where
  "preparePendingGroup env transferID grp st =
     (let k = pnd_GroupTargetID grp in
      rbind (pending_result env transferID grp st) (\<lambda>r.
        if oc_Code (re_Outcome r) = OutcomeTargetTemporarilyUnavailable
        then Inl (plain_error ''WB target is temporarily unavailable for card preparation'')
        else
          rbind (result_artifact (pe_lib env) r) (\<lambda>artifact.
            let c = result_command transferID k (pe_startedAt env k) (pe_finishedAt env k) r artifact
            in guard (ApplyPreparationResultCommand_Validate (pe_json env) c)
                 (guard (ApplyPreparationResultCommand_Validate (pe_json env) c)
                   (ApplyPreparationResult (pe_json env) (pe_now env k) c st)))))"

section \<open>The processor\<close>

text \<open>A page of pending groups: each is prepared in a transaction of its own; a failure leaves the tables alone. \<open>order\<close>
  is the order in which the goroutines reach the database.\<close>

fun prepare_page :: "prepare_env \<Rightarrow> int \<Rightarrow> pending_group list \<Rightarrow> store \<Rightarrow> store \<times> nat \<times> goerr list" where
  "prepare_page env transferID [] st = (st, 0, [])"
| "prepare_page env transferID (g # gs) st =
     (case preparePendingGroup env transferID g st of
        Inl e \<Rightarrow> (let (st', n, es) = prepare_page env transferID gs st in (st', n, e # es))
      | Inr st1 \<Rightarrow> (let (st', n, es) = prepare_page env transferID gs st1 in (st', n + 1, es)))"

definition preparationGroupBatchSize :: nat where "preparationGroupBatchSize = 100"

type_synonym cursors = "int \<rightharpoonup> pending_group"

definition cursor_of :: "cursors \<Rightarrow> int \<Rightarrow> pending_group" where
  "cursor_of cursors k = (case cursors k of None \<Rightarrow> zero_pending | Some g \<Rightarrow> g)"

definition next_cursor :: "pending_group list \<Rightarrow> int \<Rightarrow> cursors \<Rightarrow> cursors" where
  "next_cursor page k cursors =
     (if page = [] \<or> length page < preparationGroupBatchSize then cursors(k := None) else cursors(k \<mapsto> last page))"

definition processTransfer ::
  "prepare_env \<Rightarrow> (pending_group list \<Rightarrow> pending_group list) \<Rightarrow> transfer \<Rightarrow> store \<times> cursors \<Rightarrow>
     (store \<times> cursors) \<times> nat \<times> goerr list" where
  "processTransfer env order t sc =
     (let (st, cursors) = sc in
      if \<not> running_in pipeline_phases t then (sc, 0, [])
      else case BeginPreparation (pe_now env 0) (tr_ID t) st of
             Inl e \<Rightarrow> (sc, 0, [e])
           | Inr st1 \<Rightarrow>
               (case ListPendingPreparationGroups (tr_ID t) (int preparationGroupBatchSize) (cursor_of cursors (tr_ID t)) st1 of
                  Inl e \<Rightarrow> ((st1, cursors), 0, [e])
                | Inr page \<Rightarrow>
                    (let (st2, n, es) = prepare_page env (tr_ID t) (order page) st1
                     in ((st2, next_cursor page (tr_ID t) cursors), n, es))))"

section \<open>Stored proposals\<close>

record proposal_query =
  pq_TransferID :: int
  pq_GroupTargetID :: int
  pq_ProposalRoot :: digest

definition ProposalQuery_Validate :: "proposal_query \<Rightarrow> goerr option" where
  "ProposalQuery_Validate q =
     (if pq_TransferID q \<le> 0 \<or> pq_GroupTargetID q \<le> 0 \<or> pq_ProposalRoot q = zero_digest
      then Some (GoErr ErrInvalidArgument ''card preparation proposal query is invalid'') else None)"

record stored_card_proposal =
  scp_TransferID :: int
  scp_GroupTargetID :: int
  scp_SourceGroupID :: int
  scp_TargetID :: int
  scp_SellerID :: seller_id
  scp_Proposal :: card_proposal
  scp_Members :: "prepared_member list"

text \<open>\<open>json.Unmarshal\<close> into a request and into a snapshot.\<close>

record proposal_decoder =
  pd_request :: "string \<Rightarrow> upload_request list option"
  pd_snapshot :: "string \<Rightarrow> catalog_snapshot option"

definition ErrProposalNotFound :: goerr where
  "ErrProposalNotFound = GoErr ErrNotFound ''not found''"

definition member_row :: "source_item_row \<Rightarrow> prepared_member" where
  "member_row i = \<lparr>pp_TransferItemID = si_ID i, pp_ItemPosition = si_Position i, pp_VendorCode = si_VendorCode i\<rparr>"

fun members_bad :: "int option \<Rightarrow> prepared_member list \<Rightarrow> bool" where
  "members_bad prev [] = False"
| "members_bad prev (m # ms) \<longleftrightarrow>
     pp_TransferItemID m \<le> 0 \<or> pp_ItemPosition m \<le> 0 \<or> (case prev of None \<Rightarrow> False | Some p \<Rightarrow> pp_ItemPosition m \<le> p) \<or>
     \<not> trimmed (pp_VendorCode m) \<or> pp_VendorCode m = [] \<or> members_bad (Some (pp_ItemPosition m)) ms"

definition validateStoredProposal :: "prepare_lib \<Rightarrow> stored_card_proposal \<Rightarrow> bool" where
  "validateStoredProposal L s \<longleftrightarrow>
     0 < scp_SourceGroupID s \<and> 0 < scp_TargetID s \<and> trimmed (scp_SellerID s) \<and> scp_SellerID s \<noteq> [] \<and>
     ValidateIntegrity L (scp_Proposal s) = None"

definition stored_of ::
  "proposal_query \<Rightarrow> group_row \<Rightarrow> stored_target \<Rightarrow> artifact_row \<Rightarrow> source_item_row list \<Rightarrow> upload_request list \<Rightarrow>
     catalog_snapshot \<Rightarrow> stored_card_proposal" where
  "stored_of q g t a items request snapshot =
     \<lparr>scp_TransferID = pq_TransferID q, scp_GroupTargetID = pq_GroupTargetID q, scp_SourceGroupID = gt_SourceGroupID g,
      scp_TargetID = gt_TargetID g, scp_SellerID = tg_SellerID t,
      scp_Proposal = \<lparr>cpp_SubjectID = af_SubjectID a, cpp_Request = request, cpp_EncodedRequest = af_RequestPayload a,
        cpp_MetadataSnapshot = snapshot, cpp_SemanticDigest = af_SemanticDigest a, cpp_MetadataDigest = af_MetadataDigest a,
        cpp_ProposalRoot = af_ProposalRoot a,
        cpp_Limits = \<lparr>lim_FreeLimits = af_LimitsFree a, lim_PaidLimits = af_LimitsPaid a\<rparr>,
        cpp_LimitsObservedAt = af_LimitsObservedAt a\<rparr>,
      scp_Members = map member_row items\<rparr>"

definition decodeStoredProposal ::
  "prepare_lib \<Rightarrow> proposal_decoder \<Rightarrow> proposal_query \<Rightarrow> group_row \<times> stored_target \<times> artifact_row \<times> source_item_row list \<Rightarrow>
     stored_card_proposal result" where
  "decodeStoredProposal L D q row =
     (case row of (g, t, a, items) \<Rightarrow>
      if items = [] \<or> length (af_SemanticDigest a) \<noteq> 32 \<or> length (af_MetadataDigest a) \<noteq> 32 \<or>
         length (af_ProposalRoot a) \<noteq> 32 \<or> af_ProposalRoot a \<noteq> pq_ProposalRoot q
      then Inl ErrPreparationMismatch
      else case pd_request D (af_RequestPayload a) of
             None \<Rightarrow> Inl (plain_error ''decode card preparation request'')
           | Some request \<Rightarrow>
               if lb_request L request \<noteq> Some (af_RequestPayload a) then Inl ErrPreparationMismatch
               else case pd_snapshot D (af_MetadataSnapshot a) of
                      None \<Rightarrow> Inl (plain_error ''decode card preparation metadata snapshot'')
                    | Some snapshot \<Rightarrow>
                        let s = stored_of q g t a items request snapshot in
                        if members_bad None (scp_Members s) \<or> \<not> validateStoredProposal L s \<or>
                           map pp_VendorCode (scp_Members s) \<noteq> map uv_VendorCode (uq_Variants (hd request))
                        then Inl ErrPreparationMismatch else Inr s)"

definition proposal_row ::
  "store \<Rightarrow> proposal_query \<Rightarrow> (group_row \<times> stored_target \<times> artifact_row \<times> source_item_row list) option" where
  "proposal_row st q =
     (case find (\<lambda>g. gt_TransferID g = pq_TransferID q \<and> gt_ID g = pq_GroupTargetID q \<and>
                     gt_PreparationStatus g = ''succeeded'' \<and> gt_ProposalRoot g = Some (pq_ProposalRoot q)) (st_group_targets st) of
        None \<Rightarrow> None
      | Some g \<Rightarrow>
          (case (group_target_of st g,
                 find (\<lambda>a. af_TransferID a = gt_TransferID g \<and> af_GroupTargetID a = gt_ID g \<and>
                           af_ProposalRoot a = pq_ProposalRoot q) (st_artifacts st)) of
             (Some t, Some a) \<Rightarrow> Some (g, t, a, group_source_items st g)
           | _ \<Rightarrow> None))"

definition maxProposalBatchSize :: nat where "maxProposalBatchSize = 100"

fun check_queries :: "int \<Rightarrow> proposal_query list \<Rightarrow> goerr option" where
  "check_queries transferID [] = None"
| "check_queries transferID (q # qs) =
     or_else (ProposalQuery_Validate q)
       (if pq_TransferID q \<noteq> transferID then Some (plain_error ''card preparation proposal batch spans transfers'')
        else check_queries transferID qs)"

definition LoadProposals ::
  "prepare_lib \<Rightarrow> proposal_decoder \<Rightarrow> proposal_query list \<Rightarrow> store \<Rightarrow> stored_card_proposal list result" where
  "LoadProposals L D queries st =
     (if queries = [] \<or> maxProposalBatchSize < length queries
      then Inl (plain_error ''card preparation proposal batch size is invalid'')
      else guard (check_queries (pq_TransferID (hd queries)) queries)
        (if list_ex (\<lambda>q. proposal_row st q = None) queries then Inl ErrProposalNotFound
         else traverse (\<lambda>q. decodeStoredProposal L D q (the (proposal_row st q))) queries))"

end
