(* ===== verification/CardPrepareStored.thy ===== *)
theory CardPrepareStored
  imports CardPrepareProps CardPrepareFlow TransferProjections
begin

text \<open>
  The preparation of a group over the tables of its transfer: what the processor stores for a prepared group is what the
  planner of publications loads, and the cursor of the processor comes to every pending group.
\<close>

section \<open>The source and the result of a pending group\<close>

lemma pg_time_idem [simp]: "pg_time (pg_time t) = pg_time t"
  by (simp add: pg_time_def)

lemma decode_items_rows:
  "decode_items decode rows = Inr items \<Longrightarrow>
     map (\<lambda>i. (psi_TransferItemID i, psi_Position i, psi_VendorCode i)) items =
     map (\<lambda>i. (si_ID i, si_Position i, si_VendorCode i)) rows"
  by (induction rows arbitrary: items) (auto simp: rbind_eq_Inr_iff split: option.splits)

lemma check_source_items_ok:
  "check_source_items seen prev items = None \<Longrightarrow>
     sorted_wrt (<) (map psi_Position items) \<and> (\<forall>i \<in> set items. (\<forall>q. prev = Some q \<longrightarrow> q < psi_Position i) \<and>
       0 < psi_TransferItemID i \<and> 0 < psi_Position i \<and> trimmed (psi_VendorCode i) \<and> psi_VendorCode i \<noteq> [] \<and>
       var_VendorCode (card_Variant (psi_Card i)) = psi_VendorCode i)"
proof (induction items arbitrary: seen prev)
  case (Cons i items)
  from Cons.prems have rest: "check_source_items (psi_TransferItemID i # seen) (Some (psi_Position i)) items = None"
    and i: "0 < psi_TransferItemID i" "0 < psi_Position i" "trimmed (psi_VendorCode i)" "psi_VendorCode i \<noteq> []"
      "var_VendorCode (card_Variant (psi_Card i)) = psi_VendorCode i" "\<And>q. prev = Some q \<Longrightarrow> q < psi_Position i"
    by (auto simp: first_err_None_iff simp del: first_err.simps split: option.splits)
  from Cons.IH [OF rest] i show ?case by force
qed simp

lemma member_row_simps [simp]:
  "pp_TransferItemID (member_row i) = si_ID i" "pp_ItemPosition (member_row i) = si_Position i"
  "pp_VendorCode (member_row i) = si_VendorCode i"
  by (simp_all add: member_row_def)

lemma members_bad_rows:
  assumes "sorted_wrt (<) (map si_Position rows)"
    and "\<forall>i \<in> set rows. 0 < si_ID i \<and> 0 < si_Position i \<and> trimmed (si_VendorCode i) \<and> si_VendorCode i \<noteq> [] \<and>
      (\<forall>q. prev = Some q \<longrightarrow> q < si_Position i)"
  shows "\<not> members_bad prev (map member_row rows)"
  using assms
proof (induction rows arbitrary: prev)
  case (Cons i rows)
  then have "\<not> members_bad (Some (si_Position i)) (map member_row rows)" by simp
  with Cons.prems(2) show ?case by (cases prev) (auto simp: not_le)
qed simp

lemma LoadPreparationSource_ok:
  assumes "LoadPreparationSource decode T k st = Inr s"
  obtains g t where "find (\<lambda>g. gt_TransferID g = T \<and> gt_ID g = k) (st_group_targets st) = Some g"
    "group_target_of st g = Some t" "gt_PreparationStatus g = ''running''"
    "decode_items decode (group_source_items st g) = Inr (pso_Items s)" "pso_Items s \<noteq> []"
    "pso_SourceGroupID s = gt_SourceGroupID g" "pso_TargetID s = gt_TargetID g" "pso_SellerID s = tg_SellerID t"
    "PreparationSource_Validate s = None"
  using assms by (auto simp: LoadPreparationSource_def Let_def rbind_eq_Inr_iff split: option.splits if_splits)

lemma pbind_Inr: "pbind r f = Inr (Inr y) \<longleftrightarrow> (\<exists>x. r = Inr (Inr x) \<and> f x = Inr (Inr y))"
proof (cases r)
  case (Inr a)
  then show ?thesis by (cases a) (simp_all add: pbind_def)
qed (simp add: pbind_def)

lemma PrepareTarget_proposal:
  assumes "PrepareTarget L T now seller items = Inr r" and "re_Proposal r = Some p"
  obtains snapshot where "Prepare L (map (normalize_item L) (in_order items)) snapshot = Inr r"
    "cs_ObservedAt snapshot = pg_time now"
proof -
  obtain items' snapshot where n: "normalizeSourceGroup L items = Inr items'"
    and s: "read_snapshot L T seller now items' = Inr (Inr snapshot)" and p: "Prepare L items' snapshot = Inr r"
  proof -
    obtain items' where n: "normalizeSourceGroup L items = Inr items'"
      using assms(1) by (auto simp: PrepareTarget_def rbind_eq_Inr_iff split: if_splits)
    moreover have "validateLocalGroupCategory L items' = None"
      using assms n by (cases "validateLocalGroupCategory L items'") (auto simp: PrepareTarget_def ended_def split: if_splits)
    moreover obtain e where "read_snapshot L T seller now items' = Inr e"
      using assms(1) calculation by (auto simp: PrepareTarget_def rbind_eq_Inr_iff split: if_splits)
    ultimately show thesis
      using assms that by (cases e) (auto simp: PrepareTarget_def ended_def split: if_splits)
  qed
  from s have "cs_ObservedAt snapshot = pg_time now"
    by (auto simp: read_snapshot_def pbind_Inr split: if_split_asm)
  with p show thesis unfolding normalizeSourceGroup_items(1) [OF n] by (intro that)
qed


text \<open>A proposal that has been stored for a pending group.\<close>

lemma preparePendingGroup_stored:
  assumes "preparePendingGroup env T grp st = Inr st'" and "pending_result env T grp st = Inr r" and "re_Proposal r = Some p"
  obtains s g t snapshot c where
    "LoadPreparationSource (pe_decodeCard env) T (pnd_GroupTargetID grp) st = Inr s"
    "pso_SourceGroupID s = pnd_SourceGroupID grp" "pso_TargetID s = pnd_TargetID grp" "pso_SellerID s = pnd_SellerID grp"
    "Prepare (pe_lib env) (map (normalize_item (pe_lib env)) (in_order (source_group s))) snapshot = Inr r"
    "cs_ObservedAt snapshot = pg_time (pe_observedAt env (pnd_GroupTargetID grp))"
    "ValidateIntegrity (pe_lib env) p = None"
    "lb_snapshot (pe_lib env) (cpp_MetadataSnapshot p) = Some t"
    "c = result_command T (pnd_GroupTargetID grp) (pe_startedAt env (pnd_GroupTargetID grp))
       (pe_finishedAt env (pnd_GroupTargetID grp)) r (Some (proposal_artifact p t))"
    "ApplyPreparationResult (pe_json env) (pe_now env (pnd_GroupTargetID grp)) c st = Inr st'"
    "result_status r = ''succeeded''"
proof -
  let ?L = "pe_lib env" and ?k = "pnd_GroupTargetID grp"
  obtain s where s: "LoadPreparationSource (pe_decodeCard env) T ?k st = Inr s"
    "pso_SourceGroupID s = pnd_SourceGroupID grp" "pso_TargetID s = pnd_TargetID grp" "pso_SellerID s = pnd_SellerID grp"
    and target: "PrepareTarget ?L (pe_transport env ?k) (pe_observedAt env ?k) (pnd_SellerID grp) (source_group s) = Inr r"
    using assms(2) by (auto simp: pending_result_def rbind_eq_Inr_iff split: if_splits)
  obtain snapshot where P: "Prepare ?L (map (normalize_item ?L) (in_order (source_group s))) snapshot = Inr r"
    "cs_ObservedAt snapshot = pg_time (pe_observedAt env ?k)"
    by (rule PrepareTarget_proposal [OF target assms(3)])
  have code: "oc_Code (re_Outcome r) = OutcomePrepared"
    by (rule Prepare_proposal [OF P(1) assms(3)]) (simp add: outcome_def)
  then have status: "result_status r = ''succeeded''" by (simp add: result_status_def)
  have "oc_Code (re_Outcome r) \<noteq> OutcomeTargetTemporarilyUnavailable" by (simp add: code prepare_outcomes)
  then obtain artifact where a: "result_artifact ?L r = Inr artifact"
    and applied: "ApplyPreparationResult (pe_json env) (pe_now env ?k)
      (result_command T ?k (pe_startedAt env ?k) (pe_finishedAt env ?k) r artifact) st = Inr st'"
    using assms(1,2) by (auto simp: preparePendingGroup_def Let_def rbind_eq_Inr_iff)
  from a code assms(3) obtain t where "ValidateIntegrity ?L p = None" "lb_snapshot ?L (cpp_MetadataSnapshot p) = Some t"
    "artifact = Some (proposal_artifact p t)"
    by (auto simp: result_artifact_def split: if_splits option.splits)
  with s P applied status show thesis by (intro that) auto
qed

section \<open>The rows\<close>

lemma find_conj: "find P xs = Some x \<Longrightarrow> Q x \<Longrightarrow> find (\<lambda>x. P x \<and> Q x) xs = Some x"
  by (induction xs) (auto split: if_splits)

lemma find_last: "\<not> list_ex P xs \<Longrightarrow> P x \<Longrightarrow> find P (xs @ [x]) = Some x"
  by (induction xs) auto

lemma preparation_tables:
  assumes "finishPreparationItems now c st = Inr st1" and "advanceTransferAfterPreparation now k st1 = Inr st'"
  shows "st_targets st' = st_targets st" "st_items st' = st_items st"
proof -
  have "st_targets st1 = st_targets st \<and> st_items st1 = st_items st"
    using assms(1) by (auto simp: finishPreparationItems_def rbind_eq_Inr_iff split: if_splits)
  moreover have "st_targets st' = st_targets st1 \<and> st_items st' = st_items st1"
    using assms(2) by (auto simp: advanceTransferAfterPreparation_def Let_def rbind_eq_Inr_iff)
  ultimately show "st_targets st' = st_targets st" "st_items st' = st_items st" by simp_all
qed

lemma ApplyPreparationResult_rows:
  assumes "ApplyPreparationResult jo now c st = Inr st'" and ok: "pz_Status c = ''succeeded''" and a: "pz_Artifact c = Some a"
    and g: "find (\<lambda>g. gt_TransferID g = pz_TransferID c \<and> gt_ID g = pz_GroupTargetID c) (st_group_targets st) = Some g"
    and running: "gt_PreparationStatus g = ''running''"
  shows "find (\<lambda>g. gt_TransferID g = pz_TransferID c \<and> gt_ID g = pz_GroupTargetID c) (st_group_targets st') =
      Some (prepared_group_row now c g) \<and>
    find (\<lambda>b. af_TransferID b = pz_TransferID c \<and> af_GroupTargetID b = pz_GroupTargetID c) (st_artifacts st') =
      Some (artifact_of c a) \<and>
    artifact_checks jo (artifact_of c a) \<and> st_targets st' = st_targets st \<and> st_items st' = st_items st"
  using assms(1)
proof (cases rule: ApplyPreparationResult_cases)
  case (repeated t g')
  with g running show ?thesis by (simp add: prepared_status_def)
next
  case (stored t g' st1 rows n st3)
  let ?key = "\<lambda>g. gt_TransferID g = pz_TransferID c \<and> gt_ID g = pz_GroupTargetID c"
  let ?p = "\<lambda>g. gt_TransferID g = pz_TransferID c \<and> gt_ID g = pz_GroupTargetID c \<and>
         gt_PreparationStatus g = ''running'' \<and> gt_ResultRevision g = 0"
  from stored(7) ok a have ins: "insertArtifact jo (artifact_of c a) st = Inr st1" by simp
  then have st1: "st1 = st\<lparr>st_artifacts := st_artifacts st @ [artifact_of c a]\<rparr>" and checks: "artifact_checks jo (artifact_of c a)"
    and new: "\<not> list_ex (\<lambda>b. af_TransferID b = pz_TransferID c \<and> af_GroupTargetID b = pz_GroupTargetID c) (st_artifacts st)"
    by (auto simp: insertArtifact_def artifact_of_def list_ex_iff split: if_splits)
  note kept = preparation_kept [OF stored(9,10)] and tables = preparation_tables [OF stored(9,10)]
  have "find ?key rows = map_option (\<lambda>r. if ?p r then prepared_group_row now c r else r) (find ?key (st_group_targets st1))"
    unfolding pg_updateD(1) [OF stored(8)] by (rule find_update_where) simp
  then have "find ?key (st_group_targets st') = Some (prepared_group_row now c g)"
    using stored(2,4,5) kept(1) g by (auto simp: find_Some_iff st1)
  moreover have "find (\<lambda>b. af_TransferID b = pz_TransferID c \<and> af_GroupTargetID b = pz_GroupTargetID c) (st_artifacts st') =
      Some (artifact_of c a)"
    using find_last [OF new, of "artifact_of c a"] kept(2) by (simp add: st1 artifact_of_def)
  moreover have "st_targets st' = st_targets st" "st_items st' = st_items st" using tables by (simp_all add: st1)
  ultimately show ?thesis using checks by simp
qed

text \<open>The rows the reader joins for the query of a stored proposal.\<close>

lemma stored_proposal_row:
  assumes "ApplyPreparationResult jo now c st = Inr st'" and "pz_Status c = ''succeeded''" and "pz_Artifact c = Some a"
    and root: "pz_ProposalRoot c = pf_ProposalRoot a"
    and g: "find (\<lambda>g. gt_TransferID g = pz_TransferID c \<and> gt_ID g = pz_GroupTargetID c) (st_group_targets st) = Some g"
    and "gt_PreparationStatus g = ''running''" and t: "group_target_of st g = Some t"
  shows "proposal_row st' \<lparr>pq_TransferID = pz_TransferID c, pq_GroupTargetID = pz_GroupTargetID c, pq_ProposalRoot = pf_ProposalRoot a\<rparr> =
      Some (prepared_group_row now c g, t, artifact_of c a, group_source_items st g)"
    and "artifact_checks jo (artifact_of c a)"
proof -
  let ?g = "prepared_group_row now c g"
  note R = ApplyPreparationResult_rows [OF assms(1-3) g assms(6)]
  have gid: "gt_TransferID g = pz_TransferID c" "gt_ID g = pz_GroupTargetID c" using g by (auto simp: find_Some_iff)
  have gf: "gt_TransferID ?g = pz_TransferID c" "gt_ID ?g = pz_GroupTargetID c" "gt_PreparationStatus ?g = ''succeeded''"
    "gt_ProposalRoot ?g = Some (pf_ProposalRoot a)" "gt_TargetID ?g = gt_TargetID g" "gt_SourceGroupID ?g = gt_SourceGroupID g"
    by (simp_all add: prepared_group_row_def touch_group_def assms(2) root gid)
  have "group_target_of st' ?g = Some t" "group_source_items st' ?g = group_source_items st g"
    using t R by (simp_all add: group_target_of_def group_source_items_def gf gid)
  moreover have "find (\<lambda>g. (gt_TransferID g = pz_TransferID c \<and> gt_ID g = pz_GroupTargetID c) \<and>
      gt_PreparationStatus g = ''succeeded'' \<and> gt_ProposalRoot g = Some (pf_ProposalRoot a)) (st_group_targets st') = Some ?g"
    by (rule find_conj [OF conjunct1 [OF R]]) (simp add: gf)
  moreover have "find (\<lambda>b. (af_TransferID b = pz_TransferID c \<and> af_GroupTargetID b = pz_GroupTargetID c) \<and>
      af_ProposalRoot b = pf_ProposalRoot a) (st_artifacts st') = Some (artifact_of c a)"
    by (rule find_conj [OF conjunct1 [OF conjunct2 [OF R]]]) (simp add: artifact_of_def)
  ultimately show "proposal_row st' \<lparr>pq_TransferID = pz_TransferID c, pq_GroupTargetID = pz_GroupTargetID c, pq_ProposalRoot = pf_ProposalRoot a\<rparr> =
      Some (?g, t, artifact_of c a, group_source_items st g)" by (simp add: proposal_row_def gf gid)
  show "artifact_checks jo (artifact_of c a)" using R by simp
qed

section \<open>The round trip\<close>

lemma Prepare_members:
  assumes "Prepare L (map (normalize_item L) (in_order (source_group s))) snapshot = Inr r" and "re_Proposal r = Some p"
    and "PreparationSource_Validate s = None"
  shows "map uv_VendorCode (uq_Variants (hd (cpp_Request p))) = map psi_VendorCode (pso_Items s)"
proof -
  define items where "items = map (normalize_item L) (source_group s)"
  have "check_source_items [] None (pso_Items s) = None"
    using assms(3) by (auto simp: PreparationSource_Validate_def split: if_splits)
  note C = check_source_items_ok [OF this]
  have mono: "sorted_wrt (\<lambda>a b. so_Position a < so_Position b) (source_group s)"
    using C by (simp add: source_group_def sorted_wrt_map)
  have sorted: "sorted_wrt (\<lambda>a b. \<not> so_Position b < so_Position a) (source_group s)"
    by (rule sorted_wrt_mono_rel [OF _ mono]) simp
  then have one: "map (normalize_item L) (in_order (source_group s)) = items"
    by (simp add: positions.sort_id items_def)
  have "sorted_wrt (\<lambda>a b. \<not> so_Position b < so_Position a) items"
    using sorted by (simp add: sorted_wrt_map normalize_item_def items_def)
  then have two: "in_order items = items" by (rule positions.sort_id)
  obtain sid u where request: "cpp_Request p = [\<lparr>uq_SubjectID = sid, uq_Variants = u\<rparr>]"
    and codes: "map uv_VendorCode u = map (\<lambda>i. trim_space (var_VendorCode (card_Variant (so_Card i)))) items"
  proof (rule Prepare_proposal [OF assms(1) [unfolded one] assms(2)])
    fix subject schema u
    assume var: "build_variants L schema (normalizeCatalogSnapshot snapshot) (map (normalize_item L) (in_order items)) = Inr u"
      and request: "cpp_Request p = [\<lparr>uq_SubjectID = su_SubjectID subject, uq_Variants = u\<rparr>]"
    show thesis by (rule that [OF request build_variants_codes [OF var [unfolded two]]])
  qed
  have "map (\<lambda>i. trim_space (var_VendorCode (card_Variant (so_Card i)))) items = map psi_VendorCode (pso_Items s)"
    using C by (auto simp: items_def source_group_def normalize_item_def cloneAndNormalizeCard_def normalize_variant_def)
  with codes show ?thesis by (simp add: request)
qed

lemma source_members_ok:
  assumes "decode_items decode rows = Inr (pso_Items s)" and "PreparationSource_Validate s = None"
  shows "\<not> members_bad None (map member_row rows)" and "map si_VendorCode rows = map psi_VendorCode (pso_Items s)"
proof -
  have "check_source_items [] None (pso_Items s) = None"
    using assms(2) by (auto simp: PreparationSource_Validate_def split: if_splits)
  note C = check_source_items_ok [OF this] and R = decode_items_rows [OF assms(1)]
  let ?f = "\<lambda>i. (psi_TransferItemID i, psi_Position i, psi_VendorCode i)" and ?h = "\<lambda>i. (si_ID i, si_Position i, si_VendorCode i)"
  have R2: "map si_Position rows = map psi_Position (pso_Items s)"
    using arg_cong [OF R, of "map (fst \<circ> snd)"] by (simp add: comp_def)
  show "map si_VendorCode rows = map psi_VendorCode (pso_Items s)"
    using arg_cong [OF R, of "map (snd \<circ> snd)"] by (simp add: comp_def)
  have "0 < si_ID i \<and> 0 < si_Position i \<and> trimmed (si_VendorCode i) \<and> si_VendorCode i \<noteq> []" if "i \<in> set rows" for i
  proof -
    from that have "?h i \<in> ?h ` set rows" by (rule imageI)
    then have "?h i \<in> ?f ` set (pso_Items s)" using arg_cong [OF R, of set] by simp
    then obtain j where j: "j \<in> set (pso_Items s)" "si_ID i = psi_TransferItemID j" "si_Position i = psi_Position j"
      "si_VendorCode i = psi_VendorCode j" by auto
    with C show ?thesis by simp
  qed
  then have "\<forall>i \<in> set rows. 0 < si_ID i \<and> 0 < si_Position i \<and> trimmed (si_VendorCode i) \<and> si_VendorCode i \<noteq> []"
    by blast
  then show "\<not> members_bad None (map member_row rows)"
    using C by (intro members_bad_rows) (simp_all add: R2)
qed

lemma decode_prepared:
  assumes "ValidateIntegrity L p = None" and enc: "lb_snapshot L (cpp_MetadataSnapshot p) = Some encoded"
    and request: "pd_request D (cpp_EncodedRequest p) = Some (cpp_Request p)"
    and snapshot: "pd_snapshot D encoded = Some (cpp_MetadataSnapshot p)"
    and row: "row = artifact_of c (proposal_artifact p encoded)" "artifact_checks jo row"
    and members: "items \<noteq> []" "\<not> members_bad None (map member_row items)"
      "map si_VendorCode items = map uv_VendorCode (uq_Variants (hd (cpp_Request p)))"
    and q: "pq_ProposalRoot q = cpp_ProposalRoot p"
    and stored: "stored_of q g t row items (cpp_Request p) (cpp_MetadataSnapshot p) = s" "validateStoredProposal L s"
  shows "decodeStoredProposal L D q (g, t, row, items) = Inr s"
proof -
  have "lb_request L (cpp_Request p) = Some (cpp_EncodedRequest p)"
    using assms(1) by (auto simp: ValidateIntegrity_def first_err_None_iff split: if_splits)
  moreover have "length (af_SemanticDigest row) = 32 \<and> length (af_MetadataDigest row) = 32 \<and> length (af_ProposalRoot row) = 32"
    using row(2) by (simp add: artifact_checks_def)
  moreover have "af_RequestPayload row = cpp_EncodedRequest p" "af_MetadataSnapshot row = encoded" "af_ProposalRoot row = cpp_ProposalRoot p"
    by (simp_all add: row(1) artifact_of_def proposal_artifact_def)
  moreover have "scp_Members s = map member_row items" using stored(1) by (auto simp: stored_of_def)
  ultimately show ?thesis
    using members request snapshot enc q stored by (simp add: decodeStoredProposal_def comp_def)
qed

lemma proposal_query_ok:
  assumes "LoadPreparationSource decode T k st = Inr s" and "PreparationSource_Validate s = None"
    and "ValidateIntegrity L p = None"
  shows "ProposalQuery_Validate \<lparr>pq_TransferID = T, pq_GroupTargetID = k, pq_ProposalRoot = cpp_ProposalRoot p\<rparr> = None"
proof -
  have "0 < T" "0 < k" using assms(1,2)
    by (auto simp: PreparationSource_Validate_def LoadPreparationSource_def Let_def rbind_eq_Inr_iff split: if_splits option.splits)
  moreover have "cpp_ProposalRoot p \<noteq> zero_digest" using assms(3) by (auto simp: ValidateIntegrity_def split: if_splits)
  ultimately show ?thesis by (simp add: ProposalQuery_Validate_def)
qed

text \<open>C11: What the preparation of a pending group has stored is what the planner of publications loads: the query with the
  root of the proposal finds it, all checks of the reader pass, and the proposal that comes back is the prepared one, with
  the seller and the source group of the pending group and one member per variant of the request, in its order.\<close>

theorem prepared_proposal_roundtrip:
  assumes "preparePendingGroup env T grp st = Inr st'" and "pending_result env T grp st = Inr r" and "re_Proposal r = Some p"
    and request: "pd_request D (cpp_EncodedRequest p) = Some (cpp_Request p)"
    and snapshot: "\<And>text. lb_snapshot (pe_lib env) (cpp_MetadataSnapshot p) = Some text \<Longrightarrow>
      pd_snapshot D text = Some (cpp_MetadataSnapshot p)"
  shows "\<exists>s. LoadProposals (pe_lib env) D
       [\<lparr>pq_TransferID = T, pq_GroupTargetID = pnd_GroupTargetID grp, pq_ProposalRoot = cpp_ProposalRoot p\<rparr>] st' = Inr [s] \<and>
     scp_Proposal s = p \<and> scp_SourceGroupID s = pnd_SourceGroupID grp \<and> scp_TargetID s = pnd_TargetID grp \<and>
     scp_SellerID s = pnd_SellerID grp \<and>
     map pp_VendorCode (scp_Members s) = map uv_VendorCode (uq_Variants (hd (cpp_Request p)))"
proof (rule preparePendingGroup_stored [OF assms(1-3)])
  fix s snap encoded c
  let ?k = "pnd_GroupTargetID grp" and ?L = "pe_lib env"
  let ?q = "\<lparr>pq_TransferID = T, pq_GroupTargetID = ?k, pq_ProposalRoot = cpp_ProposalRoot p\<rparr>"
  assume src: "LoadPreparationSource (pe_decodeCard env) T ?k st = Inr s" "pso_SourceGroupID s = pnd_SourceGroupID grp"
      "pso_TargetID s = pnd_TargetID grp" "pso_SellerID s = pnd_SellerID grp"
    and prep: "Prepare ?L (map (normalize_item ?L) (in_order (source_group s))) snap = Inr r"
    and observed: "cs_ObservedAt snap = pg_time (pe_observedAt env ?k)"
    and valid: "ValidateIntegrity ?L p = None" and enc: "lb_snapshot ?L (cpp_MetadataSnapshot p) = Some encoded"
    and c: "c = result_command T ?k (pe_startedAt env ?k) (pe_finishedAt env ?k) r (Some (proposal_artifact p encoded))"
    and applied: "ApplyPreparationResult (pe_json env) (pe_now env ?k) c st = Inr st'"
    and status: "result_status r = ''succeeded''"
  obtain g t where g: "find (\<lambda>g. gt_TransferID g = T \<and> gt_ID g = ?k) (st_group_targets st) = Some g"
    "group_target_of st g = Some t" "gt_PreparationStatus g = ''running''"
    and rows: "decode_items (pe_decodeCard env) (group_source_items st g) = Inr (pso_Items s)" "pso_Items s \<noteq> []"
    and same: "pso_SourceGroupID s = gt_SourceGroupID g" "pso_TargetID s = gt_TargetID g" "pso_SellerID s = tg_SellerID t"
    and s: "PreparationSource_Validate s = None"
    by (rule LoadPreparationSource_ok [OF src(1)])
  let ?now = "pe_now env ?k" and ?a = "proposal_artifact p encoded"
  let ?g = "prepared_group_row ?now c g" and ?row = "artifact_of c ?a"
  have cf: "pz_TransferID c = T" "pz_GroupTargetID c = ?k" "pz_Status c = ''succeeded''" "pz_Artifact c = Some ?a"
    "pz_ProposalRoot c = cpp_ProposalRoot p"
    by (simp_all add: c result_command_def status proposal_artifact_def)
  have af: "pf_ProposalRoot ?a = cpp_ProposalRoot p" by (simp add: proposal_artifact_def)
  have row: "proposal_row st' ?q = Some (?g, t, ?row, group_source_items st g)" and checks: "artifact_checks (pe_json env) ?row"
    using stored_proposal_row [OF applied cf(3,4), of g t] g by (simp_all add: cf af)
  have gf: "gt_SourceGroupID ?g = gt_SourceGroupID g" "gt_TargetID ?g = gt_TargetID g"
    by (simp_all add: prepared_group_row_def touch_group_def)
  note M = source_members_ok [OF rows(1) s]
  have codes: "map si_VendorCode (group_source_items st g) = map uv_VendorCode (uq_Variants (hd (cpp_Request p)))"
    using M(2) Prepare_members [OF prep assms(3) s] by simp
  have "cpp_LimitsObservedAt p = cs_ObservedAt snap" by (rule Prepare_proposal [OF prep assms(3)])
  then have limits: "pg_time (cpp_LimitsObservedAt p) = cpp_LimitsObservedAt p" by (simp add: observed)
  have "stored_of ?q ?g t ?row (group_source_items st g) (cpp_Request p) (cpp_MetadataSnapshot p) =
     \<lparr>scp_TransferID = T, scp_GroupTargetID = ?k, scp_SourceGroupID = pnd_SourceGroupID grp,
      scp_TargetID = pnd_TargetID grp, scp_SellerID = pnd_SellerID grp, scp_Proposal = p,
      scp_Members = map member_row (group_source_items st g)\<rparr>" (is "_ = ?s")
    using same src(2-4) by (simp add: stored_of_def artifact_of_def proposal_artifact_def gf limits)
  moreover have "validateStoredProposal ?L ?s"
    using valid s src(2-4) by (auto simp: validateStoredProposal_def PreparationSource_Validate_def split: if_splits)
  moreover have "group_source_items st g \<noteq> []" using rows by auto
  ultimately have "decodeStoredProposal ?L D ?q (?g, t, ?row, group_source_items st g) = Inr ?s"
    by (intro decode_prepared [OF valid enc request snapshot [OF enc] refl checks _ M(1) codes]) simp_all
  moreover note proposal_query_ok [OF src(1) s valid]
  ultimately have "LoadProposals ?L D [?q] st' = Inr [?s]"
    by (simp add: LoadProposals_def row maxProposalBatchSize_def)
  then show ?thesis using codes by (auto simp: comp_def)
qed

end
