(* ===== verification/CardPrepareTurns.thy ===== *)
theory CardPrepareTurns
  imports CardPrepareProps CardPrepareFlow
begin

text \<open>
  The paging of the preparation processor: a group that cannot be prepared, say because its seller is unavailable, does
  not keep the others from their turn. A round reads at most 100 pending groups after the cursor; a full page moves the
  cursor to its end, a short one takes it back to the start.
\<close>

section \<open>One round\<close>

lemma key_before_trans: "key_before a b \<Longrightarrow> key_before b c \<Longrightarrow> key_before a c"
  by (auto simp: key_before_def)

lemma key_before_irrefl [simp]: "\<not> key_before a a"
  by (simp add: key_before_def)

lemma key_before_total: "\<not> key_before a b \<Longrightarrow> a \<noteq> b \<Longrightarrow> key_before b a"
  by (cases a; cases b) (auto simp: key_before_def)

lemma increasing_distinct: "sorted_wrt key_before ks \<Longrightarrow> distinct ks"
  by (induction ks) auto

interpretation pending: slice_order "\<lambda>a b. key_before (pending_key a) (pending_key b)"
  by unfold_locales (auto simp: key_before_def)

abbreviation ahead :: "int \<times> int \<Rightarrow> pending_group list \<Rightarrow> pending_group list" where
  "ahead c gs \<equiv> filter (\<lambda>g. key_before c (pending_key g)) gs"

lemma pending_groups_increasing:
  assumes "distinct (map pending_key (pending_groups T st))"
  shows "sorted_wrt key_before (map pending_key (pending_groups T st))"
proof -
  have "sorted_wrt (\<lambda>a b. \<not> key_before b a) (map pending_key (pending_groups T st))"
    unfolding sorted_wrt_map pending_groups_def by (rule pending.sort_sorted)
  moreover have "sorted_wrt (\<noteq>) (map pending_key (pending_groups T st))"
    using assms by (auto simp: sorted_wrt_iff_nth_less distinct_conv_nth)
  ultimately have "sorted_wrt (\<lambda>a b. \<not> key_before b a \<and> a \<noteq> b) (map pending_key (pending_groups T st))"
    by (simp add: sorted_wrt_iff_nth_less)
  then show ?thesis by (rule sorted_wrt_mono_rel [rotated]) (use key_before_total in blast)
qed

text \<open>A full page that does not hold \<open>g\<close> ends before it, if \<open>g\<close> is ahead of the cursor.\<close>

lemma take_sorted_last:
  assumes "sorted_wrt key_before (map key xs)" and "0 < n" and "n \<le> length xs"
  shows "x \<in> set xs \<Longrightarrow> x \<notin> set (take n xs) \<Longrightarrow> key_before (key (last (take n xs))) (key x)"
    and "x \<in> set (take n xs) \<Longrightarrow> \<not> key_before (key (last (take n xs))) (key x)"
proof -
  have last: "last (take n xs) = xs ! (n - 1)" using assms(2,3) by (subst last_conv_nth) auto
  have lt: "key_before (key (xs ! i)) (key (xs ! j))" if "i < j" "j < length xs" for i j
    using sorted_wrt_nth_less [OF assms(1), of i j] that by simp
  show "key_before (key (last (take n xs))) (key x)" if x: "x \<in> set xs" and new: "x \<notin> set (take n xs)"
  proof -
    obtain j where j: "j < length xs" "x = xs ! j" using x by (auto simp: in_set_conv_nth)
    have "n \<le> j"
    proof (rule ccontr)
      assume "\<not> n \<le> j"
      then have "take n xs ! j = x" "j < length (take n xs)" using j by simp_all
      with new show False using nth_mem by metis
    qed
    with j assms(2) lt [of "n - 1" j] show ?thesis by (simp add: last)
  qed
  show "\<not> key_before (key (last (take n xs))) (key x)" if x: "x \<in> set (take n xs)"
  proof
    obtain j where j: "j < n" "j < length xs" "x = xs ! j" using x by (auto simp: in_set_conv_nth)
    assume "key_before (key (last (take n xs))) (key x)"
    then have A: "key_before (key (xs ! (n - 1))) (key (xs ! j))" by (simp add: last j)
    show False
    proof (cases "j = n - 1")
      case False
      with j have "key_before (key (xs ! j)) (key (xs ! (n - 1)))" using assms(3) by (intro lt) auto
      with A show False using key_before_trans key_before_irrefl by blast
    qed (use A in simp)
  qed
qed

lemma page_moves:
  assumes sorted: "sorted_wrt key_before (map pending_key gs)" and keys: "pending_key ` set gs \<subseteq> K" "finite K"
    and full: "n \<le> length (ahead c gs)" and "0 < n"
  shows "card {k \<in> K. key_before (pending_key (last (take n (ahead c gs)))) k} + n \<le> card {k \<in> K. key_before c k}"
proof -
  let ?page = "take n (ahead c gs)" and ?c = "pending_key (last (take n (ahead c gs)))"
  have s: "sorted_wrt key_before (map pending_key (ahead c gs))"
    using sorted by (simp add: sorted_wrt_map sorted_wrt_filter)
  note L = take_sorted_last(2) [OF s assms(5) full]
  have in_page: "x \<in> set gs \<and> key_before c (pending_key x)" if "x \<in> set ?page" for x
    using set_take_subset that by fastforce
  have dist: "distinct (map pending_key ?page)"
  proof -
    have "sorted_wrt key_before (map pending_key ?page)" using s by (simp add: take_map [symmetric] sorted_wrt_take)
    then show ?thesis by (rule increasing_distinct)
  qed
  have "last ?page \<in> set ?page" using full assms(5) by (intro last_in_set) auto
  then have up: "key_before c ?c" using in_page by blast
  let ?A = "pending_key ` set ?page" and ?B = "{k \<in> K. key_before ?c k}"
  have "card ?A = n" using distinct_card [OF dist] full by simp
  moreover have "card (?A \<union> ?B) = card ?A + card ?B" using keys(2) L by (intro card_Un_disjoint) auto
  moreover have "?A \<union> ?B \<subseteq> {k \<in> K. key_before c k}"
  proof (rule Un_least)
    show "?A \<subseteq> {k \<in> K. key_before c k}" using in_page keys(1) by blast
    show "?B \<subseteq> {k \<in> K. key_before c k}" using key_before_trans [OF up] by blast
  qed
  then have "card (?A \<union> ?B) \<le> card {k \<in> K. key_before c k}" using keys(2) by (intro card_mono) simp_all
  ultimately show ?thesis by linarith
qed

section \<open>Every turn comes\<close>

lemma ListPending_page:
  assumes "ListPendingPreparationGroups T (int preparationGroupBatchSize) after st = Inr page"
  shows "page = take preparationGroupBatchSize (ahead (pending_key after) (pending_groups T st))"
  using assms by (auto simp: ListPendingPreparationGroups_def Let_def split: if_splits option.splits)

text \<open>What is ahead of the cursor. A round holds the group, or its page is full and moves the cursor by a page, or it
  is short and takes the cursor back, which does not happen while the group is ahead.\<close>

lemma round_progress:
  assumes page: "ListPendingPreparationGroups T (int preparationGroupBatchSize) (cursor_of cursors T) st = Inr page"
    and g: "g \<in> set (pending_groups T st)" "g \<notin> set page"
    and keys: "distinct (map pending_key (pending_groups T st))" "pending_key ` set (pending_groups T st) \<subseteq> K" "finite K"
  defines "c \<equiv> pending_key (cursor_of cursors T)" and "c' \<equiv> pending_key (cursor_of (next_cursor page T cursors) T)"
  shows "(card {k \<in> K. key_before c' k} + preparationGroupBatchSize \<le> card {k \<in> K. key_before c k} \<and>
      (key_before c (pending_key g) \<longrightarrow> key_before c' (pending_key g))) \<or>
    (c' = (0, 0) \<and> \<not> key_before c (pending_key g))"
proof -
  let ?gs = "pending_groups T st" and ?n = preparationGroupBatchSize
  have n: "0 < ?n" by (simp add: preparationGroupBatchSize_def)
  note P = ListPending_page [OF page, folded c_def]
  note S = pending_groups_increasing [OF keys(1)]
  have s: "sorted_wrt key_before (map pending_key (ahead c ?gs))" using S by (simp add: sorted_wrt_map sorted_wrt_filter)
  show ?thesis
  proof (cases "?n \<le> length (ahead c ?gs)")
    case True
    with n have "page \<noteq> []" "length page = ?n" by (auto simp: P)
    then have "c' = pending_key (last (take ?n (ahead c ?gs)))" by (simp add: c'_def next_cursor_def cursor_of_def P)
    then show ?thesis
      using page_moves [OF S keys(2,3) True n] take_sorted_last(1) [OF s n True, of g] g by (auto simp: P)
  next
    case False
    then have "page = ahead c ?gs" "length page < ?n" by (simp_all add: P)
    then have "c' = (0, 0)" "\<not> key_before c (pending_key g)"
      using g by (auto simp: c'_def next_cursor_def cursor_of_def zero_pending_def pending_key_def)
    then show ?thesis by simp
  qed
qed

text \<open>The argument on numbers: while the turn does not come, what is ahead shrinks by a page, or the cursor starts again
  behind the group, which happens once.\<close>

lemma turn_ahead:
  fixes rest :: "nat \<Rightarrow> nat"
  assumes step: "\<And>i. \<not> hit i \<Longrightarrow> rest (Suc i) + b \<le> rest i \<and> (before i \<longrightarrow> before (Suc i)) \<or> before (Suc i) \<and> \<not> before i"
    and pos: "\<And>i. before i \<Longrightarrow> 0 < rest i" and "0 < b"
  shows "before i \<Longrightarrow> rest i \<le> b * n \<Longrightarrow> \<exists>d \<le> n. hit (i + d)"
proof (induction n arbitrary: i)
  case 0
  with pos show ?case by fastforce
next
  case (Suc n)
  show ?case
  proof (cases "hit i")
    case True
    then show ?thesis by (intro exI [of _ 0]) simp
  next
    case False
    with step [OF this] Suc.prems have "before (Suc i)" "rest (Suc i) \<le> b * n" by auto
    then obtain d where "d \<le> n" "hit (Suc i + d)" using Suc.IH by blast
    then show ?thesis by (intro exI [of _ "Suc d"]) simp
  qed
qed

lemma turn_comes:
  fixes rest :: "nat \<Rightarrow> nat"
  assumes step: "\<And>i. \<not> hit i \<Longrightarrow> rest (Suc i) + b \<le> rest i \<and> (before i \<longrightarrow> before (Suc i)) \<or> before (Suc i) \<and> \<not> before i"
    and pos: "\<And>i. before i \<Longrightarrow> 0 < rest i" and "0 < b" and bound: "\<And>i. rest i \<le> b * n"
  shows "rest i \<le> b * m \<Longrightarrow> \<exists>d \<le> m + n + 1. hit (i + d)"
proof (induction m arbitrary: i)
  case 0
  have "hit i \<or> before (Suc i)" using step [of i] 0 assms(3) by auto
  then show ?case
  proof
    assume "before (Suc i)"
    then obtain d where "d \<le> n" "hit (Suc i + d)" using turn_ahead [of hit rest b before, OF step pos assms(3)] bound by blast
    then show ?thesis by (intro exI [of _ "Suc d"]) simp
  qed (intro exI [of _ 0], simp)
next
  case (Suc m)
  show ?case
  proof (cases "hit i")
    case True
    then show ?thesis by (intro exI [of _ 0]) simp
  next
    case False
    have "\<exists>d \<le> m + n + 1. hit (Suc i + d)"
    proof (cases "before (Suc i)")
      case True
      then show ?thesis using turn_ahead [of hit rest b before, OF step pos assms(3)] bound by (meson trans_le_add1 trans_le_add2 order.trans)
    next
      case no: False
      with step [OF False] Suc.prems have "rest (Suc i) \<le> b * m" by auto
      then show ?thesis by (rule Suc.IH)
    qed
    then obtain d where "d \<le> m + n + 1" "hit (Suc i + d)" by blast
    then show ?thesis by (intro exI [of _ "Suc d"]) simp
  qed
qed

text \<open>C12: Every pending group is taken up, whatever happens to the others: if a transfer has at most \<open>100 n\<close> pending
  groups over a series of rounds of the processor, a group that is still pending is in the page of one of the first
  \<open>2 n + 2\<close> rounds, wherever the cursor stands at the start.\<close>

theorem pending_group_gets_its_turn:
  assumes pages: "\<And>i. ListPendingPreparationGroups T (int preparationGroupBatchSize) (cursor_of (cursors i) T) (stores i) = Inr (page i)"
    and cursor: "\<And>i. cursors (Suc i) = next_cursor (page i) T (cursors i)"
    and pending: "\<And>i. g \<in> set (pending_groups T (stores i))" and "0 < pnd_SourceGroupID g"
    and unique: "\<And>i. distinct (map pending_key (pending_groups T (stores i)))"
    and keys: "\<And>i. pending_key ` set (pending_groups T (stores i)) \<subseteq> K" "finite K" "card K \<le> preparationGroupBatchSize * n"
  shows "\<exists>i \<le> 2 * n + 1. g \<in> set (page i)"
proof -
  define c where "c = (\<lambda>i. pending_key (cursor_of (cursors i) T))"
  let ?rest = "\<lambda>i. card {k \<in> K. key_before (c i) k}" and ?before = "\<lambda>i. key_before (c i) (pending_key g)"
  have start: "key_before (0, 0) (pending_key g)" using assms(4) by (simp add: pending_key_def key_before_def)
  have bound: "?rest i \<le> preparationGroupBatchSize * n" for i
    using card_mono [OF keys(2), of "{k \<in> K. key_before (c i) k}"] keys(3) by fastforce
  have "\<exists>d \<le> n + n + 1. g \<in> set (page (0 + d))"
  proof (rule turn_comes [where hit = "\<lambda>i. g \<in> set (page i)" and rest = ?rest and before = ?before])
    show "?rest (Suc i) + preparationGroupBatchSize \<le> ?rest i \<and> (?before i \<longrightarrow> ?before (Suc i)) \<or> ?before (Suc i) \<and> \<not> ?before i"
      if "g \<notin> set (page i)" for i
      using round_progress [OF pages pending that unique keys(1,2)] start by (auto simp: c_def cursor)
    show "0 < ?rest i" if "?before i" for i
    proof -
      have "pending_key g \<in> {k \<in> K. key_before (c i) k}" using that keys(1) [of i] pending [of i] by auto
      then have "{k \<in> K. key_before (c i) k} \<noteq> {}" by blast
      then show ?thesis using keys(2) by (simp add: card_gt_0_iff)
    qed
    show "0 < preparationGroupBatchSize" by (simp add: preparationGroupBatchSize_def)
  qed (fact bound)+
  then show ?thesis by (simp add: mult_2)
qed

end
