(* ===== verification/CardPrepareSamples.thy ===== *)
theory CardPrepareSamples
  imports CardPrepareStored CardPrepareTurns TransferSamples
begin

text \<open>
  The preparation run on a group of one card with one required characteristic and one size, on the tables of
  \<open>TransferSamples\<close>. Digests stay symbolic: a root that is zero is refused by the program.
\<close>

section \<open>A group and a catalogue\<close>

definition lib_sample :: prepare_lib where
  "lib_sample =
     \<lparr>lb_toLower = (\<lambda>s. s), lb_parseFloat = (\<lambda>_. None), lb_value = (\<lambda>_. Some []), lb_request = (\<lambda>_. Some ''q''),
      lb_group = (\<lambda>_. Some ''g''), lb_snapshot = (\<lambda>_. Some ''s'')\<rparr>"

definition card_sample :: card where
  "card_sample =
     \<lparr>card_SourceRows = [2], card_Group = ''g'', card_Category = ''c'', card_Price = 9, card_KIZRequirement = [],
      card_AdultOnly = [], card_MarkingConfirmed = ''yes'', card_VATRate = [],
      card_Variant = \<lparr>var_VendorCode = ''V'', var_Title = ''t'', var_Description = [], var_Brand = [],
        var_Dimensions = \<lparr>dim_Length = FFin 1, dim_Width = FFin 1, dim_Height = FFin 1, dim_WeightBrutto = FFin 1\<rparr>,
        var_Sizes = [\<lparr>size_TechSize = [], size_WBSize = [], size_Price = 0, size_SKUs = [''k'']\<rparr>],
        var_Characteristics = [\<lparr>rc_ID = 0, rc_Name = ''m'', rc_Value = JStr ''x''\<rparr>]\<rparr>,
      card_Media = \<lparr>media_Photos = [], media_Video = []\<rparr>\<rparr>"

definition items_sample :: "source_item list" where
  "items_sample = [\<lparr>so_Position = 1, so_Card = card_sample\<rparr>]"

definition specification_sample :: "int \<Rightarrow> string \<Rightarrow> bool \<Rightarrow> api_characteristic" where
  "specification_sample i name required =
     \<lparr>ch_ID = i, ch_SubjectName = ''c'', ch_SubjectID = 7, ch_Name = name, ch_Required = required, ch_HasFilter = False,
      ch_UnitName = [], ch_MaxCount = 1, ch_Popular = False, ch_Type = 1\<rparr>"

definition no_directories :: directory_snapshot where
  "no_directories = \<lparr>dr_Colors = [], dr_Kinds = [], dr_Countries = [], dr_Seasons = [], dr_VAT = [], dr_TNVED = []\<rparr>"

definition catalog_sample :: "api_characteristic list \<Rightarrow> catalog_snapshot" where
  "catalog_sample cs =
     \<lparr>cs_Subjects = [\<lparr>su_SubjectID = 7, su_ParentID = 1, su_SubjectName = ''c'', su_ParentName = ''p''\<rparr>],
      cs_Characteristics = cs, cs_Brands = [], cs_Directories = no_directories,
      cs_Limits = \<lparr>lim_FreeLimits = 1, lim_PaidLimits = 0\<rparr>, cs_ObservedAt = 5000\<rparr>"

definition listed :: "api_characteristic list" where
  "listed = [specification_sample 12 ''n'' False, specification_sample 11 ''m'' True]"

definition request_sample :: "upload_request list" where
  "request_sample =
     [\<lparr>uq_SubjectID = 7, uq_Variants = [\<lparr>uv_VendorCode = ''V'', uv_KIZMarked = True, uv_Title = ''t'', uv_Description = [],
        uv_Brand = [], uv_Dimensions = var_Dimensions (card_Variant card_sample),
        uv_Characteristics = [\<lparr>cch_ID = 11, cch_Value = JArr [JStr ''x'']\<rparr>],
        uv_Sizes = [\<lparr>usz_TechSize = [], usz_WBSize = [], usz_Price = Some 9, usz_SKUs = [''k'']\<rparr>]\<rparr>]\<rparr>]"

lemma group_mapped:
  "normalizeSourceGroup lib_sample items_sample = Inr items_sample"
  "normalizeCatalogSnapshot (catalog_sample listed) = catalog_sample (rev listed)"
  "normalizeCatalogSnapshot (catalog_sample (rev listed)) = catalog_sample (rev listed)"
  "map_group lib_sample items_sample (catalog_sample (rev listed)) =
     Inr (hd (cs_Subjects (catalog_sample [])), uq_Variants (hd request_sample))"
  by code_simp+

lemma request_marshalled: "marshalAndValidateUploadCardsRequest lib_sample request_sample = Inr ''q''"
  by code_simp

definition semantic_sample :: digest where
  "semantic_sample = sha256 (''cardprepare-semantic:v1'' @ [CHR 0x00] @ ''g'')"

definition metadata_sample :: digest where
  "metadata_sample = sha256 (''cardprepare-metadata:v1'' @ [CHR 0x00] @ ''s'')"

definition proposal_sample :: card_proposal where
  "proposal_sample =
     \<lparr>cpp_SubjectID = 7, cpp_Request = request_sample, cpp_EncodedRequest = ''q'',
      cpp_MetadataSnapshot = catalog_sample (rev listed), cpp_SemanticDigest = semantic_sample,
      cpp_MetadataDigest = metadata_sample, cpp_ProposalRoot = DigestProposal semantic_sample metadata_sample ''q'',
      cpp_Limits = \<lparr>lim_FreeLimits = 1, lim_PaidLimits = 0\<rparr>, cpp_LimitsObservedAt = 5000\<rparr>"

lemma group_prepared:
  "Prepare lib_sample items_sample (catalog_sample listed) =
     Inr \<lparr>re_Outcome = outcome OutcomePrepared 0 [], re_Proposal = Some proposal_sample\<rparr>"
proof -
  have "[\<lparr>uq_SubjectID = 7, uq_Variants = uq_Variants (hd request_sample)\<rparr>] = request_sample"
    by (simp add: request_sample_def)
  then show ?thesis
    using request_marshalled
    by (simp add: Prepare_def group_mapped build_proposal_def proposal_sample_def Let_def)
      (simp add: lib_sample_def catalog_sample_def DigestJSON_def semantic_sample_def metadata_sample_def)
qed



section \<open>The group prepared and stored\<close>

definition transport_sample :: catalog_transport where
  "transport_sample =
     \<lparr>ct_CardsLimits = (\<lambda>_. Inr (False, cs_Limits (catalog_sample []))),
      ct_Subjects = (\<lambda>_ _ _. Inr (False, cs_Subjects (catalog_sample []))),
      ct_SubjectCharacteristics = (\<lambda>_ _. Inr (False, listed)), ct_Brands = (\<lambda>_ _ _. Inr ([], 0, 0)),
      ct_Colors = (\<lambda>_. Inr (True, [])), ct_Kinds = (\<lambda>_. Inr (True, [])), ct_Countries = (\<lambda>_. Inr (True, [])),
      ct_Seasons = (\<lambda>_. Inr (True, [])), ct_VAT = (\<lambda>_. Inr (True, [])), ct_TNVED = (\<lambda>_ _. Inr (True, []))\<rparr>"

definition prepare_env_sample :: prepare_env where
  "prepare_env_sample =
     \<lparr>pe_lib = lib_sample, pe_json = json_sample, pe_decodeCard = (\<lambda>_. Some card_sample),
      pe_transport = (\<lambda>_. transport_sample), pe_startedAt = (\<lambda>_. 4000), pe_observedAt = (\<lambda>_. 5500),
      pe_finishedAt = (\<lambda>_. 6000), pe_now = (\<lambda>_. 7000)\<rparr>"

definition pending_sample :: pending_group where
  "pending_sample = \<lparr>pnd_GroupTargetID = 5, pnd_SourceGroupID = 3, pnd_TargetID = 2, pnd_SellerID = seller_a\<rparr>"

lemma sample_source:
  "rbind (LoadPreparationSource (\<lambda>_. Some card_sample) 1 5 (store_after 3)) (\<lambda>s.
     Inr (pso_SourceGroupID s, pso_TargetID s, pso_SellerID s, source_group s)) = Inr (3, 2, seller_a, items_sample)"
  "read_snapshot lib_sample transport_sample seller_a 5500 items_sample = Inr (Inr (catalog_sample listed))"
  "validateLocalGroupCategory lib_sample items_sample = None"
  "trimmed seller_a \<and> seller_a \<noteq> []"
  by code_simp+

definition first_group :: group_row where
  "first_group = hd (st_group_targets (store_after 3))"

definition prepared_group_after :: "digest \<Rightarrow> group_row" where
  "prepared_group_after d = first_group\<lparr>gt_Revision := 2, gt_PreparationStatus := ''succeeded'', gt_ResultRevision := 1,
     gt_ResultCode := ''prepared'', gt_PreparationStartedAt := Some 4000, gt_PreparationFinishedAt := Some 6000,
     gt_UpdatedAt := 7000, gt_ProposalRoot := Some d\<rparr>"

lemma prepared_rows:
  "st_group_targets (store_after 3) = [first_group]"
  "st_artifacts (store_after 3) = []"
  "group_checks (prepared_group_after root_digest)"
  "case advanceTransferAfterPreparation 7000 1 ((store_after 3)\<lparr>st_artifacts := [a], st_group_targets := [prepared_group_after d]\<rparr>) of
     Inl _ \<Rightarrow> False | Inr _ \<Rightarrow> True"
  by code_simp+

abbreviation root_sample :: digest where
  "root_sample \<equiv> cpp_ProposalRoot proposal_sample"

definition result_sample_group :: prepared_group where
  "result_sample_group = \<lparr>re_Outcome = outcome OutcomePrepared 0 [], re_Proposal = Some proposal_sample\<rparr>"

definition prepared_command :: prep_result where
  "prepared_command = result_command 1 5 4000 6000 result_sample_group (Some (proposal_artifact proposal_sample ''s''))"

lemma sample_result: "pending_result prepare_env_sample 1 pending_sample (store_after 3) = Inr result_sample_group"
proof -
  obtain s where s: "LoadPreparationSource (\<lambda>_. Some card_sample) 1 5 (store_after 3) = Inr s"
    "pso_SourceGroupID s = 3" "pso_TargetID s = 2" "pso_SellerID s = seller_a" "source_group s = items_sample"
    using sample_source(1) by (auto simp: rbind_eq_Inr_iff)
  have "PrepareTarget lib_sample transport_sample 5500 seller_a items_sample = Inr result_sample_group"
    using sample_source(4) group_prepared
    by (simp add: PrepareTarget_def group_mapped(1) sample_source(2,3) result_sample_group_def)
  with s show ?thesis by (simp add: pending_result_def prepare_env_sample_def pending_sample_def)
qed

lemma group_checks_root:
  "length d = 32 \<Longrightarrow> group_checks (g\<lparr>gt_ProposalRoot := Some d\<rparr>) = group_checks (g\<lparr>gt_ProposalRoot := Some root_digest\<rparr>)"
  by (simp add: group_checks_def preparation_checks_def root_digest_def)

lemma sample_valid:
  assumes "semantic_sample \<noteq> zero_digest" and "root_sample \<noteq> zero_digest"
  shows "ApplyPreparationResultCommand_Validate json_sample prepared_command = None"
proof -
  have "code_ok ''prepared''" by (simp add: code_ok_def trim_space_printable printable_def)
  with assms show ?thesis
    by (simp add: ApplyPreparationResultCommand_Validate_def prepared_command_def result_command_def result_status_def
        result_sample_group_def outcome_def OutcomePrepared_def artifact_err_def proposal_artifact_def json_sample_def
        DigestJSON_def proposal_sample_def metadata_sample_def)
qed

lemma sample_integrity:
  assumes "semantic_sample \<noteq> zero_digest" and "metadata_sample \<noteq> zero_digest" and "root_sample \<noteq> zero_digest"
  shows "ValidateIntegrity lib_sample proposal_sample = None"
  using assms by (simp add: ValidateIntegrity_def proposal_sample_def request_sample_def catalog_sample_def lib_sample_def
      DigestJSON_def metadata_sample_def)

definition progress_fields ::
  "group_row \<Rightarrow> (int \<times> int \<times> string \<times> int \<times> int \<times> string) \<times> int \<times> string \<times> string \<times> int option" where
  "progress_fields g = ((gt_ID g, gt_TransferID g, gt_PreparationStatus g, gt_ResultRevision g, gt_ItemPosition g, gt_Field g),
     gt_Revision g, gt_Overall g, gt_AttentionCode g, gt_FinishedAt g)"

lemma first_group_progress:
  "progress_fields first_group = ((5, 1, ''running'', 0, 0, []), 1, ''running'', [], None)"
  by code_simp

lemma first_group_fields:
  "gt_ID first_group = 5" "gt_TransferID first_group = 1" "gt_PreparationStatus first_group = ''running''"
  "gt_ResultRevision first_group = 0" "gt_ItemPosition first_group = 0" "gt_Field first_group = []" "gt_Revision first_group = 1"
  "gt_Overall first_group = ''running''" "gt_AttentionCode first_group = []" "gt_FinishedAt first_group = None"
  using first_group_progress by (simp_all add: progress_fields_def)

lemma sample_prepared_row: "prepared_group_row 7000 prepared_command first_group = prepared_group_after root_sample"
  by (rule group_row.equality)
    (simp_all add: prepared_group_row_def prepared_group_after_def touch_group_def prepared_command_def result_command_def
      result_status_def result_sample_group_def outcome_def OutcomePrepared_def first_group_fields pg_time_def
      proposal_artifact_def)

lemma sample_applied:
  assumes "semantic_sample \<noteq> zero_digest" and "root_sample \<noteq> zero_digest"
  shows "\<exists>st'. ApplyPreparationResult json_sample 7000 prepared_command (store_after 3) = Inr st'"
proof -
  let ?a = "proposal_artifact proposal_sample ''s''"
  let ?st = "(store_after 3)\<lparr>st_artifacts := [artifact_of prepared_command ?a]\<rparr>"
  have c: "pz_TransferID prepared_command = 1" "pz_GroupTargetID prepared_command = 5" "pz_Status prepared_command = ''succeeded''"
    "pz_Artifact prepared_command = Some ?a"
    by (simp_all add: prepared_command_def result_command_def result_status_def result_sample_group_def outcome_def)
  obtain t where t: "find (\<lambda>t. tr_ID t = 1) (st_transfers (store_after 3)) = Some t" "running_in pipeline_phases t"
  proof -
    have "case find (\<lambda>t. tr_ID t = 1) (st_transfers (store_after 3)) of None \<Rightarrow> False | Some t \<Rightarrow> running_in pipeline_phases t"
      by code_simp
    then show thesis using that by (auto split: option.splits)
  qed
  have length: "length root_sample = 32" "length semantic_sample = 32" "length metadata_sample = 32"
    by (simp_all add: proposal_sample_def DigestProposal_def semantic_sample_def metadata_sample_def)
  have "insertArtifact json_sample (artifact_of prepared_command ?a) (store_after 3) = Inr ?st"
    using length by (simp add: insertArtifact_def artifact_checks_def artifact_of_def proposal_artifact_def prepared_rows(2)
        json_sample_def) (simp add: proposal_sample_def)
  moreover have "group_checks (prepared_group_after root_sample)"
    using group_checks_root [OF length(1), of "prepared_group_after root_digest"] prepared_rows(3)
    by (simp add: prepared_group_after_def)
  then have "pg_update group_checks (\<lambda>g. gt_TransferID g = 1 \<and> gt_ID g = 5 \<and> gt_PreparationStatus g = ''running'' \<and>
      gt_ResultRevision g = 0) (prepared_group_row 7000 prepared_command) [first_group] = Inr ([prepared_group_after root_sample], 1)"
    by (simp add: pg_update_def update_where_def affected_def first_group_fields sample_prepared_row)
  moreover obtain st' where "advanceTransferAfterPreparation 7000 1 (?st\<lparr>st_group_targets := [prepared_group_after root_sample]\<rparr>) = Inr st'"
    using prepared_rows(4) [where a = "artifact_of prepared_command ?a" and d = root_sample] by (auto split: sum.splits)
  ultimately show ?thesis
    using sample_valid [OF assms] t
    by (simp add: ApplyPreparationResult_def c prepared_rows(1) first_group_fields prepared_status_def finishPreparationItems_def)
qed

lemma sample_stored:
  assumes "semantic_sample \<noteq> zero_digest" and "metadata_sample \<noteq> zero_digest" and "root_sample \<noteq> zero_digest"
  shows "\<exists>st'. preparePendingGroup prepare_env_sample 1 pending_sample (store_after 3) = Inr st'"
proof -
  have "result_artifact lib_sample result_sample_group = Inr (Some (proposal_artifact proposal_sample ''s''))"
    using sample_integrity [OF assms]
    by (simp add: result_artifact_def result_sample_group_def outcome_def) (simp add: lib_sample_def)
  moreover have "oc_Code (re_Outcome result_sample_group) \<noteq> OutcomeTargetTemporarilyUnavailable"
    by (simp add: result_sample_group_def outcome_def OutcomePrepared_def OutcomeTargetTemporarilyUnavailable_def)
  moreover have "pe_lib prepare_env_sample = lib_sample" "pe_json prepare_env_sample = json_sample"
    "pnd_GroupTargetID pending_sample = 5" "pe_startedAt prepare_env_sample 5 = 4000" "pe_finishedAt prepare_env_sample 5 = 6000"
    "pe_now prepare_env_sample 5 = 7000"
    by (simp_all add: prepare_env_sample_def pending_sample_def)
  ultimately show ?thesis
    using sample_applied [OF assms(1,3)] sample_valid [OF assms(1,3)]
    by (simp add: preparePendingGroup_def sample_result flip: prepared_command_def)
qed

definition decoder_sample :: proposal_decoder where
  "decoder_sample = \<lparr>pd_request = (\<lambda>_. Some request_sample), pd_snapshot = (\<lambda>_. Some (catalog_sample (rev listed)))\<rparr>"

theorem prepared_proposal_roundtrip_witness:
  "semantic_sample = zero_digest \<or> metadata_sample = zero_digest \<or> root_sample = zero_digest \<or>
   (\<exists>st' s. preparePendingGroup prepare_env_sample 1 pending_sample (store_after 3) = Inr st' \<and>
      LoadProposals lib_sample decoder_sample [\<lparr>pq_TransferID = 1, pq_GroupTargetID = 5, pq_ProposalRoot = root_sample\<rparr>] st' =
        Inr [s] \<and>
      scp_Proposal s = proposal_sample \<and> map pp_VendorCode (scp_Members s) = [''V''])"
proof (cases "semantic_sample = zero_digest \<or> metadata_sample = zero_digest \<or> root_sample = zero_digest")
  case False
  then obtain st' where st': "preparePendingGroup prepare_env_sample 1 pending_sample (store_after 3) = Inr st'"
    using sample_stored by auto
  have f: "pe_lib prepare_env_sample = lib_sample" "pnd_GroupTargetID pending_sample = 5" "re_Proposal result_sample_group = Some proposal_sample"
    "pd_request decoder_sample (cpp_EncodedRequest proposal_sample) = Some (cpp_Request proposal_sample)"
    "pd_snapshot decoder_sample encoded = Some (cpp_MetadataSnapshot proposal_sample)" for encoded
    by (simp_all add: prepare_env_sample_def pending_sample_def result_sample_group_def decoder_sample_def proposal_sample_def)
  have "map uv_VendorCode (uq_Variants (hd (cpp_Request proposal_sample))) = [''V'']"
    by (simp add: proposal_sample_def request_sample_def)
  with prepared_proposal_roundtrip [OF st' sample_result f(3,4)] f(1,2,5) st' show ?thesis by auto
qed blast

text \<open>In rounds without progress the one pending group is in the page of one of the first four.\<close>

lemma pending_pages:
  "ListPendingPreparationGroups 1 (int preparationGroupBatchSize) (cursor_of (\<lambda>_. None) 1) (store_after 3) = Inr [pending_sample]"
  "pending_groups 1 (store_after 3) = [pending_sample]"
  by code_simp+

definition sample_page :: "nat \<Rightarrow> pending_group list" where
  "sample_page i =
     (case ListPendingPreparationGroups 1 (int preparationGroupBatchSize) (cursor_of (\<lambda>_. None) 1) (store_after 3) of
        Inl _ \<Rightarrow> [] | Inr page \<Rightarrow> page)"

theorem pending_group_gets_its_turn_witness:
  "\<exists>i \<le> 3. pending_sample \<in> set (sample_page i)"
proof -
  have page: "sample_page i = [pending_sample]" for i by (simp add: sample_page_def pending_pages)
  have "\<exists>i \<le> 2 * 1 + 1. pending_sample \<in> set (sample_page i)"
  proof (rule pending_group_gets_its_turn [where T = 1 and cursors = "\<lambda>_ _. None" and stores = "\<lambda>_. store_after 3"
        and K = "{pending_key pending_sample}"])
    show "0 < pnd_SourceGroupID pending_sample" by (simp add: pending_sample_def)
    show "(\<lambda>_. None) = next_cursor (sample_page i) 1 (\<lambda>_. None)" for i
      by (simp add: page next_cursor_def preparationGroupBatchSize_def)
    show "card {pending_key pending_sample} \<le> preparationGroupBatchSize * 1" by (simp add: preparationGroupBatchSize_def)
  qed (simp_all add: pending_pages page)
  then show ?thesis by simp
qed

end
