(* ===== verification/Spec2Isabelle.thy ===== *)
theory Spec2Isabelle
  imports WbClient TransferWorkflow PublicationSamples LiveAuthSamples ProductSamples CardImportSamples TelegramFlow TransferSamples
    CardPrepareSamples
begin

text \<open>
  Verification of the WB card transfer service (paths are relative to \<open>src/internal\<close>).

  The service is a Telegram bot that copies product cards into the cabinets of several sellers on the WB
  marketplace. A user uploads a workbook; its rows are read and merged into cards (card import); the finalized batch
  becomes a transfer, whose set of target cabinets and whose item list are frozen (transfer start and
  initialization); every card is mapped to the marketplace's schema for every target (preparation); a plan says which
  groups of cards to create, to extend or to leave alone in every cabinet (publication planning); an administrator
  authorizes the plan (live authorization); the dispatcher sends the plan's actions to the Content API, at most once
  each unless the absence of an effect has been shown, and settles the actions whose fate is open (product
  execution); the results are projected onto the transfer. Every call to the marketplace runs under a closed
  catalogue of operations, a rate limiter per cabinet and bucket, and a retry policy (WB client).

  \<^bold>\<open>Theories.\<close>

  \<^item> \<open>Prelude\<close>: Go values and errors, the \<open>switch\<close> and loop combinators the other theories translate control flow
    with, the collections \<open>go_simps\<close> and the list lemmas shared by the components.
  \<^item> \<open>Sha256\<close>, \<open>Canonical\<close>: \<open>crypto/sha256\<close> computed, and \<open>core/canonicalhash\<close>. The locale \<open>framed\<close> is the
    contract of a self-delimiting field encoding; it is interpreted on the encodings of the builder, of batch items
    (\<open>CardPipeline\<close>) and of target snapshots (\<open>TransferModel\<close>), and turns equality of byte streams into equality of
    fields. The properties on keys and digests follow from it, up to a hypothesis \<open>no_collision\<close> about the two
    messages concerned.
  \<^item> \<open>Domain\<close>, \<open>CardPipeline\<close>: \<open>core/domain\<close> and \<open>core/domain/cardpipeline\<close>.
  \<^item> \<open>WbPolicy\<close>, \<open>FlowControl\<close>, \<open>Limiter\<close>, \<open>WbClient\<close>: \<open>core/transport/wb/policy\<close>, \<open>api/content/v1\<close>, \<open>flowcontrol\<close>,
    \<open>client\<close> and \<open>response\<close>. \<open>Limiter\<close> has the operations under the mutex as state functions and \<open>Wait\<close> as a step
    relation of goroutines; \<open>WbClient\<close> has the attempt loop of \<open>Execute\<close> over an environment of attempts.
  \<^item> \<open>TransferModel\<close>, \<open>TransferWorkflow\<close>: \<open>feature/transfer/service/model\<close>, \<open>registry\<close> and \<open>workflow\<close>.
  \<^item> \<open>PublicationPlan\<close>, \<open>PublicationProps\<close>, \<open>PublicationSamples\<close>: \<open>feature/cardpublication/service/planning\<close> and the
    data of \<open>service/model\<close>; what the planner guarantees; concrete runs.
  \<^item> \<open>CardPrepare\<close>: the planner of \<open>feature/cardprepare/service/preparation\<close> with its upload validation; a group of
    cards and a snapshot of the catalogue give an upload request or the outcome that stands against it. \<open>CardPrepareFlow\<close>:
    the reading of the catalogue, the digests of a request, the processing of a transfer and of one group
    (\<open>service/workflow\<close>), the reader of stored proposals (\<open>repository/postgres/proposal.go\<close>) and the query that picks the
    next group (\<open>preparation_source.go\<close> of the transfer's repository). \<open>CardPrepareProps\<close>: the locale \<open>slice_order\<close> is what
    \<open>sort.Slice\<close> needs of a comparison to have one result, interpreted on the comparisons of the code; what a request is
    and that the order of the snapshot does not matter. \<open>CardPrepareStored\<close>: a proposal that was stored is read back.
    \<open>CardPrepareTurns\<close>: no group is passed over for ever. \<open>CardPrepareSamples\<close>: concrete runs.
  \<^item> \<open>LiveAuth\<close>, \<open>LiveAuthProps\<close>, \<open>LiveAuthSamples\<close>: \<open>feature/transfer/service/authorization\<close> with its repository; an
    abstract machine of authorization states and the simulation of the code by it; a concrete run.
  \<^item> \<open>CardImport\<close>, \<open>CardImportProps\<close>, \<open>CardImportSamples\<close>: \<open>feature/cardimport\<close> (model, reader, aggregation).
  \<^item> \<open>ProductAction\<close>, \<open>ProductActionProps\<close>: validation, recheck, call, classification and settlement of product actions
    (\<open>feature/cardpublication/service/execution\<close>). \<open>ProductJournal\<close>: the statements of
    \<open>feature/cardpublication/repository/postgres/product_*.go\<close>. \<open>ProductDispatch\<close>: the transactions of the dispatcher
    and their composition. \<open>ProductSystem\<close>, \<open>ProductSystemProps\<close>: the interleaving of any number of dispatchers with
    crashes and the rest of the system (\<open>dispatcher_step\<close>, \<open>product_reachable\<close>), its invariant \<open>sends_inv\<close> and the
    properties that follow. \<open>ProductSamples\<close>: one action from its plan to its retry.
  \<^item> \<open>TransferStore\<close>: the tables of a transfer and the statements of \<open>feature/transfer/repository/postgres\<close> on them, with
    the commands of \<open>service/preparation\<close> and \<open>service/publication\<close>. \<open>TransferStoreProps\<close>: the invariant \<open>store_inv\<close> of the
    tables and its preservation by every operation (\<open>perform\<close>, \<open>run_ops\<close>). \<open>TransferProjections\<close>: what initialization, the
    results of preparation and the results of product actions do to the rows. \<open>ResultProjection\<close>: the contract
    \<open>result_projection\<close> between dispatcher and tables (a result changes the groups it names and no others), interpreted
    on \<open>store_ops\<close>, and what stopping a plan leaves behind. \<open>InitializationFlow\<close>: \<open>Initialize\<close> of
    the service over these tables, from the stored batch to the frozen items. \<open>TransferSamples\<close>: a transfer from its creation to its end, and
    a plan that is stopped.
  \<^item> \<open>TelegramArgs\<close>, \<open>TelegramFlow\<close>: \<open>core/transport/telegram\<close>.

  \<^bold>\<open>Conventions.\<close> A Go \<open>(T, error)\<close> is a \<open>'t result\<close>, an error keeps the sentinel \<open>errors.Is\<close> can find and its fixed
  text. A \<open>switch\<close> of validation branches is \<open>first_err\<close>. Times are nanoseconds from Go's zero time; \<open>int64\<close> values
  are integers whose range is written out where the arithmetic can leave it (\<open>CapacityPolicy_Check\<close>,
  \<open>backoff_delay\<close>, the header parser). A table is the list of its rows; a statement is a function on the tables that
  fails where the migration's constraints refuse the row; a transaction commits its state or leaves the old one, and
  row locks make it atomic.

  \<^bold>\<open>Termination.\<close> All loops are total functions with a measure, but for \<open>readAllBatchItems\<close>, which reads pages until
  the repository says there are none: it is a \<open>partial_function\<close>, and \<open>readAllBatchItems_complete\<close> shows that it returns
  for every reader that keeps its contract. \<open>Execute\<close> is bounded by the attempt limit of its operation. The
  catalogue is read in at most \<open>maxCatalogPages\<close> pages, the bound of the code. Nothing uses fuel.

  \<^bold>\<open>Parameters.\<close> \<open>encoding/json\<close> (\<open>codec\<close>, \<open>exec_codec\<close>), the case mapping and number parsing of the preparation (\<open>prepare_lib\<close>), \<open>encoding/json\<close> on a
  stored proposal (\<open>proposal_decoder\<close>), the answers of the catalogue (\<open>catalog_transport\<close>), \<open>golang.org/x/time/rate\<close> (\<open>rate_ops\<close> under
  \<open>token_bucket_law\<close>), \<open>excelize\<close> and the Unicode and IEEE parts of the standard library (\<open>CardImport\<close>), \<open>http.ParseTime\<close>,
  the answers of the Content API, the clock, the tables of other components (\<open>publication_view\<close>; \<open>result_ops\<close>, for
  which \<open>store_ops\<close> is the code's own instance), \<open>encoding/json\<close> and \<open>jsonb\<close> in the tables (\<open>json_ops\<close>), the order in which Go iterates a map where it can be observed (\<open>iter\<close>).

  \<^bold>\<open>Not modelled.\<close> The upload of media, the manual resolution of actions, the repository of the import, the loops that pick
  candidates (their interleavings are the step relation), the cache of the catalogue during one batch of preparations
  (\<open>catalog_cache.go\<close>), the diagnostics of an outcome that only the log reads, the pagination of the cards of a cabinet,
  statistics, the administration of users
  and cabinets, the rendering of screens over the bot library, logging, wiring.
\<close>

end
